(* ===== verification/Prelude.thy ===== *)
theory Prelude
  imports Main "HOL-Library.Sublist" "HOL-Library.Word"
begin

section \<open>Prelude: shared collections, types and lemmas\<close>

text \<open>
  What the component theories share: the collections of facts that their proofs pass to the
  simplifier, the shape of a Go call that may fail, and the generic lemmas on lists, maps,
  strings with separators, and 64-bit words.

  A Go function returning \<open>(T, error)\<close> that works on a state is an \<open>('a, 's) op\<close>: from a state
  it gives an error or a value, and the next state. A function returning only \<open>error\<close> is a
  \<open>'s eop\<close>, where \<open>None\<close> is the nil error.
\<close>

named_theorems store_defs \<open>definitions of the storage back ends\<close>
named_theorems rest_defs \<open>definitions of the REST handlers\<close>
named_theorems metric_simps \<open>how the operations leave the state besides the metrics\<close>

subsection \<open>Lists and folds\<close>

text \<open>Walking a list with a function that may fail, stopping at the first failure.\<close>

fun map_result :: "('a \<Rightarrow> 'e + 'b) \<Rightarrow> 'a list \<Rightarrow> 'e + 'b list" where
  "map_result f [] = Inr []"
| "map_result f (x # xs) =
     (case f x of
        Inl e \<Rightarrow> Inl e
      | Inr y \<Rightarrow> (case map_result f xs of Inl e \<Rightarrow> Inl e | Inr ys \<Rightarrow> Inr (y # ys)))"

lemma map_result_all_Inr:
  assumes "\<And>x. x \<in> set xs \<Longrightarrow> f x = Inr (g x)"
  shows "map_result f xs = Inr (map g xs)"
  using assms by (induction xs) auto

lemma map_result_map: "map_result f (map g xs) = map_result (\<lambda>x. f (g x)) xs"
  by (induction xs) (simp_all split: sum.split)

lemma map_result_InrD:
  assumes "map_result f xs = Inr ys"
  shows "list_all2 (\<lambda>x y. f x = Inr y) xs ys"
  using assms by (induction xs arbitrary: ys) (auto split: sum.splits)

lemma ex_map_pred:
  assumes "\<And>y. y \<in> set ys \<Longrightarrow> \<exists>x. P x \<and> y = f x"
  shows "\<exists>xs. ys = map f xs \<and> (\<forall>x \<in> set xs. P x)"
  using assms
proof (induction ys)
  case (Cons y ys)
  then obtain xs x where "ys = map f xs" "\<forall>x \<in> set xs. P x" "P x" "y = f x"
    by (metis list.set_intros)
  then have "y # ys = map f (x # xs) \<and> (\<forall>x \<in> set (x # xs). P x)" by simp
  then show ?case by (rule exI)
qed simp

subsection \<open>Strings with a separator\<close>

text \<open>A string that the separator does not occur in ends where the separator starts.\<close>

lemma append_sep_inj:
  assumes "c \<notin> set xs" and "c \<notin> set ys" and "xs @ c # us = ys @ c # vs"
  shows "xs = ys \<and> us = vs"
  using assms
proof (induction xs arbitrary: ys)
  case Nil
  then show ?case by (cases ys) auto
next
  case (Cons x xs)
  then show ?case by (cases ys) auto
qed

lemma append_sep_neq:
  assumes "c \<notin> set xs"
  shows "xs \<noteq> ys @ c # zs"
  using assms by auto

lemma prefix_sep_iff:
  assumes "c \<notin> set xs" and "c \<notin> set ys"
  shows "prefix (xs @ [c]) (ys @ c # zs) \<longleftrightarrow> xs = ys"
proof
  assume "prefix (xs @ [c]) (ys @ c # zs)"
  then obtain us where "xs @ c # us = ys @ c # zs"
    by (auto simp: prefix_def)
  then show "xs = ys" using append_sep_inj [OF assms] by blast
qed simp

lemma prefix_sep_not:
  assumes "c \<notin> set ys"
  shows "\<not> prefix (xs @ [c]) ys"
proof
  assume "prefix (xs @ [c]) ys"
  then have "c \<in> set ys" by (auto simp: prefix_def)
  with assms show False by simp
qed

subsection \<open>Maps\<close>

lemma ran_map_list:
  assumes "set ks = A \<inter> dom m"
  shows "set (map (\<lambda>k. the (m k)) ks) = {v. \<exists>k \<in> A. m k = Some v}"
  using assms by (force simp: dom_def image_iff)

lemma map_restrict_None [simp]: "m |` {} = Map.empty"
  by (simp add: restrict_map_def)

subsection \<open>Words\<close>

type_synonym u64 = "64 word"

lemma unat_suc_u64:
  fixes v :: u64
  assumes "v \<noteq> -1"
  shows "unat (v + 1) = Suc (unat v)"
  using assms by (metis add.commute unatSuc add_eq_0_iff)

lemma unat_plus_small:
  fixes v :: u64
  assumes "unat v + n < 2 ^ 64"
  shows "unat (v + of_nat n) = unat v + n"
proof -
  have "n < 2 ^ 64" using assms by simp
  then have "unat (of_nat n :: u64) = n" by (simp add: unat_of_nat)
  then show ?thesis using assms by (simp add: unat_word_ariths)
qed

end
