(* ===== verification/GoStd.thy ===== *)
theory GoStd
  imports Prelude
begin

section \<open>The parts of Go's standard library the server uses\<close>

text \<open>
  Executable models of the library functions that the sources call and whose result matters:
  \<^item> \<open>strconv\<close>: decimal formatting of 64-bit unsigned numbers, \<open>ParseUint(s, 10, 64)\<close> with its
    syntax and range errors in the order the library checks them, and \<open>Atoi\<close>;
  \<^item> \<open>strings\<close>: \<open>Split\<close> on a one-character separator, \<open>Join\<close> and \<open>HasPrefix\<close>;
  \<^item> \<open>net/url\<close>: \<open>QueryEscape\<close>, and the unescaping that \<open>url.Parse\<close> applies to the user
    information of an authority.
  A Go string is a sequence of bytes, which is what \<open>string\<close> (a list of 8-bit characters) is.
\<close>

subsection \<open>strconv\<close>

datatype num_error = ErrSyntax | ErrRange

definition digit_char :: "nat \<Rightarrow> char" where
  "digit_char d = char_of (48 + d)"

definition is_digit :: "char \<Rightarrow> bool" where
  "is_digit c \<longleftrightarrow> 48 \<le> (of_char c :: nat) \<and> (of_char c :: nat) \<le> 57"

definition digit_val :: "char \<Rightarrow> nat" where
  "digit_val c = of_char c - 48"

fun decimal :: "nat \<Rightarrow> string" where
  "decimal n = (if n < 10 then [digit_char n] else decimal (n div 10) @ [digit_char (n mod 10)])"

declare decimal.simps [simp del]

definition FormatUint :: "u64 \<Rightarrow> string" where
  "FormatUint v = decimal (unat v)"

text \<open>
  The loop of \<open>strconv.ParseUint\<close> for base 10 and 64 bits: \<open>n\<close> is the number read so far, the
  cut-off is \<open>maxUint64/10 + 1\<close>. An error ends the loop at once, so a syntax error behind an
  overflowing prefix is reported as a range error.
\<close>

definition max_u64 :: nat where
  "max_u64 = 18446744073709551615"

definition parse_cutoff :: nat where
  "parse_cutoff = max_u64 div 10 + 1"

fun parse_loop :: "string \<Rightarrow> nat \<Rightarrow> num_error + nat" where
  "parse_loop [] n = Inr n"
| "parse_loop (c # cs) n =
     (if \<not> is_digit c then Inl ErrSyntax
      else if n \<ge> parse_cutoff then Inl ErrRange
      else let n1 = n * 10 + digit_val c
           in if n1 > max_u64 then Inl ErrRange else parse_loop cs n1)"

definition ParseUint :: "string \<Rightarrow> num_error + u64" where
  "ParseUint s =
     (if s = [] then Inl ErrSyntax
      else case parse_loop s 0 of Inl e \<Rightarrow> Inl e | Inr n \<Rightarrow> Inr (of_nat n))"

text \<open>\<open>strconv.Atoi\<close>: an optional sign, then digits; the result is a 64-bit \<open>int\<close>.\<close>

definition Atoi :: "string \<Rightarrow> num_error + int" where
  "Atoi s =
     (let neg = (case s of c # _ \<Rightarrow> c = CHR ''-'' | [] \<Rightarrow> False);
          signed = (case s of c # _ \<Rightarrow> c = CHR ''-'' \<or> c = CHR ''+'' | [] \<Rightarrow> False);
          ds = (if signed then tl s else s)
      in if ds = [] then Inl ErrSyntax
         else case parse_loop ds 0 of
                Inl e \<Rightarrow> Inl e
              | Inr n \<Rightarrow>
                  (if \<not> neg \<and> n \<ge> 2 ^ 63 then Inl ErrRange
                   else if neg \<and> n > 2 ^ 63 then Inl ErrRange
                   else Inr (if neg then - int n else int n)))"

subsection \<open>strings\<close>

fun split_on :: "char \<Rightarrow> string \<Rightarrow> string list" where
  "split_on sep [] = [[]]"
| "split_on sep (c # cs) =
     (if c = sep then [] # split_on sep cs
      else case split_on sep cs of
             [] \<Rightarrow> [[c]]
           | w # ws \<Rightarrow> (c # w) # ws)"

fun join_with :: "char \<Rightarrow> string list \<Rightarrow> string" where
  "join_with sep [] = []"
| "join_with sep [w] = w"
| "join_with sep (w # ws) = w @ sep # join_with sep ws"

definition HasPrefix :: "string \<Rightarrow> string \<Rightarrow> bool" where
  "HasPrefix s p \<longleftrightarrow> prefix p s"

subsection \<open>net/url\<close>

definition is_unreserved :: "char \<Rightarrow> bool" where
  "is_unreserved c \<longleftrightarrow>
     (let n = (of_char c :: nat)
      in (97 \<le> n \<and> n \<le> 122) \<or> (65 \<le> n \<and> n \<le> 90) \<or> (48 \<le> n \<and> n \<le> 57)
         \<or> c = CHR ''-'' \<or> c = CHR ''_'' \<or> c = CHR ''.'' \<or> c = CHR ''~'')"

definition hex_digit :: "nat \<Rightarrow> char" where
  "hex_digit d = (if d < 10 then char_of (48 + d) else char_of (55 + d))"

definition unhex :: "char \<Rightarrow> nat option" where
  "unhex c =
     (let n = (of_char c :: nat)
      in if 48 \<le> n \<and> n \<le> 57 then Some (n - 48)
         else if 97 \<le> n \<and> n \<le> 102 then Some (n - 87)
         else if 65 \<le> n \<and> n \<le> 70 then Some (n - 55)
         else None)"

definition escape_char :: "char \<Rightarrow> string" where
  "escape_char c =
     (if is_unreserved c then [c]
      else if c = CHR '' '' then ''+''
      else [CHR ''%'', hex_digit (of_char c div 16), hex_digit (of_char c mod 16)])"

definition QueryEscape :: "string \<Rightarrow> string" where
  "QueryEscape s = concat (map escape_char s)"

text \<open>
  The unescaping of user names and passwords by \<open>url.Parse\<close> (mode \<open>encodeUserPassword\<close>):
  a percent sign must be followed by two hexadecimal digits; a plus sign is left as it is.
\<close>

fun unescape_userinfo :: "string \<Rightarrow> string option" where
  "unescape_userinfo [] = Some []"
| "unescape_userinfo (c # cs) =
     (if c = CHR ''%''
      then (case cs of
              a # b # rest \<Rightarrow>
                (case (unhex a, unhex b) of
                   (Some x, Some y) \<Rightarrow>
                     map_option (\<lambda>t. char_of (x * 16 + y) # t) (unescape_userinfo rest)
                 | _ \<Rightarrow> None)
            | _ \<Rightarrow> None)
      else map_option (\<lambda>t. c # t) (unescape_userinfo cs))"

subsection \<open>Facts about strconv\<close>

lemma of_char_digit_char [simp]: "d < 10 \<Longrightarrow> (of_char (digit_char d) :: nat) = 48 + d"
  by (simp add: digit_char_def)

lemma is_digit_digit_char [simp]: "d < 10 \<Longrightarrow> is_digit (digit_char d)"
  by (simp add: is_digit_def)

lemma digit_val_digit_char [simp]: "d < 10 \<Longrightarrow> digit_val (digit_char d) = d"
  by (simp add: digit_val_def)

lemma decimal_nonempty [simp]: "decimal n \<noteq> []"
  by (subst decimal.simps) simp

lemma decimal_digits: "\<forall>c \<in> set (decimal n). is_digit c"
proof (induction n rule: decimal.induct)
  case (1 n)
  then show ?case by (cases "n < 10") (auto simp: decimal.simps [of n])
qed

lemma parse_loop_append:
  "parse_loop (xs @ ys) n =
     (case parse_loop xs n of Inl e \<Rightarrow> Inl e | Inr m \<Rightarrow> parse_loop ys m)"
  by (induction xs arbitrary: n) (auto simp: Let_def)

lemma parse_loop_bound: "parse_loop xs n = Inr m \<Longrightarrow> n \<le> max_u64 \<Longrightarrow> m \<le> max_u64"
  by (induction xs arbitrary: n) (auto simp: Let_def split: if_splits)

lemma parse_loop_decimal: "n \<le> max_u64 \<Longrightarrow> parse_loop (decimal n) 0 = Inr n"
proof (induction n rule: decimal.induct)
  case (1 n)
  show ?case
  proof (cases "n < 10")
    case True
    then show ?thesis
      by (simp add: decimal.simps [of n] parse_cutoff_def max_u64_def Let_def)
  next
    case False
    with 1 have IH: "parse_loop (decimal (n div 10)) 0 = Inr (n div 10)"
      by (simp add: max_u64_def)
    have "n div 10 < parse_cutoff" and "n div 10 * 10 + n mod 10 = n"
      using "1.prems" by (simp_all add: parse_cutoff_def max_u64_def)
    with False IH "1.prems" show ?thesis
      by (simp add: decimal.simps [of n] parse_loop_append Let_def)
  qed
qed

lemma unat_le_max_u64: "unat (v :: u64) \<le> max_u64"
  using unsigned_less [of v, where 'a = nat] by (simp add: max_u64_def)

lemma ParseUint_FormatUint: "ParseUint (FormatUint v) = Inr v"
  by (simp add: ParseUint_def FormatUint_def parse_loop_decimal unat_le_max_u64)

lemma FormatUint_inject [simp]: "FormatUint v = FormatUint w \<longleftrightarrow> v = w"
  by (metis ParseUint_FormatUint sum.inject(2))

lemma FormatUint_nonempty [simp]: "FormatUint v \<noteq> []"
  by (simp add: FormatUint_def)

text \<open>Evaluating the number functions on literals.\<close>

lemma digit_chars:
  "digit_char 0 = CHR ''0''" "digit_char (Suc 0) = CHR ''1''" "digit_char 1 = CHR ''1''"
  "digit_char 2 = CHR ''2''" "digit_char 3 = CHR ''3''" "digit_char 4 = CHR ''4''"
  "digit_char 5 = CHR ''5''" "digit_char 6 = CHR ''6''" "digit_char 7 = CHR ''7''"
  "digit_char 8 = CHR ''8''" "digit_char 9 = CHR ''9''"
  by code_simp+

lemmas num_eval = FormatUint_def ParseUint_def decimal.simps digit_chars is_digit_def
  digit_val_def max_u64_def parse_cutoff_def Let_def

subsection \<open>Facts about strings\<close>

lemma split_on_nonempty [simp]: "split_on sep s \<noteq> []"
  by (induction s) (auto split: list.splits)

lemma split_on_free: "\<forall>w \<in> set (split_on sep s). sep \<notin> set w"
  by (induction s) (auto split: list.splits)

lemma join_with_Cons: "ws \<noteq> [] \<Longrightarrow> join_with sep (w # ws) = w @ sep # join_with sep ws"
  by (cases ws) auto

lemma join_split: "join_with sep (split_on sep s) = s"
proof (induction s)
  case (Cons c cs)
  obtain w ws where w: "split_on sep cs = w # ws"
    by (metis split_on_nonempty neq_Nil_conv)
  with Cons.IH show ?case by (cases ws) (auto simp: join_with_Cons)
qed simp

lemma split_on_sep_free: "sep \<notin> set s \<Longrightarrow> split_on sep s = [s]"
  by (induction s) auto

lemma split_on_append_sep: "sep \<notin> set w \<Longrightarrow> split_on sep (w @ sep # s) = w # split_on sep s"
  by (induction w) auto

lemma split_join:
  assumes "ws \<noteq> []" and "\<And>w. w \<in> set ws \<Longrightarrow> sep \<notin> set w"
  shows "split_on sep (join_with sep ws) = ws"
  using assms
proof (induction ws rule: join_with.induct)
  case (3 sep w v ws)
  then show ?case by (simp add: split_on_append_sep)
qed (auto simp: split_on_sep_free)

subsection \<open>Facts about net/url\<close>

lemma of_char_div_16: "(of_char c :: nat) div 16 < 16"
  using nat_of_char_less_256 [of c] by (simp only: less_mult_imp_div_less)

lemma unhex_hex_digit: "d < 16 \<Longrightarrow> unhex (hex_digit d) = Some d"
  by (auto simp: unhex_def hex_digit_def Let_def)

lemma unreserved_not_percent: "is_unreserved c \<Longrightarrow> c \<noteq> CHR ''%''"
  by (auto simp: is_unreserved_def Let_def)

lemma unescape_escape_char:
  "unescape_userinfo (escape_char c @ t) =
     map_option (\<lambda>u. (if c = CHR '' '' then CHR ''+'' else c) # u) (unescape_userinfo t)"
proof -
  have "unhex (hex_digit (of_char c div 16)) = Some (of_char c div 16)"
    and "unhex (hex_digit (of_char c mod 16)) = Some (of_char c mod 16)"
    by (simp_all add: unhex_hex_digit of_char_div_16)
  moreover have "char_of (of_char c div 16 * 16 + of_char c mod 16 :: nat) = c"
    by simp
  moreover have "\<not> is_unreserved CHR '' ''"
    by (simp add: is_unreserved_def)
  moreover have "is_unreserved c \<Longrightarrow> c \<noteq> CHR ''%''"
    by (rule unreserved_not_percent)
  ultimately show ?thesis
    by (cases "is_unreserved c"; cases "c = CHR '' ''") (simp_all add: escape_char_def)
qed

lemma unescape_QueryEscape:
  "unescape_userinfo (QueryEscape s) =
     Some (map (\<lambda>c. if c = CHR '' '' then CHR ''+'' else c) s)"
  by (induction s) (simp_all add: QueryEscape_def unescape_escape_char)

lemma hex_digit_unreserved: "d < 16 \<Longrightarrow> is_unreserved (hex_digit d)"
  by (auto simp: is_unreserved_def hex_digit_def Let_def)

lemma QueryEscape_chars:
  "c \<in> set (QueryEscape s) \<Longrightarrow> is_unreserved c \<or> c = CHR ''%'' \<or> c = CHR ''+''"
proof (induction s)
  case (Cons d s)
  have "is_unreserved (hex_digit (of_char d div 16))"
    and "is_unreserved (hex_digit (of_char d mod 16))"
    by (simp_all add: hex_digit_unreserved of_char_div_16)
  with Cons show ?case
    by (auto simp: QueryEscape_def escape_char_def split: if_splits)
qed (simp add: QueryEscape_def)

end
