(* ===== verification/Types.thy ===== *)
theory Types
  imports GoStd
begin

section \<open>Reports, errors, resource identities\<close>

text \<open>
  The data the server handles. The report types live in other modules; their fields are those
  of the OpenAPI definitions the repository generates for them
  (\<^verbatim>\<open>pkg/api/generated/openapi/zz_generated.openapi.go\<close>). Embedding \<open>metav1.ObjectMeta\<close> is
  record extension, so a function over any \<open>T metav1.Object\<close> is a function over
  \<open>'a ObjectMeta_scheme\<close>. The kind and version that every object and list carries are left out
  of lists; \<open>FieldsV1\<close>, which the schema leaves open, is a string.

  A cluster-scoped report has the fields of its namespaced counterpart; the Go types are told
  apart where it matters, in \<open>Object\<close>, the model of \<open>runtime.Object\<close>.
\<close>

subsection \<open>Object metadata\<close>

type_synonym gomap = "(string \<rightharpoonup> string) option"
  \<comment> \<open>a \<open>map[string]string\<close>; \<open>None\<close> is the nil map\<close>

record OwnerReference =
  owner_APIVersion :: string
  owner_Kind :: string
  owner_Name :: string
  owner_UID :: string
  owner_Controller :: "bool option"
  owner_BlockOwnerDeletion :: "bool option"

record ManagedFieldsEntry =
  mf_Manager :: string
  mf_Operation :: string
  mf_APIVersion :: string
  mf_Time :: "int option"
  mf_FieldsType :: string
  mf_FieldsV1 :: "string option"
  mf_Subresource :: string

record ObjectMeta =
  Name :: string
  GenerateName :: string
  Namespace :: string
  SelfLink :: string
  UID :: string
  ResourceVersion :: string
  Generation :: u64 \<comment> \<open>an \<open>int64\<close> in two's complement\<close>
  CreationTimestamp :: int
  DeletionTimestamp :: "int option"
  DeletionGracePeriodSeconds :: "int option"
  Labels :: gomap
  Annotations :: gomap
  OwnerReferences :: "OwnerReference list"
  Finalizers :: "string list"
  ManagedFields :: "ManagedFieldsEntry list"

subsection \<open>Reports\<close>

record ObjectReference =
  ref_Kind :: string
  ref_Namespace :: string
  ref_Name :: string
  ref_UID :: string
  ref_APIVersion :: string
  ref_ResourceVersion :: string
  ref_FieldPath :: string

record LabelSelectorRequirement =
  req_Key :: string
  req_Operator :: string
  req_Values :: "string list"

record MetaLabelSelector =
  MatchLabels :: gomap
  MatchExpressions :: "LabelSelectorRequirement list"

record Timestamp =
  Seconds :: "64 word" \<comment> \<open>an \<open>int64\<close>\<close>
  Nanos :: "32 word" \<comment> \<open>an \<open>int32\<close>\<close>

record PolicyReportResult =
  res_Source :: string
  res_Policy :: string
  res_Rule :: string
  res_Category :: string
  res_Severity :: string
  res_Timestamp :: Timestamp
  res_Result :: string
  res_Scored :: bool
  res_Subjects :: "ObjectReference list"
  res_SubjectSelector :: "MetaLabelSelector option"
  res_Description :: string
  res_Properties :: gomap

record PolicyReportSummary =
  Pass :: int
  Fail :: int
  Warn :: int
  Error :: int
  Skip :: int

record PolicyReport = ObjectMeta +
  polr_Kind :: string
  polr_APIVersion :: string
  Scope :: "ObjectReference option"
  ScopeSelector :: "MetaLabelSelector option"
  Summary :: PolicyReportSummary
  Results :: "PolicyReportResult list"

type_synonym ClusterPolicyReport = PolicyReport

record EphemeralReportSpec =
  spec_Owner :: OwnerReference
  spec_Summary :: PolicyReportSummary
  spec_Results :: "PolicyReportResult list"

record EphemeralReport = ObjectMeta +
  ephr_Kind :: string
  ephr_APIVersion :: string
  Spec :: EphemeralReportSpec

type_synonym ClusterEphemeralReport = EphemeralReport

record 'r ReportList =
  list_SelfLink :: string
  list_ResourceVersion :: string
  list_Continue :: string
  list_RemainingItemCount :: "int option"
  Items :: "'r list"

text \<open>Go's zero values, which the \<open>New\<close> and \<open>NewList\<close> methods return.\<close>

definition zero_OwnerReference :: OwnerReference where
  "zero_OwnerReference =
     \<lparr>owner_APIVersion = [], owner_Kind = [], owner_Name = [], owner_UID = [],
      owner_Controller = None, owner_BlockOwnerDeletion = None\<rparr>"

definition zero_Summary :: PolicyReportSummary where
  "zero_Summary = \<lparr>Pass = 0, Fail = 0, Warn = 0, Error = 0, Skip = 0\<rparr>"

definition zero_PolicyReport :: PolicyReport where
  "zero_PolicyReport =
     \<lparr>Name = [], GenerateName = [], Namespace = [], SelfLink = [], UID = [], ResourceVersion = [],
      Generation = 0, CreationTimestamp = 0, DeletionTimestamp = None,
      DeletionGracePeriodSeconds = None, Labels = None, Annotations = None, OwnerReferences = [],
      Finalizers = [], ManagedFields = [], polr_Kind = [], polr_APIVersion = [], Scope = None,
      ScopeSelector = None, Summary = zero_Summary, Results = []\<rparr>"

definition zero_EphemeralReport :: EphemeralReport where
  "zero_EphemeralReport =
     \<lparr>Name = [], GenerateName = [], Namespace = [], SelfLink = [], UID = [], ResourceVersion = [],
      Generation = 0, CreationTimestamp = 0, DeletionTimestamp = None,
      DeletionGracePeriodSeconds = None, Labels = None, Annotations = None, OwnerReferences = [],
      Finalizers = [], ManagedFields = [], ephr_Kind = [], ephr_APIVersion = [],
      Spec = \<lparr>spec_Owner = zero_OwnerReference, spec_Summary = zero_Summary, spec_Results = []\<rparr>\<rparr>"

definition zero_List :: "'r ReportList" where
  "zero_List = \<lparr>list_SelfLink = [], list_ResourceVersion = [], list_Continue = [], list_RemainingItemCount = None,
      Items = []\<rparr>"

text \<open>
  \<open>runtime.Object\<close>: what a handler is given and what it returns. A type assertion
  \<open>obj.(*T)\<close> is a case distinction; \<open>NilObject\<close> is the nil interface.
\<close>

datatype Object =
    PolicyReportObj PolicyReport
  | ClusterPolicyReportObj ClusterPolicyReport
  | EphemeralReportObj EphemeralReport
  | ClusterEphemeralReportObj ClusterEphemeralReport
  | PolicyReportListObj "PolicyReport ReportList"
  | ClusterPolicyReportListObj "ClusterPolicyReport ReportList"
  | EphemeralReportListObj "EphemeralReport ReportList"
  | ClusterEphemeralReportListObj "ClusterEphemeralReport ReportList"
  | NilObject
  | OtherObject string

subsection \<open>Group, version, kind and resource\<close>

record GroupResource =
  gr_Group :: string
  gr_Resource :: string

record GroupVersionKind =
  gvk_Group :: string
  gvk_Version :: string
  gvk_Kind :: string

text \<open>
  The group versions of the two API groups (\<open>SchemeGroupVersion\<close> of the report packages; the
  first group is spelled out in \<^verbatim>\<open>pkg/api/install.go\<close>, both in \<^verbatim>\<open>config/install.yaml\<close>).
\<close>

definition wgpolicy_Resource :: "string \<Rightarrow> GroupResource" where
  "wgpolicy_Resource r = \<lparr>gr_Group = ''wgpolicyk8s.io'', gr_Resource = r\<rparr>"

definition reportsv1_Resource :: "string \<Rightarrow> GroupResource" where
  "reportsv1_Resource r = \<lparr>gr_Group = ''reports.kyverno.io'', gr_Resource = r\<rparr>"

definition wgpolicy_WithKind :: "string \<Rightarrow> GroupVersionKind" where
  "wgpolicy_WithKind k =
     \<lparr>gvk_Group = ''wgpolicyk8s.io'', gvk_Version = ''v1alpha2'', gvk_Kind = k\<rparr>"

definition reportsv1_WithKind :: "string \<Rightarrow> GroupVersionKind" where
  "reportsv1_WithKind k =
     \<lparr>gvk_Group = ''reports.kyverno.io'', gvk_Version = ''v1'', gvk_Kind = k\<rparr>"

text \<open>
  The constants of \<^verbatim>\<open>pkg/utils/constants.go\<close>, as they are written there: the two constants of
  cluster policy reports carry the resource and the kind of cluster ephemeral reports.
\<close>

definition EphemeralReportsGR :: GroupResource where
  "EphemeralReportsGR = reportsv1_Resource ''ephemeralreports''"

definition ClusterEphemeralReportsGR :: GroupResource where
  "ClusterEphemeralReportsGR = reportsv1_Resource ''clusterephemeralreports''"

definition PolicyReportsGR :: GroupResource where
  "PolicyReportsGR = wgpolicy_Resource ''policyreports''"

definition ClusterPolicyReportsGR :: GroupResource where
  "ClusterPolicyReportsGR = wgpolicy_Resource ''clusterephemeralreports''"

definition EphemeralReportsGVK :: GroupVersionKind where
  "EphemeralReportsGVK = reportsv1_WithKind ''EphemeralReport''"

definition ClusterEphemeralReportsGVK :: GroupVersionKind where
  "ClusterEphemeralReportsGVK = reportsv1_WithKind ''ClusterEphemeralReport''"

definition PolicyReportsGVK :: GroupVersionKind where
  "PolicyReportsGVK = wgpolicy_WithKind ''PolicyReport''"

definition ClusterPolicyReportsGVK :: GroupVersionKind where
  "ClusterPolicyReportsGVK = wgpolicy_WithKind ''ClusterEphemeralReport''"

subsection \<open>Errors\<close>

text \<open>
  Error values. The first four are the API status errors of \<open>k8s.io/apimachinery\<close>, kept as
  what their constructors are given. \<open>Errorf\<close> is an error made by \<open>fmt.Errorf\<close> or \<open>errors.New\<close>:
  the cause is formatted with \<open>%v\<close>, so only its text survives. \<open>Wrapf\<close> is \<open>errorpkg.Wrapf\<close> or
  a \<open>%w\<close>, through which \<open>errors.Is\<close> sees the cause. \<open>External\<close> is an error value that a
  service or a library outside the repository made. \<open>Panic\<close> stands for a run-time panic (a nil
  dereference, a failed type assertion), which ends the call like an error would.
\<close>

datatype err =
    NotFound GroupResource string
  | AlreadyExists GroupResource string
  | Conflict GroupResource string string
  | BadRequest string "err option"
  | Errorf string "err option"
  | Wrapf string err
  | ErrNoRows
  | NumError num_error string
  | External string
  | Panic string

fun errors_Is :: "err \<Rightarrow> err \<Rightarrow> bool" where
  "errors_Is (Wrapf m e) target \<longleftrightarrow> Wrapf m e = target \<or> errors_Is e target"
| "errors_Is e target \<longleftrightarrow> e = target"

type_synonym ('a, 's) op = "'s \<Rightarrow> (err + 'a) \<times> 's"
type_synonym 's eop = "'s \<Rightarrow> err option \<times> 's"

subsection \<open>Watch events\<close>

datatype EventType = Added | Modified | Deleted

type_synonym 'r event = "EventType \<times> 'r"

end
