(* ===== verification/Metrics.thy ===== *)
theory Metrics
  imports Types
begin

section \<open>Metrics\<close>

text \<open>
  \<^verbatim>\<open>pkg/storage/metrics/monitoring.go\<close>, \<^verbatim>\<open>pkg/server/metrics/monitoring.go\<close>,
  \<^verbatim>\<open>pkg/api/monitoring.go\<close> and \<^verbatim>\<open>pkg/server/metrics.go\<close>. A counter vector is a function from
  label values to counts. Of the latency histogram the model keeps the number of observations
  per label: the observed duration is wall-clock time and no behaviour depends on it.

  The state of a storage back end is a \<open>world\<close>: the service or map behind it, and the metrics.
\<close>

record metrics =
  policyReportsTotal :: "string list \<Rightarrow> nat"
  dbRequestTotalMetrics :: "string list \<Rightarrow> nat"
  dbRequestLatencyMetrics :: "string list \<Rightarrow> nat"

definition no_metrics :: metrics where
  "no_metrics = \<lparr>policyReportsTotal = (\<lambda>_. 0), dbRequestTotalMetrics = (\<lambda>_. 0),
     dbRequestLatencyMetrics = (\<lambda>_. 0)\<rparr>"

record 'd world =
  svc :: 'd
  mx :: metrics

definition Inc :: "string list \<Rightarrow> (string list \<Rightarrow> nat) \<Rightarrow> string list \<Rightarrow> nat" where
  "Inc ls c = c(ls := Suc (c ls))"

subsection \<open>Report counters\<close>

text \<open>
  The \<open>any\<close> argument of \<open>UpdatePolicyReportMetrics\<close>: pointers to the four report types are
  distinguished by the type switch, everything else (a report passed by value, too) falls
  through it.
\<close>

datatype any_report =
    PolicyReportPtr PolicyReport
  | ClusterPolicyReportPtr ClusterPolicyReport
  | EphemeralReportPtr EphemeralReport
  | ClusterEphemeralReportPtr ClusterEphemeralReport
  | OtherValue

definition getResourceNameAndKindFromOwnerReferences ::
  "OwnerReference list \<Rightarrow> string \<times> string" where
  "getResourceNameAndKindFromOwnerReferences ownerReferences =
     (case ownerReferences of
        [] \<Rightarrow> ([], [])
      | r # _ \<Rightarrow> (owner_Name r, owner_Kind r))"

definition FormatBool :: "bool \<Rightarrow> string" where
  "FormatBool b = (if b then ''true'' else ''false'')"

definition updatePolicyReportMetric ::
  "string \<Rightarrow> string \<Rightarrow> string \<Rightarrow> string \<Rightarrow> string \<Rightarrow> string \<Rightarrow> string \<Rightarrow> metrics \<Rightarrow> metrics" where
  "updatePolicyReportMetric dbType operation namespace resourceName resourceKind reportType
       migratedResource m =
     m\<lparr>policyReportsTotal :=
         Inc [dbType, namespace, resourceName, resourceKind, reportType, operation, migratedResource]
           (policyReportsTotal m)\<rparr>"

definition UpdatePolicyReportMetrics ::
  "string \<Rightarrow> string \<Rightarrow> any_report \<Rightarrow> bool \<Rightarrow> 'd world \<Rightarrow> 'd world" where
  "UpdatePolicyReportMetrics dbType operation report isMigrated w =
     (case report of
        PolicyReportPtr r \<Rightarrow>
          (let (resourceName, resourceKind) =
                 getResourceNameAndKindFromOwnerReferences (OwnerReferences r)
           in w\<lparr>mx := updatePolicyReportMetric dbType operation (Namespace r) resourceName
                        resourceKind ''PolicyReport'' (FormatBool isMigrated) (mx w)\<rparr>)
      | ClusterPolicyReportPtr r \<Rightarrow>
          (let (resourceName, resourceKind) =
                 getResourceNameAndKindFromOwnerReferences (OwnerReferences r)
           in w\<lparr>mx := updatePolicyReportMetric dbType operation [] resourceName
                        resourceKind ''ClusterPolicyReport'' (FormatBool isMigrated) (mx w)\<rparr>)
      | EphemeralReportPtr r \<Rightarrow>
          (let (resourceName, resourceKind) =
                 getResourceNameAndKindFromOwnerReferences (OwnerReferences r)
           in w\<lparr>mx := updatePolicyReportMetric dbType operation (Namespace r) resourceName
                        resourceKind ''EphemeralReport'' (FormatBool isMigrated) (mx w)\<rparr>)
      | ClusterEphemeralReportPtr r \<Rightarrow>
          (let (resourceName, resourceKind) =
                 getResourceNameAndKindFromOwnerReferences (OwnerReferences r)
           in w\<lparr>mx := updatePolicyReportMetric dbType operation [] resourceName
                        resourceKind ''ClusterEphemeralReport'' (FormatBool isMigrated) (mx w)\<rparr>)
      | OtherValue \<Rightarrow> w)"

subsection \<open>Request counters\<close>

definition UpdateDBRequestTotalMetrics :: "string \<Rightarrow> string \<Rightarrow> string \<Rightarrow> 'd world \<Rightarrow> 'd world" where
  "UpdateDBRequestTotalMetrics dbType operation reportType w =
     w\<lparr>mx := (mx w)\<lparr>dbRequestTotalMetrics :=
                Inc [dbType, operation, reportType] (dbRequestTotalMetrics (mx w))\<rparr>\<rparr>"

definition UpdateDBRequestLatencyMetrics :: "string \<Rightarrow> string \<Rightarrow> string \<Rightarrow> 'd world \<Rightarrow> 'd world" where
  "UpdateDBRequestLatencyMetrics dbType operation reportType w =
     w\<lparr>mx := (mx w)\<lparr>dbRequestLatencyMetrics :=
                Inc [dbType, operation, reportType] (dbRequestLatencyMetrics (mx w))\<rparr>\<rparr>"

text \<open>The two request metrics are always updated together.\<close>

definition count_request :: "string \<Rightarrow> string \<Rightarrow> string \<Rightarrow> 'd world \<Rightarrow> 'd world" where
  "count_request dbType operation reportType w =
     UpdateDBRequestLatencyMetrics dbType operation reportType
       (UpdateDBRequestTotalMetrics dbType operation reportType w)"

subsection \<open>Registration\<close>

text \<open>
  A registry is a function that registers the metric with a given full name, possibly failing.
\<close>

definition RegisterStorageMetrics :: "(string \<Rightarrow> 'g eop) \<Rightarrow> 'g eop" where
  "RegisterStorageMetrics registrationFunc g =
     registrationFunc ''reports_server_storage_policy_reports_total'' g"

definition RegisterServerMetrics :: "(string \<Rightarrow> 'g eop) \<Rightarrow> 'g eop" where
  "RegisterServerMetrics registrationFunc g =
     (case registrationFunc ''reports_server_server_db_requests_total'' g of
        (Some err, g1) \<Rightarrow> (Some err, g1)
      | (None, g1) \<Rightarrow>
          (case registrationFunc ''reports_server_server_db_request_duration_seconds'' g1 of
             (Some err, g2) \<Rightarrow> (Some err, g2)
           | (None, g2) \<Rightarrow> (None, g2)))"

definition RegisterAPIMetrics :: "(string \<Rightarrow> 'g eop) \<Rightarrow> 'g eop" where
  "RegisterAPIMetrics registrationFunc g =
     registrationFunc ''reports_server_api_reports_server_export_time'' g"

definition RegisterMetrics :: "(string \<Rightarrow> 'g eop) \<Rightarrow> 'g eop" where
  "RegisterMetrics register g =
     (case RegisterServerMetrics register g of
        (Some err, g1) \<Rightarrow> (Some (Errorf ''unable to register server metrics: '' (Some err)), g1)
      | (None, g1) \<Rightarrow>
          (case RegisterAPIMetrics register g1 of
             (Some err, g2) \<Rightarrow> (Some (Errorf ''unable to register API metrics: '' (Some err)), g2)
           | (None, g2) \<Rightarrow>
               (case RegisterStorageMetrics register g2 of
                  (Some err, g3) \<Rightarrow>
                    (Some (Errorf ''unable to register storage metrics: '' (Some err)), g3)
                | (None, g3) \<Rightarrow> (None, g3))))"

subsection \<open>Metrics do not touch the data\<close>

lemma svc_UpdatePolicyReportMetrics [metric_simps]:
  "svc (UpdatePolicyReportMetrics dbType op r mig w) = svc w"
  by (simp add: UpdatePolicyReportMetrics_def case_prod_unfold Let_def split: any_report.split)

lemma svc_UpdateDBRequestTotalMetrics [metric_simps]:
  "svc (UpdateDBRequestTotalMetrics dbType op k w) = svc w"
  by (simp add: UpdateDBRequestTotalMetrics_def)

lemma svc_UpdateDBRequestLatencyMetrics [metric_simps]:
  "svc (UpdateDBRequestLatencyMetrics dbType op k w) = svc w"
  by (simp add: UpdateDBRequestLatencyMetrics_def)

lemma svc_count_request [metric_simps]: "svc (count_request dbType op k w) = svc w"
  by (simp add: count_request_def metric_simps)

end
