(* ===== verification/StorageSpec.thy ===== *)
theory StorageSpec
  imports Metrics
begin

section \<open>The storage interfaces and their contract\<close>

text \<open>
  \<^verbatim>\<open>pkg/storage/api/interface.go\<close>: a Go interface is a record of functions over the state of the
  back end that implements it. A pointer that may be nil is an \<open>option\<close>.

  The contract all back ends are proved against is a finite map from keys to reports. The
  locale \<open>report_storage\<close> lists what each call returns and what it does to the map; its client
  lemma \<open>run_refines\<close> says that any sequence of calls gives the replies of the map.
\<close>

record ('s, 'r) NamespacedInterface =
  nGet :: "string \<Rightarrow> string \<Rightarrow> ('r option, 's) op"
  nList :: "string \<Rightarrow> ('r option list, 's) op"
  nCreate :: "'r option \<Rightarrow> 's eop"
  nUpdate :: "'r option \<Rightarrow> 's eop"
  nDelete :: "string \<Rightarrow> string \<Rightarrow> 's eop"

record ('s, 'r) ClusterInterface =
  cGet :: "string \<Rightarrow> ('r option, 's) op"
  cList :: "('r option list, 's) op"
  cCreate :: "'r option \<Rightarrow> 's eop"
  cUpdate :: "'r option \<Rightarrow> 's eop"
  cDelete :: "string \<Rightarrow> 's eop"

type_synonym 's PolicyReportsInterface = "('s, PolicyReport) NamespacedInterface"
type_synonym 's ClusterPolicyReportsInterface = "('s, ClusterPolicyReport) ClusterInterface"
type_synonym 's EphemeralReportsInterface = "('s, EphemeralReport) NamespacedInterface"
type_synonym 's ClusterEphemeralReportsInterface = "('s, ClusterEphemeralReport) ClusterInterface"

record 's Storage =
  Ready :: "'s \<Rightarrow> bool"
  PolicyReports :: "'s PolicyReportsInterface"
  ClusterPolicyReports :: "'s ClusterPolicyReportsInterface"
  EphemeralReports :: "'s EphemeralReportsInterface"
  ClusterEphemeralReports :: "'s ClusterEphemeralReportsInterface"

text \<open>
  What the back ends get from outside for a report type: Go's JSON encoding of the type
  (\<open>UnmarshalPtr\<close> decodes into a \<open>*T\<close> variable, which a JSON null leaves nil), its identity
  for the type switch of the metrics, and the printed form of a group-version-kind.
\<close>

record 'r TypeLib =
  Marshal :: "'r \<Rightarrow> err + string"
  Unmarshal :: "string \<Rightarrow> err + 'r"
  UnmarshalPtr :: "string \<Rightarrow> err + 'r option"
  as_any :: "'r \<Rightarrow> any_report"
  gvk_String :: "GroupVersionKind \<Rightarrow> string"

record reportLibs =
  polrLib :: "PolicyReport TypeLib"
  cpolrLib :: "ClusterPolicyReport TypeLib"
  ephrLib :: "EphemeralReport TypeLib"
  cephrLib :: "ClusterEphemeralReport TypeLib"

text \<open>
  What the code relies on: a report that can be encoded decodes to the report \<open>canon\<close> makes of
  it (encoding drops what has no JSON form, such as the fractions of a second in a time stamp or
  the difference between a nil and an empty map), which keeps name and namespace.
\<close>

definition json_roundtrip :: "'a ObjectMeta_scheme TypeLib \<Rightarrow> ('a ObjectMeta_scheme \<Rightarrow> 'a ObjectMeta_scheme) \<Rightarrow> bool" where
  "json_roundtrip T canon \<longleftrightarrow>
     (\<forall>r b. Marshal T r = Inr b \<longrightarrow>
        Unmarshal T b = Inr (canon r) \<and> UnmarshalPtr T b = Inr (Some (canon r)) \<and>
        Name (canon r) = Name r \<and> Namespace (canon r) = Namespace r)"

subsection \<open>One shape for both scopes\<close>

text \<open>
  The key of a namespaced report is its namespace and name, and a list call selects a namespace
  (the empty string selects all of them); a cluster-scoped report has its name as key.
\<close>

record ('s, 'k, 'q, 'r) ops =
  getK :: "'k \<Rightarrow> ('r option, 's) op"
  listQ :: "'q \<Rightarrow> ('r option list, 's) op"
  createR :: "'r option \<Rightarrow> 's eop"
  updateR :: "'r option \<Rightarrow> 's eop"
  deleteK :: "'k \<Rightarrow> 's eop"

definition ns_ops :: "('s, 'r) NamespacedInterface \<Rightarrow> ('s, string \<times> string, string, 'r) ops" where
  "ns_ops I = \<lparr>getK = (\<lambda>(ns, n). nGet I n ns), listQ = nList I, createR = nCreate I,
     updateR = nUpdate I, deleteK = (\<lambda>(ns, n). nDelete I n ns)\<rparr>"

definition cl_ops :: "('s, 'r) ClusterInterface \<Rightarrow> ('s, string, unit, 'r) ops" where
  "cl_ops I = \<lparr>getK = cGet I, listQ = (\<lambda>_. cList I), createR = cCreate I,
     updateR = cUpdate I, deleteK = cDelete I\<rparr>"

definition ns_key :: "'a ObjectMeta_scheme \<Rightarrow> string \<times> string" where
  "ns_key r = (Namespace r, Name r)"

definition ns_sel :: "string \<Rightarrow> string \<times> string \<Rightarrow> bool" where
  "ns_sel ns k \<longleftrightarrow> ns = [] \<or> fst k = ns"

definition cl_key :: "'a ObjectMeta_scheme \<Rightarrow> string" where
  "cl_key r = Name r"

definition cl_sel :: "unit \<Rightarrow> string \<Rightarrow> bool" where
  "cl_sel q k \<longleftrightarrow> True"

lemma ops_simps [simp]:
  "getK (ns_ops I) (ns, n) = nGet I n ns" "listQ (ns_ops I) = nList I"
  "createR (ns_ops I) = nCreate I" "updateR (ns_ops I) = nUpdate I"
  "deleteK (ns_ops I) (ns, n) = nDelete I n ns"
  "getK (cl_ops J) = cGet J" "listQ (cl_ops J) q = cList J"
  "createR (cl_ops J) = cCreate J" "updateR (cl_ops J) = cUpdate J" "deleteK (cl_ops J) = cDelete J"
  by (simp_all add: ns_ops_def cl_ops_def)

text \<open>Names and namespaces contain no slash.\<close>

definition slash_free :: "string \<Rightarrow> bool" where
  "slash_free s \<longleftrightarrow> CHR ''/'' \<notin> set s"

subsection \<open>Sequences of calls and their specification\<close>

datatype ('k, 'q, 'r) cmd =
    GetCmd 'k
  | ListCmd 'q
  | CreateCmd 'r
  | UpdateCmd 'r
  | DeleteCmd 'k

datatype 'r reply = Failed | Done | Found 'r | Listed "'r set"

definition get_reply :: "err + 'r option \<Rightarrow> 'r reply" where
  "get_reply x = (case x of Inr (Some r) \<Rightarrow> Found r | _ \<Rightarrow> Failed)"

definition list_reply :: "err + 'r option list \<Rightarrow> 'r reply" where
  "list_reply x =
     (case x of Inr rs \<Rightarrow> if None \<in> set rs then Failed else Listed {r. Some r \<in> set rs}
      | Inl e \<Rightarrow> Failed)"

definition err_reply :: "err option \<Rightarrow> 'r reply" where
  "err_reply x = (case x of None \<Rightarrow> Done | Some e \<Rightarrow> Failed)"

fun do_cmd :: "('s, 'k, 'q, 'r) ops \<Rightarrow> ('k, 'q, 'r) cmd \<Rightarrow> 's \<Rightarrow> 'r reply \<times> 's" where
  "do_cmd S (GetCmd k) s = (let (x, s') = getK S k s in (get_reply x, s'))"
| "do_cmd S (ListCmd q) s = (let (x, s') = listQ S q s in (list_reply x, s'))"
| "do_cmd S (CreateCmd r) s = (let (x, s') = createR S (Some r) s in (err_reply x, s'))"
| "do_cmd S (UpdateCmd r) s = (let (x, s') = updateR S (Some r) s in (err_reply x, s'))"
| "do_cmd S (DeleteCmd k) s = (let (x, s') = deleteK S k s in (err_reply x, s'))"

fun run_cmds ::
  "(('k, 'q, 'r) cmd \<Rightarrow> 's \<Rightarrow> 'r reply \<times> 's) \<Rightarrow> ('k, 'q, 'r) cmd list \<Rightarrow> 's \<Rightarrow> 'r reply list \<times> 's" where
  "run_cmds step [] s = ([], s)"
| "run_cmds step (c # cs) s =
     (let (x, s1) = step c s; (xs, s2) = run_cmds step cs s1 in (x # xs, s2))"

text \<open>
  The specification: the same calls on a map. \<open>canon\<close> is what a report becomes when it is written
  and read back; \<open>lenient\<close> says what an update of a missing report answers (it changes nothing
  in either case).
\<close>

fun spec_cmd ::
  "('r \<Rightarrow> 'k) \<Rightarrow> ('q \<Rightarrow> 'k \<Rightarrow> bool) \<Rightarrow> ('r \<Rightarrow> 'r) \<Rightarrow> bool \<Rightarrow> ('k, 'q, 'r) cmd \<Rightarrow> ('k \<rightharpoonup> 'r) \<Rightarrow>
     'r reply \<times> ('k \<rightharpoonup> 'r)" where
  "spec_cmd key sel canon lenient (GetCmd k) m =
     (case m k of None \<Rightarrow> (Failed, m) | Some r \<Rightarrow> (Found r, m))"
| "spec_cmd key sel canon lenient (ListCmd q) m = (Listed {r. \<exists>k. sel q k \<and> m k = Some r}, m)"
| "spec_cmd key sel canon lenient (CreateCmd r) m =
     (if m (key r) = None then (Done, m(key r \<mapsto> canon r)) else (Failed, m))"
| "spec_cmd key sel canon lenient (UpdateCmd r) m =
     (if m (key r) = None then (if lenient then Done else Failed, m)
      else (Done, m(key r \<mapsto> canon r)))"
| "spec_cmd key sel canon lenient (DeleteCmd k) m =
     (if m k = None then (Failed, m) else (Done, m(k := None)))"

text \<open>Which calls a contract speaks about: legal keys, selections and reports only.\<close>

fun good_cmd :: "('k \<Rightarrow> bool) \<Rightarrow> ('q \<Rightarrow> bool) \<Rightarrow> ('r \<Rightarrow> bool) \<Rightarrow> ('k, 'q, 'r) cmd \<Rightarrow> bool" where
  "good_cmd gk gq gr (GetCmd k) = gk k"
| "good_cmd gk gq gr (ListCmd q) = gq q"
| "good_cmd gk gq gr (CreateCmd r) = gr r"
| "good_cmd gk gq gr (UpdateCmd r) = gr r"
| "good_cmd gk gq gr (DeleteCmd k) = gk k"

lemma list_reply_map:
  assumes "set ks = {k \<in> dom m. P k}"
  shows "list_reply (Inr (map m ks)) = Listed {r. \<exists>k. P k \<and> m k = Some r}"
proof -
  have "None \<notin> m ` set ks" unfolding assms by auto
  moreover have "{r. Some r \<in> m ` set ks} = {r. \<exists>k. P k \<and> m k = Some r}"
    unfolding assms by (auto intro: rev_image_eqI)
  ultimately show ?thesis by (simp add: list_reply_def)
qed

subsection \<open>The contract\<close>

locale report_storage =
  fixes S :: "('s, 'k, 'q, 'r) ops"
    and key :: "'r \<Rightarrow> 'k"
    and sel :: "'q \<Rightarrow> 'k \<Rightarrow> bool"
    and canon :: "'r \<Rightarrow> 'r"
    and lenient :: bool
    and good_key :: "'k \<Rightarrow> bool"
    and good_sel :: "'q \<Rightarrow> bool"
    and good :: "'r \<Rightarrow> bool"
    and view :: "'s \<Rightarrow> 'k \<rightharpoonup> 'r"
    and inv :: "'s \<Rightarrow> bool"
  assumes get_law: "inv s \<Longrightarrow> good_key k \<Longrightarrow>
        (\<exists>e. fst (getK S k s) = (case view s k of None \<Rightarrow> Inl e | Some r \<Rightarrow> Inr (Some r))) \<and>
        view (snd (getK S k s)) = view s \<and> inv (snd (getK S k s))"
    and list_law: "inv s \<Longrightarrow> good_sel q \<Longrightarrow>
        (\<exists>ks. distinct ks \<and> set ks = {k \<in> dom (view s). sel q k} \<and>
              fst (listQ S q s) = Inr (map (view s) ks)) \<and>
        view (snd (listQ S q s)) = view s \<and> inv (snd (listQ S q s))"
    and create_law: "inv s \<Longrightarrow> good r \<Longrightarrow>
        (\<exists>e. fst (createR S (Some r) s) = (if view s (key r) = None then None else Some e)) \<and>
        view (snd (createR S (Some r) s)) =
          (if view s (key r) = None then (view s)(key r \<mapsto> canon r) else view s) \<and>
        inv (snd (createR S (Some r) s))"
    and update_law: "inv s \<Longrightarrow> good r \<Longrightarrow>
        (\<exists>e. fst (updateR S (Some r) s) =
               (if view s (key r) = None \<and> \<not> lenient then Some e else None)) \<and>
        view (snd (updateR S (Some r) s)) =
          (if view s (key r) = None then view s else (view s)(key r \<mapsto> canon r)) \<and>
        inv (snd (updateR S (Some r) s))"
    and delete_law: "inv s \<Longrightarrow> good_key k \<Longrightarrow>
        (\<exists>e. fst (deleteK S k s) = (if view s k = None then Some e else None)) \<and>
        view (snd (deleteK S k s)) = (view s)(k := None) \<and>
        inv (snd (deleteK S k s))"
    and stored_key: "inv s \<Longrightarrow> view s k = Some r \<Longrightarrow> good_key k \<and> key r = k"
    and good_key_of: "good r \<Longrightarrow> good_key (key r)"
    and key_canon: "inv s \<Longrightarrow> good r \<Longrightarrow> key (canon r) = key r"
begin

lemma cmd_refines:
  assumes "inv s" and "good_cmd good_key good_sel good c"
  shows "fst (do_cmd S c s) = fst (spec_cmd key sel canon lenient c (view s)) \<and>
    view (snd (do_cmd S c s)) = snd (spec_cmd key sel canon lenient c (view s)) \<and>
    inv (snd (do_cmd S c s))"
proof (cases c)
  case (GetCmd k)
  with assms show ?thesis
    using get_law [of s k] by (cases "view s k") (auto simp: case_prod_unfold get_reply_def)
next
  case (ListCmd q)
  with assms show ?thesis
    using list_law [of s q] by (auto simp: case_prod_unfold list_reply_map)
next
  case (CreateCmd r)
  with assms show ?thesis
    using create_law [of s r] by (auto simp: case_prod_unfold err_reply_def)
next
  case (UpdateCmd r)
  with assms show ?thesis
    using update_law [of s r] by (auto simp: case_prod_unfold err_reply_def)
next
  case (DeleteCmd k)
  with assms show ?thesis
    using delete_law [of s k] by (auto simp: case_prod_unfold err_reply_def fun_upd_idem)
qed

lemma run_refines:
  assumes "inv s" and "\<And>c. c \<in> set cs \<Longrightarrow> good_cmd good_key good_sel good c"
  shows "fst (run_cmds (do_cmd S) cs s) =
      fst (run_cmds (spec_cmd key sel canon lenient) cs (view s)) \<and>
    view (snd (run_cmds (do_cmd S) cs s)) =
      snd (run_cmds (spec_cmd key sel canon lenient) cs (view s)) \<and>
    inv (snd (run_cmds (do_cmd S) cs s))"
  using assms
proof (induction cs arbitrary: s)
  case (Cons c cs)
  from cmd_refines [of s c] Cons.prems
  have c: "fst (do_cmd S c s) = fst (spec_cmd key sel canon lenient c (view s))"
    "view (snd (do_cmd S c s)) = snd (spec_cmd key sel canon lenient c (view s))"
    "inv (snd (do_cmd S c s))"
    by simp_all
  from Cons.IH [OF c(3)] Cons.prems(2) c(1,2) show ?case
    by (simp add: case_prod_unfold Let_def)
qed simp

end

subsection \<open>A sample encoding\<close>

text \<open>
  An encoding given by a finite table of documents and reports, which the witnesses use to show
  that the assumptions about JSON can be met.
\<close>

definition table_lib :: "(string \<times> 'r) list \<Rightarrow> ('r \<Rightarrow> any_report) \<Rightarrow> 'r TypeLib" where
  "table_lib tab a =
     \<lparr>Marshal = (\<lambda>r. case find (\<lambda>p. snd p = r) tab of
                       None \<Rightarrow> Inl (External ''unsupported value'') | Some p \<Rightarrow> Inr (fst p)),
      Unmarshal = (\<lambda>b. case map_of tab b of
                         None \<Rightarrow> Inl (External ''syntax error'') | Some r \<Rightarrow> Inr r),
      UnmarshalPtr = (\<lambda>b. case map_of tab b of
                         None \<Rightarrow> Inl (External ''syntax error'') | Some r \<Rightarrow> Inr (Some r)),
      as_any = a, gvk_String = gvk_Kind\<rparr>"

lemma table_lib_roundtrip:
  assumes "distinct (map fst tab)"
  shows "json_roundtrip (table_lib tab a) id"
  unfolding json_roundtrip_def
proof (intro allI impI)
  fix r b
  assume "Marshal (table_lib tab a) r = Inr b"
  then obtain p where "find (\<lambda>p. snd p = r) tab = Some p" "b = fst p"
    by (auto simp: table_lib_def split: option.splits)
  then have "(b, r) \<in> set tab"
    by (auto simp: find_Some_iff in_set_conv_nth)
  then have "map_of tab b = Some r" using assms by simp
  then show "Unmarshal (table_lib tab a) b = Inr (id r) \<and>
      UnmarshalPtr (table_lib tab a) b = Inr (Some (id r)) \<and>
      Name (id r) = Name r \<and> Namespace (id r) = Namespace r"
    by (simp add: table_lib_def)
qed

definition sample_polr :: PolicyReport where
  "sample_polr = zero_PolicyReport\<lparr>Name := ''a'', Namespace := ''default''\<rparr>"

definition sample_cpolr :: ClusterPolicyReport where
  "sample_cpolr = zero_PolicyReport\<lparr>Name := ''a''\<rparr>"

lemma sample_keys [simp]:
  "Name sample_polr = ''a''" "Namespace sample_polr = ''default''"
  "Name sample_cpolr = ''a''" "Namespace sample_cpolr = []"
  by (simp_all add: sample_polr_def sample_cpolr_def zero_PolicyReport_def)

lemma sample_lib:
  "json_roundtrip (table_lib [(''x'', r)] a) id" "Marshal (table_lib [(''x'', r)] a) r = Inr ''x''"
  by (simp_all add: table_lib_roundtrip, simp add: table_lib_def)

end
