(* ===== verification/Etcd.thy ===== *)
theory Etcd
  imports StorageSpec "HOL-Library.AList"
begin

section \<open>The etcd back end\<close>

text \<open>
  \<^verbatim>\<open>pkg/storage/etcd/store.go\<close> and \<^verbatim>\<open>pkg/storage/etcd/new.go\<close>. Each report is a JSON value under
  the key \<open>group/version/kind/namespace/name\<close>; a list call is a range request for a prefix. The
  etcd client is outside the repository: it is the record \<open>KV\<close> of the calls the store makes, over
  an arbitrary service state, and what the store relies on is the predicate \<open>etcd_contract\<close>.
  Each store locks its mutex for the whole of every operation, so an operation is one step.
\<close>

record 'e KV =
  kv_Get :: "string \<Rightarrow> bool \<Rightarrow> 'e \<Rightarrow> err + (string \<times> string) list"
    \<comment> \<open>the flag is the option \<open>WithPrefix\<close>; a response is the list of key/value pairs\<close>
  kv_Put :: "string \<Rightarrow> string \<Rightarrow> 'e eop"
  kv_Delete :: "string \<Rightarrow> (nat, 'e) op"
    \<comment> \<open>the number of deleted keys\<close>

record 'e objectStoreNamespaced =
  namespaced :: bool
  etcdclient :: "'e KV"
  gvk :: GroupVersionKind
  gr :: GroupResource

subsection \<open>Keys\<close>

definition getPrefix :: "'e objectStoreNamespaced \<Rightarrow> string \<Rightarrow> string" where
  "getPrefix ob namespace =
     (if length namespace \<noteq> 0
      then gvk_Group (gvk ob) @ ''/'' @ gvk_Version (gvk ob) @ ''/'' @ gvk_Kind (gvk ob) @ ''/''
             @ namespace @ ''/''
      else gvk_Group (gvk ob) @ ''/'' @ gvk_Version (gvk ob) @ ''/'' @ gvk_Kind (gvk ob) @ ''/'')"

definition getKey :: "'e objectStoreNamespaced \<Rightarrow> string \<Rightarrow> string \<Rightarrow> string" where
  "getKey ob name namespace = getPrefix ob namespace @ name"

subsection \<open>Operations\<close>

definition etcd_Get ::
  "'r TypeLib \<Rightarrow> 'e objectStoreNamespaced \<Rightarrow> string \<Rightarrow> string \<Rightarrow> ('r option, 'e world) op" where
  "etcd_Get T ob name namespace w =
     (let key = getKey ob name namespace
      in case kv_Get (etcdclient ob) key False (svc w) of
           Inl err \<Rightarrow> (Inl err, w)
         | Inr kvs \<Rightarrow>
             (let w1 = count_request ''etcd'' ''get'' (gvk_String T (gvk ob)) w
              in if length kvs \<noteq> 1 then (Inl (NotFound (gr ob) key), w1)
                 else case UnmarshalPtr T (snd (hd kvs)) of
                        Inl err \<Rightarrow> (Inl (NotFound (gr ob) key), w1)
                      | Inr obj \<Rightarrow> (Inr obj, w1)))"

definition etcd_List ::
  "'r TypeLib \<Rightarrow> 'e objectStoreNamespaced \<Rightarrow> string \<Rightarrow> ('r option list, 'e world) op" where
  "etcd_List T ob namespace w =
     (let key = getPrefix ob namespace
      in case kv_Get (etcdclient ob) key True (svc w) of
           Inl err \<Rightarrow> (Inl err, w)
         | Inr kvs \<Rightarrow>
             (let w1 = count_request ''etcd'' ''list'' (gvk_String T (gvk ob)) w
              in if length kvs = 0 then (Inr [], w1)
                 else (map_result (\<lambda>v. case UnmarshalPtr T (snd v) of
                                          Inl err \<Rightarrow> Inl (NotFound (gr ob) key)
                                        | Inr obj \<Rightarrow> Inr obj) kvs, w1)))"

definition etcd_Create ::
  "'a ObjectMeta_scheme TypeLib \<Rightarrow> 'e objectStoreNamespaced \<Rightarrow> 'a ObjectMeta_scheme option \<Rightarrow>
     'e world eop" where
  "etcd_Create T ob obj w =
     (case obj of
        None \<Rightarrow> (Some (Panic ''nil pointer dereference''), w)
      | Some r \<Rightarrow>
          (let key = getKey ob (Name r) (Namespace r)
           in case kv_Get (etcdclient ob) key False (svc w) of
                Inl err \<Rightarrow> (Some err, w)
              | Inr kvs \<Rightarrow>
                  (let w1 = count_request ''etcd'' ''create'' (gvk_String T (gvk ob)) w
                   in if length kvs > 0 then (Some (AlreadyExists (gr ob) key), w1)
                      else case Marshal T r of
                             Inl err \<Rightarrow> (Some err, w1)
                           | Inr bObject \<Rightarrow>
                               (case kv_Put (etcdclient ob) key bObject (svc w1) of
                                  (Some err, e) \<Rightarrow> (Some err, w1\<lparr>svc := e\<rparr>)
                                | (None, e) \<Rightarrow>
                                    (None, UpdatePolicyReportMetrics ''etcd'' ''create''
                                             (as_any T r) False (w1\<lparr>svc := e\<rparr>))))))"

definition etcd_Update ::
  "'a ObjectMeta_scheme TypeLib \<Rightarrow> 'e objectStoreNamespaced \<Rightarrow> 'a ObjectMeta_scheme option \<Rightarrow>
     'e world eop" where
  "etcd_Update T ob obj w =
     (case obj of
        None \<Rightarrow> (Some (Panic ''nil pointer dereference''), w)
      | Some r \<Rightarrow>
          (let key = getKey ob (Name r) (Namespace r)
           in case kv_Get (etcdclient ob) key False (svc w) of
                Inl err \<Rightarrow> (Some err, w)
              | Inr kvs \<Rightarrow>
                  (let w1 = count_request ''etcd'' ''update'' (gvk_String T (gvk ob)) w
                   in if length kvs \<noteq> 1 then (Some (NotFound (gr ob) key), w1)
                      else case Marshal T r of
                             Inl err \<Rightarrow> (Some err, w1)
                           | Inr bObject \<Rightarrow>
                               (case kv_Put (etcdclient ob) key bObject (svc w1) of
                                  (Some err, e) \<Rightarrow> (Some err, w1\<lparr>svc := e\<rparr>)
                                | (None, e) \<Rightarrow>
                                    (None, UpdatePolicyReportMetrics ''etcd'' ''update''
                                             (as_any T r) False (w1\<lparr>svc := e\<rparr>))))))"

definition etcd_Delete ::
  "'r TypeLib \<Rightarrow> 'e objectStoreNamespaced \<Rightarrow> string \<Rightarrow> string \<Rightarrow> 'e world eop" where
  "etcd_Delete T ob name namespace w =
     (let key = getKey ob name namespace
      in case kv_Delete (etcdclient ob) key (svc w) of
           (Inl err, e) \<Rightarrow> (Some err, w\<lparr>svc := e\<rparr>)
         | (Inr deleted, e) \<Rightarrow>
             (let w1 = count_request ''etcd'' ''delete'' (gvk_String T (gvk ob)) (w\<lparr>svc := e\<rparr>)
              in if deleted = 0 then (Some (NotFound (gr ob) key), w1) else (None, w1)))"

text \<open>The two structs the constructors fill in.\<close>

definition ns_store :: "'e KV \<Rightarrow> GroupVersionKind \<Rightarrow> GroupResource \<Rightarrow> 'e objectStoreNamespaced" where
  "ns_store client k g = \<lparr>namespaced = True, etcdclient = client, gvk = k, gr = g\<rparr>"

definition cl_store :: "'e KV \<Rightarrow> GroupVersionKind \<Rightarrow> GroupResource \<Rightarrow> 'e objectStoreNamespaced" where
  "cl_store client k g = \<lparr>namespaced = False, etcdclient = client, gvk = k, gr = g\<rparr>"

definition NewObjectStoreNamespaced ::
  "'a ObjectMeta_scheme TypeLib \<Rightarrow> 'e KV \<Rightarrow> GroupVersionKind \<Rightarrow> GroupResource \<Rightarrow>
     ('e world, 'a ObjectMeta_scheme) NamespacedInterface" where
  "NewObjectStoreNamespaced T client k g =
     (let ob = ns_store client k g
      in \<lparr>nGet = etcd_Get T ob, nList = etcd_List T ob, nCreate = etcd_Create T ob,
          nUpdate = etcd_Update T ob, nDelete = etcd_Delete T ob\<rparr>)"

text \<open>The cluster-scoped store wraps a namespaced one and always passes the empty namespace.\<close>

definition etcd_cluster_Get ::
  "'r TypeLib \<Rightarrow> 'e objectStoreNamespaced \<Rightarrow> string \<Rightarrow> ('r option, 'e world) op" where
  "etcd_cluster_Get T store name = etcd_Get T store name []"

definition etcd_cluster_List ::
  "'r TypeLib \<Rightarrow> 'e objectStoreNamespaced \<Rightarrow> ('r option list, 'e world) op" where
  "etcd_cluster_List T store = etcd_List T store []"

definition etcd_cluster_Create ::
  "'a ObjectMeta_scheme TypeLib \<Rightarrow> 'e objectStoreNamespaced \<Rightarrow> 'a ObjectMeta_scheme option \<Rightarrow>
     'e world eop" where
  "etcd_cluster_Create T store obj = etcd_Create T store obj"

definition etcd_cluster_Update ::
  "'a ObjectMeta_scheme TypeLib \<Rightarrow> 'e objectStoreNamespaced \<Rightarrow> 'a ObjectMeta_scheme option \<Rightarrow>
     'e world eop" where
  "etcd_cluster_Update T store obj = etcd_Update T store obj"

definition etcd_cluster_Delete ::
  "'r TypeLib \<Rightarrow> 'e objectStoreNamespaced \<Rightarrow> string \<Rightarrow> 'e world eop" where
  "etcd_cluster_Delete T store name = etcd_Delete T store name []"

definition NewObjectStoreCluster ::
  "'a ObjectMeta_scheme TypeLib \<Rightarrow> 'e KV \<Rightarrow> GroupVersionKind \<Rightarrow> GroupResource \<Rightarrow>
     ('e world, 'a ObjectMeta_scheme) ClusterInterface" where
  "NewObjectStoreCluster T client k g =
     (let store = cl_store client k g
      in \<lparr>cGet = etcd_cluster_Get T store, cList = etcd_cluster_List T store,
          cCreate = etcd_cluster_Create T store, cUpdate = etcd_cluster_Update T store,
          cDelete = etcd_cluster_Delete T store\<rparr>)"

subsection \<open>Connecting\<close>

record EtcdConfig =
  Endpoints :: string
  Insecure :: bool

text \<open>The parts of \<open>clientv3.Config\<close> that \<open>New\<close> fills in; the time-out is in seconds.\<close>

record clientConfig =
  DialTimeout :: nat
  client_Endpoints :: "string list"
  InsecureSkipVerify :: bool
  InsecureCredentials :: bool

definition dialTimeout :: nat where
  "dialTimeout = 10"

definition etcd_New ::
  "reportLibs \<Rightarrow> (clientConfig \<Rightarrow> err + 'e KV) \<Rightarrow> EtcdConfig \<Rightarrow> err + 'e world Storage" where
  "etcd_New L clientv3_New cfg =
     (let clientCfg = \<lparr>DialTimeout = dialTimeout,
                       client_Endpoints = split_on (CHR '','') (Endpoints cfg),
                       InsecureSkipVerify = False, InsecureCredentials = False\<rparr>;
          clientCfg' = (if Insecure cfg
                        then clientCfg\<lparr>InsecureSkipVerify := True, InsecureCredentials := True\<rparr>
                        else clientCfg)
      in case clientv3_New clientCfg' of
           Inl err \<Rightarrow> Inl err
         | Inr client \<Rightarrow>
             Inr \<lparr>Ready = (\<lambda>_. True),
                  PolicyReports =
                    NewObjectStoreNamespaced (polrLib L) client PolicyReportsGVK PolicyReportsGR,
                  ClusterPolicyReports =
                    NewObjectStoreCluster (cpolrLib L) client ClusterPolicyReportsGVK
                      ClusterPolicyReportsGR,
                  EphemeralReports =
                    NewObjectStoreNamespaced (ephrLib L) client EphemeralReportsGVK EphemeralReportsGR,
                  ClusterEphemeralReports =
                    NewObjectStoreCluster (cephrLib L) client ClusterEphemeralReportsGVK
                      ClusterEphemeralReportsGR\<rparr>)"

subsection \<open>What the store relies on\<close>

text \<open>
  \<open>V\<close> reads the key/value pairs off the service state and \<open>up\<close> says that the service answers.
  A point read returns the pair of the key, if there is one; a prefix read returns the pairs of
  all keys with the prefix, each once; a put replaces the pair; a delete removes it and reports
  how many it removed.
\<close>

definition etcd_contract ::
  "'e KV \<Rightarrow> ('e \<Rightarrow> string \<rightharpoonup> string) \<Rightarrow> ('e \<Rightarrow> bool) \<Rightarrow> bool" where
  "etcd_contract kv V up \<longleftrightarrow>
     (\<forall>e k. up e \<longrightarrow>
        kv_Get kv k False e = Inr (case V e k of None \<Rightarrow> [] | Some v \<Rightarrow> [(k, v)])) \<and>
     (\<forall>e p. up e \<longrightarrow>
        (\<exists>ks. distinct ks \<and> set ks = {k \<in> dom (V e). prefix p k} \<and>
              kv_Get kv p True e = Inr (map (\<lambda>k. (k, the (V e k))) ks))) \<and>
     (\<forall>e k v. up e \<longrightarrow>
        fst (kv_Put kv k v e) = None \<and> up (snd (kv_Put kv k v e)) \<and>
        V (snd (kv_Put kv k v e)) = (V e)(k \<mapsto> v)) \<and>
     (\<forall>e k. up e \<longrightarrow>
        fst (kv_Delete kv k e) = Inr (if V e k = None then 0 else 1) \<and>
        up (snd (kv_Delete kv k e)) \<and> V (snd (kv_Delete kv k e)) = (V e)(k := None))"

subsection \<open>What the store keeps true\<close>

definition etcd_good_key :: "'e objectStoreNamespaced \<Rightarrow> string \<times> string \<Rightarrow> bool" where
  "etcd_good_key ob k \<longleftrightarrow>
     slash_free (fst k) \<and> slash_free (snd k) \<and> (namespaced ob \<or> fst k = [])"

definition etcd_good ::
  "'a ObjectMeta_scheme TypeLib \<Rightarrow> 'e objectStoreNamespaced \<Rightarrow> 'a ObjectMeta_scheme \<Rightarrow> bool" where
  "etcd_good T ob r \<longleftrightarrow> etcd_good_key ob (ns_key r) \<and> (\<exists>b. Marshal T r = Inr b)"

text \<open>The reports a store sees: the decodable values under its legal keys.\<close>

definition etcd_view ::
  "'r TypeLib \<Rightarrow> 'e objectStoreNamespaced \<Rightarrow> ('e \<Rightarrow> string \<rightharpoonup> string) \<Rightarrow> 'e world \<Rightarrow>
     string \<times> string \<rightharpoonup> 'r" where
  "etcd_view T ob V w k =
     (if etcd_good_key ob k
      then (case V (svc w) (getKey ob (snd k) (fst k)) of
              None \<Rightarrow> None
            | Some b \<Rightarrow> (case UnmarshalPtr T b of Inr (Some r) \<Rightarrow> Some r | _ \<Rightarrow> None))
      else None)"

text \<open>
  The representation invariant: the service answers, and below the store's own prefix there are
  only values under legal keys that decode to a report with just that key.
\<close>

definition etcd_inv ::
  "'a ObjectMeta_scheme TypeLib \<Rightarrow> ('a ObjectMeta_scheme \<Rightarrow> 'a ObjectMeta_scheme) \<Rightarrow>
     'e objectStoreNamespaced \<Rightarrow> ('e \<Rightarrow> string \<rightharpoonup> string) \<Rightarrow> ('e \<Rightarrow> bool) \<Rightarrow> 'e world \<Rightarrow> bool" where
  "etcd_inv T canon ob V up w \<longleftrightarrow>
     etcd_contract (etcdclient ob) V up \<and> json_roundtrip T canon \<and> up (svc w) \<and>
     (\<forall>x b. V (svc w) x = Some b \<longrightarrow> prefix (getPrefix ob []) x \<longrightarrow>
        (\<exists>k r. etcd_good_key ob k \<and> x = getKey ob (snd k) (fst k) \<and>
               UnmarshalPtr T b = Inr (Some r) \<and> ns_key r = k))"

subsection \<open>Keys are unambiguous\<close>

lemma getKey_cases:
  "getKey ob n ns = getPrefix ob [] @ (if ns = [] then n else ns @ CHR ''/'' # n)"
  by (simp add: getKey_def getPrefix_def)

lemma getPrefix_cases:
  "getPrefix ob ns = getPrefix ob [] @ (if ns = [] then [] else ns @ ''/'')"
  by (simp add: getPrefix_def)

lemma getKey_inject:
  assumes "slash_free n" "slash_free ns" "slash_free n'" "slash_free ns'"
  shows "getKey ob n ns = getKey ob n' ns' \<longleftrightarrow> n = n' \<and> ns = ns'"
  using assms append_sep_inj [of "CHR ''/''" ns ns' n n']
    append_sep_neq [of "CHR ''/''" n ns' n'] append_sep_neq [of "CHR ''/''" n' ns n]
  by (auto simp: getKey_cases slash_free_def)

lemma getKey_prefix:
  assumes "slash_free n" "slash_free ns" "slash_free q"
  shows "prefix (getPrefix ob q) (getKey ob n ns) \<longleftrightarrow> ns_sel q (ns, n)"
proof (cases "q = []")
  case True
  then show ?thesis by (simp add: getKey_cases ns_sel_def)
next
  case False
  have "prefix (q @ ''/'') (if ns = [] then n else ns @ CHR ''/'' # n) \<longleftrightarrow> ns = q"
    using False assms prefix_sep_iff [of "CHR ''/''" q ns n] prefix_sep_not [of "CHR ''/''" n q]
    by (auto simp: slash_free_def)
  then show ?thesis
    using False by (simp add: getKey_cases getPrefix_cases [of ob q] ns_sel_def)
qed

lemma etcd_good_keyD:
  assumes "etcd_good_key ob k"
  shows "slash_free (fst k)" and "slash_free (snd k)"
  using assms by (simp_all add: etcd_good_key_def)

lemma getKey_good_inject:
  assumes "etcd_good_key ob k" and "etcd_good_key ob k'"
  shows "getKey ob (snd k) (fst k) = getKey ob (snd k') (fst k') \<longleftrightarrow> k = k'"
  using getKey_inject [of "snd k" "fst k" "snd k'" "fst k'"] etcd_good_keyD [OF assms(1)]
    etcd_good_keyD [OF assms(2)]
  by (auto intro: prod_eqI)

subsection \<open>The operations refine a map\<close>

lemma etcd_invD:
  assumes "etcd_inv T canon ob V up w"
  shows "etcd_contract (etcdclient ob) V up" and "json_roundtrip T canon" and "up (svc w)"
    and "\<And>x b. V (svc w) x = Some b \<Longrightarrow> prefix (getPrefix ob []) x \<Longrightarrow>
        \<exists>k r. etcd_good_key ob k \<and> x = getKey ob (snd k) (fst k) \<and>
              UnmarshalPtr T b = Inr (Some r) \<and> ns_key r = k"
  using assms by (auto simp: etcd_inv_def)

lemma etcd_contract_put:
  assumes "etcd_contract kv V up" and "up e"
  shows "fst (kv_Put kv k v e) = None" and "up (snd (kv_Put kv k v e))"
    and "V (snd (kv_Put kv k v e)) = (V e)(k \<mapsto> v)"
  using assms by (auto simp: etcd_contract_def)

lemma etcd_contract_delete:
  assumes "etcd_contract kv V up" and "up e"
  shows "fst (kv_Delete kv k e) = Inr (if V e k = None then 0 else 1)"
    and "up (snd (kv_Delete kv k e))" and "V (snd (kv_Delete kv k e)) = (V e)(k := None)"
  using assms by (auto simp: etcd_contract_def)

lemma etcd_inv_svc:
  "svc w = svc w' \<Longrightarrow> etcd_inv T canon ob V up w = etcd_inv T canon ob V up w'"
  by (simp add: etcd_inv_def)

lemma etcd_view_svc: "svc w = svc w' \<Longrightarrow> etcd_view T ob V w = etcd_view T ob V w'"
  by (simp add: etcd_view_def fun_eq_iff)

text \<open>Under the invariant a key is either absent or holds the report the view shows.\<close>

lemma etcd_lookup:
  assumes "etcd_inv T canon ob V up w" and "etcd_good_key ob k"
  shows "(V (svc w) (getKey ob (snd k) (fst k)) = None \<and> etcd_view T ob V w k = None) \<or>
    (\<exists>b r. V (svc w) (getKey ob (snd k) (fst k)) = Some b \<and> UnmarshalPtr T b = Inr (Some r) \<and>
       etcd_view T ob V w k = Some r \<and> ns_key r = k)"
proof (cases "V (svc w) (getKey ob (snd k) (fst k))")
  case None
  with assms show ?thesis by (simp add: etcd_view_def)
next
  case (Some b)
  have "prefix (getPrefix ob []) (getKey ob (snd k) (fst k))"
    by (simp add: getKey_cases)
  with etcd_invD(4) [OF assms(1) Some] obtain k' r where
    k': "etcd_good_key ob k'" "getKey ob (snd k) (fst k) = getKey ob (snd k') (fst k')"
    and r: "UnmarshalPtr T b = Inr (Some r)" "ns_key r = k'"
    by blast
  from k' getKey_good_inject [OF assms(2) k'(1)] have "k' = k" by simp
  with Some r assms(2) show ?thesis by (simp add: etcd_view_def)
qed

lemma etcd_view_key:
  assumes "etcd_inv T canon ob V up w" and "etcd_view T ob V w k = Some r"
  shows "etcd_good_key ob k \<and> ns_key r = k"
proof -
  from assms(2) have "etcd_good_key ob k"
    by (auto simp: etcd_view_def split: if_splits)
  with etcd_lookup [OF assms(1) this] assms(2) show ?thesis by auto
qed

lemma etcd_kv_Get:
  assumes "etcd_inv T canon ob V up w"
  shows "kv_Get (etcdclient ob) k False (svc w) =
    Inr (case V (svc w) k of None \<Rightarrow> [] | Some v \<Rightarrow> [(k, v)])"
  using etcd_invD(1,3) [OF assms] by (simp add: etcd_contract_def)

lemma etcd_Get_keeps:
  "svc (snd (etcd_Get T ob n ns w)) = svc w"
  by (simp add: etcd_Get_def Let_def metric_simps split: sum.split)

lemma etcd_Get_result:
  assumes "etcd_inv T canon ob V up w" and "etcd_good_key ob (ns, n)"
  shows "fst (etcd_Get T ob n ns w) =
    (case etcd_view T ob V w (ns, n) of
       None \<Rightarrow> Inl (NotFound (gr ob) (getKey ob n ns))
     | Some r \<Rightarrow> Inr (Some r))"
  using etcd_lookup [OF assms] etcd_kv_Get [OF assms(1), of "getKey ob n ns"]
  by (auto simp: etcd_Get_def Let_def)

lemma etcd_List_keeps: "svc (snd (etcd_List T ob q w)) = svc w"
  by (simp add: etcd_List_def Let_def metric_simps split: sum.split)

text \<open>Below a prefix there is one pair for each report the list call selects.\<close>

lemma etcd_prefix_keys:
  assumes inv: "etcd_inv T canon ob V up w" and "slash_free q"
  shows "\<exists>ks. distinct ks \<and> set ks = {k \<in> dom (etcd_view T ob V w). ns_sel q k} \<and>
    kv_Get (etcdclient ob) (getPrefix ob q) True (svc w) =
      Inr (map (\<lambda>k. (getKey ob (snd k) (fst k), the (V (svc w) (getKey ob (snd k) (fst k))))) ks)"
proof -
  let ?key = "\<lambda>k. getKey ob (snd k) (fst k)" and ?v = "etcd_view T ob V w"
  from etcd_invD(1,3) [OF inv] obtain xs where
    xs: "distinct xs" "set xs = {x \<in> dom (V (svc w)). prefix (getPrefix ob q) x}"
    and get: "kv_Get (etcdclient ob) (getPrefix ob q) True (svc w) =
       Inr (map (\<lambda>x. (x, the (V (svc w) x))) xs)"
    unfolding etcd_contract_def by blast
  have "\<exists>k. (etcd_good_key ob k \<and> ns_sel q k \<and> k \<in> dom ?v) \<and> x = ?key k" if x: "x \<in> set xs" for x
  proof -
    from x xs(2) obtain b where b: "V (svc w) x = Some b" and p: "prefix (getPrefix ob q) x"
      by auto
    then have "prefix (getPrefix ob []) x"
      using getPrefix_cases [of ob q] by (metis append_prefixD)
    from etcd_invD(4) [OF inv b this] obtain k r where
      k: "etcd_good_key ob k" "x = ?key k" and r: "UnmarshalPtr T b = Inr (Some r)"
      by blast
    with b have "?v k = Some r" by (simp add: etcd_view_def)
    moreover have "ns_sel q k"
      using p k getKey_prefix [of "snd k" "fst k" q ob] etcd_good_keyD [OF k(1)] assms(2) by simp
    ultimately show ?thesis using k by blast
  qed
  from ex_map_pred [OF this] obtain ks where
    ks: "xs = map ?key ks" "\<And>k. k \<in> set ks \<Longrightarrow> etcd_good_key ob k \<and> ns_sel q k \<and> k \<in> dom ?v"
    by blast
  have "k \<in> set ks" if k: "k \<in> dom ?v" "ns_sel q k" for k
  proof -
    from k(1) have good: "etcd_good_key ob k" by (auto simp: etcd_view_def split: if_splits)
    with k(1) have "?key k \<in> dom (V (svc w))"
      by (auto simp: etcd_view_def split: option.splits)
    moreover have "prefix (getPrefix ob q) (?key k)"
      using k(2) getKey_prefix [of "snd k" "fst k" q ob] etcd_good_keyD [OF good] assms(2) by simp
    ultimately have "?key k \<in> ?key ` set ks" using xs(2) ks(1) by auto
    then show ?thesis using getKey_good_inject [OF good] ks(2) by auto
  qed
  with ks(2) have "set ks = {k \<in> dom ?v. ns_sel q k}" by blast
  moreover from xs(1) ks(1) have "distinct ks" by (simp add: distinct_map)
  ultimately show ?thesis using get ks(1) by (auto simp: comp_def)
qed

lemma etcd_List_result:
  assumes inv: "etcd_inv T canon ob V up w" and "slash_free q"
  shows "\<exists>ks. distinct ks \<and> set ks = {k \<in> dom (etcd_view T ob V w). ns_sel q k} \<and>
    fst (etcd_List T ob q w) = Inr (map (etcd_view T ob V w) ks)"
proof -
  let ?key = "\<lambda>k. getKey ob (snd k) (fst k)" and ?v = "etcd_view T ob V w"
  let ?decode = "\<lambda>v. case UnmarshalPtr T (snd v) of
      Inl err \<Rightarrow> Inl (NotFound (gr ob) (getPrefix ob q)) | Inr obj \<Rightarrow> Inr obj"
  let ?kvs = "\<lambda>ks. map (\<lambda>k. (?key k, the (V (svc w) (?key k)))) ks"
  from etcd_prefix_keys [OF assms] obtain ks where
    ks: "distinct ks" "set ks = {k \<in> dom ?v. ns_sel q k}"
    and get: "kv_Get (etcdclient ob) (getPrefix ob q) True (svc w) = Inr (?kvs ks)"
    by blast
  have "map_result ?decode (?kvs ks) = Inr (map ?v ks)"
    unfolding map_result_map
  proof (rule map_result_all_Inr)
    fix k assume "k \<in> set ks"
    then obtain r where r: "?v k = Some r" using ks(2) by blast
    with etcd_lookup [OF inv conjunct1 [OF etcd_view_key [OF inv r]]]
    show "?decode (?key k, the (V (svc w) (?key k))) = Inr (?v k)" by auto
  qed
  then have "fst (etcd_List T ob q w) = Inr (map ?v ks)"
    using get by (cases "ks = []") (simp_all add: etcd_List_def Let_def)
  with ks show ?thesis by blast
qed

text \<open>Writing a report under its key: the map gets the decoded report, the invariant stays.\<close>

lemma etcd_put:
  assumes inv: "etcd_inv T canon ob V up w" and good: "etcd_good T ob r"
    and b: "Marshal T r = Inr b" and w': "svc w' = e"
    and put: "kv_Put (etcdclient ob) (getKey ob (Name r) (Namespace r)) b (svc w) = (x, e)"
  shows "x = None \<and> etcd_view T ob V w' = (etcd_view T ob V w)(ns_key r \<mapsto> canon r) \<and>
    etcd_inv T canon ob V up w'"
proof -
  let ?key = "getKey ob (Name r) (Namespace r)"
  from good have gk: "etcd_good_key ob (ns_key r)" by (simp add: etcd_good_def)
  from etcd_contract_put [OF etcd_invD(1,3) [OF inv], of ?key b] put
  have x: "x = None" and up: "up e" and V: "V e = (V (svc w))(?key \<mapsto> b)"
    by simp_all
  from etcd_invD(2) [OF inv] b have dec: "UnmarshalPtr T b = Inr (Some (canon r))"
    and key: "ns_key (canon r) = ns_key r"
    by (simp_all add: json_roundtrip_def ns_key_def)
  have "etcd_view T ob V w' k = ((etcd_view T ob V w)(ns_key r \<mapsto> canon r)) k" for k
    using getKey_good_inject [OF gk, of k] dec gk
    by (auto simp: etcd_view_def w' V ns_key_def)
  moreover have "\<exists>k r'. etcd_good_key ob k \<and> x = getKey ob (snd k) (fst k) \<and>
      UnmarshalPtr T c = Inr (Some r') \<and> ns_key r' = k"
    if "((V (svc w))(?key \<mapsto> b)) x = Some c" and "prefix (getPrefix ob []) x" for x c
  proof (cases "x = ?key")
    case True
    with that(1) have "c = b" by simp
    with True gk dec key show ?thesis by (auto simp: ns_key_def)
  next
    case False
    with that etcd_invD(4) [OF inv, of x c] show ?thesis by simp
  qed
  with etcd_invD(1-3) [OF inv] up have "etcd_inv T canon ob V up w'"
    unfolding etcd_inv_def w' V by blast
  ultimately show ?thesis using x by blast
qed

lemma etcd_Create_result:
  assumes inv: "etcd_inv T canon ob V up w" and good: "etcd_good T ob r"
  shows "fst (etcd_Create T ob (Some r) w) =
      (if etcd_view T ob V w (ns_key r) = None then None
       else Some (AlreadyExists (gr ob) (getKey ob (Name r) (Namespace r)))) \<and>
    etcd_view T ob V (snd (etcd_Create T ob (Some r) w)) =
      (if etcd_view T ob V w (ns_key r) = None
       then (etcd_view T ob V w)(ns_key r \<mapsto> canon r) else etcd_view T ob V w) \<and>
    etcd_inv T canon ob V up (snd (etcd_Create T ob (Some r) w))"
proof -
  let ?key = "getKey ob (Name r) (Namespace r)"
  let ?w1 = "count_request ''etcd'' ''create'' (gvk_String T (gvk ob)) w"
  from good obtain b where b: "Marshal T r = Inr b" by (auto simp: etcd_good_def)
  from good have gk: "etcd_good_key ob (ns_key r)" by (simp add: etcd_good_def)
  show ?thesis
  proof (cases "V (svc w) ?key")
    case (Some c)
    then show ?thesis
      using etcd_lookup [OF inv gk] etcd_kv_Get [OF inv, of ?key] inv
      by (auto simp: etcd_Create_def ns_key_def Let_def metric_simps
          etcd_view_svc [of ?w1 w] etcd_inv_svc [of ?w1 w])
  next
    case None
    obtain x e where put: "kv_Put (etcdclient ob) ?key b (svc w) = (x, e)" by fastforce
    let ?w' = "UpdatePolicyReportMetrics ''etcd'' ''create'' (as_any T r) False (?w1\<lparr>svc := e\<rparr>)"
    have "svc ?w' = e" by (simp add: metric_simps)
    from etcd_put [OF inv good b this put] None put show ?thesis
      using etcd_lookup [OF inv gk] etcd_kv_Get [OF inv, of ?key] b
      by (auto simp: etcd_Create_def ns_key_def Let_def metric_simps)
  qed
qed

lemma etcd_Update_result:
  assumes inv: "etcd_inv T canon ob V up w" and good: "etcd_good T ob r"
  shows "fst (etcd_Update T ob (Some r) w) =
      (if etcd_view T ob V w (ns_key r) = None
       then Some (NotFound (gr ob) (getKey ob (Name r) (Namespace r))) else None) \<and>
    etcd_view T ob V (snd (etcd_Update T ob (Some r) w)) =
      (if etcd_view T ob V w (ns_key r) = None then etcd_view T ob V w
       else (etcd_view T ob V w)(ns_key r \<mapsto> canon r)) \<and>
    etcd_inv T canon ob V up (snd (etcd_Update T ob (Some r) w))"
proof -
  let ?key = "getKey ob (Name r) (Namespace r)"
  let ?w1 = "count_request ''etcd'' ''update'' (gvk_String T (gvk ob)) w"
  from good obtain b where b: "Marshal T r = Inr b" by (auto simp: etcd_good_def)
  from good have gk: "etcd_good_key ob (ns_key r)" by (simp add: etcd_good_def)
  show ?thesis
  proof (cases "V (svc w) ?key")
    case None
    then show ?thesis
      using etcd_lookup [OF inv gk] etcd_kv_Get [OF inv, of ?key] inv
      by (auto simp: etcd_Update_def ns_key_def Let_def metric_simps
          etcd_view_svc [of ?w1 w] etcd_inv_svc [of ?w1 w])
  next
    case (Some c)
    obtain x e where put: "kv_Put (etcdclient ob) ?key b (svc w) = (x, e)" by fastforce
    let ?w' = "UpdatePolicyReportMetrics ''etcd'' ''update'' (as_any T r) False (?w1\<lparr>svc := e\<rparr>)"
    have "svc ?w' = e" by (simp add: metric_simps)
    from etcd_put [OF inv good b this put] Some put show ?thesis
      using etcd_lookup [OF inv gk] etcd_kv_Get [OF inv, of ?key] b
      by (auto simp: etcd_Update_def ns_key_def Let_def metric_simps)
  qed
qed

lemma etcd_Delete_result:
  assumes inv: "etcd_inv T canon ob V up w" and gk: "etcd_good_key ob (ns, n)"
  shows "fst (etcd_Delete T ob n ns w) =
      (if etcd_view T ob V w (ns, n) = None then Some (NotFound (gr ob) (getKey ob n ns)) else None) \<and>
    etcd_view T ob V (snd (etcd_Delete T ob n ns w)) = (etcd_view T ob V w)((ns, n) := None) \<and>
    etcd_inv T canon ob V up (snd (etcd_Delete T ob n ns w))"
proof -
  let ?key = "getKey ob n ns"
  obtain x e where del: "kv_Delete (etcdclient ob) ?key (svc w) = (x, e)" by fastforce
  from etcd_contract_delete [OF etcd_invD(1,3) [OF inv], of ?key] del
  have x: "x = Inr (if V (svc w) ?key = None then 0 else 1)" and up: "up e"
    and V: "V e = (V (svc w))(?key := None)"
    by simp_all
  have svc: "svc (snd (etcd_Delete T ob n ns w)) = e"
    by (simp add: etcd_Delete_def del x Let_def metric_simps)
  have "etcd_view T ob V (snd (etcd_Delete T ob n ns w)) k =
      ((etcd_view T ob V w)((ns, n) := None)) k" for k
    using getKey_good_inject [OF gk, of k] gk
    by (auto simp: etcd_view_def svc V)
  moreover have "etcd_inv T canon ob V up (snd (etcd_Delete T ob n ns w))"
    unfolding etcd_inv_def svc V using etcd_invD [OF inv] up
    by (simp split: if_splits)
  moreover have "fst (etcd_Delete T ob n ns w) =
      (if etcd_view T ob V w (ns, n) = None then Some (NotFound (gr ob) ?key) else None)"
    using etcd_lookup [OF inv gk] by (auto simp: etcd_Delete_def del x Let_def)
  ultimately show ?thesis by blast
qed

text \<open>Reads change nothing any store can see.\<close>

lemma etcd_reads_keep [simp]:
  "etcd_inv T canon ob V up (snd (etcd_Get T' ob' n ns w)) = etcd_inv T canon ob V up w"
  "etcd_view T ob V (snd (etcd_Get T' ob' n ns w)) = etcd_view T ob V w"
  "etcd_inv T canon ob V up (snd (etcd_List T' ob' q w)) = etcd_inv T canon ob V up w"
  "etcd_view T ob V (snd (etcd_List T' ob' q w)) = etcd_view T ob V w"
  by (rule etcd_inv_svc etcd_view_svc, rule etcd_Get_keeps etcd_List_keeps)+

subsection \<open>Both stores implement the contract\<close>

definition etcd_cluster_view ::
  "'r TypeLib \<Rightarrow> 'e objectStoreNamespaced \<Rightarrow> ('e \<Rightarrow> string \<rightharpoonup> string) \<Rightarrow> 'e world \<Rightarrow> string \<rightharpoonup> 'r" where
  "etcd_cluster_view T ob V w n = etcd_view T ob V w ([], n)"

lemma store_simps [simp]:
  "namespaced (ns_store c k g)" "etcdclient (ns_store c k g) = c" "gvk (ns_store c k g) = k"
  "gr (ns_store c k g) = g"
  "\<not> namespaced (cl_store c k g)" "etcdclient (cl_store c k g) = c" "gvk (cl_store c k g) = k"
  "gr (cl_store c k g) = g"
  by (simp_all add: ns_store_def cl_store_def)

lemma NewObjectStoreNamespaced_simps [simp]:
  "nGet (NewObjectStoreNamespaced T c k g) = etcd_Get T (ns_store c k g)"
  "nList (NewObjectStoreNamespaced T c k g) = etcd_List T (ns_store c k g)"
  "nCreate (NewObjectStoreNamespaced T c k g) = etcd_Create T (ns_store c k g)"
  "nUpdate (NewObjectStoreNamespaced T c k g) = etcd_Update T (ns_store c k g)"
  "nDelete (NewObjectStoreNamespaced T c k g) = etcd_Delete T (ns_store c k g)"
  by (simp_all add: NewObjectStoreNamespaced_def Let_def)

lemma NewObjectStoreCluster_simps [simp]:
  "cGet (NewObjectStoreCluster T c k g) n = etcd_Get T (cl_store c k g) n []"
  "cList (NewObjectStoreCluster T c k g) = etcd_List T (cl_store c k g) []"
  "cCreate (NewObjectStoreCluster T c k g) = etcd_Create T (cl_store c k g)"
  "cUpdate (NewObjectStoreCluster T c k g) = etcd_Update T (cl_store c k g)"
  "cDelete (NewObjectStoreCluster T c k g) n = etcd_Delete T (cl_store c k g) n []"
  by (simp_all add: NewObjectStoreCluster_def Let_def etcd_cluster_Get_def etcd_cluster_List_def
      etcd_cluster_Create_def etcd_cluster_Update_def etcd_cluster_Delete_def fun_eq_iff)

interpretation etcd_ns: report_storage "ns_ops (NewObjectStoreNamespaced T c k g)" ns_key ns_sel
  canon False "etcd_good_key (ns_store c k g)" slash_free "etcd_good T (ns_store c k g)"
  "etcd_view T (ns_store c k g) V" "etcd_inv T canon (ns_store c k g) V up"
  for T :: "'a ObjectMeta_scheme TypeLib" and c :: "'e KV" and k g canon V up
proof (unfold_locales, goal_cases)
  case (1 s x)
  then show ?case by (cases x) (auto simp: etcd_Get_result split: option.split)
next
  case (2 s q)
  then show ?case using etcd_List_result by simp
next
  case (3 s r)
  then show ?case using etcd_Create_result [OF 3] by auto
next
  case (4 s r)
  then show ?case using etcd_Update_result [OF 4] by auto
next
  case (5 s x)
  then show ?case
    using etcd_Delete_result [OF 5(1), of "fst x" "snd x"] by (cases x) auto
next
  case (6 s x r)
  then show ?case by (rule etcd_view_key)
next
  case (7 r)
  then show ?case by (simp add: etcd_good_def)
next
  case (8 s r)
  then show ?case by (auto simp: etcd_inv_def json_roundtrip_def etcd_good_def ns_key_def)
qed

text \<open>In a cluster-scoped store every legal key has the empty namespace.\<close>

lemma cl_store_good_key:
  "etcd_good_key (cl_store c k g) x \<longleftrightarrow> fst x = [] \<and> slash_free (snd x)"
  by (auto simp: etcd_good_key_def slash_free_def)

lemma cl_store_ns_key:
  "etcd_good T (cl_store c k g) r \<Longrightarrow> ns_key r = ([], cl_key r)"
  by (simp add: etcd_good_def cl_store_good_key ns_key_def cl_key_def)

lemma etcd_cluster_view_upd:
  "etcd_view T ob V w' = (etcd_view T ob V w)(([], n) := x) \<Longrightarrow>
     etcd_cluster_view T ob V w' = (etcd_cluster_view T ob V w)(n := x)"
  by (auto simp: etcd_cluster_view_def fun_eq_iff)

interpretation etcd_cl: report_storage "cl_ops (NewObjectStoreCluster T c k g)" cl_key cl_sel
  canon False slash_free "\<lambda>_. True" "etcd_good T (cl_store c k g)"
  "etcd_cluster_view T (cl_store c k g) V" "etcd_inv T canon (cl_store c k g) V up"
  for T :: "'a ObjectMeta_scheme TypeLib" and c :: "'e KV" and k g canon V up
proof (unfold_locales, goal_cases)
  case (1 s n)
  then show ?case
    by (auto simp: etcd_Get_result cl_store_good_key etcd_cluster_view_def split: option.split)
next
  case (2 s q)
  let ?v = "etcd_view T (cl_store c k g) V s"
  have "slash_free []" by (simp add: slash_free_def)
  from etcd_List_result [OF 2(1) this] obtain ks where
    ks: "distinct ks" "set ks = {k \<in> dom ?v. ns_sel [] k}"
    and res: "fst (etcd_List T (cl_store c k g) [] s) = Inr (map ?v ks)"
    by blast
  have nil: "fst x = []" if "x \<in> dom ?v" for x
    using that etcd_view_key [OF 2(1)] by (fastforce simp: cl_store_good_key)
  with ks(2) have eq: "map (\<lambda>x. ([], snd x)) ks = ks"
    by (intro map_idI) (metis (mono_tags, lifting) mem_Collect_eq prod.collapse)
  have "map (etcd_cluster_view T (cl_store c k g) V s) (map snd ks) =
      map ?v (map (\<lambda>x. ([], snd x)) ks)"
    by (simp add: etcd_cluster_view_def)
  then have "map ?v ks = map (etcd_cluster_view T (cl_store c k g) V s) (map snd ks)"
    by (simp add: eq)
  moreover have "inj_on snd (set ks)"
    using nil ks(2) by (intro inj_onI) (auto simp: prod_eq_iff)
  then have "distinct (map snd ks)" using ks(1) by (simp add: distinct_map)
  moreover have "set (map snd ks) =
      {n \<in> dom (etcd_cluster_view T (cl_store c k g) V s). cl_sel q n}"
    using ks(2) nil by (force simp: etcd_cluster_view_def cl_sel_def ns_sel_def dom_def)
  ultimately have "\<exists>ns. distinct ns \<and>
      set ns = {n \<in> dom (etcd_cluster_view T (cl_store c k g) V s). cl_sel q n} \<and>
      map ?v ks = map (etcd_cluster_view T (cl_store c k g) V s) ns"
    by blast
  with 2 res show ?case by (simp add: etcd_cluster_view_def [abs_def])
next
  case (3 s r)
  then show ?case
    using etcd_Create_result [OF 3] cl_store_ns_key [OF 3(2)] etcd_cluster_view_upd
    by (auto simp: etcd_cluster_view_def)
next
  case (4 s r)
  then show ?case
    using etcd_Update_result [OF 4] cl_store_ns_key [OF 4(2)] etcd_cluster_view_upd
    by (auto simp: etcd_cluster_view_def)
next
  case (5 s n)
  then show ?case
    using etcd_Delete_result [OF 5(1), of "[]" n] etcd_cluster_view_upd
    by (auto simp: cl_store_good_key etcd_cluster_view_def)
next
  case (6 s n r)
  then show ?case
    using etcd_view_key [OF 6(1), of "([], n)" r]
    by (auto simp: etcd_cluster_view_def cl_store_good_key ns_key_def cl_key_def)
next
  case (7 r)
  then show ?case by (simp add: etcd_good_def cl_store_good_key ns_key_def cl_key_def)
next
  case (8 s r)
  then show ?case by (auto simp: etcd_inv_def json_roundtrip_def etcd_good_def cl_key_def)
qed

subsection \<open>The four stores do not see each other\<close>

definition report_kinds :: "GroupVersionKind list" where
  "report_kinds =
     [PolicyReportsGVK, ClusterPolicyReportsGVK, EphemeralReportsGVK, ClusterEphemeralReportsGVK]"

lemmas kind_consts = report_kinds_def PolicyReportsGVK_def ClusterPolicyReportsGVK_def
  EphemeralReportsGVK_def ClusterEphemeralReportsGVK_def wgpolicy_WithKind_def reportsv1_WithKind_def

lemma kinds_disjoint:
  assumes "gvk ob1 \<in> set report_kinds" "gvk ob2 \<in> set report_kinds" "gvk ob1 \<noteq> gvk ob2"
  shows "\<not> prefix (getPrefix ob1 []) (getKey ob2 n ns)"
  using assms by (auto simp: kind_consts getKey_def getPrefix_def)

text \<open>A state that differs only in keys of other kinds looks the same to a store.\<close>

lemma etcd_frame:
  assumes "\<And>x. prefix (getPrefix ob []) x \<Longrightarrow> V (svc w') x = V (svc w) x"
  shows "etcd_view T ob V w' = etcd_view T ob V w"
    and "up (svc w') \<Longrightarrow> etcd_inv T canon ob V up w \<Longrightarrow> etcd_inv T canon ob V up w'"
proof -
  show "etcd_view T ob V w' = etcd_view T ob V w"
    using assms by (auto simp: etcd_view_def fun_eq_iff getKey_cases)
  show "up (svc w') \<Longrightarrow> etcd_inv T canon ob V up w \<Longrightarrow> etcd_inv T canon ob V up w'"
    using assms unfolding etcd_inv_def by metis
qed

text \<open>An operation touches at most the key of the report it is given.\<close>

fun cmd_key :: "(string \<times> string, string, 'a ObjectMeta_scheme) cmd \<Rightarrow> (string \<times> string) option" where
  "cmd_key (CreateCmd r) = Some (ns_key r)"
| "cmd_key (UpdateCmd r) = Some (ns_key r)"
| "cmd_key (DeleteCmd k) = Some k"
| "cmd_key _ = None"

lemma etcd_Create_svc:
  "svc (snd (etcd_Create T ob (Some r) w)) = svc w \<or>
   (\<exists>b. svc (snd (etcd_Create T ob (Some r) w)) =
      snd (kv_Put (etcdclient ob) (getKey ob (Name r) (Namespace r)) b (svc w)))"
  by (auto simp: etcd_Create_def Let_def metric_simps split: sum.split prod.split option.split)
    (metis snd_conv)+

lemma etcd_Update_svc:
  "svc (snd (etcd_Update T ob (Some r) w)) = svc w \<or>
   (\<exists>b. svc (snd (etcd_Update T ob (Some r) w)) =
      snd (kv_Put (etcdclient ob) (getKey ob (Name r) (Namespace r)) b (svc w)))"
  by (auto simp: etcd_Update_def Let_def metric_simps split: sum.split prod.split option.split)
    (metis snd_conv)+

lemma etcd_Delete_svc:
  "svc (snd (etcd_Delete T ob n ns w)) = snd (kv_Delete (etcdclient ob) (getKey ob n ns) (svc w))"
  by (simp add: etcd_Delete_def Let_def metric_simps split: sum.split prod.split)

text \<open>Both kinds of stores as operations on a struct, keyed by namespace and name.\<close>

definition object_ops ::
  "'a ObjectMeta_scheme TypeLib \<Rightarrow> 'e objectStoreNamespaced \<Rightarrow>
     ('e world, string \<times> string, string, 'a ObjectMeta_scheme) ops" where
  "object_ops T ob =
     \<lparr>getK = (\<lambda>(ns, n). etcd_Get T ob n ns), listQ = etcd_List T ob, createR = etcd_Create T ob,
      updateR = etcd_Update T ob, deleteK = (\<lambda>(ns, n). etcd_Delete T ob n ns)\<rparr>"

lemma object_ops_simps [simp]:
  "getK (object_ops T ob) (ns, n) = etcd_Get T ob n ns" "listQ (object_ops T ob) = etcd_List T ob"
  "createR (object_ops T ob) = etcd_Create T ob" "updateR (object_ops T ob) = etcd_Update T ob"
  "deleteK (object_ops T ob) (ns, n) = etcd_Delete T ob n ns"
  by (simp_all add: object_ops_def)

lemma ns_store_object_ops:
  "ns_ops (NewObjectStoreNamespaced T c k g) = object_ops T (ns_store c k g)"
  by (simp add: ns_ops_def object_ops_def)

lemma cl_store_object_ops:
  "do_cmd (cl_ops (NewObjectStoreCluster T kv k g)) c w =
     do_cmd (object_ops T (cl_store kv k g)) (map_cmd (Pair []) (\<lambda>_. []) id c) w"
  by (cases c) simp_all

lemma etcd_cmd_touches:
  fixes c :: "(string \<times> string, string, 'a ObjectMeta_scheme) cmd"
  assumes con: "etcd_contract (etcdclient ob) V up" and up: "up (svc w)"
    and x: "\<And>k. cmd_key c = Some k \<Longrightarrow> x \<noteq> getKey ob (snd k) (fst k)"
  shows "V (svc (snd (do_cmd (object_ops T ob) c w))) x = V (svc w) x \<and>
    up (svc (snd (do_cmd (object_ops T ob) c w)))"
proof (cases c)
  case (GetCmd k)
  then show ?thesis using up by (cases k) (simp add: case_prod_unfold Let_def etcd_Get_keeps)
next
  case (ListCmd q)
  then show ?thesis using up by (simp add: case_prod_unfold Let_def etcd_List_keeps)
next
  case (CreateCmd r)
  then show ?thesis
    using etcd_Create_svc [of T ob r w] etcd_contract_put [OF con up] x up
    by (auto simp: case_prod_unfold Let_def ns_key_def)
next
  case (UpdateCmd r)
  then show ?thesis
    using etcd_Update_svc [of T ob r w] etcd_contract_put [OF con up] x up
    by (auto simp: case_prod_unfold Let_def ns_key_def)
next
  case (DeleteCmd k)
  then show ?thesis
    using etcd_contract_delete [OF con up] x
    by (cases k) (auto simp: case_prod_unfold Let_def etcd_Delete_svc)
qed

lemma etcd_other_kind:
  assumes con: "etcd_contract (etcdclient ob1) V up" and up: "up (svc w)"
    and kinds: "gvk ob1 \<in> set report_kinds" "gvk ob2 \<in> set report_kinds" "gvk ob1 \<noteq> gvk ob2"
    and w': "w' = snd (do_cmd (object_ops T1 ob1) c w)"
  shows "etcd_view T2 ob2 V w' = etcd_view T2 ob2 V w \<and>
    (etcd_inv T2 canon ob2 V up w \<longrightarrow> etcd_inv T2 canon ob2 V up w')"
proof -
  have "V (svc w') x = V (svc w) x \<and> up (svc w')" if "prefix (getPrefix ob2 []) x" for x
    unfolding w'
  proof (rule etcd_cmd_touches [OF con up])
    show "x \<noteq> getKey ob1 (snd k) (fst k)" if "cmd_key c = Some k" for k
      using kinds_disjoint [of ob2 ob1] kinds \<open>prefix (getPrefix ob2 []) x\<close> by metis
  qed
  with etcd_frame [where ob = ob2 and w = w and w' = w' and V = V] show ?thesis
    by (metis prefix_order.refl)
qed

text \<open>
  An association list as a key/value service, which meets the contract; the witnesses run the
  store on it.
\<close>

definition alist_kv :: "(string \<times> string) list KV" where
  "alist_kv =
     \<lparr>kv_Get = (\<lambda>k p e. Inr (if p then filter (\<lambda>(x, v). prefix k x) e
                             else case map_of e k of None \<Rightarrow> [] | Some v \<Rightarrow> [(k, v)])),
      kv_Put = (\<lambda>k v e. (None, AList.update k v e)),
      kv_Delete = (\<lambda>k e. (Inr (if map_of e k = None then 0 else 1), AList.delete k e))\<rparr>"

definition alist_up :: "(string \<times> string) list \<Rightarrow> bool" where
  "alist_up e \<longleftrightarrow> distinct (map fst e)"

subsection \<open>Properties\<close>

text \<open>
  Storage keys are unambiguous: two reports of a kind whose names and namespaces contain no
  slash are stored under the same etcd key only if they have the same name and namespace.
\<close>

lemma etcd_keys_injective:
  assumes "slash_free n" "slash_free ns" "slash_free n'" "slash_free ns'"
  shows "getKey ob n ns = getKey ob n' ns' \<longleftrightarrow> n = n' \<and> ns = ns'"
  using assms getKey_inject by blast

lemma alist_prefix_keys:
  assumes "alist_up e"
  shows "\<exists>ks. distinct ks \<and> set ks = {k \<in> dom (map_of e). prefix p k} \<and>
    filter (\<lambda>(x, v). prefix p x) e = map (\<lambda>k. (k, the (map_of e k))) ks"
proof (intro exI conjI)
  let ?f = "filter (\<lambda>(x, v). prefix p x) e"
  show "distinct (map fst ?f)"
    using assms unfolding alist_up_def by (induction e) auto
  show "set (map fst ?f) = {k \<in> dom (map_of e). prefix p k}"
    by (force simp: dom_map_of_conv_image_fst)
  have "(k, v) \<in> set e \<Longrightarrow> map_of e k = Some v" for k v
    using assms by (simp add: alist_up_def)
  then have "map (\<lambda>x. (fst x, the (map_of e (fst x)))) ?f = ?f"
    by (intro map_idI) auto
  then show "?f = map (\<lambda>k. (k, the (map_of e k))) (map fst ?f)"
    by (simp add: comp_def)
qed

lemma alist_kv_contract: "etcd_contract alist_kv map_of alist_up"
  using alist_prefix_keys unfolding etcd_contract_def
  by (auto simp: alist_kv_def alist_up_def update_conv' delete_conv' distinct_update distinct_delete
      split: option.split)

lemma etcd_inv_empty:
  assumes "json_roundtrip T canon"
  shows "etcd_inv T canon (ns_store alist_kv k g) map_of alist_up \<lparr>svc = [], mx = no_metrics\<rparr>"
    and "etcd_inv T canon (cl_store alist_kv k g) map_of alist_up \<lparr>svc = [], mx = no_metrics\<rparr>"
  using assms alist_kv_contract by (simp_all add: etcd_inv_def alist_up_def)

text \<open>
  C6. The namespaced etcd store refines a map from (namespace, name) to reports: on a service
  that honours its contract, any sequence of Get, List, Create, Update and Delete calls on legal
  keys and encodable reports gives the replies the map gives, leaves the contents the map has,
  and keeps the store's invariant.
\<close>

theorem etcd_namespaced_refines:
  assumes "etcd_inv T canon (ns_store kv k g) V up w"
    and "\<forall>c \<in> set cs. good_cmd (etcd_good_key (ns_store kv k g)) slash_free
           (etcd_good T (ns_store kv k g)) c"
  shows "fst (run_cmds (do_cmd (ns_ops (NewObjectStoreNamespaced T kv k g))) cs w) =
      fst (run_cmds (spec_cmd ns_key ns_sel canon False) cs (etcd_view T (ns_store kv k g) V w)) \<and>
    etcd_view T (ns_store kv k g) V
        (snd (run_cmds (do_cmd (ns_ops (NewObjectStoreNamespaced T kv k g))) cs w)) =
      snd (run_cmds (spec_cmd ns_key ns_sel canon False) cs (etcd_view T (ns_store kv k g) V w)) \<and>
    etcd_inv T canon (ns_store kv k g) V up
        (snd (run_cmds (do_cmd (ns_ops (NewObjectStoreNamespaced T kv k g))) cs w))"
  using assms by (intro etcd_ns.run_refines) auto

theorem etcd_namespaced_refines_witness:
  "fst (run_cmds (do_cmd (ns_ops (NewObjectStoreNamespaced
          (table_lib [(''x'', sample_polr)] PolicyReportPtr) alist_kv PolicyReportsGVK PolicyReportsGR)))
        [CreateCmd sample_polr, CreateCmd sample_polr, GetCmd (''default'', ''a''), ListCmd ''kube'',
         DeleteCmd (''default'', ''a''), GetCmd (''default'', ''a'')]
        \<lparr>svc = [], mx = no_metrics\<rparr>) =
     [Done, Failed, Found sample_polr, Listed {}, Done, Failed]"
proof -
  have view: "etcd_view T ob map_of \<lparr>svc = [], mx = no_metrics\<rparr> = Map.empty"
    for T :: "PolicyReport TypeLib" and ob :: "(string \<times> string) list objectStoreNamespaced"
    by (simp add: etcd_view_def fun_eq_iff)
  show ?thesis
    by (subst etcd_namespaced_refines [OF etcd_inv_empty(1) [OF sample_lib(1)], THEN conjunct1])
      (auto simp: view ns_key_def ns_sel_def etcd_good_def etcd_good_key_def slash_free_def
        sample_lib(2))
qed

text \<open>
  C23. The cluster-scoped etcd store, which wraps a namespaced store and passes the empty
  namespace, refines a map from names to reports in the same sense.
\<close>

theorem etcd_cluster_refines:
  assumes "etcd_inv T canon (cl_store kv k g) V up w"
    and "\<forall>c \<in> set cs. good_cmd slash_free (\<lambda>_. True) (etcd_good T (cl_store kv k g)) c"
  shows "fst (run_cmds (do_cmd (cl_ops (NewObjectStoreCluster T kv k g))) cs w) =
      fst (run_cmds (spec_cmd cl_key cl_sel canon False) cs
             (etcd_cluster_view T (cl_store kv k g) V w)) \<and>
    etcd_cluster_view T (cl_store kv k g) V
        (snd (run_cmds (do_cmd (cl_ops (NewObjectStoreCluster T kv k g))) cs w)) =
      snd (run_cmds (spec_cmd cl_key cl_sel canon False) cs
             (etcd_cluster_view T (cl_store kv k g) V w)) \<and>
    etcd_inv T canon (cl_store kv k g) V up
        (snd (run_cmds (do_cmd (cl_ops (NewObjectStoreCluster T kv k g))) cs w))"
  using assms by (intro etcd_cl.run_refines) auto

theorem etcd_cluster_refines_witness:
  "fst (run_cmds (do_cmd (cl_ops (NewObjectStoreCluster
          (table_lib [(''x'', sample_cpolr)] ClusterPolicyReportPtr) alist_kv
          ClusterPolicyReportsGVK ClusterPolicyReportsGR)))
        [UpdateCmd sample_cpolr, CreateCmd sample_cpolr, UpdateCmd sample_cpolr, ListCmd (),
         DeleteCmd ''a'', DeleteCmd ''a'']
        \<lparr>svc = [], mx = no_metrics\<rparr>) =
     [Failed, Done, Done, Listed {sample_cpolr}, Done, Failed]"
proof -
  have view: "etcd_cluster_view T ob map_of \<lparr>svc = [], mx = no_metrics\<rparr> = Map.empty"
    for T :: "PolicyReport TypeLib" and ob :: "(string \<times> string) list objectStoreNamespaced"
    by (simp add: etcd_cluster_view_def etcd_view_def fun_eq_iff)
  show ?thesis
    by (subst etcd_cluster_refines [OF etcd_inv_empty(2) [OF sample_lib(1)], THEN conjunct1])
      (auto simp: view cl_key_def cl_sel_def ns_key_def etcd_good_def etcd_good_key_def slash_free_def
        sample_lib(2))
qed

text \<open>
  C24. The four stores share one etcd but do not see each other: a command on the namespaced or
  the cluster-scoped store of one kind changes nothing a store of another kind can see, and keeps
  its invariant. (Two of the kinds share the kind name; their groups differ.)
\<close>

theorem etcd_kinds_isolated:
  assumes "etcd_contract kv V up" and "up (svc w)"
    and "k1 \<in> set report_kinds" and "gvk ob2 \<in> set report_kinds" and "k1 \<noteq> gvk ob2"
  shows "(let w' = snd (do_cmd (ns_ops (NewObjectStoreNamespaced T1 kv k1 g1)) c w)
      in etcd_view T2 ob2 V w' = etcd_view T2 ob2 V w \<and>
         (etcd_inv T2 canon ob2 V up w \<longrightarrow> etcd_inv T2 canon ob2 V up w')) \<and>
    (let w' = snd (do_cmd (cl_ops (NewObjectStoreCluster T1 kv k1 g1)) c' w)
      in etcd_view T2 ob2 V w' = etcd_view T2 ob2 V w \<and>
         (etcd_inv T2 canon ob2 V up w \<longrightarrow> etcd_inv T2 canon ob2 V up w'))"
  unfolding Let_def ns_store_object_ops cl_store_object_ops
  by (intro conjI [OF etcd_other_kind [OF _ _ _ _ _ refl] etcd_other_kind [OF _ _ _ _ _ refl]])
    (simp_all add: assms)

theorem etcd_kinds_isolated_witness:
  "etcd_view (table_lib [(''x'', sample_cpolr)] ClusterPolicyReportPtr)
     (cl_store alist_kv ClusterPolicyReportsGVK ClusterPolicyReportsGR) map_of
     (snd (do_cmd (ns_ops (NewObjectStoreNamespaced
        (table_lib [(''x'', sample_polr)] PolicyReportPtr) alist_kv PolicyReportsGVK PolicyReportsGR))
        (CreateCmd sample_polr) \<lparr>svc = [], mx = no_metrics\<rparr>)) = Map.empty"
proof -
  have "PolicyReportsGVK \<in> set report_kinds" "ClusterPolicyReportsGVK \<in> set report_kinds"
    "PolicyReportsGVK \<noteq> ClusterPolicyReportsGVK"
    by (simp_all add: kind_consts)
  with etcd_kinds_isolated [OF alist_kv_contract, of "\<lparr>svc = [], mx = no_metrics\<rparr>"
      PolicyReportsGVK "cl_store alist_kv ClusterPolicyReportsGVK ClusterPolicyReportsGR"
      "table_lib [(''x'', sample_polr)] PolicyReportPtr" PolicyReportsGR "CreateCmd sample_polr"
      "table_lib [(''x'', sample_cpolr)] ClusterPolicyReportPtr"]
  have "etcd_view (table_lib [(''x'', sample_cpolr)] ClusterPolicyReportPtr)
     (cl_store alist_kv ClusterPolicyReportsGVK ClusterPolicyReportsGR) map_of
     (snd (do_cmd (ns_ops (NewObjectStoreNamespaced
        (table_lib [(''x'', sample_polr)] PolicyReportPtr) alist_kv PolicyReportsGVK PolicyReportsGR))
        (CreateCmd sample_polr) \<lparr>svc = [], mx = no_metrics\<rparr>)) =
     etcd_view (table_lib [(''x'', sample_cpolr)] ClusterPolicyReportPtr)
       (cl_store alist_kv ClusterPolicyReportsGVK ClusterPolicyReportsGR) map_of
       \<lparr>svc = [], mx = no_metrics\<rparr>"
    unfolding Let_def by (simp add: alist_up_def)
  then show ?thesis by (simp add: etcd_view_def fun_eq_iff)
qed

end
