(* ===== verification/MultiDB.thy ===== *)
theory MultiDB
  imports Types "HOL-Library.Multiset"
begin

section \<open>Reads over replicas\<close>

text \<open>
  \<^verbatim>\<open>pkg/storage/db/multiDB.go\<close>, and the parts of \<^verbatim>\<open>database/sql\<close> the stores use. A database handle is
  the record of the calls made on it over the state of the database service: \<open>Exec\<close> and \<open>Ping\<close>
  may change that state, \<open>Query\<close> reads it. A result set is the list of what \<open>Scan\<close> gives for
  each row, with the errors that \<open>Err\<close> and \<open>Close\<close> report when the iteration is over.

  The entropy that \<^verbatim>\<open>crypto/rand\<close> reads is a stream of draws kept beside the service state; a
  draw \<open>None\<close> is a failing reader, and a draw is reduced to the range that \<open>rand.Int\<close> promises.
\<close>

record sql_rows =
  row_values :: "(err + string) list"
  rows_Err :: "err option"
  rows_Close :: "err option"

record 'e sqlDB =
  sql_Exec :: "string \<Rightarrow> string list \<Rightarrow> 'e eop"
  sql_Query :: "string \<Rightarrow> string list \<Rightarrow> 'e \<Rightarrow> err + sql_rows"
  sql_Ping :: "'e eop"

record 'e pg_svc =
  pg_db :: 'e
  entropy :: "nat \<Rightarrow> nat option"

record 'e MultiDB =
  PrimaryDB :: "'e sqlDB"
  ReadReplicaDBs :: "'e sqlDB list"

definition NewMultiDB :: "'e sqlDB \<Rightarrow> 'e sqlDB list \<Rightarrow> 'e MultiDB" where
  "NewMultiDB primaryDB readReplicaDBs =
     \<lparr>PrimaryDB = primaryDB, ReadReplicaDBs = readReplicaDBs\<rparr>"

subsection \<open>database/sql\<close>

text \<open>
  \<open>QueryRow\<close> runs the query and defers its error to \<open>Err\<close> and \<open>Scan\<close>; \<open>Scan\<close> takes the first
  row, turns an empty result into \<open>ErrNoRows\<close>, and reports an error of the iteration or of closing
  the result.
\<close>

type_synonym sql_row = "err + sql_rows"

definition QueryRow :: "'e sqlDB \<Rightarrow> string \<Rightarrow> string list \<Rightarrow> 'e \<Rightarrow> sql_row" where
  "QueryRow db q args e = sql_Query db q args e"

definition Row_Err :: "sql_row \<Rightarrow> err option" where
  "Row_Err row = (case row of Inl e \<Rightarrow> Some e | Inr rows \<Rightarrow> None)"

definition Row_Scan :: "sql_row \<Rightarrow> err + string" where
  "Row_Scan row =
     (case row of
        Inl e \<Rightarrow> Inl e
      | Inr rows \<Rightarrow>
          (case row_values rows of
             [] \<Rightarrow> (case rows_Err rows of Some e \<Rightarrow> Inl e | None \<Rightarrow> Inl ErrNoRows)
           | v # _ \<Rightarrow>
               (case v of
                  Inl e \<Rightarrow> Inl e
                | Inr x \<Rightarrow> (case rows_Close rows of Some e \<Rightarrow> Inl e | None \<Rightarrow> Inr x))))"

subsection \<open>The shuffle\<close>

definition rand_Int :: "nat \<Rightarrow> (nat \<Rightarrow> nat option) \<Rightarrow> nat option \<times> (nat \<Rightarrow> nat option)" where
  "rand_Int n ent = (map_option (\<lambda>x. x mod n) (ent 0), \<lambda>t. ent (Suc t))"

definition swap :: "nat \<Rightarrow> nat \<Rightarrow> 'a list \<Rightarrow> 'a list" where
  "swap i j xs = xs[i := xs ! j, j := xs ! i]"

text \<open>The loop \<open>for i := n - 1; i > 0; i--\<close>, by recursion on \<open>i\<close>.\<close>

fun shuffle_loop :: "nat \<Rightarrow> 'a list \<Rightarrow> (nat \<Rightarrow> nat option) \<Rightarrow> 'a list \<times> (nat \<Rightarrow> nat option)" where
  "shuffle_loop 0 replicas ent = (replicas, ent)"
| "shuffle_loop (Suc k) replicas ent =
     (let i = Suc k
      in case rand_Int (i + 1) ent of
           (None, ent1) \<Rightarrow> shuffle_loop k replicas ent1
         | (Some j, ent1) \<Rightarrow> shuffle_loop k (swap i j replicas) ent1)"

definition shuffleReplicas :: "'a list \<Rightarrow> (nat \<Rightarrow> nat option) \<Rightarrow> 'a list \<times> (nat \<Rightarrow> nat option)" where
  "shuffleReplicas replicas ent = shuffle_loop (length replicas - 1) replicas ent"

subsection \<open>Reading\<close>

fun try_Query :: "'e sqlDB list \<Rightarrow> 'e sqlDB \<Rightarrow> string \<Rightarrow> string list \<Rightarrow> 'e \<Rightarrow> err + sql_rows" where
  "try_Query [] primary q args e = sql_Query primary q args e"
| "try_Query (readReplicaDB # dbs) primary q args e =
     (case sql_Query readReplicaDB q args e of
        Inl err \<Rightarrow> try_Query dbs primary q args e
      | Inr rows \<Rightarrow> Inr rows)"

definition ReadQuery :: "'e MultiDB \<Rightarrow> string \<Rightarrow> string list \<Rightarrow> (sql_rows, 'e pg_svc) op" where
  "ReadQuery m q args s =
     (let (replicas, ent) = shuffleReplicas (ReadReplicaDBs m) (entropy s)
      in (try_Query replicas (PrimaryDB m) q args (pg_db s), s\<lparr>entropy := ent\<rparr>))"

fun try_QueryRow :: "'e sqlDB list \<Rightarrow> 'e sqlDB \<Rightarrow> string \<Rightarrow> string list \<Rightarrow> 'e \<Rightarrow> sql_row" where
  "try_QueryRow [] primary q args e = QueryRow primary q args e"
| "try_QueryRow (readReplicaDB # dbs) primary q args e =
     (let row = QueryRow readReplicaDB q args e
      in case Row_Err row of
           Some err \<Rightarrow> try_QueryRow dbs primary q args e
         | None \<Rightarrow> row)"

definition ReadQueryRow ::
  "'e MultiDB \<Rightarrow> string \<Rightarrow> string list \<Rightarrow> 'e pg_svc \<Rightarrow> sql_row \<times> 'e pg_svc" where
  "ReadQueryRow m q args s =
     (let (replicas, ent) = shuffleReplicas (ReadReplicaDBs m) (entropy s)
      in (try_QueryRow replicas (PrimaryDB m) q args (pg_db s), s\<lparr>entropy := ent\<rparr>))"

subsection \<open>Facts\<close>

lemma swap_mset: "i < length xs \<Longrightarrow> j < length xs \<Longrightarrow> mset (swap i j xs) = mset xs"
  by (cases "i = j") (simp_all add: swap_def mset_swap)

lemma length_swap [simp]: "length (swap i j xs) = length xs"
  by (simp add: swap_def)

lemma shuffle_loop_mset:
  "k < length xs \<Longrightarrow> mset (fst (shuffle_loop k xs ent)) = mset xs"
proof (induction k arbitrary: xs ent)
  case (Suc k)
  show ?case
  proof (cases "ent 0")
    case None
    with Suc show ?thesis by (simp add: rand_Int_def)
  next
    case (Some x)
    have "x mod (Suc k + 1) < Suc k + 1" by (rule mod_less_divisor) simp
    also have "\<dots> \<le> length xs" using Suc.prems by simp
    finally have "x mod (Suc k + 1) < length xs" .
    with Suc Some show ?thesis
      by (simp add: rand_Int_def swap_mset del: add_Suc_right)
  qed
qed simp

lemma shuffleReplicas_mset: "mset (fst (shuffleReplicas xs ent)) = mset xs"
  by (cases xs) (simp_all add: shuffleReplicas_def shuffle_loop_mset)

lemma shuffleReplicas_set [simp]: "set (fst (shuffleReplicas xs ent)) = set xs"
  by (metis set_mset_mset shuffleReplicas_mset)

lemma try_QueryRow_eq: "try_QueryRow dbs p q args e = try_Query dbs p q args e"
  by (induction dbs) (simp_all add: QueryRow_def Row_Err_def split: sum.split)

lemma ReadQueryRow_eq: "ReadQueryRow m q args s = ReadQuery m q args s"
  by (simp add: ReadQueryRow_def ReadQuery_def try_QueryRow_eq)

text \<open>
  \<open>reads_ok\<close>: the primary answers a query with a result that satisfies \<open>P\<close>, and so does every
  replica that answers at all. Then a read gives such a result.
\<close>

definition reads_ok :: "'e MultiDB \<Rightarrow> string \<Rightarrow> string list \<Rightarrow> 'e \<Rightarrow> (sql_rows \<Rightarrow> bool) \<Rightarrow> bool" where
  "reads_ok m q args e P \<longleftrightarrow>
     (\<exists>rows. sql_Query (PrimaryDB m) q args e = Inr rows \<and> P rows) \<and>
     (\<forall>db \<in> set (ReadReplicaDBs m). \<forall>rows. sql_Query db q args e = Inr rows \<longrightarrow> P rows)"

lemma try_Query_ok:
  assumes "\<exists>rows. sql_Query p q args e = Inr rows \<and> P rows"
    and "\<And>db rows. db \<in> set dbs \<Longrightarrow> sql_Query db q args e = Inr rows \<Longrightarrow> P rows"
  shows "\<exists>rows. try_Query dbs p q args e = Inr rows \<and> P rows"
  using assms by (induction dbs) (auto split: sum.split)

lemma ReadQuery_ok:
  assumes "reads_ok m q args (pg_db s) P"
  shows "\<exists>rows. fst (ReadQuery m q args s) = Inr rows \<and> P rows"
proof -
  have eq: "fst (ReadQuery m q args s) =
      try_Query (fst (shuffleReplicas (ReadReplicaDBs m) (entropy s))) (PrimaryDB m) q args (pg_db s)"
    by (simp add: ReadQuery_def case_prod_unfold Let_def)
  show ?thesis
    unfolding eq using assms by (intro try_Query_ok) (auto simp: reads_ok_def)
qed

lemma ReadQuery_keeps [simp]: "pg_db (snd (ReadQuery m q args s)) = pg_db s"
  by (simp add: ReadQuery_def case_prod_unfold Let_def)

subsection \<open>Properties\<close>

text \<open>
  The shuffle only permutes: whatever the entropy and wherever the random reader fails, every
  replica is tried as often as it is configured.
\<close>

lemma shuffle_permutes: "mset (fst (shuffleReplicas replicas ent)) = mset replicas"
  by (rule shuffleReplicas_mset)

lemma try_Query_isl:
  "isl (try_Query dbs p q args e) \<longleftrightarrow> list_all (\<lambda>db. isl (sql_Query db q args e)) (p # dbs)"
  by (induction dbs) (auto split: sum.split)

lemma try_Query_mem:
  "try_Query dbs p q args e \<in> (\<lambda>db. sql_Query db q args e) ` set (p # dbs)"
  by (induction dbs) (auto split: sum.split intro: rev_image_eqI)


end
