(* ===== verification/Postgres.thy ===== *)
theory Postgres
  imports StorageSpec MultiDB
begin

section \<open>The Postgres back end\<close>

text \<open>
  \<^verbatim>\<open>pkg/storage/db/{polr,cpolr,ephr,cephr}.go\<close>: each kind of report has a table with a JSONB
  column, keyed by name, namespace (for the namespaced kinds) and the identity of the cluster.
  Writes go to the primary, reads through \<open>MultiDB\<close>. The database is a parameter; what the stores
  rely on are the predicates \<open>read_contract\<close> and \<open>write_contract\<close>, which say what the statements of a
  table do.

  The mutexes of the stores serialise writes. In error messages, \<open>%q\<close> is rendered without quotes.
\<close>

record 'e pgstore =
  store_MultiDB :: "'e MultiDB"
  clusterId :: string

subsection \<open>Statements\<close>

definition sql_list_all :: "string \<Rightarrow> string" where
  "sql_list_all t = ''SELECT report FROM '' @ t @ '' WHERE clusterId = $1''"

definition sql_list_all_paren :: "string \<Rightarrow> string" where
  "sql_list_all_paren t = ''SELECT report FROM '' @ t @ '' WHERE (clusterId = $1)''"

definition sql_list_ns :: "string \<Rightarrow> string" where
  "sql_list_ns t = ''SELECT report FROM '' @ t @ '' WHERE namespace = $1 AND clusterId = $2''"

definition sql_get_ns :: "string \<Rightarrow> string" where
  "sql_get_ns t =
     ''SELECT report FROM '' @ t @ '' WHERE (namespace = $1) AND (name = $2) AND (clusterId = $3)''"

definition sql_insert_ns :: "string \<Rightarrow> string" where
  "sql_insert_ns t =
     ''INSERT INTO '' @ t @ '' (name, namespace, report, clusterId) VALUES ($1, $2, $3, $4)''"

definition sql_update_ns :: "string \<Rightarrow> string" where
  "sql_update_ns t =
     ''UPDATE '' @ t @ '' SET report = $1 WHERE (namespace = $2) AND (name = $3) AND (clusterId = $4)''"

definition sql_delete_ns :: "string \<Rightarrow> string" where
  "sql_delete_ns t =
     ''DELETE FROM '' @ t @ '' WHERE (namespace = $1) AND (name = $2) AND (clusterId = $3)''"

definition sql_get_cl :: "string \<Rightarrow> string" where
  "sql_get_cl t = ''SELECT report FROM '' @ t @ '' WHERE (name = $1) AND (clusterId = $2)''"

definition sql_insert_cl :: "string \<Rightarrow> string" where
  "sql_insert_cl t = ''INSERT INTO '' @ t @ '' (name, report, clusterId) VALUES ($1, $2, $3)''"

definition sql_update_cl :: "string \<Rightarrow> string" where
  "sql_update_cl t = ''UPDATE '' @ t @ '' SET report = $1 WHERE (name = $2) AND (clusterId = $3)''"

definition sql_delete_cl :: "string \<Rightarrow> string" where
  "sql_delete_cl t = ''DELETE FROM '' @ t @ '' WHERE (name = $1) AND (clusterId = $2)''"

definition sql_create_ns :: "string \<Rightarrow> string" where
  "sql_create_ns t = ''CREATE TABLE IF NOT EXISTS '' @ t @
     '' (name VARCHAR NOT NULL, namespace VARCHAR NOT NULL, clusterId VARCHAR NOT NULL, report JSONB NOT NULL, PRIMARY KEY(name, namespace, clusterId))''"

definition sql_create_cl :: "string \<Rightarrow> string" where
  "sql_create_cl t = ''CREATE TABLE IF NOT EXISTS '' @ t @
     '' (name VARCHAR NOT NULL, clusterId VARCHAR NOT NULL, report JSONB NOT NULL, PRIMARY KEY(name, clusterId))''"

definition sql_index :: "string \<Rightarrow> string \<Rightarrow> string \<Rightarrow> string" where
  "sql_index i t column = ''CREATE INDEX IF NOT EXISTS '' @ i @ '' ON '' @ t @ ''('' @ column @ '')''"

subsection \<open>Calls on the database\<close>

definition run_read :: "'e MultiDB \<Rightarrow> string \<Rightarrow> string list \<Rightarrow> (sql_rows, 'e pg_svc world) op" where
  "run_read m q args w = (let (x, s) = ReadQuery m q args (svc w) in (x, w\<lparr>svc := s\<rparr>))"

definition run_read_row ::
  "'e MultiDB \<Rightarrow> string \<Rightarrow> string list \<Rightarrow> 'e pg_svc world \<Rightarrow> sql_row \<times> 'e pg_svc world" where
  "run_read_row m q args w = (let (x, s) = ReadQueryRow m q args (svc w) in (x, w\<lparr>svc := s\<rparr>))"

definition run_exec :: "'e MultiDB \<Rightarrow> string \<Rightarrow> string list \<Rightarrow> 'e pg_svc world eop" where
  "run_exec m q args w =
     (let (x, e) = sql_Exec (PrimaryDB m) q args (pg_db (svc w))
      in (x, w\<lparr>svc := (svc w)\<lparr>pg_db := e\<rparr>\<rparr>))"

text \<open>
  The body of the loop over a result set: scan the row, decode the document. The two functions
  make the error values of the two failures. (The loop ends when \<open>Next\<close> says so; \<open>rows.Err\<close> is
  not consulted.)
\<close>

definition scan_report ::
  "'r TypeLib \<Rightarrow> (err \<Rightarrow> err) \<Rightarrow> (err \<Rightarrow> err) \<Rightarrow> err + string \<Rightarrow> err + 'r option" where
  "scan_report T scan_err decode_err v =
     (case v of
        Inl err \<Rightarrow> Inl (scan_err err)
      | Inr jsonb \<Rightarrow>
          (case Unmarshal T jsonb of Inl err \<Rightarrow> Inl (decode_err err) | Inr report \<Rightarrow> Inr (Some report)))"

subsection \<open>Policy reports\<close>

definition NewPolicyReportStore ::
  "'e MultiDB \<Rightarrow> string \<Rightarrow> ('e pgstore, 'e pg_svc world) op" where
  "NewPolicyReportStore m cid w =
     (case run_exec m (sql_create_ns ''policyreports'') [] w of
        (Some err, w1) \<Rightarrow> (Inl err, w1)
      | (None, w1) \<Rightarrow>
          (case run_exec m (sql_index ''policyreportnamespace'' ''policyreports'' ''namespace'') [] w1 of
             (Some err, w2) \<Rightarrow> (Inl err, w2)
           | (None, w2) \<Rightarrow>
               (case run_exec m (sql_index ''policyreportcluster'' ''policyreports'' ''clusterId'') [] w2 of
                  (Some err, w3) \<Rightarrow> (Inl err, w3)
                | (None, w3) \<Rightarrow> (Inr \<lparr>store_MultiDB = m, clusterId = cid\<rparr>, w3))))"

definition pg_polr_List ::
  "PolicyReport TypeLib \<Rightarrow> 'e pgstore \<Rightarrow> string \<Rightarrow> (PolicyReport option list, 'e pg_svc world) op" where
  "pg_polr_List T p namespace w =
     (case (if length namespace = 0
            then run_read (store_MultiDB p) (sql_list_all ''policyreports'') [clusterId p] w
            else run_read (store_MultiDB p) (sql_list_ns ''policyreports'') [namespace, clusterId p] w) of
        (Inl err, w1) \<Rightarrow> (Inl (Errorf (''policyreport list '' @ namespace @ '': '') (Some err)), w1)
      | (Inr rows, w1) \<Rightarrow>
          (map_result (scan_report T
              (\<lambda>err. Errorf (''policyreport list '' @ namespace @ '': '') (Some err))
              (\<lambda>err. Errorf (''policyreport list '' @ namespace @
                         '': cannot convert jsonb to policyreport: '') (Some err)))
             (row_values rows),
           count_request ''postgres'' ''list'' ''PolicyReport'' w1))"

definition pg_polr_Get ::
  "PolicyReport TypeLib \<Rightarrow> 'e pgstore \<Rightarrow> string \<Rightarrow> string \<Rightarrow> (PolicyReport option, 'e pg_svc world) op" where
  "pg_polr_Get T p name namespace w =
     (let (row, w1) = run_read_row (store_MultiDB p) (sql_get_ns ''policyreports'')
                        [namespace, name, clusterId p] w
      in case Row_Scan row of
           Inl err \<Rightarrow>
             (if err = ErrNoRows
              then (Inl (Errorf (''policyreport get '' @ namespace @ ''/'' @ name @
                           '': no such policy report: '') (Some err)), w1)
              else (Inl (Errorf (''policyreport get '' @ namespace @ ''/'' @ name @ '': '') (Some err)), w1))
         | Inr jsonb \<Rightarrow>
             (let w2 = count_request ''postgres'' ''get'' ''PolicyReport'' w1
              in case Unmarshal T jsonb of
                   Inl err \<Rightarrow> (Inl (Errorf (''policyreport list '' @ namespace @
                                  '': cannot convert jsonb to policyreport: '') (Some err)), w2)
                 | Inr report \<Rightarrow> (Inr (Some report), w2)))"

definition pg_polr_Create ::
  "PolicyReport TypeLib \<Rightarrow> 'e pgstore \<Rightarrow> PolicyReport option \<Rightarrow> 'e pg_svc world eop" where
  "pg_polr_Create T p polr w =
     (case polr of
        None \<Rightarrow> (Some (Errorf ''invalid policy report'' None), w)
      | Some r \<Rightarrow>
          (case Marshal T r of
             Inl err \<Rightarrow> (Some err, w)
           | Inr jsonb \<Rightarrow>
               (case run_exec (store_MultiDB p) (sql_insert_ns ''policyreports'')
                       [Name r, Namespace r, jsonb, clusterId p] w of
                  (Some err, w1) \<Rightarrow> (Some (Errorf ''create policyreport: '' (Some err)), w1)
                | (None, w1) \<Rightarrow>
                    (None, UpdatePolicyReportMetrics ''postgres'' ''create'' (PolicyReportPtr r) False
                             (count_request ''postgres'' ''create'' ''PolicyReport'' w1)))))"

definition pg_polr_Update ::
  "PolicyReport TypeLib \<Rightarrow> 'e pgstore \<Rightarrow> PolicyReport option \<Rightarrow> 'e pg_svc world eop" where
  "pg_polr_Update T p polr w =
     (case polr of
        None \<Rightarrow> (Some (Errorf ''invalid policy report'' None), w)
      | Some r \<Rightarrow>
          (case Marshal T r of
             Inl err \<Rightarrow> (Some err, w)
           | Inr jsonb \<Rightarrow>
               (case run_exec (store_MultiDB p) (sql_update_ns ''policyreports'')
                       [jsonb, Namespace r, Name r, clusterId p] w of
                  (Some err, w1) \<Rightarrow> (Some (Errorf ''update policyreport: '' (Some err)), w1)
                | (None, w1) \<Rightarrow>
                    (None, UpdatePolicyReportMetrics ''postgres'' ''update'' (PolicyReportPtr r) False
                             (count_request ''postgres'' ''update'' ''PolicyReport'' w1)))))"

text \<open>
  \<open>Delete\<close> means to go on when there is no such report: it checks the error of \<open>Get\<close> with
  \<open>errors.Is\<close>.
\<close>

definition pg_polr_Delete ::
  "PolicyReport TypeLib \<Rightarrow> 'e pgstore \<Rightarrow> string \<Rightarrow> string \<Rightarrow> 'e pg_svc world eop" where
  "pg_polr_Delete T p name namespace w =
     (let (got, w1) = pg_polr_Get T p name namespace w;
          report = (case got of Inl err \<Rightarrow> None | Inr r \<Rightarrow> r)
      in case (case got of Inl err \<Rightarrow> if \<not> errors_Is err ErrNoRows then Some err else None
               | Inr r \<Rightarrow> None) of
           Some err \<Rightarrow> (Some err, w1)
         | None \<Rightarrow>
             (case run_exec (store_MultiDB p) (sql_delete_ns ''policyreports'')
                     [namespace, name, clusterId p] w1 of
                (Some err, w2) \<Rightarrow> (Some (Errorf ''delete policyreport: '' (Some err)), w2)
              | (None, w2) \<Rightarrow>
                  (let w3 = count_request ''postgres'' ''delete'' ''PolicyReport'' w2
                   in case report of
                        None \<Rightarrow> (None, w3)
                      | Some r \<Rightarrow>
                          (None, UpdatePolicyReportMetrics ''postgres'' ''delete''
                                   (PolicyReportPtr r) False w3))))"

subsection \<open>Cluster policy reports\<close>

definition NewClusterPolicyReportStore ::
  "'e MultiDB \<Rightarrow> string \<Rightarrow> ('e pgstore, 'e pg_svc world) op" where
  "NewClusterPolicyReportStore m cid w =
     (case run_exec m (sql_create_cl ''clusterpolicyreports'') [] w of
        (Some err, w1) \<Rightarrow> (Inl err, w1)
      | (None, w1) \<Rightarrow>
          (case run_exec m (sql_index ''clusterpolicyreportcluster'' ''clusterpolicyreports'' ''clusterId'') [] w1 of
             (Some err, w2) \<Rightarrow> (Inl err, w2)
           | (None, w2) \<Rightarrow> (Inr \<lparr>store_MultiDB = m, clusterId = cid\<rparr>, w2)))"

definition pg_cpolr_List ::
  "ClusterPolicyReport TypeLib \<Rightarrow> 'e pgstore \<Rightarrow> (ClusterPolicyReport option list, 'e pg_svc world) op" where
  "pg_cpolr_List T c w =
     (case run_read (store_MultiDB c) (sql_list_all ''clusterpolicyreports'') [clusterId c] w of
        (Inl err, w1) \<Rightarrow> (Inl (Errorf ''clusterpolicyreport list: '' (Some err)), w1)
      | (Inr rows, w1) \<Rightarrow>
          (map_result (scan_report T
              (\<lambda>err. Errorf ''clusterpolicyreport list: '' (Some err))
              (\<lambda>err. Errorf ''clusterpolicyreport list: cannot convert jsonb to clusterpolicyreport: ''
                        (Some err)))
             (row_values rows),
           count_request ''postgres'' ''list'' ''ClusterPolicyReport'' w1))"

definition pg_cpolr_Get ::
  "ClusterPolicyReport TypeLib \<Rightarrow> 'e pgstore \<Rightarrow> string \<Rightarrow> (ClusterPolicyReport option, 'e pg_svc world) op" where
  "pg_cpolr_Get T c name w =
     (let (row, w1) = run_read_row (store_MultiDB c) (sql_get_cl ''clusterpolicyreports'') [name, clusterId c] w
      in case Row_Scan row of
           Inl err \<Rightarrow>
             (if err = ErrNoRows
              then (Inl (Errorf (''clusterpolicyreport get '' @ name @ '': no such policy report'') None), w1)
              else (Inl (Errorf (''clusterpolicyreport get '' @ name @ '': '') (Some err)), w1))
         | Inr jsonb \<Rightarrow>
             (let w2 = count_request ''postgres'' ''get'' ''ClusterPolicyReport'' w1
              in case Unmarshal T jsonb of
                   Inl err \<Rightarrow>
                     (Inl (Errorf ''clusterpolicyreport list: cannot convert jsonb to policyreport: '' (Some err)), w2)
                 | Inr report \<Rightarrow> (Inr (Some report), w2)))"

definition pg_cpolr_Create ::
  "ClusterPolicyReport TypeLib \<Rightarrow> 'e pgstore \<Rightarrow> ClusterPolicyReport option \<Rightarrow> 'e pg_svc world eop" where
  "pg_cpolr_Create T c cpolr w =
     (case cpolr of
        None \<Rightarrow> (Some (Errorf ''invalid cluster policy report'' None), w)
      | Some r \<Rightarrow>
          (case Marshal T r of
             Inl err \<Rightarrow> (Some err, w)
           | Inr jsonb \<Rightarrow>
               (case run_exec (store_MultiDB c) (sql_insert_cl ''clusterpolicyreports'')
                       [Name r, jsonb, clusterId c] w of
                  (Some err, w1) \<Rightarrow> (Some (Errorf ''create clusterpolicyreport: '' (Some err)), w1)
                | (None, w1) \<Rightarrow>
                    (None, UpdatePolicyReportMetrics ''postgres'' ''create'' (ClusterPolicyReportPtr r) False
                             (count_request ''postgres'' ''create'' ''ClusterPolicyReport'' w1)))))"

definition pg_cpolr_Update ::
  "ClusterPolicyReport TypeLib \<Rightarrow> 'e pgstore \<Rightarrow> ClusterPolicyReport option \<Rightarrow> 'e pg_svc world eop" where
  "pg_cpolr_Update T c cpolr w =
     (case cpolr of
        None \<Rightarrow> (Some (Errorf ''invalid cluster policy report'' None), w)
      | Some r \<Rightarrow>
          (case Marshal T r of
             Inl err \<Rightarrow> (Some err, w)
           | Inr jsonb \<Rightarrow>
               (case run_exec (store_MultiDB c) (sql_update_cl ''clusterpolicyreports'')
                       [jsonb, Name r, clusterId c] w of
                  (Some err, w1) \<Rightarrow> (Some (Errorf ''update clusterpolicyreport: '' (Some err)), w1)
                | (None, w1) \<Rightarrow>
                    (None, UpdatePolicyReportMetrics ''postgres'' ''update'' (ClusterPolicyReportPtr r) False
                             (count_request ''postgres'' ''update'' ''ClusterPolicyReport'' w1)))))"

definition pg_cpolr_Delete ::
  "ClusterPolicyReport TypeLib \<Rightarrow> 'e pgstore \<Rightarrow> string \<Rightarrow> 'e pg_svc world eop" where
  "pg_cpolr_Delete T c name w =
     (case pg_cpolr_Get T c name w of
        (Inl err, w1) \<Rightarrow> (Some (Errorf ''delete clusterpolicyreport: '' (Some err)), w1)
      | (Inr report, w1) \<Rightarrow>
          (case run_exec (store_MultiDB c) (sql_delete_cl ''clusterpolicyreports'') [name, clusterId c] w1 of
             (Some err, w2) \<Rightarrow> (Some (Errorf ''delete clusterpolicyreport: '' (Some err)), w2)
           | (None, w2) \<Rightarrow>
               (None, UpdatePolicyReportMetrics ''postgres'' ''delete''
                        (case report of None \<Rightarrow> OtherValue | Some r \<Rightarrow> ClusterPolicyReportPtr r) False
                        (count_request ''postgres'' ''delete'' ''ClusterPolicyReport'' w2))))"

subsection \<open>Ephemeral reports\<close>

definition NewEphemeralReportStore ::
  "'e MultiDB \<Rightarrow> string \<Rightarrow> ('e pgstore, 'e pg_svc world) op" where
  "NewEphemeralReportStore m cid w =
     (case run_exec m (sql_create_ns ''ephemeralreports'') [] w of
        (Some err, w1) \<Rightarrow> (Inl err, w1)
      | (None, w1) \<Rightarrow>
          (case run_exec m (sql_index ''ephemeralreportnamespace'' ''ephemeralreports'' ''namespace'') [] w1 of
             (Some err, w2) \<Rightarrow> (Inl err, w2)
           | (None, w2) \<Rightarrow>
               (case run_exec m (sql_index ''ephemeralreportcluster'' ''ephemeralreports'' ''clusterId'') [] w2 of
                  (Some err, w3) \<Rightarrow> (Inl err, w3)
                | (None, w3) \<Rightarrow> (Inr \<lparr>store_MultiDB = m, clusterId = cid\<rparr>, w3))))"

definition pg_ephr_List ::
  "EphemeralReport TypeLib \<Rightarrow> 'e pgstore \<Rightarrow> string \<Rightarrow> (EphemeralReport option list, 'e pg_svc world) op" where
  "pg_ephr_List T p namespace w =
     (case (if length namespace = 0
            then run_read (store_MultiDB p) (sql_list_all ''ephemeralreports'') [clusterId p] w
            else run_read (store_MultiDB p) (sql_list_ns ''ephemeralreports'') [namespace, clusterId p] w) of
        (Inl err, w1) \<Rightarrow> (Inl (Errorf (''ephemeralreport list '' @ namespace @ '': '') (Some err)), w1)
      | (Inr rows, w1) \<Rightarrow>
          (map_result (scan_report T
              (\<lambda>err. Errorf (''ephemeralreport list '' @ namespace @ '': '') (Some err))
              (\<lambda>err. Errorf (''ephemeralreport list '' @ namespace @
                         '': cannot convert jsonb to ephemeralreport: '') (Some err)))
             (row_values rows),
           count_request ''postgres'' ''list'' ''EphemeralReport'' w1))"

definition pg_ephr_Get ::
  "EphemeralReport TypeLib \<Rightarrow> 'e pgstore \<Rightarrow> string \<Rightarrow> string \<Rightarrow> (EphemeralReport option, 'e pg_svc world) op" where
  "pg_ephr_Get T p name namespace w =
     (let (row, w1) = run_read_row (store_MultiDB p) (sql_get_ns ''ephemeralreports'')
                        [namespace, name, clusterId p] w
      in case Row_Scan row of
           Inl err \<Rightarrow>
             (if err = ErrNoRows
              then (Inl (Errorf (''ephemeralreport get '' @ namespace @ ''/'' @ name @
                           '': no such ephemeral report: '') (Some err)), w1)
              else (Inl (Errorf (''ephemeralreport get '' @ namespace @ ''/'' @ name @ '': '') (Some err)), w1))
         | Inr jsonb \<Rightarrow>
             (let w2 = count_request ''postgres'' ''get'' ''EphemeralReport'' w1
              in case Unmarshal T jsonb of
                   Inl err \<Rightarrow> (Inl (Errorf (''ephemeralreport list '' @ namespace @
                                  '': cannot convert jsonb to ephemeralreport: '') (Some err)), w2)
                 | Inr report \<Rightarrow> (Inr (Some report), w2)))"

definition pg_ephr_Create ::
  "EphemeralReport TypeLib \<Rightarrow> 'e pgstore \<Rightarrow> EphemeralReport option \<Rightarrow> 'e pg_svc world eop" where
  "pg_ephr_Create T p polr w =
     (case polr of
        None \<Rightarrow> (Some (Errorf ''invalid ephemeral report'' None), w)
      | Some r \<Rightarrow>
          (case Marshal T r of
             Inl err \<Rightarrow> (Some err, w)
           | Inr jsonb \<Rightarrow>
               (case run_exec (store_MultiDB p) (sql_insert_ns ''ephemeralreports'')
                       [Name r, Namespace r, jsonb, clusterId p] w of
                  (Some err, w1) \<Rightarrow> (Some (Errorf ''create ephemeralreport: '' (Some err)), w1)
                | (None, w1) \<Rightarrow>
                    (None, UpdatePolicyReportMetrics ''postgres'' ''create'' (EphemeralReportPtr r) False
                             (count_request ''postgres'' ''create'' ''EphemeralReport'' w1)))))"

definition pg_ephr_Update ::
  "EphemeralReport TypeLib \<Rightarrow> 'e pgstore \<Rightarrow> EphemeralReport option \<Rightarrow> 'e pg_svc world eop" where
  "pg_ephr_Update T p polr w =
     (case polr of
        None \<Rightarrow> (Some (Errorf ''invalid ephemeral report'' None), w)
      | Some r \<Rightarrow>
          (case Marshal T r of
             Inl err \<Rightarrow> (Some err, w)
           | Inr jsonb \<Rightarrow>
               (case run_exec (store_MultiDB p) (sql_update_ns ''ephemeralreports'')
                       [jsonb, Namespace r, Name r, clusterId p] w of
                  (Some err, w1) \<Rightarrow> (Some (Errorf ''update ephemeralreport: '' (Some err)), w1)
                | (None, w1) \<Rightarrow>
                    (None, UpdatePolicyReportMetrics ''postgres'' ''update'' (EphemeralReportPtr r) False
                             (count_request ''postgres'' ''update'' ''EphemeralReport'' w1)))))"

definition pg_ephr_Delete ::
  "EphemeralReport TypeLib \<Rightarrow> 'e pgstore \<Rightarrow> string \<Rightarrow> string \<Rightarrow> 'e pg_svc world eop" where
  "pg_ephr_Delete T p name namespace w =
     (case pg_ephr_Get T p name namespace w of
        (Inl err, w1) \<Rightarrow> (Some (Errorf ''delete ephemeralreport: '' (Some err)), w1)
      | (Inr report, w1) \<Rightarrow>
          (case run_exec (store_MultiDB p) (sql_delete_ns ''ephemeralreports'')
                  [namespace, name, clusterId p] w1 of
             (Some err, w2) \<Rightarrow> (Some (Errorf ''delete ephemeralreport: '' (Some err)), w2)
           | (None, w2) \<Rightarrow>
               (None, UpdatePolicyReportMetrics ''postgres'' ''delete''
                        (case report of None \<Rightarrow> OtherValue | Some r \<Rightarrow> EphemeralReportPtr r) False
                        (count_request ''postgres'' ''delete'' ''EphemeralReport'' w2))))"

subsection \<open>Cluster ephemeral reports\<close>

definition NewClusterEphemeralReportStore ::
  "'e MultiDB \<Rightarrow> string \<Rightarrow> ('e pgstore, 'e pg_svc world) op" where
  "NewClusterEphemeralReportStore m cid w =
     (case run_exec m (sql_create_cl ''clusterephemeralreports'') [] w of
        (Some err, w1) \<Rightarrow> (Inl err, w1)
      | (None, w1) \<Rightarrow>
          (case run_exec m (sql_index ''clusterephemeralreportcluster'' ''clusterephemeralreports'' ''clusterId'') [] w1 of
             (Some err, w2) \<Rightarrow> (Inl err, w2)
           | (None, w2) \<Rightarrow> (Inr \<lparr>store_MultiDB = m, clusterId = cid\<rparr>, w2)))"

definition pg_cephr_List ::
  "ClusterEphemeralReport TypeLib \<Rightarrow> 'e pgstore \<Rightarrow> (ClusterEphemeralReport option list, 'e pg_svc world) op" where
  "pg_cephr_List T c w =
     (case run_read (store_MultiDB c) (sql_list_all_paren ''clusterephemeralreports'')
             [clusterId c] w of
        (Inl err, w1) \<Rightarrow> (Inl (Errorf ''clusterephemeralreports list: '' (Some err)), w1)
      | (Inr rows, w1) \<Rightarrow>
          (case map_result (scan_report T
                  (\<lambda>err. Errorf ''clusterephemeralreports list: '' (Some err))
                  (\<lambda>err. Errorf (''clusterephemeralreports list: cannot convert jsonb to '' @
                                  ''clusterephemeralreports: '') (Some err)))
                 (row_values rows) of
             Inl err \<Rightarrow> (Inl err, w1)
           | Inr res \<Rightarrow>
               (Inr res, count_request ''postgres'' ''list'' ''ClusterEphemeralReport'' w1)))"

definition pg_cephr_Get ::
  "ClusterEphemeralReport TypeLib \<Rightarrow> 'e pgstore \<Rightarrow> string \<Rightarrow> (ClusterEphemeralReport option, 'e pg_svc world) op" where
  "pg_cephr_Get T c name w =
     (let (row, w1) = run_read_row (store_MultiDB c) (sql_get_cl ''clusterephemeralreports'') [name, clusterId c] w
      in case Row_Scan row of
           Inl err \<Rightarrow>
             (if err = ErrNoRows
              then (Inl (Errorf (''clusterephemeralreport get '' @ name @ '': no such ephemeral report'') None), w1)
              else (Inl (Errorf (''clusterephemeralreport get '' @ name @ '': '') (Some err)), w1))
         | Inr jsonb \<Rightarrow>
             (let w2 = count_request ''postgres'' ''get'' ''ClusterEphemeralReport'' w1
              in case Unmarshal T jsonb of
                   Inl err \<Rightarrow>
                     (Inl (Errorf ''clusterephemeralreport list: cannot convert jsonb to ephemeralreport: '' (Some err)), w2)
                 | Inr report \<Rightarrow> (Inr (Some report), w2)))"

definition pg_cephr_Create ::
  "ClusterEphemeralReport TypeLib \<Rightarrow> 'e pgstore \<Rightarrow> ClusterEphemeralReport option \<Rightarrow> 'e pg_svc world eop" where
  "pg_cephr_Create T c cephr w =
     (case cephr of
        None \<Rightarrow> (Some (Errorf ''invalid cluster ephemeral report'' None), w)
      | Some r \<Rightarrow>
          (case Marshal T r of
             Inl err \<Rightarrow> (Some err, w)
           | Inr jsonb \<Rightarrow>
               (case run_exec (store_MultiDB c) (sql_insert_cl ''clusterephemeralreports'')
                       [Name r, jsonb, clusterId c] w of
                  (Some err, w1) \<Rightarrow> (Some (Errorf ''create clusterephemeralreport: '' (Some err)), w1)
                | (None, w1) \<Rightarrow>
                    (None, UpdatePolicyReportMetrics ''postgres'' ''create'' (ClusterEphemeralReportPtr r) False
                             (count_request ''postgres'' ''create'' ''ClusterEphemeralReport'' w1)))))"

definition pg_cephr_Update ::
  "ClusterEphemeralReport TypeLib \<Rightarrow> 'e pgstore \<Rightarrow> ClusterEphemeralReport option \<Rightarrow> 'e pg_svc world eop" where
  "pg_cephr_Update T c cephr w =
     (case cephr of
        None \<Rightarrow> (Some (Errorf ''invalid cluster ephemeral report'' None), w)
      | Some r \<Rightarrow>
          (case Marshal T r of
             Inl err \<Rightarrow> (Some err, w)
           | Inr jsonb \<Rightarrow>
               (case run_exec (store_MultiDB c) (sql_update_cl ''clusterephemeralreports'')
                       [jsonb, Name r, clusterId c] w of
                  (Some err, w1) \<Rightarrow> (Some (Errorf ''update clusterephemeralreport: '' (Some err)), w1)
                | (None, w1) \<Rightarrow>
                    (None, UpdatePolicyReportMetrics ''postgres'' ''update'' (ClusterEphemeralReportPtr r) False
                             (count_request ''postgres'' ''update'' ''ClusterEphemeralReport'' w1)))))"

definition pg_cephr_Delete ::
  "ClusterEphemeralReport TypeLib \<Rightarrow> 'e pgstore \<Rightarrow> string \<Rightarrow> 'e pg_svc world eop" where
  "pg_cephr_Delete T c name w =
     (case pg_cephr_Get T c name w of
        (Inl err, w1) \<Rightarrow> (Some (Errorf ''delete clusterephemeralreport: '' (Some err)), w1)
      | (Inr report, w1) \<Rightarrow>
          (case run_exec (store_MultiDB c) (sql_delete_cl ''clusterephemeralreports'') [name, clusterId c] w1 of
             (Some err, w2) \<Rightarrow> (Some (Errorf ''delete clusterephemeralreport: '' (Some err)), w2)
           | (None, w2) \<Rightarrow>
               (None, UpdatePolicyReportMetrics ''postgres'' ''delete''
                        (case report of None \<Rightarrow> OtherValue | Some r \<Rightarrow> ClusterEphemeralReportPtr r) False
                        (count_request ''postgres'' ''delete'' ''ClusterEphemeralReport'' w2))))"

subsection \<open>The stores as interfaces\<close>

definition pg_polr_iface :: "PolicyReport TypeLib \<Rightarrow> 'e pgstore \<Rightarrow> 'e pg_svc world PolicyReportsInterface" where
  "pg_polr_iface T p =
     \<lparr>nGet = pg_polr_Get T p, nList = pg_polr_List T p, nCreate = pg_polr_Create T p,
      nUpdate = pg_polr_Update T p, nDelete = pg_polr_Delete T p\<rparr>"

definition pg_cpolr_iface :: "ClusterPolicyReport TypeLib \<Rightarrow> 'e pgstore \<Rightarrow> 'e pg_svc world ClusterPolicyReportsInterface" where
  "pg_cpolr_iface T p =
     \<lparr>cGet = pg_cpolr_Get T p, cList = pg_cpolr_List T p, cCreate = pg_cpolr_Create T p,
      cUpdate = pg_cpolr_Update T p, cDelete = pg_cpolr_Delete T p\<rparr>"

definition pg_ephr_iface :: "EphemeralReport TypeLib \<Rightarrow> 'e pgstore \<Rightarrow> 'e pg_svc world EphemeralReportsInterface" where
  "pg_ephr_iface T p =
     \<lparr>nGet = pg_ephr_Get T p, nList = pg_ephr_List T p, nCreate = pg_ephr_Create T p,
      nUpdate = pg_ephr_Update T p, nDelete = pg_ephr_Delete T p\<rparr>"

definition pg_cephr_iface :: "ClusterEphemeralReport TypeLib \<Rightarrow> 'e pgstore \<Rightarrow> 'e pg_svc world ClusterEphemeralReportsInterface" where
  "pg_cephr_iface T p =
     \<lparr>cGet = pg_cephr_Get T p, cList = pg_cephr_List T p, cCreate = pg_cephr_Create T p,
      cUpdate = pg_cephr_Update T p, cDelete = pg_cephr_Delete T p\<rparr>"

subsection \<open>What the stores rely on\<close>

text \<open>
  The statements of a table with their arguments, for keys and selections of either scope, and a
  reading of the service state: the documents of a table by cluster and key, whether the service
  answers, which strings it takes as keys, and what it makes of a JSON document (\<open>None\<close> if it
  refuses it).
\<close>

record ('k, 'q) stmts =
  st_list :: "'q \<Rightarrow> string \<Rightarrow> string \<times> string list"
  st_get :: "'k \<Rightarrow> string \<Rightarrow> string \<times> string list"
  st_insert :: "'k \<Rightarrow> string \<Rightarrow> string \<Rightarrow> string \<times> string list"
  st_update :: "'k \<Rightarrow> string \<Rightarrow> string \<Rightarrow> string \<times> string list"
  st_delete :: "'k \<Rightarrow> string \<Rightarrow> string \<times> string list"

definition ns_stmts :: "string \<Rightarrow> (string \<times> string, string) stmts" where
  "ns_stmts t =
     \<lparr>st_list = (\<lambda>q cid. if q = [] then (sql_list_all t, [cid]) else (sql_list_ns t, [q, cid])),
      st_get = (\<lambda>(ns, n) cid. (sql_get_ns t, [ns, n, cid])),
      st_insert = (\<lambda>(ns, n) b cid. (sql_insert_ns t, [n, ns, b, cid])),
      st_update = (\<lambda>(ns, n) b cid. (sql_update_ns t, [b, ns, n, cid])),
      st_delete = (\<lambda>(ns, n) cid. (sql_delete_ns t, [ns, n, cid]))\<rparr>"

definition cl_stmts :: "(string \<Rightarrow> string) \<Rightarrow> string \<Rightarrow> (string, unit) stmts" where
  "cl_stmts list_stmt t =
     \<lparr>st_list = (\<lambda>q cid. (list_stmt t, [cid])),
      st_get = (\<lambda>n cid. (sql_get_cl t, [n, cid])),
      st_insert = (\<lambda>n b cid. (sql_insert_cl t, [n, b, cid])),
      st_update = (\<lambda>n b cid. (sql_update_cl t, [b, n, cid])),
      st_delete = (\<lambda>n cid. (sql_delete_cl t, [n, cid]))\<rparr>"

record ('e, 'k, 'q) pgTable =
  rows_of :: "'e \<Rightarrow> string \<Rightarrow> 'k \<rightharpoonup> string"
  pg_up :: "'e \<Rightarrow> bool"
  pg_ok :: "'k \<Rightarrow> bool"
  pg_okq :: "'q \<Rightarrow> bool"
  jsonb_norm :: "string \<Rightarrow> string option"

definition full_rows :: "string list \<Rightarrow> sql_rows" where
  "full_rows docs = \<lparr>row_values = map Inr docs, rows_Err = None, rows_Close = None\<rparr>"

text \<open>
  The contract, for the rows of one cluster. A read returns the matching documents, each once, if
  it returns at all, and the primary does return. An insert fails on a key that is taken or a
  document that is refused, an update writes the row if there is one, a delete removes it; no
  statement touches a row of another cluster.
\<close>

definition read_contract ::
  "'e MultiDB \<Rightarrow> ('k, 'q) stmts \<Rightarrow> ('q \<Rightarrow> 'k \<Rightarrow> bool) \<Rightarrow> ('e, 'k, 'q) pgTable \<Rightarrow> string \<Rightarrow> bool" where
  "read_contract m S sel D cid \<longleftrightarrow>
     (\<forall>e q. pg_up D e \<longrightarrow> pg_okq D q \<longrightarrow>
        reads_ok m (fst (st_list S q cid)) (snd (st_list S q cid)) e
          (\<lambda>rows. \<exists>ks. distinct ks \<and> set ks = {k \<in> dom (rows_of D e cid). sel q k} \<and>
                      rows = full_rows (map (\<lambda>k. the (rows_of D e cid k)) ks))) \<and>
     (\<forall>e k. pg_up D e \<longrightarrow> pg_ok D k \<longrightarrow>
        reads_ok m (fst (st_get S k cid)) (snd (st_get S k cid)) e
          (\<lambda>rows. rows = full_rows (case rows_of D e cid k of None \<Rightarrow> [] | Some b \<Rightarrow> [b])))"

definition insert_result :: "('e, 'k, 'q) pgTable \<Rightarrow> string \<Rightarrow> 'k \<Rightarrow> string \<Rightarrow> 'e \<Rightarrow> err option \<Rightarrow> 'e \<Rightarrow> bool" where
  "insert_result D cid k b e x e' \<longleftrightarrow> pg_up D e' \<and>
     (case jsonb_norm D b of
        None \<Rightarrow> x \<noteq> None \<and> rows_of D e' = rows_of D e
      | Some c \<Rightarrow>
          if rows_of D e cid k = None
          then x = None \<and> rows_of D e' = (rows_of D e)(cid := (rows_of D e cid)(k \<mapsto> c))
          else x \<noteq> None \<and> rows_of D e' = rows_of D e)"

definition update_result :: "('e, 'k, 'q) pgTable \<Rightarrow> string \<Rightarrow> 'k \<Rightarrow> string \<Rightarrow> 'e \<Rightarrow> err option \<Rightarrow> 'e \<Rightarrow> bool" where
  "update_result D cid k b e x e' \<longleftrightarrow> pg_up D e' \<and>
     (case jsonb_norm D b of
        None \<Rightarrow> x \<noteq> None \<and> rows_of D e' = rows_of D e
      | Some c \<Rightarrow> x = None \<and>
          rows_of D e' =
            (if rows_of D e cid k = None then rows_of D e
             else (rows_of D e)(cid := (rows_of D e cid)(k \<mapsto> c))))"

definition delete_result :: "('e, 'k, 'q) pgTable \<Rightarrow> string \<Rightarrow> 'k \<Rightarrow> 'e \<Rightarrow> err option \<Rightarrow> 'e \<Rightarrow> bool" where
  "delete_result D cid k e x e' \<longleftrightarrow> pg_up D e' \<and> x = None \<and>
     rows_of D e' = (rows_of D e)(cid := (rows_of D e cid)(k := None))"

definition write_contract ::
  "'e MultiDB \<Rightarrow> ('k, 'q) stmts \<Rightarrow> ('e, 'k, 'q) pgTable \<Rightarrow> string \<Rightarrow> bool" where
  "write_contract m S D cid \<longleftrightarrow>
     (\<forall>e k b x e'. pg_up D e \<longrightarrow> pg_ok D k \<longrightarrow>
        sql_Exec (PrimaryDB m) (fst (st_insert S k b cid)) (snd (st_insert S k b cid)) e = (x, e') \<longrightarrow>
        insert_result D cid k b e x e') \<and>
     (\<forall>e k b x e'. pg_up D e \<longrightarrow> pg_ok D k \<longrightarrow>
        sql_Exec (PrimaryDB m) (fst (st_update S k b cid)) (snd (st_update S k b cid)) e = (x, e') \<longrightarrow>
        update_result D cid k b e x e') \<and>
     (\<forall>e k x e'. pg_up D e \<longrightarrow> pg_ok D k \<longrightarrow>
        sql_Exec (PrimaryDB m) (fst (st_delete S k cid)) (snd (st_delete S k cid)) e = (x, e') \<longrightarrow>
        delete_result D cid k e x e')"

text \<open>What the legal statements of a table do not change.\<close>

definition leaves ::
  "'e MultiDB \<Rightarrow> ('k, 'q) stmts \<Rightarrow> ('e, 'k, 'q) pgTable \<Rightarrow> string \<Rightarrow> ('e \<Rightarrow> 'x) \<Rightarrow> bool" where
  "leaves m S D cid f \<longleftrightarrow>
     (\<forall>e k b q args. pg_up D e \<longrightarrow> pg_ok D k \<longrightarrow>
        (q, args) \<in> {st_insert S k b cid, st_update S k b cid, st_delete S k cid} \<longrightarrow>
        f (snd (sql_Exec (PrimaryDB m) q args e)) = f e)"

text \<open>Postgres may reformat a document, but not change what it decodes to.\<close>

definition jsonb_faithful :: "'r TypeLib \<Rightarrow> ('e, 'k, 'q) pgTable \<Rightarrow> bool" where
  "jsonb_faithful T D \<longleftrightarrow>
     (\<forall>r b c. Marshal T r = Inr b \<longrightarrow> jsonb_norm D b = Some c \<longrightarrow> Unmarshal T c = Unmarshal T b)"

definition pg_view ::
  "'r TypeLib \<Rightarrow> ('e, 'k, 'q) pgTable \<Rightarrow> string \<Rightarrow> 'e pg_svc world \<Rightarrow> 'k \<rightharpoonup> 'r" where
  "pg_view T D cid w k =
     (case rows_of D (pg_db (svc w)) cid k of
        None \<Rightarrow> None
      | Some b \<Rightarrow> (case Unmarshal T b of Inl e \<Rightarrow> None | Inr r \<Rightarrow> Some r))"

definition pg_inv ::
  "'a ObjectMeta_scheme TypeLib \<Rightarrow> ('a ObjectMeta_scheme \<Rightarrow> 'a ObjectMeta_scheme) \<Rightarrow> 'e MultiDB \<Rightarrow>
     ('k, 'q) stmts \<Rightarrow> ('q \<Rightarrow> 'k \<Rightarrow> bool) \<Rightarrow> ('e, 'k, 'q) pgTable \<Rightarrow> string \<Rightarrow>
     ('a ObjectMeta_scheme \<Rightarrow> 'k) \<Rightarrow> 'e pg_svc world \<Rightarrow> bool" where
  "pg_inv T canon m S sel D cid rk w \<longleftrightarrow>
     read_contract m S sel D cid \<and> write_contract m S D cid \<and>
     json_roundtrip T canon \<and> jsonb_faithful T D \<and> pg_up D (pg_db (svc w)) \<and>
     (\<forall>k b. rows_of D (pg_db (svc w)) cid k = Some b \<longrightarrow>
        pg_ok D k \<and> (\<exists>r. Unmarshal T b = Inr r \<and> rk r = k))"

definition pg_good ::
  "'r TypeLib \<Rightarrow> ('e, 'k, 'q) pgTable \<Rightarrow> ('r \<Rightarrow> 'k) \<Rightarrow> 'r \<Rightarrow> bool" where
  "pg_good T D rk r \<longleftrightarrow> pg_ok D (rk r) \<and> (\<exists>b c. Marshal T r = Inr b \<and> jsonb_norm D b = Some c)"

subsection \<open>Facts about reads and writes\<close>

lemma pg_invD:
  assumes "pg_inv T canon m S sel D cid rk w"
  shows "read_contract m S sel D cid" "write_contract m S D cid" "json_roundtrip T canon"
    "jsonb_faithful T D" "pg_up D (pg_db (svc w))"
    "rows_of D (pg_db (svc w)) cid k = Some b \<Longrightarrow> pg_ok D k \<and> (\<exists>r. Unmarshal T b = Inr r \<and> rk r = k)"
  using assms by (simp_all add: pg_inv_def)

lemma read_contract_list:
  assumes "read_contract m S sel D cid" "pg_up D e" "pg_okq D x" "st_list S x cid = (q, args)"
  shows "reads_ok m q args e
    (\<lambda>rows. \<exists>ks. distinct ks \<and> set ks = {k \<in> dom (rows_of D e cid). sel x k} \<and>
                rows = full_rows (map (\<lambda>k. the (rows_of D e cid k)) ks))"
  using assms unfolding read_contract_def by fastforce

lemma read_contract_get:
  assumes "read_contract m S sel D cid" "pg_up D e" "pg_ok D k" "st_get S k cid = (q, args)"
  shows "reads_ok m q args e
    (\<lambda>rows. rows = full_rows (case rows_of D e cid k of None \<Rightarrow> [] | Some b \<Rightarrow> [b]))"
  using assms unfolding read_contract_def by fastforce

lemma write_contract_results:
  assumes "write_contract m S D cid" "pg_up D e" "pg_ok D k" "sql_Exec (PrimaryDB m) q args e = (x, e')"
  shows "st_insert S k b cid = (q, args) \<Longrightarrow> insert_result D cid k b e x e'"
    and "st_update S k b cid = (q, args) \<Longrightarrow> update_result D cid k b e x e'"
    and "st_delete S k cid = (q, args) \<Longrightarrow> delete_result D cid k e x e'"
  using assms unfolding write_contract_def by fastforce+

lemma run_exec_db:
  "run_exec m q args w = (x, w1) \<Longrightarrow>
     sql_Exec (PrimaryDB m) q args (pg_db (svc w)) = (x, pg_db (svc w1))"
  by (auto simp: run_exec_def Let_def split: prod.splits)

lemma run_read_row_eq: "run_read_row m q args w = run_read m q args w"
  by (simp add: run_read_row_def run_read_def ReadQueryRow_eq)

lemma run_read_keeps [simp]: "pg_db (svc (snd (run_read m q args w))) = pg_db (svc w)"
  by (simp add: run_read_def case_prod_unfold Let_def)

lemma fst_run_read: "fst (run_read m q args w) = fst (ReadQuery m q args (svc w))"
  by (simp add: run_read_def case_prod_unfold Let_def)

text \<open>The invariant and the reports seen depend on the contents of the database only.\<close>

lemma pg_same_db:
  assumes "pg_db (svc w') = pg_db (svc w)"
  shows "pg_inv T canon m S sel D cid rk w' = pg_inv T canon m S sel D cid rk w"
    and "pg_view T D cid w' = pg_view T D cid w"
  using assms by (simp_all add: pg_inv_def pg_view_def fun_eq_iff)

lemma pg_view_key:
  assumes "pg_inv T canon m S sel D cid rk w" and "pg_view T D cid w k = Some r"
  shows "pg_ok D k \<and> rk r = k"
  using assms by (force simp: pg_inv_def pg_view_def split: option.splits sum.splits)

lemma pg_row:
  assumes "pg_inv T canon m S sel D cid rk w"
  shows "(rows_of D (pg_db (svc w)) cid k = None \<and> pg_view T D cid w k = None) \<or>
    (\<exists>b r. rows_of D (pg_db (svc w)) cid k = Some b \<and> Unmarshal T b = Inr r \<and>
       pg_view T D cid w k = Some r)"
  using assms unfolding pg_inv_def pg_view_def
  by (cases "rows_of D (pg_db (svc w)) cid k") force+

text \<open>Scanning the row of a key gives the document, or \<open>ErrNoRows\<close>.\<close>

lemma pg_get_row:
  assumes "pg_inv T canon m S sel D cid rk w" and "pg_ok D k" and "st_get S k cid = (q, args)"
  shows "Row_Scan (fst (run_read m q args w)) =
    (case rows_of D (pg_db (svc w)) cid k of None \<Rightarrow> Inl ErrNoRows | Some b \<Rightarrow> Inr b)"
proof -
  from ReadQuery_ok [OF read_contract_get [OF pg_invD(1,5) [OF assms(1)] assms(2,3)]] show ?thesis
    by (auto simp: fst_run_read Row_Scan_def full_rows_def split: option.split)
qed

text \<open>Listing gives the reports of the selected keys, each once.\<close>

lemma pg_list_rows:
  assumes "pg_inv T canon m S sel D cid rk w" and "pg_okq D x" and "st_list S x cid = (q, args)"
  shows "\<exists>ks rows. distinct ks \<and> set ks = {k \<in> dom (pg_view T D cid w). sel x k} \<and>
    fst (run_read m q args w) = Inr rows \<and>
    map_result (scan_report T e1 e2) (row_values rows) = Inr (map (pg_view T D cid w) ks)"
proof -
  let ?R = "rows_of D (pg_db (svc w)) cid" and ?v = "pg_view T D cid w"
  from ReadQuery_ok [OF read_contract_list [OF pg_invD(1,5) [OF assms(1)] assms(2,3)]] obtain ks where
    ks: "distinct ks" "set ks = {k \<in> dom ?R. sel x k}"
    and read: "fst (run_read m q args w) = Inr (full_rows (map (\<lambda>k. the (?R k)) ks))"
    by (auto simp: fst_run_read)
  have row: "(?R k = None \<and> ?v k = None) \<or>
      (\<exists>b r. ?R k = Some b \<and> Unmarshal T b = Inr r \<and> ?v k = Some r)" for k
    by (rule pg_row [OF assms(1)])
  then have "dom ?R = dom ?v" by (force simp: dom_def)
  with ks(2) have "set ks = {k \<in> dom ?v. sel x k}" by simp
  moreover have "map_result (scan_report T e1 e2) (map (\<lambda>k. Inr (the (?R k))) ks) = Inr (map ?v ks)"
    unfolding map_result_map
  proof (rule map_result_all_Inr)
    fix k assume "k \<in> set ks"
    with ks(2) row [of k] show "scan_report T e1 e2 (Inr (the (?R k))) = Inr (?v k)"
      by (auto simp: scan_report_def)
  qed
  ultimately show ?thesis
    using ks(1) read by (auto simp: full_rows_def comp_def)
qed

text \<open>What the three kinds of writes do to the reports seen.\<close>

lemma pg_decoded:
  assumes "pg_inv T canon m S sel D cid rk w" and "Marshal T r = Inr b" and "jsonb_norm D b = Some c"
  shows "Unmarshal T c = Inr (canon r) \<and> Name (canon r) = Name r \<and> Namespace (canon r) = Namespace r"
  using assms by (simp add: pg_inv_def json_roundtrip_def jsonb_faithful_def)

lemma pg_written:
  assumes inv: "pg_inv T canon m S sel D cid rk w" and good: "pg_good T D rk r"
    and meta: "\<And>r'. Name r' = Name r \<Longrightarrow> Namespace r' = Namespace r \<Longrightarrow> rk r' = rk r"
    and b: "Marshal T r = Inr b" "jsonb_norm D b = Some c"
    and w': "rows_of D (pg_db (svc w')) =
      (rows_of D (pg_db (svc w)))(cid := (rows_of D (pg_db (svc w)) cid)(rk r \<mapsto> c))"
      "pg_up D (pg_db (svc w'))"
  shows "pg_view T D cid w' = (pg_view T D cid w)(rk r \<mapsto> canon r) \<and>
    pg_inv T canon m S sel D cid rk w'"
proof -
  from pg_decoded [OF inv b] meta [of "canon r"]
  have dec: "Unmarshal T c = Inr (canon r)" "rk (canon r) = rk r"
    by simp_all
  have "pg_view T D cid w' = (pg_view T D cid w)(rk r \<mapsto> canon r)"
    using dec by (auto simp: pg_view_def w' fun_eq_iff)
  moreover have "pg_ok D k \<and> (\<exists>r. Unmarshal T d = Inr r \<and> rk r = k)"
    if "rows_of D (pg_db (svc w')) cid k = Some d" for k d
  proof (cases "k = rk r")
    case True
    with that good dec show ?thesis by (auto simp: w' pg_good_def)
  next
    case False
    with that pg_invD(6) [OF inv, of k d] show ?thesis by (simp add: w')
  qed
  then have "pg_inv T canon m S sel D cid rk w'"
    using pg_invD(1-4) [OF inv] w'(2) by (simp add: pg_inv_def)
  ultimately show ?thesis by blast
qed

lemma pg_unchanged:
  assumes "pg_inv T canon m S sel D cid rk w"
    and "rows_of D (pg_db (svc w')) = rows_of D (pg_db (svc w))" "pg_up D (pg_db (svc w'))"
  shows "pg_view T D cid w' = pg_view T D cid w \<and> pg_inv T canon m S sel D cid rk w'"
  using assms by (simp add: pg_inv_def pg_view_def fun_eq_iff)

lemma pg_insert:
  assumes inv: "pg_inv T canon m S sel D cid rk w" and good: "pg_good T D rk r"
    and meta: "\<And>r'. Name r' = Name r \<Longrightarrow> Namespace r' = Namespace r \<Longrightarrow> rk r' = rk r"
    and b: "Marshal T r = Inr b" and q: "st_insert S (rk r) b cid = (q, args)"
    and w': "run_exec m q args w = (x, w1)" "pg_db (svc w') = pg_db (svc w1)"
  shows "(if pg_view T D cid w (rk r) = None
      then x = None \<and> pg_view T D cid w' = (pg_view T D cid w)(rk r \<mapsto> canon r)
      else x \<noteq> None \<and> pg_view T D cid w' = pg_view T D cid w) \<and> pg_inv T canon m S sel D cid rk w'"
proof -
  from good b obtain c where c: "jsonb_norm D b = Some c" by (auto simp: pg_good_def)
  from good have ok: "pg_ok D (rk r)" by (simp add: pg_good_def)
  from write_contract_results(1) [OF pg_invD(2,5) [OF inv] ok run_exec_db [OF w'(1)] q] w'(2)
  have res: "insert_result D cid (rk r) b (pg_db (svc w)) x (pg_db (svc w'))" by simp
  show ?thesis
    using res c pg_row [OF inv, of "rk r"] pg_written [OF inv good meta b c, of w']
      pg_unchanged [OF inv, of w']
    by (auto simp: insert_result_def split: if_splits)
qed

lemma pg_update:
  assumes inv: "pg_inv T canon m S sel D cid rk w" and good: "pg_good T D rk r"
    and meta: "\<And>r'. Name r' = Name r \<Longrightarrow> Namespace r' = Namespace r \<Longrightarrow> rk r' = rk r"
    and b: "Marshal T r = Inr b" and q: "st_update S (rk r) b cid = (q, args)"
    and w': "run_exec m q args w = (x, w1)" "pg_db (svc w') = pg_db (svc w1)"
  shows "x = None \<and> pg_view T D cid w' =
      (if pg_view T D cid w (rk r) = None then pg_view T D cid w
       else (pg_view T D cid w)(rk r \<mapsto> canon r)) \<and> pg_inv T canon m S sel D cid rk w'"
proof -
  from good b obtain c where c: "jsonb_norm D b = Some c" by (auto simp: pg_good_def)
  from good have ok: "pg_ok D (rk r)" by (simp add: pg_good_def)
  from write_contract_results(2) [OF pg_invD(2,5) [OF inv] ok run_exec_db [OF w'(1)] q] w'(2)
  have res: "update_result D cid (rk r) b (pg_db (svc w)) x (pg_db (svc w'))" by simp
  show ?thesis
    using res c pg_row [OF inv, of "rk r"] pg_written [OF inv good meta b c, of w']
      pg_unchanged [OF inv, of w']
    by (auto simp: update_result_def split: if_splits)
qed

lemma pg_delete:
  assumes inv: "pg_inv T canon m S sel D cid rk w" and ok: "pg_ok D k"
    and q: "st_delete S k cid = (q, args)"
    and w': "run_exec m q args w = (x, w1)" "pg_db (svc w') = pg_db (svc w1)"
  shows "x = None \<and> pg_view T D cid w' = (pg_view T D cid w)(k := None) \<and>
    pg_inv T canon m S sel D cid rk w'"
proof -
  from write_contract_results(3) [OF pg_invD(2,5) [OF inv] ok run_exec_db [OF w'(1)] q] w'(2)
  have "delete_result D cid k (pg_db (svc w)) x (pg_db (svc w'))" by simp
  then have "x = None" "pg_up D (pg_db (svc w'))"
    and rows: "rows_of D (pg_db (svc w')) =
      (rows_of D (pg_db (svc w)))(cid := (rows_of D (pg_db (svc w)) cid)(k := None))"
    by (simp_all add: delete_result_def)
  moreover have "pg_view T D cid w' = (pg_view T D cid w)(k := None)"
    by (auto simp: pg_view_def rows fun_eq_iff)
  moreover have "pg_inv T canon m S sel D cid rk w'"
    using pg_invD [OF inv] \<open>pg_up D (pg_db (svc w'))\<close>
    by (simp add: pg_inv_def rows split: if_splits)
  ultimately show ?thesis by blast
qed

subsection \<open>The four stores implement the contract\<close>

text \<open>
  Unlike etcd and the in-memory maps, Postgres answers an update of a missing report with success
  (and changes nothing), so the stores satisfy the lenient form of the contract.
\<close>

lemma stmts_simps [simp]:
  "st_get (ns_stmts t) (ns, n) cid = (sql_get_ns t, [ns, n, cid])"
  "st_insert (ns_stmts t) (ns, n) b cid = (sql_insert_ns t, [n, ns, b, cid])"
  "st_update (ns_stmts t) (ns, n) b cid = (sql_update_ns t, [b, ns, n, cid])"
  "st_delete (ns_stmts t) (ns, n) cid = (sql_delete_ns t, [ns, n, cid])"
  "st_list (cl_stmts l t) q cid = (l t, [cid])"
  "st_get (cl_stmts l t) n cid = (sql_get_cl t, [n, cid])"
  "st_insert (cl_stmts l t) n b cid = (sql_insert_cl t, [n, b, cid])"
  "st_update (cl_stmts l t) n b cid = (sql_update_cl t, [b, n, cid])"
  "st_delete (cl_stmts l t) n cid = (sql_delete_cl t, [n, cid])"
  by (simp_all add: ns_stmts_def cl_stmts_def)

lemma st_list_ns:
  "st_list (ns_stmts t) q cid = (if q = [] then (sql_list_all t, [cid]) else (sql_list_ns t, [q, cid]))"
  by (simp add: ns_stmts_def)

lemma ns_key_meta: "Name r' = Name r \<Longrightarrow> Namespace r' = Namespace r \<Longrightarrow> ns_key r' = ns_key r"
  by (simp add: ns_key_def)

lemma cl_key_meta: "Name r' = Name r \<Longrightarrow> Namespace r' = Namespace r \<Longrightarrow> cl_key r' = cl_key r"
  by (simp add: cl_key_def)

lemma pg_polr_Get_result:
  assumes "pg_inv T canon (store_MultiDB p) (ns_stmts ''policyreports'') ns_sel D (clusterId p) ns_key w"
    and "pg_ok D (ns, n)"
  shows "fst (pg_polr_Get T p n ns w) =
      (case pg_view T D (clusterId p) w (ns, n) of
         None \<Rightarrow> Inl (Errorf (''policyreport get '' @ ns @ ''/'' @ n @ '': no such policy report: '') (Some ErrNoRows))
       | Some r \<Rightarrow> Inr (Some r))"
    and "pg_db (svc (snd (pg_polr_Get T p n ns w))) = pg_db (svc w)"
  using pg_get_row [OF assms, of "sql_get_ns ''policyreports''" "[ns, n, clusterId p]"] pg_row [OF assms(1), of "(ns, n)"]
  by (auto simp: pg_polr_Get_def run_read_row_eq case_prod_unfold Let_def metric_simps
      split: sum.split option.split)

lemma pg_polr_List_result:
  assumes "pg_inv T canon (store_MultiDB p) (ns_stmts ''policyreports'') ns_sel D (clusterId p) ns_key w"
    and "pg_okq D q"
  shows "\<exists>ks. distinct ks \<and> set ks = {k \<in> dom (pg_view T D (clusterId p) w). ns_sel q k} \<and>
      fst (pg_polr_List T p q w) = Inr (map (pg_view T D (clusterId p) w) ks)"
    and "pg_db (svc (snd (pg_polr_List T p q w))) = pg_db (svc w)"
proof -
  obtain st args where st: "st_list (ns_stmts ''policyreports'') q (clusterId p) = (st, args)" by fastforce
  then have read: "(if length q = 0
      then run_read (store_MultiDB p) (sql_list_all ''policyreports'') [clusterId p] w
      else run_read (store_MultiDB p) (sql_list_ns ''policyreports'') [q, clusterId p] w) =
      run_read (store_MultiDB p) st args w"
    by (auto simp: st_list_ns split: if_splits)
  show "\<exists>ks. distinct ks \<and> set ks = {k \<in> dom (pg_view T D (clusterId p) w). ns_sel q k} \<and>
      fst (pg_polr_List T p q w) = Inr (map (pg_view T D (clusterId p) w) ks)"
    using pg_list_rows [OF assms st] unfolding pg_polr_List_def read
    by (fastforce simp: case_prod_unfold)
  show "pg_db (svc (snd (pg_polr_List T p q w))) = pg_db (svc w)"
    using run_read_keeps [of "store_MultiDB p" st args w] unfolding pg_polr_List_def read
    by (auto simp: case_prod_unfold metric_simps split: sum.split)
qed

interpretation pg_polr: report_storage "ns_ops (pg_polr_iface T p)" ns_key ns_sel canon True
  "pg_ok D" "pg_okq D" "pg_good T D ns_key" "pg_view T D (clusterId p)"
  "pg_inv T canon (store_MultiDB p) (ns_stmts ''policyreports'') ns_sel D (clusterId p) ns_key"
  for T p canon D
proof (unfold_locales, goal_cases)
  case (1 s k)
  obtain ns n where k: "k = (ns, n)" by fastforce
  note got = pg_polr_Get_result [OF 1 [unfolded k]]
  from 1(1) got(1) show ?case
    by (auto simp: k pg_polr_iface_def pg_same_db [OF got(2)] split: option.split)
next
  case (2 s q)
  then show ?case
    using pg_polr_List_result(1) [OF 2]
    by (simp add: pg_polr_iface_def pg_same_db [OF pg_polr_List_result(2) [OF 2]])
next
  case (3 s r)
  obtain b where b: "Marshal T r = Inr b" using 3(2) by (auto simp: pg_good_def)
  obtain x w1 where x: "run_exec (store_MultiDB p) (sql_insert_ns ''policyreports'')
      [Name r, Namespace r, b, clusterId p] s = (x, w1)" by fastforce
  have "pg_db (svc (snd (pg_polr_Create T p (Some r) s))) = pg_db (svc w1)"
    using x b by (simp add: pg_polr_Create_def metric_simps split: option.split)
  from pg_insert [OF 3 ns_key_meta b _ x this] x b show ?case
    by (auto simp: ns_key_def [of r] pg_polr_iface_def pg_polr_Create_def split: option.splits if_splits)
next
  case (4 s r)
  obtain b where b: "Marshal T r = Inr b" using 4(2) by (auto simp: pg_good_def)
  obtain x w1 where x: "run_exec (store_MultiDB p) (sql_update_ns ''policyreports'')
      [b, Namespace r, Name r, clusterId p] s = (x, w1)" by fastforce
  have "pg_db (svc (snd (pg_polr_Update T p (Some r) s))) = pg_db (svc w1)"
    using x b by (simp add: pg_polr_Update_def metric_simps split: option.split)
  from pg_update [OF 4 ns_key_meta b _ x this] x b show ?case
    by (auto simp: ns_key_def [of r] pg_polr_iface_def pg_polr_Update_def)
next
  case (5 s k)
  obtain ns n where k: "k = (ns, n)" by fastforce
  let ?w = "snd (pg_polr_Get T p n ns s)"
  obtain x w1 where x: "run_exec (store_MultiDB p) (sql_delete_ns ''policyreports'')
      [ns, n, clusterId p] ?w = (x, w1)" by fastforce
  obtain e where e: "\<not> errors_Is e ErrNoRows" "fst (pg_polr_Get T p n ns s) =
      (case pg_view T D (clusterId p) s k of None \<Rightarrow> Inl e | Some r \<Rightarrow> Inr (Some r))"
    using pg_polr_Get_result(1) [OF 5(1), of ns n] 5(2) k by (intro that) simp_all
  have w: "pg_db (svc ?w) = pg_db (svc s)"
    using pg_polr_Get_result(2) [OF 5(1), of ns n] 5(2) k by simp
  have inv: "pg_inv T canon (store_MultiDB p) (ns_stmts ''policyreports'') ns_sel D (clusterId p) ns_key ?w"
    using 5(1) by (simp add: pg_same_db(1) [OF w])
  show ?case
  proof (cases "pg_view T D (clusterId p) s k")
    case None
    with e have "pg_polr_Delete T p n ns s = (Some e, ?w)"
      by (simp add: pg_polr_Delete_def case_prod_unfold Let_def)
    with None show ?thesis
      using inv by (simp add: k pg_polr_iface_def fun_upd_idem pg_same_db(2) [OF w])
  next
    case (Some r)
    have "pg_db (svc (snd (pg_polr_Delete T p n ns s))) = pg_db (svc w1)"
      using x e(2) Some
      by (auto simp: pg_polr_Delete_def case_prod_unfold Let_def metric_simps split: option.split)
    from pg_delete [OF inv 5(2) _ x this] x e(2) Some show ?thesis
      by (simp add: k pg_same_db(2) [OF w] pg_polr_iface_def pg_polr_Delete_def case_prod_unfold Let_def)
  qed
next
  case (6 s k r)
  then show ?case by (rule pg_view_key)
next
  case (7 r)
  then show ?case by (simp add: pg_good_def)
next
  case (8 s r)
  then show ?case using pg_decoded [OF 8(1)] by (auto simp: pg_good_def ns_key_def)
qed

lemma pg_ephr_Get_result:
  assumes "pg_inv T canon (store_MultiDB p) (ns_stmts ''ephemeralreports'') ns_sel D (clusterId p) ns_key w"
    and "pg_ok D (ns, n)"
  shows "fst (pg_ephr_Get T p n ns w) =
      (case pg_view T D (clusterId p) w (ns, n) of
         None \<Rightarrow> Inl (Errorf (''ephemeralreport get '' @ ns @ ''/'' @ n @ '': no such ephemeral report: '') (Some ErrNoRows))
       | Some r \<Rightarrow> Inr (Some r))"
    and "pg_db (svc (snd (pg_ephr_Get T p n ns w))) = pg_db (svc w)"
  using pg_get_row [OF assms, of "sql_get_ns ''ephemeralreports''" "[ns, n, clusterId p]"] pg_row [OF assms(1), of "(ns, n)"]
  by (auto simp: pg_ephr_Get_def run_read_row_eq case_prod_unfold Let_def metric_simps
      split: sum.split option.split)

lemma pg_ephr_List_result:
  assumes "pg_inv T canon (store_MultiDB p) (ns_stmts ''ephemeralreports'') ns_sel D (clusterId p) ns_key w"
    and "pg_okq D q"
  shows "\<exists>ks. distinct ks \<and> set ks = {k \<in> dom (pg_view T D (clusterId p) w). ns_sel q k} \<and>
      fst (pg_ephr_List T p q w) = Inr (map (pg_view T D (clusterId p) w) ks)"
    and "pg_db (svc (snd (pg_ephr_List T p q w))) = pg_db (svc w)"
proof -
  obtain st args where st: "st_list (ns_stmts ''ephemeralreports'') q (clusterId p) = (st, args)" by fastforce
  then have read: "(if length q = 0
      then run_read (store_MultiDB p) (sql_list_all ''ephemeralreports'') [clusterId p] w
      else run_read (store_MultiDB p) (sql_list_ns ''ephemeralreports'') [q, clusterId p] w) =
      run_read (store_MultiDB p) st args w"
    by (auto simp: st_list_ns split: if_splits)
  show "\<exists>ks. distinct ks \<and> set ks = {k \<in> dom (pg_view T D (clusterId p) w). ns_sel q k} \<and>
      fst (pg_ephr_List T p q w) = Inr (map (pg_view T D (clusterId p) w) ks)"
    using pg_list_rows [OF assms st] unfolding pg_ephr_List_def read
    by (fastforce simp: case_prod_unfold)
  show "pg_db (svc (snd (pg_ephr_List T p q w))) = pg_db (svc w)"
    using run_read_keeps [of "store_MultiDB p" st args w] unfolding pg_ephr_List_def read
    by (auto simp: case_prod_unfold metric_simps split: sum.split)
qed

interpretation pg_ephr: report_storage "ns_ops (pg_ephr_iface T p)" ns_key ns_sel canon True
  "pg_ok D" "pg_okq D" "pg_good T D ns_key" "pg_view T D (clusterId p)"
  "pg_inv T canon (store_MultiDB p) (ns_stmts ''ephemeralreports'') ns_sel D (clusterId p) ns_key"
  for T p canon D
proof (unfold_locales, goal_cases)
  case (1 s k)
  obtain ns n where k: "k = (ns, n)" by fastforce
  note got = pg_ephr_Get_result [OF 1 [unfolded k]]
  from 1(1) got(1) show ?case
    by (auto simp: k pg_ephr_iface_def pg_same_db [OF got(2)] split: option.split)
next
  case (2 s q)
  then show ?case
    using pg_ephr_List_result(1) [OF 2]
    by (simp add: pg_ephr_iface_def pg_same_db [OF pg_ephr_List_result(2) [OF 2]])
next
  case (3 s r)
  obtain b where b: "Marshal T r = Inr b" using 3(2) by (auto simp: pg_good_def)
  obtain x w1 where x: "run_exec (store_MultiDB p) (sql_insert_ns ''ephemeralreports'')
      [Name r, Namespace r, b, clusterId p] s = (x, w1)" by fastforce
  have "pg_db (svc (snd (pg_ephr_Create T p (Some r) s))) = pg_db (svc w1)"
    using x b by (simp add: pg_ephr_Create_def metric_simps split: option.split)
  from pg_insert [OF 3 ns_key_meta b _ x this] x b show ?case
    by (auto simp: ns_key_def [of r] pg_ephr_iface_def pg_ephr_Create_def split: option.splits if_splits)
next
  case (4 s r)
  obtain b where b: "Marshal T r = Inr b" using 4(2) by (auto simp: pg_good_def)
  obtain x w1 where x: "run_exec (store_MultiDB p) (sql_update_ns ''ephemeralreports'')
      [b, Namespace r, Name r, clusterId p] s = (x, w1)" by fastforce
  have "pg_db (svc (snd (pg_ephr_Update T p (Some r) s))) = pg_db (svc w1)"
    using x b by (simp add: pg_ephr_Update_def metric_simps split: option.split)
  from pg_update [OF 4 ns_key_meta b _ x this] x b show ?case
    by (auto simp: ns_key_def [of r] pg_ephr_iface_def pg_ephr_Update_def)
next
  case (5 s k)
  obtain ns n where k: "k = (ns, n)" by fastforce
  let ?w = "snd (pg_ephr_Get T p n ns s)"
  obtain x w1 where x: "run_exec (store_MultiDB p) (sql_delete_ns ''ephemeralreports'')
      [ns, n, clusterId p] ?w = (x, w1)" by fastforce
  obtain e where e: "\<not> errors_Is e ErrNoRows" "fst (pg_ephr_Get T p n ns s) =
      (case pg_view T D (clusterId p) s k of None \<Rightarrow> Inl e | Some r \<Rightarrow> Inr (Some r))"
    using pg_ephr_Get_result(1) [OF 5(1), of ns n] 5(2) k by (intro that) simp_all
  have w: "pg_db (svc ?w) = pg_db (svc s)"
    using pg_ephr_Get_result(2) [OF 5(1), of ns n] 5(2) k by simp
  have inv: "pg_inv T canon (store_MultiDB p) (ns_stmts ''ephemeralreports'') ns_sel D (clusterId p) ns_key ?w"
    using 5(1) by (simp add: pg_same_db(1) [OF w])
  show ?case
  proof (cases "pg_view T D (clusterId p) s k")
    case None
    with e have "pg_ephr_Delete T p n ns s = (Some (Errorf ''delete ephemeralreport: '' (Some e)), ?w)"
      by (simp add: pg_ephr_Delete_def case_prod_unfold Let_def)
    with None show ?thesis
      using inv by (simp add: k pg_ephr_iface_def fun_upd_idem pg_same_db(2) [OF w])
  next
    case (Some r)
    have "pg_db (svc (snd (pg_ephr_Delete T p n ns s))) = pg_db (svc w1)"
      using x e(2) Some
      by (auto simp: pg_ephr_Delete_def case_prod_unfold Let_def metric_simps split: option.split)
    from pg_delete [OF inv 5(2) _ x this] x e(2) Some show ?thesis
      by (simp add: k pg_same_db(2) [OF w] pg_ephr_iface_def pg_ephr_Delete_def case_prod_unfold Let_def)
  qed
next
  case (6 s k r)
  then show ?case by (rule pg_view_key)
next
  case (7 r)
  then show ?case by (simp add: pg_good_def)
next
  case (8 s r)
  then show ?case using pg_decoded [OF 8(1)] by (auto simp: pg_good_def ns_key_def)
qed


lemma pg_cpolr_Get_result:
  assumes "pg_inv T canon (store_MultiDB p) (cl_stmts sql_list_all ''clusterpolicyreports'') cl_sel D (clusterId p) cl_key w"
    and "pg_ok D n"
  shows "fst (pg_cpolr_Get T p n w) =
      (case pg_view T D (clusterId p) w n of
         None \<Rightarrow> Inl (Errorf (''clusterpolicyreport get '' @ n @ '': no such policy report'') None)
       | Some r \<Rightarrow> Inr (Some r))"
    and "pg_db (svc (snd (pg_cpolr_Get T p n w))) = pg_db (svc w)"
  using pg_get_row [OF assms, of "sql_get_cl ''clusterpolicyreports''" "[n, clusterId p]"] pg_row [OF assms(1), of n]
  by (auto simp: pg_cpolr_Get_def run_read_row_eq case_prod_unfold Let_def metric_simps
      split: sum.split option.split)

lemma pg_cpolr_List_result:
  assumes "pg_inv T canon (store_MultiDB p) (cl_stmts sql_list_all ''clusterpolicyreports'') cl_sel D (clusterId p) cl_key w"
    and "pg_okq D q"
  shows "\<exists>ks. distinct ks \<and> set ks = {k \<in> dom (pg_view T D (clusterId p) w). cl_sel q k} \<and>
      fst (pg_cpolr_List T p w) = Inr (map (pg_view T D (clusterId p) w) ks)"
    and "pg_db (svc (snd (pg_cpolr_List T p w))) = pg_db (svc w)"
proof -
  let ?read = "run_read (store_MultiDB p) (sql_list_all ''clusterpolicyreports'') [clusterId p] w"
  show "\<exists>ks. distinct ks \<and> set ks = {k \<in> dom (pg_view T D (clusterId p) w). cl_sel q k} \<and>
      fst (pg_cpolr_List T p w) = Inr (map (pg_view T D (clusterId p) w) ks)"
    using pg_list_rows [OF assms stmts_simps(5), of "\<lambda>err. Errorf ''clusterpolicyreport list: '' (Some err)"
        "\<lambda>err. Errorf ''clusterpolicyreport list: cannot convert jsonb to clusterpolicyreport: '' (Some err)"] unfolding pg_cpolr_List_def
    by (auto simp: case_prod_unfold)
  show "pg_db (svc (snd (pg_cpolr_List T p w))) = pg_db (svc w)"
    using run_read_keeps [of "store_MultiDB p" "sql_list_all ''clusterpolicyreports''" "[clusterId p]" w] unfolding pg_cpolr_List_def
    by (auto simp: case_prod_unfold metric_simps split: sum.split)
qed

interpretation pg_cpolr: report_storage "cl_ops (pg_cpolr_iface T p)" cl_key cl_sel canon True
  "pg_ok D" "pg_okq D" "pg_good T D cl_key" "pg_view T D (clusterId p)"
  "pg_inv T canon (store_MultiDB p) (cl_stmts sql_list_all ''clusterpolicyreports'') cl_sel D (clusterId p) cl_key"
  for T p canon D
proof (unfold_locales, goal_cases)
  case (1 s k)
  note got = pg_cpolr_Get_result [OF 1]
  from 1(1) got(1) show ?case
    by (auto simp: pg_cpolr_iface_def pg_same_db [OF got(2)] split: option.split)
next
  case (2 s q)
  then show ?case
    using pg_cpolr_List_result(1) [OF 2]
    by (simp add: pg_cpolr_iface_def pg_same_db [OF pg_cpolr_List_result(2) [OF 2]])
next
  case (3 s r)
  obtain b where b: "Marshal T r = Inr b" using 3(2) by (auto simp: pg_good_def)
  obtain x w1 where x: "run_exec (store_MultiDB p) (sql_insert_cl ''clusterpolicyreports'')
      [Name r, b, clusterId p] s = (x, w1)" by fastforce
  have "pg_db (svc (snd (pg_cpolr_Create T p (Some r) s))) = pg_db (svc w1)"
    using x b by (simp add: pg_cpolr_Create_def metric_simps split: option.split)
  from pg_insert [OF 3 cl_key_meta b _ x this] x b show ?case
    by (auto simp: cl_key_def [of r] pg_cpolr_iface_def pg_cpolr_Create_def split: option.splits if_splits)
next
  case (4 s r)
  obtain b where b: "Marshal T r = Inr b" using 4(2) by (auto simp: pg_good_def)
  obtain x w1 where x: "run_exec (store_MultiDB p) (sql_update_cl ''clusterpolicyreports'')
      [b, Name r, clusterId p] s = (x, w1)" by fastforce
  have "pg_db (svc (snd (pg_cpolr_Update T p (Some r) s))) = pg_db (svc w1)"
    using x b by (simp add: pg_cpolr_Update_def metric_simps split: option.split)
  from pg_update [OF 4 cl_key_meta b _ x this] x b show ?case
    by (auto simp: cl_key_def [of r] pg_cpolr_iface_def pg_cpolr_Update_def)
next
  case (5 s k)
  let ?w = "snd (pg_cpolr_Get T p k s)"
  obtain x w1 where x: "run_exec (store_MultiDB p) (sql_delete_cl ''clusterpolicyreports'')
      [k, clusterId p] ?w = (x, w1)" by fastforce
  note got = pg_cpolr_Get_result [OF 5]
  have inv: "pg_inv T canon (store_MultiDB p) (cl_stmts sql_list_all ''clusterpolicyreports'') cl_sel D (clusterId p) cl_key ?w"
    using 5(1) by (simp add: pg_same_db(1) [OF got(2)])
  show ?case
  proof (cases "pg_view T D (clusterId p) s k")
    case None
    with got(1) show ?thesis
      using inv by (simp add: pg_same_db(2) [OF got(2)]
        pg_cpolr_iface_def pg_cpolr_Delete_def case_prod_unfold fun_upd_idem)
  next
    case (Some r)
    have "pg_db (svc (snd (pg_cpolr_Delete T p k s))) = pg_db (svc w1)"
      using x got(1) Some
      by (auto simp: pg_cpolr_Delete_def case_prod_unfold metric_simps split: option.split)
    from pg_delete [OF inv 5(2) _ x this] x got(1) Some show ?thesis
      by (auto simp: pg_same_db(2) [OF got(2)] pg_cpolr_iface_def pg_cpolr_Delete_def case_prod_unfold)
  qed
next
  case (6 s k r)
  then show ?case by (rule pg_view_key)
next
  case (7 r)
  then show ?case by (simp add: pg_good_def)
next
  case (8 s r)
  then show ?case using pg_decoded [OF 8(1)] by (auto simp: pg_good_def cl_key_def)
qed

lemma pg_cephr_Get_result:
  assumes "pg_inv T canon (store_MultiDB p) (cl_stmts sql_list_all_paren ''clusterephemeralreports'') cl_sel D (clusterId p) cl_key w"
    and "pg_ok D n"
  shows "fst (pg_cephr_Get T p n w) =
      (case pg_view T D (clusterId p) w n of
         None \<Rightarrow> Inl (Errorf (''clusterephemeralreport get '' @ n @ '': no such ephemeral report'') None)
       | Some r \<Rightarrow> Inr (Some r))"
    and "pg_db (svc (snd (pg_cephr_Get T p n w))) = pg_db (svc w)"
  using pg_get_row [OF assms, of "sql_get_cl ''clusterephemeralreports''" "[n, clusterId p]"] pg_row [OF assms(1), of n]
  by (auto simp: pg_cephr_Get_def run_read_row_eq case_prod_unfold Let_def metric_simps
      split: sum.split option.split)

lemma pg_cephr_List_result:
  assumes "pg_inv T canon (store_MultiDB p) (cl_stmts sql_list_all_paren ''clusterephemeralreports'') cl_sel D (clusterId p) cl_key w"
    and "pg_okq D q"
  shows "\<exists>ks. distinct ks \<and> set ks = {k \<in> dom (pg_view T D (clusterId p) w). cl_sel q k} \<and>
      fst (pg_cephr_List T p w) = Inr (map (pg_view T D (clusterId p) w) ks)"
    and "pg_db (svc (snd (pg_cephr_List T p w))) = pg_db (svc w)"
proof -
  let ?read = "run_read (store_MultiDB p) (sql_list_all_paren ''clusterephemeralreports'') [clusterId p] w"
  show "\<exists>ks. distinct ks \<and> set ks = {k \<in> dom (pg_view T D (clusterId p) w). cl_sel q k} \<and>
      fst (pg_cephr_List T p w) = Inr (map (pg_view T D (clusterId p) w) ks)"
    using pg_list_rows [OF assms stmts_simps(5), of "\<lambda>err. Errorf ''clusterephemeralreports list: '' (Some err)"
        "\<lambda>err. Errorf (''clusterephemeralreports list: cannot convert jsonb to '' @
                            ''clusterephemeralreports: '') (Some err)"] unfolding pg_cephr_List_def
    by (auto simp: case_prod_unfold)
  show "pg_db (svc (snd (pg_cephr_List T p w))) = pg_db (svc w)"
    using run_read_keeps [of "store_MultiDB p" "sql_list_all_paren ''clusterephemeralreports''" "[clusterId p]" w] unfolding pg_cephr_List_def
    by (auto simp: case_prod_unfold metric_simps split: sum.split)
qed

interpretation pg_cephr: report_storage "cl_ops (pg_cephr_iface T p)" cl_key cl_sel canon True
  "pg_ok D" "pg_okq D" "pg_good T D cl_key" "pg_view T D (clusterId p)"
  "pg_inv T canon (store_MultiDB p) (cl_stmts sql_list_all_paren ''clusterephemeralreports'') cl_sel D (clusterId p) cl_key"
  for T p canon D
proof (unfold_locales, goal_cases)
  case (1 s k)
  note got = pg_cephr_Get_result [OF 1]
  from 1(1) got(1) show ?case
    by (auto simp: pg_cephr_iface_def pg_same_db [OF got(2)] split: option.split)
next
  case (2 s q)
  then show ?case
    using pg_cephr_List_result(1) [OF 2]
    by (simp add: pg_cephr_iface_def pg_same_db [OF pg_cephr_List_result(2) [OF 2]])
next
  case (3 s r)
  obtain b where b: "Marshal T r = Inr b" using 3(2) by (auto simp: pg_good_def)
  obtain x w1 where x: "run_exec (store_MultiDB p) (sql_insert_cl ''clusterephemeralreports'')
      [Name r, b, clusterId p] s = (x, w1)" by fastforce
  have "pg_db (svc (snd (pg_cephr_Create T p (Some r) s))) = pg_db (svc w1)"
    using x b by (simp add: pg_cephr_Create_def metric_simps split: option.split)
  from pg_insert [OF 3 cl_key_meta b _ x this] x b show ?case
    by (auto simp: cl_key_def [of r] pg_cephr_iface_def pg_cephr_Create_def split: option.splits if_splits)
next
  case (4 s r)
  obtain b where b: "Marshal T r = Inr b" using 4(2) by (auto simp: pg_good_def)
  obtain x w1 where x: "run_exec (store_MultiDB p) (sql_update_cl ''clusterephemeralreports'')
      [b, Name r, clusterId p] s = (x, w1)" by fastforce
  have "pg_db (svc (snd (pg_cephr_Update T p (Some r) s))) = pg_db (svc w1)"
    using x b by (simp add: pg_cephr_Update_def metric_simps split: option.split)
  from pg_update [OF 4 cl_key_meta b _ x this] x b show ?case
    by (auto simp: cl_key_def [of r] pg_cephr_iface_def pg_cephr_Update_def)
next
  case (5 s k)
  let ?w = "snd (pg_cephr_Get T p k s)"
  obtain x w1 where x: "run_exec (store_MultiDB p) (sql_delete_cl ''clusterephemeralreports'')
      [k, clusterId p] ?w = (x, w1)" by fastforce
  note got = pg_cephr_Get_result [OF 5]
  have inv: "pg_inv T canon (store_MultiDB p) (cl_stmts sql_list_all_paren ''clusterephemeralreports'') cl_sel D (clusterId p) cl_key ?w"
    using 5(1) by (simp add: pg_same_db(1) [OF got(2)])
  show ?case
  proof (cases "pg_view T D (clusterId p) s k")
    case None
    with got(1) show ?thesis
      using inv by (simp add: pg_same_db(2) [OF got(2)]
        pg_cephr_iface_def pg_cephr_Delete_def case_prod_unfold fun_upd_idem)
  next
    case (Some r)
    have "pg_db (svc (snd (pg_cephr_Delete T p k s))) = pg_db (svc w1)"
      using x got(1) Some
      by (auto simp: pg_cephr_Delete_def case_prod_unfold metric_simps split: option.split)
    from pg_delete [OF inv 5(2) _ x this] x got(1) Some show ?thesis
      by (auto simp: pg_same_db(2) [OF got(2)] pg_cephr_iface_def pg_cephr_Delete_def case_prod_unfold)
  qed
next
  case (6 s k r)
  then show ?case by (rule pg_view_key)
next
  case (7 r)
  then show ?case by (simp add: pg_good_def)
next
  case (8 s r)
  then show ?case using pg_decoded [OF 8(1)] by (auto simp: pg_good_def cl_key_def)
qed

end
