(* ===== verification/PgConnect.thy ===== *)
theory PgConnect
  imports Postgres
begin

section \<open>Connecting to Postgres\<close>

text \<open>
  \<^verbatim>\<open>pkg/storage/db/new.go\<close>: the connection string, the retry loop around \<open>Ping\<close>, and the
  constructor that opens the primary and the replicas and creates the tables. \<open>sql.Open\<close> is a
  parameter that gives a handle for a connection string. Sleeping between attempts is not a step
  of its own: the service state may change with every \<open>Ping\<close>.
\<close>

record PostgresConfig =
  Host :: string
  ReadReplicaHosts :: "string list"
  Port :: int
  User :: string
  Password :: string
  DBname :: string
  SSLMode :: string
  SSLRootCert :: string
  SSLKey :: string
  SSLCert :: string

definition FormatInt :: "int \<Rightarrow> string" where
  "FormatInt i = (if i < 0 then CHR ''-'' # decimal (nat (- i)) else decimal (nat i))"

definition PostgresConfig_String :: "PostgresConfig \<Rightarrow> string" where
  "PostgresConfig_String p =
     (let host = (if Port p \<noteq> 0
                  then join_with CHR '',''
                         (map (\<lambda>host. host @ '':'' @ FormatInt (Port p)) (split_on CHR '','' (Host p)))
                  else Host p);
          encodedUser = QueryEscape (User p);
          encodedPassword = QueryEscape (Password p);
          urlStr = ''postgres://'' @ encodedUser @ '':'' @ encodedPassword @ ''@'' @ host @ ''/''
                     @ DBname p @ ''?sslmode='' @ SSLMode p;
          urlStr = (if SSLRootCert p \<noteq> [] then urlStr @ ''&sslrootcert='' @ SSLRootCert p else urlStr);
          urlStr = (if SSLKey p \<noteq> [] then urlStr @ ''&sslkey='' @ SSLKey p else urlStr);
          urlStr = (if SSLCert p \<noteq> [] then urlStr @ ''&sslcert='' @ SSLCert p else urlStr)
      in urlStr)"

subsection \<open>Waiting for the database\<close>

definition maxRetries :: nat where
  "maxRetries = 10"

text \<open>The loop, by the number of attempts that are left.\<close>

fun ping_attempts :: "nat \<Rightarrow> 'e sqlDB \<Rightarrow> 'e eop" where
  "ping_attempts 0 db e =
     (Some (Errorf (''could not connect after '' @ decimal maxRetries @ '' attempts'') None), e)"
| "ping_attempts (Suc n) db e =
     (case sql_Ping db e of
        (Some err, e1) \<Rightarrow> ping_attempts n db e1
      | (None, e1) \<Rightarrow> (None, e1))"

definition pingWithRetry :: "'e sqlDB \<Rightarrow> 'e eop" where
  "pingWithRetry db = ping_attempts maxRetries db"

definition run_ping :: "'e sqlDB \<Rightarrow> 'e pg_svc world eop" where
  "run_ping db w =
     (let (x, e) = pingWithRetry db (pg_db (svc w)) in (x, w\<lparr>svc := (svc w)\<lparr>pg_db := e\<rparr>\<rparr>))"

subsection \<open>The constructor\<close>

fun open_replicas ::
  "(string \<Rightarrow> err + 'e sqlDB) \<Rightarrow> PostgresConfig \<Rightarrow> string list \<Rightarrow>
     ('e sqlDB list, 'e pg_svc world) op" where
  "open_replicas sql_Open config [] w = (Inr [], w)"
| "open_replicas sql_Open config (host # hosts) w =
     (if host = [] then open_replicas sql_Open config hosts w
      else case sql_Open (PostgresConfig_String (config\<lparr>Host := host\<rparr>)) of
             Inl err \<Rightarrow> (Inl err, w)
           | Inr replicaDB \<Rightarrow>
               (case run_ping replicaDB w of
                  (Some err, w1) \<Rightarrow> (Inl err, w1)
                | (None, w1) \<Rightarrow>
                    (case open_replicas sql_Open config hosts w1 of
                       (Inl err, w2) \<Rightarrow> (Inl err, w2)
                     | (Inr dbs, w2) \<Rightarrow> (Inr (replicaDB # dbs), w2))))"

text \<open>
  \<open>Ready\<close> pings the primary; the interface asks for an answer only, so what the ping does to the
  service state is not kept.
\<close>

definition pg_Ready :: "'e sqlDB \<Rightarrow> 'e pg_svc world \<Rightarrow> bool" where
  "pg_Ready db w = (case fst (sql_Ping db (pg_db (svc w))) of Some err \<Rightarrow> False | None \<Rightarrow> True)"

definition pg_New ::
  "reportLibs \<Rightarrow> (string \<Rightarrow> err + 'e sqlDB) \<Rightarrow> PostgresConfig \<Rightarrow> string \<Rightarrow>
     ('e pg_svc world Storage, 'e pg_svc world) op" where
  "pg_New L sql_Open config cid w =
     (case sql_Open (PostgresConfig_String config) of
        Inl err \<Rightarrow> (Inl err, w)
      | Inr primaryDB \<Rightarrow>
     (case run_ping primaryDB w of
        (Some err, w1) \<Rightarrow> (Inl err, w1)
      | (None, w1) \<Rightarrow>
     (case open_replicas sql_Open config (ReadReplicaHosts config) w1 of
        (Inl err, w2) \<Rightarrow> (Inl err, w2)
      | (Inr readReplicas, w2) \<Rightarrow>
          (let multiDB = NewMultiDB primaryDB readReplicas in
     case NewPolicyReportStore multiDB cid w2 of
        (Inl err, w3) \<Rightarrow> (Inl (Wrapf ''policy report store: '' err), w3)
      | (Inr polrstore, w3) \<Rightarrow>
     (case NewClusterPolicyReportStore multiDB cid w3 of
        (Inl err, w4) \<Rightarrow> (Inl (Wrapf ''cluster policy report store: '' err), w4)
      | (Inr cpolrstore, w4) \<Rightarrow>
     (case NewEphemeralReportStore multiDB cid w4 of
        (Inl err, w5) \<Rightarrow> (Inl (Wrapf ''ephemeral report store: '' err), w5)
      | (Inr ephrstore, w5) \<Rightarrow>
     (case NewClusterEphemeralReportStore multiDB cid w5 of
        (Inl err, w6) \<Rightarrow> (Inl (Wrapf ''cluster ephemeral report store: '' err), w6)
      | (Inr cephrstore, w6) \<Rightarrow>
          (Inr \<lparr>Ready = pg_Ready primaryDB,
                PolicyReports = pg_polr_iface (polrLib L) polrstore,
                ClusterPolicyReports = pg_cpolr_iface (cpolrLib L) cpolrstore,
                EphemeralReports = pg_ephr_iface (ephrLib L) ephrstore,
                ClusterEphemeralReports = pg_cephr_iface (cephrLib L) cephrstore\<rparr>, w6))))))))"

subsection \<open>Reading a connection string back\<close>

text \<open>
  How \<^verbatim>\<open>net/url\<close> finds user and password: the authority ends at the first slash, question mark or
  hash; the user information is what comes before its last at-sign, and the first colon in it
  separates the two, which are then unescaped.
\<close>

definition url_authority :: "string \<Rightarrow> string" where
  "url_authority s = takeWhile (\<lambda>c. c \<notin> set ''/?#'') (drop (length ''postgres://'') s)"

definition before_last :: "char \<Rightarrow> string \<Rightarrow> string option" where
  "before_last c s =
     (if c \<in> set s then Some (rev (tl (dropWhile (\<lambda>d. d \<noteq> c) (rev s)))) else None)"

definition url_userinfo :: "string \<Rightarrow> (string \<times> string) option" where
  "url_userinfo s =
     (case before_last CHR ''@'' (url_authority s) of
        None \<Rightarrow> None
      | Some ui \<Rightarrow>
          (case (unescape_userinfo (takeWhile (\<lambda>c. c \<noteq> CHR '':'') ui),
                 unescape_userinfo (tl (dropWhile (\<lambda>c. c \<noteq> CHR '':'') ui))) of
             (Some u, Some p) \<Rightarrow> Some (u, p)
           | _ \<Rightarrow> None))"

lemma takeWhile_stop:
  "(\<And>x. x \<in> set xs \<Longrightarrow> P x) \<Longrightarrow> \<not> P c \<Longrightarrow> takeWhile P (xs @ c # ys) = xs"
  by (simp add: takeWhile_append2)

lemma set_split_on: "w \<in> set (split_on sep s) \<Longrightarrow> set w \<subseteq> set s"
proof (induction s arbitrary: w)
  case (Cons c s)
  obtain v vs where v: "split_on sep s = v # vs"
    by (metis split_on_nonempty neq_Nil_conv)
  with Cons.IH [of v] Cons.IH [of w] Cons.prems show ?case
    by (auto split: if_splits)
qed simp

lemma set_join_with: "set (join_with sep ws) \<subseteq> insert sep (\<Union> (set ` set ws))"
  by (induction sep ws rule: join_with.induct) auto

lemma before_last_append: "c \<notin> set ys \<Longrightarrow> before_last c (xs @ c # ys) = Some xs"
  by (simp add: before_last_def dropWhile_append)

lemma escaped_free:
  assumes "c \<in> set '':/?#@''"
  shows "c \<notin> set (QueryEscape s)"
  using assms QueryEscape_chars [of c s] by (auto simp: is_unreserved_def)

lemma FormatInt_chars: "c \<in> set (FormatInt i) \<Longrightarrow> is_digit c \<or> c = CHR ''-''"
  using decimal_digits by (auto simp: FormatInt_def split: if_splits)

text \<open>The hosts of a connection string contain no delimiter that the configured hosts do not.\<close>

definition host_part :: "PostgresConfig \<Rightarrow> string" where
  "host_part p =
     (if Port p \<noteq> 0
      then join_with CHR '',''
             (map (\<lambda>host. host @ '':'' @ FormatInt (Port p)) (split_on CHR '','' (Host p)))
      else Host p)"

lemma host_part_free:
  assumes "c \<in> set ''/?#@''" and "c \<notin> set (Host p)"
  shows "c \<notin> set (host_part p)"
proof
  assume "c \<in> set (host_part p)"
  then show False
    using assms set_join_with [of "CHR '',''"
        "map (\<lambda>host. host @ '':'' @ FormatInt (Port p)) (split_on CHR '','' (Host p))"]
      set_split_on [of _ "CHR '',''" "Host p"] FormatInt_chars [of c "Port p"]
    by (fastforce simp: host_part_def is_digit_def split: if_splits)
qed

lemma url_authority_String:
  assumes "\<And>c. c \<in> set ''/?#@'' \<Longrightarrow> c \<notin> set (Host p)"
  shows "url_authority (PostgresConfig_String p) =
    QueryEscape (User p) @ '':'' @ QueryEscape (Password p) @ ''@'' @ host_part p"
proof -
  have "\<exists>rest. PostgresConfig_String p = ''postgres://'' @
      (QueryEscape (User p) @ '':'' @ QueryEscape (Password p) @ ''@'' @ host_part p) @ CHR ''/'' # rest"
    unfolding PostgresConfig_String_def Let_def host_part_def [symmetric] by (simp add: append_assoc)
  then obtain rest where s: "PostgresConfig_String p = ''postgres://'' @
      (QueryEscape (User p) @ '':'' @ QueryEscape (Password p) @ ''@'' @ host_part p) @ CHR ''/'' # rest"
    by blast
  have free: "\<And>c. c \<in> set ''/?#'' \<Longrightarrow>
      c \<notin> set (QueryEscape (User p) @ '':'' @ QueryEscape (Password p) @ ''@'' @ host_part p)"
    using escaped_free host_part_free assms by fastforce
  let ?a = "QueryEscape (User p) @ '':'' @ QueryEscape (Password p) @ ''@'' @ host_part p"
  have "takeWhile (\<lambda>c. c \<notin> set ''/?#'') (?a @ CHR ''/'' # rest) = ?a"
  proof (rule takeWhile_stop)
    show "\<And>x. x \<in> set ?a \<Longrightarrow> x \<notin> set ''/?#''" using free by blast
  qed simp
  moreover have "drop (length ''postgres://'') (''postgres://'' @ x) = x" for x by simp
  ultimately show ?thesis unfolding url_authority_def s by (simp only:)
qed

subsection \<open>Properties\<close>

lemma ping_attempts_spec:
  "fst (ping_attempts n db e) =
     (if \<exists>i. i < n \<and> fst (sql_Ping db (((\<lambda>e. snd (sql_Ping db e)) ^^ i) e)) = None then None
      else Some (Errorf ''could not connect after 10 attempts'' None))"
proof (induction n arbitrary: e)
  case 0
  show ?case by (simp add: maxRetries_def decimal.simps digit_chars)
next
  case (Suc n)
  let ?ok = "\<lambda>e i. fst (sql_Ping db (((\<lambda>e. snd (sql_Ping db e)) ^^ i) e)) = None"
  have split: "(\<exists>i. i < Suc n \<and> ?ok e i) \<longleftrightarrow> ?ok e 0 \<or> (\<exists>i. i < n \<and> ?ok (snd (sql_Ping db e)) i)"
    unfolding Ex_less_Suc2 by (simp add: funpow_Suc_right del: funpow.simps(2))
  show ?case
    unfolding split using Suc.IH [of "snd (sql_Ping db e)"]
    by (cases "sql_Ping db e"; cases "fst (sql_Ping db e)") auto
qed

text \<open>
  C34. The retry loop makes at most ten attempts and succeeds exactly when one of them does; it
  always returns, and after ten failures it returns its own error.
\<close>

theorem ping_retry_spec:
  "fst (pingWithRetry db e) =
     (if \<exists>i. i < 10 \<and> fst (sql_Ping db (((\<lambda>e. snd (sql_Ping db e)) ^^ i) e)) = None then None
      else Some (Errorf ''could not connect after 10 attempts'' None))"
  unfolding pingWithRetry_def ping_attempts_spec by (simp add: maxRetries_def)

text \<open>
  C35. User names and passwords survive the connection string: whatever characters they contain,
  except spaces, reading the string back as a URL gives the same user and password, provided the
  configured hosts are host names (no slash, question mark, hash or at-sign in them). A space is
  read back as a plus sign, because user information is not unescaped the way a query is.
\<close>

theorem dsn_userinfo:
  assumes "\<forall>c \<in> set ''/?#@''. c \<notin> set (Host p)"
  shows "url_userinfo (PostgresConfig_String p) =
    Some (map (\<lambda>c. if c = CHR '' '' then CHR ''+'' else c) (User p),
          map (\<lambda>c. if c = CHR '' '' then CHR ''+'' else c) (Password p))"
proof -
  let ?u = "QueryEscape (User p)" and ?w = "QueryEscape (Password p)"
  have auth: "url_authority (PostgresConfig_String p) = (?u @ CHR '':'' # ?w) @ CHR ''@'' # host_part p"
    using url_authority_String [of p] assms by simp
  have "CHR ''@'' \<notin> set (host_part p)"
    using host_part_free [of "CHR ''@''" p] assms by simp
  then have "before_last CHR ''@'' (url_authority (PostgresConfig_String p)) = Some (?u @ CHR '':'' # ?w)"
    unfolding auth by (rule before_last_append)
  moreover have "CHR '':'' \<notin> set ?u" by (rule escaped_free) simp
  then have "takeWhile (\<lambda>c. c \<noteq> CHR '':'') (?u @ CHR '':'' # ?w) = ?u"
    and "tl (dropWhile (\<lambda>c. c \<noteq> CHR '':'') (?u @ CHR '':'' # ?w)) = ?w"
    by (auto intro!: takeWhile_stop simp: dropWhile_append)
  ultimately show ?thesis
    by (simp add: url_userinfo_def unescape_QueryEscape)
qed

theorem dsn_userinfo_witness:
  "url_userinfo (PostgresConfig_String
     \<lparr>Host = ''db1,db2'', ReadReplicaHosts = [], Port = 5432, User = ''a:b'', Password = ''p@ss/word?'',
      DBname = ''reports'', SSLMode = ''disable'', SSLRootCert = [], SSLKey = [], SSLCert = []\<rparr>) =
   Some (''a:b'', ''p@ss/word?'')"
  by (subst dsn_userinfo) simp_all

end
