(* ===== verification/Versioning.thy ===== *)
theory Versioning
  imports Types
begin

section \<open>Resource versions\<close>

text \<open>
  \<^verbatim>\<open>pkg/storage/versioning.go\<close>: a 64-bit counter behind a mutex, so each call is one atomic step
  on the counter. The contract of \<open>api.Versioning\<close> (\<^verbatim>\<open>pkg/storage/api/interface.go\<close>) is the locale
  \<open>versioning\<close>; its clients' facts about any sequence of calls are proved there.
\<close>

record resourceVersion =
  version :: u64

definition NewVersioning :: resourceVersion where
  "NewVersioning = \<lparr>version = 1\<rparr>"

definition SetResourceVersion :: "string \<Rightarrow> resourceVersion eop" where
  "SetResourceVersion val r =
     (case ParseUint val of
        Inl e \<Rightarrow> (Some (NumError e val), r)
      | Inr number \<Rightarrow> (None, if number > version r then r\<lparr>version := number\<rparr> else r))"

definition UseResourceVersion :: "resourceVersion \<Rightarrow> string \<times> resourceVersion" where
  "UseResourceVersion r = (FormatUint (version r), r\<lparr>version := version r + 1\<rparr>)"

text \<open>A history of calls, by any number of goroutines, in the order the mutex serves them.\<close>

datatype version_call = UseCall | SetCall string

fun run_versions ::
  "(string \<Rightarrow> 'v eop) \<Rightarrow> ('v \<Rightarrow> string \<times> 'v) \<Rightarrow> version_call list \<Rightarrow> 'v \<Rightarrow> string list \<times> 'v" where
  "run_versions set_rv use_rv [] v = ([], v)"
| "run_versions set_rv use_rv (UseCall # cs) v =
     (let (s, v1) = use_rv v; (ss, v2) = run_versions set_rv use_rv cs v1 in (s # ss, v2))"
| "run_versions set_rv use_rv (SetCall s # cs) v =
     (let (e, v1) = set_rv s v in run_versions set_rv use_rv cs v1)"

subsection \<open>The contract\<close>

locale versioning =
  fixes set_rv :: "string \<Rightarrow> 'v eop"
    and use_rv :: "'v \<Rightarrow> string \<times> 'v"
    and current :: "'v \<Rightarrow> u64"
  assumes use_result: "fst (use_rv v) = FormatUint (current v)"
    and use_next: "current (snd (use_rv v)) = current v + 1"
    and set_parsed: "ParseUint s = Inr n \<Longrightarrow>
          fst (set_rv s v) = None \<and> current (snd (set_rv s v)) = max n (current v)"
    and set_rejected: "ParseUint s = Inl e \<Longrightarrow>
          fst (set_rv s v) = Some (NumError e s) \<and> snd (set_rv s v) = v"
begin

lemma set_never_decreases: "current v \<le> current (snd (set_rv s v))"
proof (cases "ParseUint s")
  case (Inl e)
  then show ?thesis using set_rejected by simp
next
  case (Inr n)
  then show ?thesis using set_parsed [OF Inr] by simp
qed

lemma run_values:
  "\<exists>ws. fst (run_versions set_rv use_rv cs v) = map FormatUint ws \<and>
     (-1 \<notin> set ws \<longrightarrow> (\<forall>w \<in> set ws. current v \<le> w) \<and> sorted_wrt (<) ws)"
proof (induction cs arbitrary: v)
  case Nil
  then show ?case by simp
next
  case (Cons c cs)
  show ?case
  proof (cases c)
    case (SetCall s)
    from Cons.IH [of "snd (set_rv s v)"] show ?thesis
      unfolding SetCall
      using set_never_decreases [of v s] by (fastforce simp: case_prod_unfold)
  next
    case UseCall
    let ?w = "current v" and ?v1 = "snd (use_rv v)"
    from Cons.IH [of ?v1] obtain ws where
      ws: "fst (run_versions set_rv use_rv cs ?v1) = map FormatUint ws"
      and mono: "-1 \<notin> set ws \<longrightarrow> (\<forall>w \<in> set ws. current ?v1 \<le> w) \<and> sorted_wrt (<) ws"
      by blast
    have less: "?w \<noteq> -1 \<Longrightarrow> ?w < ?w + 1"
      by (simp add: word_less_nat_alt unat_suc_u64)
    have "fst (run_versions set_rv use_rv (c # cs) v) = map FormatUint (?w # ws)"
      using ws use_result [of v] by (simp add: UseCall case_prod_unfold)
    moreover have "-1 \<notin> set (?w # ws) \<longrightarrow>
        (\<forall>w \<in> set (?w # ws). current v \<le> w) \<and> sorted_wrt (<) (?w # ws)"
      using mono less use_next [of v]
      by (auto intro: less_imp_le less_le_trans)
    ultimately show ?thesis by blast
  qed
qed

lemma run_distinct:
  assumes "FormatUint (-1) \<notin> set (fst (run_versions set_rv use_rv cs v))"
  shows "distinct (fst (run_versions set_rv use_rv cs v))"
proof -
  obtain ws where ws: "fst (run_versions set_rv use_rv cs v) = map FormatUint ws"
    and mono: "-1 \<notin> set ws \<longrightarrow> (\<forall>w \<in> set ws. current v \<le> w) \<and> sorted_wrt (<) ws"
    using run_values by blast
  from assms have "sorted_wrt (<) ws" using mono ws by auto
  then have "distinct ws" by (simp add: strict_sorted_iff)
  then show ?thesis by (simp add: ws distinct_map inj_on_def)
qed

end

interpretation rv: versioning SetResourceVersion UseResourceVersion version
  by unfold_locales
    (auto simp: SetResourceVersion_def UseResourceVersion_def max_def)

subsection \<open>Properties\<close>

text \<open>
  C22. However the goroutines interleave their calls to \<open>UseResourceVersion\<close> and
  \<open>SetResourceVersion\<close>, no version is handed out twice, as long as the largest 64-bit number has
  not been handed out.
\<close>

theorem versions_unique:
  assumes "FormatUint (-1) \<notin> set (fst (run_versions SetResourceVersion UseResourceVersion cs r))"
  shows "distinct (fst (run_versions SetResourceVersion UseResourceVersion cs r))"
  using assms by (rule rv.run_distinct)

theorem versions_unique_witness:
  "distinct (fst (run_versions SetResourceVersion UseResourceVersion
     [UseCall, SetCall ''41'', UseCall, SetCall ''7'', UseCall] NewVersioning)) \<and>
   fst (run_versions SetResourceVersion UseResourceVersion
     [UseCall, SetCall ''41'', UseCall, SetCall ''7'', UseCall] NewVersioning) = [''1'', ''41'', ''42'']"
proof -
  let ?run = "fst (run_versions SetResourceVersion UseResourceVersion
     [UseCall, SetCall ''41'', UseCall, SetCall ''7'', UseCall] NewVersioning)"
  have eq: "?run = [''1'', ''41'', ''42'']"
    by (simp add: NewVersioning_def SetResourceVersion_def UseResourceVersion_def num_eval)
  have lits: "[''1'', ''41'', ''42''] = map FormatUint [1, 41, 42]"
    by (simp add: num_eval)
  have "FormatUint (-1) \<notin> set ?run"
    unfolding eq lits by simp
  from versions_unique [OF this] eq show ?thesis by simp
qed

text \<open>
  \<open>SetResourceVersion\<close> raises the counter to the parsed number if that is higher and keeps it
  otherwise; a string that is not a 64-bit decimal number is an error and changes nothing.
\<close>

lemma set_version_spec:
  "SetResourceVersion val r =
     (case ParseUint val of
        Inr n \<Rightarrow> (None, r\<lparr>version := max n (version r)\<rparr>)
      | Inl e \<Rightarrow> (Some (NumError e val), r))"
  by (simp add: SetResourceVersion_def max_def split: sum.split)

text \<open>
  The versions a store hands out parse back: what \<open>UseResourceVersion\<close> returns is accepted by
  \<open>SetResourceVersion\<close>, and setting the counter to a version just used leaves it where it is,
  except after the largest version, where the counter has wrapped to zero and is set back.
\<close>

lemma set_after_use:
  "SetResourceVersion (fst (UseResourceVersion r)) (snd (UseResourceVersion r)) =
     (None, if version r = -1 then r else snd (UseResourceVersion r))"
proof (cases "version r = -1")
  case True
  have "(0 :: u64) < -1" by (simp add: word_greater_zero_iff)
  moreover have "r\<lparr>version := version r\<rparr> = r" by simp
  ultimately show ?thesis
    by (simp add: SetResourceVersion_def UseResourceVersion_def ParseUint_FormatUint True
        del: resourceVersion.update_convs)
next
  case False
  then have "\<not> version r > version r + 1"
    by (simp add: word_less_nat_alt unat_suc_u64)
  with False show ?thesis
    by (simp add: SetResourceVersion_def UseResourceVersion_def ParseUint_FormatUint)
qed

end
