(* ===== verification/Store.thy ===== *)
theory Store
  imports Etcd PgConnect Versioning
begin

section \<open>The storage the server uses\<close>

text \<open>
  \<^verbatim>\<open>pkg/storage/store.go\<close>: a back end together with the version counter. \<open>storage.New\<close> chooses etcd or
  Postgres; the in-memory back end of \<^verbatim>\<open>pkg/storage/inmemory\<close> is not among its choices. The etcd client
  and the SQL driver act on one and the same state of the world outside, whatever it is.
\<close>

record 's store =
  st_db :: "'s Storage"
  st_versioning :: resourceVersion

definition storage_New ::
  "reportLibs \<Rightarrow> (clientConfig \<Rightarrow> err + 'e pg_svc KV) \<Rightarrow> (string \<Rightarrow> err + 'e sqlDB) \<Rightarrow>
     bool \<Rightarrow> PostgresConfig \<Rightarrow> string \<Rightarrow> EtcdConfig \<Rightarrow>
     ('e pg_svc world store, 'e pg_svc world) op" where
  "storage_New L clientv3_New sql_Open embedded config cid etcdCfg w =
     (if embedded
      then (case etcd_New L clientv3_New etcdCfg of
              Inl err \<Rightarrow> (Inl err, w)
            | Inr storage \<Rightarrow> (Inr \<lparr>st_db = storage, st_versioning = NewVersioning\<rparr>, w))
      else (case pg_New L sql_Open config cid w of
              (Inl err, w1) \<Rightarrow> (Inl err, w1)
            | (Inr storage, w1) \<Rightarrow> (Inr \<lparr>st_db = storage, st_versioning = NewVersioning\<rparr>, w1)))"

definition store_PolicyReports :: "'s store \<Rightarrow> 's PolicyReportsInterface" where
  "store_PolicyReports s = PolicyReports (st_db s)"

definition store_ClusterPolicyReports :: "'s store \<Rightarrow> 's ClusterPolicyReportsInterface" where
  "store_ClusterPolicyReports s = ClusterPolicyReports (st_db s)"

definition store_EphemeralReports :: "'s store \<Rightarrow> 's EphemeralReportsInterface" where
  "store_EphemeralReports s = EphemeralReports (st_db s)"

definition store_ClusterEphemeralReports :: "'s store \<Rightarrow> 's ClusterEphemeralReportsInterface" where
  "store_ClusterEphemeralReports s = ClusterEphemeralReports (st_db s)"

definition store_Ready :: "'s store \<Rightarrow> 's \<Rightarrow> bool" where
  "store_Ready s = Ready (st_db s)"

definition store_SetResourceVersion :: "string \<Rightarrow> 's store eop" where
  "store_SetResourceVersion val s =
     (let (err, v) = SetResourceVersion val (st_versioning s) in (err, s\<lparr>st_versioning := v\<rparr>))"

definition store_UseResourceVersion :: "'s store \<Rightarrow> string \<times> 's store" where
  "store_UseResourceVersion s =
     (let (rv, v) = UseResourceVersion (st_versioning s) in (rv, s\<lparr>st_versioning := v\<rparr>))"

text \<open>The delegating counter keeps the contract of the counter.\<close>

interpretation store_rv: versioning store_SetResourceVersion store_UseResourceVersion
  "\<lambda>s. version (st_versioning s)"
  by unfold_locales
    (auto simp: store_SetResourceVersion_def store_UseResourceVersion_def SetResourceVersion_def
      UseResourceVersion_def max_def)

text \<open>With etcd the storage is ready as soon as it exists; with Postgres, when a ping gets through.\<close>

lemma storage_New_etcd_ready:
  assumes "storage_New L clientv3_New sql_Open True config cid etcdCfg w = (Inr s, w')"
  shows "store_Ready s w'' \<and> w' = w \<and> st_versioning s = NewVersioning"
  using assms
  by (auto simp: storage_New_def store_Ready_def etcd_New_def Let_def split: sum.splits)

lemma storage_New_pg_ready:
  assumes "storage_New L clientv3_New sql_Open False config cid etcdCfg w = (Inr s, w')"
  shows "\<exists>db. sql_Open (PostgresConfig_String config) = Inr db \<and>
    (store_Ready s w'' \<longleftrightarrow> fst (sql_Ping db (pg_db (svc w''))) = None) \<and> st_versioning s = NewVersioning"
  using assms
  by (auto simp: storage_New_def store_Ready_def pg_New_def pg_Ready_def Let_def
      split: sum.splits prod.splits option.splits)

end
