(* ===== verification/Options.thy ===== *)
theory Options
  imports Store
begin

section \<open>Options and configuration\<close>

text \<open>
  \<^verbatim>\<open>pkg/app/opts/options.go\<close>: the command-line options, and the configuration of the server that they
  and the environment give. Parsing the command line and the generic API server options are the
  business of libraries; what their calls answer is the record \<open>host\<close>. The environment is the
  function \<open>Getenv\<close>, which gives the empty string for a variable that is not set.
\<close>

record Options =
  ShowVersion :: bool
  Etcd :: bool
  Kubeconfig :: string
  opt_EtcdConfig :: EtcdConfig
  EtcdDir :: string
  DBHost :: string
  DBReadReplicaHosts :: "string list"
  DBPort :: int
  DBUser :: string
  DBPassword :: string
  DBName :: string
  DBSSLMode :: string
  DBSSLRootCert :: string
  DBSSLKey :: string
  DBSSLCert :: string
  DisableAuthForTesting :: bool

text \<open>The answers of the libraries: errors of the API server options, the client configurations.\<close>

record 'c host =
  ValidateAndApply :: "err option" \<comment> \<open>of the logging options\<close>
  MaybeDefaultWithSelfSignedCerts :: "err option"
  SecureServing_ApplyTo :: "err option"
  Authentication_ApplyTo :: "err option"
  Authorization_ApplyTo :: "err option"
  Audit_ApplyTo :: "err option"
  version_String :: string
  ClientConfig :: "string \<Rightarrow> err + 'c" \<comment> \<open>the configuration in a kubeconfig file\<close>
  InClusterConfig :: "err + 'c"
  SetKubernetesDefaults :: "'c \<Rightarrow> err option \<times> 'c"
  Getenv :: "string \<Rightarrow> string"

record apiserver_config =
  Info_Title :: string
  Info_Version :: string

record 'c Config =
  Apiserver :: apiserver_config
  Rest :: 'c
  Embedded :: bool
  cfg_EtcdConfig :: EtcdConfig
  DBconfig :: PostgresConfig

subsection \<open>Options\<close>

definition NewOptions :: Options where
  "NewOptions =
     \<lparr>ShowVersion = False, Etcd = False, Kubeconfig = [],
      opt_EtcdConfig = \<lparr>Endpoints = [], Insecure = False\<rparr>, EtcdDir = [], DBHost = [],
      DBReadReplicaHosts = [], DBPort = 0, DBUser = [], DBPassword = [], DBName = [], DBSSLMode = [],
      DBSSLRootCert = [], DBSSLKey = [], DBSSLCert = [], DisableAuthForTesting = False\<rparr>"

text \<open>Registering the flags stores their default values.\<close>

definition Flags :: "Options \<Rightarrow> Options" where
  "Flags opts =
     opts\<lparr>Etcd := False, opt_EtcdConfig := \<lparr>Endpoints = [], Insecure = True\<rparr>, ShowVersion := False,
       Kubeconfig := Kubeconfig opts, DBSSLMode := ''disable'', DBSSLRootCert := [], DBSSLKey := [],
       DBSSLCert := []\<rparr>"

definition validate :: "Options \<Rightarrow> err list" where
  "validate opts = []"

definition Validate :: "'c host \<Rightarrow> Options \<Rightarrow> err list" where
  "Validate h opts =
     (case ValidateAndApply h of Some err \<Rightarrow> validate opts @ [err] | None \<Rightarrow> validate opts)"

subsection \<open>Configuration\<close>

text \<open>The fields are set one by one, so a bad port leaves the earlier ones set.\<close>

definition dbConfig :: "(string \<Rightarrow> string) \<Rightarrow> Options eop" where
  "dbConfig getenv opts =
     (if Etcd opts then (None, opts)
      else let o1 = opts\<lparr>DBHost := getenv ''DB_HOST'', DBName := getenv ''DB_DATABASE'',
                     DBUser := getenv ''DB_USER'', DBPassword := getenv ''DB_PASSWORD''\<rparr>;
               dbPortStr = getenv ''DB_PORT'';
               replicas = (\<lambda>opts. if length (getenv ''DB_READ_REPLICA_HOSTS'') > 0
                               then opts\<lparr>DBReadReplicaHosts :=
                                       split_on CHR '','' (getenv ''DB_READ_REPLICA_HOSTS'')\<rparr>
                               else opts)
           in if dbPortStr \<noteq> []
              then (case Atoi dbPortStr of
                      Inl e \<Rightarrow> (Some (NumError e dbPortStr), o1)
                    | Inr dbPort \<Rightarrow> (None, replicas (o1\<lparr>DBPort := dbPort\<rparr>)))
              else (None, replicas o1))"

definition first_err :: "err option list \<Rightarrow> err option" where
  "first_err es = (case filter (\<lambda>e. e \<noteq> None) es of [] \<Rightarrow> None | e # _ \<Rightarrow> e)"

definition ApiserverConfig :: "'c host \<Rightarrow> Options \<Rightarrow> err + apiserver_config" where
  "ApiserverConfig h opts =
     (case MaybeDefaultWithSelfSignedCerts h of
        Some err \<Rightarrow> Inl (Errorf ''error creating self-signed certificates: '' (Some err))
      | None \<Rightarrow>
          (case first_err ([SecureServing_ApplyTo h] @
                  (if \<not> DisableAuthForTesting opts
                   then [Authentication_ApplyTo h, Authorization_ApplyTo h] else []) @
                  [Audit_ApplyTo h]) of
             Some err \<Rightarrow> Inl err
           | None \<Rightarrow> Inr \<lparr>Info_Title = ''reports-server'',
                           Info_Version = hd (split_on CHR ''-'' (version_String h))\<rparr>))"

definition restConfig :: "'c host \<Rightarrow> Options \<Rightarrow> err + 'c" where
  "restConfig h opts =
     (case (if length (Kubeconfig opts) > 0 then ClientConfig h (Kubeconfig opts) else InClusterConfig h) of
        Inl err \<Rightarrow> Inl (Errorf ''unable to construct lister client config: '' (Some err))
      | Inr config \<Rightarrow>
          (case SetKubernetesDefaults h config of
             (Some err, config') \<Rightarrow> Inl err
           | (None, config') \<Rightarrow> Inr config'))"

definition ServerConfig :: "'c host \<Rightarrow> Options \<Rightarrow> err + 'c Config" where
  "ServerConfig h opts =
     (case ApiserverConfig h opts of
        Inl err \<Rightarrow> Inl err
      | Inr apiserver \<Rightarrow>
          (case restConfig h opts of
             Inl err \<Rightarrow> Inl err
           | Inr restCfg \<Rightarrow>
               (case dbConfig (Getenv h) opts of
                  (Some err, o1) \<Rightarrow> Inl err
                | (None, o1) \<Rightarrow>
                    Inr \<lparr>Apiserver = apiserver, Rest = restCfg, Embedded = Etcd o1,
                         cfg_EtcdConfig = opt_EtcdConfig o1,
                         DBconfig =
                           \<lparr>Host = DBHost o1, ReadReplicaHosts = DBReadReplicaHosts o1,
                            Port = DBPort o1, User = DBUser o1, Password = DBPassword o1,
                            DBname = DBName o1, SSLMode = DBSSLMode o1,
                            SSLRootCert = DBSSLRootCert o1, SSLKey = DBSSLKey o1,
                            SSLCert = DBSSLCert o1\<rparr>\<rparr>)))"

subsection \<open>Ports\<close>

lemma Atoi_bounds:
  assumes "Atoi s = Inr i"
  shows "- (2 ^ 63) \<le> i \<and> i < 2 ^ 63"
  using assms by (auto simp: Atoi_def Let_def split: if_splits sum.splits)

lemma decimal_head: "\<exists>d ds. decimal n = digit_char d # ds \<and> d < 10"
proof (induction n rule: decimal.induct)
  case (1 n)
  show ?case
  proof (cases "n < 10")
    case True
    then show ?thesis by (auto simp: decimal.simps [of n])
  next
    case False
    with 1 obtain d ds where "decimal (n div 10) = digit_char d # ds" "d < 10" by blast
    with False show ?thesis by (auto simp: decimal.simps [of n])
  qed
qed

lemma digit_not_sign:
  assumes "d < 10"
  shows "digit_char d \<noteq> CHR ''-''" and "digit_char d \<noteq> CHR ''+''"
proof -
  have "d \<in> {0, 1, 2, 3, 4, 5, 6, 7, 8, 9}" using assms by auto
  then show "digit_char d \<noteq> CHR ''-''" and "digit_char d \<noteq> CHR ''+''"
    by (auto simp: digit_chars)
qed

text \<open>The port that is printed into the connection string reads back as the port.\<close>

lemma Atoi_FormatInt:
  assumes "- (2 ^ 63) \<le> i" and "i < 2 ^ 63"
  shows "Atoi (FormatInt i) = Inr i"
proof (cases "i < 0")
  case True
  have "nat (- i) \<le> max_u64" using assms(1) by (simp add: max_u64_def)
  with True assms(1) show ?thesis
    by (auto simp: Atoi_def FormatInt_def parse_loop_decimal Let_def)
next
  case False
  obtain d ds where d: "decimal (nat i) = digit_char d # ds" "d < 10" using decimal_head by blast
  have "nat i \<le> max_u64" using assms(2) False by (simp add: max_u64_def)
  from parse_loop_decimal [OF this] d False assms(2) digit_not_sign [OF d(2)] show ?thesis
    by (auto simp: Atoi_def FormatInt_def Let_def)
qed

subsection \<open>Properties\<close>


definition sample_host :: "unit host" where
  "sample_host =
     \<lparr>ValidateAndApply = None, MaybeDefaultWithSelfSignedCerts = None, SecureServing_ApplyTo = None,
      Authentication_ApplyTo = None, Authorization_ApplyTo = None, Audit_ApplyTo = None,
      version_String = ''v1-dirty'', ClientConfig = (\<lambda>_. Inr ()), InClusterConfig = Inr (),
      SetKubernetesDefaults = (\<lambda>c. (None, c)),
      Getenv = (\<lambda>_. [])(''DB_HOST'' := ''db'', ''DB_PORT'' := ''5432'',
                 ''DB_READ_REPLICA_HOSTS'' := ''r1,r2'')\<rparr>"


end
