(* ===== verification/ApiCommon.thy ===== *)
theory ApiCommon
  imports StorageSpec Versioning
begin

section \<open>What the four REST stores share\<close>

text \<open>
  \<^verbatim>\<open>pkg/api/{annotate,filter,serializer,names}.go\<close> and the requests and state of a REST store. The
  state is the storage and the version counter of the \<open>storage.Interface\<close> it was made with
  (\<^verbatim>\<open>pkg/storage/store.go\<close>), and the calls of \<open>broadcaster.Action\<close> it has made, in order.

  From outside come, with every request: the namespace of the request context, the options, the
  validation functions of the admission chain, the object an update computes, and the draws of
  the UUID generator, the name generator and the clock.
\<close>

record ('s, 'r) rest_state =
  store_db :: 's
  store_versioning :: resourceVersion
  broadcast :: "'r event list"

record ListOptions =
  LabelSelector :: "(gomap \<Rightarrow> bool) option"
    \<comment> \<open>\<open>labels.Selector.Matches\<close> of the selector, if there is one\<close>
  opt_ResourceVersion :: string
  ResourceVersionMatch :: string

record WriteOptions =
  DryRun :: "string list"
  FieldValidation :: string

record request_env =
  NewUUID :: string
  Now :: int
  genName :: "string \<Rightarrow> string"

datatype 'r watch_result =
    Watch
  | WatchWithPrefix "'r event list"

subsection \<open>Annotation\<close>

definition ServedByReportsServerAnnotation :: string where
  "ServedByReportsServerAnnotation = ''kyverno.reports-server.io/served-by''"

definition ServedByReportsServerValue :: string where
  "ServedByReportsServerValue = ''reports-server''"

definition labelReports :: "gomap \<Rightarrow> gomap" where
  "labelReports obj =
     (let obj' = (case obj of None \<Rightarrow> Map.empty | Some m \<Rightarrow> m)
      in Some (obj'(ServedByReportsServerAnnotation \<mapsto> ServedByReportsServerValue)))"

definition served_by :: "'a ObjectMeta_scheme \<Rightarrow> bool" where
  "served_by r \<longleftrightarrow>
     (case Annotations r of
        None \<Rightarrow> False
      | Some m \<Rightarrow> m ServedByReportsServerAnnotation = Some ServedByReportsServerValue)"

lemma served_by_labelled:
  "served_by (r\<lparr>Annotations := labelReports (Annotations r')\<rparr>)"
  by (simp add: served_by_def labelReports_def Let_def)

subsection \<open>Filtering\<close>

definition allowObjectListWatch ::
  "'a ObjectMeta_scheme \<Rightarrow> (gomap \<Rightarrow> bool) option \<Rightarrow> u64 \<Rightarrow> string \<Rightarrow> bool \<times> u64 \<times> err option" where
  "allowObjectListWatch object labelSelector desiredRv rvmatch =
     (case labelSelector of
        None \<Rightarrow> (True, 1, None)
      | Some matches \<Rightarrow> if matches (Labels object) then (True, 1, None) else (False, 0, None))"

text \<open>The loop of the four \<open>List\<close> methods over the stored reports.\<close>

fun filter_items ::
  "(gomap \<Rightarrow> bool) option \<Rightarrow> u64 \<Rightarrow> string \<Rightarrow> 'a ObjectMeta_scheme list \<Rightarrow> u64 \<Rightarrow>
     'a ObjectMeta_scheme list \<Rightarrow> err + u64 \<times> 'a ObjectMeta_scheme list" where
  "filter_items labelSelector desiredRv rvmatch [] resourceVersion acc = Inr (resourceVersion, acc)"
| "filter_items labelSelector desiredRv rvmatch (r # rs) resourceVersion acc =
     (case allowObjectListWatch r labelSelector desiredRv rvmatch of
        (allow, rv, Some err) \<Rightarrow> Inl err
      | (allow, rv, None) \<Rightarrow>
          filter_items labelSelector desiredRv rvmatch rs
            (if rv > resourceVersion then rv else resourceVersion)
            (if allow then acc @ [r] else acc))"

definition selected :: "(gomap \<Rightarrow> bool) option \<Rightarrow> 'a ObjectMeta_scheme \<Rightarrow> bool" where
  "selected labelSelector r \<longleftrightarrow> (case labelSelector of None \<Rightarrow> True | Some m \<Rightarrow> m (Labels r))"

lemma filter_items_eq:
  "filter_items sel rv m rs 1 acc = Inr (1, acc @ filter (selected sel) rs)"
  by (induction rs arbitrary: acc) (auto simp: allowObjectListWatch_def selected_def split: option.split)

definition desired_rv :: "string \<Rightarrow> err + u64" where
  "desired_rv s =
     (if length s = 0 then Inr 1
      else case ParseUint s of Inl e \<Rightarrow> Inl (NumError e s) | Inr n \<Rightarrow> Inr n)"

subsection \<open>Shared pieces of the handlers\<close>

text \<open>A panic is not an error value that a handler could replace by another.\<close>

definition unless_panic :: "err \<Rightarrow> err \<Rightarrow> err" where
  "unless_panic e e' = (case e of Panic m \<Rightarrow> Panic m | _ \<Rightarrow> e')"

definition nil_deref :: err where
  "nil_deref = Panic ''nil pointer dereference''"

text \<open>\<open>*v.DeepCopy()\<close> for each pointer of a list.\<close>

definition deref_all :: "'r option list \<Rightarrow> err + 'r list" where
  "deref_all vs = map_result (\<lambda>v. case v of None \<Rightarrow> Inl nil_deref | Some r \<Rightarrow> Inr r) vs"

lemma deref_all_map:
  assumes "set ks \<subseteq> dom m"
  shows "deref_all (map m ks) = Inr (map (\<lambda>k. the (m k)) ks)"
  unfolding deref_all_def map_result_map
  by (rule map_result_all_Inr) (use assms in auto)

text \<open>The switch on \<open>options.FieldValidation\<close>: a validation error counts only if it is Strict.\<close>

definition strict_err :: "err option \<Rightarrow> string \<Rightarrow> err option" where
  "strict_err err fieldValidation =
     (case err of None \<Rightarrow> None | Some e \<Rightarrow> if fieldValidation = ''Strict'' then Some e else None)"

definition isDryRun :: "WriteOptions \<Rightarrow> bool" where
  "isDryRun options \<longleftrightarrow> ''All'' \<in> set (DryRun options)"

definition Action :: "EventType \<Rightarrow> 'r \<Rightarrow> ('s, 'r) rest_state \<Rightarrow> ('s, 'r) rest_state" where
  "Action t r w = w\<lparr>broadcast := broadcast w @ [(t, r)]\<rparr>"

subsection \<open>Media types\<close>

definition NoProtobuf :: "string \<Rightarrow> bool" where
  "NoProtobuf mediaType \<longleftrightarrow> mediaType \<noteq> ''application/vnd.kubernetes.protobuf''"

fun any_accepts :: "('i \<Rightarrow> bool) list \<Rightarrow> 'i \<Rightarrow> bool" where
  "any_accepts [] info = False"
| "any_accepts (accept # accepts) info = (if accept info then True else any_accepts accepts info)"

fun SupportedMediaTypes :: "('i \<Rightarrow> bool) list \<Rightarrow> 'i list \<Rightarrow> 'i list" where
  "SupportedMediaTypes accepts [] = []"
| "SupportedMediaTypes accepts (info # base) =
     (if any_accepts accepts info then info # SupportedMediaTypes accepts base
      else SupportedMediaTypes accepts base)"

definition DefaultSubsetNegotiatedSerializer :: "('i \<Rightarrow> string) \<Rightarrow> 'i list \<Rightarrow> 'i list" where
  "DefaultSubsetNegotiatedSerializer mediaType codecs =
     SupportedMediaTypes [\<lambda>info. NoProtobuf (mediaType info)] codecs"

lemma SupportedMediaTypes_filter:
  "SupportedMediaTypes accepts base = filter (\<lambda>i. list_ex (\<lambda>a. a i) accepts) base"
proof -
  have "any_accepts accepts i = list_ex (\<lambda>a. a i) accepts" for i
    by (induction accepts) auto
  then show ?thesis by (induction base) auto
qed

end
