(* ===== verification/SampleStore.thy ===== *)
theory SampleStore
  imports ApiCommon
begin

section \<open>A plain list as a storage\<close>

text \<open>
  A storage that keeps the reports themselves in a list. The repository has no such back end; it
  is the smallest storage that meets the contract, and the examples of the REST stores run on it.
\<close>

definition list_view :: "('r \<Rightarrow> 'k) \<Rightarrow> 'r list \<Rightarrow> 'k \<rightharpoonup> 'r" where
  "list_view key rs = map_of (map (\<lambda>r. (key r, r)) rs)"

definition list_inv :: "('r \<Rightarrow> 'k) \<Rightarrow> 'r list \<Rightarrow> bool" where
  "list_inv key rs \<longleftrightarrow> distinct (map key rs)"

definition list_get :: "('r \<Rightarrow> 'k) \<Rightarrow> 'k \<Rightarrow> ('r option, 'r list) op" where
  "list_get key k rs =
     (case list_view key rs k of None \<Rightarrow> Inl (External ''no such report'') | Some r \<Rightarrow> Inr (Some r), rs)"

definition list_list :: "('r \<Rightarrow> bool) \<Rightarrow> ('r option list, 'r list) op" where
  "list_list p rs = (Inr (map Some (filter p rs)), rs)"

definition list_create :: "('r \<Rightarrow> 'k) \<Rightarrow> 'r option \<Rightarrow> 'r list eop" where
  "list_create key x rs =
     (case x of
        None \<Rightarrow> (Some (External ''no report''), rs)
      | Some r \<Rightarrow> if key r \<in> key ` set rs then (Some (External ''taken''), rs) else (None, r # rs))"

definition list_update :: "('r \<Rightarrow> 'k) \<Rightarrow> 'r option \<Rightarrow> 'r list eop" where
  "list_update key x rs =
     (case x of
        None \<Rightarrow> (Some (External ''no report''), rs)
      | Some r \<Rightarrow> if key r \<in> key ` set rs then (None, map (\<lambda>q. if key q = key r then r else q) rs)
                 else (Some (External ''no such report''), rs))"

definition list_delete :: "('r \<Rightarrow> 'k) \<Rightarrow> 'k \<Rightarrow> 'r list eop" where
  "list_delete key k rs =
     (if k \<in> key ` set rs then (None, filter (\<lambda>r. key r \<noteq> k) rs)
      else (Some (External ''no such report''), rs))"

definition list_ns :: "('a ObjectMeta_scheme list, 'a ObjectMeta_scheme) NamespacedInterface" where
  "list_ns = \<lparr>nGet = (\<lambda>n ns. list_get ns_key (ns, n)), nList = (\<lambda>ns. list_list (\<lambda>r. ns_sel ns (ns_key r))),
     nCreate = list_create ns_key, nUpdate = list_update ns_key,
     nDelete = (\<lambda>n ns. list_delete ns_key (ns, n))\<rparr>"

definition list_cl :: "('a ObjectMeta_scheme list, 'a ObjectMeta_scheme) ClusterInterface" where
  "list_cl = \<lparr>cGet = list_get cl_key, cList = list_list (\<lambda>r. True),
     cCreate = list_create cl_key, cUpdate = list_update cl_key, cDelete = list_delete cl_key\<rparr>"

definition no_ns :: "('s, 'r) NamespacedInterface" where
  "no_ns = \<lparr>nGet = (\<lambda>n ns s. (Inl (External ''off''), s)), nList = (\<lambda>ns s. (Inl (External ''off''), s)),
     nCreate = (\<lambda>r s. (Some (External ''off''), s)), nUpdate = (\<lambda>r s. (Some (External ''off''), s)),
     nDelete = (\<lambda>n ns s. (Some (External ''off''), s))\<rparr>"

definition no_cl :: "('s, 'r) ClusterInterface" where
  "no_cl = \<lparr>cGet = (\<lambda>n s. (Inl (External ''off''), s)), cList = (\<lambda>s. (Inl (External ''off''), s)),
     cCreate = (\<lambda>r s. (Some (External ''off''), s)), cUpdate = (\<lambda>r s. (Some (External ''off''), s)),
     cDelete = (\<lambda>n s. (Some (External ''off''), s))\<rparr>"

definition polr_lists :: "PolicyReport list Storage" where
  "polr_lists = \<lparr>Ready = (\<lambda>_. True), PolicyReports = list_ns, ClusterPolicyReports = list_cl,
     EphemeralReports = no_ns, ClusterEphemeralReports = no_cl\<rparr>"

definition ephr_lists :: "EphemeralReport list Storage" where
  "ephr_lists = \<lparr>Ready = (\<lambda>_. True), PolicyReports = no_ns, ClusterPolicyReports = no_cl,
     EphemeralReports = list_ns, ClusterEphemeralReports = list_cl\<rparr>"

lemma lists_simps [simp]:
  "PolicyReports polr_lists = list_ns" "ClusterPolicyReports polr_lists = list_cl"
  "EphemeralReports ephr_lists = list_ns" "ClusterEphemeralReports ephr_lists = list_cl"
  by (simp_all add: polr_lists_def ephr_lists_def)

lemma list_view_None: "list_view key rs k = None \<longleftrightarrow> k \<notin> key ` set rs"
  by (force simp: list_view_def map_of_eq_None_iff)

lemma list_view_Some: "list_inv key rs \<Longrightarrow> list_view key rs k = Some r \<longleftrightarrow> r \<in> set rs \<and> key r = k"
  by (auto simp: list_view_def list_inv_def map_of_eq_Some_iff comp_def)

lemma map_eqI:
  assumes "\<And>k r. m k = Some r \<longleftrightarrow> m' k = Some r"
  shows "m = m'"
proof
  show "m k = m' k" for k 
    using assms [of k "the (m k)"] assms [of k "the (m' k)"] by (cases "m k"; cases "m' k") simp_all
qed

lemma list_view_update:
  assumes "list_inv key rs" and "key r \<in> key ` set rs"
  shows "list_view key (map (\<lambda>q. if key q = key r then r else q) rs) = (list_view key rs)(key r \<mapsto> r)"
    and "list_inv key (map (\<lambda>q. if key q = key r then r else q) rs)"
proof -
  let ?rs = "map (\<lambda>q. if key q = key r then r else q) rs"
  have keys: "map key ?rs = map key rs" by simp
  then show inv: "list_inv key ?rs" using assms(1) by (simp only: list_inv_def)
  have "list_view key ?rs k = Some q \<longleftrightarrow> ((list_view key rs)(key r \<mapsto> r)) k = Some q" for k q
    using assms by (auto simp: list_view_Some [OF inv] list_view_Some image_iff)
  then show "list_view key ?rs = (list_view key rs)(key r \<mapsto> r)" by (rule map_eqI)
qed

lemma list_view_delete:
  assumes "list_inv key rs"
  shows "list_view key (filter (\<lambda>r. key r \<noteq> k) rs) = (list_view key rs)(k := None)"
    and "list_inv key (filter (\<lambda>r. key r \<noteq> k) rs)"
proof -
  let ?rs = "filter (\<lambda>r. key r \<noteq> k) rs"
  show inv: "list_inv key ?rs" using assms by (simp add: list_inv_def distinct_map_filter)
  have "list_view key ?rs k' = Some q \<longleftrightarrow> ((list_view key rs)(k := None)) k' = Some q" for k' q
    using assms by (auto simp: list_view_Some [OF inv] list_view_Some)
  then show "list_view key ?rs = (list_view key rs)(k := None)" by (rule map_eqI)
qed

definition list_ops :: "('r \<Rightarrow> 'k) \<Rightarrow> ('q \<Rightarrow> 'k \<Rightarrow> bool) \<Rightarrow> ('r list, 'k, 'q, 'r) ops" where
  "list_ops key sel =
     \<lparr>getK = list_get key, listQ = (\<lambda>q. list_list (\<lambda>r. sel q (key r))), createR = list_create key,
      updateR = list_update key, deleteK = list_delete key\<rparr>"

interpretation lists: report_storage "list_ops key sel" key sel id False "\<lambda>_. True" "\<lambda>_. True"
  "\<lambda>_. True" "list_view key" "list_inv key"
  for key :: "'r \<Rightarrow> 'k" and sel :: "'q \<Rightarrow> 'k \<Rightarrow> bool"
proof (unfold_locales, goal_cases)
  case (1 s k)
  then show ?case by (simp add: list_ops_def list_get_def split: option.split)
next
  case (2 s q)
  let ?rs = "filter (\<lambda>r. sel q (key r)) s"
  have rs: "map (list_view key s) (map key ?rs) = map Some ?rs"
    using 2 by (auto simp: list_view_Some)
  have "set (map key ?rs) = {k \<in> dom (list_view key s). sel q k}"
    by (auto simp: domIff list_view_None)
  moreover have "distinct (map key ?rs)" using 2(1) by (simp add: list_inv_def distinct_map_filter)
  ultimately show ?case using rs 2(1)
    by (auto simp: list_ops_def list_list_def intro!: exI [of _ "map key ?rs"])
next
  case (3 s r)
  then show ?case
    by (auto simp: list_ops_def list_create_def list_view_None list_inv_def)
      (simp add: list_view_def)
next
  case (4 s r)
  then show ?case
    by (simp add: list_ops_def list_update_def list_view_None list_view_update)
next
  case (5 s k)
  then show ?case
    by (simp add: list_ops_def list_delete_def list_view_delete list_view_None fun_upd_idem)
next
  case (6 s k r)
  then show ?case by (simp add: list_view_Some)
qed simp_all

lemma list_ns_ops: "ns_ops list_ns = list_ops ns_key ns_sel"
  by (auto simp: ns_ops_def list_ns_def list_ops_def)

lemma list_cl_ops: "cl_ops list_cl = list_ops cl_key cl_sel"
  by (simp add: cl_ops_def list_cl_def list_ops_def cl_sel_def)

lemma lists_contract:
  "report_storage (ns_ops (PolicyReports polr_lists)) ns_key ns_sel id False (\<lambda>_. True) (\<lambda>_. True)
     (\<lambda>_. True) (list_view ns_key) (list_inv ns_key)"
  "report_storage (cl_ops (ClusterPolicyReports polr_lists)) cl_key cl_sel id False (\<lambda>_. True) (\<lambda>_. True)
     (\<lambda>_. True) (list_view cl_key) (list_inv cl_key)"
  "report_storage (ns_ops (EphemeralReports ephr_lists)) ns_key ns_sel id False (\<lambda>_. True) (\<lambda>_. True)
     (\<lambda>_. True) (list_view ns_key) (list_inv ns_key)"
  "report_storage (cl_ops (ClusterEphemeralReports ephr_lists)) cl_key cl_sel id False (\<lambda>_. True) (\<lambda>_. True)
     (\<lambda>_. True) (list_view cl_key) (list_inv cl_key)"
  by (simp_all add: list_ns_ops list_cl_ops lists.report_storage_axioms)

lemmas list_defs = list_ns_def list_cl_def list_get_def list_list_def list_create_def list_update_def
  list_delete_def

subsection \<open>Sample requests\<close>

definition sample_env :: request_env where
  "sample_env = \<lparr>NewUUID = ''u1'', Now = 7, genName = (\<lambda>base. base @ ''x'')\<rparr>"

definition sample_opts :: WriteOptions where
  "sample_opts = \<lparr>DryRun = [], FieldValidation = ''Ignore''\<rparr>"

definition dry_opts :: WriteOptions where
  "dry_opts = \<lparr>DryRun = [''All''], FieldValidation = ''Ignore''\<rparr>"

definition sample_lopts :: ListOptions where
  "sample_lopts = \<lparr>LabelSelector = None, opt_ResourceVersion = ''1'', ResourceVersionMatch = []\<rparr>"

definition sample_state :: "'r list \<Rightarrow> ('r list, 'r) rest_state" where
  "sample_state rs = \<lparr>store_db = rs, store_versioning = \<lparr>version = 5\<rparr>, broadcast = []\<rparr>"

definition accept :: "Object \<Rightarrow> err option" where
  "accept obj = None"

definition accept_update :: "Object \<Rightarrow> 'r option \<Rightarrow> err option" where
  "accept_update obj old = None"

lemma sample_requests [simp]:
  "\<not> isDryRun sample_opts" "isDryRun dry_opts" "accept obj = None" "accept_update obj old = None"
  "strict_err None f = None" "store_db (sample_state rs) = rs" "broadcast (sample_state rs) = []"
  "version (store_versioning (sample_state rs)) = 5" "LabelSelector sample_lopts = None"
  "opt_ResourceVersion sample_lopts = ''1''"
  by (simp_all add: isDryRun_def sample_opts_def dry_opts_def accept_def accept_update_def
      strict_err_def sample_state_def sample_lopts_def)

lemma list_inv_small [simp]: "list_inv key []" "list_inv key [r]"
  by (simp_all add: list_inv_def)

lemma list_view_small [simp]: "list_view key [] = Map.empty" "list_view key [r] = [key r \<mapsto> r]"
  by (simp_all add: list_view_def)

definition sample_ephr :: EphemeralReport where
  "sample_ephr = zero_EphemeralReport\<lparr>Name := ''a'', Namespace := ''default''\<rparr>"

lemma sample_ephr_keys [simp]: "Name sample_ephr = ''a''" "Namespace sample_ephr = ''default''"
  by (simp_all add: sample_ephr_def zero_EphemeralReport_def)

end
