(* ===== verification/Migration.thy ===== *)
theory Migration
  imports SampleStore
begin

section \<open>Taking over the reports of the cluster\<close>

text \<open>
  \<^verbatim>\<open>Config.migration\<close> of \<^verbatim>\<open>pkg/server/config.go\<close>: before the server installs its API it copies the reports
  the cluster holds into its own storage, kind by kind, raises the version counter to the versions
  of the lists, and starts a goroutine per kind that copies the changes made since.

  The clients for the cluster are outside the repository: what their constructors, their list calls
  and \<open>NewRetryWatcher\<close> answer is the record \<open>cluster\<close>. The goroutines run beside everything else;
  \<open>migration\<close> records which of them it started, and \<open>watch_reports\<close> is what one of them does with
  the events it receives.
\<close>

datatype watcher = CpolrWatcher | PolrWatcher | CephrWatcher | EphrWatcher

record cluster =
  kyverno_NewForConfig :: "err option"
  versioned_NewForConfig :: "err option"
  list_cpolrs :: "err + ClusterPolicyReport ReportList"
  list_polrs :: "err + PolicyReport ReportList"
  list_cephrs :: "err + ClusterEphemeralReport ReportList"
  list_ephrs :: "err + EphemeralReport ReportList"
  NewRetryWatcher :: "string \<Rightarrow> err option"

record 's mig_state =
  mig_db :: 's
  mig_versioning :: resourceVersion
  mig_watchers :: "watcher list"

subsection \<open>One kind\<close>

text \<open>A report that already carries the annotation is left alone; its value does not matter.\<close>

definition annotated :: "'a ObjectMeta_scheme \<Rightarrow> bool" where
  "annotated c \<longleftrightarrow>
     (case Annotations c of None \<Rightarrow> False | Some m \<Rightarrow> m ServedByReportsServerAnnotation \<noteq> None)"

definition annotate :: "'a ObjectMeta_scheme \<Rightarrow> 'a ObjectMeta_scheme" where
  "annotate c =
     (let m = (case Annotations c of None \<Rightarrow> Map.empty | Some m \<Rightarrow> m)
      in c\<lparr>Annotations := Some (m(ServedByReportsServerAnnotation \<mapsto> ServedByReportsServerValue))\<rparr>)"

fun migrate_items ::
  "('a ObjectMeta_scheme option \<Rightarrow> 's eop) \<Rightarrow> 'a ObjectMeta_scheme list \<Rightarrow> 's eop" where
  "migrate_items create [] s = (None, s)"
| "migrate_items create (c # cs) s =
     (if annotated c then migrate_items create cs s
      else case create (Some (annotate c)) s of
             (Some err, s1) \<Rightarrow> (Some err, s1)
           | (None, s1) \<Rightarrow> migrate_items create cs s1)"

text \<open>
  The goroutine: an event about a report that carries the annotation ends it; errors are logged.
  Events other than Added and Modified are skipped.
\<close>

fun watch_reports ::
  "('a ObjectMeta_scheme option \<Rightarrow> 's eop) \<Rightarrow> ('a ObjectMeta_scheme option \<Rightarrow> 's eop) \<Rightarrow>
     'a ObjectMeta_scheme event list \<Rightarrow> 's \<Rightarrow> 's" where
  "watch_reports create update [] s = s"
| "watch_reports create update ((Added, r) # evs) s =
     (if annotated r then s
      else let (err, s1) = create (Some (annotate r)) s in watch_reports create update evs s1)"
| "watch_reports create update ((Modified, r) # evs) s =
     (if annotated r then s
      else let (err, s1) = update (Some (annotate r)) s in watch_reports create update evs s1)"
| "watch_reports create update ((Deleted, r) # evs) s = watch_reports create update evs s"

text \<open>
  Copy the items, raise the counter to \<open>rv\<close>, start a watcher at \<open>watch_rv\<close>.
\<close>

definition migrate_kind ::
  "('a ObjectMeta_scheme option \<Rightarrow> 's eop) \<Rightarrow> 'a ObjectMeta_scheme list \<Rightarrow> string \<Rightarrow>
     (string \<Rightarrow> err option) \<Rightarrow> string \<Rightarrow> watcher \<Rightarrow> 's mig_state eop" where
  "migrate_kind create items rv newWatcher watch_rv k w =
     (case migrate_items create items (mig_db w) of
        (Some err, s1) \<Rightarrow> (Some err, w\<lparr>mig_db := s1\<rparr>)
      | (None, s1) \<Rightarrow>
          (case SetResourceVersion rv (mig_versioning w) of
             (Some err, v1) \<Rightarrow> (Some err, w\<lparr>mig_db := s1, mig_versioning := v1\<rparr>)
           | (None, v1) \<Rightarrow>
               (case newWatcher watch_rv of
                  Some err \<Rightarrow> (Some err, w\<lparr>mig_db := s1, mig_versioning := v1\<rparr>)
                | None \<Rightarrow> (None, \<lparr>mig_db = s1, mig_versioning = v1,
                                  mig_watchers = mig_watchers w @ [k]\<rparr>))))"

subsection \<open>All kinds\<close>

text \<open>
  A list call that fails ends the migration without an error. The version the counter is raised to
  after the policy reports is that of the cluster policy reports, as in the source.
\<close>

definition reserve_versions :: "'s mig_state eop" where
  "reserve_versions w =
     (let (s, v1) = UseResourceVersion (mig_versioning w)
      in case ParseUint s of
           Inl e \<Rightarrow> (Some (NumError e s), w\<lparr>mig_versioning := v1\<rparr>)
         | Inr rv \<Rightarrow>
             (let (err, v2) = SetResourceVersion (FormatUint (rv + 9999)) v1
              in (err, w\<lparr>mig_versioning := v2\<rparr>)))"

text \<open>\<open>if err != nil { return err }\<close>, and after a list call \<open>if err != nil { return nil }\<close>.\<close>

definition unless_err :: "err option \<Rightarrow> 's eop \<Rightarrow> 's eop" where
  "unless_err x f w = (case x of Some err \<Rightarrow> (Some err, w) | None \<Rightarrow> f w)"

definition and_then :: "'s eop \<Rightarrow> 's eop \<Rightarrow> 's eop" where
  "and_then f g w = (case f w of (Some err, w1) \<Rightarrow> (Some err, w1) | (None, w1) \<Rightarrow> g w1)"

definition on_list :: "err + 'l \<Rightarrow> ('l \<Rightarrow> 's eop) \<Rightarrow> 's eop" where
  "on_list x f w = (case x of Inl err \<Rightarrow> (None, w) | Inr l \<Rightarrow> f l w)"

definition migrate_cpolrs ::
  "'s Storage \<Rightarrow> cluster \<Rightarrow> ClusterPolicyReport ReportList \<Rightarrow> 's mig_state eop" where
  "migrate_cpolrs store c cpolrs =
     migrate_kind (cCreate (ClusterPolicyReports store)) (Items cpolrs)
       (list_ResourceVersion cpolrs) (NewRetryWatcher c) (list_ResourceVersion cpolrs) CpolrWatcher"

definition migrate_polrs ::
  "'s Storage \<Rightarrow> cluster \<Rightarrow> ClusterPolicyReport ReportList \<Rightarrow> PolicyReport ReportList \<Rightarrow>
     's mig_state eop" where
  "migrate_polrs store c cpolrs polrs =
     migrate_kind (nCreate (PolicyReports store)) (Items polrs)
       (list_ResourceVersion cpolrs) (NewRetryWatcher c) (list_ResourceVersion polrs) PolrWatcher"

definition migrate_cephrs ::
  "'s Storage \<Rightarrow> cluster \<Rightarrow> ClusterEphemeralReport ReportList \<Rightarrow> 's mig_state eop" where
  "migrate_cephrs store c cephrs =
     migrate_kind (cCreate (ClusterEphemeralReports store)) (Items cephrs)
       (list_ResourceVersion cephrs) (NewRetryWatcher c) (list_ResourceVersion cephrs) CephrWatcher"

definition migrate_ephrs ::
  "'s Storage \<Rightarrow> cluster \<Rightarrow> EphemeralReport ReportList \<Rightarrow> 's mig_state eop" where
  "migrate_ephrs store c ephrs =
     migrate_kind (nCreate (EphemeralReports store)) (Items ephrs)
       (list_ResourceVersion ephrs) (NewRetryWatcher c) (list_ResourceVersion ephrs) EphrWatcher"

definition migration :: "'s Storage \<Rightarrow> cluster \<Rightarrow> 's mig_state eop" where
  "migration store c =
     unless_err (kyverno_NewForConfig c) (unless_err (versioned_NewForConfig c)
       (on_list (list_cpolrs c) (\<lambda>cpolrs. and_then (migrate_cpolrs store c cpolrs)
       (on_list (list_polrs c) (\<lambda>polrs. and_then (migrate_polrs store c cpolrs polrs)
       (on_list (list_cephrs c) (\<lambda>cephrs. and_then (migrate_cephrs store c cephrs)
       (on_list (list_ephrs c) (\<lambda>ephrs. and_then (migrate_ephrs store c ephrs)
          reserve_versions)))))))))"

lemmas migrate_defs = migrate_cpolrs_def migrate_polrs_def migrate_cephrs_def migrate_ephrs_def

text \<open>What the goroutines do with the events they receive.\<close>

definition watch_cpolrs :: "'s Storage \<Rightarrow> ClusterPolicyReport event list \<Rightarrow> 's \<Rightarrow> 's" where
  "watch_cpolrs store =
     watch_reports (cCreate (ClusterPolicyReports store)) (cUpdate (ClusterPolicyReports store))"

definition watch_polrs :: "'s Storage \<Rightarrow> PolicyReport event list \<Rightarrow> 's \<Rightarrow> 's" where
  "watch_polrs store = watch_reports (nCreate (PolicyReports store)) (nUpdate (PolicyReports store))"

definition watch_cephrs :: "'s Storage \<Rightarrow> ClusterEphemeralReport event list \<Rightarrow> 's \<Rightarrow> 's" where
  "watch_cephrs store =
     watch_reports (cCreate (ClusterEphemeralReports store)) (cUpdate (ClusterEphemeralReports store))"

definition watch_ephrs :: "'s Storage \<Rightarrow> EphemeralReport event list \<Rightarrow> 's \<Rightarrow> 's" where
  "watch_ephrs store =
     watch_reports (nCreate (EphemeralReports store)) (nUpdate (EphemeralReports store))"

subsection \<open>The annotation\<close>

lemma annotate_eq: "annotate c = c\<lparr>Annotations := labelReports (Annotations c)\<rparr>"
  by (simp add: annotate_def labelReports_def Let_def)

lemma annotate_simps [simp]:
  "Name (annotate c) = Name c" "Namespace (annotate c) = Namespace c" "served_by (annotate c)"
  "annotated (annotate c)"
  by (simp_all add: annotate_def served_by_def annotated_def Let_def)

lemma keys_annotate [simp]: "ns_key (annotate c) = ns_key c" "cl_key (annotate c) = cl_key c"
  by (simp_all add: ns_key_def cl_key_def)

subsection \<open>Copying\<close>

text \<open>What copying a list of reports makes of a map.\<close>

definition copied ::
  "('a ObjectMeta_scheme \<Rightarrow> 'k) \<Rightarrow> ('a ObjectMeta_scheme \<Rightarrow> 'a ObjectMeta_scheme) \<Rightarrow>
     'a ObjectMeta_scheme list \<Rightarrow> ('k \<rightharpoonup> 'a ObjectMeta_scheme) \<Rightarrow> ('k \<rightharpoonup> 'a ObjectMeta_scheme)" where
  "copied key canon rs = fold (\<lambda>r m. m(key r \<mapsto> canon (annotate r))) rs"

lemma migrate_items_sound:
  assumes "report_storage S key sel canon lenient gk gq good vw iv"
    and "\<And>r. key (annotate r) = key r" and "iv s"
    and "\<And>r. r \<in> set items \<Longrightarrow> \<not> annotated r \<Longrightarrow> good (annotate r)"
  shows "iv (snd (migrate_items (createR S) items s)) \<and>
    (fst (migrate_items (createR S) items s) = None \<longleftrightarrow>
       distinct (map key (filter (\<lambda>r. \<not> annotated r) items)) \<and>
       (\<forall>r \<in> set items. \<not> annotated r \<longrightarrow> vw s (key r) = None)) \<and>
    (fst (migrate_items (createR S) items s) = None \<longrightarrow>
       vw (snd (migrate_items (createR S) items s)) =
         copied key canon (filter (\<lambda>r. \<not> annotated r) items) (vw s))"
  using assms(3,4)
proof (induction items arbitrary: s)
  case Nil
  then show ?case by (simp add: copied_def)
next
  case (Cons c items)
  show ?case
  proof (cases "annotated c")
    case True
    with Cons.IH [of s] Cons.prems show ?thesis by simp
  next
    case False
    obtain err s1 where c: "createR S (Some (annotate c)) s = (err, s1)" by fastforce
    have good: "good (annotate c)" using Cons.prems False by simp
    from report_storage.create_law [OF assms(1) Cons.prems(1) good] c assms(2)
    have law: "(err = None) = (vw s (key c) = None)" "iv s1"
      "vw s1 = (if vw s (key c) = None then (vw s)(key c \<mapsto> canon (annotate c)) else vw s)"
      by (auto split: if_splits)
    show ?thesis
    proof (cases "err = None")
      case taken: False
      with law c False show ?thesis by auto
    next
      case True
      with law c have s1: "vw s1 = (vw s)(key c \<mapsto> canon (annotate c))" "vw s (key c) = None" by simp_all
      have run: "migrate_items (createR S) (c # items) s = migrate_items (createR S) items s1"
        using False c True by simp
      have free: "(\<forall>r \<in> set items. \<not> annotated r \<longrightarrow> vw s1 (key r) = None) \<longleftrightarrow>
          key c \<notin> key ` {r \<in> set items. \<not> annotated r} \<and>
          (\<forall>r \<in> set items. \<not> annotated r \<longrightarrow> vw s (key r) = None)"
        by (auto simp: s1(1)) (metis (mono_tags, lifting) image_eqI mem_Collect_eq)
      have keys: "distinct (map key (filter (\<lambda>r. \<not> annotated r) (c # items))) \<longleftrightarrow>
          key c \<notin> key ` {r \<in> set items. \<not> annotated r} \<and>
          distinct (map key (filter (\<lambda>r. \<not> annotated r) items))"
        using False by simp
      have added: "copied key canon (filter (\<lambda>r. \<not> annotated r) (c # items)) (vw s) =
          copied key canon (filter (\<lambda>r. \<not> annotated r) items) (vw s1)"
        using False s1(1) by (simp add: copied_def)
      have all: "(\<forall>r \<in> set (c # items). \<not> annotated r \<longrightarrow> vw s (key r) = None) \<longleftrightarrow>
          (\<forall>r \<in> set items. \<not> annotated r \<longrightarrow> vw s (key r) = None)"
        using s1(2) by simp
      show ?thesis
        unfolding run keys all added using Cons.IH [OF law(2) Cons.prems(2)] free by auto
    qed
  qed
qed



subsection \<open>Versions\<close>

lemma and_then_None:
  "and_then f g w = (None, w') \<longleftrightarrow> (\<exists>w1. f w = (None, w1) \<and> g w1 = (None, w'))"
  by (auto simp: and_then_def split: prod.split option.split)

lemma migrate_kind_None:
  assumes "migrate_kind create items rv newWatcher watch_rv k w = (None, w')"
  shows "\<exists>n. ParseUint rv = Inr n \<and> version (mig_versioning w') = max n (version (mig_versioning w)) \<and>
    mig_watchers w' = mig_watchers w @ [k]"
  using assms
  by (auto simp: migrate_kind_def SetResourceVersion_def max_def
      split: prod.splits option.splits sum.splits if_splits)

lemma reserve_versions_result:
  "reserve_versions w =
     (None, w\<lparr>mig_versioning := (mig_versioning w)\<lparr>version :=
        max (version (mig_versioning w) + 9999) (version (mig_versioning w) + 1)\<rparr>\<rparr>)"
  by (simp add: reserve_versions_def UseResourceVersion_def SetResourceVersion_def ParseUint_FormatUint
      max_def)

text \<open>
  C27. After a migration that went through all four kinds, the four watchers run, and the version
  counter is 9999 above the largest of its old value and the versions of the lists of cluster
  policy reports, cluster ephemeral reports and ephemeral reports. The version of the list of
  policy reports plays no part; near the end of the 64-bit range the sum wraps and the counter is
  only one above.
\<close>

theorem migration_version:
  assumes "list_cpolrs c = Inr cpolrs" and "list_polrs c = Inr polrs"
    and "list_cephrs c = Inr cephrs" and "list_ephrs c = Inr ephrs"
    and "migration store c w = (None, w')"
  shows "\<exists>n1 n2 n3. ParseUint (list_ResourceVersion cpolrs) = Inr n1 \<and>
    ParseUint (list_ResourceVersion cephrs) = Inr n2 \<and> ParseUint (list_ResourceVersion ephrs) = Inr n3 \<and>
    (let m = max (version (mig_versioning w)) (max n1 (max n2 n3))
     in version (mig_versioning w') = max (m + 9999) (m + 1)) \<and>
    mig_watchers w' = mig_watchers w @ [CpolrWatcher, PolrWatcher, CephrWatcher, EphrWatcher]"
proof -
  obtain w1 w2 w3 w4 where steps:
    "migrate_kind (cCreate (ClusterPolicyReports store)) (Items cpolrs) (list_ResourceVersion cpolrs)
       (NewRetryWatcher c) (list_ResourceVersion cpolrs) CpolrWatcher w = (None, w1)"
    "migrate_kind (nCreate (PolicyReports store)) (Items polrs) (list_ResourceVersion cpolrs)
       (NewRetryWatcher c) (list_ResourceVersion polrs) PolrWatcher w1 = (None, w2)"
    "migrate_kind (cCreate (ClusterEphemeralReports store)) (Items cephrs) (list_ResourceVersion cephrs)
       (NewRetryWatcher c) (list_ResourceVersion cephrs) CephrWatcher w2 = (None, w3)"
    "migrate_kind (nCreate (EphemeralReports store)) (Items ephrs) (list_ResourceVersion ephrs)
       (NewRetryWatcher c) (list_ResourceVersion ephrs) EphrWatcher w3 = (None, w4)"
    "reserve_versions w4 = (None, w')"
    using assms
    by (auto simp: migration_def migrate_defs unless_err_def on_list_def and_then_None split: option.splits)
  note k = steps(1-4) [THEN migrate_kind_None]
  from k obtain n1 n2 n3 where
    "ParseUint (list_ResourceVersion cpolrs) = Inr n1" "ParseUint (list_ResourceVersion cephrs) = Inr n2"
    "ParseUint (list_ResourceVersion ephrs) = Inr n3"
    "version (mig_versioning w4) = max n3 (max n2 (max n1 (max n1 (version (mig_versioning w)))))"
    "mig_watchers w4 = mig_watchers w @ [CpolrWatcher, PolrWatcher, CephrWatcher, EphrWatcher]"
    by auto
  with steps(5) show ?thesis
    by (auto simp: reserve_versions_result Let_def max.assoc max.commute max.left_commute)
qed

definition sample_cluster :: cluster where
  "sample_cluster =
     \<lparr>kyverno_NewForConfig = None, versioned_NewForConfig = None,
      list_cpolrs = Inr (zero_List\<lparr>list_ResourceVersion := ''7''\<rparr>),
      list_polrs = Inr (zero_List\<lparr>list_ResourceVersion := ''9'', Items := [sample_polr]\<rparr>),
      list_cephrs = Inr (zero_List\<lparr>list_ResourceVersion := ''5''\<rparr>),
      list_ephrs = Inr (zero_List\<lparr>list_ResourceVersion := ''6''\<rparr>),
      NewRetryWatcher = (\<lambda>rv. None)\<rparr>"

lemma sample_cluster_lists:
  "list_cpolrs sample_cluster = Inr (zero_List\<lparr>list_ResourceVersion := ''7''\<rparr>)"
  "list_polrs sample_cluster = Inr (zero_List\<lparr>list_ResourceVersion := ''9'', Items := [sample_polr]\<rparr>)"
  "list_cephrs sample_cluster = Inr (zero_List\<lparr>list_ResourceVersion := ''5''\<rparr>)"
  "list_ephrs sample_cluster = Inr (zero_List\<lparr>list_ResourceVersion := ''6''\<rparr>)"
  by (simp_all add: sample_cluster_def)

definition fresh_mig :: "'s \<Rightarrow> 's mig_state" where
  "fresh_mig s = \<lparr>mig_db = s, mig_versioning = NewVersioning, mig_watchers = []\<rparr>"

theorem migration_version_witness:
  "version (mig_versioning (snd (migration polr_lists sample_cluster (fresh_mig [])))) = 10006"
proof -
  have "\<not> annotated sample_polr"
    by (simp add: annotated_def sample_polr_def zero_PolicyReport_def)
  then have ok: "fst (migration polr_lists sample_cluster (fresh_mig [])) = None"
    by (simp add: migration_def migrate_defs unless_err_def on_list_def and_then_def migrate_kind_def sample_cluster_def
        zero_List_def fresh_mig_def SetResourceVersion_def num_eval list_defs reserve_versions_result)
  have "migration polr_lists sample_cluster (fresh_mig []) =
      (None, snd (migration polr_lists sample_cluster (fresh_mig [])))"
    using ok by (simp add: prod_eq_iff)
  from migration_version [OF sample_cluster_lists this] show ?thesis
    by (simp add: fresh_mig_def NewVersioning_def num_eval)
qed

subsection \<open>The watchers\<close>

text \<open>What one event without the annotation does.\<close>

fun copy_event ::
  "('a ObjectMeta_scheme option \<Rightarrow> 's eop) \<Rightarrow> ('a ObjectMeta_scheme option \<Rightarrow> 's eop) \<Rightarrow>
     'a ObjectMeta_scheme event \<Rightarrow> 's \<Rightarrow> 's" where
  "copy_event create update (Added, r) s = snd (create (Some (annotate r)) s)"
| "copy_event create update (Modified, r) s = snd (update (Some (annotate r)) s)"
| "copy_event create update (Deleted, r) s = s"

lemma watch_reports_fold:
  "watch_reports create update evs s =
     fold (copy_event create update)
       (takeWhile (\<lambda>(t, r). \<not> (t \<noteq> Deleted \<and> annotated r)) evs) s"
proof (induction evs arbitrary: s)
  case (Cons ev evs)
  obtain t r where "ev = (t, r)" by fastforce
  with Cons show ?case by (cases t) (simp_all add: case_prod_unfold Let_def)
qed simp

text \<open>
  C28. A watcher copies, in their order, the events up to the first Added or Modified event of a
  report that carries the annotation, and none after it: one such event, which the server's own
  writes cause, ends the copying of the kind for good. Deletions are never copied.
\<close>

theorem watchers_copy_prefix:
  "watch_polrs store evs1 s =
     fold (copy_event (nCreate (PolicyReports store)) (nUpdate (PolicyReports store)))
       (takeWhile (\<lambda>(t, r). \<not> (t \<noteq> Deleted \<and> annotated r)) evs1) s \<and>
   watch_cpolrs store evs2 s =
     fold (copy_event (cCreate (ClusterPolicyReports store)) (cUpdate (ClusterPolicyReports store)))
       (takeWhile (\<lambda>(t, r). \<not> (t \<noteq> Deleted \<and> annotated r)) evs2) s \<and>
   watch_ephrs store evs3 s =
     fold (copy_event (nCreate (EphemeralReports store)) (nUpdate (EphemeralReports store)))
       (takeWhile (\<lambda>(t, r). \<not> (t \<noteq> Deleted \<and> annotated r)) evs3) s \<and>
   watch_cephrs store evs4 s =
     fold (copy_event (cCreate (ClusterEphemeralReports store)) (cUpdate (ClusterEphemeralReports store)))
       (takeWhile (\<lambda>(t, r). \<not> (t \<noteq> Deleted \<and> annotated r)) evs4) s"
  by (simp add: watch_polrs_def watch_cpolrs_def watch_ephrs_def watch_cephrs_def watch_reports_fold)

end
