(* ===== verification/RestSpec.thy ===== *)
theory RestSpec
  imports ApiCommon
begin

section \<open>The REST handlers, generically\<close>

text \<open>
  The four REST stores are the same program up to the report type, the scope, some messages and a
  detail of \<open>Create\<close>. This theory states that program once, over a description of a kind, and
  proves its properties from the storage contract; the theories of the four stores translate the
  sources one by one and show that each is an instance.
\<close>

record ('k, 'q, 'r) kind_desc =
  as_r :: "Object \<Rightarrow> 'r option"
  obj_of :: "'r \<Rightarrow> Object"
  kd_gr :: GroupResource
  kd_key :: "string \<Rightarrow> string \<Rightarrow> 'k" \<comment> \<open>of the namespace of the context and a name\<close>
  kd_sel :: "string \<Rightarrow> 'q"
  kd_namespaced :: bool
  kd_gen :: "u64 \<Rightarrow> u64"
  kd_wrap :: "err \<Rightarrow> err"
  kd_list_err :: err
  kd_bad_obj :: err
  kd_no_name :: err
  kd_create_err :: "string \<Rightarrow> err \<Rightarrow> err"
  kd_update_err :: "err \<Rightarrow> err"
  kd_delete_err :: "err \<Rightarrow> err"
  kd_coll_find :: err
  kd_coll_delete :: "'r \<Rightarrow> err"

type_synonym ('s, 'k, 'q, 'a) kind_ops = "('s, 'k, 'q, 'a ObjectMeta_scheme) ops"

subsection \<open>Storage access\<close>

definition rest_get ::
  "('k, 'q, 'r) kind_desc \<Rightarrow> ('s, 'k, 'q, 'r) ops \<Rightarrow> 'k \<Rightarrow> ('r option, ('s, 'r) rest_state) op" where
  "rest_get d S k w =
     (let (x, s) = getK S k (store_db w)
      in (case x of Inl err \<Rightarrow> Inl (kd_wrap d err) | Inr val \<Rightarrow> Inr val, w\<lparr>store_db := s\<rparr>))"

definition rest_list ::
  "('k, 'q, 'r) kind_desc \<Rightarrow> ('s, 'k, 'q, 'r) ops \<Rightarrow> 'q \<Rightarrow> ('r list, ('s, 'r) rest_state) op" where
  "rest_list d S q w =
     (let (x, s) = listQ S q (store_db w)
      in (case x of Inl err \<Rightarrow> Inl (kd_wrap d err) | Inr vs \<Rightarrow> deref_all vs, w\<lparr>store_db := s\<rparr>))"

definition rest_create ::
  "('s, 'k, 'q, 'a) kind_ops \<Rightarrow> request_env \<Rightarrow> 'a ObjectMeta_scheme \<Rightarrow>
     ('s, 'a ObjectMeta_scheme) rest_state \<Rightarrow>
     ('a ObjectMeta_scheme \<times> err option) \<times> ('s, 'a ObjectMeta_scheme) rest_state" where
  "rest_create S e report w =
     (let (rv, v) = UseResourceVersion (store_versioning w);
          r = report\<lparr>ResourceVersion := rv, UID := NewUUID e, CreationTimestamp := Now e\<rparr>;
          (err, s) = createR S (Some r) (store_db w)
      in ((r, err), w\<lparr>store_db := s, store_versioning := v\<rparr>))"

definition rest_update ::
  "('s, 'k, 'q, 'a) kind_ops \<Rightarrow> 'a ObjectMeta_scheme \<Rightarrow>
     ('s, 'a ObjectMeta_scheme) rest_state \<Rightarrow>
     ('a ObjectMeta_scheme \<times> err option) \<times> ('s, 'a ObjectMeta_scheme) rest_state" where
  "rest_update S report w =
     (let (rv, v) = UseResourceVersion (store_versioning w);
          r = report\<lparr>ResourceVersion := rv\<rparr>;
          (err, s) = updateR S (Some r) (store_db w)
      in ((r, err), w\<lparr>store_db := s, store_versioning := v\<rparr>))"

definition rest_delete ::
  "('s, 'k, 'q, 'r) ops \<Rightarrow> 'k \<Rightarrow> ('s, 'r) rest_state eop" where
  "rest_delete S k w =
     (let (err, s) = deleteK S k (store_db w) in (err, w\<lparr>store_db := s\<rparr>))"

subsection \<open>Handlers\<close>

definition rest_List ::
  "('k, 'q, 'a ObjectMeta_scheme) kind_desc \<Rightarrow> ('s, 'k, 'q, 'a) kind_ops \<Rightarrow> string \<Rightarrow>
     ListOptions option \<Rightarrow> ('a ObjectMeta_scheme ReportList, ('s, 'a ObjectMeta_scheme) rest_state) op" where
  "rest_List d S namespace options w =
     (case rest_list d S (kd_sel d namespace) w of
        (Inl err, w1) \<Rightarrow> (Inl (unless_panic err (kd_list_err d)), w1)
      | (Inr items, w1) \<Rightarrow>
          (case options of
             None \<Rightarrow> (Inl nil_deref, w1)
           | Some opt \<Rightarrow>
               (case desired_rv (opt_ResourceVersion opt) of
                  Inl err \<Rightarrow> (Inl err, w1)
                | Inr desiredRv \<Rightarrow>
                    (case filter_items (LabelSelector opt) desiredRv (ResourceVersionMatch opt) items 1 [] of
                       Inl err \<Rightarrow> (Inl err, w1)
                     | Inr (rv, rs) \<Rightarrow>
                         (Inr (zero_List\<lparr>list_ResourceVersion := FormatUint rv, Items := rs\<rparr>), w1)))))"

definition rest_Get ::
  "('k, 'q, 'r) kind_desc \<Rightarrow> ('s, 'k, 'q, 'r) ops \<Rightarrow> string \<Rightarrow> string \<Rightarrow>
     (Object, ('s, 'r) rest_state) op" where
  "rest_Get d S namespace name w =
     (case rest_get d S (kd_key d namespace name) w of
        (Inr (Some report), w1) \<Rightarrow> (Inr (obj_of d report), w1)
      | (_, w1) \<Rightarrow> (Inl (NotFound (kd_gr d) name), w1))"

text \<open>The report a \<open>Create\<close> request asks to store, before the server stamps it.\<close>

definition rest_prepare ::
  "('k, 'q, 'a ObjectMeta_scheme) kind_desc \<Rightarrow> request_env \<Rightarrow> string \<Rightarrow> 'a ObjectMeta_scheme \<Rightarrow>
     'a ObjectMeta_scheme option" where
  "rest_prepare d e namespace r =
     (if Name r = [] \<and> GenerateName r = [] then None
      else let r1 = (if kd_namespaced d \<and> length (Namespace r) = 0
                     then r\<lparr>Namespace := namespace\<rparr> else r);
               r2 = (if Name r1 = [] then r1\<lparr>Name := genName e (GenerateName r1)\<rparr> else r1)
           in Some (r2\<lparr>Annotations := labelReports (Annotations r2),
                       Generation := kd_gen d (Generation r2)\<rparr>))"

definition rest_Create ::
  "('k, 'q, 'a ObjectMeta_scheme) kind_desc \<Rightarrow> ('s, 'k, 'q, 'a) kind_ops \<Rightarrow> request_env \<Rightarrow> string \<Rightarrow>
     Object \<Rightarrow> (Object \<Rightarrow> err option) \<Rightarrow> WriteOptions \<Rightarrow>
     (Object, ('s, 'a ObjectMeta_scheme) rest_state) op" where
  "rest_Create d S e namespace obj createValidation options w =
     (case strict_err (createValidation obj) (FieldValidation options) of
        Some err \<Rightarrow> (Inl err, w)
      | None \<Rightarrow>
          (case as_r d obj of
             None \<Rightarrow> (Inl (kd_bad_obj d), w)
           | Some r0 \<Rightarrow>
               (case rest_prepare d e namespace r0 of
                  None \<Rightarrow> (Inl (kd_no_name d), w)
                | Some r1 \<Rightarrow>
                    if \<not> isDryRun options
                    then (case rest_create S e r1 w of
                            ((r, Some err), w1) \<Rightarrow> (Inl (kd_create_err d (Name r1) err), w1)
                          | ((r, None), w1) \<Rightarrow> (Inr (obj_of d r), Action Added r w1))
                    else (Inr (obj_of d r1), w))))"

definition rest_adjust ::
  "('k, 'q, 'a ObjectMeta_scheme) kind_desc \<Rightarrow> string \<Rightarrow> 'a ObjectMeta_scheme \<Rightarrow>
     'a ObjectMeta_scheme" where
  "rest_adjust d namespace r =
     (let r1 = (if kd_namespaced d \<and> length (Namespace r) = 0 then r\<lparr>Namespace := namespace\<rparr> else r)
      in r1\<lparr>Annotations := labelReports (Annotations r1), Generation := Generation r1 + 1\<rparr>)"

definition rest_Update ::
  "('k, 'q, 'a ObjectMeta_scheme) kind_desc \<Rightarrow> ('s, 'k, 'q, 'a) kind_ops \<Rightarrow> string \<Rightarrow> string \<Rightarrow>
     ('a ObjectMeta_scheme option \<Rightarrow> Object \<times> err option) \<Rightarrow>
     (Object \<Rightarrow> 'a ObjectMeta_scheme option \<Rightarrow> err option) \<Rightarrow> bool \<Rightarrow> WriteOptions \<Rightarrow>
     (Object \<times> bool, ('s, 'a ObjectMeta_scheme) rest_state) op" where
  "rest_Update d S namespace name updated updateValidation forceAllowCreate options w =
     (let (got, w1) = rest_get d S (kd_key d namespace name) w;
          oldObj = (case got of Inl err \<Rightarrow> None | Inr val \<Rightarrow> val);
          (updatedObject, uerr) = updated oldObj
      in if isl got \<and> \<not> forceAllowCreate then (Inl (projl got), w1)
         else if uerr \<noteq> None \<and> \<not> forceAllowCreate then (Inl (the uerr), w1)
         else case as_r d updatedObject of
                None \<Rightarrow> (Inl (Panic ''interface conversion''), w1)
              | Some r0 \<Rightarrow>
                  if forceAllowCreate
                  then (let ((r, err), w2) = rest_update S r0 w1
                        in (Inr (obj_of d r, True), Action Modified r w2))
                  else (case strict_err (updateValidation updatedObject oldObj) (FieldValidation options) of
                          Some err \<Rightarrow> (Inl err, w1)
                        | None \<Rightarrow>
                            (let r1 = rest_adjust d namespace r0
                             in if \<not> isDryRun options
                                then (case rest_update S r1 w1 of
                                        ((r, Some err), w2) \<Rightarrow> (Inl (kd_update_err d err), w2)
                                      | ((r, None), w2) \<Rightarrow> (Inr (obj_of d r, True), Action Modified r w2))
                                else (Inr (obj_of d r1, True), w1))))"

definition rest_Delete ::
  "('k, 'q, 'r) kind_desc \<Rightarrow> ('s, 'k, 'q, 'r) ops \<Rightarrow> ('r \<Rightarrow> 'k) \<Rightarrow> string \<Rightarrow> string \<Rightarrow>
     (Object \<Rightarrow> err option) \<Rightarrow> WriteOptions \<Rightarrow> (Object \<times> bool, ('s, 'r) rest_state) op" where
  "rest_Delete d S key namespace name deleteValidation options w =
     (case rest_get d S (kd_key d namespace name) w of
        (Inl err, w1) \<Rightarrow> (Inl (NotFound (kd_gr d) name), w1)
      | (Inr val, w1) \<Rightarrow>
          (case deleteValidation (case val of None \<Rightarrow> NilObject | Some r \<Rightarrow> obj_of d r) of
             Some err \<Rightarrow> (Inl (BadRequest ''invalid resource: '' (Some err)), w1)
           | None \<Rightarrow>
               (case val of
                  None \<Rightarrow> (Inl nil_deref, w1)
                | Some r \<Rightarrow>
                    if \<not> isDryRun options
                    then (case rest_delete S (key r) w1 of
                            (Some err, w2) \<Rightarrow> (Inl (kd_delete_err d err), w2)
                          | (None, w2) \<Rightarrow> (Inr (obj_of d r, True), Action Deleted r w2))
                    else (Inr (obj_of d r, True), w1))))"

fun rest_delete_items ::
  "('k, 'q, 'a ObjectMeta_scheme) kind_desc \<Rightarrow> ('s, 'k, 'q, 'a) kind_ops \<Rightarrow>
     ('a ObjectMeta_scheme \<Rightarrow> 'k) \<Rightarrow> string \<Rightarrow> (Object \<Rightarrow> err option) \<Rightarrow> WriteOptions \<Rightarrow>
     'a ObjectMeta_scheme list \<Rightarrow> ('s, 'a ObjectMeta_scheme) rest_state eop" where
  "rest_delete_items d S key namespace deleteValidation options [] w = (None, w)"
| "rest_delete_items d S key namespace deleteValidation options (r # rs) w =
     (case rest_Delete d S key namespace (Name r) deleteValidation options w of
        (Inr (obj, isDeleted), w1) \<Rightarrow>
          if isDeleted then rest_delete_items d S key namespace deleteValidation options rs w1
          else (Some (kd_coll_delete d r), w1)
      | (Inl err, w1) \<Rightarrow> (Some (unless_panic err (kd_coll_delete d r)), w1))"

definition rest_DeleteCollection ::
  "('k, 'q, 'a ObjectMeta_scheme) kind_desc \<Rightarrow> ('s, 'k, 'q, 'a) kind_ops \<Rightarrow>
     ('a ObjectMeta_scheme \<Rightarrow> 'k) \<Rightarrow> string \<Rightarrow> (Object \<Rightarrow> err option) \<Rightarrow> WriteOptions \<Rightarrow>
     ListOptions option \<Rightarrow> ('a ObjectMeta_scheme ReportList, ('s, 'a ObjectMeta_scheme) rest_state) op" where
  "rest_DeleteCollection d S key namespace deleteValidation options listOptions w =
     (case rest_List d S namespace listOptions w of
        (Inl err, w1) \<Rightarrow> (Inl (unless_panic err (kd_coll_find d)), w1)
      | (Inr list, w1) \<Rightarrow>
          if \<not> isDryRun options
          then (case rest_delete_items d S key namespace deleteValidation options (Items list) w1 of
                  (Some err, w2) \<Rightarrow> (Inl err, w2)
                | (None, w2) \<Rightarrow> (Inr list, w2))
          else (Inr list, w1))"

definition rest_Watch ::
  "('k, 'q, 'a ObjectMeta_scheme) kind_desc \<Rightarrow> ('s, 'k, 'q, 'a) kind_ops \<Rightarrow> string \<Rightarrow>
     ListOptions option \<Rightarrow>
     ('a ObjectMeta_scheme watch_result, ('s, 'a ObjectMeta_scheme) rest_state) op" where
  "rest_Watch d S namespace options w =
     (case options of
        None \<Rightarrow> (Inl nil_deref, w)
      | Some opt \<Rightarrow>
          if opt_ResourceVersion opt = [] \<or> opt_ResourceVersion opt = ''0'' then (Inr Watch, w)
          else case rest_List d S namespace options w of
                 (Inl err, w1) \<Rightarrow> (Inl err, w1)
               | (Inr list, w1) \<Rightarrow> (Inr (WatchWithPrefix (map (Pair Added) (Items list))), w1))"

end
