(* ===== verification/RestProofs.thy ===== *)
theory RestProofs
  imports RestSpec
begin

section \<open>What the REST handlers do to a conforming storage\<close>

text \<open>
  The locale \<open>rest_kind\<close> extends the storage contract by what the description of a kind must
  satisfy. Its lemmas give the result of every handler in terms of the map the storage stands for;
  they hold for every back end that meets the contract.
\<close>

text \<open>\<open>quiet\<close>: nothing that a client could observe has changed.\<close>

definition quiet ::
  "('s \<Rightarrow> 'k \<rightharpoonup> 'r) \<Rightarrow> ('s \<Rightarrow> bool) \<Rightarrow> ('s, 'r) rest_state \<Rightarrow> ('s, 'r) rest_state \<Rightarrow> bool" where
  "quiet vw iv w w' \<longleftrightarrow>
     vw (store_db w') = vw (store_db w) \<and> iv (store_db w') \<and>
     store_versioning w' = store_versioning w \<and> broadcast w' = broadcast w"

text \<open>What replaying broadcast events does to a map.\<close>

fun apply_event ::
  "('r \<Rightarrow> 'k) \<Rightarrow> ('r \<Rightarrow> 'r) \<Rightarrow> 'r event \<Rightarrow> ('k \<rightharpoonup> 'r) \<Rightarrow> ('k \<rightharpoonup> 'r)" where
  "apply_event key canon (Deleted, r) m = m(key r := None)"
| "apply_event key canon (_, r) m = m(key r \<mapsto> canon r)"

text \<open>The report as the server stores it: stamped with version, identity and time.\<close>

definition stamped ::
  "request_env \<Rightarrow> resourceVersion \<Rightarrow> 'a ObjectMeta_scheme \<Rightarrow> 'a ObjectMeta_scheme" where
  "stamped e v r =
     r\<lparr>ResourceVersion := FormatUint (version v), UID := NewUUID e, CreationTimestamp := Now e\<rparr>"

definition restamped :: "resourceVersion \<Rightarrow> 'a ObjectMeta_scheme \<Rightarrow> 'a ObjectMeta_scheme" where
  "restamped v r = r\<lparr>ResourceVersion := FormatUint (version v)\<rparr>"

definition bump :: "resourceVersion \<Rightarrow> resourceVersion" where
  "bump v = v\<lparr>version := version v + 1\<rparr>"

locale rest_kind =
  report_storage S key sel canon lenient good_key good_sel good view inv
  for S :: "('s, 'k, 'q, 'a ObjectMeta_scheme) ops"
    and key sel canon lenient good_key good_sel good view inv +
  fixes d :: "('k, 'q, 'a ObjectMeta_scheme) kind_desc"
  assumes as_obj: "as_r d (obj_of d r) = Some r"
    and key_desc: "key r = kd_key d (Namespace r) (Name r)"
    and sel_desc: "\<not> kd_namespaced d \<or> ns \<noteq> [] \<Longrightarrow> sel (kd_sel d ns) (key r) \<Longrightarrow>
        kd_key d ns (Name r) = key r"
begin

lemma get_result:
  assumes "inv (store_db w)" and "good_key k"
  shows "\<exists>e. fst (rest_get d S k w) =
      (case view (store_db w) k of None \<Rightarrow> Inl (kd_wrap d e) | Some r \<Rightarrow> Inr (Some r))"
    and "quiet view inv w (snd (rest_get d S k w))"
  using get_law [OF assms]
  by (auto simp: rest_get_def quiet_def case_prod_unfold Let_def split: option.split)

lemma list_result:
  assumes "inv (store_db w)" and "good_sel q"
  shows "\<exists>ks. distinct ks \<and> set ks = {k \<in> dom (view (store_db w)). sel q k} \<and>
      fst (rest_list d S q w) = Inr (map (\<lambda>k. the (view (store_db w) k)) ks)"
    and "quiet view inv w (snd (rest_list d S q w))"
proof -
  obtain ks where ks: "distinct ks" "set ks = {k \<in> dom (view (store_db w)). sel q k}"
    and res: "fst (listQ S q (store_db w)) = Inr (map (view (store_db w)) ks)"
    using list_law [OF assms] by blast
  from ks(2) have "deref_all (map (view (store_db w)) ks) = Inr (map (\<lambda>k. the (view (store_db w) k)) ks)"
    by (intro deref_all_map) auto
  with ks res show "\<exists>ks. distinct ks \<and> set ks = {k \<in> dom (view (store_db w)). sel q k} \<and>
      fst (rest_list d S q w) = Inr (map (\<lambda>k. the (view (store_db w) k)) ks)"
    by (auto simp: rest_list_def case_prod_unfold Let_def)
  show "quiet view inv w (snd (rest_list d S q w))"
    using list_law [OF assms] by (simp add: rest_list_def quiet_def case_prod_unfold Let_def)
qed

lemma create_result:
  assumes "inv (store_db w)" and "good (stamped e (store_versioning w) r)"
    and "rest_create S e r w = ((r', err), w')"
  shows "r' = stamped e (store_versioning w) r \<and> (err = None) = (view (store_db w) (key r') = None) \<and>
    view (store_db w') = (if err = None then (view (store_db w))(key r' \<mapsto> canon r') else view (store_db w)) \<and>
    inv (store_db w') \<and> store_versioning w' = bump (store_versioning w) \<and> broadcast w' = broadcast w"
  using create_law [OF assms(1,2)] assms(3)
  by (auto simp: rest_create_def UseResourceVersion_def stamped_def bump_def case_prod_unfold Let_def
      split: if_splits)

lemma update_result:
  assumes "inv (store_db w)" and "good (restamped (store_versioning w) r)"
    and "rest_update S r w = ((r', err), w')"
  shows "r' = restamped (store_versioning w) r \<and>
    (err = None) = (view (store_db w) (key r') \<noteq> None \<or> lenient) \<and>
    view (store_db w') =
      (if view (store_db w) (key r') = None then view (store_db w)
       else (view (store_db w))(key r' \<mapsto> canon r')) \<and>
    inv (store_db w') \<and> store_versioning w' = bump (store_versioning w) \<and> broadcast w' = broadcast w"
  using update_law [OF assms(1,2)] assms(3)
  by (auto simp: rest_update_def UseResourceVersion_def restamped_def bump_def case_prod_unfold Let_def
      split: if_splits)

lemma delete_result:
  assumes "inv (store_db w)" and "good_key k" and "rest_delete S k w = (err, w')"
  shows "(err = None) = (view (store_db w) k \<noteq> None) \<and>
    view (store_db w') = (view (store_db w))(k := None) \<and>
    inv (store_db w') \<and> store_versioning w' = store_versioning w \<and> broadcast w' = broadcast w"
  using delete_law [OF assms(1,2)] assms(3)
  by (auto simp: rest_delete_def case_prod_unfold Let_def split: if_splits)

lemma stored_gets:
  assumes "inv (store_db w)" and "view (store_db w) k = Some r"
  shows "good_key k" and "key r = k"
  using stored_key [OF assms] by simp_all

subsection \<open>Get\<close>

lemma Get_spec:
  assumes "inv (store_db w)" and "good_key (kd_key d ns n)"
  shows "fst (rest_Get d S ns n w) =
      (case view (store_db w) (kd_key d ns n) of
         None \<Rightarrow> Inl (NotFound (kd_gr d) n)
       | Some r \<Rightarrow> Inr (obj_of d r))"
    and "quiet view inv w (snd (rest_Get d S ns n w))"
  using get_result [OF assms]
  by (cases "view (store_db w) (kd_key d ns n)"; auto simp: rest_Get_def case_prod_unfold)+

subsection \<open>List\<close>

lemma List_spec:
  assumes "inv (store_db w)" and "good_sel (kd_sel d ns)"
    and "desired_rv (opt_ResourceVersion opt) = Inr v"
  shows "\<exists>ks. distinct ks \<and>
      set ks = {k. \<exists>r. view (store_db w) k = Some r \<and> sel (kd_sel d ns) k \<and> selected (LabelSelector opt) r} \<and>
      fst (rest_List d S ns (Some opt) w) =
        Inr (zero_List\<lparr>list_ResourceVersion := ''1'', Items := map (\<lambda>k. the (view (store_db w) k)) ks\<rparr>)"
    and "quiet view inv w (snd (rest_List d S ns (Some opt) w))"
proof -
  let ?v = "view (store_db w)" and ?q = "kd_sel d ns"
  obtain ks where ks: "distinct ks" "set ks = {k \<in> dom ?v. sel ?q k}"
    and res: "fst (rest_list d S ?q w) = Inr (map (\<lambda>k. the (?v k)) ks)"
    using list_result(1) [OF assms(1,2)] by blast
  let ?ks = "filter (\<lambda>k. selected (LabelSelector opt) (the (?v k))) ks"
  have one: "FormatUint 1 = ''1''" by (simp add: num_eval)
  have "fst (rest_List d S ns (Some opt) w) =
      Inr (zero_List\<lparr>list_ResourceVersion := ''1'', Items := map (\<lambda>k. the (?v k)) ?ks\<rparr>)"
    using res assms(3) by (simp add: rest_List_def case_prod_unfold filter_items_eq filter_map comp_def one)
  moreover have "set ?ks = {k. \<exists>r. ?v k = Some r \<and> sel ?q k \<and> selected (LabelSelector opt) r}"
    using ks(2) by (auto simp: dom_def)
  moreover have "distinct ?ks" using ks(1) by simp
  ultimately show "\<exists>ks. distinct ks \<and>
      set ks = {k. \<exists>r. ?v k = Some r \<and> sel ?q k \<and> selected (LabelSelector opt) r} \<and>
      fst (rest_List d S ns (Some opt) w) =
        Inr (zero_List\<lparr>list_ResourceVersion := ''1'', Items := map (\<lambda>k. the (?v k)) ks\<rparr>)"
    by blast
  show "quiet view inv w (snd (rest_List d S ns (Some opt) w))"
    using list_result(2) [OF assms(1,2)] res assms(3)
    by (simp add: rest_List_def case_prod_unfold filter_items_eq)
qed

lemma List_quiet:
  assumes "inv (store_db w)" and "good_sel (kd_sel d ns)"
  shows "quiet view inv w (snd (rest_List d S ns options w))"
  using list_result [OF assms]
  by (auto simp: rest_List_def case_prod_unfold filter_items_eq split: sum.split option.split)

subsection \<open>Create\<close>

text \<open>
  What a \<open>Create\<close> request does once it has passed validation: on a free key the stamped report is
  stored, returned and announced; on a taken key the request fails and nothing is announced.
\<close>

lemma Create_spec:
  assumes "inv (store_db w)"
    and "strict_err (createValidation obj) (FieldValidation options) = None"
    and "as_r d obj = Some r0" and "rest_prepare d e ns r0 = Some r1" and "\<not> isDryRun options"
    and "good (stamped e (store_versioning w) r1)" and r: "r = stamped e (store_versioning w) r1"
    and w': "rest_Create d S e ns obj createValidation options w = (x, w')"
  shows "(if view (store_db w) (key r) = None
      then x = Inr (obj_of d r) \<and> view (store_db w') = (view (store_db w))(key r \<mapsto> canon r) \<and>
           broadcast w' = broadcast w @ [(Added, r)]
      else (\<exists>err. x = Inl (kd_create_err d (Name r1) err)) \<and>
           view (store_db w') = view (store_db w) \<and> broadcast w' = broadcast w) \<and>
    inv (store_db w') \<and> store_versioning w' = bump (store_versioning w)"
proof -
  obtain r' err w1 where c: "rest_create S e r1 w = ((r', err), w1)" by (metis prod.collapse)
  note res = create_result [OF assms(1,6) c]
  have eq: "rest_Create d S e ns obj createValidation options w =
      (case err of None \<Rightarrow> (Inr (obj_of d r'), Action Added r' w1)
       | Some x \<Rightarrow> (Inl (kd_create_err d (Name r1) x), w1))"
    using assms(2-5) c by (simp add: rest_Create_def split: option.split)
  show ?thesis
    using res w' unfolding eq r by (cases err) (auto simp: Action_def)
qed

text \<open>A \<open>Create\<close> request that is refused or is a dry run has no effect at all.\<close>

lemma Create_no_effect:
  assumes "strict_err (createValidation obj) (FieldValidation options) \<noteq> None \<or> isDryRun options \<or>
      as_r d obj = None \<or> (\<exists>r0. as_r d obj = Some r0 \<and> rest_prepare d e ns r0 = None)"
  shows "snd (rest_Create d S e ns obj createValidation options w) = w"
  using assms by (auto simp: rest_Create_def split: option.split)

subsection \<open>Update\<close>

text \<open>An update that is not forced, once it has passed validation.\<close>

lemma Update_spec:
  assumes "inv (store_db w)" and "good_key (kd_key d ns n)"
    and old: "view (store_db w) (kd_key d ns n) = Some old"
    and upd: "updated (Some old) = (obj, None)" "as_r d obj = Some r0"
    and "strict_err (updateValidation obj (Some old)) (FieldValidation options) = None"
    and "\<not> isDryRun options"
    and good: "good (restamped (store_versioning w) (rest_adjust d ns r0))"
    and r: "r = restamped (store_versioning w) (rest_adjust d ns r0)"
    and w': "rest_Update d S ns n updated updateValidation False options w = (x, w')"
  shows "(if view (store_db w) (key r) \<noteq> None
      then x = Inr (obj_of d r, True) \<and> view (store_db w') = (view (store_db w))(key r \<mapsto> canon r) \<and>
           broadcast w' = broadcast w @ [(Modified, r)]
      else view (store_db w') = view (store_db w) \<and>
           (if lenient then x = Inr (obj_of d r, True) \<and> broadcast w' = broadcast w @ [(Modified, r)]
            else (\<exists>err. x = Inl (kd_update_err d err)) \<and> broadcast w' = broadcast w)) \<and>
    inv (store_db w') \<and> store_versioning w' = bump (store_versioning w)"
proof -
  let ?w1 = "snd (rest_get d S (kd_key d ns n) w)"
  obtain e where got: "fst (rest_get d S (kd_key d ns n) w) = Inr (Some old)"
    using get_result(1) [OF assms(1,2)] old by auto
  have q: "quiet view inv w ?w1" by (rule get_result(2) [OF assms(1,2)])
  obtain r' err w2 where c: "rest_update S (rest_adjust d ns r0) ?w1 = ((r', err), w2)"
    by (metis prod.collapse)
  have "inv (store_db ?w1)" "good (restamped (store_versioning ?w1) (rest_adjust d ns r0))"
    using q good by (simp_all add: quiet_def)
  note res = update_result [OF this c]
  have "rest_Update d S ns n updated updateValidation False options w =
      (case err of None \<Rightarrow> (Inr (obj_of d r', True), Action Modified r' w2)
       | Some x \<Rightarrow> (Inl (kd_update_err d x), w2))"
    using got upd assms(6,7) c
    by (simp add: rest_Update_def case_prod_unfold Let_def split: option.split)
  then show ?thesis
    using res q w' unfolding r quiet_def by (cases err) (auto simp: Action_def split: if_splits)
qed

lemma Update_quiet:
  assumes "inv (store_db w)" and "good_key (kd_key d ns n)"
    and "view (store_db w) (kd_key d ns n) = None \<or> isDryRun options"
  shows "quiet view inv w (snd (rest_Update d S ns n updated updateValidation False options w))"
proof -
  have q: "quiet view inv w (snd (rest_get d S (kd_key d ns n) w))"
    by (rule get_result(2) [OF assms(1,2)])
  obtain e where got: "fst (rest_get d S (kd_key d ns n) w) =
      (case view (store_db w) (kd_key d ns n) of None \<Rightarrow> Inl (kd_wrap d e) | Some r \<Rightarrow> Inr (Some r))"
    using get_result(1) [OF assms(1,2)] by blast
  show ?thesis
    using assms(3) got q
    by (cases "view (store_db w) (kd_key d ns n)")
      (auto simp: rest_Update_def case_prod_unfold Let_def split: option.split)
qed

text \<open>
  A forced update writes whatever the caller computed, unless there is nothing stored under its
  key, and announces it and reports success in either case.
\<close>

lemma Update_forced:
  assumes "inv (store_db w)" and "good_key (kd_key d ns n)"
    and upd: "as_r d (fst (updated (view (store_db w) (kd_key d ns n)))) = Some r0"
    and good: "good (restamped (store_versioning w) r0)"
    and r: "r = restamped (store_versioning w) r0"
    and w': "rest_Update d S ns n updated updateValidation True options w = (x, w')"
  shows "x = Inr (obj_of d r, True) \<and> broadcast w' = broadcast w @ [(Modified, r)] \<and>
    view (store_db w') = (if view (store_db w) (key r) = None then view (store_db w)
                          else (view (store_db w))(key r \<mapsto> canon r)) \<and>
    inv (store_db w') \<and> store_versioning w' = bump (store_versioning w)"
proof -
  let ?w1 = "snd (rest_get d S (kd_key d ns n) w)"
  obtain e where got: "fst (rest_get d S (kd_key d ns n) w) =
      (case view (store_db w) (kd_key d ns n) of None \<Rightarrow> Inl (kd_wrap d e) | Some r \<Rightarrow> Inr (Some r))"
    using get_result(1) [OF assms(1,2)] by blast
  then have old: "(case fst (rest_get d S (kd_key d ns n) w) of Inl err \<Rightarrow> None | Inr val \<Rightarrow> val) =
      view (store_db w) (kd_key d ns n)"
    by (simp split: option.split)
  have q: "quiet view inv w ?w1" by (rule get_result(2) [OF assms(1,2)])
  obtain r' err w2 where c: "rest_update S r0 ?w1 = ((r', err), w2)" by (metis prod.collapse)
  have "inv (store_db ?w1)" "good (restamped (store_versioning ?w1) r0)"
    using q good by (simp_all add: quiet_def)
  note res = update_result [OF this c]
  have "rest_Update d S ns n updated updateValidation True options w =
      (Inr (obj_of d r', True), Action Modified r' w2)"
    using upd c by (simp add: rest_Update_def case_prod_unfold Let_def old)
  then show ?thesis
    using res q w' unfolding r quiet_def by (auto simp: Action_def split: if_splits)
qed

subsection \<open>Delete\<close>

lemma Delete_spec:
  assumes "inv (store_db w)" and "good_key (kd_key d ns n)"
    and w': "rest_Delete d S key ns n deleteValidation options w = (x, w')"
  shows "case view (store_db w) (kd_key d ns n) of
      None \<Rightarrow> x = Inl (NotFound (kd_gr d) n) \<and> quiet view inv w w'
    | Some r \<Rightarrow>
        (case deleteValidation (obj_of d r) of
           Some err \<Rightarrow> x = Inl (BadRequest ''invalid resource: '' (Some err)) \<and> quiet view inv w w'
         | None \<Rightarrow> x = Inr (obj_of d r, True) \<and>
             (if isDryRun options then quiet view inv w w'
              else view (store_db w') = (view (store_db w))(kd_key d ns n := None) \<and>
                   broadcast w' = broadcast w @ [(Deleted, r)] \<and> inv (store_db w') \<and>
                   store_versioning w' = store_versioning w))"
proof -
  let ?k = "kd_key d ns n"
  let ?w1 = "snd (rest_get d S ?k w)"
  obtain e where got: "fst (rest_get d S ?k w) =
      (case view (store_db w) ?k of None \<Rightarrow> Inl (kd_wrap d e) | Some r \<Rightarrow> Inr (Some r))"
    using get_result(1) [OF assms(1,2)] by blast
  have q: "quiet view inv w ?w1" by (rule get_result(2) [OF assms(1,2)])
  show ?thesis
  proof (cases "view (store_db w) ?k")
    case None
    then show ?thesis using w' got q by (auto simp: rest_Delete_def case_prod_unfold)
  next
    case (Some r)
    obtain err w2 where c: "rest_delete S (key r) ?w1 = (err, w2)" by fastforce
    have r: "key r = ?k" using stored_gets(2) [OF assms(1) Some] .
    have "inv (store_db ?w1)" using q by (simp add: quiet_def)
    from delete_result [OF this _ c] r assms(2)
    have res: "(err = None) = (view (store_db ?w1) ?k \<noteq> None)"
      "view (store_db w2) = (view (store_db ?w1))(?k := None)" "inv (store_db w2)"
      "store_versioning w2 = store_versioning ?w1" "broadcast w2 = broadcast ?w1"
      by simp_all
    have "err = None" using res(1) q Some by (simp add: quiet_def)
    with c have c': "rest_delete S (key r) ?w1 = (None, w2)" by simp
    show ?thesis
      using w' got q Some c' res(2-5)
      by (cases "deleteValidation (obj_of d r)"; cases "isDryRun options")
        (auto simp: rest_Delete_def case_prod_unfold quiet_def Action_def)
  qed
qed

end

end
