(* ===== verification/RestTraces.thy ===== *)
theory RestTraces
  imports RestProofs
begin

section \<open>Histories of requests\<close>

text \<open>
  A REST store as a state machine: \<open>rest_step\<close> is one request, with whatever arguments clients and
  the API machinery choose. The invariants hold along every history; in particular the broadcast
  events, replayed, give the contents of the storage.
\<close>

subsection \<open>Steps\<close>

inductive rest_step ::
  "('k, 'q, 'a ObjectMeta_scheme) kind_desc \<Rightarrow> ('s, 'k, 'q, 'a) kind_ops \<Rightarrow>
     ('a ObjectMeta_scheme \<Rightarrow> 'k) \<Rightarrow> ('k \<Rightarrow> bool) \<Rightarrow> ('q \<Rightarrow> bool) \<Rightarrow> ('a ObjectMeta_scheme \<Rightarrow> bool) \<Rightarrow>
     ('s, 'a ObjectMeta_scheme) rest_state \<Rightarrow> ('s, 'a ObjectMeta_scheme) rest_state \<Rightarrow> bool"
  for d S key gk gq good where
  StepGet: "gk (kd_key d ns n) \<Longrightarrow>
     rest_step d S key gk gq good w (snd (rest_Get d S ns n w))"
| StepList: "gq (kd_sel d ns) \<Longrightarrow>
     rest_step d S key gk gq good w (snd (rest_List d S ns opts w))"
| StepWatch: "gq (kd_sel d ns) \<Longrightarrow>
     rest_step d S key gk gq good w (snd (rest_Watch d S ns opts w))"
| StepCreate: "(\<And>r0 r1. as_r d obj = Some r0 \<Longrightarrow> rest_prepare d e ns r0 = Some r1 \<Longrightarrow>
       good (stamped e (store_versioning w) r1)) \<Longrightarrow>
     rest_step d S key gk gq good w (snd (rest_Create d S e ns obj val opts' w))"
| StepUpdate: "gk (kd_key d ns n) \<Longrightarrow>
     (\<And>old r0. as_r d (fst (updated old)) = Some r0 \<Longrightarrow>
       key (rest_adjust d ns r0) = kd_key d ns n \<and>
       good (restamped (store_versioning w) (rest_adjust d ns r0))) \<Longrightarrow>
     rest_step d S key gk gq good w (snd (rest_Update d S ns n updated uval False opts' w))"
| StepDelete: "gk (kd_key d ns n) \<Longrightarrow>
     rest_step d S key gk gq good w (snd (rest_Delete d S key ns n val opts' w))"
| StepDeleteCollection: "gq (kd_sel d ns) \<Longrightarrow> \<not> kd_namespaced d \<or> ns \<noteq> [] \<Longrightarrow>
     rest_step d S key gk gq good w (snd (rest_DeleteCollection d S key ns val opts' opts w))"

inductive_cases rest_step_cases: "rest_step d S key gk gq good w w'"

subsection \<open>Replaying events\<close>

text \<open>
  \<open>tracks\<close>: the storage is still sound, the log has only grown, and replaying what was added to the
  log on the old contents gives the new contents.
\<close>

definition tracks ::
  "('r \<Rightarrow> 'k) \<Rightarrow> ('r \<Rightarrow> 'r) \<Rightarrow> ('s \<Rightarrow> 'k \<rightharpoonup> 'r) \<Rightarrow> ('s \<Rightarrow> bool) \<Rightarrow> ('s, 'r) rest_state \<Rightarrow>
     ('s, 'r) rest_state \<Rightarrow> bool" where
  "tracks key canon vw iv w w' \<longleftrightarrow>
     iv (store_db w') \<and>
     (\<exists>evs. broadcast w' = broadcast w @ evs \<and>
            vw (store_db w') = fold (apply_event key canon) evs (vw (store_db w)))"

lemma quiet_tracks: "quiet vw iv w w' \<Longrightarrow> tracks key canon vw iv w w'"
  by (auto simp: quiet_def tracks_def)

lemma tracks_one:
  assumes "iv (store_db w')" and "broadcast w' = broadcast w @ [ev]"
    and "vw (store_db w') = apply_event key canon ev (vw (store_db w))"
  shows "tracks key canon vw iv w w'"
  using assms by (auto simp: tracks_def)

lemma tracks_trans:
  assumes "tracks key canon vw iv w w'" and "tracks key canon vw iv w' w''"
  shows "tracks key canon vw iv w w''"
  using assms by (fastforce simp: tracks_def)

context rest_kind
begin

lemma Create_tracks:
  assumes "inv (store_db w)"
    and good: "\<And>r0 r1. as_r d obj = Some r0 \<Longrightarrow> rest_prepare d e ns r0 = Some r1 \<Longrightarrow>
       good (stamped e (store_versioning w) r1)"
  shows "tracks key canon view inv w (snd (rest_Create d S e ns obj val opts w))"
proof (cases "strict_err (val obj) (FieldValidation opts) \<noteq> None \<or> isDryRun opts \<or> as_r d obj = None \<or>
    (\<exists>r0. as_r d obj = Some r0 \<and> rest_prepare d e ns r0 = None)")
  case True
  with Create_no_effect [of val obj opts e ns w] assms(1) show ?thesis
    by (auto intro: quiet_tracks simp: quiet_def)
next
  case False
  then obtain r0 r1 where r: "as_r d obj = Some r0" "rest_prepare d e ns r0 = Some r1" by auto
  obtain x w' where w': "rest_Create d S e ns obj val opts w = (x, w')" by fastforce
  note spec = Create_spec [OF assms(1) _ r _ good [OF r] refl w']
  show ?thesis
  proof (cases "view (store_db w) (key (stamped e (store_versioning w) r1)) = None")
    case True
    with spec False w' show ?thesis by (intro tracks_one) auto
  next
    case taken: False
    with spec False w' show ?thesis by (auto simp: tracks_def)
  qed
qed

lemma Update_tracks:
  assumes "inv (store_db w)" and k: "good_key (kd_key d ns n)"
    and upd: "\<And>old r0. as_r d (fst (updated old)) = Some r0 \<Longrightarrow>
       key (rest_adjust d ns r0) = kd_key d ns n \<and>
       good (restamped (store_versioning w) (rest_adjust d ns r0))"
  shows "tracks key canon view inv w (snd (rest_Update d S ns n updated uval False opts w))"
proof (cases "view (store_db w) (kd_key d ns n) = None \<or> isDryRun opts")
  case True
  then show ?thesis using Update_quiet [OF assms(1) k] quiet_tracks by blast
next
  case False
  then obtain old where old: "view (store_db w) (kd_key d ns n) = Some old" by auto
  obtain obj uerr where u: "updated (Some old) = (obj, uerr)" by fastforce
  have q: "quiet view inv w (snd (rest_get d S (kd_key d ns n) w))"
    by (rule get_result(2) [OF assms(1) k])
  have got: "fst (rest_get d S (kd_key d ns n) w) = Inr (Some old)"
    using get_result(1) [OF assms(1) k] old by auto
  show ?thesis
  proof (cases "uerr = None \<and> strict_err (uval obj (Some old)) (FieldValidation opts) = None \<and>
      as_r d obj \<noteq> None")
    case refused: False
    then show ?thesis
      using q got u
      by (auto simp: rest_Update_def case_prod_unfold Let_def split: option.split intro: quiet_tracks)
  next
    case True
    then obtain r0 where r0: "as_r d obj = Some r0" by blast
    obtain x w' where w': "rest_Update d S ns n updated uval False opts w = (x, w')" by fastforce
    from upd [of "Some old" r0] u r0
    have key: "key (rest_adjust d ns r0) = kd_key d ns n"
      and good: "good (restamped (store_versioning w) (rest_adjust d ns r0))"
      by simp_all
    from key have "key (restamped (store_versioning w) (rest_adjust d ns r0)) = kd_key d ns n"
      by (simp add: key_desc restamped_def)
    with Update_spec [OF assms(1) k old _ r0 _ _ good refl w'] u True False old w' show ?thesis
      by (intro tracks_one) auto
  qed
qed

lemma Delete_tracks:
  assumes "inv (store_db w)" and "good_key (kd_key d ns n)"
  shows "tracks key canon view inv w (snd (rest_Delete d S key ns n val opts w))"
proof -
  obtain x w' where w': "rest_Delete d S key ns n val opts w = (x, w')" by fastforce
  note spec = Delete_spec [OF assms w']
  show ?thesis
  proof (cases "view (store_db w) (kd_key d ns n)")
    case None
    with spec w' show ?thesis by (auto intro: quiet_tracks)
  next
    case (Some r)
    show ?thesis
    proof (cases "val (obj_of d r) = None \<and> \<not> isDryRun opts")
      case True
      with Some spec w' stored_gets(2) [OF assms(1) Some] show ?thesis
        by (intro tracks_one [where ev = "(Deleted, r)"]) auto
    next
      case False
      with Some spec w' have "quiet view inv w w'" by (auto split: option.splits if_splits)
      with w' show ?thesis by (simp add: quiet_tracks)
    qed
  qed
qed

subsection \<open>Deleting a collection\<close>

lemma delete_items_tracks:
  assumes "inv (store_db w)" and "\<And>r. r \<in> set rs \<Longrightarrow> good_key (kd_key d ns (Name r))"
  shows "tracks key canon view inv w (snd (rest_delete_items d S key ns val opts rs w))"
  using assms
proof (induction rs arbitrary: w)
  case Nil
  then show ?case by (auto simp: tracks_def)
next
  case (Cons r rs)
  let ?w1 = "snd (rest_Delete d S key ns (Name r) val opts w)"
  have t: "tracks key canon view inv w ?w1"
    using Cons.prems by (intro Delete_tracks) auto
  then have "inv (store_db ?w1)" by (simp add: tracks_def)
  with Cons have "tracks key canon view inv ?w1 (snd (rest_delete_items d S key ns val opts rs ?w1))"
    by simp
  from t tracks_trans [OF t this] show ?case
    by (auto simp: case_prod_unfold split: sum.split)
qed

text \<open>The keys of the reports a list call returns.\<close>

lemma listed_keys:
  assumes "inv (store_db w)" and "good_sel (kd_sel d ns)" and "\<not> kd_namespaced d \<or> ns \<noteq> []"
    and "fst (rest_List d S ns options w) = Inr l" and "r \<in> set (Items l)"
  shows "kd_key d ns (Name r) = key r" and "view (store_db w) (key r) = Some r" and "good_key (key r)"
proof -
  obtain opt v where o: "options = Some opt" "desired_rv (opt_ResourceVersion opt) = Inr v"
    using assms(4) by (auto simp: rest_List_def case_prod_unfold split: sum.splits option.splits)
  obtain k where k: "view (store_db w) k = Some r" "sel (kd_sel d ns) k"
    using List_spec(1) [OF assms(1,2) o(2)] assms(4,5) by (auto simp: o(1))
  with stored_gets [OF assms(1) k(1)] sel_desc [OF assms(3)]
  show "kd_key d ns (Name r) = key r" "view (store_db w) (key r) = Some r" "good_key (key r)"
    by auto
qed

lemma DeleteCollection_tracks:
  assumes "inv (store_db w)" and "good_sel (kd_sel d ns)" and "\<not> kd_namespaced d \<or> ns \<noteq> []"
  shows "tracks key canon view inv w (snd (rest_DeleteCollection d S key ns val opts lopts w))"
proof -
  let ?w1 = "snd (rest_List d S ns lopts w)"
  have q: "quiet view inv w ?w1" by (rule List_quiet [OF assms(1,2)])
  show ?thesis
  proof (cases "fst (rest_List d S ns lopts w)")
    case (Inl err)
    then show ?thesis
      using q by (auto simp: rest_DeleteCollection_def case_prod_unfold intro: quiet_tracks)
  next
    case (Inr l)
    have "inv (store_db ?w1)" using q by (simp add: quiet_def)
    moreover have "good_key (kd_key d ns (Name r))" if "r \<in> set (Items l)" for r
      using listed_keys [OF assms Inr that] by simp
    ultimately have "tracks key canon view inv ?w1 (snd (rest_delete_items d S key ns val opts (Items l) ?w1))"
      by (rule delete_items_tracks)
    from tracks_trans [OF quiet_tracks [OF q] this] quiet_tracks [OF q] Inr show ?thesis
      by (auto simp: rest_DeleteCollection_def case_prod_unfold split: option.split)
  qed
qed

text \<open>
  A collection whose reports all pass validation is deleted as a whole: every listed report is gone,
  every other is kept, and one event announces each.
\<close>

lemma delete_items_spec:
  assumes "inv (store_db w)" and "distinct (map key rs)" and "\<not> isDryRun opts"
    and "\<And>r. r \<in> set rs \<Longrightarrow> view (store_db w) (key r) = Some r \<and> kd_key d ns (Name r) = key r \<and>
          val (obj_of d r) = None"
    and "rest_delete_items d S key ns val opts rs w = (x, w')"
  shows "x = None \<and> inv (store_db w') \<and> broadcast w' = broadcast w @ map (Pair Deleted) rs \<and>
    view (store_db w') = (\<lambda>k. if k \<in> key ` set rs then None else view (store_db w) k)"
  using assms
proof (induction rs arbitrary: w)
  case Nil
  then show ?case by simp
next
  case (Cons r rs)
  from Cons.prems(4) [of r] have r: "view (store_db w) (key r) = Some r" "kd_key d ns (Name r) = key r"
    "val (obj_of d r) = None"
    by simp_all
  obtain y w1 where w1: "rest_Delete d S key ns (Name r) val opts w = (y, w1)" by fastforce
  have gk: "good_key (kd_key d ns (Name r))"
    using stored_gets(1) [OF Cons.prems(1) r(1)] r(2) by simp
  from Delete_spec [OF Cons.prems(1) gk w1] r Cons.prems(3)
  have step: "y = Inr (obj_of d r, True)" "view (store_db w1) = (view (store_db w))(key r := None)"
    "broadcast w1 = broadcast w @ [(Deleted, r)]" "inv (store_db w1)"
    by simp_all
  have rest: "rest_delete_items d S key ns val opts rs w1 = (x, w')"
    using Cons.prems(5) w1 step(1) by simp
  have "view (store_db w1) (key r') = Some r' \<and> kd_key d ns (Name r') = key r' \<and> val (obj_of d r') = None"
    if "r' \<in> set rs" for r'
  proof -
    have "key r' \<noteq> key r" using Cons.prems(2) that by (metis distinct.simps(2) image_eqI list.map(2) list.set_map)
    with Cons.prems(4) [of r'] that step(2) show ?thesis by simp
  qed
  from Cons.IH [OF step(4) _ Cons.prems(3) this rest] Cons.prems(2) step(2,3) show ?case
    by (auto simp: fun_eq_iff)
qed

lemma DeleteCollection_spec:
  assumes "inv (store_db w)" and "good_sel (kd_sel d ns)" and ns: "\<not> kd_namespaced d \<or> ns \<noteq> []"
    and "desired_rv (opt_ResourceVersion opt) = Inr v" and "\<not> isDryRun opts"
    and val: "\<And>r. val (obj_of d r) = None"
    and w': "rest_DeleteCollection d S key ns val opts (Some opt) w = (x, w')"
  shows "\<exists>l. x = Inr l \<and> fst (rest_List d S ns (Some opt) w) = Inr l \<and>
    broadcast w' = broadcast w @ map (Pair Deleted) (Items l) \<and> inv (store_db w') \<and>
    view (store_db w') =
      (\<lambda>k. case view (store_db w) k of
             None \<Rightarrow> None
           | Some r \<Rightarrow> if sel (kd_sel d ns) k \<and> selected (LabelSelector opt) r then None else Some r)"
proof -
  let ?v = "view (store_db w)" and ?w1 = "snd (rest_List d S ns (Some opt) w)"
  obtain ks where ks: "distinct ks"
    "set ks = {k. \<exists>r. ?v k = Some r \<and> sel (kd_sel d ns) k \<and> selected (LabelSelector opt) r}"
    and l: "fst (rest_List d S ns (Some opt) w) =
        Inr (zero_List\<lparr>list_ResourceVersion := ''1'', Items := map (\<lambda>k. the (?v k)) ks\<rparr>)"
    using List_spec(1) [OF assms(1,2,4)] by blast
  have q: "quiet view inv w ?w1" by (rule List_quiet [OF assms(1,2)])
  have keys: "key (the (?v k)) = k" if "k \<in> set ks" for k
    using that ks(2) stored_gets(2) [OF assms(1)] by auto
  then have items: "map key (map (\<lambda>k. the (?v k)) ks) = ks" by (simp add: map_idI)
  obtain y w2 where y: "rest_delete_items d S key ns val opts (map (\<lambda>k. the (?v k)) ks) ?w1 = (y, w2)"
    by fastforce
  have "y = None \<and> inv (store_db w2) \<and>
      broadcast w2 = broadcast ?w1 @ map (Pair Deleted) (map (\<lambda>k. the (?v k)) ks) \<and>
      view (store_db w2) =
        (\<lambda>k. if k \<in> key ` set (map (\<lambda>k. the (?v k)) ks) then None else view (store_db ?w1) k)"
  proof (rule delete_items_spec [OF _ _ assms(5) _ y])
    show "inv (store_db ?w1)" using q by (simp add: quiet_def)
    show "distinct (map key (map (\<lambda>k. the (?v k)) ks))" unfolding items by (rule ks(1))
    show "view (store_db ?w1) (key r) = Some r \<and> kd_key d ns (Name r) = key r \<and> val (obj_of d r) = None"
      if "r \<in> set (map (\<lambda>k. the (?v k)) ks)" for r
      using listed_keys(1,2) [OF assms(1,2) ns l, of r] that q val by (simp add: quiet_def)
  qed
  moreover have "key ` set (map (\<lambda>k. the (?v k)) ks) = set ks"
    using items by (metis list.set_map)
  ultimately have res: "y = None" "inv (store_db w2)"
    "broadcast w2 = broadcast w @ map (Pair Deleted) (map (\<lambda>k. the (?v k)) ks)"
    "view (store_db w2) = (\<lambda>k. if k \<in> set ks then None else ?v k)"
    using q [unfolded quiet_def] by (simp_all add: fun_eq_iff)
  have "rest_DeleteCollection d S key ns val opts (Some opt) w =
      (Inr (zero_List\<lparr>list_ResourceVersion := ''1'', Items := map (\<lambda>k. the (?v k)) ks\<rparr>), w2)"
    using l y res(1) assms(5) by (simp add: rest_DeleteCollection_def case_prod_unfold)
  then show ?thesis
    using w' l res(2-4) ks(2) by (auto simp: fun_eq_iff split: option.split)
qed

lemma DeleteCollection_dry:
  assumes "inv (store_db w)" and "good_sel (kd_sel d ns)" and "isDryRun opts"
  shows "quiet view inv w (snd (rest_DeleteCollection d S key ns val opts lopts w))"
  using List_quiet [OF assms(1,2)] assms(3)
  by (auto simp: rest_DeleteCollection_def case_prod_unfold split: sum.split)

subsection \<open>Watching\<close>

text \<open>Replaying the initial events of a watch rebuilds the selected part of the storage.\<close>

lemma replay_added:
  assumes "\<And>k. k \<in> set ks \<Longrightarrow> \<exists>r. v k = Some r \<and> key r = k"
  shows "fold (apply_event key id) (map (\<lambda>k. (Added, the (v k))) ks) m =
    (\<lambda>k. if k \<in> set ks then v k else m k)"
  using assms
proof (induction ks arbitrary: m)
  case (Cons k ks)
  then obtain r where "v k = Some r" "key r = k" by auto
  with Cons show ?case by (auto simp: fun_eq_iff)
qed simp

lemma Watch_spec:
  assumes "inv (store_db w)" and "good_sel (kd_sel d ns)"
    and "desired_rv (opt_ResourceVersion opt) = Inr v"
    and "opt_ResourceVersion opt \<noteq> []" and "opt_ResourceVersion opt \<noteq> ''0''"
  shows "\<exists>evs. fst (rest_Watch d S ns (Some opt) w) = Inr (WatchWithPrefix evs) \<and>
    fold (apply_event key id) evs Map.empty =
      (\<lambda>k. case view (store_db w) k of
             None \<Rightarrow> None
           | Some r \<Rightarrow> if sel (kd_sel d ns) k \<and> selected (LabelSelector opt) r then Some r else None)"
proof -
  let ?v = "view (store_db w)"
  obtain ks where ks: "distinct ks"
    "set ks = {k. \<exists>r. ?v k = Some r \<and> sel (kd_sel d ns) k \<and> selected (LabelSelector opt) r}"
    and l: "fst (rest_List d S ns (Some opt) w) =
        Inr (zero_List\<lparr>list_ResourceVersion := ''1'', Items := map (\<lambda>k. the (?v k)) ks\<rparr>)"
    using List_spec(1) [OF assms(1-3)] by blast
  have "fst (rest_Watch d S ns (Some opt) w) =
      Inr (WatchWithPrefix (map (\<lambda>k. (Added, the (?v k))) ks))"
    using l assms(4,5) by (simp add: rest_Watch_def case_prod_unfold comp_def)
  moreover have "fold (apply_event key id) (map (\<lambda>k. (Added, the (?v k))) ks) Map.empty =
      (\<lambda>k. if k \<in> set ks then ?v k else None)"
    by (rule replay_added) (use ks(2) stored_gets(2) [OF assms(1)] in auto)
  moreover have "(\<lambda>k. if k \<in> set ks then ?v k else None) =
      (\<lambda>k. case ?v k of None \<Rightarrow> None
           | Some r \<Rightarrow> if sel (kd_sel d ns) k \<and> selected (LabelSelector opt) r then Some r else None)"
    using ks(2) by (auto simp: fun_eq_iff split: option.split)
  ultimately show ?thesis by auto
qed

subsection \<open>Every step\<close>

lemma Watch_quiet:
  assumes "inv (store_db w)" and "good_sel (kd_sel d ns)"
  shows "quiet view inv w (snd (rest_Watch d S ns opts w))"
  using List_quiet [OF assms] assms(1)
  by (auto simp: rest_Watch_def quiet_def case_prod_unfold split: option.split sum.split)

lemma step_tracks:
  assumes "rest_step d S key good_key good_sel good w w'" and "inv (store_db w)"
  shows "tracks key canon view inv w w'"
  using assms
proof cases
  case (StepGet ns n)
  then show ?thesis using Get_spec(2) assms(2) by (auto intro: quiet_tracks)
next
  case (StepList ns opts)
  then show ?thesis using List_quiet assms(2) by (auto intro: quiet_tracks)
next
  case (StepWatch ns opts)
  then show ?thesis using Watch_quiet assms(2) by (auto intro: quiet_tracks)
next
  case (StepCreate obj e ns val opts')
  then show ?thesis using Create_tracks assms(2) by blast
next
  case (StepUpdate ns n updated uval opts')
  then show ?thesis using Update_tracks assms(2) by blast
next
  case (StepDelete ns n val opts')
  then show ?thesis using Delete_tracks assms(2) by blast
next
  case (StepDeleteCollection ns val opts' opts)
  then show ?thesis using DeleteCollection_tracks assms(2) by blast
qed

lemma history_tracks:
  assumes "(rest_step d S key good_key good_sel good)\<^sup>*\<^sup>* w w'" and "inv (store_db w)"
  shows "tracks key canon view inv w w'"
  using assms
proof (induction rule: rtranclp_induct)
  case base
  then show ?case by (auto simp: tracks_def)
next
  case (step w1 w2)
  then have "tracks key canon view inv w w1" by simp
  moreover from this have "inv (store_db w1)" by (simp add: tracks_def)
  ultimately show ?case using step_tracks [OF step(2)] tracks_trans by blast
qed

end

subsection \<open>What a step may change\<close>

text \<open>A report as the server makes it under the version counter \<open>v\<close>.\<close>

definition made :: "resourceVersion \<Rightarrow> 'a ObjectMeta_scheme \<Rightarrow> bool" where
  "made v r \<longleftrightarrow> served_by r \<and> ResourceVersion r = FormatUint (version v)"

definition shrinks :: "('s \<Rightarrow> 'k \<rightharpoonup> 'r) \<Rightarrow> ('s, 'r) rest_state \<Rightarrow> ('s, 'r) rest_state \<Rightarrow> bool" where
  "shrinks vw w w' \<longleftrightarrow>
     (\<forall>k. vw (store_db w') k = vw (store_db w) k \<or> vw (store_db w') k = None) \<and>
     (store_versioning w' = store_versioning w \<or> store_versioning w' = bump (store_versioning w))"

definition writes_one ::
  "('a ObjectMeta_scheme \<Rightarrow> 'k) \<Rightarrow> ('a ObjectMeta_scheme \<Rightarrow> 'a ObjectMeta_scheme) \<Rightarrow>
     ('a ObjectMeta_scheme \<Rightarrow> bool) \<Rightarrow> ('s \<Rightarrow> 'k \<rightharpoonup> 'a ObjectMeta_scheme) \<Rightarrow>
     ('s, 'a ObjectMeta_scheme) rest_state \<Rightarrow> ('s, 'a ObjectMeta_scheme) rest_state \<Rightarrow> bool" where
  "writes_one key canon good vw w w' \<longleftrightarrow>
     (\<exists>r. good r \<and> made (store_versioning w) r \<and>
          vw (store_db w') = (vw (store_db w))(key r \<mapsto> canon r)) \<and>
     store_versioning w' = bump (store_versioning w)"

lemma quiet_shrinks: "quiet vw iv w w' \<Longrightarrow> shrinks vw w w'"
  by (simp add: quiet_def shrinks_def)

lemma made_stamped:
  assumes "rest_prepare d e ns r0 = Some r1"
  shows "made v (stamped e v r1)"
  using assms
  by (auto simp: rest_prepare_def made_def stamped_def served_by_def labelReports_def Let_def
      split: if_splits)

lemma made_restamped: "made v (restamped v (rest_adjust d ns r0))"
  by (simp add: rest_adjust_def made_def restamped_def served_by_def labelReports_def Let_def)

context rest_kind
begin

lemma Create_changes:
  assumes "inv (store_db w)"
    and good: "\<And>r0 r1. as_r d obj = Some r0 \<Longrightarrow> rest_prepare d e ns r0 = Some r1 \<Longrightarrow>
       good (stamped e (store_versioning w) r1)"
  shows "shrinks view w (snd (rest_Create d S e ns obj val opts w)) \<or>
    writes_one key canon good view w (snd (rest_Create d S e ns obj val opts w))"
proof (cases "strict_err (val obj) (FieldValidation opts) \<noteq> None \<or> isDryRun opts \<or> as_r d obj = None \<or>
    (\<exists>r0. as_r d obj = Some r0 \<and> rest_prepare d e ns r0 = None)")
  case True
  with Create_no_effect [of val obj opts e ns w] show ?thesis by (auto simp: shrinks_def)
next
  case False
  then obtain r0 r1 where r: "as_r d obj = Some r0" "rest_prepare d e ns r0 = Some r1" by auto
  obtain x w' where w': "rest_Create d S e ns obj val opts w = (x, w')" by fastforce
  from Create_spec [OF assms(1) _ r _ good [OF r] refl w'] False w' good [OF r] made_stamped [OF r(2)]
  show ?thesis by (auto simp: shrinks_def writes_one_def split: if_splits)
qed

lemma Update_changes:
  assumes "inv (store_db w)" and k: "good_key (kd_key d ns n)"
    and upd: "\<And>old r0. as_r d (fst (updated old)) = Some r0 \<Longrightarrow>
       key (rest_adjust d ns r0) = kd_key d ns n \<and>
       good (restamped (store_versioning w) (rest_adjust d ns r0))"
  shows "shrinks view w (snd (rest_Update d S ns n updated uval False opts w)) \<or>
    writes_one key canon good view w (snd (rest_Update d S ns n updated uval False opts w))"
proof (cases "view (store_db w) (kd_key d ns n) = None \<or> isDryRun opts")
  case True
  then show ?thesis using Update_quiet [OF assms(1) k] quiet_shrinks by blast
next
  case False
  then obtain old where old: "view (store_db w) (kd_key d ns n) = Some old" by auto
  obtain obj uerr where u: "updated (Some old) = (obj, uerr)" by fastforce
  have q: "quiet view inv w (snd (rest_get d S (kd_key d ns n) w))"
    by (rule get_result(2) [OF assms(1) k])
  have got: "fst (rest_get d S (kd_key d ns n) w) = Inr (Some old)"
    using get_result(1) [OF assms(1) k] old by auto
  show ?thesis
  proof (cases "uerr = None \<and> strict_err (uval obj (Some old)) (FieldValidation opts) = None \<and>
      as_r d obj \<noteq> None")
    case refused: False
    then show ?thesis
      using quiet_shrinks [OF q] got u
      by (auto simp: rest_Update_def case_prod_unfold Let_def split: option.split)
  next
    case True
    then obtain r0 where r0: "as_r d obj = Some r0" by blast
    obtain x w' where w': "rest_Update d S ns n updated uval False opts w = (x, w')" by fastforce
    from upd [of "Some old" r0] u r0
    have good: "good (restamped (store_versioning w) (rest_adjust d ns r0))" by simp
    from Update_spec [OF assms(1) k old _ r0 _ _ good refl w'] u True False good w'
      made_restamped [of "store_versioning w" d ns r0]
    show ?thesis by (auto simp: shrinks_def writes_one_def split: if_splits)
  qed
qed

lemma Delete_shrinks:
  assumes "inv (store_db w)" and "good_key (kd_key d ns n)"
  shows "shrinks view w (snd (rest_Delete d S key ns n val opts w)) \<and>
    store_versioning (snd (rest_Delete d S key ns n val opts w)) = store_versioning w"
proof -
  obtain x w' where w': "rest_Delete d S key ns n val opts w = (x, w')" by fastforce
  from Delete_spec [OF assms w'] w' show ?thesis
    by (auto simp: quiet_def shrinks_def split: option.splits if_splits)
qed

lemma delete_items_shrinks:
  assumes "inv (store_db w)" and "\<And>r. r \<in> set rs \<Longrightarrow> good_key (kd_key d ns (Name r))"
  shows "shrinks view w (snd (rest_delete_items d S key ns val opts rs w)) \<and>
    store_versioning (snd (rest_delete_items d S key ns val opts rs w)) = store_versioning w"
  using assms
proof (induction rs arbitrary: w)
  case Nil
  then show ?case by (simp add: shrinks_def)
next
  case (Cons r rs)
  let ?w1 = "snd (rest_Delete d S key ns (Name r) val opts w)"
  have one: "shrinks view w ?w1 \<and> store_versioning ?w1 = store_versioning w"
    using Cons.prems by (intro Delete_shrinks) auto
  have "inv (store_db ?w1)"
    using Delete_tracks [of w ns "Name r" val opts] Cons.prems by (simp add: tracks_def)
  with Cons have "shrinks view ?w1 (snd (rest_delete_items d S key ns val opts rs ?w1)) \<and>
    store_versioning (snd (rest_delete_items d S key ns val opts rs ?w1)) = store_versioning ?w1"
    by simp
  with one have "shrinks view w (snd (rest_delete_items d S key ns val opts rs ?w1)) \<and>
    store_versioning (snd (rest_delete_items d S key ns val opts rs ?w1)) = store_versioning w"
    by (simp add: shrinks_def) metis
  with one show ?case by (auto simp: case_prod_unfold split: sum.split)
qed

lemma DeleteCollection_shrinks:
  assumes "inv (store_db w)" and "good_sel (kd_sel d ns)" and "\<not> kd_namespaced d \<or> ns \<noteq> []"
  shows "shrinks view w (snd (rest_DeleteCollection d S key ns val opts lopts w))"
proof -
  let ?w1 = "snd (rest_List d S ns lopts w)"
  have q: "quiet view inv w ?w1" by (rule List_quiet [OF assms(1,2)])
  show ?thesis
  proof (cases "fst (rest_List d S ns lopts w)")
    case (Inl err)
    then show ?thesis
      using quiet_shrinks [OF q] by (auto simp: rest_DeleteCollection_def case_prod_unfold)
  next
    case (Inr l)
    have "inv (store_db ?w1)" using q by (simp add: quiet_def)
    moreover have "good_key (kd_key d ns (Name r))" if "r \<in> set (Items l)" for r
      using listed_keys [OF assms Inr that] by simp
    ultimately have "shrinks view ?w1 (snd (rest_delete_items d S key ns val opts (Items l) ?w1))"
      using delete_items_shrinks by blast
    with q quiet_shrinks [OF q] Inr show ?thesis
      by (auto simp: rest_DeleteCollection_def case_prod_unfold shrinks_def quiet_def split: option.split)
  qed
qed

lemma step_changes:
  assumes "rest_step d S key good_key good_sel good w w'" and "inv (store_db w)"
  shows "shrinks view w w' \<or> writes_one key canon good view w w'"
  using assms
proof cases
  case (StepGet ns n)
  then show ?thesis using Get_spec(2) assms(2) by (auto intro: quiet_shrinks)
next
  case (StepList ns opts)
  then show ?thesis using List_quiet assms(2) by (auto intro: quiet_shrinks)
next
  case (StepWatch ns opts)
  then show ?thesis using Watch_quiet assms(2) by (auto intro: quiet_shrinks)
next
  case (StepCreate obj e ns val opts')
  then show ?thesis using Create_changes assms(2) by blast
next
  case (StepUpdate ns n updated uval opts')
  then show ?thesis using Update_changes assms(2) by blast
next
  case (StepDelete ns n val opts')
  then show ?thesis using Delete_shrinks assms(2) by blast
next
  case (StepDeleteCollection ns val opts' opts)
  then show ?thesis using DeleteCollection_shrinks assms(2) by blast
qed

end

subsection \<open>Invariants of the stored reports\<close>

definition all_served ::
  "('s \<Rightarrow> 'k \<rightharpoonup> 'a ObjectMeta_scheme) \<Rightarrow> ('s, 'a ObjectMeta_scheme) rest_state \<Rightarrow> bool" where
  "all_served vw w \<longleftrightarrow> (\<forall>k r. vw (store_db w) k = Some r \<longrightarrow> served_by r)"

definition versions_fresh ::
  "('s \<Rightarrow> 'k \<rightharpoonup> 'a ObjectMeta_scheme) \<Rightarrow> ('s, 'a ObjectMeta_scheme) rest_state \<Rightarrow> bool" where
  "versions_fresh vw w \<longleftrightarrow>
     (\<forall>k r. vw (store_db w) k = Some r \<longrightarrow>
        (\<exists>u. ResourceVersion r = FormatUint u \<and> u < version (store_versioning w))) \<and>
     (\<forall>k k' r r'. vw (store_db w) k = Some r \<longrightarrow> vw (store_db w) k' = Some r' \<longrightarrow>
        ResourceVersion r = ResourceVersion r' \<longrightarrow> k = k')"

text \<open>What writing and reading back must not lose of a report's metadata.\<close>

definition meta_kept ::
  "('a ObjectMeta_scheme \<Rightarrow> bool) \<Rightarrow> ('a ObjectMeta_scheme \<Rightarrow> 'a ObjectMeta_scheme) \<Rightarrow> bool" where
  "meta_kept good canon \<longleftrightarrow>
     (\<forall>r. good r \<longrightarrow> ResourceVersion (canon r) = ResourceVersion r \<and> (served_by r \<longrightarrow> served_by (canon r)))"

lemma bump_less: "version v \<noteq> -1 \<Longrightarrow> version v < version (bump v)"
  by (simp add: bump_def word_less_nat_alt unat_suc_u64)

lemma served_kept:
  assumes "shrinks vw w w' \<or> writes_one key canon good vw w w'"
    and "meta_kept good canon" and "all_served vw w"
  shows "all_served vw w'"
  using assms(1)
proof
  assume "shrinks vw w w'"
  with assms(3) show ?thesis unfolding all_served_def shrinks_def by (metis option.distinct(1))
next
  assume "writes_one key canon good vw w w'"
  with assms(2,3) show ?thesis
    by (auto simp: all_served_def writes_one_def made_def meta_kept_def split: if_splits)
qed

lemma versions_fresh_bump:
  assumes "versions_fresh vw w" and "version (store_versioning w) \<noteq> -1"
    and "vw (store_db w) k = Some r"
  shows "\<exists>u. ResourceVersion r = FormatUint u \<and> u < version (bump (store_versioning w)) \<and>
    u \<noteq> version (store_versioning w)"
proof -
  from assms(1,3) obtain u where "ResourceVersion r = FormatUint u" "u < version (store_versioning w)"
    unfolding versions_fresh_def by blast
  with less_trans [OF _ bump_less [OF assms(2)]] show ?thesis by blast
qed

lemma versions_kept:
  assumes "shrinks vw w w' \<or> writes_one key canon good vw w w'"
    and "meta_kept good canon" and "versions_fresh vw w" and "version (store_versioning w) \<noteq> -1"
  shows "versions_fresh vw w'"
  using assms(1)
proof
  assume sh: "shrinks vw w w'"
  then have old: "vw (store_db w) k = Some r" if "vw (store_db w') k = Some r" for k r
    using that unfolding shrinks_def by (metis option.distinct(1))
  have "version (store_versioning w) \<le> version (store_versioning w')"
    using sh bump_less [OF assms(4)] by (auto simp: shrinks_def)
  with old assms(3) show ?thesis
    unfolding versions_fresh_def by (meson less_le_trans)
next
  assume "writes_one key canon good vw w w'"
  then obtain r where r: "good r" "made (store_versioning w) r"
    and vw: "vw (store_db w') = (vw (store_db w))(key r \<mapsto> canon r)"
    and v: "store_versioning w' = bump (store_versioning w)"
    by (auto simp: writes_one_def)
  have rv: "ResourceVersion (canon r) = FormatUint (version (store_versioning w))"
    using r assms(2) by (simp add: made_def meta_kept_def)
  note older = versions_fresh_bump [OF assms(3,4)]
  have "\<exists>u. ResourceVersion q = FormatUint u \<and> u < version (bump (store_versioning w))"
    if "vw (store_db w') k = Some q" for k q
    using that older [of k q] rv bump_less [OF assms(4)] by (auto simp: vw split: if_splits)
  moreover have "k = k'" if "vw (store_db w') k = Some q" "vw (store_db w') k' = Some q'"
    "ResourceVersion q = ResourceVersion q'" for k k' q q'
    using that older [of k q] older [of k' q'] rv assms(3)
    by (auto simp: vw versions_fresh_def split: if_splits)
  ultimately show ?thesis
    unfolding versions_fresh_def v by blast
qed

context rest_kind
begin

lemma history_served:
  assumes "(rest_step d S key good_key good_sel good)\<^sup>*\<^sup>* w w'" and "inv (store_db w)"
    and "meta_kept good canon" and "all_served view w"
  shows "all_served view w'"
  using assms(1)
proof (induction rule: rtranclp_induct)
  case base
  show ?case by (rule assms(4))
next
  case (step w1 w2)
  have "inv (store_db w1)"
    using history_tracks [OF step(1) assms(2)] by (simp add: tracks_def)
  from served_kept [OF step_changes [OF step(2) this] assms(3) step.IH] show ?case .
qed

lemma history_versions:
  assumes "(\<lambda>x y. rest_step d S key good_key good_sel good x y \<and> version (store_versioning x) \<noteq> -1)\<^sup>*\<^sup>* w w'"
    and "inv (store_db w)" and "meta_kept good canon" and "versions_fresh view w"
  shows "versions_fresh view w' \<and> inv (store_db w')"
  using assms(1)
proof (induction rule: rtranclp_induct)
  case base
  show ?case using assms(2,4) by simp
next
  case (step w1 w2)
  then have inv: "inv (store_db w1)" and "versions_fresh view w1" by simp_all
  from versions_kept [OF step_changes [OF _ inv] assms(3) this(2)] step(2) step_tracks [OF _ inv]
  show ?case by (auto simp: tracks_def)
qed

end

end
