(* ===== verification/ApiTable.thy ===== *)
theory ApiTable
  imports ApiCommon
begin

section \<open>Tables\<close>

text \<open>
  \<^verbatim>\<open>pkg/api/table.go\<close>: the rows that \<open>kubectl get\<close> prints. The age of a report depends on the clock;
  \<open>age\<close> gives its printed form for a creation time.
\<close>

record TableColumnDefinition =
  col_Name :: string
  col_Type :: string
  col_Format :: string
  col_Description :: string

datatype cell = StrCell string | IntCell int

record TableRow =
  Cells :: "cell list"
  row_Object :: Object

record Table =
  tab_ResourceVersion :: string
  tab_SelfLink :: string
  tab_Continue :: string
  ColumnDefinitions :: "TableColumnDefinition list"
  Rows :: "TableRow list"

definition zero_Table :: Table where
  "zero_Table = \<lparr>tab_ResourceVersion = [], tab_SelfLink = [], tab_Continue = [],
     ColumnDefinitions = [], Rows = []\<rparr>"

definition column :: "string \<Rightarrow> string \<Rightarrow> string \<Rightarrow> TableColumnDefinition" where
  "column n t f = \<lparr>col_Name = n, col_Type = t, col_Format = f, col_Description = []\<rparr>"

definition name_column :: TableColumnDefinition where
  "name_column = (column ''Name'' ''string'' ''name'')\<lparr>col_Description := ''Name of the resource''\<rparr>"

definition summary_columns :: "TableColumnDefinition list" where
  "summary_columns =
     [column ''Pass'' ''integer'' ''string'', column ''Fail'' ''integer'' ''string'',
      column ''Warn'' ''integer'' ''string'', column ''Error'' ''integer'' ''string'',
      column ''Skip'' ''integer'' ''string'', column ''Age'' ''string'' ''duration'']"

definition summary_cells :: "PolicyReportSummary \<Rightarrow> string \<Rightarrow> cell list" where
  "summary_cells s age =
     [IntCell (Pass s), IntCell (Fail s), IntCell (Warn s), IntCell (Error s), IntCell (Skip s),
      StrCell age]"

fun addPolicyReportToTable :: "(int \<Rightarrow> string) \<Rightarrow> Table \<Rightarrow> PolicyReport list \<Rightarrow> Table" where
  "addPolicyReportToTable age table [] = table"
| "addPolicyReportToTable age table (polr # polrs) =
     (let row = [StrCell (Name polr)] @
                (case Scope polr of
                   None \<Rightarrow> [StrCell [], StrCell []]
                 | Some s \<Rightarrow> [StrCell (ref_Kind s), StrCell (ref_Name s)]) @
                summary_cells (Summary polr) (age (CreationTimestamp polr))
      in addPolicyReportToTable age
           (table\<lparr>ColumnDefinitions :=
                    [name_column, column ''Kind'' ''string'' ''string'',
                     column ''Name'' ''string'' ''string''] @ summary_columns,
                  Rows := Rows table @ [\<lparr>Cells = row, row_Object = PolicyReportObj polr\<rparr>]\<rparr>)
           polrs)"

fun addClusterPolicyReportToTable :: "(int \<Rightarrow> string) \<Rightarrow> Table \<Rightarrow> ClusterPolicyReport list \<Rightarrow> Table" where
  "addClusterPolicyReportToTable age table [] = table"
| "addClusterPolicyReportToTable age table (cpolr # cpolrs) =
     (let row = [StrCell (Name cpolr)] @
                (case Scope cpolr of
                   None \<Rightarrow> [StrCell [], StrCell []]
                 | Some s \<Rightarrow> [StrCell (ref_Kind s), StrCell (ref_Name s)]) @
                summary_cells (Summary cpolr) (age (CreationTimestamp cpolr))
      in addClusterPolicyReportToTable age
           (table\<lparr>ColumnDefinitions :=
                    [name_column, column ''Kind'' ''string'' ''string'',
                     column ''Name'' ''string'' ''string''] @ summary_columns,
                  Rows := Rows table @ [\<lparr>Cells = row, row_Object = ClusterPolicyReportObj cpolr\<rparr>]\<rparr>)
           cpolrs)"

fun addEphemeralReportToTable :: "(int \<Rightarrow> string) \<Rightarrow> Table \<Rightarrow> EphemeralReport list \<Rightarrow> Table" where
  "addEphemeralReportToTable age table [] = table"
| "addEphemeralReportToTable age table (ephr # ephrs) =
     (let row = [StrCell (Name ephr)] @
                summary_cells (spec_Summary (Spec ephr)) (age (CreationTimestamp ephr))
      in addEphemeralReportToTable age
           (table\<lparr>ColumnDefinitions := [name_column] @ summary_columns,
                  Rows := Rows table @ [\<lparr>Cells = row, row_Object = EphemeralReportObj ephr\<rparr>]\<rparr>)
           ephrs)"

fun addClusterEphemeralReportToTable ::
  "(int \<Rightarrow> string) \<Rightarrow> Table \<Rightarrow> ClusterEphemeralReport list \<Rightarrow> Table" where
  "addClusterEphemeralReportToTable age table [] = table"
| "addClusterEphemeralReportToTable age table (cephr # cephrs) =
     (let row = [StrCell (Name cephr)] @
                summary_cells (spec_Summary (Spec cephr)) (age (CreationTimestamp cephr))
      in addClusterEphemeralReportToTable age
           (table\<lparr>ColumnDefinitions := [name_column] @ summary_columns,
                  Rows := Rows table @ [\<lparr>Cells = row, row_Object = ClusterEphemeralReportObj cephr\<rparr>]\<rparr>)
           cephrs)"

subsection \<open>The shape of a table\<close>

text \<open>A table is regular when every row has a cell for every column.\<close>

definition regular :: "Table \<Rightarrow> bool" where
  "regular t \<longleftrightarrow> list_all (\<lambda>row. length (Cells row) = length (ColumnDefinitions t)) (Rows t)"

lemma polr_table_rows:
  "map row_Object (Rows (addPolicyReportToTable age t polrs)) =
     map row_Object (Rows t) @ map PolicyReportObj polrs"
  by (induction polrs arbitrary: t) (simp_all add: Let_def)

lemma cpolr_table_rows:
  "map row_Object (Rows (addClusterPolicyReportToTable age t cpolrs)) =
     map row_Object (Rows t) @ map ClusterPolicyReportObj cpolrs"
  by (induction cpolrs arbitrary: t) (simp_all add: Let_def)

lemma ephr_table_rows:
  "map row_Object (Rows (addEphemeralReportToTable age t ephrs)) =
     map row_Object (Rows t) @ map EphemeralReportObj ephrs"
  by (induction ephrs arbitrary: t) (simp_all add: Let_def)

lemma cephr_table_rows:
  "map row_Object (Rows (addClusterEphemeralReportToTable age t cephrs)) =
     map row_Object (Rows t) @ map ClusterEphemeralReportObj cephrs"
  by (induction cephrs arbitrary: t) (simp_all add: Let_def)

lemmas table_defs = summary_cells_def summary_columns_def

text \<open>Adding reports to rows of the right width gives rows of the right width, and the columns.\<close>

definition width :: "nat \<Rightarrow> Table \<Rightarrow> bool" where
  "width n t \<longleftrightarrow> list_all (\<lambda>row. length (Cells row) = n) (Rows t)"

lemma polr_table_width:
  "width 9 t \<Longrightarrow> width 9 (addPolicyReportToTable age t polrs) \<and>
     length (ColumnDefinitions (addPolicyReportToTable age t polrs)) =
       (if polrs = [] then length (ColumnDefinitions t) else 9)"
  by (induction polrs arbitrary: t) (auto simp: Let_def width_def table_defs split: option.split)

lemma cpolr_table_width:
  "width 9 t \<Longrightarrow> width 9 (addClusterPolicyReportToTable age t cpolrs) \<and>
     length (ColumnDefinitions (addClusterPolicyReportToTable age t cpolrs)) =
       (if cpolrs = [] then length (ColumnDefinitions t) else 9)"
  by (induction cpolrs arbitrary: t) (auto simp: Let_def width_def table_defs split: option.split)

lemma ephr_table_width:
  "width 7 t \<Longrightarrow> width 7 (addEphemeralReportToTable age t ephrs) \<and>
     length (ColumnDefinitions (addEphemeralReportToTable age t ephrs)) =
       (if ephrs = [] then length (ColumnDefinitions t) else 7)"
  by (induction ephrs arbitrary: t) (auto simp: Let_def width_def table_defs)

lemma cephr_table_width:
  "width 7 t \<Longrightarrow> width 7 (addClusterEphemeralReportToTable age t cephrs) \<and>
     length (ColumnDefinitions (addClusterEphemeralReportToTable age t cephrs)) =
       (if cephrs = [] then length (ColumnDefinitions t) else 7)"
  by (induction cephrs arbitrary: t) (auto simp: Let_def width_def table_defs)

text \<open>A table that starts without rows stays regular.\<close>

lemma polr_table_regular:
  assumes "Rows t = []"
  shows "regular (addPolicyReportToTable age t polrs)"
  using assms polr_table_width[of t age polrs]
  by (cases polrs) (auto simp: width_def regular_def)

lemma cpolr_table_regular:
  assumes "Rows t = []"
  shows "regular (addClusterPolicyReportToTable age t cpolrs)"
  using assms cpolr_table_width[of t age cpolrs]
  by (cases cpolrs) (auto simp: width_def regular_def)

lemma ephr_table_regular:
  assumes "Rows t = []"
  shows "regular (addEphemeralReportToTable age t ephrs)"
  using assms ephr_table_width[of t age ephrs]
  by (cases ephrs) (auto simp: width_def regular_def)

lemma cephr_table_regular:
  assumes "Rows t = []"
  shows "regular (addClusterEphemeralReportToTable age t cephrs)"
  using assms cephr_table_width[of t age cephrs]
  by (cases cephrs) (auto simp: width_def regular_def)

end
