(* ===== verification/ApiPolr.thy ===== *)
theory ApiPolr
  imports RestTraces ApiTable SampleStore
begin

section \<open>The REST store of policy reports\<close>

text \<open>
  \<^verbatim>\<open>pkg/api/polr.go\<close>, method by method. \<open>st\<close> is the storage the store was made with; the namespace is the
  one of the request context. Log lines are left out. The last part of the theory identifies the
  store with the generic handlers and states it as a step relation.
\<close>

type_synonym 's polrState = "('s, PolicyReport) rest_state"

definition as_PolicyReport :: "Object \<Rightarrow> PolicyReport option" where
  "as_PolicyReport obj = (case obj of PolicyReportObj r \<Rightarrow> Some r | _ \<Rightarrow> None)"

definition as_PolicyReportList :: "Object \<Rightarrow> PolicyReport ReportList option" where
  "as_PolicyReportList obj = (case obj of PolicyReportListObj l \<Rightarrow> Some l | _ \<Rightarrow> None)"

definition PolicyReportStore :: "'s \<Rightarrow> resourceVersion \<Rightarrow> 's polrState" where
  "PolicyReportStore s v = \<lparr>store_db = s, store_versioning = v, broadcast = []\<rparr>"

definition polrStore_New :: Object where
  "polrStore_New = PolicyReportObj zero_PolicyReport"

definition polrStore_NewList :: Object where
  "polrStore_NewList = PolicyReportListObj zero_List"

definition polrStore_Kind :: string where
  "polrStore_Kind = ''PolicyReport''"

definition polrStore_NamespaceScoped :: bool where
  "polrStore_NamespaceScoped = True"

definition polrStore_GetSingularName :: string where
  "polrStore_GetSingularName = ''policyreport''"

definition polrStore_ShortNames :: "string list" where
  "polrStore_ShortNames = [''polr'']"

subsection \<open>Storage access\<close>

definition getPolr :: "'s Storage \<Rightarrow> string \<Rightarrow> string \<Rightarrow> (PolicyReport option, 's polrState) op" where
  "getPolr st name namespace w =
     (case nGet (PolicyReports st) name namespace (store_db w) of
        (Inl err, s) \<Rightarrow> (Inl (Wrapf ''could not find policy report in store'' err), w\<lparr>store_db := s\<rparr>)
      | (Inr val, s) \<Rightarrow> (Inr val, w\<lparr>store_db := s\<rparr>))"

definition listPolr :: "'s Storage \<Rightarrow> string \<Rightarrow> (PolicyReport ReportList, 's polrState) op" where
  "listPolr st namespace w =
     (case nList (PolicyReports st) namespace (store_db w) of
        (Inl err, s) \<Rightarrow> (Inl (Wrapf ''could not find policy report in store'' err), w\<lparr>store_db := s\<rparr>)
      | (Inr valList, s) \<Rightarrow>
          (case deref_all valList of
             Inl panic \<Rightarrow> (Inl panic, w\<lparr>store_db := s\<rparr>)
           | Inr items \<Rightarrow> (Inr (zero_List\<lparr>Items := items\<rparr>), w\<lparr>store_db := s\<rparr>)))"

definition createPolr ::
  "'s Storage \<Rightarrow> request_env \<Rightarrow> PolicyReport \<Rightarrow> 's polrState \<Rightarrow> (PolicyReport \<times> err option) \<times> 's polrState" where
  "createPolr st e report w =
     (let (rv, v) = UseResourceVersion (store_versioning w);
          r = report\<lparr>ResourceVersion := rv, UID := NewUUID e, CreationTimestamp := Now e\<rparr>;
          (err, s) = nCreate (PolicyReports st) (Some r) (store_db w)
      in ((r, err), w\<lparr>store_db := s, store_versioning := v\<rparr>))"

definition updatePolr ::
  "'s Storage \<Rightarrow> PolicyReport \<Rightarrow> 's polrState \<Rightarrow> (PolicyReport \<times> err option) \<times> 's polrState" where
  "updatePolr st report w =
     (let (rv, v) = UseResourceVersion (store_versioning w);
          r = report\<lparr>ResourceVersion := rv\<rparr>;
          (err, s) = nUpdate (PolicyReports st) (Some r) (store_db w)
      in ((r, err), w\<lparr>store_db := s, store_versioning := v\<rparr>))"

definition deletePolr :: "'s Storage \<Rightarrow> PolicyReport \<Rightarrow> 's polrState eop" where
  "deletePolr st report w =
     (let (err, s) = nDelete (PolicyReports st) (Name report) (Namespace report) (store_db w) in (err, w\<lparr>store_db := s\<rparr>))"

subsection \<open>Handlers\<close>

definition polrStore_List ::
  "'s Storage \<Rightarrow> string \<Rightarrow> ListOptions option \<Rightarrow> (Object, 's polrState) op" where
  "polrStore_List st namespace options w =
     (let labelSelector = (case options of None \<Rightarrow> None | Some opt \<Rightarrow> LabelSelector opt)
      in case listPolr st namespace w of
           (Inl err, w1) \<Rightarrow>
             (Inl (unless_panic err (BadRequest ''failed to list resource policyreport'' None)), w1)
         | (Inr list, w1) \<Rightarrow>
             (case options of
                None \<Rightarrow> (Inl nil_deref, w1)
              | Some opt \<Rightarrow>
                  (case (if length (opt_ResourceVersion opt) = 0 then Inr 1
                         else case ParseUint (opt_ResourceVersion opt) of
                                Inl e \<Rightarrow> Inl (NumError e (opt_ResourceVersion opt))
                              | Inr n \<Rightarrow> Inr n) of
                     Inl err \<Rightarrow> (Inl err, w1)
                   | Inr desiredRv \<Rightarrow>
                       (case filter_items labelSelector desiredRv (ResourceVersionMatch opt)
                               (Items list) 1 [] of
                          Inl err \<Rightarrow> (Inl err, w1)
                        | Inr (resourceVersion, items) \<Rightarrow>
                            (Inr (PolicyReportListObj (zero_List\<lparr>Items := items,
                               list_ResourceVersion := FormatUint resourceVersion\<rparr>)), w1)))))"

definition polrStore_Get :: "'s Storage \<Rightarrow> string \<Rightarrow> string \<Rightarrow> (Object, 's polrState) op" where
  "polrStore_Get st namespace name w =
     (case getPolr st name namespace w of
        (Inr (Some report), w1) \<Rightarrow> (Inr (PolicyReportObj report), w1)
      | (_, w1) \<Rightarrow> (Inl (NotFound PolicyReportsGR name), w1))"

text \<open>What \<open>Create\<close> fills in before it writes the report.\<close>

definition polr_admit :: "request_env \<Rightarrow> string \<Rightarrow> PolicyReport \<Rightarrow> err + PolicyReport" where
  "polr_admit e namespace polr =
     (let polr1 = (if length (Namespace polr) = 0 then polr\<lparr>Namespace := namespace\<rparr> else polr)
      in if Name polr1 = [] \<and> GenerateName polr1 = []
         then Inl (Conflict PolicyReportsGR (Name polr1) ''name and generate name not provided'')
         else (let polr2 = (if Name polr1 = []
                            then polr1\<lparr>Name := genName e (GenerateName polr1)\<rparr> else polr1)
               in Inr (polr2\<lparr>Annotations := labelReports (Annotations polr2), Generation := 1\<rparr>)))"

definition polrStore_Create ::
  "'s Storage \<Rightarrow> request_env \<Rightarrow> string \<Rightarrow> Object \<Rightarrow> (Object \<Rightarrow> err option) \<Rightarrow> WriteOptions \<Rightarrow>
     (Object, 's polrState) op" where
  "polrStore_Create st e namespace obj createValidation options w =
     (case strict_err (createValidation obj) (FieldValidation options) of
        Some err \<Rightarrow> (Inl err, w)
      | None \<Rightarrow>
          (case as_PolicyReport obj of
             None \<Rightarrow> (Inl (BadRequest ''failed to validate policy report'' None), w)
           | Some polr \<Rightarrow>
               (case polr_admit e namespace polr of
                  Inl err \<Rightarrow> (Inl err, w)
                | Inr polr' \<Rightarrow>
                    if \<not> isDryRun options
                    then (case createPolr st e polr' w of
                            ((r, Some err), w1) \<Rightarrow> (Inl (AlreadyExists PolicyReportsGR (Name polr')), w1)
                          | ((r, None), w1) \<Rightarrow> (Inr (PolicyReportObj r), Action Added r w1))
                    else (Inr (PolicyReportObj polr'), w))))"

text \<open>What \<open>Update\<close> does to the report before it is written.\<close>

definition polr_adjust :: "string \<Rightarrow> PolicyReport \<Rightarrow> PolicyReport" where
  "polr_adjust namespace polr =
     (let polr1 = (if length (Namespace polr) = 0 then polr\<lparr>Namespace := namespace\<rparr> else polr)
      in polr1\<lparr>Annotations := labelReports (Annotations polr1), Generation := Generation polr1 + 1\<rparr>)"

definition polrStore_Update ::
  "'s Storage \<Rightarrow> string \<Rightarrow> string \<Rightarrow> (PolicyReport option \<Rightarrow> Object \<times> err option) \<Rightarrow>
     (Object \<Rightarrow> PolicyReport option \<Rightarrow> err option) \<Rightarrow> bool \<Rightarrow> WriteOptions \<Rightarrow>
     (Object \<times> bool, 's polrState) op" where
  "polrStore_Update st namespace name updatedObj updateValidation forceAllowCreate options w =
     (let (got, w1) = getPolr st name namespace w;
          oldObj = (case got of Inl err \<Rightarrow> None | Inr val \<Rightarrow> val);
          (updatedObject, uerr) = updatedObj oldObj
      in if isl got \<and> \<not> forceAllowCreate then (Inl (projl got), w1)
         else if uerr \<noteq> None \<and> \<not> forceAllowCreate then (Inl (the uerr), w1)
         else case as_PolicyReport updatedObject of
                None \<Rightarrow> (Inl (Panic ''interface conversion''), w1)
              | Some polr \<Rightarrow>
                  if forceAllowCreate
                  then (let ((r, err), w2) = updatePolr st polr w1
                        in (Inr (PolicyReportObj r, True), Action Modified r w2))
                  else (case strict_err (updateValidation updatedObject oldObj) (FieldValidation options) of
                          Some err \<Rightarrow> (Inl err, w1)
                        | None \<Rightarrow>
                            (let polr' = polr_adjust namespace polr
                             in if \<not> isDryRun options
                                then (case updatePolr st polr' w1 of
                                        ((r, Some err), w2) \<Rightarrow>
                                          (Inl (BadRequest ''cannot create policy report: '' (Some err)), w2)
                                      | ((r, None), w2) \<Rightarrow>
                                          (Inr (PolicyReportObj r, True), Action Modified r w2))
                                else (Inr (PolicyReportObj polr', True), w1))))"

definition polrStore_Delete ::
  "'s Storage \<Rightarrow> string \<Rightarrow> string \<Rightarrow> (Object \<Rightarrow> err option) \<Rightarrow> WriteOptions \<Rightarrow>
     (Object \<times> bool, 's polrState) op" where
  "polrStore_Delete st namespace name deleteValidation options w =
     (case getPolr st name namespace w of
        (Inl err, w1) \<Rightarrow> (Inl (NotFound PolicyReportsGR name), w1)
      | (Inr val, w1) \<Rightarrow>
          (case deleteValidation (case val of None \<Rightarrow> NilObject | Some r \<Rightarrow> PolicyReportObj r) of
             Some err \<Rightarrow> (Inl (BadRequest ''invalid resource: '' (Some err)), w1)
           | None \<Rightarrow>
               (case val of
                  None \<Rightarrow> (Inl nil_deref, w1)
                | Some polr \<Rightarrow>
                    if \<not> isDryRun options
                    then (case deletePolr st polr w1 of
                            (Some err, w2) \<Rightarrow>
                              (Inl (BadRequest ''failed to delete policyreport: '' (Some err)), w2)
                          | (None, w2) \<Rightarrow> (Inr (PolicyReportObj polr, True), Action Deleted polr w2))
                    else (Inr (PolicyReportObj polr, True), w1))))"

fun polr_delete_items ::
  "'s Storage \<Rightarrow> string \<Rightarrow> (Object \<Rightarrow> err option) \<Rightarrow> WriteOptions \<Rightarrow> PolicyReport list \<Rightarrow>
     's polrState eop" where
  "polr_delete_items st namespace deleteValidation options [] w = (None, w)"
| "polr_delete_items st namespace deleteValidation options (polr # polrs) w =
     (case polrStore_Delete st namespace (Name polr) deleteValidation options w of
        (Inr (obj, isDeleted), w1) \<Rightarrow>
          if isDeleted then polr_delete_items st namespace deleteValidation options polrs w1
          else (Some (BadRequest (''Failed to delete policy report: '' @ Namespace polr @ ''/'' @ Name polr) None), w1)
      | (Inl err, w1) \<Rightarrow>
          (Some (unless_panic err (BadRequest (''Failed to delete policy report: '' @ Namespace polr @ ''/'' @ Name polr) None)), w1))"

definition polrStore_DeleteCollection ::
  "'s Storage \<Rightarrow> string \<Rightarrow> (Object \<Rightarrow> err option) \<Rightarrow> WriteOptions \<Rightarrow> ListOptions option \<Rightarrow>
     (Object, 's polrState) op" where
  "polrStore_DeleteCollection st namespace deleteValidation options listOptions w =
     (case polrStore_List st namespace listOptions w of
        (Inl err, w1) \<Rightarrow> (Inl (unless_panic err (BadRequest ''Failed to find policy reports'' None)), w1)
      | (Inr obj, w1) \<Rightarrow>
          (case as_PolicyReportList obj of
             None \<Rightarrow> (Inl (BadRequest ''Failed to parse policy reports'' None), w1)
           | Some polrList \<Rightarrow>
               if \<not> isDryRun options
               then (case polr_delete_items st namespace deleteValidation options (Items polrList) w1 of
                       (Some err, w2) \<Rightarrow> (Inl err, w2)
                     | (None, w2) \<Rightarrow> (Inr (PolicyReportListObj polrList), w2))
               else (Inr (PolicyReportListObj polrList), w1)))"

definition polrStore_Watch ::
  "'s Storage \<Rightarrow> string \<Rightarrow> ListOptions option \<Rightarrow> (PolicyReport watch_result, 's polrState) op" where
  "polrStore_Watch st namespace options w =
     (case options of
        None \<Rightarrow> (Inl nil_deref, w)
      | Some opt \<Rightarrow>
          if opt_ResourceVersion opt = [] \<or> opt_ResourceVersion opt = ''0'' then (Inr Watch, w)
          else case polrStore_List st namespace options w of
                 (Inl err, w1) \<Rightarrow> (Inl err, w1)
               | (Inr items, w1) \<Rightarrow>
                   (case as_PolicyReportList items of
                      None \<Rightarrow>
                        (Inl (Errorf ''failed to convert runtime object into policy report list'' None), w1)
                    | Some list \<Rightarrow>
                        (Inr (WatchWithPrefix (map (\<lambda>pol. (Added, pol)) (Items list))), w1)))"

definition polrStore_ConvertToTable :: "(int \<Rightarrow> string) \<Rightarrow> Object \<Rightarrow> Table" where
  "polrStore_ConvertToTable age object =
     (case object of
        PolicyReportObj t \<Rightarrow>
          addPolicyReportToTable age
            (zero_Table\<lparr>tab_ResourceVersion := ResourceVersion t, tab_SelfLink := SelfLink t\<rparr>) [t]
      | PolicyReportListObj t \<Rightarrow>
          addPolicyReportToTable age
            (zero_Table\<lparr>tab_ResourceVersion := list_ResourceVersion t,
               tab_SelfLink := list_SelfLink t, tab_Continue := list_Continue t\<rparr>) (Items t)
      | _ \<Rightarrow> zero_Table)"

subsection \<open>As an instance of the generic handlers\<close>

definition polr_desc :: "(string \<times> string, string, PolicyReport) kind_desc" where
  "polr_desc =
     \<lparr>as_r = as_PolicyReport, obj_of = PolicyReportObj, kd_gr = PolicyReportsGR,
      kd_key = (\<lambda>ns n. (ns, n)), kd_sel = (\<lambda>ns. ns), kd_namespaced = True, kd_gen = (\<lambda>_. 1),
      kd_wrap = Wrapf ''could not find policy report in store'',
      kd_list_err = BadRequest ''failed to list resource policyreport'' None,
      kd_bad_obj = BadRequest ''failed to validate policy report'' None,
      kd_no_name = Conflict PolicyReportsGR [] ''name and generate name not provided'',
      kd_create_err = (\<lambda>n err. AlreadyExists PolicyReportsGR n),
      kd_update_err = (\<lambda>err. BadRequest ''cannot create policy report: '' (Some err)),
      kd_delete_err = (\<lambda>err. BadRequest ''failed to delete policyreport: '' (Some err)),
      kd_coll_find = BadRequest ''Failed to find policy reports'' None,
      kd_coll_delete = (\<lambda>polr. BadRequest (''Failed to delete policy report: '' @ Namespace polr @ ''/'' @ Name polr) None)\<rparr>"

lemma polr_desc_simps [simp]:
  "as_r polr_desc = as_PolicyReport" "obj_of polr_desc = PolicyReportObj" "kd_gr polr_desc = PolicyReportsGR"
  "kd_key polr_desc = (\<lambda>ns n. (ns, n))" "kd_sel polr_desc = (\<lambda>ns. ns)" "kd_namespaced polr_desc = True"
  "kd_gen polr_desc = (\<lambda>_. 1)"
  "kd_wrap polr_desc = Wrapf ''could not find policy report in store''"
  "kd_list_err polr_desc = BadRequest ''failed to list resource policyreport'' None"
  "kd_bad_obj polr_desc = BadRequest ''failed to validate policy report'' None"
  "kd_no_name polr_desc = Conflict PolicyReportsGR [] ''name and generate name not provided''"
  "kd_create_err polr_desc n err = AlreadyExists PolicyReportsGR n"
  "kd_update_err polr_desc err = BadRequest ''cannot create policy report: '' (Some err)"
  "kd_delete_err polr_desc err = BadRequest ''failed to delete policyreport: '' (Some err)"
  "kd_coll_find polr_desc = BadRequest ''Failed to find policy reports'' None"
  "kd_coll_delete polr_desc polr = BadRequest (''Failed to delete policy report: '' @ Namespace polr @ ''/'' @ Name polr) None"
  by (simp_all add: polr_desc_def)

lemma as_polr_simps [simp]:
  "as_PolicyReport (PolicyReportObj r) = Some r" "as_PolicyReportList (PolicyReportListObj l) = Some l"
  "as_PolicyReport obj = Some r \<longleftrightarrow> obj = PolicyReportObj r"
  by (auto simp: as_PolicyReport_def as_PolicyReportList_def split: Object.split)

abbreviation polr_ops :: "'s Storage \<Rightarrow> ('s, string \<times> string, string, PolicyReport) ops" where
  "polr_ops st \<equiv> ns_ops (PolicyReports st)"

lemma polr_rest_kind:
  assumes "report_storage (polr_ops st) ns_key ns_sel canon lenient gk gq good vw iv"
  shows "rest_kind (polr_ops st) ns_key ns_sel canon lenient gk gq good vw iv polr_desc"
  using assms by (simp add: rest_kind_def rest_kind_axioms_def ns_key_def ns_sel_def)

lemma getPolr_eq: "getPolr st name namespace = rest_get polr_desc (polr_ops st) (namespace, name)"
  by (rule ext) (simp add: getPolr_def rest_get_def case_prod_unfold Let_def split: sum.split)

lemma listPolr_eq:
  "listPolr st namespace w = apfst (map_sum id (\<lambda>rs. zero_List\<lparr>Items := rs\<rparr>)) (rest_list polr_desc (polr_ops st) namespace w)"
  by (simp add: listPolr_def rest_list_def case_prod_unfold Let_def split: sum.split)

lemma createPolr_eq: "createPolr st = rest_create (polr_ops st)"
  by (intro ext) (simp add: createPolr_def rest_create_def)

lemma updatePolr_eq: "updatePolr st = rest_update (polr_ops st)"
  by (intro ext) (simp add: updatePolr_def rest_update_def)

lemma deletePolr_eq: "deletePolr st r = rest_delete (polr_ops st) (ns_key r)"
  by (rule ext) (simp add: deletePolr_def rest_delete_def ns_key_def)

lemmas polr_eqs = getPolr_eq listPolr_eq createPolr_eq updatePolr_eq deletePolr_eq

lemma polr_List_eq:
  "polrStore_List st namespace options w =
     apfst (map_sum id PolicyReportListObj) (rest_List polr_desc (polr_ops st) namespace options w)"
  by (cases options)
    (auto simp: polrStore_List_def rest_List_def polr_eqs desired_rv_def Let_def
      split: sum.split prod.split)

lemma polr_Get_eq: "polrStore_Get st namespace name = rest_Get polr_desc (polr_ops st) namespace name"
  unfolding polrStore_Get_def rest_Get_def polr_eqs polr_desc_simps by simp

lemma polr_admit_eq:
  "polr_admit e namespace r =
     (case rest_prepare polr_desc e namespace r of None \<Rightarrow> Inl (kd_no_name polr_desc) | Some r' \<Rightarrow> Inr r')"
  by (auto simp: polr_admit_def rest_prepare_def Let_def)

lemma polr_admit_Inr: "polr_admit e namespace r = Inr r' \<longleftrightarrow> rest_prepare polr_desc e namespace r = Some r'"
  by (simp add: polr_admit_eq split: option.split)

lemma polr_Create_eq: "polrStore_Create st e namespace = rest_Create polr_desc (polr_ops st) e namespace"
  unfolding polrStore_Create_def rest_Create_def polr_eqs polr_admit_eq polr_desc_simps
  by (intro ext) (simp split: option.split)

lemma polr_adjust_eq: "polr_adjust namespace = rest_adjust polr_desc namespace"
  by (intro ext) (simp add: polr_adjust_def rest_adjust_def Let_def)

lemma polr_Update_eq: "polrStore_Update st namespace = rest_Update polr_desc (polr_ops st) namespace"
  unfolding polrStore_Update_def rest_Update_def polr_eqs polr_adjust_eq polr_desc_simps by (intro ext) simp

lemma polr_Delete_eq: "polrStore_Delete st namespace = rest_Delete polr_desc (polr_ops st) ns_key namespace"
  unfolding polrStore_Delete_def rest_Delete_def polr_eqs polr_desc_simps by (intro ext) simp

lemma polr_delete_items_eq:
  "polr_delete_items st namespace val opts rs w =
     rest_delete_items polr_desc (polr_ops st) ns_key namespace val opts rs w"
proof (induction rs arbitrary: w)
  case (Cons polr rs)
  show ?case
    unfolding polr_delete_items.simps rest_delete_items.simps polr_Delete_eq polr_desc_simps Cons.IH
    by (rule refl)
qed simp

lemma polr_DeleteCollection_eq:
  "polrStore_DeleteCollection st namespace val opts lopts w =
     apfst (map_sum id PolicyReportListObj)
       (rest_DeleteCollection polr_desc (polr_ops st) ns_key namespace val opts lopts w)"
  by (auto simp: polrStore_DeleteCollection_def rest_DeleteCollection_def polr_List_eq polr_delete_items_eq
      split: sum.split prod.split option.split)

lemma polr_Watch_eq: "polrStore_Watch st namespace = rest_Watch polr_desc (polr_ops st) namespace"
  by (intro ext)
    (auto simp: polrStore_Watch_def rest_Watch_def polr_List_eq split: sum.split prod.split option.split)

subsection \<open>As a state machine\<close>

text \<open>
  One request with arguments that the storage contract speaks about; an update names the report it
  updates and is not forced, and a collection is deleted in a namespace.
\<close>

inductive polr_step ::
  "'s Storage \<Rightarrow> (string \<times> string \<Rightarrow> bool) \<Rightarrow> (string \<Rightarrow> bool) \<Rightarrow> (PolicyReport \<Rightarrow> bool) \<Rightarrow> 's polrState \<Rightarrow> 's polrState \<Rightarrow> bool"
  for st gk gq good where
  Get: "gk (namespace, n) \<Longrightarrow> polr_step st gk gq good w (snd (polrStore_Get st namespace n w))"
| List: "gq namespace \<Longrightarrow> polr_step st gk gq good w (snd (polrStore_List st namespace lopts w))"
| Watch: "gq namespace \<Longrightarrow> polr_step st gk gq good w (snd (polrStore_Watch st namespace lopts w))"
| Create: "(\<And>r0 r1. as_PolicyReport obj = Some r0 \<Longrightarrow> polr_admit e namespace r0 = Inr r1 \<Longrightarrow>
       good (stamped e (store_versioning w) r1)) \<Longrightarrow>
     polr_step st gk gq good w (snd (polrStore_Create st e namespace obj val opts w))"
| Update: "gk (namespace, n) \<Longrightarrow>
     (\<And>old r0. as_PolicyReport (fst (updatedObj old)) = Some r0 \<Longrightarrow>
       ns_key (polr_adjust namespace r0) = (namespace, n) \<and>
       good (restamped (store_versioning w) (polr_adjust namespace r0))) \<Longrightarrow>
     polr_step st gk gq good w (snd (polrStore_Update st namespace n updatedObj uval False opts w))"
| Delete: "gk (namespace, n) \<Longrightarrow> polr_step st gk gq good w (snd (polrStore_Delete st namespace n val opts w))"
| DeleteCollection: "gq namespace \<Longrightarrow> namespace \<noteq> [] \<Longrightarrow>
     polr_step st gk gq good w (snd (polrStore_DeleteCollection st namespace val opts lopts w))"

inductive_cases polr_step_cases: "polr_step st gk gq good w w'"

lemma polr_step_rest:
  assumes "polr_step st gk gq good w w'"
  shows "rest_step polr_desc (polr_ops st) ns_key gk gq good w w'"
  using assms
proof cases
  case (Get namespace n)
  then show ?thesis using StepGet [of gk polr_desc namespace n] by (simp add: polr_Get_eq)
next
  case (List namespace lopts)
  then show ?thesis using StepList [of gq polr_desc namespace] by (simp add: polr_List_eq)
next
  case (Watch namespace lopts)
  then show ?thesis using StepWatch [of gq polr_desc namespace] by (simp add: polr_Watch_eq)
next
  case (Create obj e namespace val opts)
  then show ?thesis using StepCreate [of polr_desc obj e namespace good w] by (simp add: polr_Create_eq polr_admit_Inr)
next
  case (Update namespace n updatedObj uval opts)
  then show ?thesis
    using StepUpdate [of gk polr_desc namespace n updatedObj ns_key good w]
    by (simp add: polr_Update_eq polr_adjust_eq)
next
  case (Delete namespace n val opts)
  then show ?thesis using StepDelete [of gk polr_desc namespace n] by (simp add: polr_Delete_eq)
next
  case (DeleteCollection namespace val opts lopts)
  then show ?thesis
    using StepDeleteCollection [of gq polr_desc namespace] by (simp add: polr_DeleteCollection_eq)
qed

lemma polr_history_rest:
  assumes "(polr_step st gk gq good)\<^sup>*\<^sup>* w w'"
  shows "(rest_step polr_desc (polr_ops st) ns_key gk gq good)\<^sup>*\<^sup>* w w'"
  using assms by (rule rtranclp_mono [THEN predicate2D, rotated]) (auto intro: polr_step_rest)

subsection \<open>Properties\<close>

text \<open>
  C7. A create request that passes validation, on any storage that meets the contract: under a free
  key the report, stamped with the next version, an identity and the time, is stored, returned and
  announced as Added; under a taken key the request answers AlreadyExists and neither the contents
  nor the log change. Either way one version is used up.
\<close>

theorem polr_create_stores:
  assumes "report_storage (polr_ops st) ns_key ns_sel canon lenient gk gq good vw iv"
    and "iv (store_db w)"
    and "strict_err (val (PolicyReportObj polr)) (FieldValidation opts) = None"
    and "polr_admit e namespace polr = Inr r1" and "\<not> isDryRun opts"
    and "r = stamped e (store_versioning w) r1" and "good r"
    and "polrStore_Create st e namespace (PolicyReportObj polr) val opts w = (x, w')"
  shows "(if vw (store_db w) (ns_key r) = None
      then x = Inr (PolicyReportObj r) \<and> vw (store_db w') = (vw (store_db w))(ns_key r \<mapsto> canon r) \<and>
           broadcast w' = broadcast w @ [(Added, r)]
      else x = Inl (AlreadyExists PolicyReportsGR (Name r)) \<and> vw (store_db w') = vw (store_db w) \<and>
           broadcast w' = broadcast w) \<and>
    iv (store_db w') \<and> store_versioning w' = bump (store_versioning w)"
  using rest_kind.Create_spec [OF polr_rest_kind [OF assms(1)] assms(2),
      of val "PolicyReportObj polr" opts polr e namespace r1 r x w'] assms(3-8)
  by (simp add: polr_Create_eq polr_admit_Inr stamped_def split: if_splits)

theorem polr_create_stores_witness:
  "list_view ns_key (store_db (snd (polrStore_Create polr_lists sample_env ''default''
       (PolicyReportObj (sample_polr\<lparr>Namespace := []\<rparr>)) accept sample_opts (sample_state [])))) =
     [(''default'', ''a'') \<mapsto>
        stamped sample_env \<lparr>version = 5\<rparr> (the (rest_prepare polr_desc sample_env ''default''
          (sample_polr\<lparr>Namespace := []\<rparr>)))]"
proof -
  let ?r = "sample_polr\<lparr>Namespace := []\<rparr>"
  obtain r1 where r1: "polr_admit sample_env ''default'' ?r = Inr r1"
    "rest_prepare polr_desc sample_env ''default'' ?r = Some r1"
    "Namespace r1 = ''default''" "Name r1 = ''a''"
    by (simp add: polr_admit_def rest_prepare_def Let_def)
  show ?thesis
    using polr_create_stores [OF lists_contract(1) _ _ r1(1) _ refl _ prod.collapse [symmetric],
        of "sample_state []" accept sample_opts] r1
    by (simp add: ns_key_def stamped_def sample_state_def)
qed

text \<open>
  C16. An update that is not forced and passes validation replaces the stored report by the computed
  one, with the served-by annotation, the next generation and the next version, returns it and
  announces it as Modified. When the computed report's own key is free, nothing is stored: a storage
  that refuses such updates makes the request fail, a lenient one (Postgres) makes it succeed and
  announce a change all the same.
\<close>

theorem polr_update_stores:
  assumes "report_storage (polr_ops st) ns_key ns_sel canon lenient gk gq good vw iv"
    and "iv (store_db w)" and "gk (namespace, n)" and "vw (store_db w) (namespace, n) = Some old"
    and "updatedObj (Some old) = (PolicyReportObj r0, None)"
    and "strict_err (uval (PolicyReportObj r0) (Some old)) (FieldValidation opts) = None"
    and "\<not> isDryRun opts" and "r = restamped (store_versioning w) (polr_adjust namespace r0)"
    and "good r"
    and "polrStore_Update st namespace n updatedObj uval False opts w = (x, w')"
  shows "(if vw (store_db w) (ns_key r) \<noteq> None
      then x = Inr (PolicyReportObj r, True) \<and> vw (store_db w') = (vw (store_db w))(ns_key r \<mapsto> canon r) \<and>
           broadcast w' = broadcast w @ [(Modified, r)]
      else vw (store_db w') = vw (store_db w) \<and>
           (if lenient then x = Inr (PolicyReportObj r, True) \<and> broadcast w' = broadcast w @ [(Modified, r)]
            else isl x \<and> broadcast w' = broadcast w)) \<and>
    served_by r \<and> Generation r = Generation r0 + 1 \<and>
    iv (store_db w') \<and> store_versioning w' = bump (store_versioning w)"
proof -
  have "served_by r \<and> Generation r = Generation r0 + 1"
    using assms(8) by (simp add: restamped_def polr_adjust_def served_by_def labelReports_def Let_def)
  then show ?thesis
    using rest_kind.Update_spec [OF polr_rest_kind [OF assms(1)] assms(2),
        of namespace n old updatedObj "PolicyReportObj r0" r0 uval opts r x w'] assms(3-10)
    by (auto simp: polr_Update_eq polr_adjust_eq split: if_splits)
qed

theorem polr_update_stores_witness:
  "broadcast (snd (polrStore_Update polr_lists ''default'' ''a''
       (\<lambda>old. (PolicyReportObj sample_polr, None)) accept_update False sample_opts
       (sample_state [sample_polr]))) =
     [(Modified, restamped \<lparr>version = 5\<rparr> (polr_adjust ''default'' sample_polr))]"
  using polr_update_stores [OF lists_contract(1) _ _ _ _ _ _ refl _ prod.collapse [symmetric],
      of "sample_state [sample_polr]" "''default''" "''a''" sample_polr
        "\<lambda>old. (PolicyReportObj sample_polr, None)" sample_polr accept_update sample_opts]
  by (simp add: ns_key_def restamped_def polr_adjust_def sample_state_def)

text \<open>
  C31. A forced update always reports success and announces a Modified event, but it never creates:
  where nothing is stored under the report's key the contents stay as they are. It takes no notice
  of validation or of a dry run, and adds neither the annotation nor a generation.
\<close>

theorem polr_forced_update:
  assumes "report_storage (polr_ops st) ns_key ns_sel canon lenient gk gq good vw iv"
    and "iv (store_db w)" and "gk (namespace, n)"
    and "fst (updatedObj (vw (store_db w) (namespace, n))) = PolicyReportObj r0"
    and "r = restamped (store_versioning w) r0" and "good r"
    and "polrStore_Update st namespace n updatedObj uval True opts w = (x, w')"
  shows "x = Inr (PolicyReportObj r, True) \<and> broadcast w' = broadcast w @ [(Modified, r)] \<and>
    vw (store_db w') = (if vw (store_db w) (ns_key r) = None then vw (store_db w)
                        else (vw (store_db w))(ns_key r \<mapsto> canon r)) \<and>
    iv (store_db w') \<and> store_versioning w' = bump (store_versioning w)"
  using rest_kind.Update_forced [OF polr_rest_kind [OF assms(1)] assms(2),
      of namespace n updatedObj r0 r uval opts x w'] assms(3-7)
  by (simp add: polr_Update_eq)

theorem polr_forced_update_witness:
  "broadcast (snd (polrStore_Update polr_lists ''default'' ''a''
       (\<lambda>old. (PolicyReportObj sample_polr, None)) accept_update True dry_opts (sample_state []))) \<noteq> [] \<and>
   list_view ns_key (store_db (snd (polrStore_Update polr_lists ''default'' ''a''
       (\<lambda>old. (PolicyReportObj sample_polr, None)) accept_update True dry_opts (sample_state [])))) =
     Map.empty"
  using polr_forced_update [OF lists_contract(1) _ _ _ refl _ prod.collapse [symmetric],
      where w = "sample_state []" and namespace = "''default''" and n = "''a''"
        and updatedObj = "\<lambda>old. (PolicyReportObj sample_polr, None)" and ?r0.0 = sample_polr
        and uval = accept_update and opts = dry_opts]
  by simp

text \<open>
  C17. Deletion by name: a missing report answers NotFound, a report that fails validation
  BadRequest, both without effect; otherwise the report is returned and, unless it is a dry run,
  removed and announced as Deleted.
\<close>

theorem polr_delete_removes:
  assumes "report_storage (polr_ops st) ns_key ns_sel canon lenient gk gq good vw iv"
    and "iv (store_db w)" and "gk (namespace, n)"
    and "polrStore_Delete st namespace n val opts w = (x, w')"
  shows "case vw (store_db w) (namespace, n) of
      None \<Rightarrow> x = Inl (NotFound PolicyReportsGR n) \<and> quiet vw iv w w'
    | Some r \<Rightarrow>
        (case val (PolicyReportObj r) of
           Some err \<Rightarrow> x = Inl (BadRequest ''invalid resource: '' (Some err)) \<and> quiet vw iv w w'
         | None \<Rightarrow> x = Inr (PolicyReportObj r, True) \<and>
             (if isDryRun opts then quiet vw iv w w'
              else vw (store_db w') = (vw (store_db w))((namespace, n) := None) \<and>
                   broadcast w' = broadcast w @ [(Deleted, r)] \<and> iv (store_db w') \<and>
                   store_versioning w' = store_versioning w))"
  using rest_kind.Delete_spec [OF polr_rest_kind [OF assms(1)] assms(2), unfolded polr_desc_simps,
      of namespace n val opts x w'] assms(3,4)
  by (simp add: polr_Delete_eq)

theorem polr_delete_removes_witness:
  "broadcast (snd (polrStore_Delete polr_lists ''default'' ''a'' accept sample_opts
       (sample_state [sample_polr]))) = [(Deleted, sample_polr)]"
  using polr_delete_removes [OF lists_contract(1) _ _ prod.collapse [symmetric],
      of "sample_state [sample_polr]" "''default''" "''a''" accept sample_opts]
  by (simp add: ns_key_def)

text \<open>
  C18. Reading: Get returns just the stored report of that namespace and name, and List just the
  stored reports of the namespace (of all namespaces if there is none) that the label selector
  accepts, each once; both change nothing.
\<close>

theorem polr_reads:
  assumes "report_storage (polr_ops st) ns_key ns_sel canon lenient gk gq good vw iv"
    and "iv (store_db w)" and "gk (namespace, n)" and "gq namespace"
    and "desired_rv (opt_ResourceVersion opt) = Inr v"
  shows "fst (polrStore_Get st namespace n w) =
      (case vw (store_db w) (namespace, n) of
         None \<Rightarrow> Inl (NotFound PolicyReportsGR n) | Some r \<Rightarrow> Inr (PolicyReportObj r)) \<and>
    (\<exists>ks. distinct ks \<and>
      set ks = {k. \<exists>r. vw (store_db w) k = Some r \<and> (namespace = [] \<or> fst k = namespace) \<and>
                       selected (LabelSelector opt) r} \<and>
      fst (polrStore_List st namespace (Some opt) w) =
        Inr (PolicyReportListObj (zero_List\<lparr>list_ResourceVersion := ''1'',
          Items := map (\<lambda>k. the (vw (store_db w) k)) ks\<rparr>))) \<and>
    quiet vw iv w (snd (polrStore_Get st namespace n w)) \<and>
    quiet vw iv w (snd (polrStore_List st namespace (Some opt) w))"
  using rest_kind.Get_spec [OF polr_rest_kind [OF assms(1)] assms(2), unfolded polr_desc_simps, of namespace n]
    rest_kind.List_spec [OF polr_rest_kind [OF assms(1)] assms(2), unfolded polr_desc_simps,
      of namespace opt v] assms(3-5)
  by (auto simp: polr_Get_eq polr_List_eq ns_sel_def)

theorem polr_reads_witness:
  "fst (polrStore_Get polr_lists ''default'' ''a'' (sample_state [sample_polr])) =
     Inr (PolicyReportObj sample_polr) \<and>
   fst (polrStore_Get polr_lists ''kube'' ''a'' (sample_state [sample_polr])) =
     Inl (NotFound PolicyReportsGR ''a'')"
  using polr_reads [OF lists_contract(1), where w = "sample_state [sample_polr]"
      and namespace = "''default''" and n = "''a''" and opt = sample_lopts]
    polr_reads [OF lists_contract(1), where w = "sample_state [sample_polr]"
      and namespace = "''kube''" and n = "''a''" and opt = sample_lopts]
  by (simp add: ns_key_def desired_rv_def num_eval)

text \<open>
  C19. Deleting the collection of a namespace, when validation accepts: the listed reports are
  returned and gone, every other report stays, and each deletion is announced once.
\<close>

theorem polr_delete_collection:
  assumes "report_storage (polr_ops st) ns_key ns_sel canon lenient gk gq good vw iv"
    and "iv (store_db w)" and "gq namespace" and "namespace \<noteq> []"
    and "desired_rv (opt_ResourceVersion opt) = Inr v" and "\<not> isDryRun opts"
    and "\<And>r. val (PolicyReportObj r) = None"
    and "polrStore_DeleteCollection st namespace val opts (Some opt) w = (x, w')"
  shows "\<exists>l. x = Inr (PolicyReportListObj l) \<and>
    fst (polrStore_List st namespace (Some opt) w) = Inr (PolicyReportListObj l) \<and>
    broadcast w' = broadcast w @ map (Pair Deleted) (Items l) \<and> iv (store_db w') \<and>
    vw (store_db w') =
      (\<lambda>k. case vw (store_db w) k of
             None \<Rightarrow> None
           | Some r \<Rightarrow> if fst k = namespace \<and> selected (LabelSelector opt) r then None else Some r)"
proof -
  obtain y where y: "rest_DeleteCollection polr_desc (polr_ops st) ns_key namespace val opts (Some opt) w =
      (y, w')" "x = map_sum id PolicyReportListObj y"
    using assms(8) by (cases "rest_DeleteCollection polr_desc (polr_ops st) ns_key namespace val opts (Some opt) w")
      (simp add: polr_DeleteCollection_eq)
  from rest_kind.DeleteCollection_spec [OF polr_rest_kind [OF assms(1)] assms(2) _ _ assms(5,6) _ y(1),
      unfolded polr_desc_simps ns_sel_def] assms(3,4,7) y(2)
  show ?thesis by (auto simp: polr_List_eq cong: option.case_cong)
qed

theorem polr_delete_collection_witness:
  "list_view ns_key (store_db (snd (polrStore_DeleteCollection polr_lists ''default'' accept sample_opts
       (Some sample_lopts) (sample_state [sample_polr])))) = Map.empty"
proof -
  have "desired_rv (opt_ResourceVersion sample_lopts) = Inr 1" by (simp add: desired_rv_def num_eval)
  from polr_delete_collection [OF lists_contract(1) _ _ _ this _ _ prod.collapse [symmetric],
      where w = "sample_state [sample_polr]" and namespace = "''default''" and opts = sample_opts
        and val = accept]
  have "list_view ns_key (store_db (snd (polrStore_DeleteCollection polr_lists ''default'' accept
      sample_opts (Some sample_lopts) (sample_state [sample_polr])))) =
    (\<lambda>k. case list_view ns_key [sample_polr] k of
           None \<Rightarrow> None
         | Some r \<Rightarrow> if fst k = ''default'' \<and> selected (LabelSelector sample_lopts) r then None else Some r)"
    by auto
  then show ?thesis by (simp only: list_view_small ns_key_def) (auto simp: selected_def)
qed

text \<open>
  C20. A watch that resumes from a version is sent, first of all, events which rebuild the selected
  part of the storage; a watch from the empty version or from "0" starts without them.
\<close>

theorem polr_watch_prefix:
  assumes "report_storage (polr_ops st) ns_key ns_sel canon lenient gk gq good vw iv"
    and "iv (store_db w)" and "gq namespace" and "desired_rv (opt_ResourceVersion opt) = Inr v"
  shows "if opt_ResourceVersion opt = [] \<or> opt_ResourceVersion opt = ''0''
    then polrStore_Watch st namespace (Some opt) w = (Inr Watch, w)
    else \<exists>evs. fst (polrStore_Watch st namespace (Some opt) w) = Inr (WatchWithPrefix evs) \<and>
      fold (apply_event ns_key id) evs Map.empty =
        (\<lambda>k. case vw (store_db w) k of
               None \<Rightarrow> None
             | Some r \<Rightarrow> if (namespace = [] \<or> fst k = namespace) \<and> selected (LabelSelector opt) r
                         then Some r else None)"
proof (cases "opt_ResourceVersion opt = [] \<or> opt_ResourceVersion opt = ''0''")
  case True
  then show ?thesis by (auto simp: polrStore_Watch_def)
next
  case False
  then show ?thesis
    using rest_kind.Watch_spec [OF polr_rest_kind [OF assms(1)] assms(2),
        unfolded polr_desc_simps ns_sel_def, of namespace opt v] assms(3,4)
    by (simp add: polr_Watch_eq)
qed

theorem polr_watch_prefix_witness:
  "\<exists>evs. fst (polrStore_Watch polr_lists [] (Some sample_lopts) (sample_state [sample_polr])) =
     Inr (WatchWithPrefix evs) \<and>
   fold (apply_event ns_key id) evs Map.empty = [(''default'', ''a'') \<mapsto> sample_polr]"
proof -
  have rv: "desired_rv (opt_ResourceVersion sample_lopts) = Inr 1" by (simp add: desired_rv_def num_eval)
  have "(\<lambda>k. case list_view ns_key [sample_polr] k of None \<Rightarrow> None
      | Some r \<Rightarrow> if ([] = ([] :: string) \<or> fst k = []) \<and> selected (LabelSelector sample_lopts) r then Some r else None) =
    [(''default'', ''a'') \<mapsto> sample_polr]"
    by (simp only: list_view_small ns_key_def) (auto simp: selected_def)
  with polr_watch_prefix [OF lists_contract(1) _ _ rv, where w = "sample_state [sample_polr]"
      and namespace = "[]"]
  show ?thesis by simp
qed



text \<open>
  Whatever requests a client makes, in whatever order, the events broadcast on the way, replayed
  on the contents at the start, give the contents at the end: a watcher that misses no event knows
  the storage. The storage stays sound throughout.
\<close>

lemma polr_events_replay:
  assumes "report_storage (polr_ops st) ns_key ns_sel canon lenient gk gq good vw iv"
    and "iv (store_db w)" and "(polr_step st gk gq good)\<^sup>*\<^sup>* w w'"
  shows "iv (store_db w') \<and>
    (\<exists>evs. broadcast w' = broadcast w @ evs \<and>
           vw (store_db w') = fold (apply_event ns_key canon) evs (vw (store_db w)))"
  using rest_kind.history_tracks [OF polr_rest_kind [OF assms(1)] polr_history_rest [OF assms(3)] assms(2)]
  by (simp add: tracks_def)

text \<open>
  If every stored report carries the served-by annotation at the start, every stored report
  does after any history of requests, provided writing and reading back keeps annotations.
\<close>

lemma polr_all_served:
  assumes "report_storage (polr_ops st) ns_key ns_sel canon lenient gk gq good vw iv"
    and "iv (store_db w)" and "(polr_step st gk gq good)\<^sup>*\<^sup>* w w'" and "meta_kept good canon"
    and "all_served vw w"
  shows "all_served vw w'"
  by (rule rest_kind.history_served [OF polr_rest_kind [OF assms(1)] polr_history_rest [OF assms(3)]
        assms(2,4,5)])

lemma sample_kept: "meta_kept good id"
  by (simp add: meta_kept_def)

text \<open>
  No two stored reports carry the same resource version, and every version is below the
  counter, after any history of requests that does not run the counter over.
\<close>

lemma polr_versions_distinct:
  assumes "report_storage (polr_ops st) ns_key ns_sel canon lenient gk gq good vw iv"
    and "iv (store_db w)"
    and "(\<lambda>x y. polr_step st gk gq good x y \<and> version (store_versioning x) \<noteq> -1)\<^sup>*\<^sup>* w w'"
    and "meta_kept good canon" and "versions_fresh vw w"
  shows "versions_fresh vw w'"
proof -
  have "(\<lambda>x y. rest_step polr_desc (polr_ops st) ns_key gk gq good x y \<and>
      version (store_versioning x) \<noteq> -1)\<^sup>*\<^sup>* w w'"
    using assms(3) by (rule rtranclp_mono [THEN predicate2D, rotated]) (auto intro: polr_step_rest)
  from rest_kind.history_versions [OF polr_rest_kind [OF assms(1)] this assms(2,4,5)] show ?thesis
    by simp
qed

end
