(* ===== verification/ApiCpolr.thy ===== *)
theory ApiCpolr
  imports RestTraces ApiTable SampleStore
begin

section \<open>The REST store of cluster policy reports\<close>

text \<open>
  \<^verbatim>\<open>pkg/api/cpolr.go\<close>, method by method. \<open>st\<close> is the storage the store was made with; the namespace is the
  one of the request context. Log lines are left out. The last part of the theory identifies the
  store with the generic handlers and states it as a step relation.
\<close>

type_synonym 's cpolrState = "('s, ClusterPolicyReport) rest_state"

definition as_ClusterPolicyReport :: "Object \<Rightarrow> ClusterPolicyReport option" where
  "as_ClusterPolicyReport obj = (case obj of ClusterPolicyReportObj r \<Rightarrow> Some r | _ \<Rightarrow> None)"

definition as_ClusterPolicyReportList :: "Object \<Rightarrow> ClusterPolicyReport ReportList option" where
  "as_ClusterPolicyReportList obj = (case obj of ClusterPolicyReportListObj l \<Rightarrow> Some l | _ \<Rightarrow> None)"

definition ClusterPolicyReportStore :: "'s \<Rightarrow> resourceVersion \<Rightarrow> 's cpolrState" where
  "ClusterPolicyReportStore s v = \<lparr>store_db = s, store_versioning = v, broadcast = []\<rparr>"

definition cpolrStore_New :: Object where
  "cpolrStore_New = ClusterPolicyReportObj zero_PolicyReport"

definition cpolrStore_NewList :: Object where
  "cpolrStore_NewList = ClusterPolicyReportListObj zero_List"

definition cpolrStore_Kind :: string where
  "cpolrStore_Kind = ''ClusterPolicyReport''"

definition cpolrStore_NamespaceScoped :: bool where
  "cpolrStore_NamespaceScoped = False"

definition cpolrStore_GetSingularName :: string where
  "cpolrStore_GetSingularName = ''clusterpolicyreport''"

definition cpolrStore_ShortNames :: "string list" where
  "cpolrStore_ShortNames = [''cpolr'']"

subsection \<open>Storage access\<close>

definition getCpolr :: "'s Storage \<Rightarrow> string \<Rightarrow> (ClusterPolicyReport option, 's cpolrState) op" where
  "getCpolr st name w =
     (case cGet (ClusterPolicyReports st) name (store_db w) of
        (Inl err, s) \<Rightarrow> (Inl (Wrapf ''could not find cluster policy report in store'' err), w\<lparr>store_db := s\<rparr>)
      | (Inr val, s) \<Rightarrow> (Inr val, w\<lparr>store_db := s\<rparr>))"

definition listCpolr :: "'s Storage \<Rightarrow> (ClusterPolicyReport ReportList, 's cpolrState) op" where
  "listCpolr st w =
     (case cList (ClusterPolicyReports st) (store_db w) of
        (Inl err, s) \<Rightarrow> (Inl (Wrapf ''could not find cluster policy report in store'' err), w\<lparr>store_db := s\<rparr>)
      | (Inr valList, s) \<Rightarrow>
          (case deref_all valList of
             Inl panic \<Rightarrow> (Inl panic, w\<lparr>store_db := s\<rparr>)
           | Inr items \<Rightarrow> (Inr (zero_List\<lparr>Items := items\<rparr>), w\<lparr>store_db := s\<rparr>)))"

definition createCpolr ::
  "'s Storage \<Rightarrow> request_env \<Rightarrow> ClusterPolicyReport \<Rightarrow> 's cpolrState \<Rightarrow> (ClusterPolicyReport \<times> err option) \<times> 's cpolrState" where
  "createCpolr st e report w =
     (let (rv, v) = UseResourceVersion (store_versioning w);
          r = report\<lparr>ResourceVersion := rv, UID := NewUUID e, CreationTimestamp := Now e\<rparr>;
          (err, s) = cCreate (ClusterPolicyReports st) (Some r) (store_db w)
      in ((r, err), w\<lparr>store_db := s, store_versioning := v\<rparr>))"

definition updateCpolr ::
  "'s Storage \<Rightarrow> ClusterPolicyReport \<Rightarrow> 's cpolrState \<Rightarrow> (ClusterPolicyReport \<times> err option) \<times> 's cpolrState" where
  "updateCpolr st report w =
     (let (rv, v) = UseResourceVersion (store_versioning w);
          r = report\<lparr>ResourceVersion := rv\<rparr>;
          (err, s) = cUpdate (ClusterPolicyReports st) (Some r) (store_db w)
      in ((r, err), w\<lparr>store_db := s, store_versioning := v\<rparr>))"

definition deleteCpolr :: "'s Storage \<Rightarrow> ClusterPolicyReport \<Rightarrow> 's cpolrState eop" where
  "deleteCpolr st report w =
     (let (err, s) = cDelete (ClusterPolicyReports st) (Name report) (store_db w) in (err, w\<lparr>store_db := s\<rparr>))"

subsection \<open>Handlers\<close>

definition cpolrStore_List ::
  "'s Storage \<Rightarrow> ListOptions option \<Rightarrow> (Object, 's cpolrState) op" where
  "cpolrStore_List st options w =
     (let labelSelector = (case options of None \<Rightarrow> None | Some opt \<Rightarrow> LabelSelector opt)
      in case listCpolr st w of
           (Inl err, w1) \<Rightarrow>
             (Inl (unless_panic err (BadRequest ''failed to list resource clusterpolicyreport'' None)), w1)
         | (Inr list, w1) \<Rightarrow>
             (case options of
                None \<Rightarrow> (Inl nil_deref, w1)
              | Some opt \<Rightarrow>
                  (case (if length (opt_ResourceVersion opt) = 0 then Inr 1
                         else case ParseUint (opt_ResourceVersion opt) of
                                Inl e \<Rightarrow> Inl (NumError e (opt_ResourceVersion opt))
                              | Inr n \<Rightarrow> Inr n) of
                     Inl err \<Rightarrow> (Inl err, w1)
                   | Inr desiredRv \<Rightarrow>
                       (case filter_items labelSelector desiredRv (ResourceVersionMatch opt)
                               (Items list) 1 [] of
                          Inl err \<Rightarrow> (Inl err, w1)
                        | Inr (resourceVersion, items) \<Rightarrow>
                            (Inr (ClusterPolicyReportListObj (zero_List\<lparr>Items := items,
                               list_ResourceVersion := FormatUint resourceVersion\<rparr>)), w1)))))"

definition cpolrStore_Get :: "'s Storage \<Rightarrow> string \<Rightarrow> (Object, 's cpolrState) op" where
  "cpolrStore_Get st name w =
     (case getCpolr st name w of
        (Inr (Some report), w1) \<Rightarrow> (Inr (ClusterPolicyReportObj report), w1)
      | (_, w1) \<Rightarrow> (Inl (NotFound ClusterPolicyReportsGR name), w1))"

text \<open>What \<open>Create\<close> fills in before it writes the report.\<close>

definition cpolr_admit :: "request_env \<Rightarrow> ClusterPolicyReport \<Rightarrow> err + ClusterPolicyReport" where
  "cpolr_admit e cpolr =
     (if Name cpolr = [] \<and> GenerateName cpolr = []
      then Inl (AlreadyExists ClusterPolicyReportsGR (Name cpolr))
      else (let cpolr1 = (if Name cpolr = [] then cpolr\<lparr>Name := genName e (GenerateName cpolr)\<rparr> else cpolr)
            in Inr (cpolr1\<lparr>Annotations := labelReports (Annotations cpolr1), Generation := 1\<rparr>)))"

definition cpolrStore_Create ::
  "'s Storage \<Rightarrow> request_env \<Rightarrow> Object \<Rightarrow> (Object \<Rightarrow> err option) \<Rightarrow> WriteOptions \<Rightarrow>
     (Object, 's cpolrState) op" where
  "cpolrStore_Create st e obj createValidation options w =
     (case strict_err (createValidation obj) (FieldValidation options) of
        Some err \<Rightarrow> (Inl err, w)
      | None \<Rightarrow>
          (case as_ClusterPolicyReport obj of
             None \<Rightarrow> (Inl (BadRequest ''failed to validate cluster policy report'' None), w)
           | Some cpolr \<Rightarrow>
               (case cpolr_admit e cpolr of
                  Inl err \<Rightarrow> (Inl err, w)
                | Inr cpolr' \<Rightarrow>
                    if \<not> isDryRun options
                    then (case createCpolr st e cpolr' w of
                            ((r, Some err), w1) \<Rightarrow> (Inl (BadRequest ''cannot create cluster policy report: '' (Some err)), w1)
                          | ((r, None), w1) \<Rightarrow> (Inr (ClusterPolicyReportObj r), Action Added r w1))
                    else (Inr (ClusterPolicyReportObj cpolr'), w))))"

text \<open>What \<open>Update\<close> does to the report before it is written.\<close>

definition cpolr_adjust :: "ClusterPolicyReport \<Rightarrow> ClusterPolicyReport" where
  "cpolr_adjust cpolr =
     cpolr\<lparr>Annotations := labelReports (Annotations cpolr), Generation := Generation cpolr + 1\<rparr>"

definition cpolrStore_Update ::
  "'s Storage \<Rightarrow> string \<Rightarrow> (ClusterPolicyReport option \<Rightarrow> Object \<times> err option) \<Rightarrow>
     (Object \<Rightarrow> ClusterPolicyReport option \<Rightarrow> err option) \<Rightarrow> bool \<Rightarrow> WriteOptions \<Rightarrow>
     (Object \<times> bool, 's cpolrState) op" where
  "cpolrStore_Update st name updatedObj updateValidation forceAllowCreate options w =
     (let (got, w1) = getCpolr st name w;
          oldObj = (case got of Inl err \<Rightarrow> None | Inr val \<Rightarrow> val);
          (updatedObject, uerr) = updatedObj oldObj
      in if isl got \<and> \<not> forceAllowCreate then (Inl (projl got), w1)
         else if uerr \<noteq> None \<and> \<not> forceAllowCreate then (Inl (the uerr), w1)
         else case as_ClusterPolicyReport updatedObject of
                None \<Rightarrow> (Inl (Panic ''interface conversion''), w1)
              | Some cpolr \<Rightarrow>
                  if forceAllowCreate
                  then (let ((r, err), w2) = updateCpolr st cpolr w1
                        in (Inr (ClusterPolicyReportObj r, True), Action Modified r w2))
                  else (case strict_err (updateValidation updatedObject oldObj) (FieldValidation options) of
                          Some err \<Rightarrow> (Inl err, w1)
                        | None \<Rightarrow>
                            (let cpolr' = cpolr_adjust cpolr
                             in if \<not> isDryRun options
                                then (case updateCpolr st cpolr' w1 of
                                        ((r, Some err), w2) \<Rightarrow>
                                          (Inl (BadRequest ''cannot create cluster policy report: '' (Some err)), w2)
                                      | ((r, None), w2) \<Rightarrow>
                                          (Inr (ClusterPolicyReportObj r, True), Action Modified r w2))
                                else (Inr (ClusterPolicyReportObj cpolr', True), w1))))"

definition cpolrStore_Delete ::
  "'s Storage \<Rightarrow> string \<Rightarrow> (Object \<Rightarrow> err option) \<Rightarrow> WriteOptions \<Rightarrow>
     (Object \<times> bool, 's cpolrState) op" where
  "cpolrStore_Delete st name deleteValidation options w =
     (case getCpolr st name w of
        (Inl err, w1) \<Rightarrow> (Inl (NotFound ClusterPolicyReportsGR name), w1)
      | (Inr val, w1) \<Rightarrow>
          (case deleteValidation (case val of None \<Rightarrow> NilObject | Some r \<Rightarrow> ClusterPolicyReportObj r) of
             Some err \<Rightarrow> (Inl (BadRequest ''invalid resource: '' (Some err)), w1)
           | None \<Rightarrow>
               (case val of
                  None \<Rightarrow> (Inl nil_deref, w1)
                | Some cpolr \<Rightarrow>
                    if \<not> isDryRun options
                    then (case deleteCpolr st cpolr w1 of
                            (Some err, w2) \<Rightarrow>
                              (Inl (BadRequest ''failed to delete clusterpolicyreport: '' (Some err)), w2)
                          | (None, w2) \<Rightarrow> (Inr (ClusterPolicyReportObj cpolr, True), Action Deleted cpolr w2))
                    else (Inr (ClusterPolicyReportObj cpolr, True), w1))))"

fun cpolr_delete_items ::
  "'s Storage \<Rightarrow> (Object \<Rightarrow> err option) \<Rightarrow> WriteOptions \<Rightarrow> ClusterPolicyReport list \<Rightarrow>
     's cpolrState eop" where
  "cpolr_delete_items st deleteValidation options [] w = (None, w)"
| "cpolr_delete_items st deleteValidation options (cpolr # cpolrs) w =
     (case cpolrStore_Delete st (Name cpolr) deleteValidation options w of
        (Inr (obj, isDeleted), w1) \<Rightarrow>
          if isDeleted then cpolr_delete_items st deleteValidation options cpolrs w1
          else (Some (BadRequest (''Failed to delete cluster policy report: '' @ Name cpolr) None), w1)
      | (Inl err, w1) \<Rightarrow>
          (Some (unless_panic err (BadRequest (''Failed to delete cluster policy report: '' @ Name cpolr) None)), w1))"

definition cpolrStore_DeleteCollection ::
  "'s Storage \<Rightarrow> (Object \<Rightarrow> err option) \<Rightarrow> WriteOptions \<Rightarrow> ListOptions option \<Rightarrow>
     (Object, 's cpolrState) op" where
  "cpolrStore_DeleteCollection st deleteValidation options listOptions w =
     (case cpolrStore_List st listOptions w of
        (Inl err, w1) \<Rightarrow> (Inl (unless_panic err (BadRequest ''Failed to find cluster policy reports'' None)), w1)
      | (Inr obj, w1) \<Rightarrow>
          (case as_ClusterPolicyReportList obj of
             None \<Rightarrow> (Inl (BadRequest ''Failed to parse cluster policy reports'' None), w1)
           | Some cpolrList \<Rightarrow>
               if \<not> isDryRun options
               then (case cpolr_delete_items st deleteValidation options (Items cpolrList) w1 of
                       (Some err, w2) \<Rightarrow> (Inl err, w2)
                     | (None, w2) \<Rightarrow> (Inr (ClusterPolicyReportListObj cpolrList), w2))
               else (Inr (ClusterPolicyReportListObj cpolrList), w1)))"

definition cpolrStore_Watch ::
  "'s Storage \<Rightarrow> ListOptions option \<Rightarrow> (ClusterPolicyReport watch_result, 's cpolrState) op" where
  "cpolrStore_Watch st options w =
     (case options of
        None \<Rightarrow> (Inl nil_deref, w)
      | Some opt \<Rightarrow>
          if opt_ResourceVersion opt = [] \<or> opt_ResourceVersion opt = ''0'' then (Inr Watch, w)
          else case cpolrStore_List st options w of
                 (Inl err, w1) \<Rightarrow> (Inl err, w1)
               | (Inr items, w1) \<Rightarrow>
                   (case as_ClusterPolicyReportList items of
                      None \<Rightarrow>
                        (Inl (Errorf ''failed to convert runtime object into cluster policy report list'' None), w1)
                    | Some list \<Rightarrow>
                        (Inr (WatchWithPrefix (map (\<lambda>pol. (Added, pol)) (Items list))), w1)))"

definition cpolrStore_ConvertToTable :: "(int \<Rightarrow> string) \<Rightarrow> Object \<Rightarrow> Table" where
  "cpolrStore_ConvertToTable age object =
     (case object of
        ClusterPolicyReportObj t \<Rightarrow>
          addClusterPolicyReportToTable age
            (zero_Table\<lparr>tab_ResourceVersion := ResourceVersion t, tab_SelfLink := SelfLink t\<rparr>) [t]
      | ClusterPolicyReportListObj t \<Rightarrow>
          addClusterPolicyReportToTable age
            (zero_Table\<lparr>tab_ResourceVersion := list_ResourceVersion t,
               tab_SelfLink := list_SelfLink t, tab_Continue := list_Continue t\<rparr>) (Items t)
      | _ \<Rightarrow> zero_Table)"

subsection \<open>As an instance of the generic handlers\<close>

definition cpolr_desc :: "(string, unit, ClusterPolicyReport) kind_desc" where
  "cpolr_desc =
     \<lparr>as_r = as_ClusterPolicyReport, obj_of = ClusterPolicyReportObj, kd_gr = ClusterPolicyReportsGR,
      kd_key = (\<lambda>_ n. n), kd_sel = (\<lambda>_. ()), kd_namespaced = False, kd_gen = (\<lambda>_. 1),
      kd_wrap = Wrapf ''could not find cluster policy report in store'',
      kd_list_err = BadRequest ''failed to list resource clusterpolicyreport'' None,
      kd_bad_obj = BadRequest ''failed to validate cluster policy report'' None,
      kd_no_name = AlreadyExists ClusterPolicyReportsGR [],
      kd_create_err = (\<lambda>n err. BadRequest ''cannot create cluster policy report: '' (Some err)),
      kd_update_err = (\<lambda>err. BadRequest ''cannot create cluster policy report: '' (Some err)),
      kd_delete_err = (\<lambda>err. BadRequest ''failed to delete clusterpolicyreport: '' (Some err)),
      kd_coll_find = BadRequest ''Failed to find cluster policy reports'' None,
      kd_coll_delete = (\<lambda>cpolr. BadRequest (''Failed to delete cluster policy report: '' @ Name cpolr) None)\<rparr>"

lemma cpolr_desc_simps [simp]:
  "as_r cpolr_desc = as_ClusterPolicyReport" "obj_of cpolr_desc = ClusterPolicyReportObj" "kd_gr cpolr_desc = ClusterPolicyReportsGR"
  "kd_key cpolr_desc = (\<lambda>_ n. n)" "kd_sel cpolr_desc = (\<lambda>_. ())" "kd_namespaced cpolr_desc = False"
  "kd_gen cpolr_desc = (\<lambda>_. 1)"
  "kd_wrap cpolr_desc = Wrapf ''could not find cluster policy report in store''"
  "kd_list_err cpolr_desc = BadRequest ''failed to list resource clusterpolicyreport'' None"
  "kd_bad_obj cpolr_desc = BadRequest ''failed to validate cluster policy report'' None"
  "kd_no_name cpolr_desc = AlreadyExists ClusterPolicyReportsGR []"
  "kd_create_err cpolr_desc n err = BadRequest ''cannot create cluster policy report: '' (Some err)"
  "kd_update_err cpolr_desc err = BadRequest ''cannot create cluster policy report: '' (Some err)"
  "kd_delete_err cpolr_desc err = BadRequest ''failed to delete clusterpolicyreport: '' (Some err)"
  "kd_coll_find cpolr_desc = BadRequest ''Failed to find cluster policy reports'' None"
  "kd_coll_delete cpolr_desc cpolr = BadRequest (''Failed to delete cluster policy report: '' @ Name cpolr) None"
  by (simp_all add: cpolr_desc_def)

lemma as_cpolr_simps [simp]:
  "as_ClusterPolicyReport (ClusterPolicyReportObj r) = Some r" "as_ClusterPolicyReportList (ClusterPolicyReportListObj l) = Some l"
  "as_ClusterPolicyReport obj = Some r \<longleftrightarrow> obj = ClusterPolicyReportObj r"
  by (auto simp: as_ClusterPolicyReport_def as_ClusterPolicyReportList_def split: Object.split)

abbreviation cpolr_ops :: "'s Storage \<Rightarrow> ('s, string, unit, ClusterPolicyReport) ops" where
  "cpolr_ops st \<equiv> cl_ops (ClusterPolicyReports st)"

lemma cpolr_rest_kind:
  assumes "report_storage (cpolr_ops st) cl_key cl_sel canon lenient gk gq good vw iv"
  shows "rest_kind (cpolr_ops st) cl_key cl_sel canon lenient gk gq good vw iv cpolr_desc"
  using assms by (simp add: rest_kind_def rest_kind_axioms_def cl_key_def cl_sel_def)

lemma getCpolr_eq: "getCpolr st name = rest_get cpolr_desc (cpolr_ops st) name"
  by (rule ext) (simp add: getCpolr_def rest_get_def case_prod_unfold Let_def split: sum.split)

lemma listCpolr_eq:
  "listCpolr st w = apfst (map_sum id (\<lambda>rs. zero_List\<lparr>Items := rs\<rparr>)) (rest_list cpolr_desc (cpolr_ops st) () w)"
  by (simp add: listCpolr_def rest_list_def case_prod_unfold Let_def split: sum.split)

lemma createCpolr_eq: "createCpolr st = rest_create (cpolr_ops st)"
  by (intro ext) (simp add: createCpolr_def rest_create_def)

lemma updateCpolr_eq: "updateCpolr st = rest_update (cpolr_ops st)"
  by (intro ext) (simp add: updateCpolr_def rest_update_def)

lemma deleteCpolr_eq: "deleteCpolr st r = rest_delete (cpolr_ops st) (cl_key r)"
  by (rule ext) (simp add: deleteCpolr_def rest_delete_def cl_key_def)

lemmas cpolr_eqs = getCpolr_eq listCpolr_eq createCpolr_eq updateCpolr_eq deleteCpolr_eq

lemma cpolr_List_eq:
  "cpolrStore_List st options w =
     apfst (map_sum id ClusterPolicyReportListObj) (rest_List cpolr_desc (cpolr_ops st) [] options w)"
  by (cases options)
    (auto simp: cpolrStore_List_def rest_List_def cpolr_eqs desired_rv_def Let_def
      split: sum.split prod.split)

lemma cpolr_Get_eq: "cpolrStore_Get st name = rest_Get cpolr_desc (cpolr_ops st) [] name"
  unfolding cpolrStore_Get_def rest_Get_def cpolr_eqs cpolr_desc_simps by simp

lemma cpolr_admit_eq:
  "cpolr_admit e r =
     (case rest_prepare cpolr_desc e [] r of None \<Rightarrow> Inl (kd_no_name cpolr_desc) | Some r' \<Rightarrow> Inr r')"
  by (auto simp: cpolr_admit_def rest_prepare_def Let_def)

lemma cpolr_admit_Inr: "cpolr_admit e r = Inr r' \<longleftrightarrow> rest_prepare cpolr_desc e [] r = Some r'"
  by (simp add: cpolr_admit_eq split: option.split)

lemma cpolr_Create_eq: "cpolrStore_Create st e = rest_Create cpolr_desc (cpolr_ops st) e []"
  unfolding cpolrStore_Create_def rest_Create_def cpolr_eqs cpolr_admit_eq cpolr_desc_simps
  by (intro ext) (simp split: option.split)

lemma cpolr_adjust_eq: "cpolr_adjust = rest_adjust cpolr_desc []"
  by (intro ext) (simp add: cpolr_adjust_def rest_adjust_def Let_def)

lemma cpolr_Update_eq: "cpolrStore_Update st = rest_Update cpolr_desc (cpolr_ops st) []"
  unfolding cpolrStore_Update_def rest_Update_def cpolr_eqs cpolr_adjust_eq cpolr_desc_simps by (intro ext) simp

lemma cpolr_Delete_eq: "cpolrStore_Delete st = rest_Delete cpolr_desc (cpolr_ops st) cl_key []"
  unfolding cpolrStore_Delete_def rest_Delete_def cpolr_eqs cpolr_desc_simps by (intro ext) simp

lemma cpolr_delete_items_eq:
  "cpolr_delete_items st val opts rs w =
     rest_delete_items cpolr_desc (cpolr_ops st) cl_key [] val opts rs w"
proof (induction rs arbitrary: w)
  case (Cons cpolr rs)
  show ?case
    unfolding cpolr_delete_items.simps rest_delete_items.simps cpolr_Delete_eq cpolr_desc_simps Cons.IH
    by (rule refl)
qed simp

lemma cpolr_DeleteCollection_eq:
  "cpolrStore_DeleteCollection st val opts lopts w =
     apfst (map_sum id ClusterPolicyReportListObj)
       (rest_DeleteCollection cpolr_desc (cpolr_ops st) cl_key [] val opts lopts w)"
  by (auto simp: cpolrStore_DeleteCollection_def rest_DeleteCollection_def cpolr_List_eq cpolr_delete_items_eq
      split: sum.split prod.split option.split)

lemma cpolr_Watch_eq: "cpolrStore_Watch st = rest_Watch cpolr_desc (cpolr_ops st) []"
  by (intro ext)
    (auto simp: cpolrStore_Watch_def rest_Watch_def cpolr_List_eq split: sum.split prod.split option.split)

subsection \<open>As a state machine\<close>

text \<open>
  One request with arguments that the storage contract speaks about; an update names the report it
  updates and is not forced.
\<close>

inductive cpolr_step ::
  "'s Storage \<Rightarrow> (string \<Rightarrow> bool) \<Rightarrow> (unit \<Rightarrow> bool) \<Rightarrow> (ClusterPolicyReport \<Rightarrow> bool) \<Rightarrow> 's cpolrState \<Rightarrow> 's cpolrState \<Rightarrow> bool"
  for st gk gq good where
  Get: "gk n \<Longrightarrow> cpolr_step st gk gq good w (snd (cpolrStore_Get st n w))"
| List: "gq () \<Longrightarrow> cpolr_step st gk gq good w (snd (cpolrStore_List st lopts w))"
| Watch: "gq () \<Longrightarrow> cpolr_step st gk gq good w (snd (cpolrStore_Watch st lopts w))"
| Create: "(\<And>r0 r1. as_ClusterPolicyReport obj = Some r0 \<Longrightarrow> cpolr_admit e r0 = Inr r1 \<Longrightarrow>
       good (stamped e (store_versioning w) r1)) \<Longrightarrow>
     cpolr_step st gk gq good w (snd (cpolrStore_Create st e obj val opts w))"
| Update: "gk n \<Longrightarrow>
     (\<And>old r0. as_ClusterPolicyReport (fst (updatedObj old)) = Some r0 \<Longrightarrow>
       cl_key (cpolr_adjust r0) = n \<and>
       good (restamped (store_versioning w) (cpolr_adjust r0))) \<Longrightarrow>
     cpolr_step st gk gq good w (snd (cpolrStore_Update st n updatedObj uval False opts w))"
| Delete: "gk n \<Longrightarrow> cpolr_step st gk gq good w (snd (cpolrStore_Delete st n val opts w))"
| DeleteCollection: "gq () \<Longrightarrow>
     cpolr_step st gk gq good w (snd (cpolrStore_DeleteCollection st val opts lopts w))"

inductive_cases cpolr_step_cases: "cpolr_step st gk gq good w w'"

lemma cpolr_step_rest:
  assumes "cpolr_step st gk gq good w w'"
  shows "rest_step cpolr_desc (cpolr_ops st) cl_key gk gq good w w'"
  using assms
proof cases
  case (Get n)
  then show ?thesis using StepGet [of gk cpolr_desc "[]" n] by (simp add: cpolr_Get_eq)
next
  case (List lopts)
  then show ?thesis using StepList [of gq cpolr_desc "[]"] by (simp add: cpolr_List_eq)
next
  case (Watch lopts)
  then show ?thesis using StepWatch [of gq cpolr_desc "[]"] by (simp add: cpolr_Watch_eq)
next
  case (Create obj e val opts)
  then show ?thesis using StepCreate [of cpolr_desc obj e "[]" good w] by (simp add: cpolr_Create_eq cpolr_admit_Inr)
next
  case (Update n updatedObj uval opts)
  then show ?thesis
    using StepUpdate [of gk cpolr_desc "[]" n updatedObj cl_key good w]
    by (simp add: cpolr_Update_eq cpolr_adjust_eq)
next
  case (Delete n val opts)
  then show ?thesis using StepDelete [of gk cpolr_desc "[]" n] by (simp add: cpolr_Delete_eq)
next
  case (DeleteCollection val opts lopts)
  then show ?thesis
    using StepDeleteCollection [of gq cpolr_desc "[]"] by (simp add: cpolr_DeleteCollection_eq)
qed

lemma cpolr_history_rest:
  assumes "(cpolr_step st gk gq good)\<^sup>*\<^sup>* w w'"
  shows "(rest_step cpolr_desc (cpolr_ops st) cl_key gk gq good)\<^sup>*\<^sup>* w w'"
  using assms by (rule rtranclp_mono [THEN predicate2D, rotated]) (auto intro: cpolr_step_rest)

subsection \<open>Properties\<close>

text \<open>
  A create request that passes validation, on any storage that meets the contract: under a free
  key the report is stored, returned and announced as Added, with the served-by annotation,
  generation one and the next version; under a taken key the request answers
  BadRequest with the error of the storage and neither the contents nor the log change.
\<close>

lemma cpolr_create_stores:
  assumes "report_storage (cpolr_ops st) cl_key cl_sel canon lenient gk gq good vw iv"
    and "iv (store_db w)"
    and "strict_err (val (ClusterPolicyReportObj cpolr)) (FieldValidation opts) = None"
    and "cpolr_admit e cpolr = Inr r1" and "\<not> isDryRun opts"
    and "r = stamped e (store_versioning w) r1" and "good r"
    and "cpolrStore_Create st e (ClusterPolicyReportObj cpolr) val opts w = (x, w')"
  shows "(if vw (store_db w) (cl_key r) = None
      then x = Inr (ClusterPolicyReportObj r) \<and> vw (store_db w') = (vw (store_db w))(cl_key r \<mapsto> canon r) \<and>
           broadcast w' = broadcast w @ [(Added, r)]
      else (\<exists>err. x = Inl (BadRequest ''cannot create cluster policy report: '' (Some err))) \<and> vw (store_db w') = vw (store_db w) \<and>
           broadcast w' = broadcast w) \<and>
    served_by r \<and> Generation r = 1 \<and> ResourceVersion r = FormatUint (version (store_versioning w)) \<and>
    iv (store_db w') \<and> store_versioning w' = bump (store_versioning w)"
proof -
  have "served_by r \<and> Generation r = 1 \<and> ResourceVersion r = FormatUint (version (store_versioning w))"
    using assms(4,6)
    by (auto simp: stamped_def cpolr_admit_def served_by_def labelReports_def Let_def split: if_splits)
  then show ?thesis
    using rest_kind.Create_spec [OF cpolr_rest_kind [OF assms(1)] assms(2),
        of val "ClusterPolicyReportObj cpolr" opts cpolr e "[]" r1 r x w'] assms(3-8)
    by (simp add: cpolr_Create_eq cpolr_admit_Inr stamped_def split: if_splits)
qed

text \<open>
  Whatever requests a client makes on cluster policy reports, the events broadcast on the
  way, replayed on the contents at the start, give the contents at the end; the storage stays
  sound, and if all stored reports carry the served-by annotation at the start, they still do.
\<close>

lemma cpolr_events_replay:
  assumes "report_storage (cpolr_ops st) cl_key cl_sel canon lenient gk gq good vw iv"
    and "iv (store_db w)" and "(cpolr_step st gk gq good)\<^sup>*\<^sup>* w w'" and "meta_kept good canon"
    and "all_served vw w"
  shows "iv (store_db w') \<and> all_served vw w' \<and>
    (\<exists>evs. broadcast w' = broadcast w @ evs \<and>
           vw (store_db w') = fold (apply_event cl_key canon) evs (vw (store_db w)))"
  using rest_kind.history_tracks [OF cpolr_rest_kind [OF assms(1)] cpolr_history_rest [OF assms(3)] assms(2)]
    rest_kind.history_served [OF cpolr_rest_kind [OF assms(1)] cpolr_history_rest [OF assms(3)] assms(2,4,5)]
  by (simp add: tracks_def)

end
