(* ===== verification/ApiEphr.thy ===== *)
theory ApiEphr
  imports RestTraces ApiTable SampleStore
begin

section \<open>The REST store of ephemeral reports\<close>

text \<open>
  \<^verbatim>\<open>pkg/api/ephr.go\<close>, method by method. \<open>st\<close> is the storage the store was made with; the namespace is the
  one of the request context. Log lines are left out. The last part of the theory identifies the
  store with the generic handlers and states it as a step relation.
\<close>

type_synonym 's ephrState = "('s, EphemeralReport) rest_state"

definition as_EphemeralReport :: "Object \<Rightarrow> EphemeralReport option" where
  "as_EphemeralReport obj = (case obj of EphemeralReportObj r \<Rightarrow> Some r | _ \<Rightarrow> None)"

definition as_EphemeralReportList :: "Object \<Rightarrow> EphemeralReport ReportList option" where
  "as_EphemeralReportList obj = (case obj of EphemeralReportListObj l \<Rightarrow> Some l | _ \<Rightarrow> None)"

definition EphemeralReportStore :: "'s \<Rightarrow> resourceVersion \<Rightarrow> 's ephrState" where
  "EphemeralReportStore s v = \<lparr>store_db = s, store_versioning = v, broadcast = []\<rparr>"

definition ephrStore_New :: Object where
  "ephrStore_New = EphemeralReportObj zero_EphemeralReport"

definition ephrStore_NewList :: Object where
  "ephrStore_NewList = EphemeralReportListObj zero_List"

definition ephrStore_Kind :: string where
  "ephrStore_Kind = ''EphemeralReport''"

definition ephrStore_NamespaceScoped :: bool where
  "ephrStore_NamespaceScoped = True"

definition ephrStore_GetSingularName :: string where
  "ephrStore_GetSingularName = ''ephemeralreport''"

definition ephrStore_ShortNames :: "string list" where
  "ephrStore_ShortNames = [''ephr'']"

subsection \<open>Storage access\<close>

definition getEphr :: "'s Storage \<Rightarrow> string \<Rightarrow> string \<Rightarrow> (EphemeralReport option, 's ephrState) op" where
  "getEphr st name namespace w =
     (case nGet (EphemeralReports st) name namespace (store_db w) of
        (Inl err, s) \<Rightarrow> (Inl (Wrapf ''could not find ephemeral report in store'' err), w\<lparr>store_db := s\<rparr>)
      | (Inr val, s) \<Rightarrow> (Inr val, w\<lparr>store_db := s\<rparr>))"

definition listEphr :: "'s Storage \<Rightarrow> string \<Rightarrow> (EphemeralReport ReportList, 's ephrState) op" where
  "listEphr st namespace w =
     (case nList (EphemeralReports st) namespace (store_db w) of
        (Inl err, s) \<Rightarrow> (Inl (Wrapf ''could not find ephemeral report in store'' err), w\<lparr>store_db := s\<rparr>)
      | (Inr valList, s) \<Rightarrow>
          (case deref_all valList of
             Inl panic \<Rightarrow> (Inl panic, w\<lparr>store_db := s\<rparr>)
           | Inr items \<Rightarrow> (Inr (zero_List\<lparr>Items := items\<rparr>), w\<lparr>store_db := s\<rparr>)))"

definition createEphr ::
  "'s Storage \<Rightarrow> request_env \<Rightarrow> EphemeralReport \<Rightarrow> 's ephrState \<Rightarrow> (EphemeralReport \<times> err option) \<times> 's ephrState" where
  "createEphr st e report w =
     (let (rv, v) = UseResourceVersion (store_versioning w);
          r = report\<lparr>ResourceVersion := rv, UID := NewUUID e, CreationTimestamp := Now e\<rparr>;
          (err, s) = nCreate (EphemeralReports st) (Some r) (store_db w)
      in ((r, err), w\<lparr>store_db := s, store_versioning := v\<rparr>))"

definition updateEphr ::
  "'s Storage \<Rightarrow> EphemeralReport \<Rightarrow> 's ephrState \<Rightarrow> (EphemeralReport \<times> err option) \<times> 's ephrState" where
  "updateEphr st report w =
     (let (rv, v) = UseResourceVersion (store_versioning w);
          r = report\<lparr>ResourceVersion := rv\<rparr>;
          (err, s) = nUpdate (EphemeralReports st) (Some r) (store_db w)
      in ((r, err), w\<lparr>store_db := s, store_versioning := v\<rparr>))"

definition deleteEphr :: "'s Storage \<Rightarrow> EphemeralReport \<Rightarrow> 's ephrState eop" where
  "deleteEphr st report w =
     (let (err, s) = nDelete (EphemeralReports st) (Name report) (Namespace report) (store_db w) in (err, w\<lparr>store_db := s\<rparr>))"

subsection \<open>Handlers\<close>

definition ephrStore_List ::
  "'s Storage \<Rightarrow> string \<Rightarrow> ListOptions option \<Rightarrow> (Object, 's ephrState) op" where
  "ephrStore_List st namespace options w =
     (let labelSelector = (case options of None \<Rightarrow> None | Some opt \<Rightarrow> LabelSelector opt)
      in case listEphr st namespace w of
           (Inl err, w1) \<Rightarrow>
             (Inl (unless_panic err (BadRequest ''failed to list resource ephemeralreport'' None)), w1)
         | (Inr list, w1) \<Rightarrow>
             (case options of
                None \<Rightarrow> (Inl nil_deref, w1)
              | Some opt \<Rightarrow>
                  (case (if length (opt_ResourceVersion opt) = 0 then Inr 1
                         else case ParseUint (opt_ResourceVersion opt) of
                                Inl e \<Rightarrow> Inl (NumError e (opt_ResourceVersion opt))
                              | Inr n \<Rightarrow> Inr n) of
                     Inl err \<Rightarrow> (Inl err, w1)
                   | Inr desiredRv \<Rightarrow>
                       (case filter_items labelSelector desiredRv (ResourceVersionMatch opt)
                               (Items list) 1 [] of
                          Inl err \<Rightarrow> (Inl err, w1)
                        | Inr (resourceVersion, items) \<Rightarrow>
                            (Inr (EphemeralReportListObj (zero_List\<lparr>Items := items,
                               list_ResourceVersion := FormatUint resourceVersion\<rparr>)), w1)))))"

definition ephrStore_Get :: "'s Storage \<Rightarrow> string \<Rightarrow> string \<Rightarrow> (Object, 's ephrState) op" where
  "ephrStore_Get st namespace name w =
     (case getEphr st name namespace w of
        (Inr (Some report), w1) \<Rightarrow> (Inr (EphemeralReportObj report), w1)
      | (_, w1) \<Rightarrow> (Inl (NotFound EphemeralReportsGR name), w1))"

text \<open>What \<open>Create\<close> fills in before it writes the report; here the name comes first.\<close>

definition ephr_admit :: "request_env \<Rightarrow> string \<Rightarrow> EphemeralReport \<Rightarrow> err + EphemeralReport" where
  "ephr_admit e namespace ephr =
     (if Name ephr = [] \<and> GenerateName ephr = []
      then Inl (Conflict EphemeralReportsGR (Name ephr) ''name and generate name not provided'')
      else (let ephr1 = (if Name ephr = []
                         then ephr\<lparr>Name := genName e (GenerateName ephr)\<rparr> else ephr);
                ephr2 = (if length (Namespace ephr1) = 0
                         then ephr1\<lparr>Namespace := namespace\<rparr> else ephr1)
            in Inr (ephr2\<lparr>Annotations := labelReports (Annotations ephr2), Generation := 1\<rparr>)))"

definition ephrStore_Create ::
  "'s Storage \<Rightarrow> request_env \<Rightarrow> string \<Rightarrow> Object \<Rightarrow> (Object \<Rightarrow> err option) \<Rightarrow> WriteOptions \<Rightarrow>
     (Object, 's ephrState) op" where
  "ephrStore_Create st e namespace obj createValidation options w =
     (case strict_err (createValidation obj) (FieldValidation options) of
        Some err \<Rightarrow> (Inl err, w)
      | None \<Rightarrow>
          (case as_EphemeralReport obj of
             None \<Rightarrow> (Inl (BadRequest ''failed to validate ephemeral report'' None), w)
           | Some ephr \<Rightarrow>
               (case ephr_admit e namespace ephr of
                  Inl err \<Rightarrow> (Inl err, w)
                | Inr ephr' \<Rightarrow>
                    if \<not> isDryRun options
                    then (case createEphr st e ephr' w of
                            ((r, Some err), w1) \<Rightarrow> (Inl (AlreadyExists EphemeralReportsGR (Name ephr')), w1)
                          | ((r, None), w1) \<Rightarrow> (Inr (EphemeralReportObj r), Action Added r w1))
                    else (Inr (EphemeralReportObj ephr'), w))))"

text \<open>What \<open>Update\<close> does to the report before it is written.\<close>

definition ephr_adjust :: "string \<Rightarrow> EphemeralReport \<Rightarrow> EphemeralReport" where
  "ephr_adjust namespace ephr =
     (let ephr1 = (if length (Namespace ephr) = 0 then ephr\<lparr>Namespace := namespace\<rparr> else ephr)
      in ephr1\<lparr>Annotations := labelReports (Annotations ephr1), Generation := Generation ephr1 + 1\<rparr>)"

definition ephrStore_Update ::
  "'s Storage \<Rightarrow> string \<Rightarrow> string \<Rightarrow> (EphemeralReport option \<Rightarrow> Object \<times> err option) \<Rightarrow>
     (Object \<Rightarrow> EphemeralReport option \<Rightarrow> err option) \<Rightarrow> bool \<Rightarrow> WriteOptions \<Rightarrow>
     (Object \<times> bool, 's ephrState) op" where
  "ephrStore_Update st namespace name updatedObj updateValidation forceAllowCreate options w =
     (let (got, w1) = getEphr st name namespace w;
          oldObj = (case got of Inl err \<Rightarrow> None | Inr val \<Rightarrow> val);
          (updatedObject, uerr) = updatedObj oldObj
      in if isl got \<and> \<not> forceAllowCreate then (Inl (projl got), w1)
         else if uerr \<noteq> None \<and> \<not> forceAllowCreate then (Inl (the uerr), w1)
         else case as_EphemeralReport updatedObject of
                None \<Rightarrow> (Inl (Panic ''interface conversion''), w1)
              | Some ephr \<Rightarrow>
                  if forceAllowCreate
                  then (let ((r, err), w2) = updateEphr st ephr w1
                        in (Inr (EphemeralReportObj r, True), Action Modified r w2))
                  else (case strict_err (updateValidation updatedObject oldObj) (FieldValidation options) of
                          Some err \<Rightarrow> (Inl err, w1)
                        | None \<Rightarrow>
                            (let ephr' = ephr_adjust namespace ephr
                             in if \<not> isDryRun options
                                then (case updateEphr st ephr' w1 of
                                        ((r, Some err), w2) \<Rightarrow>
                                          (Inl (BadRequest ''cannot create ephemeral report: '' (Some err)), w2)
                                      | ((r, None), w2) \<Rightarrow>
                                          (Inr (EphemeralReportObj r, True), Action Modified r w2))
                                else (Inr (EphemeralReportObj ephr', True), w1))))"

definition ephrStore_Delete ::
  "'s Storage \<Rightarrow> string \<Rightarrow> string \<Rightarrow> (Object \<Rightarrow> err option) \<Rightarrow> WriteOptions \<Rightarrow>
     (Object \<times> bool, 's ephrState) op" where
  "ephrStore_Delete st namespace name deleteValidation options w =
     (case getEphr st name namespace w of
        (Inl err, w1) \<Rightarrow> (Inl (NotFound EphemeralReportsGR name), w1)
      | (Inr val, w1) \<Rightarrow>
          (case deleteValidation (case val of None \<Rightarrow> NilObject | Some r \<Rightarrow> EphemeralReportObj r) of
             Some err \<Rightarrow> (Inl (BadRequest ''invalid resource: '' (Some err)), w1)
           | None \<Rightarrow>
               (case val of
                  None \<Rightarrow> (Inl nil_deref, w1)
                | Some ephr \<Rightarrow>
                    if \<not> isDryRun options
                    then (case deleteEphr st ephr w1 of
                            (Some err, w2) \<Rightarrow>
                              (Inl (BadRequest ''failed to delete ephemeralreport: '' (Some err)), w2)
                          | (None, w2) \<Rightarrow> (Inr (EphemeralReportObj ephr, True), Action Deleted ephr w2))
                    else (Inr (EphemeralReportObj ephr, True), w1))))"

fun ephr_delete_items ::
  "'s Storage \<Rightarrow> string \<Rightarrow> (Object \<Rightarrow> err option) \<Rightarrow> WriteOptions \<Rightarrow> EphemeralReport list \<Rightarrow>
     's ephrState eop" where
  "ephr_delete_items st namespace deleteValidation options [] w = (None, w)"
| "ephr_delete_items st namespace deleteValidation options (ephr # ephrs) w =
     (case ephrStore_Delete st namespace (Name ephr) deleteValidation options w of
        (Inr (obj, isDeleted), w1) \<Rightarrow>
          if isDeleted then ephr_delete_items st namespace deleteValidation options ephrs w1
          else (Some (BadRequest (''Failed to delete ephemeral report: '' @ Namespace ephr @ ''/'' @ Name ephr) None), w1)
      | (Inl err, w1) \<Rightarrow>
          (Some (unless_panic err (BadRequest (''Failed to delete ephemeral report: '' @ Namespace ephr @ ''/'' @ Name ephr) None)), w1))"

definition ephrStore_DeleteCollection ::
  "'s Storage \<Rightarrow> string \<Rightarrow> (Object \<Rightarrow> err option) \<Rightarrow> WriteOptions \<Rightarrow> ListOptions option \<Rightarrow>
     (Object, 's ephrState) op" where
  "ephrStore_DeleteCollection st namespace deleteValidation options listOptions w =
     (case ephrStore_List st namespace listOptions w of
        (Inl err, w1) \<Rightarrow> (Inl (unless_panic err (BadRequest ''Failed to find ephemeral reports'' None)), w1)
      | (Inr obj, w1) \<Rightarrow>
          (case as_EphemeralReportList obj of
             None \<Rightarrow> (Inl (BadRequest ''Failed to parse ephemeral reports'' None), w1)
           | Some ephrList \<Rightarrow>
               if \<not> isDryRun options
               then (case ephr_delete_items st namespace deleteValidation options (Items ephrList) w1 of
                       (Some err, w2) \<Rightarrow> (Inl err, w2)
                     | (None, w2) \<Rightarrow> (Inr (EphemeralReportListObj ephrList), w2))
               else (Inr (EphemeralReportListObj ephrList), w1)))"

definition ephrStore_Watch ::
  "'s Storage \<Rightarrow> string \<Rightarrow> ListOptions option \<Rightarrow> (EphemeralReport watch_result, 's ephrState) op" where
  "ephrStore_Watch st namespace options w =
     (case options of
        None \<Rightarrow> (Inl nil_deref, w)
      | Some opt \<Rightarrow>
          if opt_ResourceVersion opt = [] \<or> opt_ResourceVersion opt = ''0'' then (Inr Watch, w)
          else case ephrStore_List st namespace options w of
                 (Inl err, w1) \<Rightarrow> (Inl err, w1)
               | (Inr items, w1) \<Rightarrow>
                   (case as_EphemeralReportList items of
                      None \<Rightarrow>
                        (Inl (Errorf ''failed to convert runtime object into ephemeral report list'' None), w1)
                    | Some list \<Rightarrow>
                        (Inr (WatchWithPrefix (map (\<lambda>pol. (Added, pol)) (Items list))), w1)))"

definition ephrStore_ConvertToTable :: "(int \<Rightarrow> string) \<Rightarrow> Object \<Rightarrow> Table" where
  "ephrStore_ConvertToTable age object =
     (case object of
        EphemeralReportObj t \<Rightarrow>
          addEphemeralReportToTable age
            (zero_Table\<lparr>tab_ResourceVersion := ResourceVersion t, tab_SelfLink := SelfLink t\<rparr>) [t]
      | EphemeralReportListObj t \<Rightarrow>
          addEphemeralReportToTable age
            (zero_Table\<lparr>tab_ResourceVersion := list_ResourceVersion t,
               tab_SelfLink := list_SelfLink t, tab_Continue := list_Continue t\<rparr>) (Items t)
      | _ \<Rightarrow> zero_Table)"

subsection \<open>As an instance of the generic handlers\<close>

definition ephr_desc :: "(string \<times> string, string, EphemeralReport) kind_desc" where
  "ephr_desc =
     \<lparr>as_r = as_EphemeralReport, obj_of = EphemeralReportObj, kd_gr = EphemeralReportsGR,
      kd_key = (\<lambda>ns n. (ns, n)), kd_sel = (\<lambda>ns. ns), kd_namespaced = True, kd_gen = (\<lambda>_. 1),
      kd_wrap = Wrapf ''could not find ephemeral report in store'',
      kd_list_err = BadRequest ''failed to list resource ephemeralreport'' None,
      kd_bad_obj = BadRequest ''failed to validate ephemeral report'' None,
      kd_no_name = Conflict EphemeralReportsGR [] ''name and generate name not provided'',
      kd_create_err = (\<lambda>n err. AlreadyExists EphemeralReportsGR n),
      kd_update_err = (\<lambda>err. BadRequest ''cannot create ephemeral report: '' (Some err)),
      kd_delete_err = (\<lambda>err. BadRequest ''failed to delete ephemeralreport: '' (Some err)),
      kd_coll_find = BadRequest ''Failed to find ephemeral reports'' None,
      kd_coll_delete = (\<lambda>ephr. BadRequest (''Failed to delete ephemeral report: '' @ Namespace ephr @ ''/'' @ Name ephr) None)\<rparr>"

lemma ephr_desc_simps [simp]:
  "as_r ephr_desc = as_EphemeralReport" "obj_of ephr_desc = EphemeralReportObj" "kd_gr ephr_desc = EphemeralReportsGR"
  "kd_key ephr_desc = (\<lambda>ns n. (ns, n))" "kd_sel ephr_desc = (\<lambda>ns. ns)" "kd_namespaced ephr_desc = True"
  "kd_gen ephr_desc = (\<lambda>_. 1)"
  "kd_wrap ephr_desc = Wrapf ''could not find ephemeral report in store''"
  "kd_list_err ephr_desc = BadRequest ''failed to list resource ephemeralreport'' None"
  "kd_bad_obj ephr_desc = BadRequest ''failed to validate ephemeral report'' None"
  "kd_no_name ephr_desc = Conflict EphemeralReportsGR [] ''name and generate name not provided''"
  "kd_create_err ephr_desc n err = AlreadyExists EphemeralReportsGR n"
  "kd_update_err ephr_desc err = BadRequest ''cannot create ephemeral report: '' (Some err)"
  "kd_delete_err ephr_desc err = BadRequest ''failed to delete ephemeralreport: '' (Some err)"
  "kd_coll_find ephr_desc = BadRequest ''Failed to find ephemeral reports'' None"
  "kd_coll_delete ephr_desc ephr = BadRequest (''Failed to delete ephemeral report: '' @ Namespace ephr @ ''/'' @ Name ephr) None"
  by (simp_all add: ephr_desc_def)

lemma as_ephr_simps [simp]:
  "as_EphemeralReport (EphemeralReportObj r) = Some r" "as_EphemeralReportList (EphemeralReportListObj l) = Some l"
  "as_EphemeralReport obj = Some r \<longleftrightarrow> obj = EphemeralReportObj r"
  by (auto simp: as_EphemeralReport_def as_EphemeralReportList_def split: Object.split)

abbreviation ephr_ops :: "'s Storage \<Rightarrow> ('s, string \<times> string, string, EphemeralReport) ops" where
  "ephr_ops st \<equiv> ns_ops (EphemeralReports st)"

lemma ephr_rest_kind:
  assumes "report_storage (ephr_ops st) ns_key ns_sel canon lenient gk gq good vw iv"
  shows "rest_kind (ephr_ops st) ns_key ns_sel canon lenient gk gq good vw iv ephr_desc"
  using assms by (simp add: rest_kind_def rest_kind_axioms_def ns_key_def ns_sel_def)

lemma getEphr_eq: "getEphr st name namespace = rest_get ephr_desc (ephr_ops st) (namespace, name)"
  by (rule ext) (simp add: getEphr_def rest_get_def case_prod_unfold Let_def split: sum.split)

lemma listEphr_eq:
  "listEphr st namespace w = apfst (map_sum id (\<lambda>rs. zero_List\<lparr>Items := rs\<rparr>)) (rest_list ephr_desc (ephr_ops st) namespace w)"
  by (simp add: listEphr_def rest_list_def case_prod_unfold Let_def split: sum.split)

lemma createEphr_eq: "createEphr st = rest_create (ephr_ops st)"
  by (intro ext) (simp add: createEphr_def rest_create_def)

lemma updateEphr_eq: "updateEphr st = rest_update (ephr_ops st)"
  by (intro ext) (simp add: updateEphr_def rest_update_def)

lemma deleteEphr_eq: "deleteEphr st r = rest_delete (ephr_ops st) (ns_key r)"
  by (rule ext) (simp add: deleteEphr_def rest_delete_def ns_key_def)

lemmas ephr_eqs = getEphr_eq listEphr_eq createEphr_eq updateEphr_eq deleteEphr_eq

lemma ephr_List_eq:
  "ephrStore_List st namespace options w =
     apfst (map_sum id EphemeralReportListObj) (rest_List ephr_desc (ephr_ops st) namespace options w)"
  by (cases options)
    (auto simp: ephrStore_List_def rest_List_def ephr_eqs desired_rv_def Let_def
      split: sum.split prod.split)

lemma ephr_Get_eq: "ephrStore_Get st namespace name = rest_Get ephr_desc (ephr_ops st) namespace name"
  unfolding ephrStore_Get_def rest_Get_def ephr_eqs ephr_desc_simps by simp

lemma ephr_admit_eq:
  "ephr_admit e namespace r =
     (case rest_prepare ephr_desc e namespace r of None \<Rightarrow> Inl (kd_no_name ephr_desc) | Some r' \<Rightarrow> Inr r')"
  by (auto simp: ephr_admit_def rest_prepare_def Let_def)

lemma ephr_admit_Inr: "ephr_admit e namespace r = Inr r' \<longleftrightarrow> rest_prepare ephr_desc e namespace r = Some r'"
  by (simp add: ephr_admit_eq split: option.split)

lemma ephr_Create_eq: "ephrStore_Create st e namespace = rest_Create ephr_desc (ephr_ops st) e namespace"
  unfolding ephrStore_Create_def rest_Create_def ephr_eqs ephr_admit_eq ephr_desc_simps
  by (intro ext) (simp split: option.split)

lemma ephr_adjust_eq: "ephr_adjust namespace = rest_adjust ephr_desc namespace"
  by (intro ext) (simp add: ephr_adjust_def rest_adjust_def Let_def)

lemma ephr_Update_eq: "ephrStore_Update st namespace = rest_Update ephr_desc (ephr_ops st) namespace"
  unfolding ephrStore_Update_def rest_Update_def ephr_eqs ephr_adjust_eq ephr_desc_simps by (intro ext) simp

lemma ephr_Delete_eq: "ephrStore_Delete st namespace = rest_Delete ephr_desc (ephr_ops st) ns_key namespace"
  unfolding ephrStore_Delete_def rest_Delete_def ephr_eqs ephr_desc_simps by (intro ext) simp

lemma ephr_delete_items_eq:
  "ephr_delete_items st namespace val opts rs w =
     rest_delete_items ephr_desc (ephr_ops st) ns_key namespace val opts rs w"
proof (induction rs arbitrary: w)
  case (Cons ephr rs)
  show ?case
    unfolding ephr_delete_items.simps rest_delete_items.simps ephr_Delete_eq ephr_desc_simps Cons.IH
    by (rule refl)
qed simp

lemma ephr_DeleteCollection_eq:
  "ephrStore_DeleteCollection st namespace val opts lopts w =
     apfst (map_sum id EphemeralReportListObj)
       (rest_DeleteCollection ephr_desc (ephr_ops st) ns_key namespace val opts lopts w)"
  by (auto simp: ephrStore_DeleteCollection_def rest_DeleteCollection_def ephr_List_eq ephr_delete_items_eq
      split: sum.split prod.split option.split)

lemma ephr_Watch_eq: "ephrStore_Watch st namespace = rest_Watch ephr_desc (ephr_ops st) namespace"
  by (intro ext)
    (auto simp: ephrStore_Watch_def rest_Watch_def ephr_List_eq split: sum.split prod.split option.split)

subsection \<open>As a state machine\<close>

text \<open>
  One request with arguments that the storage contract speaks about; an update names the report it
  updates and is not forced, and a collection is deleted in a namespace.
\<close>

inductive ephr_step ::
  "'s Storage \<Rightarrow> (string \<times> string \<Rightarrow> bool) \<Rightarrow> (string \<Rightarrow> bool) \<Rightarrow> (EphemeralReport \<Rightarrow> bool) \<Rightarrow> 's ephrState \<Rightarrow> 's ephrState \<Rightarrow> bool"
  for st gk gq good where
  Get: "gk (namespace, n) \<Longrightarrow> ephr_step st gk gq good w (snd (ephrStore_Get st namespace n w))"
| List: "gq namespace \<Longrightarrow> ephr_step st gk gq good w (snd (ephrStore_List st namespace lopts w))"
| Watch: "gq namespace \<Longrightarrow> ephr_step st gk gq good w (snd (ephrStore_Watch st namespace lopts w))"
| Create: "(\<And>r0 r1. as_EphemeralReport obj = Some r0 \<Longrightarrow> ephr_admit e namespace r0 = Inr r1 \<Longrightarrow>
       good (stamped e (store_versioning w) r1)) \<Longrightarrow>
     ephr_step st gk gq good w (snd (ephrStore_Create st e namespace obj val opts w))"
| Update: "gk (namespace, n) \<Longrightarrow>
     (\<And>old r0. as_EphemeralReport (fst (updatedObj old)) = Some r0 \<Longrightarrow>
       ns_key (ephr_adjust namespace r0) = (namespace, n) \<and>
       good (restamped (store_versioning w) (ephr_adjust namespace r0))) \<Longrightarrow>
     ephr_step st gk gq good w (snd (ephrStore_Update st namespace n updatedObj uval False opts w))"
| Delete: "gk (namespace, n) \<Longrightarrow> ephr_step st gk gq good w (snd (ephrStore_Delete st namespace n val opts w))"
| DeleteCollection: "gq namespace \<Longrightarrow> namespace \<noteq> [] \<Longrightarrow>
     ephr_step st gk gq good w (snd (ephrStore_DeleteCollection st namespace val opts lopts w))"

inductive_cases ephr_step_cases: "ephr_step st gk gq good w w'"

lemma ephr_step_rest:
  assumes "ephr_step st gk gq good w w'"
  shows "rest_step ephr_desc (ephr_ops st) ns_key gk gq good w w'"
  using assms
proof cases
  case (Get namespace n)
  then show ?thesis using StepGet [of gk ephr_desc namespace n] by (simp add: ephr_Get_eq)
next
  case (List namespace lopts)
  then show ?thesis using StepList [of gq ephr_desc namespace] by (simp add: ephr_List_eq)
next
  case (Watch namespace lopts)
  then show ?thesis using StepWatch [of gq ephr_desc namespace] by (simp add: ephr_Watch_eq)
next
  case (Create obj e namespace val opts)
  then show ?thesis using StepCreate [of ephr_desc obj e namespace good w] by (simp add: ephr_Create_eq ephr_admit_Inr)
next
  case (Update namespace n updatedObj uval opts)
  then show ?thesis
    using StepUpdate [of gk ephr_desc namespace n updatedObj ns_key good w]
    by (simp add: ephr_Update_eq ephr_adjust_eq)
next
  case (Delete namespace n val opts)
  then show ?thesis using StepDelete [of gk ephr_desc namespace n] by (simp add: ephr_Delete_eq)
next
  case (DeleteCollection namespace val opts lopts)
  then show ?thesis
    using StepDeleteCollection [of gq ephr_desc namespace] by (simp add: ephr_DeleteCollection_eq)
qed

lemma ephr_history_rest:
  assumes "(ephr_step st gk gq good)\<^sup>*\<^sup>* w w'"
  shows "(rest_step ephr_desc (ephr_ops st) ns_key gk gq good)\<^sup>*\<^sup>* w w'"
  using assms by (rule rtranclp_mono [THEN predicate2D, rotated]) (auto intro: ephr_step_rest)

subsection \<open>Properties\<close>

text \<open>
  A create request that passes validation, on any storage that meets the contract: under a free
  key the report is stored, returned and announced as Added, with the served-by annotation,
  generation one and the next version; under a taken key the request answers
  AlreadyExists and neither the contents nor the log change.
\<close>

lemma ephr_create_stores:
  assumes "report_storage (ephr_ops st) ns_key ns_sel canon lenient gk gq good vw iv"
    and "iv (store_db w)"
    and "strict_err (val (EphemeralReportObj ephr)) (FieldValidation opts) = None"
    and "ephr_admit e namespace ephr = Inr r1" and "\<not> isDryRun opts"
    and "r = stamped e (store_versioning w) r1" and "good r"
    and "ephrStore_Create st e namespace (EphemeralReportObj ephr) val opts w = (x, w')"
  shows "(if vw (store_db w) (ns_key r) = None
      then x = Inr (EphemeralReportObj r) \<and> vw (store_db w') = (vw (store_db w))(ns_key r \<mapsto> canon r) \<and>
           broadcast w' = broadcast w @ [(Added, r)]
      else x = Inl (AlreadyExists EphemeralReportsGR (Name r)) \<and> vw (store_db w') = vw (store_db w) \<and>
           broadcast w' = broadcast w) \<and>
    served_by r \<and> Generation r = 1 \<and> ResourceVersion r = FormatUint (version (store_versioning w)) \<and>
    iv (store_db w') \<and> store_versioning w' = bump (store_versioning w)"
proof -
  have "served_by r \<and> Generation r = 1 \<and> ResourceVersion r = FormatUint (version (store_versioning w))"
    using assms(4,6)
    by (auto simp: stamped_def ephr_admit_def served_by_def labelReports_def Let_def split: if_splits)
  then show ?thesis
    using rest_kind.Create_spec [OF ephr_rest_kind [OF assms(1)] assms(2),
        of val "EphemeralReportObj ephr" opts ephr e namespace r1 r x w'] assms(3-8)
    by (simp add: ephr_Create_eq ephr_admit_Inr stamped_def split: if_splits)
qed

text \<open>
  Whatever requests a client makes on ephemeral reports, the events broadcast on the
  way, replayed on the contents at the start, give the contents at the end; the storage stays
  sound, and if all stored reports carry the served-by annotation at the start, they still do.
\<close>

lemma ephr_events_replay:
  assumes "report_storage (ephr_ops st) ns_key ns_sel canon lenient gk gq good vw iv"
    and "iv (store_db w)" and "(ephr_step st gk gq good)\<^sup>*\<^sup>* w w'" and "meta_kept good canon"
    and "all_served vw w"
  shows "iv (store_db w') \<and> all_served vw w' \<and>
    (\<exists>evs. broadcast w' = broadcast w @ evs \<and>
           vw (store_db w') = fold (apply_event ns_key canon) evs (vw (store_db w)))"
  using rest_kind.history_tracks [OF ephr_rest_kind [OF assms(1)] ephr_history_rest [OF assms(3)] assms(2)]
    rest_kind.history_served [OF ephr_rest_kind [OF assms(1)] ephr_history_rest [OF assms(3)] assms(2,4,5)]
  by (simp add: tracks_def)

end
