(* ===== verification/ApiCephr.thy ===== *)
theory ApiCephr
  imports RestTraces ApiTable SampleStore
begin

section \<open>The REST store of cluster ephemeral reports\<close>

text \<open>
  \<^verbatim>\<open>pkg/api/cephr.go\<close>, method by method. \<open>st\<close> is the storage the store was made with; the namespace is the
  one of the request context. Log lines are left out. The last part of the theory identifies the
  store with the generic handlers and states it as a step relation.
\<close>

type_synonym 's cephrState = "('s, ClusterEphemeralReport) rest_state"

definition as_ClusterEphemeralReport :: "Object \<Rightarrow> ClusterEphemeralReport option" where
  "as_ClusterEphemeralReport obj = (case obj of ClusterEphemeralReportObj r \<Rightarrow> Some r | _ \<Rightarrow> None)"

definition as_ClusterEphemeralReportList :: "Object \<Rightarrow> ClusterEphemeralReport ReportList option" where
  "as_ClusterEphemeralReportList obj = (case obj of ClusterEphemeralReportListObj l \<Rightarrow> Some l | _ \<Rightarrow> None)"

definition ClusterEphemeralReportStore :: "'s \<Rightarrow> resourceVersion \<Rightarrow> 's cephrState" where
  "ClusterEphemeralReportStore s v = \<lparr>store_db = s, store_versioning = v, broadcast = []\<rparr>"

definition cephrStore_New :: Object where
  "cephrStore_New = ClusterEphemeralReportObj zero_EphemeralReport"

definition cephrStore_NewList :: Object where
  "cephrStore_NewList = ClusterEphemeralReportListObj zero_List"

definition cephrStore_Kind :: string where
  "cephrStore_Kind = ''ClusterEphemeralReport''"

definition cephrStore_NamespaceScoped :: bool where
  "cephrStore_NamespaceScoped = False"

definition cephrStore_GetSingularName :: string where
  "cephrStore_GetSingularName = ''clusterephemeralreport''"

definition cephrStore_ShortNames :: "string list" where
  "cephrStore_ShortNames = [''cephr'']"

subsection \<open>Storage access\<close>

definition getCephr :: "'s Storage \<Rightarrow> string \<Rightarrow> (ClusterEphemeralReport option, 's cephrState) op" where
  "getCephr st name w =
     (case cGet (ClusterEphemeralReports st) name (store_db w) of
        (Inl err, s) \<Rightarrow> (Inl (Wrapf ''could not find cluster ephemeral report in store'' err), w\<lparr>store_db := s\<rparr>)
      | (Inr val, s) \<Rightarrow> (Inr val, w\<lparr>store_db := s\<rparr>))"

definition listCephr :: "'s Storage \<Rightarrow> (ClusterEphemeralReport ReportList, 's cephrState) op" where
  "listCephr st w =
     (case cList (ClusterEphemeralReports st) (store_db w) of
        (Inl err, s) \<Rightarrow> (Inl (Wrapf ''could not find cluster ephemeral report in store'' err), w\<lparr>store_db := s\<rparr>)
      | (Inr valList, s) \<Rightarrow>
          (case deref_all valList of
             Inl panic \<Rightarrow> (Inl panic, w\<lparr>store_db := s\<rparr>)
           | Inr items \<Rightarrow> (Inr (zero_List\<lparr>Items := items\<rparr>), w\<lparr>store_db := s\<rparr>)))"

definition createCephr ::
  "'s Storage \<Rightarrow> request_env \<Rightarrow> ClusterEphemeralReport \<Rightarrow> 's cephrState \<Rightarrow> (ClusterEphemeralReport \<times> err option) \<times> 's cephrState" where
  "createCephr st e report w =
     (let (rv, v) = UseResourceVersion (store_versioning w);
          r = report\<lparr>ResourceVersion := rv, UID := NewUUID e, CreationTimestamp := Now e\<rparr>;
          (err, s) = cCreate (ClusterEphemeralReports st) (Some r) (store_db w)
      in ((r, err), w\<lparr>store_db := s, store_versioning := v\<rparr>))"

definition updateCephr ::
  "'s Storage \<Rightarrow> ClusterEphemeralReport \<Rightarrow> 's cephrState \<Rightarrow> (ClusterEphemeralReport \<times> err option) \<times> 's cephrState" where
  "updateCephr st report w =
     (let (rv, v) = UseResourceVersion (store_versioning w);
          r = report\<lparr>ResourceVersion := rv\<rparr>;
          (err, s) = cUpdate (ClusterEphemeralReports st) (Some r) (store_db w)
      in ((r, err), w\<lparr>store_db := s, store_versioning := v\<rparr>))"

definition deleteCephr :: "'s Storage \<Rightarrow> ClusterEphemeralReport \<Rightarrow> 's cephrState eop" where
  "deleteCephr st report w =
     (let (err, s) = cDelete (ClusterEphemeralReports st) (Name report) (store_db w) in (err, w\<lparr>store_db := s\<rparr>))"

subsection \<open>Handlers\<close>

definition cephrStore_List ::
  "'s Storage \<Rightarrow> ListOptions option \<Rightarrow> (Object, 's cephrState) op" where
  "cephrStore_List st options w =
     (let labelSelector = (case options of None \<Rightarrow> None | Some opt \<Rightarrow> LabelSelector opt)
      in case listCephr st w of
           (Inl err, w1) \<Rightarrow>
             (Inl (unless_panic err (BadRequest ''failed to list resource clusterephemeralreport'' None)), w1)
         | (Inr list, w1) \<Rightarrow>
             (case options of
                None \<Rightarrow> (Inl nil_deref, w1)
              | Some opt \<Rightarrow>
                  (case (if length (opt_ResourceVersion opt) = 0 then Inr 1
                         else case ParseUint (opt_ResourceVersion opt) of
                                Inl e \<Rightarrow> Inl (NumError e (opt_ResourceVersion opt))
                              | Inr n \<Rightarrow> Inr n) of
                     Inl err \<Rightarrow> (Inl err, w1)
                   | Inr desiredRv \<Rightarrow>
                       (case filter_items labelSelector desiredRv (ResourceVersionMatch opt)
                               (Items list) 1 [] of
                          Inl err \<Rightarrow> (Inl err, w1)
                        | Inr (resourceVersion, items) \<Rightarrow>
                            (Inr (ClusterEphemeralReportListObj (zero_List\<lparr>Items := items,
                               list_ResourceVersion := FormatUint resourceVersion\<rparr>)), w1)))))"

definition cephrStore_Get :: "'s Storage \<Rightarrow> string \<Rightarrow> (Object, 's cephrState) op" where
  "cephrStore_Get st name w =
     (case getCephr st name w of
        (Inr (Some report), w1) \<Rightarrow> (Inr (ClusterEphemeralReportObj report), w1)
      | (_, w1) \<Rightarrow> (Inl (NotFound ClusterEphemeralReportsGR name), w1))"

text \<open>What \<open>Create\<close> fills in before it writes the report; here the generation is counted up from the one the client sent.\<close>

definition cephr_admit :: "request_env \<Rightarrow> ClusterEphemeralReport \<Rightarrow> err + ClusterEphemeralReport" where
  "cephr_admit e cephr =
     (if Name cephr = [] \<and> GenerateName cephr = []
      then Inl (AlreadyExists ClusterEphemeralReportsGR (Name cephr))
      else (let cephr1 = (if Name cephr = [] then cephr\<lparr>Name := genName e (GenerateName cephr)\<rparr> else cephr)
            in Inr (cephr1\<lparr>Annotations := labelReports (Annotations cephr1), Generation := Generation cephr1 + 1\<rparr>)))"

definition cephrStore_Create ::
  "'s Storage \<Rightarrow> request_env \<Rightarrow> Object \<Rightarrow> (Object \<Rightarrow> err option) \<Rightarrow> WriteOptions \<Rightarrow>
     (Object, 's cephrState) op" where
  "cephrStore_Create st e obj createValidation options w =
     (case strict_err (createValidation obj) (FieldValidation options) of
        Some err \<Rightarrow> (Inl err, w)
      | None \<Rightarrow>
          (case as_ClusterEphemeralReport obj of
             None \<Rightarrow> (Inl (BadRequest ''failed to validate cluster ephemeral report'' None), w)
           | Some cephr \<Rightarrow>
               (case cephr_admit e cephr of
                  Inl err \<Rightarrow> (Inl err, w)
                | Inr cephr' \<Rightarrow>
                    if \<not> isDryRun options
                    then (case createCephr st e cephr' w of
                            ((r, Some err), w1) \<Rightarrow> (Inl (BadRequest ''cannot create cluster ephemeral report: '' (Some err)), w1)
                          | ((r, None), w1) \<Rightarrow> (Inr (ClusterEphemeralReportObj r), Action Added r w1))
                    else (Inr (ClusterEphemeralReportObj cephr'), w))))"

text \<open>What \<open>Update\<close> does to the report before it is written.\<close>

definition cephr_adjust :: "ClusterEphemeralReport \<Rightarrow> ClusterEphemeralReport" where
  "cephr_adjust cephr =
     cephr\<lparr>Annotations := labelReports (Annotations cephr), Generation := Generation cephr + 1\<rparr>"

definition cephrStore_Update ::
  "'s Storage \<Rightarrow> string \<Rightarrow> (ClusterEphemeralReport option \<Rightarrow> Object \<times> err option) \<Rightarrow>
     (Object \<Rightarrow> ClusterEphemeralReport option \<Rightarrow> err option) \<Rightarrow> bool \<Rightarrow> WriteOptions \<Rightarrow>
     (Object \<times> bool, 's cephrState) op" where
  "cephrStore_Update st name updatedObj updateValidation forceAllowCreate options w =
     (let (got, w1) = getCephr st name w;
          oldObj = (case got of Inl err \<Rightarrow> None | Inr val \<Rightarrow> val);
          (updatedObject, uerr) = updatedObj oldObj
      in if isl got \<and> \<not> forceAllowCreate then (Inl (projl got), w1)
         else if uerr \<noteq> None \<and> \<not> forceAllowCreate then (Inl (the uerr), w1)
         else case as_ClusterEphemeralReport updatedObject of
                None \<Rightarrow> (Inl (Panic ''interface conversion''), w1)
              | Some cephr \<Rightarrow>
                  if forceAllowCreate
                  then (let ((r, err), w2) = updateCephr st cephr w1
                        in (Inr (ClusterEphemeralReportObj r, True), Action Modified r w2))
                  else (case strict_err (updateValidation updatedObject oldObj) (FieldValidation options) of
                          Some err \<Rightarrow> (Inl err, w1)
                        | None \<Rightarrow>
                            (let cephr' = cephr_adjust cephr
                             in if \<not> isDryRun options
                                then (case updateCephr st cephr' w1 of
                                        ((r, Some err), w2) \<Rightarrow>
                                          (Inl (BadRequest ''cannot create cluster ephemeral report: '' (Some err)), w2)
                                      | ((r, None), w2) \<Rightarrow>
                                          (Inr (ClusterEphemeralReportObj r, True), Action Modified r w2))
                                else (Inr (ClusterEphemeralReportObj cephr', True), w1))))"

definition cephrStore_Delete ::
  "'s Storage \<Rightarrow> string \<Rightarrow> (Object \<Rightarrow> err option) \<Rightarrow> WriteOptions \<Rightarrow>
     (Object \<times> bool, 's cephrState) op" where
  "cephrStore_Delete st name deleteValidation options w =
     (case getCephr st name w of
        (Inl err, w1) \<Rightarrow> (Inl (NotFound ClusterEphemeralReportsGR name), w1)
      | (Inr val, w1) \<Rightarrow>
          (case deleteValidation (case val of None \<Rightarrow> NilObject | Some r \<Rightarrow> ClusterEphemeralReportObj r) of
             Some err \<Rightarrow> (Inl (BadRequest ''invalid resource: '' (Some err)), w1)
           | None \<Rightarrow>
               (case val of
                  None \<Rightarrow> (Inl nil_deref, w1)
                | Some cephr \<Rightarrow>
                    if \<not> isDryRun options
                    then (case deleteCephr st cephr w1 of
                            (Some err, w2) \<Rightarrow>
                              (Inl (BadRequest ''failed to delete clusterephemeralreport: '' (Some err)), w2)
                          | (None, w2) \<Rightarrow> (Inr (ClusterEphemeralReportObj cephr, True), Action Deleted cephr w2))
                    else (Inr (ClusterEphemeralReportObj cephr, True), w1))))"

fun cephr_delete_items ::
  "'s Storage \<Rightarrow> (Object \<Rightarrow> err option) \<Rightarrow> WriteOptions \<Rightarrow> ClusterEphemeralReport list \<Rightarrow>
     's cephrState eop" where
  "cephr_delete_items st deleteValidation options [] w = (None, w)"
| "cephr_delete_items st deleteValidation options (cephr # cephrs) w =
     (case cephrStore_Delete st (Name cephr) deleteValidation options w of
        (Inr (obj, isDeleted), w1) \<Rightarrow>
          if isDeleted then cephr_delete_items st deleteValidation options cephrs w1
          else (Some (BadRequest (''Failed to delete cluster ephemral report: '' @ Name cephr) None), w1)
      | (Inl err, w1) \<Rightarrow>
          (Some (unless_panic err (BadRequest (''Failed to delete cluster ephemral report: '' @ Name cephr) None)), w1))"

definition cephrStore_DeleteCollection ::
  "'s Storage \<Rightarrow> (Object \<Rightarrow> err option) \<Rightarrow> WriteOptions \<Rightarrow> ListOptions option \<Rightarrow>
     (Object, 's cephrState) op" where
  "cephrStore_DeleteCollection st deleteValidation options listOptions w =
     (case cephrStore_List st listOptions w of
        (Inl err, w1) \<Rightarrow> (Inl (unless_panic err (BadRequest ''Failed to find cluster ephemeral reports'' None)), w1)
      | (Inr obj, w1) \<Rightarrow>
          (case as_ClusterEphemeralReportList obj of
             None \<Rightarrow> (Inl (BadRequest ''Failed to parse cluster ephemeral reports'' None), w1)
           | Some cephrList \<Rightarrow>
               if \<not> isDryRun options
               then (case cephr_delete_items st deleteValidation options (Items cephrList) w1 of
                       (Some err, w2) \<Rightarrow> (Inl err, w2)
                     | (None, w2) \<Rightarrow> (Inr (ClusterEphemeralReportListObj cephrList), w2))
               else (Inr (ClusterEphemeralReportListObj cephrList), w1)))"

definition cephrStore_Watch ::
  "'s Storage \<Rightarrow> ListOptions option \<Rightarrow> (ClusterEphemeralReport watch_result, 's cephrState) op" where
  "cephrStore_Watch st options w =
     (case options of
        None \<Rightarrow> (Inl nil_deref, w)
      | Some opt \<Rightarrow>
          if opt_ResourceVersion opt = [] \<or> opt_ResourceVersion opt = ''0'' then (Inr Watch, w)
          else case cephrStore_List st options w of
                 (Inl err, w1) \<Rightarrow> (Inl err, w1)
               | (Inr items, w1) \<Rightarrow>
                   (case as_ClusterEphemeralReportList items of
                      None \<Rightarrow>
                        (Inl (Errorf ''failed to convert runtime object into cluster ephemeral report list'' None), w1)
                    | Some list \<Rightarrow>
                        (Inr (WatchWithPrefix (map (\<lambda>pol. (Added, pol)) (Items list))), w1)))"

definition cephrStore_ConvertToTable :: "(int \<Rightarrow> string) \<Rightarrow> Object \<Rightarrow> Table" where
  "cephrStore_ConvertToTable age object =
     (case object of
        ClusterEphemeralReportObj t \<Rightarrow>
          addClusterEphemeralReportToTable age
            (zero_Table\<lparr>tab_ResourceVersion := ResourceVersion t, tab_SelfLink := SelfLink t\<rparr>) [t]
      | ClusterEphemeralReportListObj t \<Rightarrow>
          addClusterEphemeralReportToTable age
            (zero_Table\<lparr>tab_ResourceVersion := list_ResourceVersion t,
               tab_SelfLink := list_SelfLink t, tab_Continue := list_Continue t\<rparr>) (Items t)
      | _ \<Rightarrow> zero_Table)"

subsection \<open>As an instance of the generic handlers\<close>

definition cephr_desc :: "(string, unit, ClusterEphemeralReport) kind_desc" where
  "cephr_desc =
     \<lparr>as_r = as_ClusterEphemeralReport, obj_of = ClusterEphemeralReportObj, kd_gr = ClusterEphemeralReportsGR,
      kd_key = (\<lambda>_ n. n), kd_sel = (\<lambda>_. ()), kd_namespaced = False, kd_gen = (\<lambda>g. g + 1),
      kd_wrap = Wrapf ''could not find cluster ephemeral report in store'',
      kd_list_err = BadRequest ''failed to list resource clusterephemeralreport'' None,
      kd_bad_obj = BadRequest ''failed to validate cluster ephemeral report'' None,
      kd_no_name = AlreadyExists ClusterEphemeralReportsGR [],
      kd_create_err = (\<lambda>n err. BadRequest ''cannot create cluster ephemeral report: '' (Some err)),
      kd_update_err = (\<lambda>err. BadRequest ''cannot create cluster ephemeral report: '' (Some err)),
      kd_delete_err = (\<lambda>err. BadRequest ''failed to delete clusterephemeralreport: '' (Some err)),
      kd_coll_find = BadRequest ''Failed to find cluster ephemeral reports'' None,
      kd_coll_delete = (\<lambda>cephr. BadRequest (''Failed to delete cluster ephemral report: '' @ Name cephr) None)\<rparr>"

lemma cephr_desc_simps [simp]:
  "as_r cephr_desc = as_ClusterEphemeralReport" "obj_of cephr_desc = ClusterEphemeralReportObj" "kd_gr cephr_desc = ClusterEphemeralReportsGR"
  "kd_key cephr_desc = (\<lambda>_ n. n)" "kd_sel cephr_desc = (\<lambda>_. ())" "kd_namespaced cephr_desc = False"
  "kd_gen cephr_desc = (\<lambda>g. g + 1)"
  "kd_wrap cephr_desc = Wrapf ''could not find cluster ephemeral report in store''"
  "kd_list_err cephr_desc = BadRequest ''failed to list resource clusterephemeralreport'' None"
  "kd_bad_obj cephr_desc = BadRequest ''failed to validate cluster ephemeral report'' None"
  "kd_no_name cephr_desc = AlreadyExists ClusterEphemeralReportsGR []"
  "kd_create_err cephr_desc n err = BadRequest ''cannot create cluster ephemeral report: '' (Some err)"
  "kd_update_err cephr_desc err = BadRequest ''cannot create cluster ephemeral report: '' (Some err)"
  "kd_delete_err cephr_desc err = BadRequest ''failed to delete clusterephemeralreport: '' (Some err)"
  "kd_coll_find cephr_desc = BadRequest ''Failed to find cluster ephemeral reports'' None"
  "kd_coll_delete cephr_desc cephr = BadRequest (''Failed to delete cluster ephemral report: '' @ Name cephr) None"
  by (simp_all add: cephr_desc_def)

lemma as_cephr_simps [simp]:
  "as_ClusterEphemeralReport (ClusterEphemeralReportObj r) = Some r" "as_ClusterEphemeralReportList (ClusterEphemeralReportListObj l) = Some l"
  "as_ClusterEphemeralReport obj = Some r \<longleftrightarrow> obj = ClusterEphemeralReportObj r"
  by (auto simp: as_ClusterEphemeralReport_def as_ClusterEphemeralReportList_def split: Object.split)

abbreviation cephr_ops :: "'s Storage \<Rightarrow> ('s, string, unit, ClusterEphemeralReport) ops" where
  "cephr_ops st \<equiv> cl_ops (ClusterEphemeralReports st)"

lemma cephr_rest_kind:
  assumes "report_storage (cephr_ops st) cl_key cl_sel canon lenient gk gq good vw iv"
  shows "rest_kind (cephr_ops st) cl_key cl_sel canon lenient gk gq good vw iv cephr_desc"
  using assms by (simp add: rest_kind_def rest_kind_axioms_def cl_key_def cl_sel_def)

lemma getCephr_eq: "getCephr st name = rest_get cephr_desc (cephr_ops st) name"
  by (rule ext) (simp add: getCephr_def rest_get_def case_prod_unfold Let_def split: sum.split)

lemma listCephr_eq:
  "listCephr st w = apfst (map_sum id (\<lambda>rs. zero_List\<lparr>Items := rs\<rparr>)) (rest_list cephr_desc (cephr_ops st) () w)"
  by (simp add: listCephr_def rest_list_def case_prod_unfold Let_def split: sum.split)

lemma createCephr_eq: "createCephr st = rest_create (cephr_ops st)"
  by (intro ext) (simp add: createCephr_def rest_create_def)

lemma updateCephr_eq: "updateCephr st = rest_update (cephr_ops st)"
  by (intro ext) (simp add: updateCephr_def rest_update_def)

lemma deleteCephr_eq: "deleteCephr st r = rest_delete (cephr_ops st) (cl_key r)"
  by (rule ext) (simp add: deleteCephr_def rest_delete_def cl_key_def)

lemmas cephr_eqs = getCephr_eq listCephr_eq createCephr_eq updateCephr_eq deleteCephr_eq

lemma cephr_List_eq:
  "cephrStore_List st options w =
     apfst (map_sum id ClusterEphemeralReportListObj) (rest_List cephr_desc (cephr_ops st) [] options w)"
  by (cases options)
    (auto simp: cephrStore_List_def rest_List_def cephr_eqs desired_rv_def Let_def
      split: sum.split prod.split)

lemma cephr_Get_eq: "cephrStore_Get st name = rest_Get cephr_desc (cephr_ops st) [] name"
  unfolding cephrStore_Get_def rest_Get_def cephr_eqs cephr_desc_simps by simp

lemma cephr_admit_eq:
  "cephr_admit e r =
     (case rest_prepare cephr_desc e [] r of None \<Rightarrow> Inl (kd_no_name cephr_desc) | Some r' \<Rightarrow> Inr r')"
  by (auto simp: cephr_admit_def rest_prepare_def Let_def)

lemma cephr_admit_Inr: "cephr_admit e r = Inr r' \<longleftrightarrow> rest_prepare cephr_desc e [] r = Some r'"
  by (simp add: cephr_admit_eq split: option.split)

lemma cephr_Create_eq: "cephrStore_Create st e = rest_Create cephr_desc (cephr_ops st) e []"
  unfolding cephrStore_Create_def rest_Create_def cephr_eqs cephr_admit_eq cephr_desc_simps
  by (intro ext) (simp split: option.split)

lemma cephr_adjust_eq: "cephr_adjust = rest_adjust cephr_desc []"
  by (intro ext) (simp add: cephr_adjust_def rest_adjust_def Let_def)

lemma cephr_Update_eq: "cephrStore_Update st = rest_Update cephr_desc (cephr_ops st) []"
  unfolding cephrStore_Update_def rest_Update_def cephr_eqs cephr_adjust_eq cephr_desc_simps by (intro ext) simp

lemma cephr_Delete_eq: "cephrStore_Delete st = rest_Delete cephr_desc (cephr_ops st) cl_key []"
  unfolding cephrStore_Delete_def rest_Delete_def cephr_eqs cephr_desc_simps by (intro ext) simp

lemma cephr_delete_items_eq:
  "cephr_delete_items st val opts rs w =
     rest_delete_items cephr_desc (cephr_ops st) cl_key [] val opts rs w"
proof (induction rs arbitrary: w)
  case (Cons cephr rs)
  show ?case
    unfolding cephr_delete_items.simps rest_delete_items.simps cephr_Delete_eq cephr_desc_simps Cons.IH
    by (rule refl)
qed simp

lemma cephr_DeleteCollection_eq:
  "cephrStore_DeleteCollection st val opts lopts w =
     apfst (map_sum id ClusterEphemeralReportListObj)
       (rest_DeleteCollection cephr_desc (cephr_ops st) cl_key [] val opts lopts w)"
  by (auto simp: cephrStore_DeleteCollection_def rest_DeleteCollection_def cephr_List_eq cephr_delete_items_eq
      split: sum.split prod.split option.split)

lemma cephr_Watch_eq: "cephrStore_Watch st = rest_Watch cephr_desc (cephr_ops st) []"
  by (intro ext)
    (auto simp: cephrStore_Watch_def rest_Watch_def cephr_List_eq split: sum.split prod.split option.split)

subsection \<open>As a state machine\<close>

text \<open>
  One request with arguments that the storage contract speaks about; an update names the report it
  updates and is not forced.
\<close>

inductive cephr_step ::
  "'s Storage \<Rightarrow> (string \<Rightarrow> bool) \<Rightarrow> (unit \<Rightarrow> bool) \<Rightarrow> (ClusterEphemeralReport \<Rightarrow> bool) \<Rightarrow> 's cephrState \<Rightarrow> 's cephrState \<Rightarrow> bool"
  for st gk gq good where
  Get: "gk n \<Longrightarrow> cephr_step st gk gq good w (snd (cephrStore_Get st n w))"
| List: "gq () \<Longrightarrow> cephr_step st gk gq good w (snd (cephrStore_List st lopts w))"
| Watch: "gq () \<Longrightarrow> cephr_step st gk gq good w (snd (cephrStore_Watch st lopts w))"
| Create: "(\<And>r0 r1. as_ClusterEphemeralReport obj = Some r0 \<Longrightarrow> cephr_admit e r0 = Inr r1 \<Longrightarrow>
       good (stamped e (store_versioning w) r1)) \<Longrightarrow>
     cephr_step st gk gq good w (snd (cephrStore_Create st e obj val opts w))"
| Update: "gk n \<Longrightarrow>
     (\<And>old r0. as_ClusterEphemeralReport (fst (updatedObj old)) = Some r0 \<Longrightarrow>
       cl_key (cephr_adjust r0) = n \<and>
       good (restamped (store_versioning w) (cephr_adjust r0))) \<Longrightarrow>
     cephr_step st gk gq good w (snd (cephrStore_Update st n updatedObj uval False opts w))"
| Delete: "gk n \<Longrightarrow> cephr_step st gk gq good w (snd (cephrStore_Delete st n val opts w))"
| DeleteCollection: "gq () \<Longrightarrow>
     cephr_step st gk gq good w (snd (cephrStore_DeleteCollection st val opts lopts w))"

inductive_cases cephr_step_cases: "cephr_step st gk gq good w w'"

lemma cephr_step_rest:
  assumes "cephr_step st gk gq good w w'"
  shows "rest_step cephr_desc (cephr_ops st) cl_key gk gq good w w'"
  using assms
proof cases
  case (Get n)
  then show ?thesis using StepGet [of gk cephr_desc "[]" n] by (simp add: cephr_Get_eq)
next
  case (List lopts)
  then show ?thesis using StepList [of gq cephr_desc "[]"] by (simp add: cephr_List_eq)
next
  case (Watch lopts)
  then show ?thesis using StepWatch [of gq cephr_desc "[]"] by (simp add: cephr_Watch_eq)
next
  case (Create obj e val opts)
  then show ?thesis using StepCreate [of cephr_desc obj e "[]" good w] by (simp add: cephr_Create_eq cephr_admit_Inr)
next
  case (Update n updatedObj uval opts)
  then show ?thesis
    using StepUpdate [of gk cephr_desc "[]" n updatedObj cl_key good w]
    by (simp add: cephr_Update_eq cephr_adjust_eq)
next
  case (Delete n val opts)
  then show ?thesis using StepDelete [of gk cephr_desc "[]" n] by (simp add: cephr_Delete_eq)
next
  case (DeleteCollection val opts lopts)
  then show ?thesis
    using StepDeleteCollection [of gq cephr_desc "[]"] by (simp add: cephr_DeleteCollection_eq)
qed

lemma cephr_history_rest:
  assumes "(cephr_step st gk gq good)\<^sup>*\<^sup>* w w'"
  shows "(rest_step cephr_desc (cephr_ops st) cl_key gk gq good)\<^sup>*\<^sup>* w w'"
  using assms by (rule rtranclp_mono [THEN predicate2D, rotated]) (auto intro: cephr_step_rest)

subsection \<open>Properties\<close>

text \<open>
  C32. A create request that passes validation, on any storage that meets the contract: under a free
  key the report is stored, returned and announced as Added, with the served-by annotation,
  a generation one above the one the client sent and the next version; under a taken key the request answers
  BadRequest with the error of the storage and neither the contents nor the log change.
\<close>

theorem cephr_create_stores:
  assumes "report_storage (cephr_ops st) cl_key cl_sel canon lenient gk gq good vw iv"
    and "iv (store_db w)"
    and "strict_err (val (ClusterEphemeralReportObj cephr)) (FieldValidation opts) = None"
    and "cephr_admit e cephr = Inr r1" and "\<not> isDryRun opts"
    and "r = stamped e (store_versioning w) r1" and "good r"
    and "cephrStore_Create st e (ClusterEphemeralReportObj cephr) val opts w = (x, w')"
  shows "(if vw (store_db w) (cl_key r) = None
      then x = Inr (ClusterEphemeralReportObj r) \<and> vw (store_db w') = (vw (store_db w))(cl_key r \<mapsto> canon r) \<and>
           broadcast w' = broadcast w @ [(Added, r)]
      else (\<exists>err. x = Inl (BadRequest ''cannot create cluster ephemeral report: '' (Some err))) \<and> vw (store_db w') = vw (store_db w) \<and>
           broadcast w' = broadcast w) \<and>
    served_by r \<and> Generation r = Generation cephr + 1 \<and> ResourceVersion r = FormatUint (version (store_versioning w)) \<and>
    iv (store_db w') \<and> store_versioning w' = bump (store_versioning w)"
proof -
  have "served_by r \<and> Generation r = Generation cephr + 1 \<and> ResourceVersion r = FormatUint (version (store_versioning w))"
    using assms(4,6)
    by (auto simp: stamped_def cephr_admit_def served_by_def labelReports_def Let_def split: if_splits)
  then show ?thesis
    using rest_kind.Create_spec [OF cephr_rest_kind [OF assms(1)] assms(2),
        of val "ClusterEphemeralReportObj cephr" opts cephr e "[]" r1 r x w'] assms(3-8)
    by (simp add: cephr_Create_eq cephr_admit_Inr stamped_def split: if_splits)
qed

theorem cephr_create_stores_witness:
  "\<exists>r. broadcast (snd (cephrStore_Create ephr_lists sample_env (ClusterEphemeralReportObj sample_ephr) accept
       sample_opts (sample_state []))) = [(Added, r)] \<and> ResourceVersion r = ''5''"
proof -
  obtain r1 where r1: "cephr_admit sample_env sample_ephr = Inr r1"
    by (simp add: cephr_admit_def Let_def)
  show ?thesis
    using cephr_create_stores [OF lists_contract(4) _ _ r1 _ refl _ prod.collapse [symmetric],
        where w = "sample_state []" and val = accept and opts = sample_opts]
    by (simp add: num_eval)
qed

text \<open>
  Whatever requests a client makes on cluster ephemeral reports, the events broadcast on the
  way, replayed on the contents at the start, give the contents at the end; the storage stays
  sound, and if all stored reports carry the served-by annotation at the start, they still do.
\<close>

lemma cephr_events_replay:
  assumes "report_storage (cephr_ops st) cl_key cl_sel canon lenient gk gq good vw iv"
    and "iv (store_db w)" and "(cephr_step st gk gq good)\<^sup>*\<^sup>* w w'" and "meta_kept good canon"
    and "all_served vw w"
  shows "iv (store_db w') \<and> all_served vw w' \<and>
    (\<exists>evs. broadcast w' = broadcast w @ evs \<and>
           vw (store_db w') = fold (apply_event cl_key canon) evs (vw (store_db w)))"
  using rest_kind.history_tracks [OF cephr_rest_kind [OF assms(1)] cephr_history_rest [OF assms(3)] assms(2)]
    rest_kind.history_served [OF cephr_rest_kind [OF assms(1)] cephr_history_rest [OF assms(3)] assms(2,4,5)]
  by (simp add: tracks_def)

end
