(* ===== verification/Install.thy ===== *)
theory Install
  imports ApiPolr ApiCpolr ApiEphr ApiCephr
begin

section \<open>Installing the API groups\<close>

text \<open>
  \<^verbatim>\<open>pkg/api/install.go\<close>: which REST store serves which resource of which group. The generic API server
  that groups are installed into is a parameter, and so are the scheme and the functions of the API
  machinery and of the report packages that register types with it.
\<close>

datatype rest_storage = PolrREST | CpolrREST | EphrREST | CephrREST

record 'i APIGroupInfo =
  group_name :: string
  VersionedResourcesStorageMap :: "string \<rightharpoonup> (string \<rightharpoonup> rest_storage)"
  NegotiatedSerializer :: "'i list"

definition BuildPolicyReports ::
  "('i \<Rightarrow> string) \<Rightarrow> 'i list \<Rightarrow> rest_storage \<Rightarrow> rest_storage \<Rightarrow> 'i APIGroupInfo" where
  "BuildPolicyReports mediaType codecs polr cpolr =
     \<lparr>group_name = ''wgpolicyk8s.io'',
      VersionedResourcesStorageMap =
        [''v1alpha2'' \<mapsto> [''policyreports'' \<mapsto> polr, ''clusterpolicyreports'' \<mapsto> cpolr]],
      NegotiatedSerializer = DefaultSubsetNegotiatedSerializer mediaType codecs\<rparr>"

definition BuildEphemeralReports ::
  "('i \<Rightarrow> string) \<Rightarrow> 'i list \<Rightarrow> rest_storage \<Rightarrow> rest_storage \<Rightarrow> 'i APIGroupInfo" where
  "BuildEphemeralReports mediaType codecs ephr cephr =
     \<lparr>group_name = ''reports.kyverno.io'',
      VersionedResourcesStorageMap =
        [''v1'' \<mapsto> [''ephemeralreports'' \<mapsto> ephr, ''clusterephemeralreports'' \<mapsto> cephr]],
      NegotiatedSerializer = DefaultSubsetNegotiatedSerializer mediaType codecs\<rparr>"

definition Install ::
  "('i \<Rightarrow> string) \<Rightarrow> 'i list \<Rightarrow> ('i APIGroupInfo \<Rightarrow> 'g eop) \<Rightarrow> 'g eop" where
  "Install mediaType codecs InstallAPIGroup server =
     (case InstallAPIGroup (BuildPolicyReports mediaType codecs PolrREST CpolrREST) server of
        (Some err, server1) \<Rightarrow> (Some err, server1)
      | (None, server1) \<Rightarrow>
          (case InstallAPIGroup (BuildEphemeralReports mediaType codecs EphrREST CephrREST) server1 of
             (Some err, server2) \<Rightarrow> (Some err, server2)
           | (None, server2) \<Rightarrow> (None, server2)))"

subsection \<open>Registering the types\<close>

record GroupVersion =
  gv_Group :: string
  gv_Version :: string

record 'sc scheme_lib =
  AddKnownTypes :: "GroupVersion \<Rightarrow> string list \<Rightarrow> 'sc \<Rightarrow> 'sc" \<comment> \<open>the types by their names\<close>
  v1alpha2_AddToScheme :: "'sc eop"
  reportsv1_Install :: "'sc eop"
  SetVersionPriority :: "GroupVersion \<Rightarrow> 'sc eop"
  AddToGroupVersion :: "GroupVersion \<Rightarrow> 'sc \<Rightarrow> 'sc"

text \<open>A scheme builder runs its functions in order and stops at the first error.\<close>

fun SchemeBuilder_AddToScheme :: "'sc eop list \<Rightarrow> 'sc eop" where
  "SchemeBuilder_AddToScheme [] s = (None, s)"
| "SchemeBuilder_AddToScheme (f # fs) s =
     (case f s of (Some err, s1) \<Rightarrow> (Some err, s1) | (None, s1) \<Rightarrow> SchemeBuilder_AddToScheme fs s1)"

text \<open>\<^verbatim>\<open>utilruntime.Must\<close>: go on with the next statement, or panic.\<close>

definition Must :: "'sc eop \<Rightarrow> ('sc \<Rightarrow> err + 'sc) \<Rightarrow> 'sc \<Rightarrow> err + 'sc" where
  "Must f k s = (case f s of (Some err, s1) \<Rightarrow> Inl (Panic ''Must'') | (None, s1) \<Rightarrow> k s1)"

definition installWgPolicyTypesInternal :: "'sc scheme_lib \<Rightarrow> 'sc \<Rightarrow> err + err option \<times> 'sc" where
  "installWgPolicyTypesInternal lib s =
     (let schemeGroupVersion = \<lparr>gv_Group = ''wgpolicyk8s.io'', gv_Version = ''__internal''\<rparr>;
          addKnownTypes = (\<lambda>scheme. (None, AddKnownTypes lib schemeGroupVersion
            [''ClusterPolicyReport'', ''PolicyReport'', ''ClusterPolicyReportList'', ''PolicyReportList''] scheme))
      in map_sum id (Pair None) (Must (SchemeBuilder_AddToScheme [addKnownTypes]) Inr s))"

definition init_Scheme :: "'sc scheme_lib \<Rightarrow> 'sc \<Rightarrow> err + 'sc" where
  "init_Scheme lib s =
     (case installWgPolicyTypesInternal lib s of
        Inl p \<Rightarrow> Inl p
      | Inr (err, s1) \<Rightarrow>
          Must (\<lambda>_. (err, s1))
            (Must (v1alpha2_AddToScheme lib)
              (Must (SetVersionPriority lib \<lparr>gv_Group = ''wgpolicyk8s.io'', gv_Version = ''v1alpha2''\<rparr>)
                (\<lambda>s2. Must (reportsv1_Install lib)
                  (Must (SetVersionPriority lib \<lparr>gv_Group = ''reports.kyverno.io'', gv_Version = ''v1''\<rparr>) Inr)
                  (AddToGroupVersion lib \<lparr>gv_Group = [], gv_Version = ''v1''\<rparr> s2)))) s1)"

text \<open>
  The internal types always go in first, without an error, and the process starts just when the four
  calls that can fail succeed in their order.
\<close>

lemma init_Scheme_starts:
  "(\<exists>s'. init_Scheme lib s = Inr s') \<longleftrightarrow>
     (\<exists>s1 s2 s3 s4.
        v1alpha2_AddToScheme lib
          (AddKnownTypes lib \<lparr>gv_Group = ''wgpolicyk8s.io'', gv_Version = ''__internal''\<rparr>
             [''ClusterPolicyReport'', ''PolicyReport'', ''ClusterPolicyReportList'', ''PolicyReportList''] s) =
          (None, s1) \<and>
        SetVersionPriority lib \<lparr>gv_Group = ''wgpolicyk8s.io'', gv_Version = ''v1alpha2''\<rparr> s1 = (None, s2) \<and>
        reportsv1_Install lib (AddToGroupVersion lib \<lparr>gv_Group = [], gv_Version = ''v1''\<rparr> s2) = (None, s3) \<and>
        SetVersionPriority lib \<lparr>gv_Group = ''reports.kyverno.io'', gv_Version = ''v1''\<rparr> s3 = (None, s4))"
  by (auto simp: init_Scheme_def installWgPolicyTypesInternal_def Must_def Let_def
      split: prod.splits option.splits)

subsection \<open>What is served where\<close>

definition serves :: "'i APIGroupInfo \<Rightarrow> rest_storage \<Rightarrow> GroupResource \<Rightarrow> bool" where
  "serves info r g \<longleftrightarrow>
     gr_Group g = group_name info \<and>
     (\<exists>v m. VersionedResourcesStorageMap info v = Some m \<and> m (gr_Resource g) = Some r)"

text \<open>The resource a store names in its errors.\<close>

fun error_resource :: "rest_storage \<Rightarrow> GroupResource" where
  "error_resource PolrREST = PolicyReportsGR"
| "error_resource CpolrREST = ClusterPolicyReportsGR"
| "error_resource EphrREST = EphemeralReportsGR"
| "error_resource CephrREST = ClusterEphemeralReportsGR"

text \<open>
  Three stores name, in their errors, the resource they serve; the store of cluster policy reports
  names a resource of its group that does not exist.
\<close>

lemma error_resources:
  "serves (BuildPolicyReports mt cs PolrREST CpolrREST) PolrREST (error_resource PolrREST)"
  "serves (BuildEphemeralReports mt cs EphrREST CephrREST) EphrREST (error_resource EphrREST)"
  "serves (BuildEphemeralReports mt cs EphrREST CephrREST) CephrREST (error_resource CephrREST)"
  "\<not> serves (BuildPolicyReports mt cs PolrREST CpolrREST) r (error_resource CpolrREST)"
  by (auto simp: serves_def BuildPolicyReports_def BuildEphemeralReports_def PolicyReportsGR_def
      EphemeralReportsGR_def ClusterEphemeralReportsGR_def ClusterPolicyReportsGR_def
      wgpolicy_Resource_def reportsv1_Resource_def split: if_splits)

lemma cpolr_missing_resource:
  assumes "report_storage (cpolr_ops st) cl_key cl_sel canon lenient gk gq good vw iv"
    and "iv (store_db w)" and "gk n" and "vw (store_db w) n = None"
  shows "fst (cpolrStore_Get st n w) = Inl (NotFound (error_resource CpolrREST) n)"
  using rest_kind.Get_spec(1) [OF cpolr_rest_kind [OF assms(1)] assms(2), of "[]" n] assms(3,4)
  by (simp add: cpolr_Get_eq)

text \<open>No group accepts or sends protocol buffers.\<close>

lemma no_protobuf:
  "list_all (\<lambda>i. mt i \<noteq> ''application/vnd.kubernetes.protobuf'')
     (NegotiatedSerializer (BuildPolicyReports mt cs p c)) \<and>
   list_all (\<lambda>i. mt i \<noteq> ''application/vnd.kubernetes.protobuf'')
     (NegotiatedSerializer (BuildEphemeralReports mt cs p c))"
  by (simp add: BuildPolicyReports_def BuildEphemeralReports_def DefaultSubsetNegotiatedSerializer_def
      SupportedMediaTypes_filter NoProtobuf_def list_all_iff)

subsection \<open>Tables\<close>

text \<open>
  C40. A table made of a list of reports has one row per report, in order, each with a cell for every
  column; a table made of one report has its row; anything else gives an empty table.
\<close>

theorem tables_well_formed:
  "(map row_Object (Rows (polrStore_ConvertToTable age (PolicyReportListObj l1))) =
      map PolicyReportObj (Items l1) \<and>
    map row_Object (Rows (cpolrStore_ConvertToTable age (ClusterPolicyReportListObj l2))) =
      map ClusterPolicyReportObj (Items l2) \<and>
    map row_Object (Rows (ephrStore_ConvertToTable age (EphemeralReportListObj l3))) =
      map EphemeralReportObj (Items l3) \<and>
    map row_Object (Rows (cephrStore_ConvertToTable age (ClusterEphemeralReportListObj l4))) =
      map ClusterEphemeralReportObj (Items l4)) \<and>
   regular (polrStore_ConvertToTable age obj) \<and> regular (cpolrStore_ConvertToTable age obj) \<and>
   regular (ephrStore_ConvertToTable age obj) \<and> regular (cephrStore_ConvertToTable age obj)"
proof -
  have empty: "Rows (zero_Table\<lparr>tab_ResourceVersion := a, tab_SelfLink := b\<rparr>) = []"
    "Rows (zero_Table\<lparr>tab_ResourceVersion := a, tab_SelfLink := b, tab_Continue := c\<rparr>) = []"
    "regular zero_Table" for a b c
    by (simp_all add: zero_Table_def regular_def)
  have "regular (polrStore_ConvertToTable age obj)"
    by (cases obj) (auto simp: polrStore_ConvertToTable_def empty intro!: polr_table_regular
        simp del: addPolicyReportToTable.simps)
  moreover have "regular (cpolrStore_ConvertToTable age obj)"
    by (cases obj) (auto simp: cpolrStore_ConvertToTable_def empty intro!: cpolr_table_regular
        simp del: addClusterPolicyReportToTable.simps)
  moreover have "regular (ephrStore_ConvertToTable age obj)"
    by (cases obj) (auto simp: ephrStore_ConvertToTable_def empty intro!: ephr_table_regular
        simp del: addEphemeralReportToTable.simps)
  moreover have "regular (cephrStore_ConvertToTable age obj)"
    by (cases obj) (auto simp: cephrStore_ConvertToTable_def empty intro!: cephr_table_regular
        simp del: addClusterEphemeralReportToTable.simps)
  ultimately show ?thesis
    by (simp add: polrStore_ConvertToTable_def cpolrStore_ConvertToTable_def
        ephrStore_ConvertToTable_def cephrStore_ConvertToTable_def polr_table_rows cpolr_table_rows
        ephr_table_rows cephr_table_rows empty)
qed

end
