(* ===== verification/System.thy ===== *)
theory System
  imports ApiPolr ApiCpolr ApiEphr ApiCephr Migration
begin

section \<open>The four REST stores together\<close>

text \<open>
  The server as a whole: the four REST stores of \<^verbatim>\<open>api.Install\<close> (\<^verbatim>\<open>pkg/api/install.go\<close>) share one
  storage and one version counter and have a broadcaster each. A step is a request to one of the
  stores, or an event that a goroutine of the migration copies; requests and goroutines interleave
  in any order. The locale \<open>server_storage\<close> is what a back end promises to the server: the
  contract for each kind, and that the kinds do not disturb each other.
\<close>

record 's server_state =
  srv_db :: 's
  srv_versioning :: resourceVersion
  polr_events :: "PolicyReport event list"
  cpolr_events :: "ClusterPolicyReport event list"
  ephr_events :: "EphemeralReport event list"
  cephr_events :: "ClusterEphemeralReport event list"

text \<open>What a store sees of the server, and putting back what it has made of it.\<close>

definition polr_part :: "'s server_state \<Rightarrow> 's polrState" where
  "polr_part w = \<lparr>store_db = srv_db w, store_versioning = srv_versioning w, broadcast = polr_events w\<rparr>"

definition cpolr_part :: "'s server_state \<Rightarrow> 's cpolrState" where
  "cpolr_part w = \<lparr>store_db = srv_db w, store_versioning = srv_versioning w, broadcast = cpolr_events w\<rparr>"

definition ephr_part :: "'s server_state \<Rightarrow> 's ephrState" where
  "ephr_part w = \<lparr>store_db = srv_db w, store_versioning = srv_versioning w, broadcast = ephr_events w\<rparr>"

definition cephr_part :: "'s server_state \<Rightarrow> 's cephrState" where
  "cephr_part w = \<lparr>store_db = srv_db w, store_versioning = srv_versioning w, broadcast = cephr_events w\<rparr>"

definition put_polr :: "'s polrState \<Rightarrow> 's server_state \<Rightarrow> 's server_state" where
  "put_polr p w =
     w\<lparr>srv_db := store_db p, srv_versioning := store_versioning p, polr_events := broadcast p\<rparr>"

definition put_cpolr :: "'s cpolrState \<Rightarrow> 's server_state \<Rightarrow> 's server_state" where
  "put_cpolr p w =
     w\<lparr>srv_db := store_db p, srv_versioning := store_versioning p, cpolr_events := broadcast p\<rparr>"

definition put_ephr :: "'s ephrState \<Rightarrow> 's server_state \<Rightarrow> 's server_state" where
  "put_ephr p w =
     w\<lparr>srv_db := store_db p, srv_versioning := store_versioning p, ephr_events := broadcast p\<rparr>"

definition put_cephr :: "'s cephrState \<Rightarrow> 's server_state \<Rightarrow> 's server_state" where
  "put_cephr p w =
     w\<lparr>srv_db := store_db p, srv_versioning := store_versioning p, cephr_events := broadcast p\<rparr>"

lemmas parts = polr_part_def cpolr_part_def ephr_part_def cephr_part_def
  put_polr_def put_cpolr_def put_ephr_def put_cephr_def

subsection \<open>Steps\<close>

text \<open>What a back end says about a kind: its legal keys, selections and reports, and its contents.\<close>

record ('s, 'k, 'q, 'r) kind_model =
  km_canon :: "'r \<Rightarrow> 'r"
  km_key :: "'k \<Rightarrow> bool"
  km_sel :: "'q \<Rightarrow> bool"
  km_good :: "'r \<Rightarrow> bool"
  km_view :: "'s \<Rightarrow> 'k \<rightharpoonup> 'r"

type_synonym 's polr_model = "('s, string \<times> string, string, PolicyReport) kind_model"
type_synonym 's cpolr_model = "('s, string, unit, ClusterPolicyReport) kind_model"
type_synonym 's ephr_model = "('s, string \<times> string, string, EphemeralReport) kind_model"
type_synonym 's cephr_model = "('s, string, unit, ClusterEphemeralReport) kind_model"

text \<open>What a report of each kind looks like after a round trip through the storage.\<close>

record canons =
  polr_canon :: "PolicyReport \<Rightarrow> PolicyReport"
  cpolr_canon :: "ClusterPolicyReport \<Rightarrow> ClusterPolicyReport"
  ephr_canon :: "EphemeralReport \<Rightarrow> EphemeralReport"
  cephr_canon :: "ClusterEphemeralReport \<Rightarrow> ClusterEphemeralReport"

inductive server_step ::
  "'s Storage \<Rightarrow> 's polr_model \<Rightarrow> 's cpolr_model \<Rightarrow> 's ephr_model \<Rightarrow> 's cephr_model \<Rightarrow>
     's server_state \<Rightarrow> 's server_state \<Rightarrow> bool"
  for st M1 M2 M3 M4 where
  Polr: "polr_step st (km_key M1) (km_sel M1) (km_good M1) (polr_part w) p \<Longrightarrow>
     server_step st M1 M2 M3 M4 w (put_polr p w)"
| Cpolr: "cpolr_step st (km_key M2) (km_sel M2) (km_good M2) (cpolr_part w) q \<Longrightarrow>
     server_step st M1 M2 M3 M4 w (put_cpolr q w)"
| Ephr: "ephr_step st (km_key M3) (km_sel M3) (km_good M3) (ephr_part w) r \<Longrightarrow>
     server_step st M1 M2 M3 M4 w (put_ephr r w)"
| Cephr: "cephr_step st (km_key M4) (km_sel M4) (km_good M4) (cephr_part w) s \<Longrightarrow>
     server_step st M1 M2 M3 M4 w (put_cephr s w)"

inductive_cases server_step_cases: "server_step st M1 M2 M3 M4 w w'"

text \<open>
  A goroutine of the migration copies an event of a report without the annotation, in the middle of
  everything else.
\<close>

inductive watcher_step ::
  "'s Storage \<Rightarrow> 's polr_model \<Rightarrow> 's cpolr_model \<Rightarrow> 's ephr_model \<Rightarrow> 's cephr_model \<Rightarrow>
     's server_state \<Rightarrow> 's server_state \<Rightarrow> bool"
  for st M1 M2 M3 M4 where
  WatchPolr: "\<not> annotated a \<Longrightarrow> km_good M1 (annotate a) \<Longrightarrow>
     watcher_step st M1 M2 M3 M4 w
       (w\<lparr>srv_db := copy_event (nCreate (PolicyReports st)) (nUpdate (PolicyReports st)) (t, a) (srv_db w)\<rparr>)"
| WatchCpolr: "\<not> annotated b \<Longrightarrow> km_good M2 (annotate b) \<Longrightarrow>
     watcher_step st M1 M2 M3 M4 w
       (w\<lparr>srv_db := copy_event (cCreate (ClusterPolicyReports st)) (cUpdate (ClusterPolicyReports st))
                      (t, b) (srv_db w)\<rparr>)"
| WatchEphr: "\<not> annotated c \<Longrightarrow> km_good M3 (annotate c) \<Longrightarrow>
     watcher_step st M1 M2 M3 M4 w
       (w\<lparr>srv_db := copy_event (nCreate (EphemeralReports st)) (nUpdate (EphemeralReports st))
                      (t, c) (srv_db w)\<rparr>)"
| WatchCephr: "\<not> annotated d \<Longrightarrow> km_good M4 (annotate d) \<Longrightarrow>
     watcher_step st M1 M2 M3 M4 w
       (w\<lparr>srv_db := copy_event (cCreate (ClusterEphemeralReports st)) (cUpdate (ClusterEphemeralReports st))
                      (t, d) (srv_db w)\<rparr>)"

inductive_cases watcher_step_cases: "watcher_step st M1 M2 M3 M4 w w'"

subsection \<open>A contract with more in its invariant\<close>

text \<open>
  If the calls of a storage keep a property, it can be made part of the invariant. With \<open>P\<close> a
  statement about the contents of another kind, this carries the isolation of the kinds from the
  calls of a storage to the requests that make them.
\<close>

lemma storage_strengthen:
  assumes "report_storage S key sel canon lenient gk gq good vw iv"
    and P: "\<And>s c. iv s \<Longrightarrow> P s \<Longrightarrow> good_cmd gk gq good c \<Longrightarrow> P (snd (do_cmd S c s))"
  shows "report_storage S key sel canon lenient gk gq good vw (\<lambda>s. iv s \<and> P s)"
proof -
  have P': "gk k \<Longrightarrow> iv s \<Longrightarrow> P s \<Longrightarrow> P (snd (getK S k s))"
    "gq q \<Longrightarrow> iv s \<Longrightarrow> P s \<Longrightarrow> P (snd (listQ S q s))"
    "good r \<Longrightarrow> iv s \<Longrightarrow> P s \<Longrightarrow> P (snd (createR S (Some r) s))"
    "good r \<Longrightarrow> iv s \<Longrightarrow> P s \<Longrightarrow> P (snd (updateR S (Some r) s))"
    "gk k \<Longrightarrow> iv s \<Longrightarrow> P s \<Longrightarrow> P (snd (deleteK S k s))" for k q r s
    using P [of s "GetCmd k"] P [of s "ListCmd q"] P [of s "CreateCmd r"] P [of s "UpdateCmd r"]
      P [of s "DeleteCmd k"]
    by (simp_all add: case_prod_unfold Let_def)
  show ?thesis
  proof (rule report_storage.intro, goal_cases)
    case (1 s k)
    then show ?case using report_storage.get_law [OF assms(1), of s k] P'(1) by auto
  next
    case (2 s q)
    then show ?case using report_storage.list_law [OF assms(1), of s q] P'(2) by auto
  next
    case (3 s r)
    then show ?case using report_storage.create_law [OF assms(1), of s r] P'(3) by auto
  next
    case (4 s r)
    then show ?case using report_storage.update_law [OF assms(1), of s r] P'(4) by auto
  next
    case (5 s k)
    then show ?case using report_storage.delete_law [OF assms(1), of s k] P'(5) by auto
  next
    case (6 s k r)
    then show ?case using report_storage.stored_key [OF assms(1), of s k r] by simp
  next
    case (7 r)
    then show ?case using report_storage.good_key_of [OF assms(1)] by simp
  next
    case (8 s r)
    then show ?case using report_storage.key_canon [OF assms(1), of s r] by simp
  qed
qed

definition same3 :: "('s \<Rightarrow> 'x) \<Rightarrow> ('s \<Rightarrow> 'y) \<Rightarrow> ('s \<Rightarrow> 'z) \<Rightarrow> 's \<Rightarrow> 's \<Rightarrow> bool" where
  "same3 f g h s s' \<longleftrightarrow> f s' = f s \<and> g s' = g s \<and> h s' = h s"

lemma isolated_contract:
  assumes "report_storage S key sel canon lenient gk gq good vw iv"
    and frame: "\<And>s c. iv s \<Longrightarrow> good_cmd gk gq good c \<Longrightarrow> same3 f g h s (snd (do_cmd S c s))"
  shows "report_storage S key sel canon lenient gk gq good vw (\<lambda>s. iv s \<and> same3 f g h s0 s)"
  using assms(1) by (rule storage_strengthen) (use frame in \<open>auto simp: same3_def\<close>)

lemma isolated_step:
  assumes kind: "\<And>iv. report_storage S key sel canon lenient gk gq good vw iv \<Longrightarrow>
      rest_kind S key sel canon lenient gk gq good vw iv d"
    and con: "report_storage S key sel canon lenient gk gq good vw iv"
    and frame: "\<And>s c. iv s \<Longrightarrow> good_cmd gk gq good c \<Longrightarrow> same3 f g h s (snd (do_cmd S c s))"
    and step: "rest_step d S key gk gq good p p'" and "iv (store_db p)"
  shows "tracks key canon vw iv p p' \<and> same3 f g h (store_db p) (store_db p') \<and>
    (shrinks vw p p' \<or> writes_one key canon good vw p p')"
proof -
  let ?iv = "\<lambda>s. iv s \<and> same3 f g h (store_db p) s"
  note rk = kind [OF isolated_contract [OF con frame, of "store_db p"]]
  have inv: "?iv (store_db p)" using assms(5) by (simp add: same3_def)
  have "tracks key canon vw ?iv p p'"
    by (rule rest_kind.step_tracks [OF rk step]) (use inv in auto)
  moreover have "shrinks vw p p' \<or> writes_one key canon good vw p p'"
    by (rule rest_kind.step_changes [OF rk step]) (use inv in auto)
  ultimately show ?thesis by (auto simp: tracks_def)
qed

lemma isolated_copy:
  assumes con: "report_storage S key sel canon lenient gk gq good vw iv"
    and frame: "\<And>s c. iv s \<Longrightarrow> good_cmd gk gq good c \<Longrightarrow> same3 f g h s (snd (do_cmd S c s))"
    and key: "\<And>r. key (annotate r) = key r" and good: "good (annotate r)" and "iv s"
  shows "iv (copy_event (createR S) (updateR S) (t, r) s) \<and>
    same3 f g h s (copy_event (createR S) (updateR S) (t, r) s) \<and>
    (vw (copy_event (createR S) (updateR S) (t, r) s) = vw s \<or>
     vw (copy_event (createR S) (updateR S) (t, r) s) = (vw s)(key r \<mapsto> canon (annotate r)))"
proof -
  note con' = isolated_contract [OF con frame, of s]
  have inv: "iv s \<and> same3 f g h s s" using assms(5) by (simp add: same3_def)
  from report_storage.create_law [OF con' inv good] report_storage.update_law [OF con' inv good] inv key
  show ?thesis by (cases t) (auto split: if_splits)
qed

subsection \<open>Invariants of the whole server\<close>

text \<open>The contents of every kind are what the kind's events make of the contents before.\<close>

definition server_tracks ::
  "'s polr_model \<Rightarrow> 's cpolr_model \<Rightarrow> 's ephr_model \<Rightarrow> 's cephr_model \<Rightarrow> ('s \<Rightarrow> bool) \<Rightarrow>
     's server_state \<Rightarrow> 's server_state \<Rightarrow> bool" where
  "server_tracks M1 M2 M3 M4 iv w w' \<longleftrightarrow>
     tracks ns_key (km_canon M1) (km_view M1) iv (polr_part w) (polr_part w') \<and>
     tracks cl_key (km_canon M2) (km_view M2) iv (cpolr_part w) (cpolr_part w') \<and>
     tracks ns_key (km_canon M3) (km_view M3) iv (ephr_part w) (ephr_part w') \<and>
     tracks cl_key (km_canon M4) (km_view M4) iv (cephr_part w) (cephr_part w')"

definition server_served ::
  "'s polr_model \<Rightarrow> 's cpolr_model \<Rightarrow> 's ephr_model \<Rightarrow> 's cephr_model \<Rightarrow> 's server_state \<Rightarrow> bool" where
  "server_served M1 M2 M3 M4 w \<longleftrightarrow>
     all_served (km_view M1) (polr_part w) \<and> all_served (km_view M2) (cpolr_part w) \<and>
     all_served (km_view M3) (ephr_part w) \<and> all_served (km_view M4) (cephr_part w)"

text \<open>The resource versions of all stored reports, whatever their kind.\<close>

datatype server_key =
    PolrKey "string \<times> string" | CpolrKey string | EphrKey "string \<times> string" | CephrKey string

definition server_versions ::
  "'s polr_model \<Rightarrow> 's cpolr_model \<Rightarrow> 's ephr_model \<Rightarrow> 's cephr_model \<Rightarrow> 's \<Rightarrow> server_key \<rightharpoonup> string" where
  "server_versions M1 M2 M3 M4 s x =
     (case x of
        PolrKey k \<Rightarrow> map_option ResourceVersion (km_view M1 s k)
      | CpolrKey n \<Rightarrow> map_option ResourceVersion (km_view M2 s n)
      | EphrKey k \<Rightarrow> map_option ResourceVersion (km_view M3 s k)
      | CephrKey n \<Rightarrow> map_option ResourceVersion (km_view M4 s n))"

text \<open>Every version was handed out, and to one report only.\<close>

definition fresh :: "('x \<rightharpoonup> string) \<Rightarrow> u64 \<Rightarrow> bool" where
  "fresh m v \<longleftrightarrow>
     (\<forall>x s. m x = Some s \<longrightarrow> (\<exists>u. s = FormatUint u \<and> u < v)) \<and>
     (\<forall>x y s. m x = Some s \<longrightarrow> m y = Some s \<longrightarrow> x = y)"

definition kinds_meta_kept ::
  "'s polr_model \<Rightarrow> 's cpolr_model \<Rightarrow> 's ephr_model \<Rightarrow> 's cephr_model \<Rightarrow> bool" where
  "kinds_meta_kept M1 M2 M3 M4 \<longleftrightarrow>
     meta_kept (km_good M1) (km_canon M1) \<and> meta_kept (km_good M2) (km_canon M2) \<and>
     meta_kept (km_good M3) (km_canon M3) \<and> meta_kept (km_good M4) (km_canon M4)"

lemma fresh_less:
  assumes "fresh m v" and "\<And>x. m' x = m x \<or> m' x = None" and "v \<le> v'"
  shows "fresh m' v'"
proof -
  have m: "m x = Some s" if "m' x = Some s" for x s
    using assms(2) [of x] that by auto
  show ?thesis
    using assms(1,3) unfolding fresh_def by (meson m less_le_trans)
qed

lemma fresh_more:
  assumes "fresh m v" and "m' = m(x \<mapsto> FormatUint v)" and "v < v'"
  shows "fresh m' v'"
proof -
  have old: "\<exists>u. s = FormatUint u \<and> u < v" if "m y = Some s" for y s
    using assms(1) that by (auto simp: fresh_def)
  have new: "s \<noteq> FormatUint v" if "m y = Some s" for y s
    using old [OF that] by auto
  have "\<exists>u. s = FormatUint u \<and> u < v'" if "m' y = Some s" for y s
    using that old [of y s] assms(2,3) by (auto split: if_splits intro: less_trans)
  moreover have "y = z" if "m' y = Some s" "m' z = Some s" for y z s
    using that assms(1,2) new by (auto simp: fresh_def split: if_splits)
  ultimately show ?thesis by (auto simp: fresh_def)
qed

text \<open>A step of one kind, seen in the versions of all of them.\<close>

lemma fresh_step:
  assumes "fresh m (version (store_versioning p))" and "version (store_versioning p) \<noteq> -1"
    and step: "shrinks vw p p' \<or> writes_one key canon good vw p p'" and "meta_kept good canon"
    and own: "\<And>k. m (tag k) = map_option ResourceVersion (vw (store_db p) k)"
      "\<And>k. m' (tag k) = map_option ResourceVersion (vw (store_db p') k)"
    and other: "\<And>x. x \<notin> range tag \<Longrightarrow> m' x = m x" and "inj tag"
  shows "fresh m' (version (store_versioning p'))"
  using step
proof
  assume sh: "shrinks vw p p'"
  have "m' x = m x \<or> m' x = None" for x
  proof (cases "x \<in> range tag")
    case True
    then obtain k where x: "x = tag k" by blast
    have "vw (store_db p') k = vw (store_db p) k \<or> vw (store_db p') k = None"
      using sh by (auto simp: shrinks_def)
    then show ?thesis unfolding x own by auto
  qed (simp add: other)
  moreover have "version (store_versioning p) \<le> version (store_versioning p')"
    using sh bump_less [OF assms(2)] by (auto simp: shrinks_def)
  ultimately show ?thesis using fresh_less assms(1) by blast
next
  assume "writes_one key canon good vw p p'"
  then obtain r where r: "good r" "made (store_versioning p) r"
    and vw: "vw (store_db p') = (vw (store_db p))(key r \<mapsto> canon r)"
    and v: "store_versioning p' = bump (store_versioning p)"
    by (auto simp: writes_one_def)
  have rv: "ResourceVersion (canon r) = FormatUint (version (store_versioning p))"
    using r assms(4) by (simp add: made_def meta_kept_def)
  have "m' x = (m(tag (key r) \<mapsto> FormatUint (version (store_versioning p)))) x" for x
  proof (cases "x \<in> range tag")
    case True
    then obtain k where x: "x = tag k" by blast
    show ?thesis
      unfolding x using rv by (simp add: own vw inj_eq [OF assms(8)])
  next
    case False
    then show ?thesis using other by auto
  qed
  then have "m' = m(tag (key r) \<mapsto> FormatUint (version (store_versioning p)))" by (rule ext)
  with fresh_more [OF assms(1) _ bump_less [OF assms(2)]] v show ?thesis by simp
qed

lemma part_simps [simp]:
  "polr_part (put_polr p w) = p" "cpolr_part (put_cpolr q w) = q"
  "ephr_part (put_ephr r w) = r" "cephr_part (put_cephr t w) = t"
  "store_db (polr_part w) = srv_db w" "store_db (cpolr_part w) = srv_db w"
  "store_db (ephr_part w) = srv_db w" "store_db (cephr_part w) = srv_db w"
  "store_versioning (polr_part w) = srv_versioning w" "store_versioning (cpolr_part w) = srv_versioning w"
  "store_versioning (ephr_part w) = srv_versioning w" "store_versioning (cephr_part w) = srv_versioning w"
  "broadcast (polr_part w) = polr_events w" "broadcast (cpolr_part w) = cpolr_events w"
  "broadcast (ephr_part w) = ephr_events w" "broadcast (cephr_part w) = cephr_events w"
  by (simp_all add: parts)

lemma put_simps [simp]:
  "srv_db (put_polr p w) = store_db p" "srv_versioning (put_polr p w) = store_versioning p"
  "polr_events (put_polr p w) = broadcast p" "cpolr_events (put_polr p w) = cpolr_events w"
  "ephr_events (put_polr p w) = ephr_events w" "cephr_events (put_polr p w) = cephr_events w"
  "srv_db (put_cpolr q w) = store_db q" "srv_versioning (put_cpolr q w) = store_versioning q"
  "polr_events (put_cpolr q w) = polr_events w" "cpolr_events (put_cpolr q w) = broadcast q"
  "ephr_events (put_cpolr q w) = ephr_events w" "cephr_events (put_cpolr q w) = cephr_events w"
  "srv_db (put_ephr r w) = store_db r" "srv_versioning (put_ephr r w) = store_versioning r"
  "polr_events (put_ephr r w) = polr_events w" "cpolr_events (put_ephr r w) = cpolr_events w"
  "ephr_events (put_ephr r w) = broadcast r" "cephr_events (put_ephr r w) = cephr_events w"
  "srv_db (put_cephr t w) = store_db t" "srv_versioning (put_cephr t w) = store_versioning t"
  "polr_events (put_cephr t w) = polr_events w" "cpolr_events (put_cephr t w) = cpolr_events w"
  "ephr_events (put_cephr t w) = ephr_events w" "cephr_events (put_cephr t w) = broadcast t"
  by (simp_all add: parts)

lemma server_tracks_trans:
  "server_tracks M1 M2 M3 M4 iv w w' \<Longrightarrow> server_tracks M1 M2 M3 M4 iv w' w'' \<Longrightarrow>
     server_tracks M1 M2 M3 M4 iv w w''"
  unfolding server_tracks_def by (blast intro: tracks_trans)

subsection \<open>What a back end promises to the server\<close>

locale server_storage =
  fixes st :: "'s Storage" and lenient :: bool
    and M1 :: "'s polr_model" and M2 :: "'s cpolr_model"
    and M3 :: "'s ephr_model" and M4 :: "'s cephr_model"
    and iv :: "'s \<Rightarrow> bool"
  assumes polr_contract: "report_storage (polr_ops st) ns_key ns_sel (km_canon M1) lenient (km_key M1) (km_sel M1)
      (km_good M1) (km_view M1) iv"
    and cpolr_contract: "report_storage (cpolr_ops st) cl_key cl_sel (km_canon M2) lenient (km_key M2) (km_sel M2)
      (km_good M2) (km_view M2) iv"
    and ephr_contract: "report_storage (ephr_ops st) ns_key ns_sel (km_canon M3) lenient (km_key M3) (km_sel M3)
      (km_good M3) (km_view M3) iv"
    and cephr_contract: "report_storage (cephr_ops st) cl_key cl_sel (km_canon M4) lenient (km_key M4) (km_sel M4)
      (km_good M4) (km_view M4) iv"
    and polr_frame: "iv s \<Longrightarrow> good_cmd (km_key M1) (km_sel M1) (km_good M1) cmd1 \<Longrightarrow>
      same3 (km_view M2) (km_view M3) (km_view M4) s (snd (do_cmd (polr_ops st) cmd1 s))"
    and cpolr_frame: "iv s \<Longrightarrow> good_cmd (km_key M2) (km_sel M2) (km_good M2) cmd2 \<Longrightarrow>
      same3 (km_view M1) (km_view M3) (km_view M4) s (snd (do_cmd (cpolr_ops st) cmd2 s))"
    and ephr_frame: "iv s \<Longrightarrow> good_cmd (km_key M3) (km_sel M3) (km_good M3) cmd3 \<Longrightarrow>
      same3 (km_view M1) (km_view M2) (km_view M4) s (snd (do_cmd (ephr_ops st) cmd3 s))"
    and cephr_frame: "iv s \<Longrightarrow> good_cmd (km_key M4) (km_sel M4) (km_good M4) cmd4 \<Longrightarrow>
      same3 (km_view M1) (km_view M2) (km_view M3) s (snd (do_cmd (cephr_ops st) cmd4 s))"
begin

lemma polr_step_keeps:
  assumes "polr_step st (km_key M1) (km_sel M1) (km_good M1) p p'" and "iv (store_db p)"
  shows "tracks ns_key (km_canon M1) (km_view M1) iv p p'"
    and "same3 (km_view M2) (km_view M3) (km_view M4) (store_db p) (store_db p')"
    and "shrinks (km_view M1) p p' \<or> writes_one ns_key (km_canon M1) (km_good M1) (km_view M1) p p'"
  using isolated_step [OF polr_rest_kind polr_contract polr_frame polr_step_rest [OF assms(1)] assms(2)]
  by blast+

lemma polr_copy_keeps:
  assumes "km_good M1 (annotate r)" and "iv s"
    and "s' = copy_event (createR (polr_ops st)) (updateR (polr_ops st)) (t, r) s"
  shows "iv s'" and "same3 (km_view M2) (km_view M3) (km_view M4) s s'"
    and "km_view M1 s' = km_view M1 s \<or>
      km_view M1 s' = (km_view M1 s)(ns_key r \<mapsto> km_canon M1 (annotate r))"
  using isolated_copy [OF polr_contract polr_frame _ assms(1,2), where t = t] assms(3) by simp_all

lemma cpolr_step_keeps:
  assumes "cpolr_step st (km_key M2) (km_sel M2) (km_good M2) p p'" and "iv (store_db p)"
  shows "tracks cl_key (km_canon M2) (km_view M2) iv p p'"
    and "same3 (km_view M1) (km_view M3) (km_view M4) (store_db p) (store_db p')"
    and "shrinks (km_view M2) p p' \<or> writes_one cl_key (km_canon M2) (km_good M2) (km_view M2) p p'"
  using isolated_step [OF cpolr_rest_kind cpolr_contract cpolr_frame cpolr_step_rest [OF assms(1)] assms(2)]
  by blast+

lemma cpolr_copy_keeps:
  assumes "km_good M2 (annotate r)" and "iv s"
    and "s' = copy_event (createR (cpolr_ops st)) (updateR (cpolr_ops st)) (t, r) s"
  shows "iv s'" and "same3 (km_view M1) (km_view M3) (km_view M4) s s'"
    and "km_view M2 s' = km_view M2 s \<or>
      km_view M2 s' = (km_view M2 s)(cl_key r \<mapsto> km_canon M2 (annotate r))"
  using isolated_copy [OF cpolr_contract cpolr_frame _ assms(1,2), where t = t] assms(3) by simp_all

lemma ephr_step_keeps:
  assumes "ephr_step st (km_key M3) (km_sel M3) (km_good M3) p p'" and "iv (store_db p)"
  shows "tracks ns_key (km_canon M3) (km_view M3) iv p p'"
    and "same3 (km_view M1) (km_view M2) (km_view M4) (store_db p) (store_db p')"
    and "shrinks (km_view M3) p p' \<or> writes_one ns_key (km_canon M3) (km_good M3) (km_view M3) p p'"
  using isolated_step [OF ephr_rest_kind ephr_contract ephr_frame ephr_step_rest [OF assms(1)] assms(2)]
  by blast+

lemma ephr_copy_keeps:
  assumes "km_good M3 (annotate r)" and "iv s"
    and "s' = copy_event (createR (ephr_ops st)) (updateR (ephr_ops st)) (t, r) s"
  shows "iv s'" and "same3 (km_view M1) (km_view M2) (km_view M4) s s'"
    and "km_view M3 s' = km_view M3 s \<or>
      km_view M3 s' = (km_view M3 s)(ns_key r \<mapsto> km_canon M3 (annotate r))"
  using isolated_copy [OF ephr_contract ephr_frame _ assms(1,2), where t = t] assms(3) by simp_all

lemma cephr_step_keeps:
  assumes "cephr_step st (km_key M4) (km_sel M4) (km_good M4) p p'" and "iv (store_db p)"
  shows "tracks cl_key (km_canon M4) (km_view M4) iv p p'"
    and "same3 (km_view M1) (km_view M2) (km_view M3) (store_db p) (store_db p')"
    and "shrinks (km_view M4) p p' \<or> writes_one cl_key (km_canon M4) (km_good M4) (km_view M4) p p'"
  using isolated_step [OF cephr_rest_kind cephr_contract cephr_frame cephr_step_rest [OF assms(1)] assms(2)]
  by blast+

lemma cephr_copy_keeps:
  assumes "km_good M4 (annotate r)" and "iv s"
    and "s' = copy_event (createR (cephr_ops st)) (updateR (cephr_ops st)) (t, r) s"
  shows "iv s'" and "same3 (km_view M1) (km_view M2) (km_view M3) s s'"
    and "km_view M4 s' = km_view M4 s \<or>
      km_view M4 s' = (km_view M4 s)(cl_key r \<mapsto> km_canon M4 (annotate r))"
  using isolated_copy [OF cephr_contract cephr_frame _ assms(1,2), where t = t] assms(3) by simp_all


lemma step_server_tracks:
  assumes "server_step st M1 M2 M3 M4 w w'" and "iv (srv_db w)"
  shows "server_tracks M1 M2 M3 M4 iv w w'"
  using assms(1)
proof cases
  case (Polr p)
  with polr_step_keeps(1,2) [OF Polr(2)] assms(2) show ?thesis
    unfolding server_tracks_def by (auto simp: same3_def tracks_def)
next
  case (Cpolr q)
  with cpolr_step_keeps(1,2) [OF Cpolr(2)] assms(2) show ?thesis
    unfolding server_tracks_def by (auto simp: same3_def tracks_def)
next
  case (Ephr r)
  with ephr_step_keeps(1,2) [OF Ephr(2)] assms(2) show ?thesis
    unfolding server_tracks_def by (auto simp: same3_def tracks_def)
next
  case (Cephr s)
  with cephr_step_keeps(1,2) [OF Cephr(2)] assms(2) show ?thesis
    unfolding server_tracks_def by (auto simp: same3_def tracks_def)
qed

lemma history_server_tracks:
  assumes "(server_step st M1 M2 M3 M4)\<^sup>*\<^sup>* w w'" and "iv (srv_db w)"
  shows "server_tracks M1 M2 M3 M4 iv w w'"
  using assms
proof (induction rule: rtranclp_induct)
  case base
  then show ?case by (simp add: server_tracks_def tracks_def)
next
  case (step w1 w2)
  then have "server_tracks M1 M2 M3 M4 iv w w1" by simp
  moreover from this have "iv (srv_db w1)" by (simp add: server_tracks_def tracks_def)
  ultimately show ?case using step_server_tracks [OF step(2)] server_tracks_trans by blast
qed

lemma step_fresh:
  assumes "server_step st M1 M2 M3 M4 w w'" and "iv (srv_db w)" and "kinds_meta_kept M1 M2 M3 M4"
    and "version (srv_versioning w) \<noteq> -1"
    and "fresh (server_versions M1 M2 M3 M4 (srv_db w)) (version (srv_versioning w))"
  shows "fresh (server_versions M1 M2 M3 M4 (srv_db w')) (version (srv_versioning w'))"
  using assms(1)
proof cases
  case (Polr p)
  have "fresh (server_versions M1 M2 M3 M4 (store_db p)) (version (store_versioning p))"
    by (rule fresh_step [OF _ _ polr_step_keeps(3) [OF Polr(2)],
          where m = "server_versions M1 M2 M3 M4 (srv_db w)" and tag = PolrKey])
      (use assms(2-5) polr_step_keeps(2) [OF Polr(2)] in
        \<open>auto simp: kinds_meta_kept_def server_versions_def same3_def inj_def split: server_key.split\<close>)
  then show ?thesis using Polr(1) by simp
next
  case (Cpolr q)
  have "fresh (server_versions M1 M2 M3 M4 (store_db q)) (version (store_versioning q))"
    by (rule fresh_step [OF _ _ cpolr_step_keeps(3) [OF Cpolr(2)],
          where m = "server_versions M1 M2 M3 M4 (srv_db w)" and tag = CpolrKey])
      (use assms(2-5) cpolr_step_keeps(2) [OF Cpolr(2)] in
        \<open>auto simp: kinds_meta_kept_def server_versions_def same3_def inj_def split: server_key.split\<close>)
  then show ?thesis using Cpolr(1) by simp
next
  case (Ephr r)
  have "fresh (server_versions M1 M2 M3 M4 (store_db r)) (version (store_versioning r))"
    by (rule fresh_step [OF _ _ ephr_step_keeps(3) [OF Ephr(2)],
          where m = "server_versions M1 M2 M3 M4 (srv_db w)" and tag = EphrKey])
      (use assms(2-5) ephr_step_keeps(2) [OF Ephr(2)] in
        \<open>auto simp: kinds_meta_kept_def server_versions_def same3_def inj_def split: server_key.split\<close>)
  then show ?thesis using Ephr(1) by simp
next
  case (Cephr s)
  have "fresh (server_versions M1 M2 M3 M4 (store_db s)) (version (store_versioning s))"
    by (rule fresh_step [OF _ _ cephr_step_keeps(3) [OF Cephr(2)],
          where m = "server_versions M1 M2 M3 M4 (srv_db w)" and tag = CephrKey])
      (use assms(2-5) cephr_step_keeps(2) [OF Cephr(2)] in
        \<open>auto simp: kinds_meta_kept_def server_versions_def same3_def inj_def split: server_key.split\<close>)
  then show ?thesis using Cephr(1) by simp
qed

lemma history_fresh:
  assumes "(\<lambda>x y. server_step st M1 M2 M3 M4 x y \<and> version (srv_versioning x) \<noteq> -1)\<^sup>*\<^sup>* w w'"
    and "iv (srv_db w)" and "kinds_meta_kept M1 M2 M3 M4"
    and "fresh (server_versions M1 M2 M3 M4 (srv_db w)) (version (srv_versioning w))"
  shows "fresh (server_versions M1 M2 M3 M4 (srv_db w')) (version (srv_versioning w')) \<and> iv (srv_db w')"
  using assms(1)
proof (induction rule: rtranclp_induct)
  case base
  show ?case using assms(2,4) by simp
next
  case (step w1 w2)
  then have "server_tracks M1 M2 M3 M4 iv w1 w2" using step_server_tracks by blast
  then have "iv (srv_db w2)" by (simp add: server_tracks_def tracks_def)
  with step step_fresh [of w1 w2] assms(3) show ?case by blast
qed

lemma step_served:
  assumes "server_step st M1 M2 M3 M4 w w'" and "iv (srv_db w)" and "kinds_meta_kept M1 M2 M3 M4"
    and "server_served M1 M2 M3 M4 w"
  shows "server_served M1 M2 M3 M4 w'"
  using assms(1)
proof cases
  case (Polr p)
  have "all_served (km_view M1) p"
    by (rule served_kept [OF polr_step_keeps(3) [OF Polr(2)]])
      (use assms(2-4) in \<open>auto simp: kinds_meta_kept_def server_served_def\<close>)
  with polr_step_keeps(2) [OF Polr(2)] assms(2,4) Polr(1) show ?thesis
    by (simp add: server_served_def same3_def all_served_def)
next
  case (Cpolr q)
  have "all_served (km_view M2) q"
    by (rule served_kept [OF cpolr_step_keeps(3) [OF Cpolr(2)]])
      (use assms(2-4) in \<open>auto simp: kinds_meta_kept_def server_served_def\<close>)
  with cpolr_step_keeps(2) [OF Cpolr(2)] assms(2,4) Cpolr(1) show ?thesis
    by (simp add: server_served_def same3_def all_served_def)
next
  case (Ephr r)
  have "all_served (km_view M3) r"
    by (rule served_kept [OF ephr_step_keeps(3) [OF Ephr(2)]])
      (use assms(2-4) in \<open>auto simp: kinds_meta_kept_def server_served_def\<close>)
  with ephr_step_keeps(2) [OF Ephr(2)] assms(2,4) Ephr(1) show ?thesis
    by (simp add: server_served_def same3_def all_served_def)
next
  case (Cephr s)
  have "all_served (km_view M4) s"
    by (rule served_kept [OF cephr_step_keeps(3) [OF Cephr(2)]])
      (use assms(2-4) in \<open>auto simp: kinds_meta_kept_def server_served_def\<close>)
  with cephr_step_keeps(2) [OF Cephr(2)] assms(2,4) Cephr(1) show ?thesis
    by (simp add: server_served_def same3_def all_served_def)
qed

lemma copy_served:
  assumes "watcher_step st M1 M2 M3 M4 w w'" and "iv (srv_db w)" and "kinds_meta_kept M1 M2 M3 M4"
    and "server_served M1 M2 M3 M4 w"
  shows "server_served M1 M2 M3 M4 w' \<and> iv (srv_db w')"
  using assms(1)
proof cases
  case (WatchPolr a t)
  have copy: "srv_db w' = copy_event (createR (polr_ops st)) (updateR (polr_ops st)) (t, a) (srv_db w)"
    using WatchPolr(1) by simp
  note keeps = polr_copy_keeps [OF WatchPolr(3) assms(2) copy]
  have "served_by (km_canon M1 (annotate a))"
    using assms(3) WatchPolr(3) by (simp add: kinds_meta_kept_def meta_kept_def)
  with keeps assms(4) show ?thesis
    by (auto simp: server_served_def all_served_def same3_def split: if_splits)
next
  case (WatchCpolr b t)
  have copy: "srv_db w' = copy_event (createR (cpolr_ops st)) (updateR (cpolr_ops st)) (t, b) (srv_db w)"
    using WatchCpolr(1) by simp
  note keeps = cpolr_copy_keeps [OF WatchCpolr(3) assms(2) copy]
  have "served_by (km_canon M2 (annotate b))"
    using assms(3) WatchCpolr(3) by (simp add: kinds_meta_kept_def meta_kept_def)
  with keeps assms(4) show ?thesis
    by (auto simp: server_served_def all_served_def same3_def split: if_splits)
next
  case (WatchEphr c t)
  have copy: "srv_db w' = copy_event (createR (ephr_ops st)) (updateR (ephr_ops st)) (t, c) (srv_db w)"
    using WatchEphr(1) by simp
  note keeps = ephr_copy_keeps [OF WatchEphr(3) assms(2) copy]
  have "served_by (km_canon M3 (annotate c))"
    using assms(3) WatchEphr(3) by (simp add: kinds_meta_kept_def meta_kept_def)
  with keeps assms(4) show ?thesis
    by (auto simp: server_served_def all_served_def same3_def split: if_splits)
next
  case (WatchCephr d t)
  have copy: "srv_db w' = copy_event (createR (cephr_ops st)) (updateR (cephr_ops st)) (t, d) (srv_db w)"
    using WatchCephr(1) by simp
  note keeps = cephr_copy_keeps [OF WatchCephr(3) assms(2) copy]
  have "served_by (km_canon M4 (annotate d))"
    using assms(3) WatchCephr(3) by (simp add: kinds_meta_kept_def meta_kept_def)
  with keeps assms(4) show ?thesis
    by (auto simp: server_served_def all_served_def same3_def split: if_splits)
qed

lemma history_served_watched:
  assumes "(\<lambda>x y. server_step st M1 M2 M3 M4 x y \<or> watcher_step st M1 M2 M3 M4 x y)\<^sup>*\<^sup>* w w'"
    and "iv (srv_db w)" and "kinds_meta_kept M1 M2 M3 M4" and "server_served M1 M2 M3 M4 w"
  shows "server_served M1 M2 M3 M4 w' \<and> iv (srv_db w')"
  using assms(1)
proof (induction rule: rtranclp_induct)
  case base
  show ?case using assms(2,4) by simp
next
  case (step w1 w2)
  from step(2) show ?case
  proof
    assume s: "server_step st M1 M2 M3 M4 w1 w2"
    then have "iv (srv_db w2)"
      using step_server_tracks [OF s] step(3) by (simp add: server_tracks_def tracks_def)
    with step_served [OF s] step(3) assms(3) show ?thesis by blast
  next
    assume "watcher_step st M1 M2 M3 M4 w1 w2"
    with copy_served step(3) assms(3) show ?thesis by blast
  qed
qed

end

subsection \<open>Samples\<close>

text \<open>The report a sample request stores, and a JSON library that knows it.\<close>

definition sample_stored :: PolicyReport where
  "sample_stored = stamped sample_env NewVersioning (projr (polr_admit sample_env ''default'' sample_polr))"

definition sample_report_libs :: reportLibs where
  "sample_report_libs =
     \<lparr>polrLib = table_lib [(''x'', sample_stored)] PolicyReportPtr,
      cpolrLib = table_lib [] ClusterPolicyReportPtr, ephrLib = table_lib [] EphemeralReportPtr,
      cephrLib = table_lib [] ClusterEphemeralReportPtr\<rparr>"

definition sample_canons :: canons where
  "sample_canons = \<lparr>polr_canon = id, cpolr_canon = id, ephr_canon = id, cephr_canon = id\<rparr>"

end
