(* ===== verification/EtcdServer.thy ===== *)
theory EtcdServer
  imports System Etcd
begin

section \<open>The server on etcd\<close>

text \<open>
  The etcd storage that \<open>etcd.New\<close> makes keeps the promises of \<open>server_storage\<close>: the four stores
  share one key space, and their keys never meet. The properties of the whole server follow.
\<close>

definition etcd_storage :: "reportLibs \<Rightarrow> 'e KV \<Rightarrow> 'e world Storage" where
  "etcd_storage L kv =
     \<lparr>Ready = (\<lambda>_. True),
      PolicyReports = NewObjectStoreNamespaced (polrLib L) kv PolicyReportsGVK PolicyReportsGR,
      ClusterPolicyReports =
        NewObjectStoreCluster (cpolrLib L) kv ClusterPolicyReportsGVK ClusterPolicyReportsGR,
      EphemeralReports = NewObjectStoreNamespaced (ephrLib L) kv EphemeralReportsGVK EphemeralReportsGR,
      ClusterEphemeralReports =
        NewObjectStoreCluster (cephrLib L) kv ClusterEphemeralReportsGVK ClusterEphemeralReportsGR\<rparr>"

lemma etcd_New_storage: "etcd_New L (\<lambda>_. Inr kv) cfg = Inr (etcd_storage L kv)"
  by (simp add: etcd_New_def etcd_storage_def Let_def)

lemma etcd_storage_stores [simp]:
  "PolicyReports (etcd_storage L kv) =
     NewObjectStoreNamespaced (polrLib L) kv PolicyReportsGVK PolicyReportsGR"
  "ClusterPolicyReports (etcd_storage L kv) =
     NewObjectStoreCluster (cpolrLib L) kv ClusterPolicyReportsGVK ClusterPolicyReportsGR"
  "EphemeralReports (etcd_storage L kv) =
     NewObjectStoreNamespaced (ephrLib L) kv EphemeralReportsGVK EphemeralReportsGR"
  "ClusterEphemeralReports (etcd_storage L kv) =
     NewObjectStoreCluster (cephrLib L) kv ClusterEphemeralReportsGVK ClusterEphemeralReportsGR"
  by (simp_all add: etcd_storage_def)

subsection \<open>The kinds as the storage models them\<close>

abbreviation polr_ob :: "'e KV \<Rightarrow> 'e objectStoreNamespaced" where
  "polr_ob kv \<equiv> ns_store kv PolicyReportsGVK PolicyReportsGR"

abbreviation cpolr_ob :: "'e KV \<Rightarrow> 'e objectStoreNamespaced" where
  "cpolr_ob kv \<equiv> cl_store kv ClusterPolicyReportsGVK ClusterPolicyReportsGR"

abbreviation ephr_ob :: "'e KV \<Rightarrow> 'e objectStoreNamespaced" where
  "ephr_ob kv \<equiv> ns_store kv EphemeralReportsGVK EphemeralReportsGR"

abbreviation cephr_ob :: "'e KV \<Rightarrow> 'e objectStoreNamespaced" where
  "cephr_ob kv \<equiv> cl_store kv ClusterEphemeralReportsGVK ClusterEphemeralReportsGR"

definition etcd_polr ::
  "PolicyReport TypeLib \<Rightarrow> 'e KV \<Rightarrow> ('e \<Rightarrow> string \<rightharpoonup> string) \<Rightarrow> (PolicyReport \<Rightarrow> PolicyReport) \<Rightarrow> 'e world polr_model" where
  "etcd_polr T kv V canon =
     \<lparr>km_canon = canon, km_key = etcd_good_key (polr_ob kv), km_sel = slash_free, km_good = etcd_good T (polr_ob kv),
      km_view = etcd_view T (polr_ob kv) V\<rparr>"

definition etcd_cpolr ::
  "ClusterPolicyReport TypeLib \<Rightarrow> 'e KV \<Rightarrow> ('e \<Rightarrow> string \<rightharpoonup> string) \<Rightarrow> (ClusterPolicyReport \<Rightarrow> ClusterPolicyReport) \<Rightarrow> 'e world cpolr_model" where
  "etcd_cpolr T kv V canon =
     \<lparr>km_canon = canon, km_key = slash_free, km_sel = (\<lambda>_. True), km_good = etcd_good T (cpolr_ob kv),
      km_view = etcd_cluster_view T (cpolr_ob kv) V\<rparr>"

definition etcd_ephr ::
  "EphemeralReport TypeLib \<Rightarrow> 'e KV \<Rightarrow> ('e \<Rightarrow> string \<rightharpoonup> string) \<Rightarrow> (EphemeralReport \<Rightarrow> EphemeralReport) \<Rightarrow> 'e world ephr_model" where
  "etcd_ephr T kv V canon =
     \<lparr>km_canon = canon, km_key = etcd_good_key (ephr_ob kv), km_sel = slash_free, km_good = etcd_good T (ephr_ob kv),
      km_view = etcd_view T (ephr_ob kv) V\<rparr>"

definition etcd_cephr ::
  "ClusterEphemeralReport TypeLib \<Rightarrow> 'e KV \<Rightarrow> ('e \<Rightarrow> string \<rightharpoonup> string) \<Rightarrow> (ClusterEphemeralReport \<Rightarrow> ClusterEphemeralReport) \<Rightarrow> 'e world cephr_model" where
  "etcd_cephr T kv V canon =
     \<lparr>km_canon = canon, km_key = slash_free, km_sel = (\<lambda>_. True), km_good = etcd_good T (cephr_ob kv),
      km_view = etcd_cluster_view T (cephr_ob kv) V\<rparr>"

definition etcd_sound ::
  "reportLibs \<Rightarrow> 'e KV \<Rightarrow> ('e \<Rightarrow> string \<rightharpoonup> string) \<Rightarrow> ('e \<Rightarrow> bool) \<Rightarrow> canons \<Rightarrow> 'e world \<Rightarrow> bool" where
  "etcd_sound L kv V up C w \<longleftrightarrow>
     etcd_inv (polrLib L) (polr_canon C) (polr_ob kv) V up w \<and>
     etcd_inv (cpolrLib L) (cpolr_canon C) (cpolr_ob kv) V up w \<and>
     etcd_inv (ephrLib L) (ephr_canon C) (ephr_ob kv) V up w \<and>
     etcd_inv (cephrLib L) (cephr_canon C) (cephr_ob kv) V up w"

text \<open>The step relation of the server on this storage.\<close>

abbreviation etcd_server_step ::
  "reportLibs \<Rightarrow> 'e KV \<Rightarrow> ('e \<Rightarrow> string \<rightharpoonup> string) \<Rightarrow> canons \<Rightarrow> 'e world server_state \<Rightarrow>
     'e world server_state \<Rightarrow> bool" where
  "etcd_server_step L kv V C \<equiv>
     server_step (etcd_storage L kv) (etcd_polr (polrLib L) kv V (polr_canon C))
       (etcd_cpolr (cpolrLib L) kv V (cpolr_canon C)) (etcd_ephr (ephrLib L) kv V (ephr_canon C))
       (etcd_cephr (cephrLib L) kv V (cephr_canon C))"

abbreviation etcd_watcher_step ::
  "reportLibs \<Rightarrow> 'e KV \<Rightarrow> ('e \<Rightarrow> string \<rightharpoonup> string) \<Rightarrow> canons \<Rightarrow> 'e world server_state \<Rightarrow>
     'e world server_state \<Rightarrow> bool" where
  "etcd_watcher_step L kv V C \<equiv>
     watcher_step (etcd_storage L kv) (etcd_polr (polrLib L) kv V (polr_canon C))
       (etcd_cpolr (cpolrLib L) kv V (cpolr_canon C)) (etcd_ephr (ephrLib L) kv V (ephr_canon C))
       (etcd_cephr (cephrLib L) kv V (cephr_canon C))"

lemmas etcd_kinds = etcd_polr_def etcd_cpolr_def etcd_ephr_def etcd_cephr_def

subsection \<open>The promises\<close>

lemma etcd_ns_frame:
  assumes "etcd_inv T1 c1 (ns_store kv k1 g1) V up w"
    and "k1 \<in> set report_kinds" "gvk ob \<in> set report_kinds" "k1 \<noteq> gvk ob"
  shows "etcd_view T ob V (snd (do_cmd (ns_ops (NewObjectStoreNamespaced T1 kv k1 g1)) c w)) =
      etcd_view T ob V w"
    and "etcd_inv T c2 ob V up w \<Longrightarrow>
      etcd_inv T c2 ob V up (snd (do_cmd (ns_ops (NewObjectStoreNamespaced T1 kv k1 g1)) c w))"
  using etcd_other_kind [of "ns_store kv k1 g1" V up w ob _ T1 c T] assms
  by (simp_all add: ns_store_object_ops etcd_inv_def [of T1])

lemma etcd_cl_frame:
  assumes "etcd_inv T1 c1 (cl_store kv k1 g1) V up w"
    and "k1 \<in> set report_kinds" "gvk ob \<in> set report_kinds" "k1 \<noteq> gvk ob"
  shows "etcd_view T ob V (snd (do_cmd (cl_ops (NewObjectStoreCluster T1 kv k1 g1)) c w)) =
      etcd_view T ob V w"
    and "etcd_inv T c2 ob V up w \<Longrightarrow>
      etcd_inv T c2 ob V up (snd (do_cmd (cl_ops (NewObjectStoreCluster T1 kv k1 g1)) c w))"
  using etcd_other_kind [of "cl_store kv k1 g1" V up w ob _ T1 "map_cmd (Pair []) (\<lambda>_. []) id c" T] assms
  by (simp_all add: cl_store_object_ops etcd_inv_def [of T1])

lemma kinds_distinct:
  "PolicyReportsGVK \<in> set report_kinds" "ClusterPolicyReportsGVK \<in> set report_kinds"
  "EphemeralReportsGVK \<in> set report_kinds" "ClusterEphemeralReportsGVK \<in> set report_kinds"
  "distinct [PolicyReportsGVK, ClusterPolicyReportsGVK, EphemeralReportsGVK, ClusterEphemeralReportsGVK]"
  by (simp_all add: kind_consts)

lemmas etcd_frames = etcd_ns_frame etcd_cl_frame

lemma etcd_polr_storage:
  "report_storage (polr_ops (etcd_storage L kv)) ns_key ns_sel
     (km_canon (etcd_polr (polrLib L) kv V (polr_canon C))) False
     (km_key (etcd_polr (polrLib L) kv V (polr_canon C))) (km_sel (etcd_polr (polrLib L) kv V (polr_canon C)))
     (km_good (etcd_polr (polrLib L) kv V (polr_canon C))) (km_view (etcd_polr (polrLib L) kv V (polr_canon C)))
     (etcd_sound L kv V up C)"
proof -
  have eq: "etcd_sound L kv V up C =
      (\<lambda>w. etcd_inv (polrLib L) (polr_canon C) (polr_ob kv) V up w \<and> etcd_sound L kv V up C w)"
    by (auto simp: etcd_sound_def)
  show ?thesis
    unfolding etcd_kinds kind_model.select_convs etcd_storage_stores
    by (subst eq, rule storage_strengthen [OF etcd_ns.report_storage_axioms])
      (use kinds_distinct in \<open>auto simp: etcd_sound_def
        intro: etcd_ns_frame(2) etcd_ns.cmd_refines [THEN conjunct2, THEN conjunct2]\<close>)
qed

lemma etcd_cpolr_storage:
  "report_storage (cpolr_ops (etcd_storage L kv)) cl_key cl_sel
     (km_canon (etcd_cpolr (cpolrLib L) kv V (cpolr_canon C))) False
     (km_key (etcd_cpolr (cpolrLib L) kv V (cpolr_canon C))) (km_sel (etcd_cpolr (cpolrLib L) kv V (cpolr_canon C)))
     (km_good (etcd_cpolr (cpolrLib L) kv V (cpolr_canon C))) (km_view (etcd_cpolr (cpolrLib L) kv V (cpolr_canon C)))
     (etcd_sound L kv V up C)"
proof -
  have eq: "etcd_sound L kv V up C =
      (\<lambda>w. etcd_inv (cpolrLib L) (cpolr_canon C) (cpolr_ob kv) V up w \<and> etcd_sound L kv V up C w)"
    by (auto simp: etcd_sound_def)
  show ?thesis
    unfolding etcd_kinds kind_model.select_convs etcd_storage_stores
    by (subst eq, rule storage_strengthen [OF etcd_cl.report_storage_axioms])
      (use kinds_distinct in \<open>auto simp: etcd_sound_def
        intro: etcd_cl_frame(2) etcd_cl.cmd_refines [THEN conjunct2, THEN conjunct2]\<close>)
qed

lemma etcd_ephr_storage:
  "report_storage (ephr_ops (etcd_storage L kv)) ns_key ns_sel
     (km_canon (etcd_ephr (ephrLib L) kv V (ephr_canon C))) False
     (km_key (etcd_ephr (ephrLib L) kv V (ephr_canon C))) (km_sel (etcd_ephr (ephrLib L) kv V (ephr_canon C)))
     (km_good (etcd_ephr (ephrLib L) kv V (ephr_canon C))) (km_view (etcd_ephr (ephrLib L) kv V (ephr_canon C)))
     (etcd_sound L kv V up C)"
proof -
  have eq: "etcd_sound L kv V up C =
      (\<lambda>w. etcd_inv (ephrLib L) (ephr_canon C) (ephr_ob kv) V up w \<and> etcd_sound L kv V up C w)"
    by (auto simp: etcd_sound_def)
  show ?thesis
    unfolding etcd_kinds kind_model.select_convs etcd_storage_stores
    by (subst eq, rule storage_strengthen [OF etcd_ns.report_storage_axioms])
      (use kinds_distinct in \<open>auto simp: etcd_sound_def
        intro: etcd_ns_frame(2) etcd_ns.cmd_refines [THEN conjunct2, THEN conjunct2]\<close>)
qed

lemma etcd_cephr_storage:
  "report_storage (cephr_ops (etcd_storage L kv)) cl_key cl_sel
     (km_canon (etcd_cephr (cephrLib L) kv V (cephr_canon C))) False
     (km_key (etcd_cephr (cephrLib L) kv V (cephr_canon C))) (km_sel (etcd_cephr (cephrLib L) kv V (cephr_canon C)))
     (km_good (etcd_cephr (cephrLib L) kv V (cephr_canon C))) (km_view (etcd_cephr (cephrLib L) kv V (cephr_canon C)))
     (etcd_sound L kv V up C)"
proof -
  have eq: "etcd_sound L kv V up C =
      (\<lambda>w. etcd_inv (cephrLib L) (cephr_canon C) (cephr_ob kv) V up w \<and> etcd_sound L kv V up C w)"
    by (auto simp: etcd_sound_def)
  show ?thesis
    unfolding etcd_kinds kind_model.select_convs etcd_storage_stores
    by (subst eq, rule storage_strengthen [OF etcd_cl.report_storage_axioms])
      (use kinds_distinct in \<open>auto simp: etcd_sound_def
        intro: etcd_cl_frame(2) etcd_cl.cmd_refines [THEN conjunct2, THEN conjunct2]\<close>)
qed

interpretation etcd_server: server_storage "etcd_storage L kv" False
  "etcd_polr (polrLib L) kv V (polr_canon C)" "etcd_cpolr (cpolrLib L) kv V (cpolr_canon C)"
  "etcd_ephr (ephrLib L) kv V (ephr_canon C)" "etcd_cephr (cephrLib L) kv V (cephr_canon C)"
  "etcd_sound L kv V up C"
  for L and kv :: "'e KV" and V up C
proof (rule server_storage.intro)
  have distinct: "PolicyReportsGVK \<noteq> ClusterPolicyReportsGVK" "PolicyReportsGVK \<noteq> EphemeralReportsGVK"
    "PolicyReportsGVK \<noteq> ClusterEphemeralReportsGVK" "ClusterPolicyReportsGVK \<noteq> EphemeralReportsGVK"
    "ClusterPolicyReportsGVK \<noteq> ClusterEphemeralReportsGVK" "EphemeralReportsGVK \<noteq> ClusterEphemeralReportsGVK"
    using kinds_distinct(5) by auto
  show "same3 (km_view (etcd_cpolr (cpolrLib L) kv V (cpolr_canon C)))
      (km_view (etcd_ephr (ephrLib L) kv V (ephr_canon C))) (km_view (etcd_cephr (cephrLib L) kv V (cephr_canon C))) s
      (snd (do_cmd (polr_ops (etcd_storage L kv)) c s))"
    if "etcd_sound L kv V up C s" for s c
    using that distinct kinds_distinct(1-4)
    by (simp add: same3_def etcd_kinds etcd_cluster_view_def fun_eq_iff etcd_sound_def
        etcd_ns_frame(1) [where up = up and ?c1.0 = "polr_canon C"])
  show "same3 (km_view (etcd_polr (polrLib L) kv V (polr_canon C)))
      (km_view (etcd_ephr (ephrLib L) kv V (ephr_canon C))) (km_view (etcd_cephr (cephrLib L) kv V (cephr_canon C))) s
      (snd (do_cmd (cpolr_ops (etcd_storage L kv)) c s))"
    if "etcd_sound L kv V up C s" for s c
    using that distinct kinds_distinct(1-4)
    by (simp add: same3_def etcd_kinds etcd_cluster_view_def fun_eq_iff etcd_sound_def
        etcd_cl_frame(1) [where up = up and ?c1.0 = "cpolr_canon C"])
  show "same3 (km_view (etcd_polr (polrLib L) kv V (polr_canon C)))
      (km_view (etcd_cpolr (cpolrLib L) kv V (cpolr_canon C))) (km_view (etcd_cephr (cephrLib L) kv V (cephr_canon C))) s
      (snd (do_cmd (ephr_ops (etcd_storage L kv)) c s))"
    if "etcd_sound L kv V up C s" for s c
    using that distinct kinds_distinct(1-4)
    by (simp add: same3_def etcd_kinds etcd_cluster_view_def fun_eq_iff etcd_sound_def
        etcd_ns_frame(1) [where up = up and ?c1.0 = "ephr_canon C"])
  show "same3 (km_view (etcd_polr (polrLib L) kv V (polr_canon C)))
      (km_view (etcd_cpolr (cpolrLib L) kv V (cpolr_canon C))) (km_view (etcd_ephr (ephrLib L) kv V (ephr_canon C))) s
      (snd (do_cmd (cephr_ops (etcd_storage L kv)) c s))"
    if "etcd_sound L kv V up C s" for s c
    using that distinct kinds_distinct(1-4)
    by (simp add: same3_def etcd_kinds etcd_cluster_view_def fun_eq_iff etcd_sound_def
        etcd_cl_frame(1) [where up = up and ?c1.0 = "cephr_canon C"])
qed (rule etcd_polr_storage etcd_cpolr_storage etcd_ephr_storage etcd_cephr_storage)+

subsection \<open>Properties\<close>


text \<open>A run of the server for the examples: create a report in an empty etcd.\<close>

definition sample_server :: "(string \<times> string) list world server_state" where
  "sample_server =
     \<lparr>srv_db = \<lparr>svc = [], mx = no_metrics\<rparr>, srv_versioning = NewVersioning, polr_events = [],
      cpolr_events = [], ephr_events = [], cephr_events = []\<rparr>"

definition sample_run :: "(string \<times> string) list world server_state" where
  "sample_run =
     put_polr (snd (polrStore_Create (etcd_storage sample_report_libs alist_kv) sample_env ''default''
       (PolicyReportObj sample_polr) accept sample_opts (polr_part sample_server))) sample_server"

lemma sample_server_simps [simp]:
  "srv_db sample_server = \<lparr>svc = [], mx = no_metrics\<rparr>" "srv_versioning sample_server = NewVersioning"
  "polr_events sample_server = []" "cpolr_events sample_server = []" "ephr_events sample_server = []"
  "cephr_events sample_server = []"
  by (simp_all add: sample_server_def)

lemma sample_sound: "etcd_sound sample_report_libs alist_kv map_of alist_up sample_canons (srv_db sample_server)"
  by (simp add: etcd_sound_def sample_report_libs_def sample_canons_def etcd_inv_empty table_lib_roundtrip)

lemma sample_run_step:
  "etcd_server_step sample_report_libs alist_kv map_of sample_canons sample_server sample_run"
proof -
  have "etcd_good (polrLib sample_report_libs) (polr_ob alist_kv) sample_stored"
    by (simp add: etcd_good_def etcd_good_key_def sample_report_libs_def sample_lib(2))
      (simp add: sample_stored_def polr_admit_def stamped_def ns_key_def slash_free_def Let_def)
  moreover have "stamped sample_env NewVersioning r = sample_stored"
    if "polr_admit sample_env ''default'' sample_polr = Inr r" for r
    using that by (simp add: sample_stored_def)
  ultimately show ?thesis
    unfolding sample_run_def
    by (intro server_step.Polr polr_step.Create) (auto simp: etcd_kinds)
qed



lemma sample_meta_kept:
  "kinds_meta_kept (etcd_polr T1 kv V (polr_canon sample_canons)) (etcd_cpolr T2 kv V (cpolr_canon sample_canons))
     (etcd_ephr T3 kv V (ephr_canon sample_canons)) (etcd_cephr T4 kv V (cephr_canon sample_canons))"
  by (simp add: kinds_meta_kept_def meta_kept_def etcd_kinds sample_canons_def)

lemma sample_versions:
  "server_versions (etcd_polr T1 kv map_of c1) (etcd_cpolr T2 kv map_of c2) (etcd_ephr T3 kv map_of c3)
     (etcd_cephr T4 kv map_of c4) \<lparr>svc = [], mx = no_metrics\<rparr> = Map.empty"
  by (auto simp: server_versions_def etcd_kinds etcd_cluster_view_def etcd_view_def fun_eq_iff
      split: server_key.split)


text \<open>
  While the goroutines of the migration copy events into the storage in the middle of the
  requests of clients, in any order, every stored report of every kind keeps the served-by
  annotation, and the key space stays sound.
\<close>

lemma server_all_served:
  assumes "etcd_sound L kv V up C (srv_db w)"
    and "(\<lambda>x y. etcd_server_step L kv V C x y \<or> etcd_watcher_step L kv V C x y)\<^sup>*\<^sup>* w w'"
    and "kinds_meta_kept M1 M2 M3 M4"
    and "M1 = etcd_polr (polrLib L) kv V (polr_canon C)" and "M2 = etcd_cpolr (cpolrLib L) kv V (cpolr_canon C)"
    and "M3 = etcd_ephr (ephrLib L) kv V (ephr_canon C)" and "M4 = etcd_cephr (cephrLib L) kv V (cephr_canon C)"
    and "server_served M1 M2 M3 M4 w"
  shows "server_served M1 M2 M3 M4 w' \<and> etcd_sound L kv V up C (srv_db w')"
  using etcd_server.history_served_watched [OF assms(2,1)] assms(3-8) by simp

end
