(* ===== verification/Server.thy ===== *)
theory Server
  imports Options Migration Install EtcdServer
begin

section \<open>Starting the server\<close>

text \<open>
  \<^verbatim>\<open>pkg/server/{config,server}.go\<close> and \<^verbatim>\<open>pkg/app/policyserver.go\<close>: from the options to a running server. The
  generic API server, the metrics registry and the clients for the cluster are outside the
  repository: their state is an arbitrary \<open>'g\<close>, and the calls on them are the record \<open>machinery\<close>.
\<close>

text \<open>What the metrics endpoint serves: the default registry and the one that this server fills.\<close>

datatype gatherer = DefaultGatherer | KubeRegistry

record ('c, 'g) machinery =
  registry_Register :: "string \<Rightarrow> 'g eop"
  apimetrics_Register :: "'g \<Rightarrow> 'g"
  apiserver_New :: "apiserver_config \<Rightarrow> bool \<Rightarrow> 'g eop" \<comment> \<open>the flag is \<open>EnableMetrics\<close>\<close>
  mux_HandleFunc :: "string \<Rightarrow> gatherer list \<Rightarrow> 'g \<Rightarrow> 'g" \<comment> \<open>the handler serves what is gathered\<close>
  kubernetes_NewForConfig :: "'c \<Rightarrow> err option"
  Namespaces_Get :: "'c \<Rightarrow> string \<Rightarrow> err + string" \<comment> \<open>the UID of a namespace\<close>
  cluster_of :: "'c \<Rightarrow> cluster"
  Codecs :: "string list" \<comment> \<open>media types\<close>
  InstallAPIGroup :: "string APIGroupInfo \<Rightarrow> 'g eop"
  AddReadyzChecks :: "string \<Rightarrow> 'g eop"
  RunWithContext :: "'g eop"

record 's server =
  srv_storage :: "'s store"

record ('s, 'g) boot =
  bt_world :: 's
  bt_server :: 'g
  bt_watchers :: "watcher list"

subsection \<open>server.go\<close>

definition NewServer :: "'s store \<Rightarrow> 's server" where
  "NewServer storage = \<lparr>srv_storage = storage\<rparr>"

definition RegisterProbes :: "('c, 'g) machinery \<Rightarrow> 'g eop" where
  "RegisterProbes m g =
     (case AddReadyzChecks m ''policy-db-ready'' g of
        (Some err, g1) \<Rightarrow> (Some err, g1)
      | (None, g1) \<Rightarrow> (None, g1))"

definition probeMetricStorageReady :: "'s server \<Rightarrow> string \<Rightarrow> 's \<Rightarrow> err option" where
  "probeMetricStorageReady s name w =
     (if \<not> store_Ready (srv_storage s) w then Some (Errorf ''db not working'' None) else None)"

definition RunUntil :: "('c, 'g) machinery \<Rightarrow> 'g eop" where
  "RunUntil m = RunWithContext m"

subsection \<open>config.go\<close>

definition metricsHandler :: "('c, 'g) machinery \<Rightarrow> (gatherer list, 'g) op" where
  "metricsHandler m g =
     (case RegisterMetrics (registry_Register m) g of
        (Some err, g1) \<Rightarrow> (Inl err, g1)
      | (None, g1) \<Rightarrow> (Inr [DefaultGatherer, KubeRegistry], apimetrics_Register m g1))"

definition getClusterId :: "('c, 'g) machinery \<Rightarrow> 'c Config \<Rightarrow> err + string" where
  "getClusterId m c =
     (case kubernetes_NewForConfig m (Rest c) of
        Some err \<Rightarrow> Inl err
      | None \<Rightarrow> Namespaces_Get m (Rest c) ''kube-system'')"

text \<open>The storage, from nothing to the end of the migration.\<close>

definition open_storage ::
  "reportLibs \<Rightarrow> (clientConfig \<Rightarrow> err + 'e pg_svc KV) \<Rightarrow> (string \<Rightarrow> err + 'e sqlDB) \<Rightarrow> cluster \<Rightarrow>
     'c Config \<Rightarrow> string \<Rightarrow> ('e pg_svc world store, ('e pg_svc world, 'g) boot) op" where
  "open_storage L clientv3_New sql_Open cl c cid b =
     (case storage_New L clientv3_New sql_Open (Embedded c) (DBconfig c) cid (cfg_EtcdConfig c)
             (bt_world b) of
        (Inl err, w1) \<Rightarrow> (Inl err, b\<lparr>bt_world := w1\<rparr>)
      | (Inr store, w1) \<Rightarrow>
          (case migration (st_db store) cl
                  \<lparr>mig_db = w1, mig_versioning = st_versioning store, mig_watchers = bt_watchers b\<rparr> of
             (Some err, mg) \<Rightarrow> (Inl err, b\<lparr>bt_world := mig_db mg, bt_watchers := mig_watchers mg\<rparr>)
           | (None, mg) \<Rightarrow>
               (Inr (store\<lparr>st_versioning := mig_versioning mg\<rparr>),
                b\<lparr>bt_world := mig_db mg, bt_watchers := mig_watchers mg\<rparr>)))"

definition on_server :: "('g \<Rightarrow> 'x \<times> 'g) \<Rightarrow> ('s, 'g) boot \<Rightarrow> 'x \<times> ('s, 'g) boot" where
  "on_server f b = (let (x, g) = f (bt_server b) in (x, b\<lparr>bt_server := g\<rparr>))"

definition Complete ::
  "reportLibs \<Rightarrow> (clientConfig \<Rightarrow> err + 'e pg_svc KV) \<Rightarrow> (string \<Rightarrow> err + 'e sqlDB) \<Rightarrow>
     ('c, 'g) machinery \<Rightarrow> 'c Config \<Rightarrow>
     ('e pg_svc world server, ('e pg_svc world, 'g) boot) op" where
  "Complete L clientv3_New sql_Open m c b =
     (case on_server (metricsHandler m) b of
        (Inl err, b1) \<Rightarrow> (Inl err, b1)
      | (Inr handler, b1) \<Rightarrow>
     (case on_server (apiserver_New m (Apiserver c) False) b1 of
        (Some err, b2) \<Rightarrow> (Inl err, b2)
      | (None, b2) \<Rightarrow>
     (case b2\<lparr>bt_server := mux_HandleFunc m ''/metrics'' handler (bt_server b2)\<rparr> of b3 \<Rightarrow>
     (case getClusterId m c of
        Inl err \<Rightarrow> (Inl err, b3)
      | Inr cid \<Rightarrow>
     (case open_storage L clientv3_New sql_Open (cluster_of m (Rest c)) c cid b3 of
        (Inl err, b4) \<Rightarrow> (Inl err, b4)
      | (Inr store, b4) \<Rightarrow>
     (case on_server (Install id (Codecs m) (InstallAPIGroup m)) b4 of
        (Some err, b5) \<Rightarrow> (Inl err, b5)
      | (None, b5) \<Rightarrow>
     (case on_server (RegisterProbes m) b5 of
        (Some err, b6) \<Rightarrow> (Inl err, b6)
      | (None, b6) \<Rightarrow> (Inr (NewServer store), b6))))))))"

subsection \<open>policyserver.go\<close>

text \<open>The options that the command starts from, before the command line is read.\<close>

definition NewPolicyServer :: Options where
  "NewPolicyServer = Flags NewOptions"

datatype run_result = Exited nat | Returned "err option"

definition runCommand ::
  "reportLibs \<Rightarrow> (clientConfig \<Rightarrow> err + 'e pg_svc KV) \<Rightarrow> (string \<Rightarrow> err + 'e sqlDB) \<Rightarrow>
     'c host \<Rightarrow> ('c, 'g) machinery \<Rightarrow> Options \<Rightarrow> ('e pg_svc world, 'g) boot \<Rightarrow>
     run_result \<times> ('e pg_svc world, 'g) boot" where
  "runCommand L clientv3_New sql_Open h m opts b =
     (if ShowVersion opts then (Exited 0, b)
      else case Validate h opts of
             err # errs \<Rightarrow> (Returned (Some err), b)
           | [] \<Rightarrow>
               (case ServerConfig h opts of
                  Inl err \<Rightarrow> (Returned (Some err), b)
                | Inr config \<Rightarrow>
                    (case Complete L clientv3_New sql_Open m config b of
                       (Inl err, b1) \<Rightarrow> (Returned (Some err), b1)
                     | (Inr s, b1) \<Rightarrow>
                         (let (err, b2) = on_server (RunUntil m) b1 in (Returned err, b2)))))"

subsection \<open>What a completed server is\<close>

lemma on_server_world [simp]:
  "bt_world (snd (on_server f b)) = bt_world b" "bt_watchers (snd (on_server f b)) = bt_watchers b"
  by (simp_all add: on_server_def case_prod_unfold Let_def)

lemma on_server_None:
  "on_server f b = (err, b') \<Longrightarrow> bt_world b' = bt_world b \<and> bt_watchers b' = bt_watchers b"
  using on_server_world [of f b] by simp

text \<open>A server that \<open>Complete\<close> returns has been through every stage.\<close>

lemma Complete_stages:
  assumes "Complete L clientv3_New sql_Open m c b = (Inr s, b')"
  obtains cid store b3 b4 where "getClusterId m c = Inr cid"
    "open_storage L clientv3_New sql_Open (cluster_of m (Rest c)) c cid b3 = (Inr store, b4)"
    "bt_world b3 = bt_world b" "bt_watchers b3 = bt_watchers b" "s = NewServer store"
    "bt_world b' = bt_world b4" "bt_watchers b' = bt_watchers b4"
    "fst (Install id (Codecs m) (InstallAPIGroup m) (bt_server b4)) = None"
proof -
  obtain handler b1 where b1: "on_server (metricsHandler m) b = (Inr handler, b1)"
    using assms by (auto simp: Complete_def split: prod.splits sum.splits)
  obtain b2 where b2: "on_server (apiserver_New m (Apiserver c) False) b1 = (None, b2)"
    using assms b1 by (auto simp: Complete_def split: prod.splits option.splits)
  define b3 where "b3 = b2\<lparr>bt_server := mux_HandleFunc m ''/metrics'' handler (bt_server b2)\<rparr>"
  have 3: "bt_world b3 = bt_world b" "bt_watchers b3 = bt_watchers b"
    using on_server_None [OF b1] on_server_None [OF b2] by (simp_all add: b3_def)
  obtain cid where cid: "getClusterId m c = Inr cid"
    using assms b1 b2 by (auto simp: Complete_def split: sum.splits)
  obtain store b4 where b4:
    "open_storage L clientv3_New sql_Open (cluster_of m (Rest c)) c cid b3 = (Inr store, b4)"
    using assms b1 b2 cid by (auto simp: Complete_def b3_def split: prod.splits sum.splits)
  obtain b5 where b5: "on_server (Install id (Codecs m) (InstallAPIGroup m)) b4 = (None, b5)"
    using assms b1 b2 cid b4 by (auto simp: Complete_def b3_def split: prod.splits option.splits)
  obtain b6 where b6: "on_server (RegisterProbes m) b5 = (None, b6)" "s = NewServer store" "b' = b6"
    using assms b1 b2 cid b4 b5 by (auto simp: Complete_def b3_def split: prod.splits option.splits)
  have "fst (Install id (Codecs m) (InstallAPIGroup m) (bt_server b4)) = None"
    using b5 by (simp add: on_server_def case_prod_unfold Let_def)
  with that cid b4 3 b6 on_server_None [OF b5] on_server_None [OF b6(1)] show thesis by auto
qed

lemma completed:
  assumes "Complete L clientv3_New sql_Open m c b = (Inr s, b')"
  shows "\<exists>cid store w1 mg. Namespaces_Get m (Rest c) ''kube-system'' = Inr cid \<and>
    storage_New L clientv3_New sql_Open (Embedded c) (DBconfig c) cid (cfg_EtcdConfig c) (bt_world b) =
      (Inr store, w1) \<and>
    migration (st_db store) (cluster_of m (Rest c))
      \<lparr>mig_db = w1, mig_versioning = st_versioning store, mig_watchers = bt_watchers b\<rparr> = (None, mg) \<and>
    srv_storage s = store\<lparr>st_versioning := mig_versioning mg\<rparr> \<and>
    bt_world b' = mig_db mg \<and> bt_watchers b' = mig_watchers mg \<and>
    (\<exists>g. fst (Install id (Codecs m) (InstallAPIGroup m) g) = None)"
proof -
  obtain cid store' b3 b4 where st: "getClusterId m c = Inr cid"
    "open_storage L clientv3_New sql_Open (cluster_of m (Rest c)) c cid b3 = (Inr store', b4)"
    "bt_world b3 = bt_world b" "bt_watchers b3 = bt_watchers b" "s = NewServer store'"
    "bt_world b' = bt_world b4" "bt_watchers b' = bt_watchers b4"
    "fst (Install id (Codecs m) (InstallAPIGroup m) (bt_server b4)) = None"
    by (rule Complete_stages [OF assms]) blast
  from st(2-4) obtain store w1 mg where store:
    "storage_New L clientv3_New sql_Open (Embedded c) (DBconfig c) cid (cfg_EtcdConfig c) (bt_world b) =
      (Inr store, w1)"
    "migration (st_db store) (cluster_of m (Rest c))
      \<lparr>mig_db = w1, mig_versioning = st_versioning store, mig_watchers = bt_watchers b\<rparr> = (None, mg)"
    "store' = store\<lparr>st_versioning := mig_versioning mg\<rparr>" "bt_world b4 = mig_db mg"
    "bt_watchers b4 = mig_watchers mg"
    by (auto simp: open_storage_def split: prod.splits sum.splits option.splits)
  have "Namespaces_Get m (Rest c) ''kube-system'' = Inr cid"
    using st(1) by (auto simp: getClusterId_def split: option.splits)
  with store st(5-8) show ?thesis
    by (intro exI [of _ cid] exI [of _ store] exI [of _ w1] exI [of _ mg]) (auto simp: NewServer_def)
qed


subsection \<open>A sample start\<close>

definition sample_machinery :: "(unit, string list) machinery" where
  "sample_machinery =
     \<lparr>registry_Register = (\<lambda>n g. (None, g)), apimetrics_Register = (\<lambda>g. g),
      apiserver_New = (\<lambda>c e g. (None, g)),
      mux_HandleFunc = (\<lambda>p hs g. g), kubernetes_NewForConfig = (\<lambda>c. None),
      Namespaces_Get = (\<lambda>c n. Inr ''c1''), cluster_of = (\<lambda>c. sample_cluster),
      Codecs = [''application/json''], InstallAPIGroup = (\<lambda>i g. (None, group_name i # g)),
      AddReadyzChecks = (\<lambda>n g. (None, n # g)), RunWithContext = (\<lambda>g. (None, g))\<rparr>"

text \<open>An etcd service beside a source of random numbers.\<close>

definition boxed_kv :: "'e KV \<Rightarrow> 'e pg_svc KV" where
  "boxed_kv kv =
     \<lparr>kv_Get = (\<lambda>k p e. kv_Get kv k p (pg_db e)),
      kv_Put = (\<lambda>k v e. let (x, d) = kv_Put kv k v (pg_db e) in (x, e\<lparr>pg_db := d\<rparr>)),
      kv_Delete = (\<lambda>k e. let (x, d) = kv_Delete kv k (pg_db e) in (x, e\<lparr>pg_db := d\<rparr>))\<rparr>"

lemma boxed_kv_contract:
  "etcd_contract kv V up \<Longrightarrow> etcd_contract (boxed_kv kv) (\<lambda>e. V (pg_db e)) (\<lambda>e. up (pg_db e))"
  by (simp add: etcd_contract_def boxed_kv_def case_prod_unfold Let_def)

definition sample_config :: "unit Config" where
  "sample_config =
     \<lparr>Apiserver = \<lparr>Info_Title = [], Info_Version = []\<rparr>, Rest = (), Embedded = True,
      cfg_EtcdConfig = \<lparr>Endpoints = [], Insecure = True\<rparr>,
      DBconfig = \<lparr>Host = [], ReadReplicaHosts = [], Port = 0, User = [], Password = [], DBname = [],
        SSLMode = [], SSLRootCert = [], SSLKey = [], SSLCert = []\<rparr>\<rparr>"

definition sample_boot :: "'e \<Rightarrow> ('e pg_svc world, string list) boot" where
  "sample_boot e =
     \<lparr>bt_world = \<lparr>svc = \<lparr>pg_db = e, entropy = (\<lambda>_. None)\<rparr>, mx = no_metrics\<rparr>, bt_server = [],
      bt_watchers = []\<rparr>"

definition sample_start_libs :: reportLibs where
  "sample_start_libs = sample_report_libs\<lparr>polrLib := table_lib [(''x'', annotate sample_polr)] PolicyReportPtr\<rparr>"

text \<open>A start on an empty etcd, in a cluster that has one policy report.\<close>

abbreviation "etcd_start \<equiv>
  Complete sample_start_libs (\<lambda>_. Inr (boxed_kv alist_kv)) (\<lambda>_. Inl ErrNoRows) sample_machinery sample_config
    (sample_boot [])"

lemmas start_defs = Complete_def on_server_def metricsHandler_def RegisterMetrics_def
  RegisterServerMetrics_def RegisterAPIMetrics_def RegisterStorageMetrics_def getClusterId_def
  open_storage_def storage_New_def Install_def RegisterProbes_def migration_def
  migrate_defs unless_err_def on_list_def and_then_def migrate_kind_def zero_List_def
  SetResourceVersion_def num_eval reserve_versions_result NewVersioning_def
  sample_machinery_def sample_config_def sample_cluster_def

lemma sample_not_annotated: "\<not> annotated sample_polr"
  by (simp add: annotated_def sample_polr_def zero_PolicyReport_def)

lemma etcd_start_ok: "\<exists>s b. etcd_start = (Inr s, b)"
proof -
  let ?create = "etcd_Create (table_lib [(''x'', annotate sample_polr)] PolicyReportPtr)
      (polr_ob (boxed_kv alist_kv)) (Some (annotate sample_polr))
      \<lparr>svc = \<lparr>pg_db = [], entropy = (\<lambda>_. None)\<rparr>, mx = no_metrics\<rparr>"
  have "fst ?create = None"
    by (simp add: etcd_Create_def boxed_kv_def alist_kv_def sample_lib(2) ns_store_def metric_simps Let_def)
  then obtain w1 where create: "?create = (None, w1)" by (cases ?create) simp
  have "\<not> isl (fst etcd_start)"
    using sample_not_annotated
    by (simp add: start_defs sample_boot_def etcd_New_def sample_start_libs_def sample_report_libs_def create)
  then show ?thesis by (cases etcd_start; cases "fst etcd_start") auto
qed


end
