(* ===== verification/SampleDb.thy ===== *)
theory SampleDb
  imports Postgres "HOL-Library.AList"
begin

section \<open>A database that meets the contract\<close>

text \<open>
  An executable database with the four tables of the stores, for examples: each table is an
  association list from cluster and key to documents, behind a handle that understands the statements
  of the four stores and has the tables from the start; read replicas are down. It meets the contract of each table, and its
  statements leave the other tables alone.
\<close>

type_synonym 'k rows = "((string \<times> 'k) \<times> string) list"

text \<open>The statements a table understands, each with what its arguments say.\<close>

record 'k sql_table =
  ins :: string
  ins_args :: "string list \<Rightarrow> ('k \<times> string \<times> string) option"
  upd :: string
  upd_args :: "string list \<Rightarrow> ('k \<times> string \<times> string) option"
  del :: string
  del_args :: "string list \<Rightarrow> ('k \<times> string) option"
  queries :: "(string \<times> (string list \<Rightarrow> (string \<times> 'k \<Rightarrow> bool) option)) list"

definition bad_args :: err where
  "bad_args = External ''wrong number of arguments''"

definition table_exec :: "'k sql_table \<Rightarrow> string \<Rightarrow> string list \<Rightarrow> 'k rows \<Rightarrow> (err option \<times> 'k rows) option" where
  "table_exec t q args rs =
     (if q = ins t
      then Some (case ins_args t args of
                   None \<Rightarrow> (Some bad_args, rs)
                 | Some (k, b, cid) \<Rightarrow>
                     if map_of rs (cid, k) = None then (None, ((cid, k), b) # rs)
                     else (Some (External ''duplicate key''), rs))
      else if q = upd t
      then Some (case upd_args t args of
                   None \<Rightarrow> (Some bad_args, rs)
                 | Some (k, b, cid) \<Rightarrow>
                     (None, if map_of rs (cid, k) = None then rs else AList.update (cid, k) b rs))
      else if q = del t
      then Some (case del_args t args of
                   None \<Rightarrow> (Some bad_args, rs)
                 | Some (k, cid) \<Rightarrow> (None, AList.delete (cid, k) rs))
      else None)"

definition table_query :: "'k sql_table \<Rightarrow> string \<Rightarrow> string list \<Rightarrow> 'k rows \<Rightarrow> (err + sql_rows) option" where
  "table_query t q args rs =
     (case map_of (queries t) q of
        None \<Rightarrow> None
      | Some dec \<Rightarrow>
          Some (case dec args of
                  None \<Rightarrow> Inl bad_args
                | Some P \<Rightarrow> Inr (full_rows (map snd (filter (\<lambda>x. P (fst x)) rs)))))"

definition ns_table :: "string \<Rightarrow> (string \<times> string) sql_table" where
  "ns_table t =
     \<lparr>ins = sql_insert_ns t, ins_args = (\<lambda>as. case as of [n, ns, b, cid] \<Rightarrow> Some ((ns, n), b, cid) | _ \<Rightarrow> None),
      upd = sql_update_ns t, upd_args = (\<lambda>as. case as of [b, ns, n, cid] \<Rightarrow> Some ((ns, n), b, cid) | _ \<Rightarrow> None),
      del = sql_delete_ns t, del_args = (\<lambda>as. case as of [ns, n, cid] \<Rightarrow> Some ((ns, n), cid) | _ \<Rightarrow> None),
      queries =
        [(sql_list_all t, \<lambda>as. case as of [cid] \<Rightarrow> Some (\<lambda>(c, k). c = cid) | _ \<Rightarrow> None),
         (sql_list_ns t, \<lambda>as. case as of [ns, cid] \<Rightarrow> Some (\<lambda>(c, k). c = cid \<and> fst k = ns) | _ \<Rightarrow> None),
         (sql_get_ns t, \<lambda>as. case as of [ns, n, cid] \<Rightarrow> Some (\<lambda>x. x = (cid, ns, n)) | _ \<Rightarrow> None)]\<rparr>"

definition cl_table :: "(string \<Rightarrow> string) \<Rightarrow> string \<Rightarrow> string sql_table" where
  "cl_table list_stmt t =
     \<lparr>ins = sql_insert_cl t, ins_args = (\<lambda>as. case as of [n, b, cid] \<Rightarrow> Some (n, b, cid) | _ \<Rightarrow> None),
      upd = sql_update_cl t, upd_args = (\<lambda>as. case as of [b, n, cid] \<Rightarrow> Some (n, b, cid) | _ \<Rightarrow> None),
      del = sql_delete_cl t, del_args = (\<lambda>as. case as of [n, cid] \<Rightarrow> Some (n, cid) | _ \<Rightarrow> None),
      queries =
        [(list_stmt t, \<lambda>as. case as of [cid] \<Rightarrow> Some (\<lambda>(c, k). c = cid) | _ \<Rightarrow> None),
         (sql_get_cl t, \<lambda>as. case as of [n, cid] \<Rightarrow> Some (\<lambda>x. x = (cid, n)) | _ \<Rightarrow> None)]\<rparr>"

subsection \<open>One table among others\<close>

text \<open>
  \<open>get\<close> and \<open>put\<close> are the table inside the state of a database, whose handle passes the statements
  of the table on to it.
\<close>

definition table_model :: "('e \<Rightarrow> 'k rows) \<Rightarrow> ('e, 'k, 'q) pgTable" where
  "table_model get =
     \<lparr>rows_of = (\<lambda>e cid k. map_of (get e) (cid, k)), pg_up = (\<lambda>e. distinct (map fst (get e))),
      pg_ok = (\<lambda>_. True), pg_okq = (\<lambda>_. True), jsonb_norm = Some\<rparr>"

lemma table_model_simps [simp]:
  "rows_of (table_model get) e cid = (\<lambda>k. map_of (get e) (cid, k))"
  "pg_up (table_model get) e = distinct (map fst (get e))" "pg_ok (table_model get) k"
  "pg_okq (table_model get) q" "jsonb_norm (table_model get) = Some"
  by (simp_all add: table_model_def)

lemma rows_of_table: "rows_of (table_model get) e = (\<lambda>cid k. map_of (get e) (cid, k))"
  by (simp add: table_model_def)

definition writes_of :: "'k sql_table \<Rightarrow> ('k, 'q) stmts \<Rightarrow> bool" where
  "writes_of t S \<longleftrightarrow> distinct [ins t, upd t, del t] \<and>
     (\<forall>k b cid. fst (st_insert S k b cid) = ins t \<and>
                ins_args t (snd (st_insert S k b cid)) = Some (k, b, cid) \<and>
                fst (st_update S k b cid) = upd t \<and>
                upd_args t (snd (st_update S k b cid)) = Some (k, b, cid) \<and>
                fst (st_delete S k cid) = del t \<and> del_args t (snd (st_delete S k cid)) = Some (k, cid))"

definition passes_writes :: "'e MultiDB \<Rightarrow> 'k sql_table \<Rightarrow> ('e \<Rightarrow> 'k rows) \<Rightarrow> ('k rows \<Rightarrow> 'e \<Rightarrow> 'e) \<Rightarrow> bool" where
  "passes_writes m t get put \<longleftrightarrow> (\<forall>r e. get (put r e) = r) \<and>
     (\<forall>q args e x r. table_exec t q args (get e) = Some (x, r) \<longrightarrow>
        sql_Exec (PrimaryDB m) q args e = (x, put r e))"

lemma table_exec_stmts:
  assumes "writes_of t S"
  shows "table_exec t (fst (st_insert S k b cid)) (snd (st_insert S k b cid)) rs =
      Some (if map_of rs (cid, k) = None then (None, ((cid, k), b) # rs)
            else (Some (External ''duplicate key''), rs))"
    and "table_exec t (fst (st_update S k b cid)) (snd (st_update S k b cid)) rs =
      Some (None, if map_of rs (cid, k) = None then rs else AList.update (cid, k) b rs)"
    and "table_exec t (fst (st_delete S k cid)) (snd (st_delete S k cid)) rs =
      Some (None, AList.delete (cid, k) rs)"
  using assms by (auto simp: writes_of_def table_exec_def)

lemma table_write_contract:
  assumes "writes_of t S" and "passes_writes m t get put"
  shows "write_contract m S (table_model get) cid"
proof -
  note ex = table_exec_stmts [OF assms(1)]
  have pass: "sql_Exec (PrimaryDB m) q args e = (x, put r e)" "get (put r' e') = r'"
    if "table_exec t q args (get e) = Some (x, r)" for q args e x r r' e'
    using assms(2) that by (auto simp: passes_writes_def)
  note [simp] = pass(2) [OF ex(3)]
  have "insert_result (table_model get) cid k b e x e'"
    if "distinct (map fst (get e))"
      and "sql_Exec (PrimaryDB m) (fst (st_insert S k b cid)) (snd (st_insert S k b cid)) e = (x, e')"
    for k b e x e'
    using that ex(1) [of k b cid "get e"]
    by (cases "map_of (get e) (cid, k)")
      (auto dest!: pass(1) simp: insert_result_def rows_of_table map_of_eq_None_iff fun_eq_iff)
  moreover have "update_result (table_model get) cid k b e x e'"
    if "distinct (map fst (get e))"
      and "sql_Exec (PrimaryDB m) (fst (st_update S k b cid)) (snd (st_update S k b cid)) e = (x, e')"
    for k b e x e'
    using that pass(1) [OF ex(2) [of k b cid "get e"]]
    by (auto simp: update_result_def rows_of_table update_conv' distinct_update fun_eq_iff)
  moreover have "delete_result (table_model get) cid k e x e'"
    if "distinct (map fst (get e))"
      and "sql_Exec (PrimaryDB m) (fst (st_delete S k cid)) (snd (st_delete S k cid)) e = (x, e')"
    for k e x e'
    using that pass(1) [OF ex(3) [of k cid "get e"]]
    by (auto simp: delete_result_def rows_of_table delete_conv' distinct_delete fun_eq_iff)
  ultimately show ?thesis unfolding write_contract_def table_model_simps by blast
qed

lemma table_leaves:
  assumes "writes_of t S" and "passes_writes m t get put" and "\<And>r e. f (put r e) = f e"
  shows "leaves m S (table_model get) cid f"
proof -
  have "f (snd (sql_Exec (PrimaryDB m) q args e)) = f e"
    if "table_exec t q args (get e) = Some y" for q args e y
    using assms(2,3) that by (cases y) (simp add: passes_writes_def)
  note this [OF table_exec_stmts(1) [OF assms(1)]] this [OF table_exec_stmts(2) [OF assms(1)]]
    this [OF table_exec_stmts(3) [OF assms(1)]]
  then show ?thesis unfolding leaves_def by (metis empty_iff fst_conv insertE snd_conv)
qed

definition reads_of :: "'k sql_table \<Rightarrow> ('k, 'q) stmts \<Rightarrow> ('q \<Rightarrow> 'k \<Rightarrow> bool) \<Rightarrow> bool" where
  "reads_of t S sel \<longleftrightarrow>
     (\<forall>q cid rs. table_query t (fst (st_list S q cid)) (snd (st_list S q cid)) rs =
        Some (Inr (full_rows (map snd (filter (\<lambda>x. fst (fst x) = cid \<and> sel q (snd (fst x))) rs))))) \<and>
     (\<forall>k cid rs. table_query t (fst (st_get S k cid)) (snd (st_get S k cid)) rs =
        Some (Inr (full_rows (map snd (filter (\<lambda>x. fst x = (cid, k)) rs)))))"

definition passes_reads :: "'e MultiDB \<Rightarrow> 'k sql_table \<Rightarrow> ('e \<Rightarrow> 'k rows) \<Rightarrow> bool" where
  "passes_reads m t get \<longleftrightarrow>
     (\<forall>q args e res. table_query t q args (get e) = Some res \<longrightarrow> sql_Query (PrimaryDB m) q args e = res) \<and>
     (\<forall>db \<in> set (ReadReplicaDBs m). \<forall>q args e. \<exists>err. sql_Query db q args e = Inl err)"

lemma select_rows:
  assumes "distinct (map fst rs)"
  shows "\<exists>ks. distinct ks \<and> set ks = {k \<in> dom (\<lambda>k. map_of rs (cid, k)). P k} \<and>
    map snd (filter (\<lambda>x. fst (fst x) = cid \<and> P (snd (fst x))) rs) = map (\<lambda>k. the (map_of rs (cid, k))) ks"
proof (intro exI conjI)
  let ?f = "filter (\<lambda>x. fst (fst x) = cid \<and> P (snd (fst x))) rs"
  have lookup: "map_of rs (cid, snd (fst x)) = Some (snd x)" if "x \<in> set ?f" for x
    using that assms by (auto simp: map_of_eq_Some_iff)
  show "distinct (map (\<lambda>x. snd (fst x)) ?f)"
    using assms by (induction rs) (auto simp: image_iff prod_eq_iff)
  show "set (map (\<lambda>x. snd (fst x)) ?f) = {k \<in> dom (\<lambda>k. map_of rs (cid, k)). P k}"
    using lookup by (force dest: map_of_SomeD)
  show "map snd ?f = map (\<lambda>k. the (map_of rs (cid, k))) (map (\<lambda>x. snd (fst x)) ?f)"
    using lookup by simp
qed

lemma select_one:
  "distinct (map fst rs) \<Longrightarrow>
     map snd (filter (\<lambda>x. fst x = k) rs) = (case map_of rs k of None \<Rightarrow> [] | Some b \<Rightarrow> [b])"
proof (induction rs)
  case (Cons a rs)
  then show ?case
    by (cases "fst a = k") (auto simp: filter_empty_conv image_iff split: option.split)
qed simp

lemma table_read_contract:
  assumes "reads_of t S sel" and "passes_reads m t get"
  shows "read_contract m S sel (table_model get) cid"
proof -
  have one: "reads_ok m q args e P \<longleftrightarrow> P rows" if "table_query t q args (get e) = Some (Inr rows)"
    for q args e P rows
  proof -
    have "sql_Query (PrimaryDB m) q args e = Inr rows"
      using assms(2) that by (simp add: passes_reads_def)
    moreover have "sql_Query db q args e \<noteq> Inr x" if "db \<in> set (ReadReplicaDBs m)" for db x
      using assms(2) that unfolding passes_reads_def by (metis sum.distinct(1))
    ultimately show ?thesis by (auto simp: reads_ok_def)
  qed
  show ?thesis
    unfolding read_contract_def table_model_simps
  proof (intro conjI allI impI)
    fix e q assume d: "distinct (map fst (get e))"
    have "table_query t (fst (st_list S q cid)) (snd (st_list S q cid)) (get e) =
        Some (Inr (full_rows (map snd (filter (\<lambda>x. fst (fst x) = cid \<and> sel q (snd (fst x))) (get e)))))"
      using assms(1) by (simp add: reads_of_def)
    with select_rows [OF d, of cid "sel q"]
    show "reads_ok m (fst (st_list S q cid)) (snd (st_list S q cid)) e
        (\<lambda>rows. \<exists>ks. distinct ks \<and> set ks = {k \<in> dom (\<lambda>k. map_of (get e) (cid, k)). sel q k} \<and>
           rows = full_rows (map (\<lambda>k. the (map_of (get e) (cid, k))) ks))"
      by (subst one) auto
  next
    fix e k assume d: "distinct (map fst (get e))"
    have "table_query t (fst (st_get S k cid)) (snd (st_get S k cid)) (get e) =
        Some (Inr (full_rows (map snd (filter (\<lambda>x. fst x = (cid, k)) (get e)))))"
      using assms(1) by (simp add: reads_of_def)
    with select_one [OF d, of "(cid, k)"]
    show "reads_ok m (fst (st_get S k cid)) (snd (st_get S k cid)) e
        (\<lambda>rows. rows = full_rows (case map_of (get e) (cid, k) of None \<Rightarrow> [] | Some b \<Rightarrow> [b]))"
      by (subst one) auto
  qed
qed

subsection \<open>The four tables\<close>

record sample_db =
  polr_rows :: "(string \<times> string) rows"
  cpolr_rows :: "string rows"
  ephr_rows :: "(string \<times> string) rows"
  cephr_rows :: "string rows"

abbreviation "polr_sql \<equiv> ns_table ''policyreports''"
abbreviation "cpolr_sql \<equiv> cl_table sql_list_all ''clusterpolicyreports''"
abbreviation "ephr_sql \<equiv> ns_table ''ephemeralreports''"
abbreviation "cephr_sql \<equiv> cl_table sql_list_all_paren ''clusterephemeralreports''"

definition sample_Exec :: "string \<Rightarrow> string list \<Rightarrow> sample_db eop" where
  "sample_Exec q args e =
     (case table_exec polr_sql q args (polr_rows e) of
        Some (x, r) \<Rightarrow> (x, e\<lparr>polr_rows := r\<rparr>)
      | None \<Rightarrow>
     (case table_exec cpolr_sql q args (cpolr_rows e) of
        Some (x, r) \<Rightarrow> (x, e\<lparr>cpolr_rows := r\<rparr>)
      | None \<Rightarrow>
     (case table_exec ephr_sql q args (ephr_rows e) of
        Some (x, r) \<Rightarrow> (x, e\<lparr>ephr_rows := r\<rparr>)
      | None \<Rightarrow>
     (case table_exec cephr_sql q args (cephr_rows e) of
        Some (x, r) \<Rightarrow> (x, e\<lparr>cephr_rows := r\<rparr>)
      | None \<Rightarrow>
          (if take 7 q = ''CREATE '' then (None, e) else (Some (External ''syntax error''), e))))))"

definition sample_Query :: "string \<Rightarrow> string list \<Rightarrow> sample_db \<Rightarrow> err + sql_rows" where
  "sample_Query q args e =
     (case table_query polr_sql q args (polr_rows e) of
        Some res \<Rightarrow> res
      | None \<Rightarrow>
     (case table_query cpolr_sql q args (cpolr_rows e) of
        Some res \<Rightarrow> res
      | None \<Rightarrow>
     (case table_query ephr_sql q args (ephr_rows e) of
        Some res \<Rightarrow> res
      | None \<Rightarrow>
     (case table_query cephr_sql q args (cephr_rows e) of
        Some res \<Rightarrow> res
      | None \<Rightarrow> Inl (External ''syntax error'')))))"

definition sample_handle :: "sample_db sqlDB" where
  "sample_handle = \<lparr>sql_Exec = sample_Exec, sql_Query = sample_Query, sql_Ping = (\<lambda>e. (None, e))\<rparr>"

definition sample_down :: "sample_db sqlDB" where
  "sample_down =
     \<lparr>sql_Exec = (\<lambda>q args e. (Some (External ''read only''), e)),
      sql_Query = (\<lambda>q args e. Inl (External ''connection refused'')),
      sql_Ping = (\<lambda>e. (Some (External ''connection refused''), e))\<rparr>"

definition sample_multi :: "sample_db sqlDB list \<Rightarrow> sample_db MultiDB" where
  "sample_multi reps = NewMultiDB sample_handle reps"

abbreviation polr_model_table :: "(sample_db, string \<times> string, string) pgTable" where
  "polr_model_table \<equiv> table_model polr_rows"

lemmas sql_texts = sql_insert_ns_def sql_update_ns_def sql_delete_ns_def sql_insert_cl_def
  sql_update_cl_def sql_delete_cl_def sql_list_all_def sql_list_all_paren_def sql_list_ns_def
  sql_get_ns_def sql_get_cl_def

lemma table_stmts:
  "writes_of (ns_table t) (ns_stmts t)" "reads_of (ns_table t) (ns_stmts t) ns_sel"
  "writes_of (cl_table l t) (cl_stmts l t)" "l t \<noteq> sql_get_cl t \<Longrightarrow> reads_of (cl_table l t) (cl_stmts l t) cl_sel"
proof -
  show "writes_of (ns_table t) (ns_stmts t)"
    by (auto simp: writes_of_def ns_table_def ns_stmts_def sql_texts)
  show "reads_of (ns_table t) (ns_stmts t) ns_sel"
    by (auto simp: reads_of_def table_query_def ns_table_def ns_stmts_def ns_sel_def sql_texts
        case_prod_unfold)
  show "writes_of (cl_table l t) (cl_stmts l t)"
    by (auto simp: writes_of_def cl_table_def cl_stmts_def sql_texts)
  show "reads_of (cl_table l t) (cl_stmts l t) cl_sel" if "l t \<noteq> sql_get_cl t"
    using that
    by (auto simp: reads_of_def table_query_def cl_table_def cl_stmts_def cl_sel_def case_prod_unfold)
qed

text \<open>No table takes a statement of another one.\<close>

lemma table_exec_Some: "table_exec t q args rs = Some y \<Longrightarrow> q \<in> {ins t, upd t, del t}"
  by (auto simp: table_exec_def split: if_splits)

lemma table_exec_None: "q \<notin> {ins t, upd t, del t} \<Longrightarrow> table_exec t q args rs = None"
  by (simp add: table_exec_def)

lemma table_query_Some: "table_query t q args rs = Some y \<Longrightarrow> q \<in> fst ` set (queries t)"
  by (force simp: table_query_def dest: map_of_SomeD split: option.splits)

lemma table_query_None: "q \<notin> fst ` set (queries t) \<Longrightarrow> table_query t q args rs = None"
  by (simp add: table_query_def map_of_eq_None_iff [symmetric])

definition stmts_of :: "'k sql_table \<Rightarrow> string set" where
  "stmts_of t = {ins t, upd t, del t} \<union> fst ` set (queries t)"

lemma tables_disjoint:
  "stmts_of polr_sql \<inter> stmts_of cpolr_sql = {}" "stmts_of polr_sql \<inter> stmts_of ephr_sql = {}"
  "stmts_of polr_sql \<inter> stmts_of cephr_sql = {}" "stmts_of cpolr_sql \<inter> stmts_of ephr_sql = {}"
  "stmts_of cpolr_sql \<inter> stmts_of cephr_sql = {}" "stmts_of ephr_sql \<inter> stmts_of cephr_sql = {}"
  by (simp_all add: stmts_of_def ns_table_def cl_table_def sql_texts)

lemma table_other:
  assumes "stmts_of t \<inter> stmts_of t' = {}"
  shows "table_exec t' q args rs' = Some y \<Longrightarrow> table_exec t q args rs = None"
    and "table_query t' q args rs' = Some z \<Longrightarrow> table_query t q args rs = None"
  using assms
  by (auto simp: stmts_of_def disjoint_iff dest!: table_exec_Some table_query_Some
      intro!: table_exec_None table_query_None)

lemma sample_passes:
  assumes "set reps \<subseteq> {sample_down}"
  shows
  "passes_writes (sample_multi reps) polr_sql polr_rows (\<lambda>r. polr_rows_update (\<lambda>_. r))"
  "passes_writes (sample_multi reps) cpolr_sql cpolr_rows (\<lambda>r. cpolr_rows_update (\<lambda>_. r))"
  "passes_writes (sample_multi reps) ephr_sql ephr_rows (\<lambda>r. ephr_rows_update (\<lambda>_. r))"
  "passes_writes (sample_multi reps) cephr_sql cephr_rows (\<lambda>r. cephr_rows_update (\<lambda>_. r))"
  "passes_reads (sample_multi reps) polr_sql polr_rows" "passes_reads (sample_multi reps) cpolr_sql cpolr_rows"
  "passes_reads (sample_multi reps) ephr_sql ephr_rows" "passes_reads (sample_multi reps) cephr_sql cephr_rows"
  using assms
  by (auto simp: passes_writes_def passes_reads_def sample_multi_def NewMultiDB_def sample_handle_def
      sample_down_def sample_Exec_def sample_Query_def table_other [OF tables_disjoint(1)] table_other [OF tables_disjoint(2)]
      table_other [OF tables_disjoint(3)] table_other [OF tables_disjoint(4)]
      table_other [OF tables_disjoint(5)] table_other [OF tables_disjoint(6)])

lemma sample_reads:
  assumes "set reps \<subseteq> {sample_down}"
  shows
  "read_contract (sample_multi reps) (ns_stmts ''policyreports'') ns_sel (table_model polr_rows) cid"
  "read_contract (sample_multi reps) (cl_stmts sql_list_all ''clusterpolicyreports'') cl_sel (table_model cpolr_rows) cid"
  "read_contract (sample_multi reps) (ns_stmts ''ephemeralreports'') ns_sel (table_model ephr_rows) cid"
  "read_contract (sample_multi reps) (cl_stmts sql_list_all_paren ''clusterephemeralreports'') cl_sel
     (table_model cephr_rows) cid"
  by (rule table_read_contract [OF table_stmts(2) sample_passes(5) [OF assms]]
      table_read_contract [OF table_stmts(4) sample_passes(6) [OF assms]]
      table_read_contract [OF table_stmts(2) sample_passes(7) [OF assms]]
      table_read_contract [OF table_stmts(4) sample_passes(8) [OF assms]]; simp add: sql_texts)+

lemma sample_writes:
  assumes "set reps \<subseteq> {sample_down}"
  shows
  "write_contract (sample_multi reps) (ns_stmts ''policyreports'') (table_model polr_rows) cid"
  "write_contract (sample_multi reps) (cl_stmts sql_list_all ''clusterpolicyreports'') (table_model cpolr_rows) cid"
  "write_contract (sample_multi reps) (ns_stmts ''ephemeralreports'') (table_model ephr_rows) cid"
  "write_contract (sample_multi reps) (cl_stmts sql_list_all_paren ''clusterephemeralreports'')
     (table_model cephr_rows) cid"
  by (rule table_write_contract [OF table_stmts(1) sample_passes(1) [OF assms]]
      table_write_contract [OF table_stmts(3) sample_passes(2) [OF assms]]
      table_write_contract [OF table_stmts(1) sample_passes(3) [OF assms]]
      table_write_contract [OF table_stmts(3) sample_passes(4) [OF assms]])+

definition sample_store :: "sample_db sqlDB list \<Rightarrow> sample_db pgstore" where
  "sample_store reps = \<lparr>store_MultiDB = sample_multi reps, clusterId = ''c1''\<rparr>"

definition sample_world :: "sample_db pg_svc world" where
  "sample_world =
     \<lparr>svc = \<lparr>pg_db = \<lparr>polr_rows = [], cpolr_rows = [], ephr_rows = [], cephr_rows = []\<rparr>,
             entropy = (\<lambda>_. None)\<rparr>,
      mx = no_metrics\<rparr>"

lemma sample_store_multi: "store_MultiDB (sample_store reps) = sample_multi reps"
  by (simp add: sample_store_def)

lemma sample_pg_inv:
  assumes "set reps \<subseteq> {sample_down}"
  shows
  "json_roundtrip T1 c1 \<Longrightarrow> pg_inv T1 c1 (store_MultiDB (sample_store reps)) (ns_stmts ''policyreports'') ns_sel
     (table_model polr_rows) (clusterId (sample_store reps)) ns_key sample_world"
  "json_roundtrip T2 c2 \<Longrightarrow> pg_inv T2 c2 (store_MultiDB (sample_store reps))
     (cl_stmts sql_list_all ''clusterpolicyreports'') cl_sel (table_model cpolr_rows)
     (clusterId (sample_store reps)) cl_key sample_world"
  "json_roundtrip T3 c3 \<Longrightarrow> pg_inv T3 c3 (store_MultiDB (sample_store reps)) (ns_stmts ''ephemeralreports'') ns_sel
     (table_model ephr_rows) (clusterId (sample_store reps)) ns_key sample_world"
  "json_roundtrip T4 c4 \<Longrightarrow> pg_inv T4 c4 (store_MultiDB (sample_store reps))
     (cl_stmts sql_list_all_paren ''clusterephemeralreports'') cl_sel (table_model cephr_rows)
     (clusterId (sample_store reps)) cl_key sample_world"
  by (simp_all add: pg_inv_def sample_store_def sample_world_def jsonb_faithful_def sample_reads [OF assms]
      sample_writes [OF assms])

end
