(* ===== verification/PgProps.thy ===== *)
theory PgProps
  imports PgConnect SampleDb
begin

section \<open>Properties of the Postgres back end\<close>

text \<open>
  The refinement of the four stores to maps, and the isolation of clusters that share a database.
\<close>

subsection \<open>Clusters sharing a database\<close>

lemma pg_exec_frame:
  assumes inv: "pg_inv T canon m S sel D cid rk w" and ok: "pg_ok D k" and "leaves m S D cid f"
    and "(q, args) = st_insert S k b cid \<or> (q, args) = st_update S k b cid \<or>
             (q, args) = st_delete S k cid"
    and x: "run_exec m q args w = (x, w1)"
  shows "f (pg_db (svc w1)) = f (pg_db (svc w))"
proof -
  have "f (snd (sql_Exec (PrimaryDB m) q args (pg_db (svc w)))) = f (pg_db (svc w))"
    using assms(3,4) pg_invD(5) [OF inv] ok unfolding leaves_def by blast
  with run_exec_db [OF x] show ?thesis by simp
qed

lemma leaves_clusters:
  assumes "write_contract m S D cid" and "c \<noteq> cid"
  shows "leaves m S D cid (\<lambda>e. rows_of D e c)"
  unfolding leaves_def
proof (intro allI impI)
  fix e k b q args assume ok: "pg_up D e" "pg_ok D k"
    and st: "(q, args) \<in> {st_insert S k b cid, st_update S k b cid, st_delete S k cid}"
  note res = write_contract_results [OF assms(1) ok, of q args _ "snd (sql_Exec (PrimaryDB m) q args e)",
      OF prod.collapse [symmetric]]
  from st consider "(q, args) = st_insert S k b cid" | "(q, args) = st_update S k b cid"
    | "(q, args) = st_delete S k cid" by blast
  then show "rows_of D (snd (sql_Exec (PrimaryDB m) q args e)) c = rows_of D e c"
  proof cases
    case 1
    from res(1) [OF 1 [symmetric]] assms(2) show ?thesis
      by (auto simp: insert_result_def split: option.splits if_splits)
  next
    case 2
    from res(2) [OF 2 [symmetric]] assms(2) show ?thesis
      by (auto simp: update_result_def split: option.splits if_splits)
  next
    case 3
    from res(3) [OF 3 [symmetric]] assms(2) show ?thesis by (auto simp: delete_result_def)
  qed
qed

text \<open>
  The calls of a store change nothing that its statements leave alone.
\<close>

lemma pg_polr_cmd_frame:
  assumes inv: "pg_inv T canon (store_MultiDB p) (ns_stmts ''policyreports'') ns_sel D (clusterId p) ns_key w"
    and good: "good_cmd (pg_ok D) (pg_okq D) (pg_good T D ns_key) cmd"
    and c: "leaves (store_MultiDB p) (ns_stmts ''policyreports'') D (clusterId p) f"
  shows "f (pg_db (svc (snd (do_cmd (ns_ops (pg_polr_iface T p)) cmd w)))) =
    f (pg_db (svc w))"
proof (cases cmd)
  case (GetCmd k)
  with good pg_polr_Get_result(2) [OF inv, of "fst k" "snd k"] show ?thesis
    by (cases k) (simp add: pg_polr_iface_def case_prod_unfold Let_def)
next
  case (ListCmd q)
  with good pg_polr_List_result(2) [OF inv] show ?thesis
    by (simp add: pg_polr_iface_def case_prod_unfold Let_def)
next
  case (CreateCmd r)
  with good have ok: "pg_ok D (ns_key r)" by (simp add: pg_good_def)
  have frame: "f (pg_db (svc w1)) = f (pg_db (svc w))"
    if "run_exec (store_MultiDB p) (sql_insert_ns ''policyreports'') [Name r, Namespace r, b, clusterId p] w = (x, w1)"
    for b x w1
    by (rule pg_exec_frame [OF inv ok c _ that, of b]) (simp add: ns_key_def)
  show ?thesis unfolding CreateCmd
    by (auto simp: pg_polr_iface_def pg_polr_Create_def case_prod_unfold Let_def metric_simps
        split: sum.split option.split intro: frame [OF prod.collapse [symmetric]])
next
  case (UpdateCmd r)
  with good have ok: "pg_ok D (ns_key r)" by (simp add: pg_good_def)
  have frame: "f (pg_db (svc w1)) = f (pg_db (svc w))"
    if "run_exec (store_MultiDB p) (sql_update_ns ''policyreports'') [b, Namespace r, Name r, clusterId p] w = (x, w1)"
    for b x w1
    by (rule pg_exec_frame [OF inv ok c _ that, of b]) (simp add: ns_key_def)
  show ?thesis unfolding UpdateCmd
    by (auto simp: pg_polr_iface_def pg_polr_Update_def case_prod_unfold Let_def metric_simps
        split: sum.split option.split intro: frame [OF prod.collapse [symmetric]])
next
  case (DeleteCmd k)
  with good have ok: "pg_ok D k" by simp
  let ?w = "snd (pg_polr_Get T p (snd k) (fst k) w)"
  have w: "pg_db (svc ?w) = pg_db (svc w)"
    using ok pg_polr_Get_result(2) [OF inv, of "fst k" "snd k"] by simp
  have inv': "pg_inv T canon (store_MultiDB p) (ns_stmts ''policyreports'') ns_sel D (clusterId p) ns_key ?w"
    using inv by (simp add: pg_same_db(1) [OF w])
  have frame: "f (pg_db (svc w1)) = f (pg_db (svc w))"
    if "run_exec (store_MultiDB p) (sql_delete_ns ''policyreports'') [fst k, snd k, clusterId p] ?w = (x, w1)"
    for x w1
    unfolding w [symmetric]
    by (rule pg_exec_frame [OF inv' ok c _ that]) (simp add: case_prod_unfold ns_stmts_def)
  have "f (pg_db (svc (snd (pg_polr_Delete T p (snd k) (fst k) w)))) = f (pg_db (svc w))"
    by (auto simp: pg_polr_Delete_def case_prod_unfold Let_def metric_simps w
        split: sum.split option.split if_split intro: frame [OF prod.collapse [symmetric]])
  then show ?thesis unfolding DeleteCmd
    by (cases k) (simp add: pg_polr_iface_def case_prod_unfold Let_def)
qed

lemma pg_cpolr_cmd_frame:
  assumes inv: "pg_inv T canon (store_MultiDB p) (cl_stmts sql_list_all ''clusterpolicyreports'') cl_sel D (clusterId p) cl_key w"
    and good: "good_cmd (pg_ok D) (pg_okq D) (pg_good T D cl_key) cmd"
    and c: "leaves (store_MultiDB p) (cl_stmts sql_list_all ''clusterpolicyreports'') D (clusterId p) f"
  shows "f (pg_db (svc (snd (do_cmd (cl_ops (pg_cpolr_iface T p)) cmd w)))) =
    f (pg_db (svc w))"
proof (cases cmd)
  case (GetCmd k)
  with good pg_cpolr_Get_result(2) [OF inv, of k] show ?thesis
    by (simp add: pg_cpolr_iface_def case_prod_unfold Let_def)
next
  case (ListCmd q)
  with good pg_cpolr_List_result(2) [OF inv, of "()"] show ?thesis
    by (simp add: pg_cpolr_iface_def case_prod_unfold Let_def)
next
  case (CreateCmd r)
  with good have ok: "pg_ok D (cl_key r)" by (simp add: pg_good_def)
  have frame: "f (pg_db (svc w1)) = f (pg_db (svc w))"
    if "run_exec (store_MultiDB p) (sql_insert_cl ''clusterpolicyreports'') [Name r, b, clusterId p] w = (x, w1)"
    for b x w1
    by (rule pg_exec_frame [OF inv ok c _ that, of b]) (simp add: cl_key_def)
  show ?thesis unfolding CreateCmd
    by (auto simp: pg_cpolr_iface_def pg_cpolr_Create_def case_prod_unfold Let_def metric_simps
        split: sum.split option.split intro: frame [OF prod.collapse [symmetric]])
next
  case (UpdateCmd r)
  with good have ok: "pg_ok D (cl_key r)" by (simp add: pg_good_def)
  have frame: "f (pg_db (svc w1)) = f (pg_db (svc w))"
    if "run_exec (store_MultiDB p) (sql_update_cl ''clusterpolicyreports'') [b, Name r, clusterId p] w = (x, w1)"
    for b x w1
    by (rule pg_exec_frame [OF inv ok c _ that, of b]) (simp add: cl_key_def)
  show ?thesis unfolding UpdateCmd
    by (auto simp: pg_cpolr_iface_def pg_cpolr_Update_def case_prod_unfold Let_def metric_simps
        split: sum.split option.split intro: frame [OF prod.collapse [symmetric]])
next
  case (DeleteCmd k)
  with good have ok: "pg_ok D k" by simp
  let ?w = "snd (pg_cpolr_Get T p k w)"
  have w: "pg_db (svc ?w) = pg_db (svc w)"
    using ok pg_cpolr_Get_result(2) [OF inv, of k] by simp
  have inv': "pg_inv T canon (store_MultiDB p) (cl_stmts sql_list_all ''clusterpolicyreports'') cl_sel D (clusterId p) cl_key ?w"
    using inv by (simp add: pg_same_db(1) [OF w])
  have frame: "f (pg_db (svc w1)) = f (pg_db (svc w))"
    if "run_exec (store_MultiDB p) (sql_delete_cl ''clusterpolicyreports'') [k, clusterId p] ?w = (x, w1)"
    for x w1
    unfolding w [symmetric]
    by (rule pg_exec_frame [OF inv' ok c _ that]) (simp add: case_prod_unfold ns_stmts_def)
  have "f (pg_db (svc (snd (pg_cpolr_Delete T p k w)))) = f (pg_db (svc w))"
    by (auto simp: pg_cpolr_Delete_def case_prod_unfold Let_def metric_simps w
        split: sum.split option.split if_split intro: frame [OF prod.collapse [symmetric]])
  then show ?thesis unfolding DeleteCmd
    by (simp add: pg_cpolr_iface_def case_prod_unfold Let_def)
qed

lemma pg_ephr_cmd_frame:
  assumes inv: "pg_inv T canon (store_MultiDB p) (ns_stmts ''ephemeralreports'') ns_sel D (clusterId p) ns_key w"
    and good: "good_cmd (pg_ok D) (pg_okq D) (pg_good T D ns_key) cmd"
    and c: "leaves (store_MultiDB p) (ns_stmts ''ephemeralreports'') D (clusterId p) f"
  shows "f (pg_db (svc (snd (do_cmd (ns_ops (pg_ephr_iface T p)) cmd w)))) =
    f (pg_db (svc w))"
proof (cases cmd)
  case (GetCmd k)
  with good pg_ephr_Get_result(2) [OF inv, of "fst k" "snd k"] show ?thesis
    by (cases k) (simp add: pg_ephr_iface_def case_prod_unfold Let_def)
next
  case (ListCmd q)
  with good pg_ephr_List_result(2) [OF inv] show ?thesis
    by (simp add: pg_ephr_iface_def case_prod_unfold Let_def)
next
  case (CreateCmd r)
  with good have ok: "pg_ok D (ns_key r)" by (simp add: pg_good_def)
  have frame: "f (pg_db (svc w1)) = f (pg_db (svc w))"
    if "run_exec (store_MultiDB p) (sql_insert_ns ''ephemeralreports'') [Name r, Namespace r, b, clusterId p] w = (x, w1)"
    for b x w1
    by (rule pg_exec_frame [OF inv ok c _ that, of b]) (simp add: ns_key_def)
  show ?thesis unfolding CreateCmd
    by (auto simp: pg_ephr_iface_def pg_ephr_Create_def case_prod_unfold Let_def metric_simps
        split: sum.split option.split intro: frame [OF prod.collapse [symmetric]])
next
  case (UpdateCmd r)
  with good have ok: "pg_ok D (ns_key r)" by (simp add: pg_good_def)
  have frame: "f (pg_db (svc w1)) = f (pg_db (svc w))"
    if "run_exec (store_MultiDB p) (sql_update_ns ''ephemeralreports'') [b, Namespace r, Name r, clusterId p] w = (x, w1)"
    for b x w1
    by (rule pg_exec_frame [OF inv ok c _ that, of b]) (simp add: ns_key_def)
  show ?thesis unfolding UpdateCmd
    by (auto simp: pg_ephr_iface_def pg_ephr_Update_def case_prod_unfold Let_def metric_simps
        split: sum.split option.split intro: frame [OF prod.collapse [symmetric]])
next
  case (DeleteCmd k)
  with good have ok: "pg_ok D k" by simp
  let ?w = "snd (pg_ephr_Get T p (snd k) (fst k) w)"
  have w: "pg_db (svc ?w) = pg_db (svc w)"
    using ok pg_ephr_Get_result(2) [OF inv, of "fst k" "snd k"] by simp
  have inv': "pg_inv T canon (store_MultiDB p) (ns_stmts ''ephemeralreports'') ns_sel D (clusterId p) ns_key ?w"
    using inv by (simp add: pg_same_db(1) [OF w])
  have frame: "f (pg_db (svc w1)) = f (pg_db (svc w))"
    if "run_exec (store_MultiDB p) (sql_delete_ns ''ephemeralreports'') [fst k, snd k, clusterId p] ?w = (x, w1)"
    for x w1
    unfolding w [symmetric]
    by (rule pg_exec_frame [OF inv' ok c _ that]) (simp add: case_prod_unfold ns_stmts_def)
  have "f (pg_db (svc (snd (pg_ephr_Delete T p (snd k) (fst k) w)))) = f (pg_db (svc w))"
    by (auto simp: pg_ephr_Delete_def case_prod_unfold Let_def metric_simps w
        split: sum.split option.split if_split intro: frame [OF prod.collapse [symmetric]])
  then show ?thesis unfolding DeleteCmd
    by (cases k) (simp add: pg_ephr_iface_def case_prod_unfold Let_def)
qed

lemma pg_cephr_cmd_frame:
  assumes inv: "pg_inv T canon (store_MultiDB p) (cl_stmts sql_list_all_paren ''clusterephemeralreports'') cl_sel D (clusterId p) cl_key w"
    and good: "good_cmd (pg_ok D) (pg_okq D) (pg_good T D cl_key) cmd"
    and c: "leaves (store_MultiDB p) (cl_stmts sql_list_all_paren ''clusterephemeralreports'') D (clusterId p) f"
  shows "f (pg_db (svc (snd (do_cmd (cl_ops (pg_cephr_iface T p)) cmd w)))) =
    f (pg_db (svc w))"
proof (cases cmd)
  case (GetCmd k)
  with good pg_cephr_Get_result(2) [OF inv, of k] show ?thesis
    by (simp add: pg_cephr_iface_def case_prod_unfold Let_def)
next
  case (ListCmd q)
  with good pg_cephr_List_result(2) [OF inv, of "()"] show ?thesis
    by (simp add: pg_cephr_iface_def case_prod_unfold Let_def)
next
  case (CreateCmd r)
  with good have ok: "pg_ok D (cl_key r)" by (simp add: pg_good_def)
  have frame: "f (pg_db (svc w1)) = f (pg_db (svc w))"
    if "run_exec (store_MultiDB p) (sql_insert_cl ''clusterephemeralreports'') [Name r, b, clusterId p] w = (x, w1)"
    for b x w1
    by (rule pg_exec_frame [OF inv ok c _ that, of b]) (simp add: cl_key_def)
  show ?thesis unfolding CreateCmd
    by (auto simp: pg_cephr_iface_def pg_cephr_Create_def case_prod_unfold Let_def metric_simps
        split: sum.split option.split intro: frame [OF prod.collapse [symmetric]])
next
  case (UpdateCmd r)
  with good have ok: "pg_ok D (cl_key r)" by (simp add: pg_good_def)
  have frame: "f (pg_db (svc w1)) = f (pg_db (svc w))"
    if "run_exec (store_MultiDB p) (sql_update_cl ''clusterephemeralreports'') [b, Name r, clusterId p] w = (x, w1)"
    for b x w1
    by (rule pg_exec_frame [OF inv ok c _ that, of b]) (simp add: cl_key_def)
  show ?thesis unfolding UpdateCmd
    by (auto simp: pg_cephr_iface_def pg_cephr_Update_def case_prod_unfold Let_def metric_simps
        split: sum.split option.split intro: frame [OF prod.collapse [symmetric]])
next
  case (DeleteCmd k)
  with good have ok: "pg_ok D k" by simp
  let ?w = "snd (pg_cephr_Get T p k w)"
  have w: "pg_db (svc ?w) = pg_db (svc w)"
    using ok pg_cephr_Get_result(2) [OF inv, of k] by simp
  have inv': "pg_inv T canon (store_MultiDB p) (cl_stmts sql_list_all_paren ''clusterephemeralreports'') cl_sel D (clusterId p) cl_key ?w"
    using inv by (simp add: pg_same_db(1) [OF w])
  have frame: "f (pg_db (svc w1)) = f (pg_db (svc w))"
    if "run_exec (store_MultiDB p) (sql_delete_cl ''clusterephemeralreports'') [k, clusterId p] ?w = (x, w1)"
    for x w1
    unfolding w [symmetric]
    by (rule pg_exec_frame [OF inv' ok c _ that]) (simp add: case_prod_unfold ns_stmts_def)
  have "f (pg_db (svc (snd (pg_cephr_Delete T p k w)))) = f (pg_db (svc w))"
    by (auto simp: pg_cephr_Delete_def case_prod_unfold Let_def metric_simps w
        split: sum.split option.split if_split intro: frame [OF prod.collapse [symmetric]])
  then show ?thesis unfolding DeleteCmd
    by (simp add: pg_cephr_iface_def case_prod_unfold Let_def)
qed

subsection \<open>Properties\<close>


lemma sample_world_view: "pg_view T polr_model_table c sample_world = Map.empty"
  by (simp add: pg_view_def sample_world_def fun_eq_iff)


lemma pg_view_frame:
  "rows_of D (pg_db (svc w')) c = rows_of D (pg_db (svc w)) c \<Longrightarrow> pg_view T D c w' = pg_view T D c w"
  by (simp add: pg_view_def fun_eq_iff)



text \<open>
  C37. Deleting a policy report that cannot be read returns the error of the read and sends no
  \<open>DELETE\<close>: the check for \<open>sql.ErrNoRows\<close> never applies, because \<open>Get\<close> keeps only the text of
  that error.
\<close>

theorem pg_polr_delete_unread:
  "pg_polr_Delete T p name namespace w =
     (case pg_polr_Get T p name namespace w of
        (Inl err, w1) \<Rightarrow> (Some err, w1)
      | (Inr report, w1) \<Rightarrow>
          (case run_exec (store_MultiDB p) (sql_delete_ns ''policyreports'')
                  [namespace, name, clusterId p] w1 of
             (Some err, w2) \<Rightarrow> (Some (Errorf ''delete policyreport: '' (Some err)), w2)
           | (None, w2) \<Rightarrow>
               (None, UpdatePolicyReportMetrics ''postgres'' ''delete''
                        (case report of None \<Rightarrow> OtherValue | Some r \<Rightarrow> PolicyReportPtr r) False
                        (count_request ''postgres'' ''delete'' ''PolicyReport'' w2))))"
proof -
  have "\<not> errors_Is err ErrNoRows" if "fst (pg_polr_Get T p name namespace w) = Inl err" for err
    using that by (auto simp: pg_polr_Get_def Let_def split: sum.splits prod.splits if_splits)
  then show ?thesis
    by (auto simp: pg_polr_Delete_def UpdatePolicyReportMetrics_def case_prod_unfold Let_def
        split: sum.split option.split)
qed

end
