(* ===== verification/PgServer.thy ===== *)
theory PgServer
  imports System PgProps
begin

section \<open>The server on Postgres\<close>

text \<open>
  The storage that \<open>db.New\<close> makes (\<^verbatim>\<open>pkg/storage/db/new.go\<close>) keeps the promises of \<open>server_storage\<close>: each kind
  has a table of its own. Besides the contract of the statements on each table, the server relies
  on a statement leaving the other three tables alone. The properties of the whole server follow.
\<close>

definition pg_storage :: "reportLibs \<Rightarrow> 'e pgstore \<Rightarrow> 'e pg_svc world Storage" where
  "pg_storage L p =
     \<lparr>Ready = pg_Ready (PrimaryDB (store_MultiDB p)),
      PolicyReports = pg_polr_iface (polrLib L) p, ClusterPolicyReports = pg_cpolr_iface (cpolrLib L) p,
      EphemeralReports = pg_ephr_iface (ephrLib L) p,
      ClusterEphemeralReports = pg_cephr_iface (cephrLib L) p\<rparr>"

lemma pg_storage_stores [simp]:
  "PolicyReports (pg_storage L p) = pg_polr_iface (polrLib L) p"
  "ClusterPolicyReports (pg_storage L p) = pg_cpolr_iface (cpolrLib L) p"
  "EphemeralReports (pg_storage L p) = pg_ephr_iface (ephrLib L) p"
  "ClusterEphemeralReports (pg_storage L p) = pg_cephr_iface (cephrLib L) p"
  by (simp_all add: pg_storage_def)

text \<open>The four constructors make the same pair of connections and cluster id.\<close>

lemma NewStore_result:
  "NewPolicyReportStore m cid w = (Inr p, w') \<Longrightarrow> p = \<lparr>store_MultiDB = m, clusterId = cid\<rparr>"
  "NewClusterPolicyReportStore m cid w = (Inr p, w') \<Longrightarrow> p = \<lparr>store_MultiDB = m, clusterId = cid\<rparr>"
  "NewEphemeralReportStore m cid w = (Inr p, w') \<Longrightarrow> p = \<lparr>store_MultiDB = m, clusterId = cid\<rparr>"
  "NewClusterEphemeralReportStore m cid w = (Inr p, w') \<Longrightarrow> p = \<lparr>store_MultiDB = m, clusterId = cid\<rparr>"
  by (auto simp: NewPolicyReportStore_def NewClusterPolicyReportStore_def NewEphemeralReportStore_def
      NewClusterEphemeralReportStore_def split: prod.splits option.splits)

lemma pg_New_storage:
  assumes "pg_New L sql_Open config cid w = (Inr st, w')"
  shows "\<exists>db reps. sql_Open (PostgresConfig_String config) = Inr db \<and>
    st = pg_storage L \<lparr>store_MultiDB = NewMultiDB db reps, clusterId = cid\<rparr>"
  using assms
  by (auto simp: pg_New_def pg_storage_def Let_def NewMultiDB_def dest!: NewStore_result
      split: sum.splits prod.splits option.splits)

subsection \<open>The kinds as the database models them\<close>

record 'e pg_tables =
  polr_table :: "('e, string \<times> string, string) pgTable"
  cpolr_table :: "('e, string, unit) pgTable"
  ephr_table :: "('e, string \<times> string, string) pgTable"
  cephr_table :: "('e, string, unit) pgTable"

definition pg_kind ::
  "'r TypeLib \<Rightarrow> ('e, 'k, 'q) pgTable \<Rightarrow> string \<Rightarrow> ('r \<Rightarrow> 'k) \<Rightarrow> ('r \<Rightarrow> 'r) \<Rightarrow>
     ('e pg_svc world, 'k, 'q, 'r) kind_model" where
  "pg_kind T D cid rk canon =
     \<lparr>km_canon = canon, km_key = pg_ok D, km_sel = pg_okq D, km_good = pg_good T D rk,
      km_view = pg_view T D cid\<rparr>"

text \<open>What a table looks like, for the statements on the other tables to leave alone.\<close>

definition snapshot :: "('e, 'k, 'q) pgTable \<Rightarrow> 'e \<Rightarrow> (string \<Rightarrow> 'k \<rightharpoonup> string) \<times> bool" where
  "snapshot D e = (rows_of D e, pg_up D e)"

definition leaves_others ::
  "'e MultiDB \<Rightarrow> ('k, 'q) stmts \<Rightarrow> ('e, 'k, 'q) pgTable \<Rightarrow> string \<Rightarrow> ('e \<Rightarrow> 'x) \<Rightarrow> ('e \<Rightarrow> 'y) \<Rightarrow>
     ('e \<Rightarrow> 'z) \<Rightarrow> bool" where
  "leaves_others m S D cid f g h \<longleftrightarrow> leaves m S D cid f \<and> leaves m S D cid g \<and> leaves m S D cid h"

definition tables_apart :: "'e MultiDB \<Rightarrow> string \<Rightarrow> 'e pg_tables \<Rightarrow> bool" where
  "tables_apart m cid B \<longleftrightarrow>
     leaves_others m (ns_stmts ''policyreports'') (polr_table B) cid
       (snapshot (cpolr_table B)) (snapshot (ephr_table B)) (snapshot (cephr_table B)) \<and>
     leaves_others m (cl_stmts sql_list_all ''clusterpolicyreports'') (cpolr_table B) cid
       (snapshot (polr_table B)) (snapshot (ephr_table B)) (snapshot (cephr_table B)) \<and>
     leaves_others m (ns_stmts ''ephemeralreports'') (ephr_table B) cid
       (snapshot (polr_table B)) (snapshot (cpolr_table B)) (snapshot (cephr_table B)) \<and>
     leaves_others m (cl_stmts sql_list_all_paren ''clusterephemeralreports'') (cephr_table B) cid
       (snapshot (polr_table B)) (snapshot (cpolr_table B)) (snapshot (ephr_table B))"

definition pg_sound ::
  "reportLibs \<Rightarrow> 'e pgstore \<Rightarrow> 'e pg_tables \<Rightarrow> canons \<Rightarrow> 'e pg_svc world \<Rightarrow> bool" where
  "pg_sound L p B C w \<longleftrightarrow>
     tables_apart (store_MultiDB p) (clusterId p) B \<and>
     pg_inv (polrLib L) (polr_canon C) (store_MultiDB p) (ns_stmts ''policyreports'') ns_sel
       (polr_table B) (clusterId p) ns_key w \<and>
     pg_inv (cpolrLib L) (cpolr_canon C) (store_MultiDB p) (cl_stmts sql_list_all ''clusterpolicyreports'') cl_sel
       (cpolr_table B) (clusterId p) cl_key w \<and>
     pg_inv (ephrLib L) (ephr_canon C) (store_MultiDB p) (ns_stmts ''ephemeralreports'') ns_sel
       (ephr_table B) (clusterId p) ns_key w \<and>
     pg_inv (cephrLib L) (cephr_canon C) (store_MultiDB p) (cl_stmts sql_list_all_paren ''clusterephemeralreports'') cl_sel
       (cephr_table B) (clusterId p) cl_key w"

abbreviation pg_polr_kind :: "reportLibs \<Rightarrow> 'e pgstore \<Rightarrow> 'e pg_tables \<Rightarrow> canons \<Rightarrow> 'e pg_svc world polr_model" where
  "pg_polr_kind L p B C \<equiv> pg_kind (polrLib L) (polr_table B) (clusterId p) ns_key (polr_canon C)"

abbreviation pg_cpolr_kind :: "reportLibs \<Rightarrow> 'e pgstore \<Rightarrow> 'e pg_tables \<Rightarrow> canons \<Rightarrow> 'e pg_svc world cpolr_model" where
  "pg_cpolr_kind L p B C \<equiv> pg_kind (cpolrLib L) (cpolr_table B) (clusterId p) cl_key (cpolr_canon C)"

abbreviation pg_ephr_kind :: "reportLibs \<Rightarrow> 'e pgstore \<Rightarrow> 'e pg_tables \<Rightarrow> canons \<Rightarrow> 'e pg_svc world ephr_model" where
  "pg_ephr_kind L p B C \<equiv> pg_kind (ephrLib L) (ephr_table B) (clusterId p) ns_key (ephr_canon C)"

abbreviation pg_cephr_kind :: "reportLibs \<Rightarrow> 'e pgstore \<Rightarrow> 'e pg_tables \<Rightarrow> canons \<Rightarrow> 'e pg_svc world cephr_model" where
  "pg_cephr_kind L p B C \<equiv> pg_kind (cephrLib L) (cephr_table B) (clusterId p) cl_key (cephr_canon C)"

abbreviation pg_server_step ::
  "reportLibs \<Rightarrow> 'e pgstore \<Rightarrow> 'e pg_tables \<Rightarrow> canons \<Rightarrow> 'e pg_svc world server_state \<Rightarrow>
     'e pg_svc world server_state \<Rightarrow> bool" where
  "pg_server_step L p B C \<equiv>
     server_step (pg_storage L p) (pg_polr_kind L p B C) (pg_cpolr_kind L p B C)
       (pg_ephr_kind L p B C) (pg_cephr_kind L p B C)"

abbreviation pg_watcher_step ::
  "reportLibs \<Rightarrow> 'e pgstore \<Rightarrow> 'e pg_tables \<Rightarrow> canons \<Rightarrow> 'e pg_svc world server_state \<Rightarrow>
     'e pg_svc world server_state \<Rightarrow> bool" where
  "pg_watcher_step L p B C \<equiv>
     watcher_step (pg_storage L p) (pg_polr_kind L p B C) (pg_cpolr_kind L p B C)
       (pg_ephr_kind L p B C) (pg_cephr_kind L p B C)"

subsection \<open>The promises\<close>

lemma snapshot_view:
  "snapshot D (pg_db (svc w')) = snapshot D (pg_db (svc w)) \<Longrightarrow> pg_view T D c w' = pg_view T D c w"
  by (simp add: snapshot_def pg_view_def fun_eq_iff)

lemma snapshot_inv:
  "snapshot D (pg_db (svc w')) = snapshot D (pg_db (svc w)) \<Longrightarrow>
     pg_inv T canon m S sel D cid rk w' = pg_inv T canon m S sel D cid rk w"
  by (simp add: snapshot_def pg_inv_def)

text \<open>A legal command on one store leaves the other three tables as they look.\<close>

lemma pg_polr_others:
  assumes "pg_sound L p B C w"
    and "good_cmd (pg_ok (polr_table B)) (pg_okq (polr_table B)) (pg_good (polrLib L) (polr_table B) ns_key) cmd"
  shows "snapshot (cpolr_table B) (pg_db (svc (snd (do_cmd (ns_ops (pg_polr_iface (polrLib L) p)) cmd w)))) =
       snapshot (cpolr_table B) (pg_db (svc w))"
    "snapshot (ephr_table B) (pg_db (svc (snd (do_cmd (ns_ops (pg_polr_iface (polrLib L) p)) cmd w)))) =
       snapshot (ephr_table B) (pg_db (svc w))"
    "snapshot (cephr_table B) (pg_db (svc (snd (do_cmd (ns_ops (pg_polr_iface (polrLib L) p)) cmd w)))) =
       snapshot (cephr_table B) (pg_db (svc w))"
  using assms unfolding pg_sound_def tables_apart_def leaves_others_def
  by (blast intro: pg_polr_cmd_frame)+

lemma pg_cpolr_others:
  assumes "pg_sound L p B C w"
    and "good_cmd (pg_ok (cpolr_table B)) (pg_okq (cpolr_table B)) (pg_good (cpolrLib L) (cpolr_table B) cl_key) cmd"
  shows "snapshot (polr_table B) (pg_db (svc (snd (do_cmd (cl_ops (pg_cpolr_iface (cpolrLib L) p)) cmd w)))) =
       snapshot (polr_table B) (pg_db (svc w))"
    "snapshot (ephr_table B) (pg_db (svc (snd (do_cmd (cl_ops (pg_cpolr_iface (cpolrLib L) p)) cmd w)))) =
       snapshot (ephr_table B) (pg_db (svc w))"
    "snapshot (cephr_table B) (pg_db (svc (snd (do_cmd (cl_ops (pg_cpolr_iface (cpolrLib L) p)) cmd w)))) =
       snapshot (cephr_table B) (pg_db (svc w))"
  using assms unfolding pg_sound_def tables_apart_def leaves_others_def
  by (blast intro: pg_cpolr_cmd_frame)+

lemma pg_ephr_others:
  assumes "pg_sound L p B C w"
    and "good_cmd (pg_ok (ephr_table B)) (pg_okq (ephr_table B)) (pg_good (ephrLib L) (ephr_table B) ns_key) cmd"
  shows "snapshot (polr_table B) (pg_db (svc (snd (do_cmd (ns_ops (pg_ephr_iface (ephrLib L) p)) cmd w)))) =
       snapshot (polr_table B) (pg_db (svc w))"
    "snapshot (cpolr_table B) (pg_db (svc (snd (do_cmd (ns_ops (pg_ephr_iface (ephrLib L) p)) cmd w)))) =
       snapshot (cpolr_table B) (pg_db (svc w))"
    "snapshot (cephr_table B) (pg_db (svc (snd (do_cmd (ns_ops (pg_ephr_iface (ephrLib L) p)) cmd w)))) =
       snapshot (cephr_table B) (pg_db (svc w))"
  using assms unfolding pg_sound_def tables_apart_def leaves_others_def
  by (blast intro: pg_ephr_cmd_frame)+

lemma pg_cephr_others:
  assumes "pg_sound L p B C w"
    and "good_cmd (pg_ok (cephr_table B)) (pg_okq (cephr_table B)) (pg_good (cephrLib L) (cephr_table B) cl_key) cmd"
  shows "snapshot (polr_table B) (pg_db (svc (snd (do_cmd (cl_ops (pg_cephr_iface (cephrLib L) p)) cmd w)))) =
       snapshot (polr_table B) (pg_db (svc w))"
    "snapshot (cpolr_table B) (pg_db (svc (snd (do_cmd (cl_ops (pg_cephr_iface (cephrLib L) p)) cmd w)))) =
       snapshot (cpolr_table B) (pg_db (svc w))"
    "snapshot (ephr_table B) (pg_db (svc (snd (do_cmd (cl_ops (pg_cephr_iface (cephrLib L) p)) cmd w)))) =
       snapshot (ephr_table B) (pg_db (svc w))"
  using assms unfolding pg_sound_def tables_apart_def leaves_others_def
  by (blast intro: pg_cephr_cmd_frame)+

lemma pg_polr_storage:
  "report_storage (polr_ops (pg_storage L p)) ns_key ns_sel (km_canon (pg_polr_kind L p B C)) True
     (km_key (pg_polr_kind L p B C)) (km_sel (pg_polr_kind L p B C)) (km_good (pg_polr_kind L p B C))
     (km_view (pg_polr_kind L p B C)) (pg_sound L p B C)"
proof -
  let ?inv = "pg_inv (polrLib L) (polr_canon C) (store_MultiDB p) (ns_stmts ''policyreports'') ns_sel
       (polr_table B) (clusterId p) ns_key"
  have eq: "pg_sound L p B C = (\<lambda>w. ?inv w \<and> pg_sound L p B C w)" by (auto simp: pg_sound_def)
  have "report_storage (ns_ops (pg_polr_iface (polrLib L) p)) ns_key ns_sel (polr_canon C) True
     (pg_ok (polr_table B)) (pg_okq (polr_table B)) (pg_good (polrLib L) (polr_table B) ns_key)
     (pg_view (polrLib L) (polr_table B) (clusterId p)) (\<lambda>w. ?inv w \<and> pg_sound L p B C w)"
  proof (rule storage_strengthen [OF pg_polr.report_storage_axioms])
    fix w c assume inv: "?inv w" and sound: "pg_sound L p B C w"
      and good: "good_cmd (pg_ok (polr_table B)) (pg_okq (polr_table B)) (pg_good (polrLib L) (polr_table B) ns_key) c"
    show "pg_sound L p B C (snd (do_cmd (ns_ops (pg_polr_iface (polrLib L) p)) c w))"
      using sound pg_polr.cmd_refines [OF inv good] unfolding pg_sound_def
      by (auto simp: snapshot_inv [OF pg_polr_others(1) [OF sound good]]
          snapshot_inv [OF pg_polr_others(2) [OF sound good]] snapshot_inv [OF pg_polr_others(3) [OF sound good]])
  qed
  then show ?thesis by (subst eq) (simp add: pg_kind_def)
qed

lemma pg_cpolr_storage:
  "report_storage (cpolr_ops (pg_storage L p)) cl_key cl_sel (km_canon (pg_cpolr_kind L p B C)) True
     (km_key (pg_cpolr_kind L p B C)) (km_sel (pg_cpolr_kind L p B C)) (km_good (pg_cpolr_kind L p B C))
     (km_view (pg_cpolr_kind L p B C)) (pg_sound L p B C)"
proof -
  let ?inv = "pg_inv (cpolrLib L) (cpolr_canon C) (store_MultiDB p) (cl_stmts sql_list_all ''clusterpolicyreports'') cl_sel
       (cpolr_table B) (clusterId p) cl_key"
  have eq: "pg_sound L p B C = (\<lambda>w. ?inv w \<and> pg_sound L p B C w)" by (auto simp: pg_sound_def)
  have "report_storage (cl_ops (pg_cpolr_iface (cpolrLib L) p)) cl_key cl_sel (cpolr_canon C) True
     (pg_ok (cpolr_table B)) (pg_okq (cpolr_table B)) (pg_good (cpolrLib L) (cpolr_table B) cl_key)
     (pg_view (cpolrLib L) (cpolr_table B) (clusterId p)) (\<lambda>w. ?inv w \<and> pg_sound L p B C w)"
  proof (rule storage_strengthen [OF pg_cpolr.report_storage_axioms])
    fix w c assume inv: "?inv w" and sound: "pg_sound L p B C w"
      and good: "good_cmd (pg_ok (cpolr_table B)) (pg_okq (cpolr_table B)) (pg_good (cpolrLib L) (cpolr_table B) cl_key) c"
    show "pg_sound L p B C (snd (do_cmd (cl_ops (pg_cpolr_iface (cpolrLib L) p)) c w))"
      using sound pg_cpolr.cmd_refines [OF inv good] unfolding pg_sound_def
      by (auto simp: snapshot_inv [OF pg_cpolr_others(1) [OF sound good]]
          snapshot_inv [OF pg_cpolr_others(2) [OF sound good]] snapshot_inv [OF pg_cpolr_others(3) [OF sound good]])
  qed
  then show ?thesis by (subst eq) (simp add: pg_kind_def)
qed

lemma pg_ephr_storage:
  "report_storage (ephr_ops (pg_storage L p)) ns_key ns_sel (km_canon (pg_ephr_kind L p B C)) True
     (km_key (pg_ephr_kind L p B C)) (km_sel (pg_ephr_kind L p B C)) (km_good (pg_ephr_kind L p B C))
     (km_view (pg_ephr_kind L p B C)) (pg_sound L p B C)"
proof -
  let ?inv = "pg_inv (ephrLib L) (ephr_canon C) (store_MultiDB p) (ns_stmts ''ephemeralreports'') ns_sel
       (ephr_table B) (clusterId p) ns_key"
  have eq: "pg_sound L p B C = (\<lambda>w. ?inv w \<and> pg_sound L p B C w)" by (auto simp: pg_sound_def)
  have "report_storage (ns_ops (pg_ephr_iface (ephrLib L) p)) ns_key ns_sel (ephr_canon C) True
     (pg_ok (ephr_table B)) (pg_okq (ephr_table B)) (pg_good (ephrLib L) (ephr_table B) ns_key)
     (pg_view (ephrLib L) (ephr_table B) (clusterId p)) (\<lambda>w. ?inv w \<and> pg_sound L p B C w)"
  proof (rule storage_strengthen [OF pg_ephr.report_storage_axioms])
    fix w c assume inv: "?inv w" and sound: "pg_sound L p B C w"
      and good: "good_cmd (pg_ok (ephr_table B)) (pg_okq (ephr_table B)) (pg_good (ephrLib L) (ephr_table B) ns_key) c"
    show "pg_sound L p B C (snd (do_cmd (ns_ops (pg_ephr_iface (ephrLib L) p)) c w))"
      using sound pg_ephr.cmd_refines [OF inv good] unfolding pg_sound_def
      by (auto simp: snapshot_inv [OF pg_ephr_others(1) [OF sound good]]
          snapshot_inv [OF pg_ephr_others(2) [OF sound good]] snapshot_inv [OF pg_ephr_others(3) [OF sound good]])
  qed
  then show ?thesis by (subst eq) (simp add: pg_kind_def)
qed

lemma pg_cephr_storage:
  "report_storage (cephr_ops (pg_storage L p)) cl_key cl_sel (km_canon (pg_cephr_kind L p B C)) True
     (km_key (pg_cephr_kind L p B C)) (km_sel (pg_cephr_kind L p B C)) (km_good (pg_cephr_kind L p B C))
     (km_view (pg_cephr_kind L p B C)) (pg_sound L p B C)"
proof -
  let ?inv = "pg_inv (cephrLib L) (cephr_canon C) (store_MultiDB p) (cl_stmts sql_list_all_paren ''clusterephemeralreports'') cl_sel
       (cephr_table B) (clusterId p) cl_key"
  have eq: "pg_sound L p B C = (\<lambda>w. ?inv w \<and> pg_sound L p B C w)" by (auto simp: pg_sound_def)
  have "report_storage (cl_ops (pg_cephr_iface (cephrLib L) p)) cl_key cl_sel (cephr_canon C) True
     (pg_ok (cephr_table B)) (pg_okq (cephr_table B)) (pg_good (cephrLib L) (cephr_table B) cl_key)
     (pg_view (cephrLib L) (cephr_table B) (clusterId p)) (\<lambda>w. ?inv w \<and> pg_sound L p B C w)"
  proof (rule storage_strengthen [OF pg_cephr.report_storage_axioms])
    fix w c assume inv: "?inv w" and sound: "pg_sound L p B C w"
      and good: "good_cmd (pg_ok (cephr_table B)) (pg_okq (cephr_table B)) (pg_good (cephrLib L) (cephr_table B) cl_key) c"
    show "pg_sound L p B C (snd (do_cmd (cl_ops (pg_cephr_iface (cephrLib L) p)) c w))"
      using sound pg_cephr.cmd_refines [OF inv good] unfolding pg_sound_def
      by (auto simp: snapshot_inv [OF pg_cephr_others(1) [OF sound good]]
          snapshot_inv [OF pg_cephr_others(2) [OF sound good]] snapshot_inv [OF pg_cephr_others(3) [OF sound good]])
  qed
  then show ?thesis by (subst eq) (simp add: pg_kind_def)
qed

interpretation pg_server: server_storage "pg_storage L p" True "pg_polr_kind L p B C" "pg_cpolr_kind L p B C"
  "pg_ephr_kind L p B C" "pg_cephr_kind L p B C" "pg_sound L p B C"
  for L and p :: "'e pgstore" and B C
proof (rule server_storage.intro)
  show "same3 (km_view (pg_cpolr_kind L p B C)) (km_view (pg_ephr_kind L p B C)) (km_view (pg_cephr_kind L p B C)) s
      (snd (do_cmd (polr_ops (pg_storage L p)) c s))"
    if "pg_sound L p B C s" and "good_cmd (km_key (pg_polr_kind L p B C)) (km_sel (pg_polr_kind L p B C))
      (km_good (pg_polr_kind L p B C)) c" for s c
    using that pg_polr_others [OF that(1), of c] by (auto simp: same3_def pg_kind_def intro: snapshot_view)
  show "same3 (km_view (pg_polr_kind L p B C)) (km_view (pg_ephr_kind L p B C)) (km_view (pg_cephr_kind L p B C)) s
      (snd (do_cmd (cpolr_ops (pg_storage L p)) c s))"
    if "pg_sound L p B C s" and "good_cmd (km_key (pg_cpolr_kind L p B C)) (km_sel (pg_cpolr_kind L p B C))
      (km_good (pg_cpolr_kind L p B C)) c" for s c
    using that pg_cpolr_others [OF that(1), of c] by (auto simp: same3_def pg_kind_def intro: snapshot_view)
  show "same3 (km_view (pg_polr_kind L p B C)) (km_view (pg_cpolr_kind L p B C)) (km_view (pg_cephr_kind L p B C)) s
      (snd (do_cmd (ephr_ops (pg_storage L p)) c s))"
    if "pg_sound L p B C s" and "good_cmd (km_key (pg_ephr_kind L p B C)) (km_sel (pg_ephr_kind L p B C))
      (km_good (pg_ephr_kind L p B C)) c" for s c
    using that pg_ephr_others [OF that(1), of c] by (auto simp: same3_def pg_kind_def intro: snapshot_view)
  show "same3 (km_view (pg_polr_kind L p B C)) (km_view (pg_cpolr_kind L p B C)) (km_view (pg_ephr_kind L p B C)) s
      (snd (do_cmd (cephr_ops (pg_storage L p)) c s))"
    if "pg_sound L p B C s" and "good_cmd (km_key (pg_cephr_kind L p B C)) (km_sel (pg_cephr_kind L p B C))
      (km_good (pg_cephr_kind L p B C)) c" for s c
    using that pg_cephr_others [OF that(1), of c] by (auto simp: same3_def pg_kind_def intro: snapshot_view)
qed (rule pg_polr_storage pg_cpolr_storage pg_ephr_storage pg_cephr_storage)+

subsection \<open>Properties\<close>


text \<open>A run for the examples: create a report in an empty database.\<close>

definition sample_tables :: "sample_db pg_tables" where
  "sample_tables =
     \<lparr>polr_table = table_model polr_rows, cpolr_table = table_model cpolr_rows,
      ephr_table = table_model ephr_rows, cephr_table = table_model cephr_rows\<rparr>"

definition pg_sample_server :: "sample_db pg_svc world server_state" where
  "pg_sample_server =
     \<lparr>srv_db = sample_world, srv_versioning = NewVersioning, polr_events = [],
      cpolr_events = [], ephr_events = [], cephr_events = []\<rparr>"

definition pg_sample_run :: "sample_db pg_svc world server_state" where
  "pg_sample_run =
     put_polr (snd (polrStore_Create (pg_storage sample_report_libs (sample_store [])) sample_env ''default''
       (PolicyReportObj sample_polr) accept sample_opts (polr_part pg_sample_server))) pg_sample_server"

lemma pg_sample_server_simps [simp]:
  "srv_db pg_sample_server = sample_world" "srv_versioning pg_sample_server = NewVersioning"
  "polr_events pg_sample_server = []" "cpolr_events pg_sample_server = []" "ephr_events pg_sample_server = []"
  "cephr_events pg_sample_server = []"
  by (simp_all add: pg_sample_server_def)

lemma none_down: "set [] \<subseteq> {sample_down}"
  by simp

lemma sample_tables_apart: "tables_apart (store_MultiDB (sample_store [])) cid sample_tables"
  unfolding sample_store_multi tables_apart_def leaves_others_def sample_tables_def pg_tables.select_convs
  by (intro conjI; (rule table_leaves [OF table_stmts(1) sample_passes(1) [OF none_down]]
      table_leaves [OF table_stmts(3) sample_passes(2) [OF none_down]] table_leaves [OF table_stmts(1) sample_passes(3) [OF none_down]]
      table_leaves [OF table_stmts(3) sample_passes(4) [OF none_down]]; simp add: snapshot_def rows_of_table))

lemma pg_sample_sound: "pg_sound sample_report_libs (sample_store []) sample_tables sample_canons (srv_db pg_sample_server)"
  unfolding pg_sound_def
  using sample_tables_apart [of "clusterId (sample_store [])"]
  by (simp add: sample_tables_def
      sample_report_libs_def sample_canons_def sample_pg_inv table_lib_roundtrip)

lemma pg_sample_empty:
  "pg_view T (polr_table sample_tables) c sample_world = Map.empty"
  "pg_view T' (cpolr_table sample_tables) c sample_world = Map.empty"
  "pg_view T'' (ephr_table sample_tables) c sample_world = Map.empty"
  "pg_view T''' (cephr_table sample_tables) c sample_world = Map.empty"
  by (simp_all add: pg_view_def sample_tables_def sample_world_def fun_eq_iff)

lemma pg_sample_run_step:
  "pg_server_step sample_report_libs (sample_store []) sample_tables sample_canons pg_sample_server pg_sample_run"
proof -
  have "pg_good (polrLib sample_report_libs) (polr_table sample_tables) ns_key sample_stored"
    by (simp add: pg_good_def sample_tables_def sample_report_libs_def sample_lib(2))
  moreover have "stamped sample_env NewVersioning r = sample_stored"
    if "polr_admit sample_env ''default'' sample_polr = Inr r" for r
    using that by (simp add: sample_stored_def)
  ultimately show ?thesis
    unfolding pg_sample_run_def
    by (intro server_step.Polr polr_step.Create) (auto simp: pg_kind_def)
qed


text \<open>
  On Postgres, no two reports in storage carry the same resource version, even if they are of
  different kinds, and every version is below the counter, after any interleaving of requests that does
  not run the counter over.
\<close>

lemma pg_server_versions_unique:
  assumes "pg_sound L p B C (srv_db w)"
    and "(\<lambda>x y. pg_server_step L p B C x y \<and> version (srv_versioning x) \<noteq> -1)\<^sup>*\<^sup>* w w'"
    and "kinds_meta_kept M1 M2 M3 M4" and "M1 = pg_polr_kind L p B C" and "M2 = pg_cpolr_kind L p B C"
    and "M3 = pg_ephr_kind L p B C" and "M4 = pg_cephr_kind L p B C"
    and "fresh (server_versions M1 M2 M3 M4 (srv_db w)) (version (srv_versioning w))"
  shows "fresh (server_versions M1 M2 M3 M4 (srv_db w')) (version (srv_versioning w'))"
  using pg_server.history_fresh [OF assms(2,1)] assms(3-8) by simp

lemma pg_sample_meta_kept:
  "kinds_meta_kept (pg_polr_kind L p B sample_canons) (pg_cpolr_kind L p B sample_canons)
     (pg_ephr_kind L p B sample_canons) (pg_cephr_kind L p B sample_canons)"
  by (simp add: kinds_meta_kept_def meta_kept_def pg_kind_def sample_canons_def)

lemma pg_sample_versions:
  "server_versions (pg_polr_kind L p sample_tables C) (pg_cpolr_kind L p sample_tables C)
     (pg_ephr_kind L p sample_tables C) (pg_cephr_kind L p sample_tables C) sample_world = Map.empty"
  by (auto simp: server_versions_def pg_kind_def pg_sample_empty fun_eq_iff split: server_key.split)

lemma pg_server_versions_unique_sample:
  "fresh (server_versions (pg_polr_kind sample_report_libs (sample_store []) sample_tables sample_canons)
       (pg_cpolr_kind sample_report_libs (sample_store []) sample_tables sample_canons)
       (pg_ephr_kind sample_report_libs (sample_store []) sample_tables sample_canons)
       (pg_cephr_kind sample_report_libs (sample_store []) sample_tables sample_canons) (srv_db pg_sample_run))
     (version (srv_versioning pg_sample_run))"
  by (rule pg_server_versions_unique [OF pg_sample_sound r_into_rtranclp pg_sample_meta_kept refl refl refl refl])
    (simp_all add: pg_sample_run_step pg_sample_versions fresh_def NewVersioning_def)

text \<open>
  On Postgres, while the goroutines of the migration copy events into the storage in the
  middle of the requests of clients, in any order, every stored report of every kind keeps the
  served-by annotation, and the tables stay sound.
\<close>

lemma pg_server_all_served:
  assumes "pg_sound L p B C (srv_db w)"
    and "(\<lambda>x y. pg_server_step L p B C x y \<or> pg_watcher_step L p B C x y)\<^sup>*\<^sup>* w w'"
    and "kinds_meta_kept M1 M2 M3 M4" and "M1 = pg_polr_kind L p B C" and "M2 = pg_cpolr_kind L p B C"
    and "M3 = pg_ephr_kind L p B C" and "M4 = pg_cephr_kind L p B C"
    and "server_served M1 M2 M3 M4 w"
  shows "server_served M1 M2 M3 M4 w' \<and> pg_sound L p B C (srv_db w')"
  using pg_server.history_served_watched [OF assms(2,1)] assms(3-8) by simp

end
