(* ===== verification/Start.thy ===== *)
theory Start
  imports Server EtcdServer PgServer
begin

section \<open>From the start of the process on\<close>

text \<open>
  What holds of a server from its start: the migration does to the storage what its goroutines do,
  one report at a time, so its copies are steps of \<open>watcher_step\<close>, and the properties of histories
  of requests apply to the whole life of the server.
\<close>

definition legal_items :: "('s, 'k, 'q, 'a ObjectMeta_scheme) kind_model \<Rightarrow> err + 'a ObjectMeta_scheme ReportList \<Rightarrow> bool" where
  "legal_items M x \<longleftrightarrow>
     (case x of Inl err \<Rightarrow> True
      | Inr l \<Rightarrow> \<forall>r \<in> set (Items l). \<not> annotated r \<longrightarrow> km_good M (annotate r))"

definition legal_lists ::
  "'s polr_model \<Rightarrow> 's cpolr_model \<Rightarrow> 's ephr_model \<Rightarrow> 's cephr_model \<Rightarrow> cluster \<Rightarrow> bool" where
  "legal_lists M1 M2 M3 M4 c \<longleftrightarrow>
     legal_items M1 (list_polrs c) \<and> legal_items M2 (list_cpolrs c) \<and> legal_items M3 (list_ephrs c) \<and>
     legal_items M4 (list_cephrs c)"

text \<open>The server that a start leaves, as a state of the four stores.\<close>

definition serving :: "'s server \<Rightarrow> ('s, 'g) boot \<Rightarrow> 's server_state" where
  "serving s b =
     \<lparr>srv_db = bt_world b, srv_versioning = st_versioning (srv_storage s), polr_events = [],
      cpolr_events = [], ephr_events = [], cephr_events = []\<rparr>"

subsection \<open>The migration as steps\<close>

lemma migrate_items_steps:
  assumes "\<And>r w. r \<in> set items \<Longrightarrow> \<not> annotated r \<Longrightarrow> R w (w\<lparr>srv_db := snd (create (Some (annotate r)) (srv_db w))\<rparr>)"
  shows "R\<^sup>*\<^sup>* w (w\<lparr>srv_db := snd (migrate_items create items (srv_db w))\<rparr>)"
  using assms
proof (induction items arbitrary: w)
  case (Cons r items)
  let ?w1 = "w\<lparr>srv_db := snd (create (Some (annotate r)) (srv_db w))\<rparr>"
  have IH: "R\<^sup>*\<^sup>* v (v\<lparr>srv_db := snd (migrate_items create items (srv_db v))\<rparr>)" for v
    using Cons by simp
  show ?case
  proof (cases "annotated r")
    case True
    with IH [of w] show ?thesis by simp
  next
    case False
    then have "R w ?w1" using Cons.prems by simp
    with IH [of ?w1] False show ?thesis
      by (auto split: prod.split option.split intro: converse_rtranclp_into_rtranclp)
  qed
qed simp

definition reaches ::
  "('s server_state \<Rightarrow> 's server_state \<Rightarrow> bool) \<Rightarrow> 's server_state \<Rightarrow> 's mig_state eop \<Rightarrow> bool" where
  "reaches R w f \<longleftrightarrow>
     (\<forall>x. R\<^sup>*\<^sup>* (w\<lparr>srv_db := mig_db x\<rparr>) (w\<lparr>srv_db := mig_db (snd (f x))\<rparr>))"

lemma reaches_unless: "reaches R w f \<Longrightarrow> reaches R w (unless_err x f)"
  by (simp add: reaches_def unless_err_def split: option.split)

lemma reaches_list: "(\<And>l. x = Inr l \<Longrightarrow> reaches R w (f l)) \<Longrightarrow> reaches R w (on_list x f)"
  by (cases x) (simp_all add: reaches_def on_list_def)

lemma reaches_then:
  assumes "reaches R w f" and "reaches R w g"
  shows "reaches R w (and_then f g)"
  unfolding reaches_def
proof
  fix x
  obtain err y where f: "f x = (err, y)" by fastforce
  have "R\<^sup>*\<^sup>* (w\<lparr>srv_db := mig_db x\<rparr>) (w\<lparr>srv_db := mig_db y\<rparr>)"
    using assms(1) f by (auto simp: reaches_def dest: spec [of _ x])
  moreover have "R\<^sup>*\<^sup>* (w\<lparr>srv_db := mig_db y\<rparr>) (w\<lparr>srv_db := mig_db (snd (g y))\<rparr>)"
    using assms(2) by (simp add: reaches_def)
  ultimately show "R\<^sup>*\<^sup>* (w\<lparr>srv_db := mig_db x\<rparr>) (w\<lparr>srv_db := mig_db (snd (and_then f g x))\<rparr>)"
    using f by (auto simp: and_then_def split: option.split)
qed

lemma reaches_reserve: "reaches R w reserve_versions"
  by (simp add: reaches_def reserve_versions_result)

lemma migrate_kind_db:
  "mig_db (snd (migrate_kind create items rv nw wrv k w)) = snd (migrate_items create items (mig_db w))"
  by (auto simp: migrate_kind_def split: prod.split option.split)

lemma reaches_kind:
  assumes "\<And>r w. r \<in> set items \<Longrightarrow> \<not> annotated r \<Longrightarrow> R w (w\<lparr>srv_db := snd (create (Some (annotate r)) (srv_db w))\<rparr>)"
  shows "reaches R w (migrate_kind create items rv nw wrv k)"
  unfolding reaches_def
proof
  fix x
  show "R\<^sup>*\<^sup>* (w\<lparr>srv_db := mig_db x\<rparr>)
      (w\<lparr>srv_db := mig_db (snd (migrate_kind create items rv nw wrv k x))\<rparr>)"
    using migrate_items_steps [where w = "w\<lparr>srv_db := mig_db x\<rparr>" and R = R and create = create, OF assms]
    by (simp add: migrate_kind_db)
qed

lemma migration_steps:
  assumes "legal_lists M1 M2 M3 M4 c"
  shows "reaches (watcher_step st M1 M2 M3 M4) w (migration st c)"
proof -
  let ?R = "watcher_step st M1 M2 M3 M4"
  have good: "\<And>l r. list_polrs c = Inr l \<Longrightarrow> r \<in> set (Items l) \<Longrightarrow> \<not> annotated r \<Longrightarrow> km_good M1 (annotate r)"
    "\<And>l r. list_cpolrs c = Inr l \<Longrightarrow> r \<in> set (Items l) \<Longrightarrow> \<not> annotated r \<Longrightarrow> km_good M2 (annotate r)"
    "\<And>l r. list_ephrs c = Inr l \<Longrightarrow> r \<in> set (Items l) \<Longrightarrow> \<not> annotated r \<Longrightarrow> km_good M3 (annotate r)"
    "\<And>l r. list_cephrs c = Inr l \<Longrightarrow> r \<in> set (Items l) \<Longrightarrow> \<not> annotated r \<Longrightarrow> km_good M4 (annotate r)"
    using assms by (auto simp: legal_lists_def legal_items_def)
  note steps = watcher_step.WatchPolr [where t = Added, of _ M1] watcher_step.WatchCpolr [where t = Added, of _ M2]
    watcher_step.WatchEphr [where t = Added, of _ M3] watcher_step.WatchCephr [where t = Added, of _ M4]
  show ?thesis
    unfolding migration_def migrate_defs
    by (intro reaches_unless reaches_list reaches_then reaches_kind reaches_reserve)
      (use steps good in \<open>simp_all\<close>)
qed

subsection \<open>The life of a server\<close>

lemma server_served_db:
  "srv_db w = srv_db w' \<Longrightarrow> server_served M1 M2 M3 M4 w \<longleftrightarrow> server_served M1 M2 M3 M4 w'"
  by (simp add: server_served_def all_served_def parts)

context server_storage
begin

lemma started_served:
  assumes mig: "migration st c \<lparr>mig_db = srv_db w0, mig_versioning = v, mig_watchers = ws\<rparr> = (err, mg)"
    and legal: "legal_lists M1 M2 M3 M4 c"
    and ok: "iv (srv_db w0)" "kinds_meta_kept M1 M2 M3 M4" "server_served M1 M2 M3 M4 w0"
    and w: "srv_db w = mig_db mg"
    and run: "(\<lambda>x y. server_step st M1 M2 M3 M4 x y \<or> watcher_step st M1 M2 M3 M4 x y)\<^sup>*\<^sup>* w w'"
  shows "server_served M1 M2 M3 M4 w' \<and> iv (srv_db w')"
proof -
  let ?R = "\<lambda>x y. server_step st M1 M2 M3 M4 x y \<or> watcher_step st M1 M2 M3 M4 x y"
  have served: "server_served M1 M2 M3 M4 (w\<lparr>srv_db := srv_db w0\<rparr>)"
    using ok(3) by (simp add: server_served_db [of "w\<lparr>srv_db := srv_db w0\<rparr>" w0])
  have "(watcher_step st M1 M2 M3 M4)\<^sup>*\<^sup>* (w\<lparr>srv_db := srv_db w0\<rparr>) w"
    using migration_steps [OF legal, of st w] mig w [symmetric]
    by (auto simp: reaches_def dest: spec [of _ "\<lparr>mig_db = srv_db w0, mig_versioning = v, mig_watchers = ws\<rparr>"])
  then have "?R\<^sup>*\<^sup>* (w\<lparr>srv_db := srv_db w0\<rparr>) w"
    by (rule rtranclp_mono [THEN predicate2D, rotated]) auto
  with run have "?R\<^sup>*\<^sup>* (w\<lparr>srv_db := srv_db w0\<rparr>) w'" by simp
  from history_served_watched [OF this _ ok(2) served] ok(1) show ?thesis by simp
qed

end

text \<open>
  From the start on, on etcd: if \<open>Complete\<close> has returned a server, then, after any interleaving of
  requests of clients and events that the goroutines of the migration copy, every stored report of
  every kind carries the served-by annotation, and the key space is sound, provided that the
  same was true of the key space before the start and that the reports the cluster lists are legal.
\<close>

lemma etcd_started_served:
  assumes "Complete L clientv3_New sql_Open m c b = (Inr s, b')" and "Embedded c"
    and "\<forall>cfg kv'. clientv3_New cfg = Inr kv' \<longrightarrow> kv' = kv"
    and "M1 = etcd_polr (polrLib L) kv V (polr_canon C)" and "M2 = etcd_cpolr (cpolrLib L) kv V (cpolr_canon C)"
    and "M3 = etcd_ephr (ephrLib L) kv V (ephr_canon C)" and "M4 = etcd_cephr (cephrLib L) kv V (cephr_canon C)"
    and "kinds_meta_kept M1 M2 M3 M4" and "legal_lists M1 M2 M3 M4 (cluster_of m (Rest c))"
    and "etcd_sound L kv V up C (bt_world b)" and "server_served M1 M2 M3 M4 (serving s b)"
    and "(\<lambda>x y. etcd_server_step L kv V C x y \<or> etcd_watcher_step L kv V C x y)\<^sup>*\<^sup>* (serving s b') w'"
  shows "server_served M1 M2 M3 M4 w' \<and> etcd_sound L kv V up C (srv_db w')"
proof -
  from completed [OF assms(1)] obtain cid store w1 mg where
    st: "storage_New L clientv3_New sql_Open True (DBconfig c) cid (cfg_EtcdConfig c) (bt_world b) =
      (Inr store, w1)"
    and mg: "migration (st_db store) (cluster_of m (Rest c))
      \<lparr>mig_db = w1, mig_versioning = st_versioning store, mig_watchers = bt_watchers b\<rparr> = (None, mg)"
    and b': "bt_world b' = mig_db mg"
    using assms(2) by auto
  have db: "st_db store = etcd_storage L kv" "w1 = bt_world b"
    using st assms(3) by (auto simp: storage_New_def etcd_New_def etcd_storage_def Let_def split: sum.splits)
  show ?thesis
    using etcd_server.started_served [of L kv "cluster_of m (Rest c)" "serving s b" "st_versioning store"
        "bt_watchers b" None mg V C up "serving s b'" w'] mg assms(4-12) b'
    by (simp add: db serving_def)
qed

lemma sample_cluster_legal:
  "km_good M1 (annotate sample_polr) \<Longrightarrow> legal_lists M1 M2 M3 M4 sample_cluster"
  by (simp add: legal_lists_def legal_items_def sample_cluster_def zero_List_def)


text \<open>A start on an empty database, in the same cluster.\<close>

abbreviation "pg_start \<equiv>
  Complete sample_start_libs (\<lambda>_. Inl ErrNoRows) (\<lambda>_. Inr sample_handle) sample_machinery
    (sample_config\<lparr>Embedded := False\<rparr>) (sample_boot (pg_db (svc sample_world)))"

lemma sample_create_statements:
  "sample_Exec (sql_create_ns t) args e = (None, e)" "sample_Exec (sql_create_cl t) args e = (None, e)"
  "sample_Exec (sql_index i t col) args e = (None, e)"
  by (simp_all add: sample_Exec_def table_exec_def ns_table_def cl_table_def sql_texts sql_create_ns_def
      sql_create_cl_def sql_index_def)

lemma sample_ping: "pingWithRetry sample_handle e = (None, e)"
  by (simp add: pingWithRetry_def maxRetries_def eval_nat_numeral sample_handle_def)

lemma sample_pg_New:
  "pg_New L (\<lambda>_. Inr sample_handle) (DBconfig sample_config) ''c1'' w =
     (Inr (pg_storage L (sample_store [])), w)"
proof -
  have ping: "run_ping sample_handle w = (None, w)"
    by (simp add: run_ping_def sample_ping)
  have exec: "run_exec (sample_multi []) (sql_create_ns t) [] w = (None, w)"
    "run_exec (sample_multi []) (sql_create_cl t) [] w = (None, w)"
    "run_exec (sample_multi []) (sql_index i t col) [] w = (None, w)" for t i col
    by (simp_all add: run_exec_def sample_create_statements sample_multi_def NewMultiDB_def sample_handle_def)
  have "PrimaryDB (sample_multi []) = sample_handle"
    by (simp add: sample_multi_def NewMultiDB_def)
  then show ?thesis
    by (simp add: pg_New_def ping sample_config_def NewPolicyReportStore_def NewClusterPolicyReportStore_def
        NewEphemeralReportStore_def NewClusterEphemeralReportStore_def exec sample_multi_def [symmetric]
        pg_storage_def sample_store_def Let_def)
qed

lemma pg_start_ok: "\<exists>s b. pg_start = (Inr s, b)"
proof -
  let ?create = "pg_polr_Create (table_lib [(''x'', annotate sample_polr)] PolicyReportPtr) (sample_store [])
      (Some (annotate sample_polr)) sample_world"
  have "fst ?create = None"
    using pg_polr.create_law [OF sample_pg_inv(1) [OF none_down sample_lib(1)], of "annotate sample_polr"]
    by (simp add: pg_polr_iface_def pg_good_def sample_lib(2) sample_world_view)
  then obtain w1 where create: "?create = (None, w1)" by (cases ?create) simp
  have world: "sample_boot (pg_db (svc sample_world)) = \<lparr>bt_world = sample_world, bt_server = [], bt_watchers = []\<rparr>"
    by (simp add: sample_boot_def sample_world_def)
  have "\<not> isl (fst pg_start)"
    using sample_not_annotated create sample_pg_New [of sample_start_libs sample_world]
    by (simp add: world start_defs sample_start_libs_def sample_report_libs_def pg_polr_iface_def
        pg_storage_def)
  then show ?thesis by (cases pg_start; cases "fst pg_start") auto
qed


end
