(* ===== verification/InMemory.thy ===== *)
theory InMemory
  imports StorageSpec "HOL-Library.Char_ord" "HOL-Library.List_Lexorder"
begin

section \<open>The in-memory back end\<close>

text \<open>
  \<^verbatim>\<open>pkg/storage/inmemory\<close>: four Go maps from string keys to LZW-compressed JSON documents, one for
  each kind of report, each behind a mutex that every operation holds from start to end. What
  comes from outside is the record \<open>memLib\<close>: the LZW writer and reader, and the order in which
  \<open>range\<close> visits the keys of a map, which Go leaves open.
\<close>

record memLib =
  lzw_Write :: "string \<Rightarrow> err + string"
  lzw_Read :: "string \<Rightarrow> err + string"
  range_keys :: "(string \<rightharpoonup> string) \<Rightarrow> string list"

record mem_db =
  storage :: "string \<rightharpoonup> string"

record inMemoryDb =
  cpolrdb :: mem_db
  polrdb :: mem_db
  cephrdb :: mem_db
  ephrdb :: mem_db

subsection \<open>The compressed map\<close>

definition NewDB :: mem_db where
  "NewDB = \<lparr>storage = Map.empty\<rparr>"

definition compressData :: "memLib \<Rightarrow> 'r TypeLib \<Rightarrow> 'r \<Rightarrow> err + string" where
  "compressData Z T obj =
     (case Marshal T obj of
        Inl err \<Rightarrow> Inl err
      | Inr data \<Rightarrow> (case lzw_Write Z data of Inl err \<Rightarrow> Inl err | Inr buf \<Rightarrow> Inr buf))"

definition decompressData :: "memLib \<Rightarrow> 'r TypeLib \<Rightarrow> string \<Rightarrow> err + 'r" where
  "decompressData Z T data =
     (case lzw_Read Z data of
        Inl err \<Rightarrow> Inl err
      | Inr data' \<Rightarrow> (case Unmarshal T data' of Inl err \<Rightarrow> Inl err | Inr obj \<Rightarrow> Inr obj))"

definition db_Get :: "memLib \<Rightarrow> 'r TypeLib \<Rightarrow> mem_db \<Rightarrow> string \<Rightarrow> err + 'r" where
  "db_Get Z T d key =
     (case storage d key of
        None \<Rightarrow> Inl (Errorf ''cannot find entry'' None)
      | Some data \<Rightarrow> decompressData Z T data)"

definition db_Delete :: "string \<Rightarrow> mem_db \<Rightarrow> mem_db" where
  "db_Delete key d = d\<lparr>storage := (storage d)(key := None)\<rparr>"

definition db_Keys :: "memLib \<Rightarrow> mem_db \<Rightarrow> string list" where
  "db_Keys Z d = range_keys Z (storage d)"

definition db_Store :: "memLib \<Rightarrow> 'r TypeLib \<Rightarrow> string \<Rightarrow> 'r \<Rightarrow> mem_db eop" where
  "db_Store Z T key obj d =
     (case compressData Z T obj of
        Inl err \<Rightarrow> (Some err, d)
      | Inr data \<Rightarrow> (None, d\<lparr>storage := (storage d)(key \<mapsto> data)\<rparr>))"

text \<open>The pointer that \<open>val, _ := db.Get(key)\<close> leaves in \<open>val\<close>.\<close>

definition db_val :: "memLib \<Rightarrow> 'r TypeLib \<Rightarrow> mem_db \<Rightarrow> string \<Rightarrow> 'r option" where
  "db_val Z T d key = (case db_Get Z T d key of Inl err \<Rightarrow> None | Inr v \<Rightarrow> Some v)"

subsection \<open>Policy reports\<close>

definition polrdb_key :: "string \<Rightarrow> string \<Rightarrow> string" where
  "polrdb_key name namespace = ''polr/'' @ namespace @ ''/'' @ name"

definition polrdb_List ::
  "memLib \<Rightarrow> PolicyReport TypeLib \<Rightarrow> string \<Rightarrow> (PolicyReport option list, inMemoryDb world) op" where
  "polrdb_List Z T namespace w =
     (let d = polrdb (svc w);
          ks = filter (\<lambda>k. namespace = [] \<or> HasPrefix k (''polr/'' @ namespace @ ''/'')) (db_Keys Z d)
      in (map_result (\<lambda>k. case db_Get Z T d k of Inl err \<Rightarrow> Inl err | Inr v \<Rightarrow> Inr (Some v)) ks, w))"

definition polrdb_Get ::
  "memLib \<Rightarrow> PolicyReport TypeLib \<Rightarrow> string \<Rightarrow> string \<Rightarrow>
     (PolicyReport option, inMemoryDb world) op" where
  "polrdb_Get Z T name namespace w =
     (let key = polrdb_key name namespace
      in case db_val Z T (polrdb (svc w)) key of
           Some val \<Rightarrow> (Inr (Some val), w)
         | None \<Rightarrow> (Inl (NotFound PolicyReportsGR key), w))"

definition polrdb_Create ::
  "memLib \<Rightarrow> PolicyReport TypeLib \<Rightarrow> PolicyReport option \<Rightarrow> inMemoryDb world eop" where
  "polrdb_Create Z T polr w =
     (case polr of
        None \<Rightarrow> (Some (Panic ''nil pointer dereference''), w)
      | Some r \<Rightarrow>
          (let key = polrdb_key (Name r) (Namespace r)
           in case db_val Z T (polrdb (svc w)) key of
                Some val \<Rightarrow> (Some (AlreadyExists PolicyReportsGR key), w)
              | None \<Rightarrow>
                  (let w1 = UpdatePolicyReportMetrics ''etcd'' ''create'' (PolicyReportPtr r) False w;
                       (err, d) = db_Store Z T key r (polrdb (svc w1))
                   in (err, w1\<lparr>svc := (svc w1)\<lparr>polrdb := d\<rparr>\<rparr>))))"

definition polrdb_Update ::
  "memLib \<Rightarrow> PolicyReport TypeLib \<Rightarrow> PolicyReport option \<Rightarrow> inMemoryDb world eop" where
  "polrdb_Update Z T polr w =
     (case polr of
        None \<Rightarrow> (Some (Panic ''nil pointer dereference''), w)
      | Some r \<Rightarrow>
          (let key = polrdb_key (Name r) (Namespace r)
           in case db_val Z T (polrdb (svc w)) key of
                None \<Rightarrow> (Some (NotFound PolicyReportsGR key), w)
              | Some val \<Rightarrow>
                  (let w1 = UpdatePolicyReportMetrics ''etcd'' ''update'' (PolicyReportPtr r) False w;
                       (err, d) = db_Store Z T key r (polrdb (svc w1))
                   in (err, w1\<lparr>svc := (svc w1)\<lparr>polrdb := d\<rparr>\<rparr>))))"

definition polrdb_Delete ::
  "memLib \<Rightarrow> PolicyReport TypeLib \<Rightarrow> string \<Rightarrow> string \<Rightarrow> inMemoryDb world eop" where
  "polrdb_Delete Z T name namespace w =
     (let key = polrdb_key name namespace
      in case db_val Z T (polrdb (svc w)) key of
           None \<Rightarrow> (Some (NotFound PolicyReportsGR key), w)
         | Some val \<Rightarrow>
             (let w1 = w\<lparr>svc := (svc w)\<lparr>polrdb := db_Delete key (polrdb (svc w))\<rparr>\<rparr>
              in (None, UpdatePolicyReportMetrics ''etcd'' ''delete'' OtherValue False w1)))"

subsection \<open>Cluster policy reports\<close>

definition cpolrdb_key :: "string \<Rightarrow> string" where
  "cpolrdb_key name = ''cpolr/'' @ name"

definition cpolrdb_List ::
  "memLib \<Rightarrow> ClusterPolicyReport TypeLib \<Rightarrow> (ClusterPolicyReport option list, inMemoryDb world) op" where
  "cpolrdb_List Z T w =
     (let d = cpolrdb (svc w) in (Inr (map (db_val Z T d) (db_Keys Z d)), w))"

definition cpolrdb_Get ::
  "memLib \<Rightarrow> ClusterPolicyReport TypeLib \<Rightarrow> string \<Rightarrow>
     (ClusterPolicyReport option, inMemoryDb world) op" where
  "cpolrdb_Get Z T name w =
     (let key = cpolrdb_key name
      in case db_val Z T (cpolrdb (svc w)) key of
           Some val \<Rightarrow> (Inr (Some val), w)
         | None \<Rightarrow> (Inl (NotFound ClusterPolicyReportsGR key), w))"

definition cpolrdb_Create ::
  "memLib \<Rightarrow> ClusterPolicyReport TypeLib \<Rightarrow> ClusterPolicyReport option \<Rightarrow> inMemoryDb world eop" where
  "cpolrdb_Create Z T cpolr w =
     (case cpolr of
        None \<Rightarrow> (Some (Panic ''nil pointer dereference''), w)
      | Some r \<Rightarrow>
          (let key = cpolrdb_key (Name r)
           in case db_val Z T (cpolrdb (svc w)) key of
                Some v \<Rightarrow> (Some (AlreadyExists ClusterPolicyReportsGR key), w)
              | None \<Rightarrow>
                  (let w1 = UpdatePolicyReportMetrics ''etcd'' ''create''
                              (ClusterPolicyReportPtr r) False w;
                       (err, d) = db_Store Z T key r (cpolrdb (svc w1))
                   in (err, w1\<lparr>svc := (svc w1)\<lparr>cpolrdb := d\<rparr>\<rparr>))))"

definition cpolrdb_Update ::
  "memLib \<Rightarrow> ClusterPolicyReport TypeLib \<Rightarrow> ClusterPolicyReport option \<Rightarrow> inMemoryDb world eop" where
  "cpolrdb_Update Z T cpolr w =
     (case cpolr of
        None \<Rightarrow> (Some (Panic ''nil pointer dereference''), w)
      | Some r \<Rightarrow>
          (let key = cpolrdb_key (Name r)
           in case db_val Z T (cpolrdb (svc w)) key of
                None \<Rightarrow> (Some (NotFound ClusterPolicyReportsGR key), w)
              | Some v \<Rightarrow>
                  (let w1 = UpdatePolicyReportMetrics ''etcd'' ''update''
                              (ClusterPolicyReportPtr r) False w;
                       (err, d) = db_Store Z T key r (cpolrdb (svc w1))
                   in (err, w1\<lparr>svc := (svc w1)\<lparr>cpolrdb := d\<rparr>\<rparr>))))"

definition cpolrdb_Delete ::
  "memLib \<Rightarrow> ClusterPolicyReport TypeLib \<Rightarrow> string \<Rightarrow> inMemoryDb world eop" where
  "cpolrdb_Delete Z T name w =
     (let key = cpolrdb_key name
      in case db_val Z T (cpolrdb (svc w)) key of
           None \<Rightarrow> (Some (NotFound ClusterPolicyReportsGR key), w)
         | Some v \<Rightarrow>
             (let w1 = w\<lparr>svc := (svc w)\<lparr>cpolrdb := db_Delete key (cpolrdb (svc w))\<rparr>\<rparr>
              in (None, UpdatePolicyReportMetrics ''etcd'' ''delete'' OtherValue False w1)))"

subsection \<open>Ephemeral reports\<close>

definition ephrdb_key :: "string \<Rightarrow> string \<Rightarrow> string" where
  "ephrdb_key name namespace = ''ephr/'' @ namespace @ ''/'' @ name"

definition ephrdb_List ::
  "memLib \<Rightarrow> EphemeralReport TypeLib \<Rightarrow> string \<Rightarrow>
     (EphemeralReport option list, inMemoryDb world) op" where
  "ephrdb_List Z T namespace w =
     (let d = ephrdb (svc w);
          ks = filter (\<lambda>k. namespace = [] \<or> HasPrefix k (''ephr/'' @ namespace @ ''/'')) (db_Keys Z d)
      in (Inr (map (db_val Z T d) ks), w))"

definition ephrdb_Get ::
  "memLib \<Rightarrow> EphemeralReport TypeLib \<Rightarrow> string \<Rightarrow> string \<Rightarrow>
     (EphemeralReport option, inMemoryDb world) op" where
  "ephrdb_Get Z T name namespace w =
     (let key = ephrdb_key name namespace
      in case db_val Z T (ephrdb (svc w)) key of
           Some val \<Rightarrow> (Inr (Some val), w)
         | None \<Rightarrow> (Inl (NotFound EphemeralReportsGR key), w))"

definition ephrdb_Create ::
  "memLib \<Rightarrow> EphemeralReport TypeLib \<Rightarrow> EphemeralReport option \<Rightarrow> inMemoryDb world eop" where
  "ephrdb_Create Z T ephr w =
     (case ephr of
        None \<Rightarrow> (Some (Panic ''nil pointer dereference''), w)
      | Some r \<Rightarrow>
          (let key = ephrdb_key (Name r) (Namespace r)
           in case db_val Z T (ephrdb (svc w)) key of
                Some val \<Rightarrow> (Some (AlreadyExists EphemeralReportsGR key), w)
              | None \<Rightarrow>
                  (let w1 = UpdatePolicyReportMetrics ''etcd'' ''create'' (EphemeralReportPtr r) False w;
                       (err, d) = db_Store Z T key r (ephrdb (svc w1))
                   in (err, w1\<lparr>svc := (svc w1)\<lparr>ephrdb := d\<rparr>\<rparr>))))"

definition ephrdb_Update ::
  "memLib \<Rightarrow> EphemeralReport TypeLib \<Rightarrow> EphemeralReport option \<Rightarrow> inMemoryDb world eop" where
  "ephrdb_Update Z T ephr w =
     (case ephr of
        None \<Rightarrow> (Some (Panic ''nil pointer dereference''), w)
      | Some r \<Rightarrow>
          (let key = ephrdb_key (Name r) (Namespace r)
           in case db_val Z T (ephrdb (svc w)) key of
                None \<Rightarrow> (Some (NotFound EphemeralReportsGR key), w)
              | Some val \<Rightarrow>
                  (let w1 = UpdatePolicyReportMetrics ''etcd'' ''update'' (EphemeralReportPtr r) False w;
                       (err, d) = db_Store Z T key r (ephrdb (svc w1))
                   in (err, w1\<lparr>svc := (svc w1)\<lparr>ephrdb := d\<rparr>\<rparr>))))"

definition ephrdb_Delete ::
  "memLib \<Rightarrow> EphemeralReport TypeLib \<Rightarrow> string \<Rightarrow> string \<Rightarrow> inMemoryDb world eop" where
  "ephrdb_Delete Z T name namespace w =
     (let key = ephrdb_key name namespace
      in case db_val Z T (ephrdb (svc w)) key of
           None \<Rightarrow> (Some (NotFound EphemeralReportsGR key), w)
         | Some val \<Rightarrow>
             (let w1 = w\<lparr>svc := (svc w)\<lparr>ephrdb := db_Delete key (ephrdb (svc w))\<rparr>\<rparr>
              in (None, UpdatePolicyReportMetrics ''etcd'' ''delete'' OtherValue False w1)))"

subsection \<open>Cluster ephemeral reports\<close>

definition cephrdb_key :: "string \<Rightarrow> string" where
  "cephrdb_key name = ''cephr/'' @ name"

definition cephrdb_List ::
  "memLib \<Rightarrow> ClusterEphemeralReport TypeLib \<Rightarrow>
     (ClusterEphemeralReport option list, inMemoryDb world) op" where
  "cephrdb_List Z T w =
     (let d = cephrdb (svc w);
          res = map (db_val Z T d) (db_Keys Z d)
      in (Inr res, count_request ''inmemory'' ''list'' ''ClusterEphemeralReport'' w))"

definition cephrdb_Get ::
  "memLib \<Rightarrow> ClusterEphemeralReport TypeLib \<Rightarrow> string \<Rightarrow>
     (ClusterEphemeralReport option, inMemoryDb world) op" where
  "cephrdb_Get Z T name w =
     (let key = cephrdb_key name
      in case db_val Z T (cephrdb (svc w)) key of
           Some val \<Rightarrow>
             (Inr (Some val), count_request ''inmemory'' ''get'' ''ClusterEphemeralReport'' w)
         | None \<Rightarrow> (Inl (NotFound ClusterEphemeralReportsGR key), w))"

definition cephrdb_Create ::
  "memLib \<Rightarrow> ClusterEphemeralReport TypeLib \<Rightarrow> ClusterEphemeralReport option \<Rightarrow>
     inMemoryDb world eop" where
  "cephrdb_Create Z T cephr w =
     (case cephr of
        None \<Rightarrow> (Some (Panic ''nil pointer dereference''), w)
      | Some r \<Rightarrow>
          (let key = cephrdb_key (Name r)
           in case db_val Z T (cephrdb (svc w)) key of
                Some v \<Rightarrow> (Some (AlreadyExists ClusterEphemeralReportsGR key), w)
              | None \<Rightarrow>
                  (let w1 = UpdatePolicyReportMetrics ''inmemory'' ''create''
                              (ClusterEphemeralReportPtr r) False
                              (count_request ''inmemory'' ''create'' ''ClusterEphemeralReport'' w);
                       (err, d) = db_Store Z T key r (cephrdb (svc w1))
                   in (err, w1\<lparr>svc := (svc w1)\<lparr>cephrdb := d\<rparr>\<rparr>))))"

definition cephrdb_Update ::
  "memLib \<Rightarrow> ClusterEphemeralReport TypeLib \<Rightarrow> ClusterEphemeralReport option \<Rightarrow>
     inMemoryDb world eop" where
  "cephrdb_Update Z T cephr w =
     (case cephr of
        None \<Rightarrow> (Some (Panic ''nil pointer dereference''), w)
      | Some r \<Rightarrow>
          (let key = cephrdb_key (Name r)
           in case db_val Z T (cephrdb (svc w)) key of
                None \<Rightarrow> (Some (NotFound ClusterEphemeralReportsGR key), w)
              | Some v \<Rightarrow>
                  (let w1 = UpdatePolicyReportMetrics ''inmemory'' ''update''
                              (ClusterEphemeralReportPtr r) False
                              (count_request ''inmemory'' ''update'' ''ClusterEphemeralReport'' w);
                       (err, d) = db_Store Z T key r (cephrdb (svc w1))
                   in (err, w1\<lparr>svc := (svc w1)\<lparr>cephrdb := d\<rparr>\<rparr>))))"

definition cephrdb_Delete ::
  "memLib \<Rightarrow> ClusterEphemeralReport TypeLib \<Rightarrow> string \<Rightarrow> inMemoryDb world eop" where
  "cephrdb_Delete Z T name w =
     (let key = cephrdb_key name
      in case db_val Z T (cephrdb (svc w)) key of
           None \<Rightarrow> (Some (NotFound ClusterEphemeralReportsGR key), w)
         | Some v \<Rightarrow>
             (let w1 = w\<lparr>svc := (svc w)\<lparr>cephrdb := db_Delete key (cephrdb (svc w))\<rparr>\<rparr>
              in (None, UpdatePolicyReportMetrics ''inmemory'' ''delete'' OtherValue False
                          (count_request ''inmemory'' ''delete'' ''ClusterEphemeralReport'' w1))))"

subsection \<open>The storage\<close>

definition polrdb_iface ::
  "memLib \<Rightarrow> PolicyReport TypeLib \<Rightarrow> inMemoryDb world PolicyReportsInterface" where
  "polrdb_iface Z T =
     \<lparr>nGet = polrdb_Get Z T, nList = polrdb_List Z T, nCreate = polrdb_Create Z T,
      nUpdate = polrdb_Update Z T, nDelete = polrdb_Delete Z T\<rparr>"

definition cpolrdb_iface ::
  "memLib \<Rightarrow> ClusterPolicyReport TypeLib \<Rightarrow> inMemoryDb world ClusterPolicyReportsInterface" where
  "cpolrdb_iface Z T =
     \<lparr>cGet = cpolrdb_Get Z T, cList = cpolrdb_List Z T, cCreate = cpolrdb_Create Z T,
      cUpdate = cpolrdb_Update Z T, cDelete = cpolrdb_Delete Z T\<rparr>"

definition ephrdb_iface ::
  "memLib \<Rightarrow> EphemeralReport TypeLib \<Rightarrow> inMemoryDb world EphemeralReportsInterface" where
  "ephrdb_iface Z T =
     \<lparr>nGet = ephrdb_Get Z T, nList = ephrdb_List Z T, nCreate = ephrdb_Create Z T,
      nUpdate = ephrdb_Update Z T, nDelete = ephrdb_Delete Z T\<rparr>"

definition cephrdb_iface ::
  "memLib \<Rightarrow> ClusterEphemeralReport TypeLib \<Rightarrow> inMemoryDb world ClusterEphemeralReportsInterface" where
  "cephrdb_iface Z T =
     \<lparr>cGet = cephrdb_Get Z T, cList = cephrdb_List Z T, cCreate = cephrdb_Create Z T,
      cUpdate = cephrdb_Update Z T, cDelete = cephrdb_Delete Z T\<rparr>"

definition inmemory_New :: "memLib \<Rightarrow> reportLibs \<Rightarrow> inMemoryDb world Storage \<times> inMemoryDb" where
  "inmemory_New Z L =
     (\<lparr>Ready = (\<lambda>_. True),
       PolicyReports = polrdb_iface Z (polrLib L),
       ClusterPolicyReports = cpolrdb_iface Z (cpolrLib L),
       EphemeralReports = ephrdb_iface Z (ephrLib L),
       ClusterEphemeralReports = cephrdb_iface Z (cephrLib L)\<rparr>,
      \<lparr>cpolrdb = NewDB, polrdb = NewDB, cephrdb = NewDB, ephrdb = NewDB\<rparr>)"

subsection \<open>What the maps keep true\<close>

text \<open>
  LZW decompression undoes compression, and \<open>range\<close> visits every key of a (finite) map once.
\<close>

definition mem_contract :: "memLib \<Rightarrow> bool" where
  "mem_contract Z \<longleftrightarrow>
     (\<forall>b c. lzw_Write Z b = Inr c \<longrightarrow> lzw_Read Z c = Inr b) \<and>
     (\<forall>m. finite (dom m) \<longrightarrow> distinct (range_keys Z m) \<and> set (range_keys Z m) = dom m)"

text \<open>The reports in a map, for a way to make storage keys from legal report keys.\<close>

definition mem_view ::
  "memLib \<Rightarrow> 'r TypeLib \<Rightarrow> ('k \<Rightarrow> string) \<Rightarrow> ('k \<Rightarrow> bool) \<Rightarrow> mem_db \<Rightarrow> 'k \<rightharpoonup> 'r" where
  "mem_view Z T kf gk d k = (if gk k then db_val Z T d (kf k) else None)"

definition mem_inv ::
  "memLib \<Rightarrow> 'a ObjectMeta_scheme TypeLib \<Rightarrow> ('a ObjectMeta_scheme \<Rightarrow> 'a ObjectMeta_scheme) \<Rightarrow>
     ('k \<Rightarrow> string) \<Rightarrow> ('k \<Rightarrow> bool) \<Rightarrow> ('a ObjectMeta_scheme \<Rightarrow> 'k) \<Rightarrow> mem_db \<Rightarrow> bool" where
  "mem_inv Z T canon kf gk rk d \<longleftrightarrow>
     mem_contract Z \<and> json_roundtrip T canon \<and> finite (dom (storage d)) \<and>
     (\<forall>x b. storage d x = Some b \<longrightarrow>
        (\<exists>k r. gk k \<and> x = kf k \<and> decompressData Z T b = Inr r \<and> rk r = k))"

definition mem_good ::
  "memLib \<Rightarrow> 'r TypeLib \<Rightarrow> ('k \<Rightarrow> bool) \<Rightarrow> ('r \<Rightarrow> 'k) \<Rightarrow> 'r \<Rightarrow> bool" where
  "mem_good Z T gk rk r \<longleftrightarrow> gk (rk r) \<and> (\<exists>b. compressData Z T r = Inr b)"

text \<open>
  The facts about a compressed map that all four stores use: they need only that legal keys give
  different storage keys, and that a report's key depends on its name and namespace.
\<close>

locale compressed_map =
  fixes kf :: "'k \<Rightarrow> string"
    and gk :: "'k \<Rightarrow> bool"
    and rk :: "'a ObjectMeta_scheme \<Rightarrow> 'k"
  assumes kf_inj: "gk k \<Longrightarrow> gk k' \<Longrightarrow> kf k = kf k' \<Longrightarrow> k = k'"
    and rk_meta: "Name r = Name r' \<Longrightarrow> Namespace r = Namespace r' \<Longrightarrow> rk r = rk r'"
begin

lemma decompress_compress:
  assumes "mem_contract Z" "json_roundtrip T canon" "compressData Z T r = Inr b"
  shows "decompressData Z T b = Inr (canon r) \<and> rk (canon r) = rk r"
proof -
  from assms(3) obtain j where j: "Marshal T r = Inr j" "lzw_Write Z j = Inr b"
    by (auto simp: compressData_def split: sum.splits)
  with assms(1) have "lzw_Read Z b = Inr j" by (simp add: mem_contract_def)
  with j(1) assms(2) show ?thesis
    by (auto simp: decompressData_def json_roundtrip_def intro: rk_meta)
qed

lemma mem_lookup:
  assumes "mem_inv Z T canon kf gk rk d" and "storage d x = Some b"
  obtains k r where "gk k" "x = kf k" "mem_view Z T kf gk d k = Some r" "rk r = k"
proof -
  from assms obtain k r where
    k: "gk k" "x = kf k" "decompressData Z T b = Inr r" "rk r = k"
    unfolding mem_inv_def by blast
  with assms(2) have "mem_view Z T kf gk d k = Some r"
    by (simp add: mem_view_def db_val_def db_Get_def)
  with k show thesis by (intro that)
qed

lemma mem_view_key:
  assumes "mem_inv Z T canon kf gk rk d" and "mem_view Z T kf gk d k = Some r"
  shows "gk k \<and> rk r = k"
proof -
  from assms(2) have gk: "gk k" and "db_val Z T d (kf k) = Some r"
    by (auto simp: mem_view_def split: if_splits)
  then obtain b where b: "storage d (kf k) = Some b" "decompressData Z T b = Inr r"
    by (auto simp: db_val_def db_Get_def split: sum.splits option.splits)
  with assms(1) obtain k' r' where
    k': "gk k'" "kf k = kf k'" "decompressData Z T b = Inr r'" "rk r' = k'"
    unfolding mem_inv_def by blast
  with b kf_inj [OF gk k'(1,2)] gk show ?thesis by simp
qed

lemma mem_keys:
  assumes "mem_inv Z T canon kf gk rk d" and "\<And>k. gk k \<Longrightarrow> P (kf k) \<longleftrightarrow> sel k"
  shows "\<exists>ks. distinct ks \<and> set ks = {k \<in> dom (mem_view Z T kf gk d). sel k} \<and>
    filter P (db_Keys Z d) = map kf ks \<and>
    map (db_val Z T d) (map kf ks) = map (mem_view Z T kf gk d) ks"
proof -
  let ?v = "mem_view Z T kf gk d"
  from assms(1) have xs: "distinct (filter P (db_Keys Z d))"
    "set (filter P (db_Keys Z d)) = {x \<in> dom (storage d). P x}"
    by (auto simp: mem_inv_def mem_contract_def db_Keys_def)
  have "\<exists>k. (gk k \<and> sel k \<and> k \<in> dom ?v) \<and> x = kf k" if "x \<in> set (filter P (db_Keys Z d))" for x
  proof -
    from that xs(2) obtain b where "storage d x = Some b" "P x" by auto
    with mem_lookup [OF assms(1)] show ?thesis by (metis assms(2) domI)
  qed
  from ex_map_pred [OF this] obtain ks where
    ks: "filter P (db_Keys Z d) = map kf ks" "\<And>k. k \<in> set ks \<Longrightarrow> gk k \<and> sel k \<and> k \<in> dom ?v"
    by blast
  have "k \<in> set ks" if k: "k \<in> dom ?v" "sel k" for k
  proof -
    from k(1) have gk: "gk k" and "kf k \<in> dom (storage d)"
      by (auto simp: mem_view_def db_val_def db_Get_def split: if_splits option.splits sum.splits)
    with k(2) assms(2) xs(2) ks(1) have "kf k \<in> kf ` set ks" by auto
    then show ?thesis using kf_inj [OF gk] ks(2) by auto
  qed
  with ks(2) have "set ks = {k \<in> dom ?v. sel k}" by blast
  moreover from xs(1) ks(1) have "distinct ks" by (simp add: distinct_map)
  moreover have "map (db_val Z T d) (map kf ks) = map ?v ks"
    using ks(2) by (simp add: mem_view_def)
  ultimately show ?thesis using ks(1) by blast
qed

lemma mem_list_all:
  assumes "mem_inv Z T canon kf gk rk d" and "\<And>k. gk k \<Longrightarrow> P (kf k) \<longleftrightarrow> sel k"
  shows "\<exists>ks. distinct ks \<and> set ks = {k \<in> dom (mem_view Z T kf gk d). sel k} \<and>
    map (db_val Z T d) (filter P (db_Keys Z d)) = map (mem_view Z T kf gk d) ks"
  using mem_keys [of Z T canon d P sel, OF assms] by metis

lemma mem_list_checked:
  assumes "mem_inv Z T canon kf gk rk d" and "\<And>k. gk k \<Longrightarrow> P (kf k) \<longleftrightarrow> sel k"
  shows "\<exists>ks. distinct ks \<and> set ks = {k \<in> dom (mem_view Z T kf gk d). sel k} \<and>
    map_result (\<lambda>k. case db_Get Z T d k of Inl err \<Rightarrow> Inl err | Inr v \<Rightarrow> Inr (Some v))
      (filter P (db_Keys Z d)) = Inr (map (mem_view Z T kf gk d) ks)"
proof -
  from mem_keys [of Z T canon d P sel, OF assms] obtain ks where
    ks: "distinct ks" "set ks = {k \<in> dom (mem_view Z T kf gk d). sel k}"
    "filter P (db_Keys Z d) = map kf ks"
    by blast
  have "map_result (\<lambda>k. case db_Get Z T d k of Inl err \<Rightarrow> Inl err | Inr v \<Rightarrow> Inr (Some v)) (map kf ks) =
      Inr (map (mem_view Z T kf gk d) ks)"
    unfolding map_result_map using ks(2)
    by (intro map_result_all_Inr)
      (auto simp: mem_view_def db_val_def split: if_splits sum.splits)
  with ks show ?thesis by metis
qed

lemma mem_store:
  assumes "mem_inv Z T canon kf gk rk d" and "mem_good Z T gk rk r"
    and "db_Store Z T (kf (rk r)) r d = (e, d')"
  shows "e = None \<and> mem_view Z T kf gk d' = (mem_view Z T kf gk d)(rk r \<mapsto> canon r) \<and>
    mem_inv Z T canon kf gk rk d'"
proof -
  from assms(2) obtain b where gk: "gk (rk r)" and b: "compressData Z T r = Inr b"
    by (auto simp: mem_good_def)
  from assms(1) have "mem_contract Z" "json_roundtrip T canon"
    by (auto simp: mem_inv_def)
  from decompress_compress [OF this b] have
    dec: "decompressData Z T b = Inr (canon r)" "rk (canon r) = rk r"
    by simp_all
  from assms(3) b have d': "e = None" "storage d' = (storage d)(kf (rk r) \<mapsto> b)"
    by (auto simp: db_Store_def)
  have "mem_view Z T kf gk d' k = ((mem_view Z T kf gk d)(rk r \<mapsto> canon r)) k" for k
    using kf_inj [OF gk, of k] gk dec
    by (auto simp: mem_view_def db_val_def db_Get_def d')
  moreover have "mem_inv Z T canon kf gk rk d'"
    using assms(1) gk dec unfolding mem_inv_def d' by (auto split: if_splits)
  ultimately show ?thesis using d'(1) by blast
qed

lemma mem_delete:
  assumes "mem_inv Z T canon kf gk rk d" and "gk k"
  shows "mem_view Z T kf gk (db_Delete (kf k) d) = (mem_view Z T kf gk d)(k := None) \<and>
    mem_inv Z T canon kf gk rk (db_Delete (kf k) d)"
proof -
  have "mem_view Z T kf gk (db_Delete (kf k) d) k' = ((mem_view Z T kf gk d)(k := None)) k'" for k'
    using kf_inj [OF assms(2), of k'] assms(2)
    by (auto simp: mem_view_def db_val_def db_Get_def db_Delete_def)
  moreover have "mem_inv Z T canon kf gk rk (db_Delete (kf k) d)"
    using assms(1) unfolding mem_inv_def db_Delete_def by (auto split: if_splits)
  ultimately show ?thesis by blast
qed

end

subsection \<open>The four stores implement the contract\<close>

definition mem_ns_key :: "(string \<Rightarrow> string \<Rightarrow> string) \<Rightarrow> string \<times> string \<Rightarrow> string" where
  "mem_ns_key kf k = kf (snd k) (fst k)"

definition mem_ns_good :: "string \<times> string \<Rightarrow> bool" where
  "mem_ns_good k \<longleftrightarrow> slash_free (fst k)"

interpretation polr_map: compressed_map "mem_ns_key polrdb_key" mem_ns_good
  "ns_key :: 'a ObjectMeta_scheme \<Rightarrow> _"
  by unfold_locales
    (auto simp: mem_ns_key_def mem_ns_good_def polrdb_key_def slash_free_def ns_key_def prod_eq_iff
      dest: append_sep_inj)

interpretation cpolr_map: compressed_map cpolrdb_key "\<lambda>_. True" "cl_key :: 'a ObjectMeta_scheme \<Rightarrow> _"
  by unfold_locales (auto simp: cpolrdb_key_def cl_key_def)

interpretation ephr_map: compressed_map "mem_ns_key ephrdb_key" mem_ns_good
  "ns_key :: 'a ObjectMeta_scheme \<Rightarrow> _"
  by unfold_locales
    (auto simp: mem_ns_key_def mem_ns_good_def ephrdb_key_def slash_free_def ns_key_def prod_eq_iff
      dest: append_sep_inj)

interpretation cephr_map: compressed_map cephrdb_key "\<lambda>_. True" "cl_key :: 'a ObjectMeta_scheme \<Rightarrow> _"
  by unfold_locales (auto simp: cephrdb_key_def cl_key_def)

text \<open>A namespace selects just the storage keys that start with it.\<close>

lemma mem_key_selected:
  assumes "slash_free q" and "mem_ns_good k"
  shows "(q = [] \<or> HasPrefix (mem_ns_key polrdb_key k) (''polr/'' @ q @ ''/'')) \<longleftrightarrow> ns_sel q k"
    and "(q = [] \<or> HasPrefix (mem_ns_key ephrdb_key k) (''ephr/'' @ q @ ''/'')) \<longleftrightarrow> ns_sel q k"
  using assms prefix_sep_iff [of "CHR ''/''" q "fst k" "snd k"]
  by (auto simp: mem_ns_good_def mem_ns_key_def polrdb_key_def ephrdb_key_def HasPrefix_def
      slash_free_def ns_sel_def)

lemma db_val_view:
  "gk k \<Longrightarrow> db_val Z T d (kf k) = mem_view Z T kf gk d k"
  by (simp add: mem_view_def)

lemma db_val_views:
  "mem_ns_good (ns, n) \<Longrightarrow>
     db_val Z T d (polrdb_key n ns) = mem_view Z T (mem_ns_key polrdb_key) mem_ns_good d (ns, n)"
  "mem_ns_good (ns, n) \<Longrightarrow>
     db_val Z T d (ephrdb_key n ns) = mem_view Z T (mem_ns_key ephrdb_key) mem_ns_good d (ns, n)"
  "db_val Z T d (cpolrdb_key n) = mem_view Z T cpolrdb_key (\<lambda>_. True) d n"
  "db_val Z T d (cephrdb_key n) = mem_view Z T cephrdb_key (\<lambda>_. True) d n"
  by (simp_all add: mem_view_def mem_ns_key_def)

definition polr_mem_inv where
  "polr_mem_inv Z T canon w =
     mem_inv Z T canon (mem_ns_key polrdb_key) mem_ns_good ns_key (polrdb (svc w))"

definition polr_mem_view where
  "polr_mem_view Z T w = mem_view Z T (mem_ns_key polrdb_key) mem_ns_good (polrdb (svc w))"

definition cpolr_mem_inv where
  "cpolr_mem_inv Z T canon w = mem_inv Z T canon cpolrdb_key (\<lambda>_. True) cl_key (cpolrdb (svc w))"

definition cpolr_mem_view where
  "cpolr_mem_view Z T w = mem_view Z T cpolrdb_key (\<lambda>_. True) (cpolrdb (svc w))"

definition ephr_mem_inv where
  "ephr_mem_inv Z T canon w =
     mem_inv Z T canon (mem_ns_key ephrdb_key) mem_ns_good ns_key (ephrdb (svc w))"

definition ephr_mem_view where
  "ephr_mem_view Z T w = mem_view Z T (mem_ns_key ephrdb_key) mem_ns_good (ephrdb (svc w))"

definition cephr_mem_inv where
  "cephr_mem_inv Z T canon w = mem_inv Z T canon cephrdb_key (\<lambda>_. True) cl_key (cephrdb (svc w))"

definition cephr_mem_view where
  "cephr_mem_view Z T w = mem_view Z T cephrdb_key (\<lambda>_. True) (cephrdb (svc w))"

lemma mem_key_canon:
  assumes "mem_inv Z T canon kf gk rk d" and "mem_good Z T gk rk r"
  shows "Name (canon r) = Name r" "Namespace (canon r) = Namespace r"
  using assms by (auto simp: mem_inv_def mem_good_def json_roundtrip_def compressData_def split: sum.splits)

lemmas polr_mem_defs = polr_mem_inv_def polr_mem_view_def polrdb_iface_def
  polrdb_Get_def polrdb_List_def polrdb_Create_def polrdb_Update_def polrdb_Delete_def
lemmas cpolr_mem_defs = cpolr_mem_inv_def cpolr_mem_view_def cpolrdb_iface_def
  cpolrdb_Get_def cpolrdb_List_def cpolrdb_Create_def cpolrdb_Update_def cpolrdb_Delete_def
lemmas ephr_mem_defs = ephr_mem_inv_def ephr_mem_view_def ephrdb_iface_def
  ephrdb_Get_def ephrdb_List_def ephrdb_Create_def ephrdb_Update_def ephrdb_Delete_def
lemmas cephr_mem_defs = cephr_mem_inv_def cephr_mem_view_def cephrdb_iface_def
  cephrdb_Get_def cephrdb_List_def cephrdb_Create_def cephrdb_Update_def cephrdb_Delete_def

lemma mem_ns_good_key: "mem_good Z T mem_ns_good ns_key r \<Longrightarrow> mem_ns_good (Namespace r, Name r)"
  by (simp add: mem_good_def ns_key_def)

interpretation polr_mem: report_storage "ns_ops (polrdb_iface Z T)" ns_key ns_sel canon False
  mem_ns_good slash_free "mem_good Z T mem_ns_good ns_key" "polr_mem_view Z T" "polr_mem_inv Z T canon"
  for Z T canon
proof (unfold_locales, goal_cases)
  case (1 s k)
  then show ?case
    by (cases k) (auto simp: polr_mem_defs db_val_views Let_def split: option.split)
next
  case (2 s q)
  then show ?case
    using polr_map.mem_list_checked [of Z T canon "polrdb (svc s)"
        "\<lambda>k. q = [] \<or> HasPrefix k (''polr/'' @ q @ ''/'')" "ns_sel q",
        OF _ mem_key_selected(1) [OF 2(2)]]
    by (simp add: polr_mem_defs Let_def)
next
  case (3 s r)
  then show ?case
    using polr_map.mem_store [of Z T canon "polrdb (svc s)" r, OF _ _ prod.collapse [symmetric]]
    by (auto simp: polr_mem_defs db_val_views mem_ns_good_key mem_ns_key_def ns_key_def [of r]
        metric_simps case_prod_unfold Let_def split: option.split)
next
  case (4 s r)
  then show ?case
    using polr_map.mem_store [of Z T canon "polrdb (svc s)" r, OF _ _ prod.collapse [symmetric]]
    by (auto simp: polr_mem_defs db_val_views mem_ns_good_key mem_ns_key_def ns_key_def [of r]
        metric_simps case_prod_unfold Let_def split: option.split)
next
  case (5 s k)
  then show ?case
    using polr_map.mem_delete [of Z T canon "polrdb (svc s)" k]
    by (cases k) (auto simp: polr_mem_defs db_val_views mem_ns_key_def metric_simps Let_def
        fun_upd_idem split: option.split)
next
  case (6 s k r)
  then show ?case using polr_map.mem_view_key by (simp add: polr_mem_defs)
next
  case (7 r)
  then show ?case by (simp add: mem_good_def)
next
  case (8 s r)
  then show ?case using mem_key_canon [OF 8 [unfolded polr_mem_inv_def]] by (simp add: ns_key_def)
qed

interpretation ephr_mem: report_storage "ns_ops (ephrdb_iface Z T)" ns_key ns_sel canon False
  mem_ns_good slash_free "mem_good Z T mem_ns_good ns_key" "ephr_mem_view Z T" "ephr_mem_inv Z T canon"
  for Z T canon
proof (unfold_locales, goal_cases)
  case (1 s k)
  then show ?case
    by (cases k) (auto simp: ephr_mem_defs db_val_views Let_def split: option.split)
next
  case (2 s q)
  then show ?case
    using ephr_map.mem_list_all [of Z T canon "ephrdb (svc s)"
        "\<lambda>k. q = [] \<or> HasPrefix k (''ephr/'' @ q @ ''/'')" "ns_sel q",
        OF _ mem_key_selected(2) [OF 2(2)]]
    by (simp add: ephr_mem_defs Let_def)
next
  case (3 s r)
  then show ?case
    using ephr_map.mem_store [of Z T canon "ephrdb (svc s)" r, OF _ _ prod.collapse [symmetric]]
    by (auto simp: ephr_mem_defs db_val_views mem_ns_good_key mem_ns_key_def ns_key_def [of r]
        metric_simps case_prod_unfold Let_def split: option.split)
next
  case (4 s r)
  then show ?case
    using ephr_map.mem_store [of Z T canon "ephrdb (svc s)" r, OF _ _ prod.collapse [symmetric]]
    by (auto simp: ephr_mem_defs db_val_views mem_ns_good_key mem_ns_key_def ns_key_def [of r]
        metric_simps case_prod_unfold Let_def split: option.split)
next
  case (5 s k)
  then show ?case
    using ephr_map.mem_delete [of Z T canon "ephrdb (svc s)" k]
    by (cases k) (auto simp: ephr_mem_defs db_val_views mem_ns_key_def metric_simps Let_def
        fun_upd_idem split: option.split)
next
  case (6 s k r)
  then show ?case using ephr_map.mem_view_key by (simp add: ephr_mem_defs)
next
  case (7 r)
  then show ?case by (simp add: mem_good_def)
next
  case (8 s r)
  then show ?case using mem_key_canon [OF 8 [unfolded ephr_mem_inv_def]] by (simp add: ns_key_def)
qed

interpretation cpolr_mem: report_storage "cl_ops (cpolrdb_iface Z T)" cl_key cl_sel canon False
  "\<lambda>_. True" "\<lambda>_. True" "mem_good Z T (\<lambda>_. True) cl_key" "cpolr_mem_view Z T" "cpolr_mem_inv Z T canon"
  for Z T canon
proof (unfold_locales, goal_cases)
  case (1 s k)
  then show ?case
    by (auto simp: cpolr_mem_defs db_val_views metric_simps Let_def split: option.split)
next
  case (2 s q)
  then show ?case
    using cpolr_map.mem_list_all [of Z T canon "cpolrdb (svc s)" "\<lambda>_. True" "cl_sel q"]
    by (simp add: cpolr_mem_defs cl_sel_def metric_simps Let_def)
next
  case (3 s r)
  then show ?case
    using cpolr_map.mem_store [of Z T canon "cpolrdb (svc s)" r, OF _ _ prod.collapse [symmetric]]
    by (auto simp: cpolr_mem_defs db_val_views cl_key_def [of r]
        metric_simps case_prod_unfold Let_def split: option.split)
next
  case (4 s r)
  then show ?case
    using cpolr_map.mem_store [of Z T canon "cpolrdb (svc s)" r, OF _ _ prod.collapse [symmetric]]
    by (auto simp: cpolr_mem_defs db_val_views cl_key_def [of r]
        metric_simps case_prod_unfold Let_def split: option.split)
next
  case (5 s k)
  then show ?case
    using cpolr_map.mem_delete [of Z T canon "cpolrdb (svc s)" k]
    by (auto simp: cpolr_mem_defs db_val_views metric_simps Let_def
        fun_upd_idem split: option.split)
next
  case (6 s k r)
  then show ?case using cpolr_map.mem_view_key by (simp add: cpolr_mem_defs)
next
  case (7 r)
  then show ?case by (simp add: mem_good_def)
next
  case (8 s r)
  then show ?case using mem_key_canon [OF 8 [unfolded cpolr_mem_inv_def]] by (simp add: cl_key_def)
qed

interpretation cephr_mem: report_storage "cl_ops (cephrdb_iface Z T)" cl_key cl_sel canon False
  "\<lambda>_. True" "\<lambda>_. True" "mem_good Z T (\<lambda>_. True) cl_key" "cephr_mem_view Z T" "cephr_mem_inv Z T canon"
  for Z T canon
proof (unfold_locales, goal_cases)
  case (1 s k)
  then show ?case
    by (auto simp: cephr_mem_defs db_val_views metric_simps Let_def split: option.split)
next
  case (2 s q)
  then show ?case
    using cephr_map.mem_list_all [of Z T canon "cephrdb (svc s)" "\<lambda>_. True" "cl_sel q"]
    by (simp add: cephr_mem_defs cl_sel_def metric_simps Let_def)
next
  case (3 s r)
  then show ?case
    using cephr_map.mem_store [of Z T canon "cephrdb (svc s)" r, OF _ _ prod.collapse [symmetric]]
    by (auto simp: cephr_mem_defs db_val_views cl_key_def [of r]
        metric_simps case_prod_unfold Let_def split: option.split)
next
  case (4 s r)
  then show ?case
    using cephr_map.mem_store [of Z T canon "cephrdb (svc s)" r, OF _ _ prod.collapse [symmetric]]
    by (auto simp: cephr_mem_defs db_val_views cl_key_def [of r]
        metric_simps case_prod_unfold Let_def split: option.split)
next
  case (5 s k)
  then show ?case
    using cephr_map.mem_delete [of Z T canon "cephrdb (svc s)" k]
    by (auto simp: cephr_mem_defs db_val_views metric_simps Let_def
        fun_upd_idem split: option.split)
next
  case (6 s k r)
  then show ?case using cephr_map.mem_view_key by (simp add: cephr_mem_defs)
next
  case (7 r)
  then show ?case by (simp add: mem_good_def)
next
  case (8 s r)
  then show ?case using mem_key_canon [OF 8 [unfolded cephr_mem_inv_def]] by (simp add: cl_key_def)
qed


subsection \<open>Properties\<close>

lemma mem_inv_NewDB:
  assumes "mem_contract Z" and "json_roundtrip T canon"
  shows "mem_inv Z T canon kf gk rk NewDB" and "mem_view Z T kf gk NewDB = Map.empty"
  using assms by (auto simp: mem_inv_def NewDB_def mem_view_def db_val_def db_Get_def)

definition inmemory_start :: "memLib \<Rightarrow> reportLibs \<Rightarrow> inMemoryDb world" where
  "inmemory_start Z L = \<lparr>svc = snd (inmemory_New Z L), mx = no_metrics\<rparr>"

lemma inmemory_start_view:
  assumes "mem_contract Z"
    and "json_roundtrip (polrLib L) c1" "json_roundtrip (cpolrLib L) c2"
      "json_roundtrip (ephrLib L) c3" "json_roundtrip (cephrLib L) c4"
  shows "polr_mem_inv Z (polrLib L) c1 (inmemory_start Z L)"
    "polr_mem_view Z (polrLib L) (inmemory_start Z L) = Map.empty"
    "cpolr_mem_inv Z (cpolrLib L) c2 (inmemory_start Z L)"
    "cpolr_mem_view Z (cpolrLib L) (inmemory_start Z L) = Map.empty"
    "ephr_mem_inv Z (ephrLib L) c3 (inmemory_start Z L)"
    "ephr_mem_view Z (ephrLib L) (inmemory_start Z L) = Map.empty"
    "cephr_mem_inv Z (cephrLib L) c4 (inmemory_start Z L)"
    "cephr_mem_view Z (cephrLib L) (inmemory_start Z L) = Map.empty"
  using mem_inv_NewDB [OF assms(1,2)] mem_inv_NewDB [OF assms(1,3)] mem_inv_NewDB [OF assms(1,4)]
    mem_inv_NewDB [OF assms(1,5)]
  by (simp_all add: inmemory_start_def inmemory_New_def polr_mem_inv_def polr_mem_view_def
      cpolr_mem_inv_def cpolr_mem_view_def ephr_mem_inv_def ephr_mem_view_def cephr_mem_inv_def
      cephr_mem_view_def)

lemma inmemory_New_stores [simp]:
  "PolicyReports (fst (inmemory_New Z L)) = polrdb_iface Z (polrLib L)"
  "ClusterPolicyReports (fst (inmemory_New Z L)) = cpolrdb_iface Z (cpolrLib L)"
  "EphemeralReports (fst (inmemory_New Z L)) = ephrdb_iface Z (ephrLib L)"
  "ClusterEphemeralReports (fst (inmemory_New Z L)) = cephrdb_iface Z (cephrLib L)"
  by (simp_all add: inmemory_New_def)

text \<open>
  C25. The in-memory back end refines a map: starting from the empty store that \<open>New\<close> makes, any
  sequence of calls on one of its four stores gives the replies that a map from keys to reports
  gives, whatever the order in which Go visits the keys of its maps.
\<close>

theorem inmemory_refines:
  assumes "mem_contract Z"
    and "json_roundtrip (polrLib L) c1" "json_roundtrip (cpolrLib L) c2"
      "json_roundtrip (ephrLib L) c3" "json_roundtrip (cephrLib L) c4"
  shows "(\<forall>cs. (\<forall>c \<in> set cs. good_cmd mem_ns_good slash_free
                (mem_good Z (polrLib L) mem_ns_good ns_key) c) \<longrightarrow>
       fst (run_cmds (do_cmd (ns_ops (PolicyReports (fst (inmemory_New Z L))))) cs (inmemory_start Z L)) =
         fst (run_cmds (spec_cmd ns_key ns_sel c1 False) cs Map.empty)) \<and>
    (\<forall>cs. (\<forall>c \<in> set cs. good_cmd (\<lambda>_. True) (\<lambda>_. True)
                (mem_good Z (cpolrLib L) (\<lambda>_. True) cl_key) c) \<longrightarrow>
       fst (run_cmds (do_cmd (cl_ops (ClusterPolicyReports (fst (inmemory_New Z L))))) cs
             (inmemory_start Z L)) =
         fst (run_cmds (spec_cmd cl_key cl_sel c2 False) cs Map.empty)) \<and>
    (\<forall>cs. (\<forall>c \<in> set cs. good_cmd mem_ns_good slash_free
                (mem_good Z (ephrLib L) mem_ns_good ns_key) c) \<longrightarrow>
       fst (run_cmds (do_cmd (ns_ops (EphemeralReports (fst (inmemory_New Z L))))) cs (inmemory_start Z L)) =
         fst (run_cmds (spec_cmd ns_key ns_sel c3 False) cs Map.empty)) \<and>
    (\<forall>cs. (\<forall>c \<in> set cs. good_cmd (\<lambda>_. True) (\<lambda>_. True)
                (mem_good Z (cephrLib L) (\<lambda>_. True) cl_key) c) \<longrightarrow>
       fst (run_cmds (do_cmd (cl_ops (ClusterEphemeralReports (fst (inmemory_New Z L))))) cs
             (inmemory_start Z L)) =
         fst (run_cmds (spec_cmd cl_key cl_sel c4 False) cs Map.empty))"
proof (intro conjI allI impI, goal_cases)
  case (1 cs)
  then show ?case
    using polr_mem.run_refines [OF inmemory_start_view(1) [OF assms], of cs]
    by (auto simp: inmemory_start_view(2) [OF assms])
next
  case (2 cs)
  then show ?case
    using cpolr_mem.run_refines [OF inmemory_start_view(3) [OF assms], of cs]
    by (auto simp: inmemory_start_view(4) [OF assms])
next
  case (3 cs)
  then show ?case
    using ephr_mem.run_refines [OF inmemory_start_view(5) [OF assms], of cs]
    by (auto simp: inmemory_start_view(6) [OF assms])
next
  case (4 cs)
  then show ?case
    using cephr_mem.run_refines [OF inmemory_start_view(7) [OF assms], of cs]
    by (auto simp: inmemory_start_view(8) [OF assms])
qed

text \<open>A library that stores documents as they are and visits keys in lexical order.\<close>

definition plain_lib :: memLib where
  "plain_lib = \<lparr>lzw_Write = Inr, lzw_Read = Inr, range_keys = (\<lambda>m. sorted_list_of_set (dom m))\<rparr>"

lemma plain_lib_contract: "mem_contract plain_lib"
  by (simp add: mem_contract_def plain_lib_def)

definition sample_libs :: reportLibs where
  "sample_libs =
     \<lparr>polrLib = table_lib [(''x'', sample_polr)] PolicyReportPtr,
      cpolrLib = table_lib [(''x'', sample_cpolr)] ClusterPolicyReportPtr,
      ephrLib = table_lib [] EphemeralReportPtr, cephrLib = table_lib [] ClusterEphemeralReportPtr\<rparr>"

theorem inmemory_refines_witness:
  "fst (run_cmds (do_cmd (ns_ops (PolicyReports (fst (inmemory_New plain_lib sample_libs)))))
        [CreateCmd sample_polr, CreateCmd sample_polr, ListCmd [], DeleteCmd (''default'', ''a''),
         UpdateCmd sample_polr]
        (inmemory_start plain_lib sample_libs)) =
     [Done, Failed, Listed {sample_polr}, Done, Failed]"
proof -
  have "json_roundtrip (polrLib sample_libs) id" "json_roundtrip (cpolrLib sample_libs) id"
    "json_roundtrip (ephrLib sample_libs) id" "json_roundtrip (cephrLib sample_libs) id"
    by (simp_all add: sample_libs_def table_lib_roundtrip)
  note refines = inmemory_refines [OF plain_lib_contract this]
  show ?thesis
    by (subst refines [THEN conjunct1, rule_format])
      (auto simp: mem_ns_good_def mem_good_def slash_free_def ns_key_def ns_sel_def compressData_def
        plain_lib_def sample_libs_def sample_lib(2))
qed

end
