(* ===== verification/Backends.thy ===== *)
theory Backends
  imports EtcdServer InMemory PgProps
begin

section \<open>The REST layer on each back end\<close>

text \<open>
  Each of the three back ends keeps the storage contract for each kind of report, so the
  handlers of \<^verbatim>\<open>pkg/api\<close> are correct on top of each: the locale \<open>rest_kind\<close> is interpreted on the twelve
  stores. The version counter, the list of watch events and the store go together in the facts of
  these interpretations: \<open><kind>_on_<back end>.history_tracks\<close> and its companions.
\<close>

subsection \<open>etcd\<close>

interpretation polr_on_etcd: rest_kind "ns_ops (PolicyReports (etcd_storage L kv))" ns_key ns_sel canon False
  "etcd_good_key (polr_ob kv)" slash_free "etcd_good (polrLib L) (polr_ob kv)"
  "etcd_view (polrLib L) (polr_ob kv) V" "etcd_inv (polrLib L) canon (polr_ob kv) V up" polr_desc
  for L kv canon V up
  using etcd_ns.report_storage_axioms by (simp add: rest_kind_def rest_kind_axioms_def ns_key_def ns_sel_def)

interpretation cpolr_on_etcd: rest_kind "cl_ops (ClusterPolicyReports (etcd_storage L kv))" cl_key cl_sel canon False
  slash_free "\<lambda>_. True" "etcd_good (cpolrLib L) (cpolr_ob kv)"
  "etcd_cluster_view (cpolrLib L) (cpolr_ob kv) V" "etcd_inv (cpolrLib L) canon (cpolr_ob kv) V up" cpolr_desc
  for L kv canon V up
  using etcd_cl.report_storage_axioms by (simp add: rest_kind_def rest_kind_axioms_def cl_key_def cl_sel_def)

interpretation ephr_on_etcd: rest_kind "ns_ops (EphemeralReports (etcd_storage L kv))" ns_key ns_sel canon False
  "etcd_good_key (ephr_ob kv)" slash_free "etcd_good (ephrLib L) (ephr_ob kv)"
  "etcd_view (ephrLib L) (ephr_ob kv) V" "etcd_inv (ephrLib L) canon (ephr_ob kv) V up" ephr_desc
  for L kv canon V up
  using etcd_ns.report_storage_axioms by (simp add: rest_kind_def rest_kind_axioms_def ns_key_def ns_sel_def)

interpretation cephr_on_etcd: rest_kind "cl_ops (ClusterEphemeralReports (etcd_storage L kv))" cl_key cl_sel canon False
  slash_free "\<lambda>_. True" "etcd_good (cephrLib L) (cephr_ob kv)"
  "etcd_cluster_view (cephrLib L) (cephr_ob kv) V" "etcd_inv (cephrLib L) canon (cephr_ob kv) V up" cephr_desc
  for L kv canon V up
  using etcd_cl.report_storage_axioms by (simp add: rest_kind_def rest_kind_axioms_def cl_key_def cl_sel_def)

subsection \<open>Memory\<close>

interpretation polr_in_memory: rest_kind "ns_ops (PolicyReports (fst (inmemory_New Z L)))" ns_key ns_sel canon False
  mem_ns_good slash_free "mem_good Z (polrLib L) mem_ns_good ns_key"
  "polr_mem_view Z (polrLib L)" "polr_mem_inv Z (polrLib L) canon" polr_desc
  for Z L canon
  using polr_mem.report_storage_axioms by (simp add: rest_kind_def rest_kind_axioms_def inmemory_New_def ns_key_def ns_sel_def)

interpretation cpolr_in_memory: rest_kind "cl_ops (ClusterPolicyReports (fst (inmemory_New Z L)))" cl_key cl_sel canon False
  "\<lambda>_. True" "\<lambda>_. True" "mem_good Z (cpolrLib L) (\<lambda>_. True) cl_key"
  "cpolr_mem_view Z (cpolrLib L)" "cpolr_mem_inv Z (cpolrLib L) canon" cpolr_desc
  for Z L canon
  using cpolr_mem.report_storage_axioms by (simp add: rest_kind_def rest_kind_axioms_def inmemory_New_def cl_key_def cl_sel_def)

interpretation ephr_in_memory: rest_kind "ns_ops (EphemeralReports (fst (inmemory_New Z L)))" ns_key ns_sel canon False
  mem_ns_good slash_free "mem_good Z (ephrLib L) mem_ns_good ns_key"
  "ephr_mem_view Z (ephrLib L)" "ephr_mem_inv Z (ephrLib L) canon" ephr_desc
  for Z L canon
  using ephr_mem.report_storage_axioms by (simp add: rest_kind_def rest_kind_axioms_def inmemory_New_def ns_key_def ns_sel_def)

interpretation cephr_in_memory: rest_kind "cl_ops (ClusterEphemeralReports (fst (inmemory_New Z L)))" cl_key cl_sel canon False
  "\<lambda>_. True" "\<lambda>_. True" "mem_good Z (cephrLib L) (\<lambda>_. True) cl_key"
  "cephr_mem_view Z (cephrLib L)" "cephr_mem_inv Z (cephrLib L) canon" cephr_desc
  for Z L canon
  using cephr_mem.report_storage_axioms by (simp add: rest_kind_def rest_kind_axioms_def inmemory_New_def cl_key_def cl_sel_def)

subsection \<open>Postgres\<close>

interpretation polr_on_pg: rest_kind "ns_ops (pg_polr_iface T p)" ns_key ns_sel canon True
  "pg_ok D" "pg_okq D" "pg_good T D ns_key" "pg_view T D (clusterId p)"
  "pg_inv T canon (store_MultiDB p) (ns_stmts ''policyreports'') ns_sel D (clusterId p) ns_key" polr_desc
  for T p canon D
  using pg_polr.report_storage_axioms by (simp add: rest_kind_def rest_kind_axioms_def ns_key_def ns_sel_def)

interpretation cpolr_on_pg: rest_kind "cl_ops (pg_cpolr_iface T p)" cl_key cl_sel canon True
  "pg_ok D" "pg_okq D" "pg_good T D cl_key" "pg_view T D (clusterId p)"
  "pg_inv T canon (store_MultiDB p) (cl_stmts sql_list_all ''clusterpolicyreports'') cl_sel D (clusterId p) cl_key" cpolr_desc
  for T p canon D
  using pg_cpolr.report_storage_axioms by (simp add: rest_kind_def rest_kind_axioms_def cl_key_def cl_sel_def)

interpretation ephr_on_pg: rest_kind "ns_ops (pg_ephr_iface T p)" ns_key ns_sel canon True
  "pg_ok D" "pg_okq D" "pg_good T D ns_key" "pg_view T D (clusterId p)"
  "pg_inv T canon (store_MultiDB p) (ns_stmts ''ephemeralreports'') ns_sel D (clusterId p) ns_key" ephr_desc
  for T p canon D
  using pg_ephr.report_storage_axioms by (simp add: rest_kind_def rest_kind_axioms_def ns_key_def ns_sel_def)

interpretation cephr_on_pg: rest_kind "cl_ops (pg_cephr_iface T p)" cl_key cl_sel canon True
  "pg_ok D" "pg_okq D" "pg_good T D cl_key" "pg_view T D (clusterId p)"
  "pg_inv T canon (store_MultiDB p) (cl_stmts sql_list_all_paren ''clusterephemeralreports'') cl_sel D (clusterId p) cl_key" cephr_desc
  for T p canon D
  using pg_cephr.report_storage_axioms by (simp add: rest_kind_def rest_kind_axioms_def cl_key_def cl_sel_def)

end
