(* ===== verification/Threads.thy ===== *)
theory Threads
  imports Prelude "HOL-Library.Multiset"
begin

section \<open>Requests that run at the same time\<close>

text \<open>
  The API machinery runs every request in a goroutine of its own, and a handler takes no lock: only
  the single calls it makes (of the storage, the version counter, the broadcaster) are atomic. A
  \<open>prog\<close> is such a handler: a tree whose nodes are atomic actions on the shared state \<open>'s\<close> and whose
  leaves are results \<open>'x\<close>. \<open>run\<close> runs one alone; \<open>pool_step\<close> lets one of several make its next action.
\<close>

datatype ('s, 'x) prog = Return 'x | Atomic "'s \<Rightarrow> ('s, 'x) prog \<times> 's"

primrec run :: "('s, 'x) prog \<Rightarrow> 's \<Rightarrow> 'x \<times> 's" where
  "run (Return x) s = (x, s)"
| "run (Atomic f) s = (case map_prod run id (f s) of (g, s') \<Rightarrow> g s')"

primrec bind_prog :: "('s, 'x) prog \<Rightarrow> ('x \<Rightarrow> ('s, 'y) prog) \<Rightarrow> ('s, 'y) prog" where
  "bind_prog (Return x) k = k x"
| "bind_prog (Atomic f) k = Atomic (\<lambda>s. map_prod (\<lambda>p. bind_prog p k) id (f s))"

definition act :: "('s \<Rightarrow> 'x \<times> 's) \<Rightarrow> ('s, 'x) prog" where
  "act f = Atomic (\<lambda>s. map_prod Return id (f s))"

lemma run_Atomic: "run (Atomic f) s = run (fst (f s)) (snd (f s))"
  by (simp add: case_prod_unfold)

lemma run_act [simp]: "run (act f) s = f s"
  by (simp add: act_def case_prod_unfold)

lemma run_bind [simp]: "run (bind_prog p k) s = (case run p s of (x, s') \<Rightarrow> run (k x) s')"
proof (induction p arbitrary: s)
  case (Atomic f)
  have "fst (f s) \<in> Basic_BNFs.fsts (f s)" by (cases "f s") (simp add: prod_set_simps)
  with Atomic [of "f s" "fst (f s)"] show ?case
    by (simp add: case_prod_unfold)
qed simp

subsection \<open>Interleaving\<close>

type_synonym ('s, 'x) pool = "'s \<times> ('s, 'x) prog list"

inductive pool_step :: "('s, 'x) pool \<Rightarrow> ('s, 'x) pool \<Rightarrow> bool" where
  "i < length ps \<Longrightarrow> ps ! i = Atomic f \<Longrightarrow> f s = (p, s') \<Longrightarrow> pool_step (s, ps) (s', ps[i := p])"

inductive_cases pool_step_cases: "pool_step (s, ps) c'"

text \<open>A scheduler that is told which thread moves; it passes over threads that have ended.\<close>

fun move :: "nat \<Rightarrow> ('s, 'x) pool \<Rightarrow> ('s, 'x) pool" where
  "move i (s, ps) =
     (if i < length ps
      then (case ps ! i of Return x \<Rightarrow> (s, ps) | Atomic f \<Rightarrow> (case f s of (p, s') \<Rightarrow> (s', ps[i := p])))
      else (s, ps))"

definition schedule :: "nat list \<Rightarrow> ('s, 'x) pool \<Rightarrow> ('s, 'x) pool" where
  "schedule is c = fold move is c"

lemma move_steps: "pool_step\<^sup>*\<^sup>* c (move i c)"
  by (cases c) (auto split: prog.split prod.split intro!: r_into_rtranclp pool_step.intros)

lemma schedule_steps: "pool_step\<^sup>*\<^sup>* c (schedule is c)"
  unfolding schedule_def
proof (induction "is" arbitrary: c)
  case (Cons i "is")
  from rtranclp_trans [OF move_steps this] show ?case by simp
qed simp

text \<open>A schedule all of whose actions start in states with \<open>A\<close>.\<close>

primrec along :: "('s \<Rightarrow> bool) \<Rightarrow> nat list \<Rightarrow> ('s, 'x) pool \<Rightarrow> bool" where
  "along A [] p = True"
| "along A (i # is) p = (A (fst p) \<and> along A is (move i p))"

lemma along_runs:
  "along A is p \<Longrightarrow> (\<lambda>p p'. pool_step p p' \<and> A (fst p))\<^sup>*\<^sup>* p (schedule is p)"
proof (induction "is" arbitrary: p)
  case (Cons i "is")
  from Cons.prems have A: "A (fst p)" and rest: "along A is (move i p)" by simp_all
  have "(\<lambda>p p'. pool_step p p' \<and> A (fst p))\<^sup>*\<^sup>* p (move i p)"
    using A by (cases p) (auto split: prog.split prod.split intro!: r_into_rtranclp pool_step.intros)
  from rtranclp_trans [OF this Cons.IH [OF rest]] show ?case by (simp add: schedule_def)
qed (simp add: schedule_def)

subsection \<open>Every interleaving ends\<close>

text \<open>A thread that moves turns into one of its own subtrees, and a tree has no infinite branch.\<close>

definition subprog :: "(('s, 'x) prog \<times> ('s, 'x) prog) set" where
  "subprog = {(p, q). \<exists>f s. q = Atomic f \<and> p = fst (f s)}"

lemma wf_subprog: "wf subprog"
proof (rule wfUNIVI)
  fix P :: "('a, 'b) prog \<Rightarrow> bool" and p
  assume step: "\<forall>q. (\<forall>p. (p, q) \<in> subprog \<longrightarrow> P p) \<longrightarrow> P q"
  show "P p"
  proof (induction p)
    case (Return x)
    with step show ?case by (auto simp: subprog_def)
  next
    case (Atomic f)
    have "P (fst (f s))" for s
      using Atomic [OF rangeI, of "fst (f s)" s] by (cases "f s") (auto simp: prod_set_simps)
    with step show ?case by (auto simp: subprog_def)
  qed
qed

lemma pool_step_mult:
  assumes "pool_step (s, ps) (s', ps')"
  shows "(mset ps', mset ps) \<in> mult subprog"
  using assms
proof cases
  case (1 i f p)
  then have "mset ps' = add_mset p (mset ps - {#ps ! i#})" "ps ! i \<in># mset ps"
    using nth_mem [of i ps] by (simp_all add: mset_update)
  moreover have "(p, ps ! i) \<in> subprog" using 1 by (auto simp: subprog_def) (metis fst_conv)
  ultimately show ?thesis
    using one_step_implies_mult [of "{#ps ! i#}" "{#p#}" subprog "mset ps - {#ps ! i#}"] by simp
qed

lemma pool_terminates: "wfP (\<lambda>c' c. pool_step c c')"
proof -
  have "{(c', c). pool_step c c'} \<subseteq> inv_image (mult subprog) (\<lambda>(s, ps). mset ps)"
    using pool_step_mult by (auto simp: inv_image_def)
  then show ?thesis
    unfolding wfp_def by (rule wf_subset [OF wf_inv_image [OF wf_mult [OF wf_subprog]]])
qed

definition ended :: "('s, 'x) prog \<Rightarrow> bool" where
  "ended p \<longleftrightarrow> (case p of Return x \<Rightarrow> True | Atomic f \<Rightarrow> False)"

definition result :: "('s, 'x) prog \<Rightarrow> 'x option" where
  "result p = (case p of Return x \<Rightarrow> Some x | Atomic f \<Rightarrow> None)"

lemma result_Some [simp]: "result p = Some x \<longleftrightarrow> p = Return x"
  by (simp add: result_def split: prog.split)

lemma pool_progress:
  assumes "\<not> list_all ended ps"
  shows "\<exists>c'. pool_step (s, ps) c'"
proof -
  from assms obtain i where "i < length ps" "\<not> ended (ps ! i)"
    by (auto simp: list_all_length)
  moreover from this(2) obtain f where "ps ! i = Atomic f"
    by (cases "ps ! i") (auto simp: ended_def)
  moreover obtain p s' where "f s = (p, s')" by fastforce
  ultimately show ?thesis by (blast intro: pool_step.intros)
qed

lemma pool_no_infinite: "\<not> (\<exists>f. \<forall>n. pool_step (f n) (f (Suc n)))"
  using pool_terminates unfolding wfp_def wf_iff_no_infinite_down_chain by blast

lemma pool_step_length:
  assumes "pool_step\<^sup>*\<^sup>* (s, ps) (s', ps')"
  shows "length ps' = length ps"
  using assms by (induction rule: rtranclp_induct2) (auto elim: pool_step_cases)

text \<open>How many actions a thread takes at most, whatever the others do.\<close>

primrec at_most :: "('s, 'x) prog \<Rightarrow> nat \<Rightarrow> bool" where
  "at_most (Return x) = (\<lambda>n. True)"
| "at_most (Atomic f) = (\<lambda>n. 0 < n \<and> (\<forall>s. fst (map_prod at_most id (f s)) (n - 1)))"

declare at_most.simps(2) [simp del]

lemma at_most_Atomic: "at_most (Atomic f) n \<longleftrightarrow> 0 < n \<and> (\<forall>s. at_most (fst (f s)) (n - 1))"
  by (simp add: at_most.simps(2))

lemma at_most_act: "at_most (act f) (Suc n)"
  by (simp add: act_def at_most_Atomic)

lemma at_most_mono: "at_most p m \<Longrightarrow> m \<le> n \<Longrightarrow> at_most p n"
proof (induction p arbitrary: m n)
  case (Atomic f)
  have IH: "at_most (fst (f s)) (m - 1) \<Longrightarrow> m - 1 \<le> n - 1 \<Longrightarrow> at_most (fst (f s)) (n - 1)" for s
    using Atomic.IH [OF rangeI, of "fst (f s)" s] by (cases "f s") (auto simp: prod_set_simps)
  with Atomic.prems show ?case by (auto simp: at_most_Atomic)
qed simp

lemma at_most_bind:
  assumes "at_most p m" and "\<And>x. at_most (k x) n"
  shows "at_most (bind_prog p k) (m + n)"
  using assms(1)
proof (induction p arbitrary: m)
  case (Return x)
  show ?case using at_most_mono [OF assms(2)] by simp
next
  case (Atomic f)
  have IH: "at_most (fst (f s)) (m - 1) \<Longrightarrow> at_most (bind_prog (fst (f s)) k) (m - 1 + n)" for s
    using Atomic.IH [OF rangeI, of "fst (f s)" s] by (cases "f s") (auto simp: prod_set_simps)
  with Atomic.prems show ?case by (auto simp: at_most_Atomic)
qed

lemma pool_bound:
  assumes "(pool_step ^^ n) (s, ps) c" and "list_all2 at_most ps ns"
  shows "n \<le> sum_list ns"
  using assms
proof (induction n arbitrary: s ps ns)
  case (Suc n)
  from Suc.prems(1) obtain s1 ps1 where step: "pool_step (s, ps) (s1, ps1)" and rest: "(pool_step ^^ n) (s1, ps1) c"
    by (metis relpowp_Suc_D2 surj_pair)
  from step obtain i f p where i: "i < length ps" "ps ! i = Atomic f" "f s = (p, s1)" "ps1 = ps[i := p]"
    by (auto elim: pool_step_cases)
  from Suc.prems(2) i have n: "length ns = length ps" "0 < ns ! i" "at_most p (ns ! i - 1)"
    using at_most_Atomic [of f "ns ! i"] by (auto simp: list_all2_conv_all_nth dest: spec [of _ s])
  from n(3) Suc.prems(2) have "list_all2 at_most ps1 (ns[i := ns ! i - 1])"
    unfolding i(4) by (rule list_all2_update_cong [rotated])
  from Suc.IH [OF rest this] n i(1) elem_le_sum_list [of i ns] show ?case
    by (simp add: sum_list_update)
qed simp

subsection \<open>Reasoning about one thread at a time\<close>

text \<open>
  Rely and guarantee: every action of a thread keeps the invariant \<open>I\<close> and stays within \<open>G\<close>, and may
  count on \<open>R\<close> for what others did in between; \<open>A\<close> is assumed of the states in which an action
  starts. \<open>sat Q p s\<close>: started in \<open>s\<close> or later, \<open>p\<close> does so, and its result satisfies \<open>Q\<close> from then
  on.
\<close>

primrec sat ::
  "('s \<Rightarrow> bool) \<Rightarrow> ('s \<Rightarrow> bool) \<Rightarrow> ('s \<Rightarrow> 's \<Rightarrow> bool) \<Rightarrow> ('s \<Rightarrow> 's \<Rightarrow> bool) \<Rightarrow> ('x \<Rightarrow> 's \<Rightarrow> bool) \<Rightarrow>
     ('s, 'x) prog \<Rightarrow> 's \<Rightarrow> bool" where
  "sat A I R G Q (Return x) = (\<lambda>s. \<forall>s'. R s s' \<longrightarrow> I s' \<longrightarrow> Q x s')"
| "sat A I R G Q (Atomic f) = (\<lambda>s. \<forall>s'. R s s' \<longrightarrow> I s' \<longrightarrow> A s' \<longrightarrow>
     (case map_prod (sat A I R G Q) id (f s') of (ok, s'') \<Rightarrow> I s'' \<and> G s' s'' \<and> ok s''))"

declare sat.simps(2) [simp del]

lemma sat_Atomic:
  "sat A I R G Q (Atomic f) s \<longleftrightarrow> (\<forall>s'. R s s' \<longrightarrow> I s' \<longrightarrow> A s' \<longrightarrow>
     I (snd (f s')) \<and> G s' (snd (f s')) \<and> sat A I R G Q (fst (f s')) (snd (f s')))"
  by (simp add: sat.simps(2) case_prod_unfold)

locale guarantee =
  fixes A I :: "'s \<Rightarrow> bool" and R G :: "'s \<Rightarrow> 's \<Rightarrow> bool"
  assumes R_refl: "R s s" and R_trans: "R s s' \<Longrightarrow> R s' s'' \<Longrightarrow> R s s''" and G_R: "G s s' \<Longrightarrow> R s s'"
begin

abbreviation ok :: "('x \<Rightarrow> 's \<Rightarrow> bool) \<Rightarrow> ('s, 'x) prog \<Rightarrow> 's \<Rightarrow> bool" where
  "ok \<equiv> sat A I R G"

lemma ok_later: "ok Q p s \<Longrightarrow> R s s' \<Longrightarrow> ok Q p s'"
proof (cases p)
  case (Atomic f)
  assume "ok Q p s" "R s s'"
  with Atomic show ?thesis unfolding Atomic sat.simps(2) by (meson R_trans)
qed (auto intro: R_trans)

lemma ok_Return: "(\<And>s'. R s s' \<Longrightarrow> I s' \<Longrightarrow> Q x s') \<Longrightarrow> ok Q (Return x) s"
  by simp

lemma ok_bind:
  assumes "ok (\<lambda>x s'. ok Q (k x) s') p s"
  shows "ok Q (bind_prog p k) s"
  using assms
proof (induction p arbitrary: s)
  case (Return x)
  then have later: "R s s' \<Longrightarrow> I s' \<Longrightarrow> ok Q (k x) s'" for s' by simp
  show ?case
  proof (cases "k x")
    case (Return y)
    with later R_refl show ?thesis by auto
  next
    case (Atomic f)
    with later show ?thesis unfolding bind_prog.simps Atomic sat_Atomic using R_refl by blast
  qed
next
  case (Atomic f)
  have IH: "ok (\<lambda>x s'. ok Q (k x) s') (fst (f t)) u \<Longrightarrow> ok Q (bind_prog (fst (f t)) k) u" for t u
    using Atomic.IH [OF rangeI, of "fst (f t)" t u] by (cases "f t") (auto simp: prod_set_simps)
  show ?case
    using Atomic.prems IH unfolding bind_prog.simps sat_Atomic by simp
qed

lemma ok_act:
  assumes "\<And>s' x s''. R s s' \<Longrightarrow> I s' \<Longrightarrow> A s' \<Longrightarrow> f s' = (x, s'') \<Longrightarrow>
      I s'' \<and> G s' s'' \<and> (\<forall>t. R s'' t \<longrightarrow> I t \<longrightarrow> Q x t)"
  shows "ok Q (act f) s"
  unfolding act_def sat_Atomic
proof (intro allI impI)
  fix s' assume "R s s'" "I s'" "A s'"
  from assms [OF this prod.collapse [symmetric]]
  show "I (snd (map_prod Return id (f s'))) \<and> G s' (snd (map_prod Return id (f s'))) \<and>
      ok Q (fst (map_prod Return id (f s'))) (snd (map_prod Return id (f s')))"
    by (simp add: map_prod_def case_prod_unfold)
qed

lemma ok_weaken: "ok Q p s \<Longrightarrow> (\<And>x s'. R s s' \<Longrightarrow> Q x s' \<Longrightarrow> Q' x s') \<Longrightarrow> ok Q' p s"
proof (induction p arbitrary: s)
  case (Atomic f)
  have IH: "ok Q (fst (f t)) u \<Longrightarrow> (\<And>x s'. R u s' \<Longrightarrow> Q x s' \<Longrightarrow> Q' x s') \<Longrightarrow> ok Q' (fst (f t)) u" for t u
    using Atomic.IH [OF rangeI, of "fst (f t)" t u] by (cases "f t") (auto simp: prod_set_simps)
  show ?case
    unfolding sat_Atomic
  proof (intro allI impI)
    fix s' assume s': "R s s'" "I s'" "A s'"
    with Atomic.prems(1) have "I (snd (f s'))" "G s' (snd (f s'))" "ok Q (fst (f s')) (snd (f s'))"
      unfolding sat_Atomic by auto
    with IH [of s' "snd (f s')"] Atomic.prems(2) R_trans G_R s'(1)
    show "I (snd (f s')) \<and> G s' (snd (f s')) \<and> ok Q' (fst (f s')) (snd (f s'))" by blast
  qed
qed auto

lemma ok_stable: "ok Q p s \<Longrightarrow> ok (\<lambda>x s'. \<forall>t. R s' t \<longrightarrow> I t \<longrightarrow> Q x t) p s"
proof (induction p arbitrary: s)
  case (Atomic f)
  have IH: "ok Q (fst (f t)) u \<Longrightarrow> ok (\<lambda>x s'. \<forall>t. R s' t \<longrightarrow> I t \<longrightarrow> Q x t) (fst (f t)) u" for t u
    using Atomic.IH [OF rangeI, of "fst (f t)" t u] by (cases "f t") (auto simp: prod_set_simps)
  with Atomic.prems show ?case unfolding sat_Atomic by blast
qed (auto intro: R_trans)

lemma ok_fmap: "ok (\<lambda>x. Q (f x)) p s \<Longrightarrow> ok Q (bind_prog p (\<lambda>x. Return (f x))) s"
  by (rule ok_bind, rule ok_weaken, erule ok_stable) auto

text \<open>The threads of a pool, each with its own post-condition.\<close>

lemma pool_ok:
  assumes "(\<lambda>c c'. pool_step c c' \<and> A (fst c))\<^sup>*\<^sup>* (s, ps) (s', ps')"
    and "I s" and "\<And>i. i < length ps \<Longrightarrow> ok (Q i) (ps ! i) s"
  shows "I s' \<and> R s s' \<and> length ps' = length ps \<and> (\<forall>i < length ps. ok (Q i) (ps' ! i) s')"
  using assms(1)
proof (induction rule: rtranclp_induct2)
  case refl
  with assms(2,3) show ?case by (simp add: R_refl)
next
  case (step t qs t' qs')
  from step(2) obtain i f p where i: "i < length qs" "qs ! i = Atomic f" "f t = (p, t')" "qs' = qs[i := p]"
    and A: "A t"
    by (auto elim: pool_step_cases)
  from step.IH i(1) have "ok (Q i) (qs ! i) t" and I: "I t" by auto
  then have "ok (Q i) (Atomic f) t" by (simp only: i(2))
  with A I i(3) have new: "I t'" "G t t'" "ok (Q i) p t'"
    using R_refl [of t] unfolding sat_Atomic by (metis fst_conv snd_conv)+
  note later = G_R [OF new(2)]
  from new have "ok (Q j) (qs' ! j) t'" if "j < length ps" for j
    using that step.IH i(1,4) by (cases "j = i") (auto intro: ok_later [OF _ later])
  with new(1) later step.IH i(4) show ?case by (auto intro: R_trans)
qed

text \<open>And every step of the pool is within the guarantee.\<close>

lemma pool_guarantees:
  assumes "(\<lambda>c c'. pool_step c c' \<and> A (fst c))\<^sup>*\<^sup>* (s, ps) (s', ps')"
    and "I s" and "\<And>i. i < length ps \<Longrightarrow> ok (Q i) (ps ! i) s"
  shows "G\<^sup>*\<^sup>* s s'"
  using assms(1)
proof (induction rule: rtranclp_induct2)
  case (step t qs t' qs')
  from step(2) obtain i f p where i: "i < length qs" "qs ! i = Atomic f" "f t = (p, t')" and A: "A t"
    by (auto elim: pool_step_cases)
  from pool_ok [OF step(1) assms(2,3)] i(1) have "ok (Q i) (qs ! i) t" "I t" by auto
  then have "ok (Q i) (Atomic f) t" "I t" by (simp_all only: i(2))
  with A i(3) R_refl [of t] have "G t t'" unfolding sat_Atomic by (metis snd_conv)
  with step.IH show ?case by simp
qed simp

lemma pool_result:
  assumes "(\<lambda>c c'. pool_step c c' \<and> A (fst c))\<^sup>*\<^sup>* (s, ps) (s', ps')"
    and "I s" and "\<And>i. i < length ps \<Longrightarrow> ok (Q i) (ps ! i) s"
    and "i < length ps" and "ps' ! i = Return x"
  shows "Q i x s'"
proof -
  from pool_ok [OF assms(1-3)] assms(4) have "I s'" "ok (Q i) (ps' ! i) s'" by auto
  with assms(5) show ?thesis by (auto intro: R_refl)
qed

end

subsection \<open>Debts\<close>

text \<open>
  Two lists in the state grow, \<open>E s\<close> and \<open>L s\<close>. A thread that adds to the first and has not added the same
  to the second yet is in debt; \<open>owes Q p D\<close>: with the debt \<open>D\<close>, \<open>p\<close> never adds to the second list what it
  does not owe, whatever the others do, and ends with a result and a debt that satisfy \<open>Q\<close>.
\<close>

primrec owes ::
  "('s \<Rightarrow> 'e list) \<Rightarrow> ('s \<Rightarrow> 'e list) \<Rightarrow> ('x \<Rightarrow> 'e multiset \<Rightarrow> bool) \<Rightarrow> ('s, 'x) prog \<Rightarrow> 'e multiset \<Rightarrow> bool" where
  "owes E L Q (Return x) = Q x"
| "owes E L Q (Atomic f) = (\<lambda>D. \<forall>s. case map_prod (owes E L Q) id (f s) of (ok, s') \<Rightarrow>
     \<exists>es ls D'. E s' = E s @ es \<and> L s' = L s @ ls \<and> D + mset es = D' + mset ls \<and> ok D')"

declare owes.simps(2) [simp del]

lemma owes_Atomic:
  "owes E L Q (Atomic f) D \<longleftrightarrow> (\<forall>s. \<exists>es ls D'. E (snd (f s)) = E s @ es \<and> L (snd (f s)) = L s @ ls \<and>
     D + mset es = D' + mset ls \<and> owes E L Q (fst (f s)) D')"
  by (simp add: owes.simps(2) case_prod_unfold)

lemma owes_bind: "owes E L (\<lambda>x. owes E L Q (k x)) p D \<Longrightarrow> owes E L Q (bind_prog p k) D"
proof (induction p arbitrary: D)
  case (Atomic f)
  have IH: "owes E L (\<lambda>x. owes E L Q (k x)) (fst (f s)) D \<Longrightarrow> owes E L Q (bind_prog (fst (f s)) k) D" for s D
    using Atomic.IH [OF rangeI, of "fst (f s)" s] by (cases "f s") (auto simp: prod_set_simps)
  with Atomic.prems show ?case by (simp add: owes_Atomic) meson
qed simp

lemma owes_act:
  assumes "\<And>s. \<exists>es ls D'. E (snd (f s)) = E s @ es \<and> L (snd (f s)) = L s @ ls \<and> D + mset es = D' + mset ls \<and>
     Q (fst (f s)) D'"
  shows "owes E L Q (act f) D"
  using assms by (simp add: act_def owes_Atomic)

lemma owes_weaken: "owes E L Q p D \<Longrightarrow> (\<And>x D. Q x D \<Longrightarrow> Q' x D) \<Longrightarrow> owes E L Q' p D"
proof (induction p arbitrary: D)
  case (Atomic f)
  have IH: "owes E L Q (fst (f s)) D \<Longrightarrow> owes E L Q' (fst (f s)) D" for s D
    using Atomic.IH [OF rangeI, of "fst (f s)" s] Atomic.prems(2) by (cases "f s") (auto simp: prod_set_simps)
  with Atomic.prems(1) show ?case unfolding owes_Atomic by meson
qed simp

lemma owes_bindI:
  assumes "owes E L P p D" and "\<And>x D. P x D \<Longrightarrow> owes E L Q (k x) D"
  shows "owes E L Q (bind_prog p k) D"
  by (rule owes_bind, rule owes_weaken [OF assms])

text \<open>The debts of all threads of a pool together.\<close>

lemma sum_list_replace:
  fixes Ds :: "'e multiset list"
  shows "i < length Ds \<Longrightarrow> sum_list (Ds[i := D]) + Ds ! i = sum_list Ds + D"
proof (induction Ds arbitrary: i)
  case (Cons B Ds)
  show ?case
  proof (cases i)
    case (Suc j)
    with Cons have "sum_list (Ds[j := D]) + Ds ! j = sum_list Ds + D" by simp
    then show ?thesis by (simp add: Suc add.assoc)
  qed (simp add: ac_simps)
qed simp

lemma sum_list_no_debts: "(\<And>D. D \<in> set Ds \<Longrightarrow> D = {#}) \<Longrightarrow> sum_list Ds = {#}"
  by (induction Ds) auto

lemma sum_list_nothing [simp]: "sum_list (replicate n {#}) = {#}"
  by (rule sum_list_no_debts) simp

lemma pool_step_owes:
  assumes "pool_step (s, ps) (s', ps')" and "list_all2 (owes E L Q) ps Ds"
  shows "\<exists>es ls Ds'. E s' = E s @ es \<and> L s' = L s @ ls \<and> sum_list Ds + mset es = sum_list Ds' + mset ls \<and>
     list_all2 (owes E L Q) ps' Ds'"
  using assms(1)
proof cases
  case (1 i f p)
  have i: "i < length Ds" "owes E L Q (Atomic f) (Ds ! i)"
    using assms(2) 1 by (auto simp: list_all2_conv_all_nth)
  from i(2) 1 obtain es ls D where new: "E s' = E s @ es" "L s' = L s @ ls" "Ds ! i + mset es = D + mset ls" "owes E L Q p D"
    unfolding owes_Atomic by (metis fst_conv snd_conv)
  have all: "list_all2 (owes E L Q) ps' (Ds[i := D])"
    unfolding 1(1) using assms(2) new(4) by (rule list_all2_update_cong)
  have "sum_list Ds + mset es + Ds ! i = sum_list Ds + (Ds ! i + mset es)" by (simp add: ac_simps)
  also have "\<dots> = sum_list Ds + D + mset ls" by (simp only: new(3) add.assoc)
  also have "\<dots> = sum_list (Ds[i := D]) + mset ls + Ds ! i"
    unfolding sum_list_replace [OF i(1), of D, symmetric] by (simp only: ac_simps)
  finally have "sum_list Ds + mset es = sum_list (Ds[i := D]) + mset ls" by (rule add_right_imp_eq)
  with new(1,2) all show ?thesis by blast
qed

lemma pool_owes:
  assumes "pool_step\<^sup>*\<^sup>* (s, ps) (s', ps')" and "list_all2 (owes E L Q) ps Ds"
  shows "\<exists>es ls Ds'. E s' = E s @ es \<and> L s' = L s @ ls \<and> sum_list Ds + mset es = sum_list Ds' + mset ls \<and>
     list_all2 (owes E L Q) ps' Ds'"
  using assms(1)
proof (induction rule: rtranclp_induct2)
  case refl
  show ?case using assms(2) by force
next
  case (step t qs t' qs')
  from step.IH obtain es ls Ds' where old: "E t = E s @ es" "L t = L s @ ls"
    "sum_list Ds + mset es = sum_list Ds' + mset ls" "list_all2 (owes E L Q) qs Ds'"
    by blast
  from pool_step_owes [OF step(2) old(4)] obtain es' ls' Ds'' where new: "E t' = E t @ es'" "L t' = L t @ ls'"
    "sum_list Ds' + mset es' = sum_list Ds'' + mset ls'" "list_all2 (owes E L Q) qs' Ds''"
    by blast
  have "sum_list Ds + mset (es @ es') = sum_list Ds' + mset ls + mset es'"
    by (simp add: old(3) [symmetric] add.assoc)
  also have "\<dots> = sum_list Ds'' + mset (ls @ ls')"
    using new(3) by (metis add.assoc add.commute mset_append)
  finally show ?case using old(1,2) new(1,2,4) by (metis append.assoc)
qed

text \<open>When all threads have ended, nothing is owed.\<close>

lemma pool_paid:
  assumes "pool_step\<^sup>*\<^sup>* (s, ps) (s', ps')" and "list_all (\<lambda>p. owes E L (\<lambda>_ D. D = {#}) p {#}) ps"
    and "list_all ended ps'"
  shows "\<exists>es ls. E s' = E s @ es \<and> L s' = L s @ ls \<and> mset es = mset ls"
proof -
  have "list_all2 (owes E L (\<lambda>_ D. D = {#})) ps (replicate (length ps) {#})"
    using assms(2) by (simp add: list_all2_conv_all_nth list_all_length)
  from pool_owes [OF assms(1) this] obtain es ls Ds where res: "E s' = E s @ es" "L s' = L s @ ls"
    "mset es = sum_list Ds + mset ls" "list_all2 (owes E L (\<lambda>_ D. D = {#})) ps' Ds"
    by auto
  have "D = {#}" if "D \<in> set Ds" for D
  proof -
    from that obtain i where i: "i < length Ds" "D = Ds ! i" by (auto simp: in_set_conv_nth)
    with res(4) have "owes E L (\<lambda>_ D. D = {#}) (ps' ! i) D" "i < length ps'" by (auto simp: list_all2_conv_all_nth)
    moreover from assms(3) this(2) have "ended (ps' ! i)" by (simp add: list_all_length)
    ultimately show ?thesis by (cases "ps' ! i") (auto simp: ended_def)
  qed
  then have "sum_list Ds = {#}" by (rule sum_list_no_debts)
  with res show ?thesis by auto
qed

subsection \<open>Programs on a part of the state\<close>

text \<open>
  A program that works on a part of a bigger state, which \<open>get\<close> reads and \<open>put\<close> replaces, as a program
  on all of it.
\<close>

primrec lift_prog :: "('t \<Rightarrow> 's) \<Rightarrow> ('s \<Rightarrow> 't \<Rightarrow> 't) \<Rightarrow> ('s, 'x) prog \<Rightarrow> ('t, 'x) prog" where
  "lift_prog get put (Return x) = Return x"
| "lift_prog get put (Atomic f) = Atomic (\<lambda>t. map_prod (lift_prog get put) (\<lambda>s. put s t) (f (get t)))"

lemma at_most_lift: "at_most p n \<Longrightarrow> at_most (lift_prog get put p) n"
proof (induction p arbitrary: n)
  case (Atomic f)
  have IH: "at_most (fst (f s)) m \<Longrightarrow> at_most (lift_prog get put (fst (f s))) m" for s m
    using Atomic.IH [OF rangeI, of "fst (f s)" s] by (cases "f s") (auto simp: prod_set_simps)
  with Atomic.prems show ?case by (simp add: at_most_Atomic)
qed simp

text \<open>A program that works on another part adds to neither list.\<close>

lemma owes_elsewhere:
  assumes "\<And>s t. E (put s t) = E t" and "\<And>s t. L (put s t) = L t"
  shows "owes E L (\<lambda>_ D. D = {#}) (lift_prog get put p) {#}"
proof (induction p)
  case (Atomic f)
  have IH: "owes E L (\<lambda>_ D. D = {#}) (lift_prog get put (fst (f s))) {#}" for s
    using Atomic [OF rangeI, of "fst (f s)" s] by (cases "f s") (auto simp: prod_set_simps)
  then show ?case by (auto simp: owes_Atomic assms)
qed simp

locale lens =
  fixes get :: "'t \<Rightarrow> 's" and put :: "'s \<Rightarrow> 't \<Rightarrow> 't"
  assumes get_put: "get (put s t) = s" and put_get: "put (get t) t = t"
    and put_put: "put s (put s' t) = put s t"
begin

lemma run_lift: "run (lift_prog get put p) t = (case run p (get t) of (x, s) \<Rightarrow> (x, put s t))"
proof (induction p arbitrary: t)
  case (Atomic f)
  have IH: "run (lift_prog get put (fst (f s))) t =
      (case run (fst (f s)) (get t) of (x, s') \<Rightarrow> (x, put s' t))" for s t
    using Atomic.IH [OF rangeI, of "fst (f s)" s] by (cases "f s") (auto simp: prod_set_simps)
  show ?case
    by (simp add: case_prod_unfold IH get_put put_put)
qed (simp add: put_get)

lemma owes_lift:
  "owes E L Q p D \<Longrightarrow> owes (\<lambda>t. E (get t)) (\<lambda>t. L (get t)) Q (lift_prog get put p) D"
proof (induction p arbitrary: D)
  case (Atomic f)
  have IH: "owes E L Q (fst (f s)) D \<Longrightarrow>
      owes (\<lambda>t. E (get t)) (\<lambda>t. L (get t)) Q (lift_prog get put (fst (f s))) D" for s D
    using Atomic.IH [OF rangeI, of "fst (f s)" s] by (cases "f s") (auto simp: prod_set_simps)
  have "\<exists>es ls D'. E (snd (f (get t))) = E (get t) @ es \<and> L (snd (f (get t))) = L (get t) @ ls \<and>
      D + mset es = D' + mset ls \<and>
      owes (\<lambda>t. E (get t)) (\<lambda>t. L (get t)) Q (lift_prog get put (fst (f (get t)))) D'" for t
  proof -
    from Atomic.prems obtain es ls D' where "E (snd (f (get t))) = E (get t) @ es"
      "L (snd (f (get t))) = L (get t) @ ls" "D + mset es = D' + mset ls" "owes E L Q (fst (f (get t))) D'"
      unfolding owes_Atomic by blast
    with IH show ?thesis by blast
  qed
  then show ?case by (simp add: owes_Atomic get_put)
qed simp

end

text \<open>
  What a program guarantees on its part, it guarantees on the whole, if what the whole may count on
  includes what the part counts on, and a step within the guarantee of the part, put back, is within
  the guarantee of the whole.
\<close>

locale lifted =
  lens get put + small: guarantee A I R G + big: guarantee A' I' R' G'
  for get :: "'t \<Rightarrow> 's" and put and A I :: "'s \<Rightarrow> bool" and R G and A' I' :: "'t \<Rightarrow> bool" and R' G' +
  assumes A_get: "A' t \<Longrightarrow> A (get t)" and I_get: "I' t \<Longrightarrow> I (get t)"
    and R_get: "R' t t' \<Longrightarrow> R (get t) (get t')"
    and put_ok: "I' t \<Longrightarrow> A' t \<Longrightarrow> I s \<Longrightarrow> G (get t) s \<Longrightarrow> I' (put s t) \<and> G' t (put s t)"
begin

lemma ok_lift:
  assumes "sat A I R G Q p (get t)"
  shows "sat A' I' R' G' (\<lambda>x t. Q x (get t)) (lift_prog get put p) t"
  using assms
proof (induction p arbitrary: t)
  case (Return x)
  then show ?case by (auto intro: I_get R_get)
next
  case (Atomic f)
  have IH: "sat A I R G Q (fst (f s)) (get u) \<Longrightarrow>
      sat A' I' R' G' (\<lambda>x t. Q x (get t)) (lift_prog get put (fst (f s))) u" for s u
    using Atomic.IH [OF rangeI, of "fst (f s)" s] by (cases "f s") (auto simp: prod_set_simps)
  have "I' (put (snd (f (get u))) u) \<and> G' u (put (snd (f (get u))) u) \<and>
      sat A' I' R' G' (\<lambda>x t. Q x (get t)) (lift_prog get put (fst (f (get u)))) (put (snd (f (get u))) u)"
    if u: "R' t u" "I' u" "A' u" for u
  proof -
    from Atomic.prems u have new: "I (snd (f (get u)))" "G (get u) (snd (f (get u)))"
      "sat A I R G Q (fst (f (get u))) (snd (f (get u)))"
      by (simp_all add: sat_Atomic A_get I_get R_get)
    then show ?thesis using put_ok [OF u(2,3) new(1,2)] IH by (simp add: get_put)
  qed
  then show ?case by (simp add: sat_Atomic case_prod_unfold)
qed

end

end
