(* ===== verification/Interleave.thy ===== *)
theory Interleave
  imports Threads RestTraces
begin

section \<open>Handlers that interleave\<close>

text \<open>
  The handlers of \<open>RestSpec\<close> as programs of \<open>Threads\<close>: every call a handler makes of the storage
  (which its mutex makes atomic), of the version counter (likewise) or of the broadcaster is one
  action, and between two of them the handlers of other requests may act. Everything a handler
  computes in between is local to it.

  Three auxiliary variables record, for the proofs, who drew which version for which key, whose create
  call filled a key, and the storage calls that succeeded, as events in the order in which the storage
  made them; no handler reads them.
\<close>

record ('s, 'k, 'r) conc_state =
  conc_rest :: "('s, 'r) rest_state"
  drawn :: "u64 \<rightharpoonup> nat \<times> 'k"
  winner :: "'k \<rightharpoonup> nat"
  effects :: "'r event list"

type_synonym ('s, 'k, 'a, 'x) handler =
  "(('s, 'k, 'a ObjectMeta_scheme) conc_state, 'x) prog"

definition conc_start :: "('s, 'r) rest_state \<Rightarrow> ('s, 'k, 'r) conc_state" where
  "conc_start w = \<lparr>conc_rest = w, drawn = Map.empty, winner = Map.empty, effects = []\<rparr>"

subsection \<open>Actions\<close>

definition conc_act ::
  "(('s, 'r) rest_state \<Rightarrow> 'x \<times> ('s, 'r) rest_state) \<Rightarrow> (('s, 'k, 'r) conc_state, 'x) prog" where
  "conc_act f = act (\<lambda>c. let (x, w) = f (conc_rest c) in (x, c\<lparr>conc_rest := w\<rparr>))"

definition conc_draw :: "nat \<Rightarrow> 'k \<Rightarrow> (('s, 'k, 'r) conc_state, string) prog" where
  "conc_draw i k = act (\<lambda>c.
     let w = conc_rest c; (rv, v) = UseResourceVersion (store_versioning w)
     in (rv, c\<lparr>conc_rest := w\<lparr>store_versioning := v\<rparr>,
              drawn := (drawn c)(version (store_versioning w) \<mapsto> (i, k))\<rparr>))"

definition conc_createR ::
  "('s, 'k, 'q, 'r) ops \<Rightarrow> nat \<Rightarrow> 'k \<Rightarrow> 'r \<Rightarrow> (('s, 'k, 'r) conc_state, err option) prog" where
  "conc_createR S i k r = act (\<lambda>c.
     let w = conc_rest c; (err, s) = createR S (Some r) (store_db w)
     in (err, c\<lparr>conc_rest := w\<lparr>store_db := s\<rparr>,
               winner := (if err = None then (winner c)(k \<mapsto> i) else winner c),
               effects := effects c @ (if err = None then [(Added, r)] else [])\<rparr>))"

definition conc_updateR ::
  "('s, 'k, 'q, 'r) ops \<Rightarrow> 'r \<Rightarrow> (('s, 'k, 'r) conc_state, err option) prog" where
  "conc_updateR S r = act (\<lambda>c.
     let w = conc_rest c; (err, s) = updateR S (Some r) (store_db w)
     in (err, c\<lparr>conc_rest := w\<lparr>store_db := s\<rparr>,
               effects := effects c @ (if err = None then [(Modified, r)] else [])\<rparr>))"

text \<open>The report \<open>r\<close> that was read under the key is what the event of its deletion carries.\<close>

definition conc_deleteK ::
  "('s, 'k, 'q, 'r) ops \<Rightarrow> 'k \<Rightarrow> 'r \<Rightarrow> (('s, 'k, 'r) conc_state, err option) prog" where
  "conc_deleteK S k r = act (\<lambda>c.
     let (err, w) = rest_delete S k (conc_rest c)
     in (err, c\<lparr>conc_rest := w,
               effects := effects c @ (if err = None then [(Deleted, r)] else [])\<rparr>))"

definition conc_Action :: "EventType \<Rightarrow> 'r \<Rightarrow> (('s, 'k, 'r) conc_state, unit) prog" where
  "conc_Action t r = conc_act (\<lambda>w. ((), Action t r w))"

subsection \<open>Storage access\<close>

definition conc_create ::
  "('k, 'q, 'a ObjectMeta_scheme) kind_desc \<Rightarrow> ('s, 'k, 'q, 'a) kind_ops \<Rightarrow> nat \<Rightarrow> request_env \<Rightarrow>
     'a ObjectMeta_scheme \<Rightarrow> ('s, 'k, 'a, 'a ObjectMeta_scheme \<times> err option) handler" where
  "conc_create d S i e report =
     bind_prog (conc_draw i (kd_key d (Namespace report) (Name report))) (\<lambda>rv.
       let r = report\<lparr>ResourceVersion := rv, UID := NewUUID e, CreationTimestamp := Now e\<rparr>
       in bind_prog (conc_createR S i (kd_key d (Namespace report) (Name report)) r)
            (\<lambda>err. Return (r, err)))"

definition conc_update ::
  "('k, 'q, 'a ObjectMeta_scheme) kind_desc \<Rightarrow> ('s, 'k, 'q, 'a) kind_ops \<Rightarrow> nat \<Rightarrow>
     'a ObjectMeta_scheme \<Rightarrow> ('s, 'k, 'a, 'a ObjectMeta_scheme \<times> err option) handler" where
  "conc_update d S i report =
     bind_prog (conc_draw i (kd_key d (Namespace report) (Name report))) (\<lambda>rv.
       let r = report\<lparr>ResourceVersion := rv\<rparr>
       in bind_prog (conc_updateR S r) (\<lambda>err. Return (r, err)))"

subsection \<open>Handlers\<close>

definition conc_Create ::
  "('k, 'q, 'a ObjectMeta_scheme) kind_desc \<Rightarrow> ('s, 'k, 'q, 'a) kind_ops \<Rightarrow> nat \<Rightarrow> request_env \<Rightarrow>
     string \<Rightarrow> Object \<Rightarrow> (Object \<Rightarrow> err option) \<Rightarrow> WriteOptions \<Rightarrow> ('s, 'k, 'a, err + Object) handler" where
  "conc_Create d S i e namespace obj createValidation options =
     (case strict_err (createValidation obj) (FieldValidation options) of
        Some err \<Rightarrow> Return (Inl err)
      | None \<Rightarrow>
          (case as_r d obj of
             None \<Rightarrow> Return (Inl (kd_bad_obj d))
           | Some r0 \<Rightarrow>
               (case rest_prepare d e namespace r0 of
                  None \<Rightarrow> Return (Inl (kd_no_name d))
                | Some r1 \<Rightarrow>
                    if \<not> isDryRun options
                    then bind_prog (conc_create d S i e r1) (\<lambda>(r, x).
                           case x of
                             Some err \<Rightarrow> Return (Inl (kd_create_err d (Name r1) err))
                           | None \<Rightarrow> bind_prog (conc_Action Added r) (\<lambda>_. Return (Inr (obj_of d r))))
                    else Return (Inr (obj_of d r1)))))"

definition conc_Update ::
  "('k, 'q, 'a ObjectMeta_scheme) kind_desc \<Rightarrow> ('s, 'k, 'q, 'a) kind_ops \<Rightarrow> nat \<Rightarrow> string \<Rightarrow> string \<Rightarrow>
     ('a ObjectMeta_scheme option \<Rightarrow> Object \<times> err option) \<Rightarrow>
     (Object \<Rightarrow> 'a ObjectMeta_scheme option \<Rightarrow> err option) \<Rightarrow> bool \<Rightarrow> WriteOptions \<Rightarrow>
     ('s, 'k, 'a, err + Object \<times> bool) handler" where
  "conc_Update d S i namespace name updated updateValidation forceAllowCreate options =
     bind_prog (conc_act (rest_get d S (kd_key d namespace name))) (\<lambda>got.
       let oldObj = (case got of Inl err \<Rightarrow> None | Inr val \<Rightarrow> val);
           (updatedObject, uerr) = updated oldObj
       in if isl got \<and> \<not> forceAllowCreate then Return (Inl (projl got))
          else if uerr \<noteq> None \<and> \<not> forceAllowCreate then Return (Inl (the uerr))
          else case as_r d updatedObject of
                 None \<Rightarrow> Return (Inl (Panic ''interface conversion''))
               | Some r0 \<Rightarrow>
                   if forceAllowCreate
                   then bind_prog (conc_update d S i r0) (\<lambda>(r, err).
                          bind_prog (conc_Action Modified r) (\<lambda>_. Return (Inr (obj_of d r, True))))
                   else (case strict_err (updateValidation updatedObject oldObj) (FieldValidation options) of
                           Some err \<Rightarrow> Return (Inl err)
                         | None \<Rightarrow>
                             (let r1 = rest_adjust d namespace r0
                              in if \<not> isDryRun options
                                 then bind_prog (conc_update d S i r1) (\<lambda>(r, x).
                                        case x of
                                          Some err \<Rightarrow> Return (Inl (kd_update_err d err))
                                        | None \<Rightarrow> bind_prog (conc_Action Modified r)
                                                   (\<lambda>_. Return (Inr (obj_of d r, True))))
                                 else Return (Inr (obj_of d r1, True)))))"

definition conc_Delete ::
  "('k, 'q, 'a ObjectMeta_scheme) kind_desc \<Rightarrow> ('s, 'k, 'q, 'a) kind_ops \<Rightarrow>
     ('a ObjectMeta_scheme \<Rightarrow> 'k) \<Rightarrow> string \<Rightarrow> string \<Rightarrow> (Object \<Rightarrow> err option) \<Rightarrow> WriteOptions \<Rightarrow>
     ('s, 'k, 'a, err + Object \<times> bool) handler" where
  "conc_Delete d S key namespace name deleteValidation options =
     bind_prog (conc_act (rest_get d S (kd_key d namespace name))) (\<lambda>got.
       case got of
         Inl err \<Rightarrow> Return (Inl (NotFound (kd_gr d) name))
       | Inr val \<Rightarrow>
           (case deleteValidation (case val of None \<Rightarrow> NilObject | Some r \<Rightarrow> obj_of d r) of
              Some err \<Rightarrow> Return (Inl (BadRequest ''invalid resource: '' (Some err)))
            | None \<Rightarrow>
                (case val of
                   None \<Rightarrow> Return (Inl nil_deref)
                 | Some r \<Rightarrow>
                     if \<not> isDryRun options
                     then bind_prog (conc_deleteK S (key r) r) (\<lambda>x.
                            case x of
                              Some err \<Rightarrow> Return (Inl (kd_delete_err d err))
                            | None \<Rightarrow> bind_prog (conc_Action Deleted r)
                                       (\<lambda>_. Return (Inr (obj_of d r, True))))
                     else Return (Inr (obj_of d r, True)))))"

primrec conc_delete_items ::
  "('k, 'q, 'a ObjectMeta_scheme) kind_desc \<Rightarrow> ('s, 'k, 'q, 'a) kind_ops \<Rightarrow>
     ('a ObjectMeta_scheme \<Rightarrow> 'k) \<Rightarrow> string \<Rightarrow> (Object \<Rightarrow> err option) \<Rightarrow> WriteOptions \<Rightarrow>
     'a ObjectMeta_scheme list \<Rightarrow> ('s, 'k, 'a, err option) handler" where
  "conc_delete_items d S key namespace deleteValidation options [] = Return None"
| "conc_delete_items d S key namespace deleteValidation options (r # rs) =
     bind_prog (conc_Delete d S key namespace (Name r) deleteValidation options) (\<lambda>x.
       case x of
         Inr (obj, isDeleted) \<Rightarrow>
           if isDeleted then conc_delete_items d S key namespace deleteValidation options rs
           else Return (Some (kd_coll_delete d r))
       | Inl err \<Rightarrow> Return (Some (unless_panic err (kd_coll_delete d r))))"

definition conc_DeleteCollection ::
  "('k, 'q, 'a ObjectMeta_scheme) kind_desc \<Rightarrow> ('s, 'k, 'q, 'a) kind_ops \<Rightarrow>
     ('a ObjectMeta_scheme \<Rightarrow> 'k) \<Rightarrow> string \<Rightarrow> (Object \<Rightarrow> err option) \<Rightarrow> WriteOptions \<Rightarrow>
     ListOptions option \<Rightarrow> ('s, 'k, 'a, err + 'a ObjectMeta_scheme ReportList) handler" where
  "conc_DeleteCollection d S key namespace deleteValidation options listOptions =
     bind_prog (conc_act (rest_List d S namespace listOptions)) (\<lambda>found.
       case found of
         Inl err \<Rightarrow> Return (Inl (unless_panic err (kd_coll_find d)))
       | Inr list \<Rightarrow>
           if \<not> isDryRun options
           then bind_prog (conc_delete_items d S key namespace deleteValidation options (Items list)) (\<lambda>x.
                  case x of Some err \<Rightarrow> Return (Inl err) | None \<Rightarrow> Return (Inr list))
           else Return (Inr list))"

text \<open>
  A watch answers with its initial events and the place in the log from which on the broadcaster
  will send it events: it is registered in an action of its own, after the list call.
\<close>

definition conc_register ::
  "'r watch_result \<Rightarrow> (('s, 'k, 'r) conc_state, err + 'r watch_result \<times> nat) prog" where
  "conc_register x = conc_act (\<lambda>w. (Inr (x, length (broadcast w)), w))"

definition conc_Watch ::
  "('k, 'q, 'a ObjectMeta_scheme) kind_desc \<Rightarrow> ('s, 'k, 'q, 'a) kind_ops \<Rightarrow> string \<Rightarrow>
     ListOptions option \<Rightarrow> ('s, 'k, 'a, err + 'a ObjectMeta_scheme watch_result \<times> nat) handler" where
  "conc_Watch d S namespace options =
     (case options of
        None \<Rightarrow> Return (Inl nil_deref)
      | Some opt \<Rightarrow>
          if opt_ResourceVersion opt = [] \<or> opt_ResourceVersion opt = ''0'' then conc_register Watch
          else bind_prog (conc_act (rest_List d S namespace options)) (\<lambda>x.
                 case x of
                   Inl err \<Rightarrow> Return (Inl err)
                 | Inr list \<Rightarrow> conc_register (WatchWithPrefix (map (Pair Added) (Items list)))))"

subsection \<open>Requests\<close>

datatype 'a request =
    GetReq string string
  | ListReq string "ListOptions option"
  | WatchReq string "ListOptions option"
  | CreateReq request_env string Object "Object \<Rightarrow> err option" WriteOptions
  | UpdateReq string string "'a ObjectMeta_scheme option \<Rightarrow> Object \<times> err option"
      "Object \<Rightarrow> 'a ObjectMeta_scheme option \<Rightarrow> err option" bool WriteOptions
  | DeleteReq string string "Object \<Rightarrow> err option" WriteOptions
  | DeleteCollectionReq string "Object \<Rightarrow> err option" WriteOptions "ListOptions option"

datatype 'a answer =
    ObjectReply "err + Object"
  | FlagReply "err + Object \<times> bool"
  | ListReply "err + 'a ObjectMeta_scheme ReportList"
  | WatchReply "err + 'a ObjectMeta_scheme watch_result \<times> nat"

definition fmap_prog :: "('x \<Rightarrow> 'y) \<Rightarrow> ('s, 'x) prog \<Rightarrow> ('s, 'y) prog" where
  "fmap_prog f p = bind_prog p (\<lambda>x. Return (f x))"

primrec conc_request ::
  "('k, 'q, 'a ObjectMeta_scheme) kind_desc \<Rightarrow> ('s, 'k, 'q, 'a) kind_ops \<Rightarrow>
     ('a ObjectMeta_scheme \<Rightarrow> 'k) \<Rightarrow> nat \<Rightarrow> 'a request \<Rightarrow> ('s, 'k, 'a, 'a answer) handler" where
  "conc_request d S key i (GetReq ns n) = fmap_prog ObjectReply (conc_act (rest_Get d S ns n))"
| "conc_request d S key i (ListReq ns lopts) = fmap_prog ListReply (conc_act (rest_List d S ns lopts))"
| "conc_request d S key i (WatchReq ns lopts) = fmap_prog WatchReply (conc_Watch d S ns lopts)"
| "conc_request d S key i (CreateReq e ns obj val opts) =
     fmap_prog ObjectReply (conc_Create d S i e ns obj val opts)"
| "conc_request d S key i (UpdateReq ns n updated uval force opts) =
     fmap_prog FlagReply (conc_Update d S i ns n updated uval force opts)"
| "conc_request d S key i (DeleteReq ns n val opts) =
     fmap_prog FlagReply (conc_Delete d S key ns n val opts)"
| "conc_request d S key i (DeleteCollectionReq ns val opts lopts) =
     fmap_prog ListReply (conc_DeleteCollection d S key ns val opts lopts)"

definition conc_pool ::
  "('k, 'q, 'a ObjectMeta_scheme) kind_desc \<Rightarrow> ('s, 'k, 'q, 'a) kind_ops \<Rightarrow>
     ('a ObjectMeta_scheme \<Rightarrow> 'k) \<Rightarrow> 'a request list \<Rightarrow> ('s, 'k, 'a, 'a answer) handler list" where
  "conc_pool d S key reqs = map (\<lambda>(i, req). conc_request d S key i req) (List.enumerate 0 reqs)"

lemma conc_pool_simps [simp]:
  "length (conc_pool d S key reqs) = length reqs"
  "i < length reqs \<Longrightarrow> conc_pool d S key reqs ! i = conc_request d S key i (reqs ! i)"
  by (simp_all add: conc_pool_def nth_enumerate_eq)

text \<open>The same request made of the handlers that run alone.\<close>

primrec rest_request ::
  "('k, 'q, 'a ObjectMeta_scheme) kind_desc \<Rightarrow> ('s, 'k, 'q, 'a) kind_ops \<Rightarrow>
     ('a ObjectMeta_scheme \<Rightarrow> 'k) \<Rightarrow> 'a request \<Rightarrow> ('s, 'a ObjectMeta_scheme) rest_state \<Rightarrow>
     'a answer \<times> ('s, 'a ObjectMeta_scheme) rest_state" where
  "rest_request d S key (GetReq ns n) w = map_prod ObjectReply id (rest_Get d S ns n w)"
| "rest_request d S key (ListReq ns lopts) w = map_prod ListReply id (rest_List d S ns lopts w)"
| "rest_request d S key (WatchReq ns lopts) w =
     (case rest_Watch d S ns lopts w of
        (x, w') \<Rightarrow> (WatchReply (map_sum id (\<lambda>r. (r, length (broadcast w'))) x), w'))"
| "rest_request d S key (CreateReq e ns obj val opts) w =
     map_prod ObjectReply id (rest_Create d S e ns obj val opts w)"
| "rest_request d S key (UpdateReq ns n updated uval force opts) w =
     map_prod FlagReply id (rest_Update d S ns n updated uval force opts w)"
| "rest_request d S key (DeleteReq ns n val opts) w =
     map_prod FlagReply id (rest_Delete d S key ns n val opts w)"
| "rest_request d S key (DeleteCollectionReq ns val opts lopts) w =
     map_prod ListReply id (rest_DeleteCollection d S key ns val opts lopts w)"

subsection \<open>A handler that is not disturbed\<close>

lemmas conc_action_defs = conc_act_def conc_draw_def conc_createR_def conc_updateR_def conc_deleteK_def
  conc_Action_def conc_register_def

lemma run_conc_act: "run (conc_act f) c = (case f (conc_rest c) of (x, w) \<Rightarrow> (x, c\<lparr>conc_rest := w\<rparr>))"
  by (simp add: conc_act_def Let_def)

lemma run_fmap: "run (fmap_prog f p) c = map_prod f id (run p c)"
  by (simp add: fmap_prog_def case_prod_unfold map_prod_def)

lemma run_conc_create:
  "map_prod id conc_rest (run (conc_create d S i e r) c) = rest_create S e r (conc_rest c)"
  by (simp add: conc_create_def rest_create_def conc_action_defs case_prod_unfold Let_def)

lemma run_conc_update:
  "map_prod id conc_rest (run (conc_update d S i r) c) = rest_update S r (conc_rest c)"
  by (simp add: conc_update_def rest_update_def conc_action_defs case_prod_unfold Let_def)

text \<open>The same facts about the two components of a result, for the simplifier.\<close>

lemma run_parts:
  assumes "map_prod id conc_rest (run p c) = x"
  shows "fst (run p c) = fst x \<and> conc_rest (snd (run p c)) = snd x"
  using assms by auto

lemma run_conc_Create:
  "map_prod id conc_rest (run (conc_Create d S i e ns obj val opts) c) =
     rest_Create d S e ns obj val opts (conc_rest c)"
  by (simp add: run_parts [OF run_conc_create] conc_Create_def rest_Create_def conc_Action_def run_conc_act case_prod_unfold
      split: option.split)

lemma run_conc_Update:
  "map_prod id conc_rest (run (conc_Update d S i ns n updated uval force opts) c) =
     rest_Update d S ns n updated uval force opts (conc_rest c)"
  by (simp add: run_parts [OF run_conc_update] conc_Update_def rest_Update_def conc_Action_def run_conc_act case_prod_unfold Let_def
      split: option.split sum.split)

lemma run_conc_Delete:
  "map_prod id conc_rest (run (conc_Delete d S key ns n val opts) c) =
     rest_Delete d S key ns n val opts (conc_rest c)"
  by (simp add: conc_Delete_def rest_Delete_def conc_Action_def conc_deleteK_def run_conc_act case_prod_unfold Let_def
      split: option.split sum.split)

lemma run_conc_delete_items:
  "map_prod id conc_rest (run (conc_delete_items d S key ns val opts rs) c) =
     rest_delete_items d S key ns val opts rs (conc_rest c)"
proof (induction rs arbitrary: c)
  case (Cons r rs)
  show ?case
    using run_conc_Delete [of d S key ns "Name r" val opts c, symmetric] Cons
    by (simp add: case_prod_unfold split: sum.split)
qed simp

lemma run_conc_DeleteCollection:
  "map_prod id conc_rest (run (conc_DeleteCollection d S key ns val opts lopts) c) =
     rest_DeleteCollection d S key ns val opts lopts (conc_rest c)"
  by (simp add: run_parts [OF run_conc_delete_items] conc_DeleteCollection_def rest_DeleteCollection_def run_conc_act case_prod_unfold
      split: option.split sum.split)

lemma run_conc_request:
  "map_prod id conc_rest (run (conc_request d S key i req) c) = rest_request d S key req (conc_rest c)"
  by (cases req)
    (simp_all add: run_fmap run_conc_act conc_Watch_def rest_Watch_def conc_register_def case_prod_unfold
      run_parts [OF run_conc_Create] run_parts [OF run_conc_Update] run_parts [OF run_conc_Delete]
      run_parts [OF run_conc_DeleteCollection] map_prod_def split: option.split sum.split)

subsection \<open>What every interleaving keeps\<close>

abbreviation conc_db :: "('s, 'k, 'r) conc_state \<Rightarrow> 's" where
  "conc_db c \<equiv> store_db (conc_rest c)"

abbreviation conc_counter :: "('s, 'k, 'r) conc_state \<Rightarrow> u64" where
  "conc_counter c \<equiv> version (store_versioning (conc_rest c))"

abbreviation conc_log :: "('s, 'k, 'r) conc_state \<Rightarrow> 'r event list" where
  "conc_log c \<equiv> broadcast (conc_rest c)"

text \<open>The counter is not at its last value.\<close>

definition conc_room :: "('s, 'k, 'r) conc_state \<Rightarrow> bool" where
  "conc_room c \<longleftrightarrow> conc_counter c \<noteq> -1"

text \<open>
  A stored report has a version that was drawn for its key, or is one of the contents \<open>start\<close> the
  handlers began with; with \<open>nodel\<close>, the requests at hand delete nothing.
\<close>

definition conc_entry ::
  "('k \<rightharpoonup> 'a ObjectMeta_scheme) \<Rightarrow> ('s, 'k, 'a ObjectMeta_scheme) conc_state \<Rightarrow> 'k \<Rightarrow>
     'a ObjectMeta_scheme \<Rightarrow> bool" where
  "conc_entry start c k r \<longleftrightarrow> served_by r \<and>
     (\<exists>v. ResourceVersion r = FormatUint v \<and> v < conc_counter c \<and>
          (case drawn c v of None \<Rightarrow> start k = Some r | Some (i, k') \<Rightarrow> k' = k))"

definition conc_inv ::
  "('s \<Rightarrow> 'k \<rightharpoonup> 'a ObjectMeta_scheme) \<Rightarrow> ('s \<Rightarrow> bool) \<Rightarrow> ('k \<rightharpoonup> 'a ObjectMeta_scheme) \<Rightarrow> bool \<Rightarrow>
     ('s, 'k, 'a ObjectMeta_scheme) conc_state \<Rightarrow> bool" where
  "conc_inv vw iv start nodel c \<longleftrightarrow> iv (conc_db c) \<and>
     (\<forall>k r. vw (conc_db c) k = Some r \<longrightarrow> conc_entry start c k r) \<and>
     (\<forall>v. drawn c v \<noteq> None \<longrightarrow> v < conc_counter c) \<and>
     (nodel \<longrightarrow> dom (winner c) \<subseteq> dom (vw (conc_db c)))"

definition conc_grows ::
  "('s \<Rightarrow> 'k \<rightharpoonup> 'r) \<Rightarrow> bool \<Rightarrow> ('s, 'k, 'r) conc_state \<Rightarrow> ('s, 'k, 'r) conc_state \<Rightarrow> bool" where
  "conc_grows vw nodel c c' \<longleftrightarrow> conc_counter c \<le> conc_counter c' \<and> drawn c \<subseteq>\<^sub>m drawn c' \<and>
     (\<exists>evs. conc_log c' = conc_log c @ evs) \<and>
     (nodel \<longrightarrow> winner c \<subseteq>\<^sub>m winner c' \<and> dom (vw (conc_db c)) \<subseteq> dom (vw (conc_db c')))"

text \<open>What a successful call does to the contents; an update of a report that is not there does nothing.\<close>

fun apply_change ::
  "('r \<Rightarrow> 'k) \<Rightarrow> ('r \<Rightarrow> 'r) \<Rightarrow> 'r event \<Rightarrow> ('k \<rightharpoonup> 'r) \<Rightarrow> ('k \<rightharpoonup> 'r)" where
  "apply_change key canon (Deleted, r) m = m(key r := None)"
| "apply_change key canon (Modified, r) m = (if m (key r) = None then m else m(key r \<mapsto> canon r))"
| "apply_change key canon (_, r) m = m(key r \<mapsto> canon r)"

text \<open>The contents changed as the recorded calls say.\<close>

definition traced ::
  "('r \<Rightarrow> 'k) \<Rightarrow> ('r \<Rightarrow> 'r) \<Rightarrow> ('s \<Rightarrow> 'k \<rightharpoonup> 'r) \<Rightarrow> ('s, 'k, 'r) conc_state \<Rightarrow>
     ('s, 'k, 'r) conc_state \<Rightarrow> bool" where
  "traced key canon vw c c' \<longleftrightarrow> (\<exists>evs. effects c' = effects c @ evs \<and>
     vw (conc_db c') = fold (apply_change key canon) evs (vw (conc_db c)))"

lemma traced_same: "effects c' = effects c \<Longrightarrow> vw (conc_db c') = vw (conc_db c) \<Longrightarrow> traced key canon vw c c'"
  by (simp add: traced_def)

lemma traced_one:
  "effects c' = effects c @ [ev] \<Longrightarrow> vw (conc_db c') = apply_change key canon ev (vw (conc_db c)) \<Longrightarrow>
     traced key canon vw c c'"
  by (simp add: traced_def)

lemma traced_trans: "traced key canon vw c c' \<Longrightarrow> traced key canon vw c' c'' \<Longrightarrow> traced key canon vw c c''"
  unfolding traced_def by (metis append.assoc comp_apply fold_append)

text \<open>
  What a handler's own actions do beside: they draw no version below the counter, change the contents as
  they record, and leave alone what \<open>F\<close> says of the storage. A handler does not count on that from others.
\<close>

definition conc_own ::
  "('s \<Rightarrow> 's \<Rightarrow> bool) \<Rightarrow> ('r \<Rightarrow> 'k) \<Rightarrow> ('r \<Rightarrow> 'r) \<Rightarrow> ('s \<Rightarrow> 'k \<rightharpoonup> 'r) \<Rightarrow> bool \<Rightarrow>
     ('s, 'k, 'r) conc_state \<Rightarrow> ('s, 'k, 'r) conc_state \<Rightarrow> bool" where
  "conc_own F key canon vw nodel c c' \<longleftrightarrow> conc_grows vw nodel c c' \<and> traced key canon vw c c' \<and>
     F (conc_db c) (conc_db c') \<and>
     (\<forall>v. drawn c v = None \<longrightarrow> drawn c' v \<noteq> None \<longrightarrow> conc_counter c \<le> v)"

interpretation conc: guarantee conc_room "conc_inv vw iv start nodel" "conc_grows vw nodel" "conc_own F key canon vw nodel"
  for vw :: "'s \<Rightarrow> 'k \<rightharpoonup> 'a ObjectMeta_scheme" and iv start nodel F key canon
proof unfold_locales
  fix c c' c'' :: "('s, 'k, 'a ObjectMeta_scheme) conc_state"
  show "conc_grows vw nodel c c" by (simp add: conc_grows_def)
  show "conc_grows vw nodel c c''" if "conc_grows vw nodel c c'" "conc_grows vw nodel c' c''"
    using that unfolding conc_grows_def by (auto intro: map_le_trans order_trans)
qed (simp add: conc_own_def)

abbreviation conc_ok where
  "conc_ok F key canon vw iv start nodel \<equiv>
     sat conc_room (conc_inv vw iv start nodel) (conc_grows vw nodel) (conc_own F key canon vw nodel)"

text \<open>Where the handlers may start.\<close>

lemma conc_start_inv:
  assumes "iv (store_db w)" and "all_served vw w" and "versions_fresh vw w"
  shows "conc_inv vw iv (vw (store_db w)) nodel (conc_start w)"
  using assms
  by (auto simp: conc_inv_def conc_entry_def conc_start_def all_served_def versions_fresh_def)

text \<open>What a handler knows of a report it has read, of a version it has drawn, and of an event.\<close>

definition genuine :: "('s, 'k, 'a ObjectMeta_scheme) conc_state \<Rightarrow> 'a ObjectMeta_scheme \<Rightarrow> bool" where
  "genuine c r \<longleftrightarrow> served_by r \<and> (\<exists>v. ResourceVersion r = FormatUint v \<and> v < conc_counter c)"

definition drew :: "nat \<Rightarrow> 'k \<Rightarrow> string \<Rightarrow> ('s, 'k, 'r) conc_state \<Rightarrow> bool" where
  "drew i k rv c \<longleftrightarrow> (\<exists>v. rv = FormatUint v \<and> drawn c v = Some (i, k))"

lemma inv_entry: "conc_inv vw iv start nodel c \<Longrightarrow> vw (conc_db c) k = Some r \<Longrightarrow> conc_entry start c k r"
  unfolding conc_inv_def by blast

lemma entry_genuine: "conc_inv vw iv start nodel c \<Longrightarrow> vw (conc_db c) k = Some r \<Longrightarrow> genuine c r"
  unfolding conc_inv_def conc_entry_def genuine_def by blast

lemma genuine_mono: "conc_counter c \<le> conc_counter c' \<Longrightarrow> genuine c r \<Longrightarrow> genuine c' r"
  unfolding genuine_def by (blast intro: less_le_trans)

lemma grows_genuine: "conc_grows vw nodel c c' \<Longrightarrow> genuine c r \<Longrightarrow> genuine c' r"
  unfolding conc_grows_def by (blast intro: genuine_mono)

lemma grows_drew: "conc_grows vw nodel c c' \<Longrightarrow> drew i k rv c \<Longrightarrow> drew i k rv c'"
  unfolding conc_grows_def drew_def map_le_def by (metis domI)

lemma grows_log: "conc_grows vw nodel c c' \<Longrightarrow> ev \<in> set (conc_log c) \<Longrightarrow> ev \<in> set (conc_log c')"
  by (auto simp: conc_grows_def)

lemma grows_winner: "conc_grows vw nodel c c' \<Longrightarrow> nodel \<Longrightarrow> winner c k = Some i \<Longrightarrow> winner c' k = Some i"
  unfolding conc_grows_def map_le_def by (metis domI)

lemmas grows_facts = grows_genuine grows_drew grows_log grows_winner

text \<open>An action that leaves the state as it was, and what it returns.\<close>

lemma ok_read:
  assumes "\<And>w. iv (store_db w) \<Longrightarrow> quiet vw iv w (snd (f w)) \<and> F (store_db w) (store_db (snd (f w)))"
    and "\<And>c'. conc_inv vw iv start nodel c' \<Longrightarrow> Q (fst (f (conc_rest c'))) c'"
    and "\<And>x c' c''. conc_counter c' \<le> conc_counter c'' \<Longrightarrow>
       length (conc_log c') \<le> length (conc_log c'') \<Longrightarrow> Q x c' \<Longrightarrow> Q x c''"
  shows "conc_ok F key canon vw iv start nodel Q (conc_act f) c"
  unfolding conc_act_def
proof (rule conc.ok_act)
  fix c1 x c2
  assume inv: "conc_inv vw iv start nodel c1"
    and "(let (x, w) = f (conc_rest c1) in (x, c1\<lparr>conc_rest := w\<rparr>)) = (x, c2)"
  then have x: "x = fst (f (conc_rest c1))" and c2: "c2 = c1\<lparr>conc_rest := snd (f (conc_rest c1))\<rparr>"
    by (auto simp: case_prod_unfold Let_def)
  have q: "quiet vw iv (conc_rest c1) (conc_rest c2)" "F (conc_db c1) (conc_db c2)"
    using assms(1) [of "conc_rest c1"] inv by (simp_all add: c2 conc_inv_def)
  have "conc_inv vw iv start nodel c2" using inv q(1)
    by (simp add: conc_inv_def conc_entry_def quiet_def c2)
  moreover have "conc_own F key canon vw nodel c1 c2" using q by (auto simp: conc_own_def conc_grows_def quiet_def c2 intro!: traced_same)
  moreover have "Q x t" if "conc_grows vw nodel c2 t" for t
    using assms(3) [OF _ _ assms(2) [OF inv], of t] that q(1)
    by (auto simp: x conc_grows_def quiet_def)
  ultimately show "conc_inv vw iv start nodel c2 \<and> conc_own F key canon vw nodel c1 c2 \<and>
      (\<forall>t. conc_grows vw nodel c2 t \<longrightarrow> conc_inv vw iv start nodel t \<longrightarrow> Q x t)"
    by blast
qed

lemma ok_draw:
  assumes "\<And>s. F s s"
  shows "conc_ok F key canon vw iv start nodel (drew i k) (conc_draw i k) c"
  unfolding conc_draw_def
proof (rule conc.ok_act)
  fix c1 :: "('a, 'b, 'c ObjectMeta_scheme) conc_state" and x c2
  let ?v = "conc_counter c1"
  assume inv: "conc_inv vw iv start nodel c1" and room: "conc_room c1"
    and res: "(let w = conc_rest c1; (rv, v) = UseResourceVersion (store_versioning w)
       in (rv, c1\<lparr>conc_rest := w\<lparr>store_versioning := v\<rparr>,
                  drawn := (drawn c1)(version (store_versioning w) \<mapsto> (i, k))\<rparr>)) = (x, c2)"
  from res have x: "x = FormatUint ?v" and c2: "c2 = c1\<lparr>conc_rest := (conc_rest c1)
      \<lparr>store_versioning := bump (store_versioning (conc_rest c1))\<rparr>, drawn := (drawn c1)(?v \<mapsto> (i, k))\<rparr>"
    by (auto simp: UseResourceVersion_def bump_def Let_def)
  have less: "?v < version (bump (store_versioning (conc_rest c1)))"
    using room by (simp add: conc_room_def bump_less)
  have old: "drawn c1 v \<noteq> None \<Longrightarrow> v < ?v" for v using inv unfolding conc_inv_def by blast
  then have new: "drawn c1 ?v = None" by (metis less_irrefl)
  have "conc_entry start c2 k' r" if "conc_entry start c1 k' r" for k' r
    using that less by (auto simp: conc_entry_def c2 split: if_splits intro: less_trans)
  moreover have "v < conc_counter c2" if "drawn c2 v \<noteq> None" for v
    using that less less_trans [OF old less] by (cases "v = ?v") (auto simp: c2)
  ultimately have "conc_inv vw iv start nodel c2"
    using inv unfolding conc_inv_def by (simp add: c2)
  moreover have "conc_own F key canon vw nodel c1 c2"
    using less new assms by (auto simp: conc_own_def conc_grows_def c2 map_le_def less_imp_le intro!: traced_same)
  moreover have "drew i k x c2" by (auto simp: drew_def x c2)
  ultimately show "conc_inv vw iv start nodel c2 \<and> conc_own F key canon vw nodel c1 c2 \<and>
      (\<forall>t. conc_grows vw nodel c2 t \<longrightarrow> conc_inv vw iv start nodel t \<longrightarrow> drew i k x t)"
    by (blast intro: grows_drew)
qed

lemma conc_inv_Action:
  "conc_inv vw iv start nodel (c\<lparr>conc_rest := (conc_rest c)\<lparr>broadcast := evs\<rparr>\<rparr>) = conc_inv vw iv start nodel c"
  by (simp add: conc_inv_def conc_entry_def)

lemma ok_Action:
  assumes "\<And>s. F s s"
  shows "conc_ok F key canon vw iv start nodel (\<lambda>x c'. (t, r) \<in> set (conc_log c')) (conc_Action t r) c"
  unfolding conc_Action_def conc_act_def
  by (rule conc.ok_act) (auto simp: assms conc_inv_Action conc_own_def conc_grows_def Action_def intro!: traced_same)

subsection \<open>Storage calls under interference\<close>

text \<open>A kind of report whose calls stay within \<open>F\<close>.\<close>

locale framed_kind =
  rest_kind S key sel canon lenient good_key good_sel good view inv d
  for S :: "('s, 'k, 'q, 'a ObjectMeta_scheme) ops"
    and key sel canon lenient good_key good_sel good view inv d +
  fixes F :: "'s \<Rightarrow> 's \<Rightarrow> bool"
  assumes F_refl: "F s s"
    and frame: "inv s \<Longrightarrow> good_cmd good_key good_sel good c \<Longrightarrow> F s (snd (do_cmd S c s))"
begin

abbreviation ok where
  "ok start nodel \<equiv> conc_ok F key canon view inv start nodel"

lemmas ok_draw = ok_draw [where F = F and key = key and canon = canon, OF F_refl]
lemmas ok_Action = ok_Action [where F = F and key = key and canon = canon, OF F_refl]

text \<open>The frame of each call.\<close>

lemma frames:
  "inv (store_db w) \<Longrightarrow> good_key k \<Longrightarrow> F (store_db w) (store_db (snd (rest_get d S k w)))"
  "inv (store_db w) \<Longrightarrow> good_key (kd_key d ns n) \<Longrightarrow> F (store_db w) (store_db (snd (rest_Get d S ns n w)))"
  "inv (store_db w) \<Longrightarrow> good_sel (kd_sel d ns) \<Longrightarrow> F (store_db w) (store_db (snd (rest_List d S ns lopts w)))"
  "inv (store_db w) \<Longrightarrow> good_key k \<Longrightarrow> F (store_db w) (store_db (snd (rest_delete S k w)))"
  "inv s \<Longrightarrow> good r \<Longrightarrow> F s (snd (createR S (Some r) s))"
  "inv s \<Longrightarrow> good r \<Longrightarrow> F s (snd (updateR S (Some r) s))"
  using frame [of "store_db w" "GetCmd k"] frame [of "store_db w" "GetCmd (kd_key d ns n)"]
    frame [of "store_db w" "ListCmd (kd_sel d ns)"] frame [of "store_db w" "DeleteCmd k"]
    frame [of s "CreateCmd r"] frame [of s "UpdateCmd r"]
  by (auto simp: rest_get_def rest_Get_def rest_List_def rest_list_def rest_delete_def case_prod_unfold Let_def
      split: sum.split option.split)

text \<open>A create call and an update call with a version that was drawn for the key.\<close>

lemma write_inv:
  assumes "conc_inv view inv start nodel c" and "meta_kept good canon"
    and r: "good r" "served_by r" "drew i (key r) (ResourceVersion r) c"
    and "view (conc_db c') = (view (conc_db c))(key r \<mapsto> canon r)" and "inv (conc_db c')"
    and "drawn c' = drawn c" and "conc_counter c' = conc_counter c"
    and "dom (winner c') \<subseteq> insert (key r) (dom (winner c))"
  shows "conc_inv view inv start nodel c'"
proof -
  obtain v where v: "ResourceVersion r = FormatUint v" "drawn c v = Some (i, key r)"
    using r(3) by (auto simp: drew_def)
  have "v < conc_counter c" using assms(1) v(2) unfolding conc_inv_def by blast
  with v r assms(2) have "conc_entry start c' (key r) (canon r)"
    by (auto simp: conc_entry_def meta_kept_def assms(8,9))
  moreover have "conc_entry start c' k q" if "view (conc_db c) k = Some q" for k q
    using that assms(1) by (auto simp: conc_inv_def conc_entry_def assms(8,9))
  ultimately have "\<forall>k q. view (conc_db c') k = Some q \<longrightarrow> conc_entry start c' k q"
    by (auto simp: assms(6))
  moreover have "dom (winner c') \<subseteq> dom (view (conc_db c'))" if nodel
    using that assms(1,10) unfolding conc_inv_def assms(6) by simp blast
  ultimately show ?thesis
    using assms(1) unfolding conc_inv_def by (simp add: assms(7-9))
qed

lemma ok_createR:
  assumes "meta_kept good canon" and r: "good r" "served_by r" "drew i (key r) (ResourceVersion r) c"
  shows "ok start nodel (\<lambda>err c'. err = None \<longrightarrow> nodel \<longrightarrow> winner c' (key r) = Some i)
    (conc_createR S i (key r) r) c"
  unfolding conc_createR_def
proof (rule conc.ok_act)
  fix c1 :: "('s, 'k, 'a ObjectMeta_scheme) conc_state" and x c2
  let ?w = "conc_rest c1" and ?s = "snd (createR S (Some r) (conc_db c1))"
  assume g: "conc_grows view nodel c c1" and inv: "conc_inv view inv start nodel c1"
    and "(let w = conc_rest c1; (err, s) = createR S (Some r) (store_db w)
       in (err, c1\<lparr>conc_rest := w\<lparr>store_db := s\<rparr>,
                   winner := (if err = None then (winner c1)(key r \<mapsto> i) else winner c1),
                   effects := effects c1 @ (if err = None then [(Added, r)] else [])\<rparr>)) = (x, c2)"
  then have x: "x = fst (createR S (Some r) (conc_db c1))"
    and c2: "c2 = c1\<lparr>conc_rest := ?w\<lparr>store_db := ?s\<rparr>,
       winner := (if x = None then (winner c1)(key r \<mapsto> i) else winner c1),
       effects := effects c1 @ (if x = None then [(Added, r)] else [])\<rparr>"
    by (auto simp: case_prod_unfold Let_def)
  note law = create_law [OF _ r(1), of "conc_db c1"]
  show "conc_inv view inv start nodel c2 \<and> conc_own F key canon view nodel c1 c2 \<and>
      (\<forall>t. conc_grows view nodel c2 t \<longrightarrow> conc_inv view inv start nodel t \<longrightarrow>
           x = None \<longrightarrow> nodel \<longrightarrow> winner t (key r) = Some i)"
  proof (cases "view (conc_db c1) (key r)")
    case None
    then have x: "x = None" and s: "view ?s = (view (conc_db c1))(key r \<mapsto> canon r)" "inv ?s"
      using law inv by (auto simp: conc_inv_def x)
    have "conc_inv view inv start nodel c2"
      by (rule write_inv [OF inv assms(1) r(1,2) grows_drew [OF g r(3)]])
        (use s in \<open>auto simp: c2 x\<close>)
    moreover have "winner c1 (key r) = None" if nodel
      using that None inv by (auto simp: conc_inv_def)
    then have "conc_own F key canon view nodel c1 c2"
      using s frames(5) r(1) inv
      by (auto simp: conc_own_def conc_grows_def conc_inv_def c2 x map_le_def intro!: traced_one)
    moreover have "winner c2 (key r) = Some i" by (simp add: c2 x)
    ultimately show ?thesis by (blast intro: grows_winner)
  next
    case (Some q)
    then obtain e where x: "x = Some e" and s: "view ?s = view (conc_db c1)" "inv ?s"
      using law inv by (auto simp: conc_inv_def x)
    then show ?thesis
      using inv frames(5) r(1)
      by (auto simp: conc_inv_def conc_entry_def conc_own_def conc_grows_def c2 intro!: traced_same)
  qed
qed

lemma ok_updateR:
  assumes "meta_kept good canon" and r: "good r" "served_by r" "drew i (key r) (ResourceVersion r) c"
  shows "ok start nodel (\<lambda>_ _. True) (conc_updateR S r) c"
  unfolding conc_updateR_def
proof (rule conc.ok_act)
  fix c1 :: "('s, 'k, 'a ObjectMeta_scheme) conc_state" and x c2
  let ?w = "conc_rest c1" and ?s = "snd (updateR S (Some r) (conc_db c1))"
  assume g: "conc_grows view nodel c c1" and inv: "conc_inv view inv start nodel c1"
    and "(let w = conc_rest c1; (err, s) = updateR S (Some r) (store_db w)
       in (err, c1\<lparr>conc_rest := w\<lparr>store_db := s\<rparr>,
                   effects := effects c1 @ (if err = None then [(Modified, r)] else [])\<rparr>)) = (x, c2)"
  then have x: "x = fst (updateR S (Some r) (conc_db c1))"
    and c2: "c2 = c1\<lparr>conc_rest := ?w\<lparr>store_db := ?s\<rparr>,
       effects := effects c1 @ (if x = None then [(Modified, r)] else [])\<rparr>"
    by (auto simp: case_prod_unfold Let_def)
  have hit: "x = None" if "view (conc_db c1) (key r) \<noteq> None"
    using that update_law [OF _ r(1), of "conc_db c1"] inv by (auto simp: conc_inv_def x)
  have s: "view ?s = (if view (conc_db c1) (key r) = None then view (conc_db c1)
      else (view (conc_db c1))(key r \<mapsto> canon r))" "inv ?s"
    using update_law [OF _ r(1), of "conc_db c1"] inv by (auto simp: conc_inv_def)
  have "conc_inv view inv start nodel c2"
  proof (cases "view (conc_db c1) (key r)")
    case None
    with s inv show ?thesis by (simp add: conc_inv_def conc_entry_def c2)
  next
    case (Some q)
    with s show ?thesis
      by (intro write_inv [OF inv assms(1) r(1,2) grows_drew [OF g r(3)]]) (auto simp: c2)
  qed
  moreover have "traced key canon view c1 c2"
  proof (cases x)
    case None
    with s show ?thesis by (auto simp: c2 intro!: traced_one)
  next
    case (Some e)
    with hit s show ?thesis by (auto simp: c2 intro!: traced_same)
  qed
  then have "conc_own F key canon view nodel c1 c2"
    using s frames(6) r(1) inv by (auto simp: conc_own_def conc_grows_def conc_inv_def c2)
  ultimately show "conc_inv view inv start nodel c2 \<and> conc_own F key canon view nodel c1 c2 \<and>
      (\<forall>t. conc_grows view nodel c2 t \<longrightarrow> conc_inv view inv start nodel t \<longrightarrow> True)"
    by simp
qed

lemma ok_deleteK:
  assumes "good_key k" and "key r = k" and "\<not> nodel"
  shows "ok start nodel (\<lambda>_ _. True) (conc_deleteK S k r) c"
  unfolding conc_deleteK_def
proof (rule conc.ok_act)
  fix c1 x c2
  assume inv: "conc_inv view inv start nodel c1"
    and "(let (err, w) = rest_delete S k (conc_rest c1)
       in (err, c1\<lparr>conc_rest := w,
                   effects := effects c1 @ (if err = None then [(Deleted, r)] else [])\<rparr>)) = (x, c2)"
  then have c2: "rest_delete S k (conc_rest c1) = (x, conc_rest c2)" "drawn c2 = drawn c1"
    "effects c2 = effects c1 @ (if x = None then [(Deleted, r)] else [])"
    by (auto simp: case_prod_unfold Let_def)
  have own: "F (conc_db c1) (conc_db c2)"
    using frames(4) [of "conc_rest c1" k] assms(1) inv c2(1) by (simp add: conc_inv_def)
  have res: "(x = None) = (view (conc_db c1) k \<noteq> None)" "view (conc_db c2) = (view (conc_db c1))(k := None)"
    using delete_result [OF _ assms(1) c2(1)] inv by (simp_all add: conc_inv_def)
  have trace: "traced key canon view c1 c2"
  proof (cases x)
    case None
    with res(2) c2(3) assms(2) show ?thesis by (intro traced_one) auto
  next
    case (Some e)
    with res c2(3) show ?thesis by (intro traced_same) (auto simp: fun_upd_idem)
  qed
  from delete_result [OF _ assms(1) c2(1)] inv c2(2) assms(3)
  show "conc_inv view inv start nodel c2 \<and> conc_own F key canon view nodel c1 c2 \<and>
      (\<forall>t. conc_grows view nodel c2 t \<longrightarrow> conc_inv view inv start nodel t \<longrightarrow> True)"
    by (simp add: conc_inv_def conc_entry_def conc_own_def conc_grows_def own trace)
qed

lemma ok_create:
  assumes "meta_kept good canon" and "\<And>v. good (stamped e v r)" and "served_by r"
  shows "ok start nodel
    (\<lambda>(r', err) c'. drew i (key r') (ResourceVersion r') c' \<and>
       (err = None \<longrightarrow> nodel \<longrightarrow> winner c' (key r') = Some i)) (conc_create d S i e r) c"
  unfolding conc_create_def
proof (rule conc.ok_bind, rule conc.ok_weaken [OF ok_draw])
  fix rv and c' :: "('s, 'k, 'a ObjectMeta_scheme) conc_state"
  let ?k = "kd_key d (Namespace r) (Name r)"
  define r' where "r' = r\<lparr>ResourceVersion := rv, UID := NewUUID e, CreationTimestamp := Now e\<rparr>"
  assume drew: "drew i ?k rv c'"
  then obtain v where v: "rv = FormatUint v" by (auto simp: drew_def)
  have k: "key r' = ?k" by (simp add: key_desc r'_def)
  have r': "good r'" "served_by r'" "drew i (key r') (ResourceVersion r') c'"
    using assms(2) [of "\<lparr>version = v\<rparr>"] assms(3) drew
    by (simp_all add: r'_def stamped_def served_by_def v key_desc)
  have "ok start nodel (\<lambda>(r', err) c'. drew i (key r') (ResourceVersion r') c' \<and>
       (err = None \<longrightarrow> nodel \<longrightarrow> winner c' (key r') = Some i))
    (bind_prog (conc_createR S i (key r') r') (\<lambda>err. Return (r', err))) c'"
    by (rule conc.ok_bind, rule conc.ok_weaken [OF ok_createR [OF assms(1) r']])
      (auto intro: grows_drew [OF conc.R_trans r'(3)] grows_winner)
  then show "ok start nodel (\<lambda>(r', err) c'. drew i (key r') (ResourceVersion r') c' \<and>
       (err = None \<longrightarrow> nodel \<longrightarrow> winner c' (key r') = Some i))
    (let r' = r\<lparr>ResourceVersion := rv, UID := NewUUID e, CreationTimestamp := Now e\<rparr>
     in bind_prog (conc_createR S i ?k r') (\<lambda>err. Return (r', err))) c'"
    unfolding k Let_def r'_def [symmetric] .
qed

lemma ok_update:
  assumes "meta_kept good canon" and "\<And>v. good (restamped v r)" and "served_by r"
  shows "ok start nodel (\<lambda>(r', err) c'. drew i (key r') (ResourceVersion r') c') (conc_update d S i r) c"
  unfolding conc_update_def
proof (rule conc.ok_bind, rule conc.ok_weaken [OF ok_draw])
  fix rv and c' :: "('s, 'k, 'a ObjectMeta_scheme) conc_state"
  define r' where "r' = r\<lparr>ResourceVersion := rv\<rparr>"
  assume drew: "drew i (kd_key d (Namespace r) (Name r)) rv c'"
  then obtain v where v: "rv = FormatUint v" by (auto simp: drew_def)
  have r': "good r'" "served_by r'" "drew i (key r') (ResourceVersion r') c'"
    using assms(2) [of "\<lparr>version = v\<rparr>"] assms(3) drew
    by (simp_all add: r'_def restamped_def served_by_def v key_desc)
  have "ok start nodel (\<lambda>(r', err) c'. drew i (key r') (ResourceVersion r') c')
    (bind_prog (conc_updateR S r') (\<lambda>err. Return (r', err))) c'"
    by (rule conc.ok_bind, rule conc.ok_weaken [OF ok_updateR [OF assms(1) r']])
      (auto intro: grows_drew [OF conc.R_trans r'(3)])
  then show "ok start nodel (\<lambda>(r', err) c'. drew i (key r') (ResourceVersion r') c')
    (let r' = r\<lparr>ResourceVersion := rv\<rparr> in bind_prog (conc_updateR S r') (\<lambda>err. Return (r', err))) c'"
    by (simp add: Let_def r'_def)
qed

end

subsection \<open>What the answers say\<close>

text \<open>
  What every handler can promise of its answer, from then on: reads return reports that were
  stored; a write that succeeded has a version drawn for it and is announced; a delete that
  succeeded is announced.
\<close>

definition wrote ::
  "('a ObjectMeta_scheme \<Rightarrow> 'k) \<Rightarrow> nat \<Rightarrow> EventType \<Rightarrow> 'a ObjectMeta_scheme \<Rightarrow>
     ('s, 'k, 'a ObjectMeta_scheme) conc_state \<Rightarrow> bool" where
  "wrote key i t r c \<longleftrightarrow> drew i (key r) (ResourceVersion r) c \<and> (t, r) \<in> set (conc_log c)"

definition read_post ::
  "('k, 'q, 'a ObjectMeta_scheme) kind_desc \<Rightarrow> err + Object \<Rightarrow>
     ('s, 'k, 'a ObjectMeta_scheme) conc_state \<Rightarrow> bool" where
  "read_post d x c \<longleftrightarrow> (\<forall>obj. x = Inr obj \<longrightarrow> (\<exists>r. obj = obj_of d r \<and> genuine c r))"

definition list_post ::
  "err + 'a ObjectMeta_scheme ReportList \<Rightarrow> ('s, 'k, 'a ObjectMeta_scheme) conc_state \<Rightarrow> bool" where
  "list_post x c \<longleftrightarrow> (\<forall>l. x = Inr l \<longrightarrow> (\<forall>r \<in> set (Items l). genuine c r))"

definition watch_post ::
  "err + 'a ObjectMeta_scheme watch_result \<times> nat \<Rightarrow> ('s, 'k, 'a ObjectMeta_scheme) conc_state \<Rightarrow> bool" where
  "watch_post x c \<longleftrightarrow> (\<forall>y n. x = Inr (y, n) \<longrightarrow> n \<le> length (conc_log c) \<and>
     (\<forall>evs. y = WatchWithPrefix evs \<longrightarrow> (\<forall>(t, r) \<in> set evs. t = Added \<and> genuine c r)))"

definition create_post ::
  "('k, 'q, 'a ObjectMeta_scheme) kind_desc \<Rightarrow> ('a ObjectMeta_scheme \<Rightarrow> 'k) \<Rightarrow> bool \<Rightarrow> nat \<Rightarrow>
     WriteOptions \<Rightarrow> err + Object \<Rightarrow> ('s, 'k, 'a ObjectMeta_scheme) conc_state \<Rightarrow> bool" where
  "create_post d key nodel i opts x c \<longleftrightarrow> (\<forall>obj. x = Inr obj \<longrightarrow> \<not> isDryRun opts \<longrightarrow>
     (\<exists>r. obj = obj_of d r \<and> wrote key i Added r c \<and> (nodel \<longrightarrow> winner c (key r) = Some i)))"

definition update_post ::
  "('k, 'q, 'a ObjectMeta_scheme) kind_desc \<Rightarrow> ('a ObjectMeta_scheme \<Rightarrow> 'k) \<Rightarrow> nat \<Rightarrow>
     WriteOptions \<Rightarrow> err + Object \<times> bool \<Rightarrow> ('s, 'k, 'a ObjectMeta_scheme) conc_state \<Rightarrow> bool" where
  "update_post d key i opts x c \<longleftrightarrow> (\<forall>obj b. x = Inr (obj, b) \<longrightarrow> \<not> isDryRun opts \<longrightarrow>
     (\<exists>r. obj = obj_of d r \<and> wrote key i Modified r c))"

definition delete_post ::
  "('k, 'q, 'a ObjectMeta_scheme) kind_desc \<Rightarrow> ('a ObjectMeta_scheme \<Rightarrow> 'k) \<Rightarrow> string \<Rightarrow> string \<Rightarrow>
     WriteOptions \<Rightarrow> err + Object \<times> bool \<Rightarrow> ('s, 'k, 'a ObjectMeta_scheme) conc_state \<Rightarrow> bool" where
  "delete_post d key ns n opts x c \<longleftrightarrow> (\<forall>obj b. x = Inr (obj, b) \<longrightarrow>
     (\<exists>r. obj = obj_of d r \<and> genuine c r \<and> key r = kd_key d ns n \<and>
          (\<not> isDryRun opts \<longrightarrow> (Deleted, r) \<in> set (conc_log c))))"

definition collection_post ::
  "('k, 'q, 'a ObjectMeta_scheme) kind_desc \<Rightarrow> ('a ObjectMeta_scheme \<Rightarrow> 'k) \<Rightarrow> string \<Rightarrow>
     WriteOptions \<Rightarrow> 'a ObjectMeta_scheme list \<Rightarrow> ('s, 'k, 'a ObjectMeta_scheme) conc_state \<Rightarrow> bool" where
  "collection_post d key ns opts rs c \<longleftrightarrow> (\<forall>q \<in> set rs. genuine c q \<and> (\<not> isDryRun opts \<longrightarrow>
     (\<exists>r. key r = kd_key d ns (Name q) \<and> (Deleted, r) \<in> set (conc_log c))))"

lemmas post_defs = wrote_def read_post_def list_post_def watch_post_def create_post_def update_post_def
  delete_post_def collection_post_def

lemma post_mono:
  fixes c c' :: "('s, 'k, 'a ObjectMeta_scheme) conc_state"
  assumes "conc_counter c \<le> conc_counter c'"
  shows "read_post d x c \<Longrightarrow> read_post d x c'" and "list_post y c \<Longrightarrow> list_post y c'"
  unfolding read_post_def list_post_def using genuine_mono [OF assms] by blast+

lemma grows_collection:
  "conc_grows vw nodel c c' \<Longrightarrow> collection_post d key ns opts rs c \<Longrightarrow> collection_post d key ns opts rs c'"
  unfolding collection_post_def by (meson grows_genuine grows_log)

context framed_kind
begin

lemma ok_Create:
  assumes "meta_kept good canon"
    and good: "\<And>r0 r1 v. as_r d obj = Some r0 \<Longrightarrow> rest_prepare d e ns r0 = Some r1 \<Longrightarrow> good (stamped e v r1)"
  shows "ok start nodel (create_post d key nodel i opts) (conc_Create d S i e ns obj val opts) c"
proof (cases "strict_err (val obj) (FieldValidation opts) \<noteq> None \<or> isDryRun opts \<or> as_r d obj = None \<or>
    (\<exists>r0. as_r d obj = Some r0 \<and> rest_prepare d e ns r0 = None)")
  case True
  then show ?thesis by (auto simp: conc_Create_def create_post_def split: option.split)
next
  case False
  then obtain r0 r1 where r: "as_r d obj = Some r0" "rest_prepare d e ns r0 = Some r1" by auto
  have served: "served_by r1"
    using made_stamped [OF r(2), of undefined] by (simp add: made_def stamped_def served_by_def)
  have "ok start nodel (create_post d key nodel i opts)
    (bind_prog (conc_create d S i e r1) (\<lambda>(r, x). case x of
         Some err \<Rightarrow> Return (Inl (kd_create_err d (Name r1) err))
       | None \<Rightarrow> bind_prog (conc_Action Added r) (\<lambda>_. Return (Inr (obj_of d r))))) c"
  proof (rule conc.ok_bind, rule conc.ok_weaken [OF ok_create [OF assms(1) good [OF r] served]], clarify)
    fix r x and c' :: "('s, 'k, 'a ObjectMeta_scheme) conc_state"
    assume drew: "drew i (key r) (ResourceVersion r) c'"
      and won: "(x :: err option) = None \<longrightarrow> nodel \<longrightarrow> winner c' (key r) = Some i"
    show "ok start nodel (create_post d key nodel i opts) (case x of
         Some err \<Rightarrow> Return (Inl (kd_create_err d (Name r1) err))
       | None \<Rightarrow> bind_prog (conc_Action Added r) (\<lambda>_. Return (Inr (obj_of d r)))) c'"
    proof (cases x)
      case None
      have "ok start nodel (create_post d key nodel i opts)
        (bind_prog (conc_Action Added r) (\<lambda>_. Return (Inr (obj_of d r)))) c'"
        by (rule conc.ok_bind, rule conc.ok_weaken [OF ok_Action])
          (use won None in \<open>auto simp: post_defs intro: grows_log grows_drew [OF conc.R_trans drew]
            grows_winner [OF conc.R_trans]\<close>)
      with None show ?thesis by simp
    qed (simp add: create_post_def)
  qed
  with False r show ?thesis by (simp add: conc_Create_def)
qed

text \<open>The reads of a handler.\<close>

lemma ok_get:
  assumes "good_key k"
  shows "ok start nodel
    (\<lambda>x c'. \<forall>val. x = Inr val \<longrightarrow> (\<exists>r. val = Some r \<and> key r = k \<and> genuine c' r))
    (conc_act (rest_get d S k)) c"
proof (rule ok_read)
  fix c' :: "('s, 'k, 'a ObjectMeta_scheme) conc_state"
  assume inv: "conc_inv view inv start nodel c'"
  then have "inv (conc_db c')" by (simp add: conc_inv_def)
  with get_result(1) [OF this assms] stored_gets [OF this] entry_genuine [OF inv]
  show "\<forall>val. fst (rest_get d S k (conc_rest c')) = Inr val \<longrightarrow>
      (\<exists>r. val = Some r \<and> key r = k \<and> genuine c' r)"
    by (auto split: option.splits)
qed (blast intro: frames(1) get_result(2) assms genuine_mono)+

lemma ok_Get:
  assumes "good_key (kd_key d ns n)"
  shows "ok start nodel (read_post d) (conc_act (rest_Get d S ns n)) c"
proof (rule ok_read)
  fix c' :: "('s, 'k, 'a ObjectMeta_scheme) conc_state"
  assume inv: "conc_inv view inv start nodel c'"
  then have "inv (conc_db c')" by (simp add: conc_inv_def)
  with Get_spec(1) [OF this assms] entry_genuine [OF inv]
  show "read_post d (fst (rest_Get d S ns n (conc_rest c'))) c'"
    by (auto simp: read_post_def split: option.splits)
qed (blast intro: frames(2) Get_spec(2) assms post_mono)+

lemma ok_List:
  assumes "good_sel (kd_sel d ns)"
  shows "ok start nodel (\<lambda>x c'. list_post x c' \<and>
      (\<not> kd_namespaced d \<or> ns \<noteq> [] \<longrightarrow>
         (\<forall>l. x = Inr l \<longrightarrow> (\<forall>r \<in> set (Items l). good_key (kd_key d ns (Name r))))))
    (conc_act (rest_List d S ns lopts)) c"
proof (rule ok_read)
  fix c' :: "('s, 'k, 'a ObjectMeta_scheme) conc_state"
  assume inv: "conc_inv view inv start nodel c'"
  then have db: "inv (conc_db c')" by (simp add: conc_inv_def)
  have "genuine c' r"
    if res: "fst (rest_List d S ns lopts (conc_rest c')) = Inr l" "r \<in> set (Items l)" for l r
  proof -
    obtain opt v where o: "lopts = Some opt" "desired_rv (opt_ResourceVersion opt) = Inr v"
      using res(1) by (auto simp: rest_List_def case_prod_unfold split: sum.splits option.splits)
    obtain k where "view (conc_db c') k = Some r"
      using List_spec(1) [OF db assms o(2)] res by (auto simp: o(1))
    then show ?thesis by (rule entry_genuine [OF inv])
  qed
  then show "list_post (fst (rest_List d S ns lopts (conc_rest c'))) c' \<and>
      (\<not> kd_namespaced d \<or> ns \<noteq> [] \<longrightarrow>
         (\<forall>l. fst (rest_List d S ns lopts (conc_rest c')) = Inr l \<longrightarrow>
              (\<forall>r \<in> set (Items l). good_key (kd_key d ns (Name r)))))"
    using listed_keys [OF db assms] by (auto simp: list_post_def)
qed (blast intro: frames(3) List_quiet assms post_mono)+

lemma ok_Update:
  assumes "meta_kept good canon" and "good_key (kd_key d ns n)"
    and good: "\<And>old r0 v. as_r d (fst (updated old)) = Some r0 \<Longrightarrow> good (restamped v (rest_adjust d ns r0))"
  shows "ok start nodel (update_post d key i opts) (conc_Update d S i ns n updated uval False opts) c"
  unfolding conc_Update_def
proof (rule conc.ok_bind, rule conc.ok_weaken [OF ok_get [OF assms(2)]])
  fix got :: "err + 'a ObjectMeta_scheme option" and c' :: "('s, 'k, 'a ObjectMeta_scheme) conc_state"
  define old where "old = (case got of Inl err \<Rightarrow> None | Inr val \<Rightarrow> val)"
  have writes: "ok start nodel (update_post d key i opts)
     (bind_prog (conc_update d S i (rest_adjust d ns r0)) (\<lambda>(r, x). case x of
          Some err \<Rightarrow> Return (Inl (kd_update_err d err))
        | None \<Rightarrow> bind_prog (conc_Action Modified r) (\<lambda>_. Return (Inr (obj_of d r, True))))) c'"
    if r0: "as_r d (fst (updated old)) = Some r0" for r0
  proof (rule conc.ok_bind, rule conc.ok_weaken [OF ok_update [OF assms(1) good [OF r0]]], goal_cases)
    case 1
    show ?case by (simp add: rest_adjust_def served_by_def labelReports_def Let_def)
  next
    case (2 p t)
    then have drew: "drew i (key (fst p)) (ResourceVersion (fst p)) t" by (simp add: case_prod_unfold)
    have "ok start nodel (update_post d key i opts)
        (bind_prog (conc_Action Modified (fst p)) (\<lambda>_. Return (Inr (obj_of d (fst p), True)))) t"
      by (rule conc.ok_bind, rule conc.ok_weaken [OF ok_Action])
        (auto simp: post_defs intro: grows_log grows_drew [OF conc.R_trans drew])
    then show ?case by (auto simp: case_prod_unfold update_post_def split: option.split)
  qed
  show "ok start nodel (update_post d key i opts)
     (let oldObj = (case got of Inl err \<Rightarrow> None | Inr val \<Rightarrow> val);
          (updatedObject, uerr) = updated oldObj
      in if isl got \<and> \<not> False then Return (Inl (projl got))
         else if uerr \<noteq> None \<and> \<not> False then Return (Inl (the uerr))
         else case as_r d updatedObject of
                None \<Rightarrow> Return (Inl (Panic ''interface conversion''))
              | Some r0 \<Rightarrow>
                  if False
                  then bind_prog (conc_update d S i r0) (\<lambda>(r, err).
                         bind_prog (conc_Action Modified r) (\<lambda>_. Return (Inr (obj_of d r, True))))
                  else (case strict_err (uval updatedObject oldObj) (FieldValidation opts) of
                          Some err \<Rightarrow> Return (Inl err)
                        | None \<Rightarrow>
                            (let r1 = rest_adjust d ns r0
                             in if \<not> isDryRun opts
                                then bind_prog (conc_update d S i r1) (\<lambda>(r, x).
                                       case x of
                                         Some err \<Rightarrow> Return (Inl (kd_update_err d err))
                                       | None \<Rightarrow> bind_prog (conc_Action Modified r)
                                                  (\<lambda>_. Return (Inr (obj_of d r, True))))
                                else Return (Inr (obj_of d r1, True))))) c'"
    using writes unfolding old_def [symmetric]
    by (auto simp: case_prod_unfold Let_def update_post_def split: option.split)
qed

lemma ok_Delete:
  assumes "good_key (kd_key d ns n)" and "\<not> nodel"
  shows "ok start nodel (delete_post d key ns n opts) (conc_Delete d S key ns n val opts) c"
  unfolding conc_Delete_def
proof (rule conc.ok_bind, rule conc.ok_weaken [OF ok_get [OF assms(1)]])
  fix got :: "err + 'a ObjectMeta_scheme option" and c' :: "('s, 'k, 'a ObjectMeta_scheme) conc_state"
  let ?Q = "delete_post d key ns n opts"
  assume found: "\<forall>val. got = Inr val \<longrightarrow> (\<exists>r. val = Some r \<and> key r = kd_key d ns n \<and> genuine c' r)"
  have erase: "ok start nodel ?Q
      (bind_prog (conc_deleteK S (key r) r) (\<lambda>x. case x of
           Some err \<Rightarrow> Return (Inl (kd_delete_err d err))
         | None \<Rightarrow> bind_prog (conc_Action Deleted r) (\<lambda>_. Return (Inr (obj_of d r, True))))) c'"
    if r: "key r = kd_key d ns n" "genuine c' r" for r
  proof (rule conc.ok_bind, rule conc.ok_weaken [OF ok_deleteK], goal_cases)
    case (4 x t)
    have "ok start nodel ?Q (bind_prog (conc_Action Deleted r) (\<lambda>_. Return (Inr (obj_of d r, True)))) t"
      by (rule conc.ok_bind, rule conc.ok_weaken [OF ok_Action])
        (use r(1) in \<open>auto simp: post_defs intro: grows_log
           grows_genuine [OF conc.R_trans grows_genuine [OF 4(1) r(2)]]\<close>)
    then show ?case by (auto simp: delete_post_def split: option.split)
  qed (use assms r in auto)
  show "ok start nodel ?Q
      (case got of
         Inl err \<Rightarrow> Return (Inl (NotFound (kd_gr d) n))
       | Inr v \<Rightarrow>
           (case val (case v of None \<Rightarrow> NilObject | Some r \<Rightarrow> obj_of d r) of
              Some err \<Rightarrow> Return (Inl (BadRequest ''invalid resource: '' (Some err)))
            | None \<Rightarrow>
                (case v of
                   None \<Rightarrow> Return (Inl nil_deref)
                 | Some r \<Rightarrow>
                     if \<not> isDryRun opts
                     then bind_prog (conc_deleteK S (key r) r) (\<lambda>x.
                            case x of
                              Some err \<Rightarrow> Return (Inl (kd_delete_err d err))
                            | None \<Rightarrow> bind_prog (conc_Action Deleted r)
                                       (\<lambda>_. Return (Inr (obj_of d r, True))))
                     else Return (Inr (obj_of d r, True))))) c'"
    using found erase
    by (auto simp: delete_post_def split: option.split sum.split intro: grows_genuine)
qed

lemma ok_delete_items:
  assumes "\<And>r. r \<in> set rs \<Longrightarrow> good_key (kd_key d ns (Name r)) \<and> genuine c r" and "\<not> nodel"
  shows "ok start nodel (\<lambda>x c'. x = None \<longrightarrow> collection_post d key ns opts rs c')
    (conc_delete_items d S key ns val opts rs) c"
  using assms(1)
proof (induction rs arbitrary: c)
  case Nil
  then show ?case by (simp add: collection_post_def)
next
  case (Cons r rs)
  let ?Q = "\<lambda>x c'. x = None \<longrightarrow> collection_post d key ns opts (r # rs) c'"
  have r: "good_key (kd_key d ns (Name r))" "genuine c r" using Cons.prems by simp_all
  show ?case
    unfolding conc_delete_items.simps
  proof (rule conc.ok_bind, rule conc.ok_weaken [OF ok_Delete [OF r(1) assms(2)]])
    fix x c'
    assume g: "conc_grows view nodel c c'" and del: "delete_post d key ns (Name r) opts x c'"
    have one: "collection_post d key ns opts [r] c'" if "isl x = False"
      using del that grows_genuine [OF g r(2)] by (cases x) (auto simp: post_defs)
    have rest: "ok start nodel (\<lambda>x c'. x = None \<longrightarrow> collection_post d key ns opts rs c')
        (conc_delete_items d S key ns val opts rs) c'"
      using Cons.prems grows_genuine [OF g] by (intro Cons.IH) auto
    have "ok start nodel ?Q (conc_delete_items d S key ns val opts rs) c'" if "isl x = False"
      by (rule conc.ok_weaken [OF rest]) (use grows_collection [OF _ one [OF that]] in \<open>auto simp: collection_post_def\<close>)
    then show "ok start nodel ?Q (case x of
         Inr (obj, isDeleted) \<Rightarrow>
           if isDeleted then conc_delete_items d S key ns val opts rs
           else Return (Some (kd_coll_delete d r))
       | Inl err \<Rightarrow> Return (Some (unless_panic err (kd_coll_delete d r)))) c'"
      by (auto split: sum.split)
  qed
qed

lemma ok_DeleteCollection:
  assumes "good_sel (kd_sel d ns)" and "\<not> kd_namespaced d \<or> ns \<noteq> []" and "\<not> nodel"
  shows "ok start nodel (\<lambda>x c'. \<forall>l. x = Inr l \<longrightarrow> collection_post d key ns opts (Items l) c')
    (conc_DeleteCollection d S key ns val opts lopts) c"
  unfolding conc_DeleteCollection_def
proof (rule conc.ok_bind, rule conc.ok_weaken [OF ok_List [OF assms(1)]])
  fix found and c' :: "('s, 'k, 'a ObjectMeta_scheme) conc_state"
  let ?Q = "\<lambda>x c'. \<forall>l. x = Inr l \<longrightarrow> collection_post d key ns opts (Items l) c'"
  assume "list_post found c' \<and> (\<not> kd_namespaced d \<or> ns \<noteq> [] \<longrightarrow>
         (\<forall>l. found = Inr l \<longrightarrow> (\<forall>r \<in> set (Items l). good_key (kd_key d ns (Name r)))))"
  with assms(2) have items: "good_key (kd_key d ns (Name r)) \<and> genuine c' r"
    if "found = Inr l" "r \<in> set (Items l)" for l r
    using that by (simp add: list_post_def)
  have "ok start nodel ?Q
      (bind_prog (conc_delete_items d S key ns val opts (Items l))
        (\<lambda>x. case x of Some err \<Rightarrow> Return (Inl err) | None \<Rightarrow> Return (Inr l))) c'" if l: "found = Inr l" for l
    by (rule conc.ok_bind, rule conc.ok_weaken [OF ok_delete_items [OF items [OF l] assms(3)]])
      (auto split: option.split intro: grows_collection)
  then show "ok start nodel ?Q (case found of
         Inl err \<Rightarrow> Return (Inl (unless_panic err (kd_coll_find d)))
       | Inr list \<Rightarrow>
           if \<not> isDryRun opts
           then bind_prog (conc_delete_items d S key ns val opts (Items list)) (\<lambda>x.
                  case x of Some err \<Rightarrow> Return (Inl err) | None \<Rightarrow> Return (Inr list))
           else Return (Inr list)) c'"
    using items by (auto simp: collection_post_def split: sum.split intro: grows_genuine)
qed

lemma ok_register:
  assumes "\<And>evs t r. x = WatchWithPrefix evs \<Longrightarrow> (t, r) \<in> set evs \<Longrightarrow> t = Added \<and> genuine c r"
  shows "ok start nodel watch_post (conc_register x) c"
  unfolding conc_register_def conc_act_def
  by (rule conc.ok_act)
    (use assms in \<open>auto simp: watch_post_def conc_own_def conc_grows_def F_refl traced_same
        intro: genuine_mono [OF order_trans]\<close>)

lemma ok_Watch:
  assumes "good_sel (kd_sel d ns)"
  shows "ok start nodel watch_post (conc_Watch d S ns lopts) c"
proof -
  have "ok start nodel watch_post (bind_prog (conc_act (rest_List d S ns lopts)) (\<lambda>x. case x of
         Inl err \<Rightarrow> Return (Inl err)
       | Inr list \<Rightarrow> conc_register (WatchWithPrefix (map (Pair Added) (Items list))))) c"
    by (rule conc.ok_bind, rule conc.ok_weaken [OF ok_List [OF assms]])
      (auto split: sum.split intro!: ok_register simp: list_post_def watch_post_def)
  then show ?thesis
    by (auto simp: conc_Watch_def watch_post_def split: option.split intro!: ok_register)
qed

end

subsection \<open>Pools of requests\<close>

text \<open>The requests that meet the storage's conditions on keys, selectors and reports.\<close>

primrec conc_legal ::
  "('k, 'q, 'a ObjectMeta_scheme) kind_desc \<Rightarrow> ('k \<Rightarrow> bool) \<Rightarrow> ('q \<Rightarrow> bool) \<Rightarrow>
     ('a ObjectMeta_scheme \<Rightarrow> bool) \<Rightarrow> 'a request \<Rightarrow> bool" where
  "conc_legal d gk gq good (GetReq ns n) \<longleftrightarrow> gk (kd_key d ns n)"
| "conc_legal d gk gq good (ListReq ns lopts) \<longleftrightarrow> gq (kd_sel d ns)"
| "conc_legal d gk gq good (WatchReq ns lopts) \<longleftrightarrow> gq (kd_sel d ns)"
| "conc_legal d gk gq good (CreateReq e ns obj val opts) \<longleftrightarrow>
     (\<forall>r0 r1 v. as_r d obj = Some r0 \<longrightarrow> rest_prepare d e ns r0 = Some r1 \<longrightarrow> good (stamped e v r1))"
| "conc_legal d gk gq good (UpdateReq ns n updated uval force opts) \<longleftrightarrow> \<not> force \<and> gk (kd_key d ns n) \<and>
     (\<forall>old r0 v. as_r d (fst (updated old)) = Some r0 \<longrightarrow> good (restamped v (rest_adjust d ns r0)))"
| "conc_legal d gk gq good (DeleteReq ns n val opts) \<longleftrightarrow> gk (kd_key d ns n)"
| "conc_legal d gk gq good (DeleteCollectionReq ns val opts lopts) \<longleftrightarrow>
     gq (kd_sel d ns) \<and> (\<not> kd_namespaced d \<or> ns \<noteq> [])"

primrec deletes :: "'a request \<Rightarrow> bool" where
  "deletes (GetReq ns n) = False"
| "deletes (ListReq ns lopts) = False"
| "deletes (WatchReq ns lopts) = False"
| "deletes (CreateReq e ns obj val opts) = False"
| "deletes (UpdateReq ns n updated uval force opts) = False"
| "deletes (DeleteReq ns n val opts) = True"
| "deletes (DeleteCollectionReq ns val opts lopts) = True"

primrec conc_post ::
  "('k, 'q, 'a ObjectMeta_scheme) kind_desc \<Rightarrow> ('a ObjectMeta_scheme \<Rightarrow> 'k) \<Rightarrow> bool \<Rightarrow> nat \<Rightarrow>
     'a request \<Rightarrow> 'a answer \<Rightarrow> ('s, 'k, 'a ObjectMeta_scheme) conc_state \<Rightarrow> bool" where
  "conc_post d key nodel i (GetReq ns n) a c = (\<exists>x. a = ObjectReply x \<and> read_post d x c)"
| "conc_post d key nodel i (ListReq ns lopts) a c = (\<exists>x. a = ListReply x \<and> list_post x c)"
| "conc_post d key nodel i (WatchReq ns lopts) a c = (\<exists>x. a = WatchReply x \<and> watch_post x c)"
| "conc_post d key nodel i (CreateReq e ns obj val opts) a c =
     (\<exists>x. a = ObjectReply x \<and> create_post d key nodel i opts x c)"
| "conc_post d key nodel i (UpdateReq ns n updated uval force opts) a c =
     (\<exists>x. a = FlagReply x \<and> update_post d key i opts x c)"
| "conc_post d key nodel i (DeleteReq ns n val opts) a c =
     (\<exists>x. a = FlagReply x \<and> delete_post d key ns n opts x c)"
| "conc_post d key nodel i (DeleteCollectionReq ns val opts lopts) a c =
     (\<exists>x. a = ListReply x \<and> (\<forall>l. x = Inr l \<longrightarrow> collection_post d key ns opts (Items l) c))"

definition pool_runs ::
  "('s, 'k, 'a, 'a answer) handler list \<Rightarrow> ('s, 'k, 'a ObjectMeta_scheme) conc_state \<Rightarrow>
     ('s, 'k, 'a, 'a answer) handler list \<Rightarrow> ('s, 'k, 'a ObjectMeta_scheme) conc_state \<Rightarrow> bool" where
  "pool_runs ps c ps' c' \<longleftrightarrow> (\<lambda>p p'. pool_step p p' \<and> conc_room (fst p))\<^sup>*\<^sup>* (c, ps) (c', ps')"

context framed_kind
begin

lemma ok_request:
  assumes "meta_kept good canon" and "conc_legal d good_key good_sel good req"
    and "nodel \<longrightarrow> \<not> deletes req"
  shows "ok start nodel (conc_post d key nodel i req) (conc_request d S key i req) c"
proof (cases req)
  case (GetReq ns n)
  with assms(2) show ?thesis by (auto simp: fmap_prog_def intro!: conc.ok_fmap conc.ok_weaken [OF ok_Get])
next
  case (ListReq ns lopts)
  with assms(2) show ?thesis
    by (auto simp: fmap_prog_def intro!: conc.ok_fmap conc.ok_weaken [OF ok_List])
next
  case (WatchReq ns lopts)
  with assms(2) show ?thesis by (auto simp: fmap_prog_def intro!: conc.ok_fmap conc.ok_weaken [OF ok_Watch])
next
  case (CreateReq e ns obj val opts)
  with assms show ?thesis by (auto simp: fmap_prog_def intro!: conc.ok_fmap conc.ok_weaken [OF ok_Create [OF assms(1)]])
next
  case (UpdateReq ns n updated uval force opts)
  with assms show ?thesis by (auto simp: fmap_prog_def intro!: conc.ok_fmap conc.ok_weaken [OF ok_Update [OF assms(1)]])
next
  case (DeleteReq ns n val opts)
  with assms show ?thesis by (auto simp: fmap_prog_def intro!: conc.ok_fmap conc.ok_weaken [OF ok_Delete])
next
  case (DeleteCollectionReq ns val opts lopts)
  with assms show ?thesis by (auto simp: fmap_prog_def intro!: conc.ok_fmap conc.ok_weaken [OF ok_DeleteCollection])
qed

lemma pool_sound:
  assumes "meta_kept good canon" and "inv (store_db w)" and "all_served view w" and "versions_fresh view w"
    and "list_all (conc_legal d good_key good_sel good) reqs" and "nodel \<longrightarrow> \<not> list_ex deletes reqs"
    and "pool_runs (conc_pool d S key reqs) (conc_start w) ps c"
  shows "conc_inv view inv (view (store_db w)) nodel c"
    and "i < length reqs \<Longrightarrow> ps ! i = Return a \<Longrightarrow> conc_post d key nodel i (reqs ! i) a c"
proof -
  note start = conc_start_inv [where iv = inv and vw = view, OF assms(2-4), of nodel]
  have thread: "ok (view (store_db w)) nodel (conc_post d key nodel i (reqs ! i))
      (conc_pool d S key reqs ! i) (conc_start w)" if "i < length (conc_pool d S key reqs)" for i
    using that assms(5,6) by (auto simp: list_all_length list_ex_length intro!: ok_request [OF assms(1)])
  show "conc_inv view inv (view (store_db w)) nodel c"
    using conc.pool_ok [OF assms(7) [unfolded pool_runs_def] start thread] by simp
  show "conc_post d key nodel i (reqs ! i) a c" if "i < length reqs" "ps ! i = Return a"
    using conc.pool_result [OF assms(7) [unfolded pool_runs_def] start thread, of i a] that by simp
qed

text \<open>No two stored reports have the same version, and all are annotated.\<close>

lemma conc_inv_fresh:
  assumes "conc_inv view inv start nodel c"
    and "\<And>k k' r r'. start k = Some r \<Longrightarrow> start k' = Some r' \<Longrightarrow>
       ResourceVersion r = ResourceVersion r' \<Longrightarrow> k = k'"
  shows "versions_fresh view (conc_rest c)" and "all_served view (conc_rest c)"
proof -
  have entry: "conc_entry start c k r" if "view (conc_db c) k = Some r" for k r
    using that assms(1) by (simp add: conc_inv_def)
  have "k = k'" if "conc_entry start c k r" "conc_entry start c k' r'"
    "ResourceVersion r = ResourceVersion r'" for k k' r r'
    using that assms(2) [of k r k' r'] by (auto simp: conc_entry_def split: option.splits)
  then show "versions_fresh view (conc_rest c)"
    using entry unfolding versions_fresh_def conc_entry_def by metis
  show "all_served view (conc_rest c)"
    using entry by (simp add: all_served_def conc_entry_def)
qed

lemma interleaved_sound:
  assumes "meta_kept good canon" and "inv (store_db w)" and "all_served view w" and "versions_fresh view w"
    and "list_all (conc_legal d good_key good_sel good) reqs"
    and "pool_runs (conc_pool d S key reqs) (conc_start w) ps c"
  shows "inv (conc_db c) \<and> all_served view (conc_rest c) \<and> versions_fresh view (conc_rest c)"
proof -
  have inv: "conc_inv view inv (view (store_db w)) False c"
    using pool_sound(1) [OF assms(1-5) _ assms(6)] by simp
  have "k = k'" if "view (store_db w) k = Some r" "view (store_db w) k' = Some r'"
    "ResourceVersion r = ResourceVersion r'" for k k' r r'
    using that assms(4) unfolding versions_fresh_def by blast
  from conc_inv_fresh [OF inv this] inv show ?thesis by (simp add: conc_inv_def)
qed

end

text \<open>Every kind of report is framed by nothing.\<close>

lemma rest_framed:
  assumes "rest_kind S key sel canon lenient gk gq good vw iv d"
  shows "framed_kind S key sel canon lenient gk gq good vw iv d (\<lambda>_ _. True)"
  using assms by (simp add: framed_kind_def framed_kind_axioms_def)

subsection \<open>How many actions a request takes\<close>

text \<open>
  At most; the deletion of a collection takes as many as it finds reports to delete, which only the
  storage knows, and has no bound here.
\<close>

primrec actions :: "'a request \<Rightarrow> nat option" where
  "actions (GetReq ns n) = Some 1"
| "actions (ListReq ns lopts) = Some 1"
| "actions (WatchReq ns lopts) = Some 2"
| "actions (CreateReq e ns obj val opts) = Some 3"
| "actions (UpdateReq ns n updated uval force opts) = Some 4"
| "actions (DeleteReq ns n val opts) = Some 3"
| "actions (DeleteCollectionReq ns val opts lopts) = None"

lemma at_most_actions:
  "at_most (conc_act f) (Suc n)" "at_most (conc_draw i k) (Suc n)" "at_most (conc_createR S i k r) (Suc n)"
  "at_most (conc_updateR S r) (Suc n)" "at_most (conc_deleteK S k r) (Suc n)" "at_most (conc_Action t r) (Suc n)" "at_most (conc_register x) (Suc n)"
  by (simp_all add: conc_action_defs at_most_act)

lemma at_most_fmap: "at_most p n \<Longrightarrow> at_most (fmap_prog f p) n"
  using at_most_bind [of p n "\<lambda>x. Return (f x)" 0] by (simp add: fmap_prog_def)

lemma at_most_then: "at_most p (Suc 0) \<Longrightarrow> (\<And>x. at_most (k x) n) \<Longrightarrow> at_most (bind_prog p k) (Suc n)"
  using at_most_bind [of p "Suc 0" k n] by simp

lemma at_most_create: "at_most (conc_create d S i e r) (Suc (Suc n))"
  unfolding conc_create_def Let_def by (intro at_most_then at_most_actions) simp

lemma at_most_update: "at_most (conc_update d S i r) (Suc (Suc n))"
  unfolding conc_update_def Let_def by (intro at_most_then at_most_actions) simp

lemma at_most_announce: "at_most (bind_prog (conc_Action t r) (\<lambda>x. Return y)) (Suc n)"
  by (intro at_most_then at_most_actions) simp

lemma at_most_request:
  assumes "actions req = Some n"
  shows "at_most (conc_request d S key i req) n"
proof (cases req)
  case (WatchReq ns lopts)
  with assms show ?thesis
    by (auto simp: conc_Watch_def numeral_2_eq_2 split: option.split sum.split
        intro!: at_most_fmap at_most_then at_most_actions)
next
  case (CreateReq e ns obj val opts)
  have "at_most (bind_prog (conc_create d S i e r1) (\<lambda>(r, x). case x of
         Some err \<Rightarrow> Return (Inl (kd_create_err d (Name r1) err))
       | None \<Rightarrow> bind_prog (conc_Action Added r) (\<lambda>_. Return (Inr (obj_of d r))))) (2 + 1)" for r1
    by (rule at_most_bind)
      (auto simp: numeral_2_eq_2 at_most_create split: option.split intro: at_most_announce)
  with assms CreateReq show ?thesis
    by (auto simp: conc_Create_def split: option.split intro!: at_most_fmap)
next
  case (UpdateReq ns n' updated uval force opts)
  have upd: "at_most (bind_prog (conc_update d S i r1) (\<lambda>(r, x). case x of
         Some err \<Rightarrow> Return (Inl (kd_update_err d err))
       | None \<Rightarrow> bind_prog (conc_Action Modified r) (\<lambda>_. Return (Inr (obj_of d r, True))))) (2 + 1)"
    "at_most (bind_prog (conc_update d S i r1) (\<lambda>(r, x).
         bind_prog (conc_Action Modified r) (\<lambda>_. Return (Inr (obj_of d r, True))))) (2 + 1)" for r1
    by (rule at_most_bind;
        auto simp: numeral_2_eq_2 at_most_update split: option.split intro: at_most_announce)+
  have "at_most (conc_Update d S i ns n' updated uval force opts) (Suc (2 + 1))"
    unfolding conc_Update_def
    by (rule at_most_then, rule at_most_actions)
      (use upd in \<open>auto simp: Let_def split: option.split prod.split\<close>)
  with assms UpdateReq show ?thesis by (auto intro: at_most_fmap)
next
  case (DeleteReq ns n' val opts)
  with assms show ?thesis
    by (auto simp: conc_Delete_def numeral_3_eq_3 split: option.split sum.split
        intro!: at_most_fmap at_most_then at_most_actions)
qed (use assms in \<open>auto intro: at_most_fmap at_most_actions\<close>)

lemma pool_actions:
  assumes "(pool_step ^^ n) (c, conc_pool d S key reqs) p" and "list_all (\<lambda>r. actions r \<noteq> None) reqs"
  shows "n \<le> sum_list (map (\<lambda>r. the (actions r)) reqs)"
  using assms
  by (intro pool_bound [OF assms(1)])
    (auto simp: list_all2_conv_all_nth list_all_length intro!: at_most_request)

end
