(* ===== verification/Concurrent.thy ===== *)
theory Concurrent
  imports Interleave ApiPolr ApiCpolr ApiEphr ApiCephr
begin

section \<open>Policy reports under concurrent requests\<close>

text \<open>
  The results of \<open>Threads\<close> and \<open>Interleave\<close> for the store of policy reports: a handler that is not
  disturbed is the one of \<open>ApiPolr\<close>; any number of requests, interleaved in any way, all end; and what
  the store keeps, and does not keep, under interleaving.
\<close>

abbreviation polr_pool where
  "polr_pool st \<equiv> conc_pool polr_desc (polr_ops st) ns_key"

text \<open>What a policy report has beside its metadata.\<close>

type_synonym polr_fields = "unit PolicyReport_ext"

text \<open>A request made of \<^verbatim>\<open>polrStore\<close>; a watch is registered as soon as it has listed the reports.\<close>

primrec polr_request ::
  "'s Storage \<Rightarrow> polr_fields request \<Rightarrow> 's polrState \<Rightarrow> polr_fields answer \<times> 's polrState" where
  "polr_request st (GetReq ns n) w = map_prod ObjectReply id (polrStore_Get st ns n w)"
| "polr_request st (ListReq ns lopts) w = map_prod ObjectReply id (polrStore_List st ns lopts w)"
| "polr_request st (WatchReq ns lopts) w =
     (case polrStore_Watch st ns lopts w of
        (x, w') \<Rightarrow> (WatchReply (map_sum id (\<lambda>r. (r, length (broadcast w'))) x), w'))"
| "polr_request st (CreateReq e ns obj val opts) w =
     map_prod ObjectReply id (polrStore_Create st e ns obj val opts w)"
| "polr_request st (UpdateReq ns n updated uval force opts) w =
     map_prod FlagReply id (polrStore_Update st ns n updated uval force opts w)"
| "polr_request st (DeleteReq ns n val opts) w =
     map_prod FlagReply id (polrStore_Delete st ns n val opts w)"
| "polr_request st (DeleteCollectionReq ns val opts lopts) w =
     map_prod ObjectReply id (polrStore_DeleteCollection st ns val opts lopts w)"

text \<open>The answers of \<open>Interleave\<close> carry lists of reports where the stores return an object.\<close>

primrec plain_answer :: "('a ObjectMeta_scheme ReportList \<Rightarrow> Object) \<Rightarrow> 'a answer \<Rightarrow> 'a answer" where
  "plain_answer f (ObjectReply x) = ObjectReply x"
| "plain_answer f (FlagReply x) = FlagReply x"
| "plain_answer f (ListReply x) = ObjectReply (map_sum id f x)"
| "plain_answer f (WatchReply x) = WatchReply x"

abbreviation polr_answer :: "polr_fields answer \<Rightarrow> polr_fields answer" where
  "polr_answer \<equiv> plain_answer PolicyReportListObj"

lemma polr_request_rest:
  "polr_request st req w = apfst polr_answer (rest_request polr_desc (polr_ops st) ns_key req w)"
  by (cases req)
    (simp_all add: polr_Get_eq polr_List_eq polr_Watch_eq polr_Create_eq polr_Update_eq polr_Delete_eq
      polr_DeleteCollection_eq case_prod_unfold apfst_def map_prod_def)

text \<open>
  A handler whose actions are not interleaved with those of other requests answers as the method of
  \<^verbatim>\<open>polrStore\<close> does and leaves the state it leaves: cutting the handlers into atomic actions has
  added nothing and left out nothing.
\<close>

lemma polr_handlers_alone:
  "map_prod polr_answer conc_rest (run (conc_request polr_desc (polr_ops st) ns_key i req) c) =
     polr_request st req (conc_rest c)"
  using run_parts [OF run_conc_request, of polr_desc "polr_ops st" ns_key i req c]
  by (simp add: polr_request_rest prod_eq_iff)

text \<open>
  However many requests the store is given at once and however their actions interleave, no
  interleaving goes on for ever, one that cannot go on has answered every request, and unless a
  collection is deleted the number of its steps is bounded by the number of requests of each sort:
  at most one action for a get or a list, two for a watch, three for a create or a delete and four
  for an update, whatever the other requests do.
\<close>

lemma polr_requests_end:
  "(\<nexists>f. f 0 = (c, polr_pool st reqs) \<and> (\<forall>n. pool_step (f n) (f (Suc n)))) \<and>
   (\<forall>c' ps. pool_step\<^sup>*\<^sup>* (c, polr_pool st reqs) (c', ps) \<longrightarrow>
      length ps = length reqs \<and> (list_all ended ps \<or> (\<exists>p. pool_step (c', ps) p))) \<and>
   (\<forall>n p. (pool_step ^^ n) (c, polr_pool st reqs) p \<longrightarrow> list_all (\<lambda>r. actions r \<noteq> None) reqs \<longrightarrow>
      n \<le> sum_list (map (\<lambda>r. the (actions r)) reqs))"
proof (intro conjI allI impI)
  show "\<nexists>f. f 0 = (c, polr_pool st reqs) \<and> (\<forall>n. pool_step (f n) (f (Suc n)))"
    using pool_no_infinite by blast
  fix c' ps
  assume "pool_step\<^sup>*\<^sup>* (c, polr_pool st reqs) (c', ps)"
  from pool_step_length [OF this] show "length ps = length reqs" by simp
  show "list_all ended ps \<or> (\<exists>p. pool_step (c', ps) p)" using pool_progress [of ps c'] by blast
qed (rule pool_actions)

subsection \<open>Sample interleavings\<close>

text \<open>A single create takes no more than three steps.\<close>

definition sample_create :: "polr_fields request" where
  "sample_create = CreateReq sample_env ''default'' (PolicyReportObj sample_polr) accept sample_opts"

lemma polr_requests_end_sample:
  "\<nexists>p. (pool_step ^^ 4) (conc_start (sample_state []), polr_pool polr_lists [sample_create]) p"
proof -
  have "list_all (\<lambda>r. actions r \<noteq> None) [sample_create]" "sum_list (map (\<lambda>r. the (actions r)) [sample_create]) = 3"
    by (simp_all add: sample_create_def)
  with polr_requests_end [of "conc_start (sample_state [])" polr_lists "[sample_create]"] show ?thesis
    by fastforce
qed

lemma rooms_runs:
  "along conc_room is p \<Longrightarrow> pool_runs (snd p) (fst p) (snd (schedule is p)) (fst (schedule is p))"
  unfolding pool_runs_def prod.collapse by (rule along_runs)

definition sample_update :: "polr_fields request" where
  "sample_update = UpdateReq ''default'' ''a'' (\<lambda>old. (PolicyReportObj sample_polr, None)) accept_update
     False sample_opts"

definition sample_watch :: "polr_fields request" where
  "sample_watch = WatchReq ''default'' (Some sample_lopts)"

definition polr_schedule where
  "polr_schedule is reqs rs = schedule is (conc_start (sample_state rs), polr_pool polr_lists reqs)"

lemma sample_legal [simp]:
  "conc_legal polr_desc (\<lambda>_. True) (\<lambda>_. True) (\<lambda>_. True) sample_create"
  "conc_legal polr_desc (\<lambda>_. True) (\<lambda>_. True) (\<lambda>_. True) sample_update"
  "\<not> deletes sample_create" "\<not> deletes sample_update" "actions sample_create = Some 3"
  by (simp_all add: sample_create_def sample_update_def)

lemma sample_start [simp]:
  "all_served (list_view ns_key) (sample_state [])" "versions_fresh (list_view ns_key) (sample_state [])"
  by (simp_all add: all_served_def versions_fresh_def)

text \<open>
  Two requests that create the same report: both draw a version, then the second stores its report
  and announces it; the first finds the key taken.
\<close>

definition two_creates where
  "two_creates = polr_schedule [0, 1, 1, 0, 1] [sample_create, sample_create] []"

lemma two_creates_run:
  "pool_runs (polr_pool polr_lists [sample_create, sample_create]) (conc_start (sample_state []))
     (snd two_creates) (fst two_creates)"
proof -
  have "along conc_room [0, 1, 1, 0, 1]
      (conc_start (sample_state []), polr_pool polr_lists [sample_create, sample_create])"
    by code_simp
  from rooms_runs [OF this] show ?thesis by (simp add: two_creates_def polr_schedule_def)
qed

text \<open>
  Whatever requests run at the same time and however their actions interleave, as long as the
  counter is not at its last value: the storage stays sound, every stored report carries the
  served-by annotation, and no two stored reports have the same resource version.
\<close>

lemma polr_interleaved_sound:
  assumes "report_storage (polr_ops st) ns_key ns_sel canon lenient gk gq good vw iv"
    and "meta_kept good canon" and "iv (store_db w)" and "all_served vw w" and "versions_fresh vw w"
    and "list_all (conc_legal polr_desc gk gq good) reqs"
    and "pool_runs (polr_pool st reqs) (conc_start w) ps c"
  shows "iv (conc_db c) \<and> all_served vw (conc_rest c) \<and> versions_fresh vw (conc_rest c)"
  by (rule framed_kind.interleaved_sound [OF rest_framed [OF polr_rest_kind [OF assms(1)]] assms(2-7)])

lemma polr_interleaved_sound_sample:
  "versions_fresh (list_view ns_key) (conc_rest (fst two_creates)) \<and>
   all_served (list_view ns_key) (conc_rest (fst two_creates)) \<and>
   map_option ResourceVersion (list_view ns_key (conc_db (fst two_creates)) (''default'', ''a'')) = Some ''6''"
proof -
  have "map_option ResourceVersion (list_view ns_key (conc_db (fst two_creates)) (''default'', ''a'')) = Some ''6''"
    by code_simp
  with polr_interleaved_sound [OF lists_contract(1) sample_kept _ _ _ _ two_creates_run] show ?thesis
    by simp
qed

text \<open>The other three kinds keep the same under interleaving.\<close>

lemma cpolr_interleaved_sound:
  assumes "report_storage (cpolr_ops st) cl_key cl_sel canon lenient gk gq good vw iv"
    and "meta_kept good canon" and "iv (store_db w)" and "all_served vw w" and "versions_fresh vw w"
    and "list_all (conc_legal cpolr_desc gk gq good) reqs"
    and "pool_runs (conc_pool cpolr_desc (cpolr_ops st) cl_key reqs) (conc_start w) ps c"
  shows "iv (conc_db c) \<and> all_served vw (conc_rest c) \<and> versions_fresh vw (conc_rest c)"
  by (rule framed_kind.interleaved_sound [OF rest_framed [OF cpolr_rest_kind [OF assms(1)]] assms(2-7)])

lemma ephr_interleaved_sound:
  assumes "report_storage (ephr_ops st) ns_key ns_sel canon lenient gk gq good vw iv"
    and "meta_kept good canon" and "iv (store_db w)" and "all_served vw w" and "versions_fresh vw w"
    and "list_all (conc_legal ephr_desc gk gq good) reqs"
    and "pool_runs (conc_pool ephr_desc (ephr_ops st) ns_key reqs) (conc_start w) ps c"
  shows "iv (conc_db c) \<and> all_served vw (conc_rest c) \<and> versions_fresh vw (conc_rest c)"
  by (rule framed_kind.interleaved_sound [OF rest_framed [OF ephr_rest_kind [OF assms(1)]] assms(2-7)])

lemma cephr_interleaved_sound:
  assumes "report_storage (cephr_ops st) cl_key cl_sel canon lenient gk gq good vw iv"
    and "meta_kept good canon" and "iv (store_db w)" and "all_served vw w" and "versions_fresh vw w"
    and "list_all (conc_legal cephr_desc gk gq good) reqs"
    and "pool_runs (conc_pool cephr_desc (cephr_ops st) cl_key reqs) (conc_start w) ps c"
  shows "iv (conc_db c) \<and> all_served vw (conc_rest c) \<and> versions_fresh vw (conc_rest c)"
  by (rule framed_kind.interleaved_sound [OF rest_framed [OF cephr_rest_kind [OF assms(1)]] assms(2-7)])

text \<open>
  What a client may rely on however its request is interleaved with others: a get or a list
  returns reports that were stored by this server; a create or update that succeeds has a resource
  version no other request was given, and its event is in the log by the time it is answered; so is
  the event of every successful delete, and one for every item of a collection that was deleted.
\<close>

lemma polr_interleaved_answers:
  assumes "report_storage (polr_ops st) ns_key ns_sel canon lenient gk gq good vw iv"
    and "meta_kept good canon" and "iv (store_db w)" and "all_served vw w" and "versions_fresh vw w"
    and "list_all (conc_legal polr_desc gk gq good) reqs"
    and "pool_runs (polr_pool st reqs) (conc_start w) ps c"
    and "i < length reqs" and "result (ps ! i) = Some a"
  shows "conc_post polr_desc ns_key False i (reqs ! i) a c"
  using framed_kind.pool_sound(2) [OF rest_framed [OF polr_rest_kind [OF assms(1)]] assms(2-6) _ assms(7,8), of False] assms(9)
  by simp

lemma polr_interleaved_answers_sample:
  "\<exists>a. result (snd two_creates ! 1) = Some a \<and>
     conc_post polr_desc ns_key False 1 sample_create a (fst two_creates)"
proof -
  have "result (snd two_creates ! 1) \<noteq> None" by code_simp
  then obtain a where "result (snd two_creates ! 1) = Some a" by blast
  with polr_interleaved_answers [OF lists_contract(1) sample_kept _ _ _ _ two_creates_run, of 1 a]
  show ?thesis by simp
qed

text \<open>The report a request has written, if it succeeded.\<close>

primrec written ::
  "('k, 'q, 'a ObjectMeta_scheme) kind_desc \<Rightarrow> 'a request \<Rightarrow> 'a answer \<Rightarrow> 'a ObjectMeta_scheme option" where
  "written d (GetReq ns n) a = None"
| "written d (ListReq ns lopts) a = None"
| "written d (WatchReq ns lopts) a = None"
| "written d (CreateReq e ns obj val opts) a =
     (case a of ObjectReply (Inr obj) \<Rightarrow> if isDryRun opts then None else as_r d obj | _ \<Rightarrow> None)"
| "written d (UpdateReq ns n updated uval force opts) a =
     (case a of FlagReply (Inr (obj, b)) \<Rightarrow> if isDryRun opts then None else as_r d obj | _ \<Rightarrow> None)"
| "written d (DeleteReq ns n val opts) a = None"
| "written d (DeleteCollectionReq ns val opts lopts) a = None"

primrec is_create :: "'a request \<Rightarrow> bool" where
  "is_create (GetReq ns n) = False"
| "is_create (ListReq ns lopts) = False"
| "is_create (WatchReq ns lopts) = False"
| "is_create (CreateReq e ns obj val opts) = True"
| "is_create (UpdateReq ns n updated uval force opts) = False"
| "is_create (DeleteReq ns n val opts) = False"
| "is_create (DeleteCollectionReq ns val opts lopts) = False"

lemma written_post:
  assumes "written d req a = Some r" and "conc_post d key nodel i req a c" and "\<And>r. as_r d (obj_of d r) = Some r"
  shows "drew i (key r) (ResourceVersion r) c"
    and "nodel \<Longrightarrow> is_create req \<Longrightarrow> winner c (key r) = Some i"
  using assms
  by (cases req; force simp: create_post_def update_post_def wrote_def
      split: answer.splits sum.splits if_splits prod.splits)+

text \<open>
  Two different requests that succeed in writing get different resource versions; and when no
  request deletes, at most one of any number of concurrent creates of the same report succeeds.
\<close>

lemma polr_writes_exclusive:
  assumes "report_storage (polr_ops st) ns_key ns_sel canon lenient gk gq good vw iv"
    and "meta_kept good canon" and "iv (store_db w)" and "all_served vw w" and "versions_fresh vw w"
    and "list_all (conc_legal polr_desc gk gq good) reqs"
    and "pool_runs (polr_pool st reqs) (conc_start w) ps c"
    and "i < length reqs" "result (ps ! i) = Some a" "written polr_desc (reqs ! i) a = Some r"
    and "j < length reqs" "result (ps ! j) = Some b" "written polr_desc (reqs ! j) b = Some q"
    and "i \<noteq> j"
  shows "ResourceVersion r \<noteq> ResourceVersion q \<and>
    (\<not> list_ex deletes reqs \<longrightarrow> is_create (reqs ! i) \<longrightarrow> is_create (reqs ! j) \<longrightarrow> ns_key r \<noteq> ns_key q)"
proof -
  let ?nodel = "\<not> list_ex deletes reqs"
  note post = framed_kind.pool_sound(2) [OF rest_framed [OF polr_rest_kind [OF assms(1)]] assms(2-6) _ assms(7), of ?nodel]
  have i: "conc_post polr_desc ns_key ?nodel i (reqs ! i) a c" using post [of i a] assms(8,9) by simp
  have j: "conc_post polr_desc ns_key ?nodel j (reqs ! j) b c" using post [of j b] assms(11,12) by simp
  have as_obj: "as_r polr_desc (obj_of polr_desc r) = Some r" for r by simp
  from written_post(1) [OF assms(10) i as_obj] written_post(1) [OF assms(13) j as_obj] assms(14)
  have "ResourceVersion r \<noteq> ResourceVersion q" by (auto simp: drew_def)
  moreover have "ns_key r \<noteq> ns_key q" if ?nodel "is_create (reqs ! i)" "is_create (reqs ! j)"
    using written_post(2) [OF assms(10) i as_obj that(1,2)] written_post(2) [OF assms(13) j as_obj that(1,3)] assms(14)
    by auto
  ultimately show ?thesis by blast
qed

definition other_create :: "polr_fields request" where
  "other_create = CreateReq sample_env ''default'' (PolicyReportObj (sample_polr\<lparr>Name := ''b''\<rparr>)) accept
     sample_opts"

definition two_writes where
  "two_writes = polr_schedule [0, 1, 1, 0, 1, 0] [sample_create, other_create] []"

lemma two_writes_run:
  "pool_runs (polr_pool polr_lists [sample_create, other_create]) (conc_start (sample_state []))
     (snd two_writes) (fst two_writes)"
proof -
  have "along conc_room [0, 1, 1, 0, 1, 0]
      (conc_start (sample_state []), polr_pool polr_lists [sample_create, other_create])"
    by code_simp
  from rooms_runs [OF this] show ?thesis by (simp add: two_writes_def polr_schedule_def)
qed

lemma polr_writes_exclusive_sample:
  "\<exists>a b r q. result (snd two_writes ! 0) = Some a \<and> written polr_desc sample_create a = Some r \<and>
     result (snd two_writes ! 1) = Some b \<and> written polr_desc other_create b = Some q \<and>
     ResourceVersion r \<noteq> ResourceVersion q \<and> ns_key r \<noteq> ns_key q"
proof -
  have "Option.bind (result (snd two_writes ! 0)) (written polr_desc sample_create) \<noteq> None"
    "Option.bind (result (snd two_writes ! 1)) (written polr_desc other_create) \<noteq> None"
    by code_simp+
  then obtain a r b q where res: "result (snd two_writes ! 0) = Some a" "written polr_desc sample_create a = Some r"
    "result (snd two_writes ! 1) = Some b" "written polr_desc other_create b = Some q"
    by (auto simp: bind_eq_Some_conv)
  have "conc_legal polr_desc (\<lambda>_. True) (\<lambda>_. True) (\<lambda>_. True) other_create" "\<not> deletes other_create"
    "is_create sample_create" "is_create other_create"
    by (simp_all add: other_create_def sample_create_def)
  with polr_writes_exclusive [OF lists_contract(1) sample_kept _ _ _ _ two_writes_run, of 0 a r 1 b q] res
  show ?thesis by auto
qed

text \<open>
  C29. What interleaving breaks. Two updates of a report that run at the same time can both succeed, both
  computed from the same stored report, and announce their results in the opposite order of their writes: a
  watcher that replays the events ends with the report of version 5 where the storage has version 6.
\<close>

theorem polr_updates_reordered:
  "\<exists>c ps. pool_step\<^sup>*\<^sup>* (conc_start (sample_state [sample_polr]), polr_pool polr_lists [sample_update, sample_update]) (c, ps) \<and>
     list_all ended ps \<and> list_all (\<lambda>p. Option.bind (result p) (written polr_desc sample_update) \<noteq> None) ps \<and>
     map_option ResourceVersion (list_view ns_key (conc_db c) (''default'', ''a'')) = Some ''6'' \<and>
     map_option ResourceVersion
       (fold (apply_event ns_key id) (conc_log c) (list_view ns_key [sample_polr]) (''default'', ''a'')) = Some ''5''"
proof -
  let ?p = "polr_schedule [0, 1, 0, 0, 1, 1, 1, 0] [sample_update, sample_update] [sample_polr]"
  have "list_all ended (snd ?p)"
    "list_all (\<lambda>p. Option.bind (result p) (written polr_desc sample_update) \<noteq> None) (snd ?p)"
    "map_option ResourceVersion (list_view ns_key (conc_db (fst ?p)) (''default'', ''a'')) = Some ''6''"
    "map_option ResourceVersion (fold (apply_event ns_key id) (conc_log (fst ?p))
       (list_view ns_key [sample_polr]) (''default'', ''a'')) = Some ''5''"
    by code_simp+
  moreover have "pool_step\<^sup>*\<^sup>* (conc_start (sample_state [sample_polr]),
      polr_pool polr_lists [sample_update, sample_update]) (fst ?p, snd ?p)"
    unfolding polr_schedule_def prod.collapse by (rule schedule_steps)
  ultimately show ?thesis by blast
qed

text \<open>The list call of the sample watch, evaluated.\<close>

lemma sample_List:
  "rest_List polr_desc (polr_ops polr_lists) ns (Some sample_lopts) =
     (\<lambda>w. (Inr (zero_List\<lparr>list_ResourceVersion := ''1'',
                          Items := filter (\<lambda>r. ns_sel ns (ns_key r)) (store_db w)\<rparr>), w))"
proof
  fix w
  have "desired_rv ''1'' = Inr 1" "FormatUint 1 = ''1''" by (simp_all add: desired_rv_def num_eval)
  then show "rest_List polr_desc (polr_ops polr_lists) ns (Some sample_lopts) w =
     (Inr (zero_List\<lparr>list_ResourceVersion := ''1'',
                      Items := filter (\<lambda>r. ns_sel ns (ns_key r)) (store_db w)\<rparr>), w)"
    by (simp add: rest_List_def rest_list_def list_ns_ops list_ops_def list_list_def filter_items_eq
        selected_def deref_all_map)
qed

lemma sample_watch_handler:
  "conc_request polr_desc (polr_ops polr_lists) ns_key i sample_watch =
     fmap_prog WatchReply
       (bind_prog (conc_act (\<lambda>w. (filter (\<lambda>r. ns_sel ''default'' (ns_key r)) (store_db w), w)))
          (\<lambda>rs. conc_register (WatchWithPrefix (map (Pair Added) rs))))"
  by (simp add: sample_watch_def conc_Watch_def sample_List [simplified] conc_act_def act_def)

text \<open>
  C30. A watch that asks for the present reports lists them first and is registered with the broadcaster
  afterwards. A report that is created in between is in neither: the watcher is never told of it.
\<close>

theorem polr_watch_misses:
  "\<exists>c ps evs n. pool_step\<^sup>*\<^sup>* (conc_start (sample_state []), polr_pool polr_lists [sample_create, sample_watch]) (c, ps) \<and>
     list_all ended ps \<and> result (ps ! 1) = Some (WatchReply (Inr (WatchWithPrefix evs, n))) \<and>
     list_view ns_key (conc_db c) (''default'', ''a'') \<noteq> None \<and> evs @ drop n (conc_log c) = []"
proof -
  let ?p = "polr_schedule [1, 0, 0, 0, 1] [sample_create, sample_watch] []"
  have pool: "polr_pool polr_lists [sample_create, sample_watch] =
      [conc_request polr_desc (polr_ops polr_lists) ns_key 0 sample_create,
       fmap_prog WatchReply
         (bind_prog (conc_act (\<lambda>w. (filter (\<lambda>r. ns_sel ''default'' (ns_key r)) (store_db w), w)))
            (\<lambda>rs. conc_register (WatchWithPrefix (map (Pair Added) rs))))]"
    by (simp add: conc_pool_def sample_watch_handler [simplified])
  have "list_all ended (snd ?p)" "list_view ns_key (conc_db (fst ?p)) (''default'', ''a'') \<noteq> None"
    "case result (snd ?p ! 1) of Some (WatchReply (Inr (WatchWithPrefix evs, n))) \<Rightarrow>
       List.null (evs @ drop n (conc_log (fst ?p))) | _ \<Rightarrow> False"
    unfolding polr_schedule_def pool
    by code_simp+
  then have "list_all ended (snd ?p) \<and> list_view ns_key (conc_db (fst ?p)) (''default'', ''a'') \<noteq> None \<and>
      (\<exists>evs n. result (snd ?p ! 1) = Some (WatchReply (Inr (WatchWithPrefix evs, n))) \<and>
               evs @ drop n (conc_log (fst ?p)) = [])"
    by (simp split: option.splits answer.splits sum.splits prod.splits watch_result.splits)
  moreover have "pool_step\<^sup>*\<^sup>* (conc_start (sample_state []),
      polr_pool polr_lists [sample_create, sample_watch]) (fst ?p, snd ?p)"
    unfolding polr_schedule_def prod.collapse by (rule schedule_steps)
  ultimately show ?thesis by blast
qed

end
