(* ===== verification/ServerThreads.thy ===== *)
theory ServerThreads
  imports Concurrent System Install
begin

section \<open>Requests on all four kinds at the same time\<close>

text \<open>
  The four REST stores of \<^verbatim>\<open>api.Install\<close> share the storage and the version counter, and requests on
  different kinds interleave inside each other's handlers as requests on one kind do. The handlers of
  \<open>Interleave\<close> are lifted to the state of the whole server; what a handler of one kind does is, for the
  handlers of the other three, a step that moves the counter and nothing else they look at.
\<close>

subsection \<open>The state of the server, and each store's part of it\<close>

text \<open>The auxiliary variables of \<open>Interleave\<close>, for each kind.\<close>

record ('k, 'r) ghost =
  g_drawn :: "u64 \<rightharpoonup> nat \<times> 'k"
  g_winner :: "'k \<rightharpoonup> nat"
  g_effects :: "'r event list"

record 's server_conc =
  sc_server :: "'s server_state"
  polr_ghost :: "(string \<times> string, PolicyReport) ghost"
  cpolr_ghost :: "(string, ClusterPolicyReport) ghost"
  ephr_ghost :: "(string \<times> string, EphemeralReport) ghost"
  cephr_ghost :: "(string, ClusterEphemeralReport) ghost"

definition polr_conc :: "'s server_conc \<Rightarrow> ('s, string \<times> string, PolicyReport) conc_state" where
  "polr_conc t = \<lparr>conc_rest = polr_part (sc_server t), drawn = g_drawn (polr_ghost t),
     winner = g_winner (polr_ghost t), effects = g_effects (polr_ghost t)\<rparr>"

definition cpolr_conc :: "'s server_conc \<Rightarrow> ('s, string, ClusterPolicyReport) conc_state" where
  "cpolr_conc t = \<lparr>conc_rest = cpolr_part (sc_server t), drawn = g_drawn (cpolr_ghost t),
     winner = g_winner (cpolr_ghost t), effects = g_effects (cpolr_ghost t)\<rparr>"

definition ephr_conc :: "'s server_conc \<Rightarrow> ('s, string \<times> string, EphemeralReport) conc_state" where
  "ephr_conc t = \<lparr>conc_rest = ephr_part (sc_server t), drawn = g_drawn (ephr_ghost t),
     winner = g_winner (ephr_ghost t), effects = g_effects (ephr_ghost t)\<rparr>"

definition cephr_conc :: "'s server_conc \<Rightarrow> ('s, string, ClusterEphemeralReport) conc_state" where
  "cephr_conc t = \<lparr>conc_rest = cephr_part (sc_server t), drawn = g_drawn (cephr_ghost t),
     winner = g_winner (cephr_ghost t), effects = g_effects (cephr_ghost t)\<rparr>"

definition put_polr_conc :: "('s, string \<times> string, PolicyReport) conc_state \<Rightarrow> 's server_conc \<Rightarrow> 's server_conc" where
  "put_polr_conc c t = t\<lparr>sc_server := put_polr (conc_rest c) (sc_server t),
     polr_ghost := \<lparr>g_drawn = drawn c, g_winner = winner c, g_effects = effects c\<rparr>\<rparr>"

definition put_cpolr_conc :: "('s, string, ClusterPolicyReport) conc_state \<Rightarrow> 's server_conc \<Rightarrow> 's server_conc" where
  "put_cpolr_conc c t = t\<lparr>sc_server := put_cpolr (conc_rest c) (sc_server t),
     cpolr_ghost := \<lparr>g_drawn = drawn c, g_winner = winner c, g_effects = effects c\<rparr>\<rparr>"

definition put_ephr_conc :: "('s, string \<times> string, EphemeralReport) conc_state \<Rightarrow> 's server_conc \<Rightarrow> 's server_conc" where
  "put_ephr_conc c t = t\<lparr>sc_server := put_ephr (conc_rest c) (sc_server t),
     ephr_ghost := \<lparr>g_drawn = drawn c, g_winner = winner c, g_effects = effects c\<rparr>\<rparr>"

definition put_cephr_conc :: "('s, string, ClusterEphemeralReport) conc_state \<Rightarrow> 's server_conc \<Rightarrow> 's server_conc" where
  "put_cephr_conc c t = t\<lparr>sc_server := put_cephr (conc_rest c) (sc_server t),
     cephr_ghost := \<lparr>g_drawn = drawn c, g_winner = winner c, g_effects = effects c\<rparr>\<rparr>"

definition server_conc_start :: "'s server_state \<Rightarrow> 's server_conc" where
  "server_conc_start w = \<lparr>sc_server = w, polr_ghost = \<lparr>g_drawn = Map.empty, g_winner = Map.empty, g_effects = []\<rparr>,
     cpolr_ghost = \<lparr>g_drawn = Map.empty, g_winner = Map.empty, g_effects = []\<rparr>,
     ephr_ghost = \<lparr>g_drawn = Map.empty, g_winner = Map.empty, g_effects = []\<rparr>,
     cephr_ghost = \<lparr>g_drawn = Map.empty, g_winner = Map.empty, g_effects = []\<rparr>\<rparr>"

lemmas conc_parts = polr_conc_def cpolr_conc_def ephr_conc_def cephr_conc_def
  put_polr_conc_def put_cpolr_conc_def put_ephr_conc_def put_cephr_conc_def

interpretation polr_lens: lens polr_conc put_polr_conc
  by unfold_locales (simp_all add: conc_parts parts)

interpretation cpolr_lens: lens cpolr_conc put_cpolr_conc
  by unfold_locales (simp_all add: conc_parts parts)

interpretation ephr_lens: lens ephr_conc put_ephr_conc
  by unfold_locales (simp_all add: conc_parts parts)

interpretation cephr_lens: lens cephr_conc put_cephr_conc
  by unfold_locales (simp_all add: conc_parts parts)

subsection \<open>Requests\<close>

text \<open>What a report has beside its metadata.\<close>

type_synonym ephr_fields = "unit EphemeralReport_ext"

datatype server_request =
    PolrReq "polr_fields request"
  | CpolrReq "polr_fields request"
  | EphrReq "ephr_fields request"
  | CephrReq "ephr_fields request"

datatype server_answer =
    PolrAns "polr_fields answer"
  | CpolrAns "polr_fields answer"
  | EphrAns "ephr_fields answer"
  | CephrAns "ephr_fields answer"

primrec server_prog :: "'s Storage \<Rightarrow> nat \<Rightarrow> server_request \<Rightarrow> ('s server_conc, server_answer) prog" where
  "server_prog st i (PolrReq req) =
     lift_prog polr_conc put_polr_conc (fmap_prog PolrAns (conc_request polr_desc (polr_ops st) ns_key i req))"
| "server_prog st i (CpolrReq req) =
     lift_prog cpolr_conc put_cpolr_conc (fmap_prog CpolrAns (conc_request cpolr_desc (cpolr_ops st) cl_key i req))"
| "server_prog st i (EphrReq req) =
     lift_prog ephr_conc put_ephr_conc (fmap_prog EphrAns (conc_request ephr_desc (ephr_ops st) ns_key i req))"
| "server_prog st i (CephrReq req) =
     lift_prog cephr_conc put_cephr_conc (fmap_prog CephrAns (conc_request cephr_desc (cephr_ops st) cl_key i req))"

definition server_pool ::
  "'s Storage \<Rightarrow> server_request list \<Rightarrow> ('s server_conc, server_answer) prog list" where
  "server_pool st reqs = map (\<lambda>(i, req). server_prog st i req) (List.enumerate 0 reqs)"

lemma server_pool_simps [simp]:
  "length (server_pool st reqs) = length reqs"
  "i < length reqs \<Longrightarrow> server_pool st reqs ! i = server_prog st i (reqs ! i)"
  by (simp_all add: server_pool_def nth_enumerate_eq)

text \<open>The counter is not at its last value.\<close>

definition server_room :: "'s server_conc \<Rightarrow> bool" where
  "server_room t \<longleftrightarrow> version (srv_versioning (sc_server t)) \<noteq> -1"

definition server_runs ::
  "('s server_conc, server_answer) prog list \<Rightarrow> 's server_conc \<Rightarrow>
     ('s server_conc, server_answer) prog list \<Rightarrow> 's server_conc \<Rightarrow> bool" where
  "server_runs ps t ps' t' \<longleftrightarrow> (\<lambda>p p'. pool_step p p' \<and> server_room (fst p))\<^sup>*\<^sup>* (t, ps) (t', ps')"

subsection \<open>What every interleaving keeps\<close>

text \<open>Which request drew which version, and for which report of which kind.\<close>

fun server_drew :: "'s server_conc \<Rightarrow> u64 \<Rightarrow> nat \<Rightarrow> server_key \<Rightarrow> bool" where
  "server_drew t v i (PolrKey k) \<longleftrightarrow> g_drawn (polr_ghost t) v = Some (i, k)"
| "server_drew t v i (CpolrKey k) \<longleftrightarrow> g_drawn (cpolr_ghost t) v = Some (i, k)"
| "server_drew t v i (EphrKey k) \<longleftrightarrow> g_drawn (ephr_ghost t) v = Some (i, k)"
| "server_drew t v i (CephrKey k) \<longleftrightarrow> g_drawn (cephr_ghost t) v = Some (i, k)"

definition drawn_once :: "u64 \<Rightarrow> u64 \<Rightarrow> (u64 \<Rightarrow> nat \<Rightarrow> server_key \<Rightarrow> bool) \<Rightarrow> bool" where
  "drawn_once lo hi D \<longleftrightarrow> lo \<le> hi \<and>
     (\<forall>v i x. D v i x \<longrightarrow> lo \<le> v \<and> v < hi) \<and>
     (\<forall>v i x j y. D v i x \<longrightarrow> D v j y \<longrightarrow> i = j \<and> x = y)"

text \<open>Draws of one kind, whose keys are the \<open>tag k\<close>.\<close>

lemma drawn_once_more:
  assumes "drawn_once v0 n D" and "n \<le> n'"
    and own: "\<And>v i k. D v i (tag k) \<longleftrightarrow> dr v = Some (i, k)" "\<And>v i k. D' v i (tag k) \<longleftrightarrow> dr' v = Some (i, k)"
    and other: "\<And>v i x. x \<notin> range tag \<Longrightarrow> D' v i x = D v i x"
    and more: "dr \<subseteq>\<^sub>m dr'" "\<And>v. dr v = None \<Longrightarrow> dr' v \<noteq> None \<Longrightarrow> n \<le> v" "\<And>v. dr' v \<noteq> None \<Longrightarrow> v < n'"
  shows "drawn_once v0 n' D'"
proof -
  have D': "D v i x \<or> (\<exists>k. x = tag k \<and> dr' v = Some (i, k) \<and> n \<le> v \<and> v < n')" if "D' v i x" for v i x
  proof (cases "x \<in> range tag")
    case True
    then obtain k where k: "x = tag k" by blast
    with that have dr': "dr' v = Some (i, k)" by (simp add: own)
    show ?thesis
    proof (cases "dr v")
      case None
      with dr' k more(2,3) [of v] show ?thesis by auto
    next
      case (Some p)
      with more(1) dr' have "dr v = Some (i, k)" unfolding map_le_def by (metis domI)
      then show ?thesis by (simp add: k own)
    qed
  qed (use that other in auto)
  have old: "v0 \<le> v \<and> v < n" if "D v i x" for v i x using that assms(1) by (auto simp: drawn_once_def)
  have "v0 \<le> v \<and> v < n'" if "D' v i x" for v i x
    using D' [OF that] old [of v i x] assms(1,2) unfolding drawn_once_def by (metis less_le_trans order_trans)
  moreover have "i = j \<and> x = y" if "D' v i x" "D' v j y" for v i x j y
    using D' [OF that(1)] D' [OF that(2)] old [of v i x] old [of v j y] assms(1)
    unfolding drawn_once_def by (metis not_less option.inject prod.inject)
  ultimately show ?thesis using assms(1,2) unfolding drawn_once_def by (meson order_trans)
qed

text \<open>
  The invariant of \<open>Interleave\<close> for every kind, and every version drawn once; \<open>w0\<close> is the server the
  requests found, and \<open>nodel k\<close> says that none of them deletes reports of kind \<open>k\<close>.
\<close>

definition server_inv ::
  "'s polr_model \<Rightarrow> 's cpolr_model \<Rightarrow> 's ephr_model \<Rightarrow> 's cephr_model \<Rightarrow> ('s \<Rightarrow> bool) \<Rightarrow> 's server_state \<Rightarrow>
     (rest_storage \<Rightarrow> bool) \<Rightarrow> 's server_conc \<Rightarrow> bool" where
  "server_inv M1 M2 M3 M4 iv w0 nodel t \<longleftrightarrow>
     conc_inv (km_view M1) iv (km_view M1 (srv_db w0)) (nodel PolrREST) (polr_conc t) \<and>
     conc_inv (km_view M2) iv (km_view M2 (srv_db w0)) (nodel CpolrREST) (cpolr_conc t) \<and>
     conc_inv (km_view M3) iv (km_view M3 (srv_db w0)) (nodel EphrREST) (ephr_conc t) \<and>
     conc_inv (km_view M4) iv (km_view M4 (srv_db w0)) (nodel CephrREST) (cephr_conc t) \<and>
     drawn_once (version (srv_versioning w0)) (version (srv_versioning (sc_server t))) (server_drew t)"

definition server_grows ::
  "'s polr_model \<Rightarrow> 's cpolr_model \<Rightarrow> 's ephr_model \<Rightarrow> 's cephr_model \<Rightarrow> (rest_storage \<Rightarrow> bool) \<Rightarrow>
     's server_conc \<Rightarrow> 's server_conc \<Rightarrow> bool" where
  "server_grows M1 M2 M3 M4 nodel t t' \<longleftrightarrow>
     conc_grows (km_view M1) (nodel PolrREST) (polr_conc t) (polr_conc t') \<and>
     conc_grows (km_view M2) (nodel CpolrREST) (cpolr_conc t) (cpolr_conc t') \<and>
     conc_grows (km_view M3) (nodel EphrREST) (ephr_conc t) (ephr_conc t') \<and>
     conc_grows (km_view M4) (nodel CephrREST) (cephr_conc t) (cephr_conc t')"

text \<open>And the contents of every kind changed as the calls on it say.\<close>

definition server_traced ::
  "'s polr_model \<Rightarrow> 's cpolr_model \<Rightarrow> 's ephr_model \<Rightarrow> 's cephr_model \<Rightarrow>
     's server_conc \<Rightarrow> 's server_conc \<Rightarrow> bool" where
  "server_traced M1 M2 M3 M4 t t' \<longleftrightarrow>
     traced ns_key (km_canon M1) (km_view M1) (polr_conc t) (polr_conc t') \<and>
     traced cl_key (km_canon M2) (km_view M2) (cpolr_conc t) (cpolr_conc t') \<and>
     traced ns_key (km_canon M3) (km_view M3) (ephr_conc t) (ephr_conc t') \<and>
     traced cl_key (km_canon M4) (km_view M4) (cephr_conc t) (cephr_conc t')"

lemma server_traced_refl: "server_traced M1 M2 M3 M4 t t"
  by (simp add: server_traced_def traced_same)

lemma server_traced_trans:
  "server_traced M1 M2 M3 M4 t t' \<Longrightarrow> server_traced M1 M2 M3 M4 t' t'' \<Longrightarrow> server_traced M1 M2 M3 M4 t t''"
  unfolding server_traced_def by (blast intro: traced_trans)

definition server_own ::
  "'s polr_model \<Rightarrow> 's cpolr_model \<Rightarrow> 's ephr_model \<Rightarrow> 's cephr_model \<Rightarrow> (rest_storage \<Rightarrow> bool) \<Rightarrow>
     's server_conc \<Rightarrow> 's server_conc \<Rightarrow> bool" where
  "server_own M1 M2 M3 M4 nodel t t' \<longleftrightarrow> server_grows M1 M2 M3 M4 nodel t t' \<and> server_traced M1 M2 M3 M4 t t'"

interpretation server: guarantee server_room "server_inv M1 M2 M3 M4 iv w0 nodel" "server_grows M1 M2 M3 M4 nodel"
  "server_own M1 M2 M3 M4 nodel"
  for M1 M2 M3 M4 iv w0 nodel
proof unfold_locales
  show "server_grows M1 M2 M3 M4 nodel t t" for t by (simp add: server_grows_def conc.R_refl)
  show "server_grows M1 M2 M3 M4 nodel t t''"
    if "server_grows M1 M2 M3 M4 nodel t t'" "server_grows M1 M2 M3 M4 nodel t' t''" for t t' t''
    using that unfolding server_grows_def by (blast intro: conc.R_trans)
qed (simp add: server_own_def)

text \<open>What the handlers of another kind do to a store.\<close>

definition bystander ::
  "('s \<Rightarrow> 'k \<rightharpoonup> 'r) \<Rightarrow> ('s, 'k, 'r) conc_state \<Rightarrow> ('s, 'k, 'r) conc_state \<Rightarrow> bool" where
  "bystander vw c c' \<longleftrightarrow> vw (conc_db c') = vw (conc_db c) \<and> conc_counter c \<le> conc_counter c' \<and>
     conc_log c' = conc_log c \<and> drawn c' = drawn c \<and> winner c' = winner c \<and> effects c' = effects c"

lemma bystander_grows: "bystander vw c c' \<Longrightarrow> conc_grows vw nodel c c'"
  by (simp add: bystander_def conc_grows_def)

lemma bystander_traced: "bystander vw c c' \<Longrightarrow> traced key canon vw c c'"
  by (simp add: bystander_def traced_same)

lemma bystander_inv:
  assumes "bystander vw c c'" and "conc_inv vw iv start nodel c" and "iv (conc_db c')"
  shows "conc_inv vw iv start nodel c'"
proof -
  have same: "drawn c' = drawn c" "winner c' = winner c" "vw (conc_db c') = vw (conc_db c)"
    and le: "conc_counter c \<le> conc_counter c'"
    using assms(1) by (simp_all add: bystander_def)
  have "conc_entry start c k r \<Longrightarrow> conc_entry start c' k r" for k r
    unfolding conc_entry_def same using le by (meson less_le_trans)
  then show ?thesis
    using assms(2,3) less_le_trans [OF _ le] unfolding conc_inv_def same by blast
qed

lemma conc_part_simps [simp]:
  "conc_db (polr_conc t) = srv_db (sc_server t)" "conc_counter (polr_conc t) = version (srv_versioning (sc_server t))"
  "conc_db (cpolr_conc t) = srv_db (sc_server t)" "conc_counter (cpolr_conc t) = version (srv_versioning (sc_server t))"
  "conc_db (ephr_conc t) = srv_db (sc_server t)" "conc_counter (ephr_conc t) = version (srv_versioning (sc_server t))"
  "conc_db (cephr_conc t) = srv_db (sc_server t)" "conc_counter (cephr_conc t) = version (srv_versioning (sc_server t))"
  "srv_db (sc_server (put_polr_conc c1 t)) = conc_db c1" "srv_versioning (sc_server (put_polr_conc c1 t)) = store_versioning (conc_rest c1)"
  "srv_db (sc_server (put_cpolr_conc c2 t)) = conc_db c2" "srv_versioning (sc_server (put_cpolr_conc c2 t)) = store_versioning (conc_rest c2)"
  "srv_db (sc_server (put_ephr_conc c3 t)) = conc_db c3" "srv_versioning (sc_server (put_ephr_conc c3 t)) = store_versioning (conc_rest c3)"
  "srv_db (sc_server (put_cephr_conc c4 t)) = conc_db c4" "srv_versioning (sc_server (put_cephr_conc c4 t)) = store_versioning (conc_rest c4)"
  by (simp_all add: conc_parts)

lemma polr_step_ok:
  assumes inv: "server_inv M1 M2 M3 M4 iv w0 nodel t"
    and new: "conc_inv (km_view M1) iv (km_view M1 (srv_db w0)) (nodel PolrREST) c"
    and own: "conc_own (same3 (km_view M2) (km_view M3) (km_view M4)) ns_key (km_canon M1) (km_view M1) (nodel PolrREST) (polr_conc t) c"
    and t': "t' = put_polr_conc c t"
  shows "server_inv M1 M2 M3 M4 iv w0 nodel t' \<and> server_own M1 M2 M3 M4 nodel t t'"
proof -
  have grows: "conc_grows (km_view M1) (nodel PolrREST) (polr_conc t) c" and db: "iv (conc_db c)"
    using own new by (simp_all add: conc_own_def conc_inv_def)
  have rest: "bystander (km_view M2) (cpolr_conc t) (cpolr_conc t')" "bystander (km_view M3) (ephr_conc t) (ephr_conc t')" "bystander (km_view M4) (cephr_conc t) (cephr_conc t')"
    using own by (simp_all add: t' bystander_def conc_own_def conc_grows_def same3_def) (simp_all add: conc_parts)
  have "drawn_once (version (srv_versioning w0)) (conc_counter c) (server_drew t')"
  proof (rule drawn_once_more [where tag = PolrKey and dr = "drawn (polr_conc t)" and dr' = "drawn c"])
    show "drawn_once (version (srv_versioning w0)) (version (srv_versioning (sc_server t))) (server_drew t)"
      using inv by (simp add: server_inv_def)
    show "server_drew t' v i x = server_drew t v i x" if "x \<notin> range PolrKey" for v i x
      using that by (cases x) (auto simp: t' conc_parts)
  qed (use own new in \<open>auto simp: conc_own_def conc_grows_def conc_inv_def t' conc_parts\<close>)
  with inv new bystander_inv [OF rest(1)] bystander_inv [OF rest(2)] bystander_inv [OF rest(3)]
  have "server_inv M1 M2 M3 M4 iv w0 nodel t'"
    using db by (simp add: server_inv_def t' polr_lens.get_put)
  moreover have "traced ns_key (km_canon M1) (km_view M1) (polr_conc t) c" using own by (simp add: conc_own_def)
  then have "server_own M1 M2 M3 M4 nodel t t'"
    using grows rest [THEN bystander_grows] rest [THEN bystander_traced]
    by (simp add: server_own_def server_grows_def server_traced_def t' polr_lens.get_put)
  ultimately show ?thesis ..
qed

interpretation polr_lifted: lifted polr_conc put_polr_conc conc_room
  "conc_inv (km_view M1) iv (km_view M1 (srv_db w0)) (nodel PolrREST)" "conc_grows (km_view M1) (nodel PolrREST)"
  "conc_own (same3 (km_view M2) (km_view M3) (km_view M4)) ns_key (km_canon M1) (km_view M1) (nodel PolrREST)"
  server_room "server_inv M1 M2 M3 M4 iv w0 nodel" "server_grows M1 M2 M3 M4 nodel" "server_own M1 M2 M3 M4 nodel"
  for M1 M2 M3 M4 iv w0 nodel
  by unfold_locales
    (simp_all add: polr_step_ok, simp_all add: server_inv_def server_grows_def server_room_def conc_room_def)

lemma cpolr_step_ok:
  assumes inv: "server_inv M1 M2 M3 M4 iv w0 nodel t"
    and new: "conc_inv (km_view M2) iv (km_view M2 (srv_db w0)) (nodel CpolrREST) c"
    and own: "conc_own (same3 (km_view M1) (km_view M3) (km_view M4)) cl_key (km_canon M2) (km_view M2) (nodel CpolrREST) (cpolr_conc t) c"
    and t': "t' = put_cpolr_conc c t"
  shows "server_inv M1 M2 M3 M4 iv w0 nodel t' \<and> server_own M1 M2 M3 M4 nodel t t'"
proof -
  have grows: "conc_grows (km_view M2) (nodel CpolrREST) (cpolr_conc t) c" and db: "iv (conc_db c)"
    using own new by (simp_all add: conc_own_def conc_inv_def)
  have rest: "bystander (km_view M1) (polr_conc t) (polr_conc t')" "bystander (km_view M3) (ephr_conc t) (ephr_conc t')" "bystander (km_view M4) (cephr_conc t) (cephr_conc t')"
    using own by (simp_all add: t' bystander_def conc_own_def conc_grows_def same3_def) (simp_all add: conc_parts)
  have "drawn_once (version (srv_versioning w0)) (conc_counter c) (server_drew t')"
  proof (rule drawn_once_more [where tag = CpolrKey and dr = "drawn (cpolr_conc t)" and dr' = "drawn c"])
    show "drawn_once (version (srv_versioning w0)) (version (srv_versioning (sc_server t))) (server_drew t)"
      using inv by (simp add: server_inv_def)
    show "server_drew t' v i x = server_drew t v i x" if "x \<notin> range CpolrKey" for v i x
      using that by (cases x) (auto simp: t' conc_parts)
  qed (use own new in \<open>auto simp: conc_own_def conc_grows_def conc_inv_def t' conc_parts\<close>)
  with inv new bystander_inv [OF rest(1)] bystander_inv [OF rest(2)] bystander_inv [OF rest(3)]
  have "server_inv M1 M2 M3 M4 iv w0 nodel t'"
    using db by (simp add: server_inv_def t' cpolr_lens.get_put)
  moreover have "traced cl_key (km_canon M2) (km_view M2) (cpolr_conc t) c" using own by (simp add: conc_own_def)
  then have "server_own M1 M2 M3 M4 nodel t t'"
    using grows rest [THEN bystander_grows] rest [THEN bystander_traced]
    by (simp add: server_own_def server_grows_def server_traced_def t' cpolr_lens.get_put)
  ultimately show ?thesis ..
qed

interpretation cpolr_lifted: lifted cpolr_conc put_cpolr_conc conc_room
  "conc_inv (km_view M2) iv (km_view M2 (srv_db w0)) (nodel CpolrREST)" "conc_grows (km_view M2) (nodel CpolrREST)"
  "conc_own (same3 (km_view M1) (km_view M3) (km_view M4)) cl_key (km_canon M2) (km_view M2) (nodel CpolrREST)"
  server_room "server_inv M1 M2 M3 M4 iv w0 nodel" "server_grows M1 M2 M3 M4 nodel" "server_own M1 M2 M3 M4 nodel"
  for M1 M2 M3 M4 iv w0 nodel
  by unfold_locales
    (simp_all add: cpolr_step_ok, simp_all add: server_inv_def server_grows_def server_room_def conc_room_def)

lemma ephr_step_ok:
  assumes inv: "server_inv M1 M2 M3 M4 iv w0 nodel t"
    and new: "conc_inv (km_view M3) iv (km_view M3 (srv_db w0)) (nodel EphrREST) c"
    and own: "conc_own (same3 (km_view M1) (km_view M2) (km_view M4)) ns_key (km_canon M3) (km_view M3) (nodel EphrREST) (ephr_conc t) c"
    and t': "t' = put_ephr_conc c t"
  shows "server_inv M1 M2 M3 M4 iv w0 nodel t' \<and> server_own M1 M2 M3 M4 nodel t t'"
proof -
  have grows: "conc_grows (km_view M3) (nodel EphrREST) (ephr_conc t) c" and db: "iv (conc_db c)"
    using own new by (simp_all add: conc_own_def conc_inv_def)
  have rest: "bystander (km_view M1) (polr_conc t) (polr_conc t')" "bystander (km_view M2) (cpolr_conc t) (cpolr_conc t')" "bystander (km_view M4) (cephr_conc t) (cephr_conc t')"
    using own by (simp_all add: t' bystander_def conc_own_def conc_grows_def same3_def) (simp_all add: conc_parts)
  have "drawn_once (version (srv_versioning w0)) (conc_counter c) (server_drew t')"
  proof (rule drawn_once_more [where tag = EphrKey and dr = "drawn (ephr_conc t)" and dr' = "drawn c"])
    show "drawn_once (version (srv_versioning w0)) (version (srv_versioning (sc_server t))) (server_drew t)"
      using inv by (simp add: server_inv_def)
    show "server_drew t' v i x = server_drew t v i x" if "x \<notin> range EphrKey" for v i x
      using that by (cases x) (auto simp: t' conc_parts)
  qed (use own new in \<open>auto simp: conc_own_def conc_grows_def conc_inv_def t' conc_parts\<close>)
  with inv new bystander_inv [OF rest(1)] bystander_inv [OF rest(2)] bystander_inv [OF rest(3)]
  have "server_inv M1 M2 M3 M4 iv w0 nodel t'"
    using db by (simp add: server_inv_def t' ephr_lens.get_put)
  moreover have "traced ns_key (km_canon M3) (km_view M3) (ephr_conc t) c" using own by (simp add: conc_own_def)
  then have "server_own M1 M2 M3 M4 nodel t t'"
    using grows rest [THEN bystander_grows] rest [THEN bystander_traced]
    by (simp add: server_own_def server_grows_def server_traced_def t' ephr_lens.get_put)
  ultimately show ?thesis ..
qed

interpretation ephr_lifted: lifted ephr_conc put_ephr_conc conc_room
  "conc_inv (km_view M3) iv (km_view M3 (srv_db w0)) (nodel EphrREST)" "conc_grows (km_view M3) (nodel EphrREST)"
  "conc_own (same3 (km_view M1) (km_view M2) (km_view M4)) ns_key (km_canon M3) (km_view M3) (nodel EphrREST)"
  server_room "server_inv M1 M2 M3 M4 iv w0 nodel" "server_grows M1 M2 M3 M4 nodel" "server_own M1 M2 M3 M4 nodel"
  for M1 M2 M3 M4 iv w0 nodel
  by unfold_locales
    (simp_all add: ephr_step_ok, simp_all add: server_inv_def server_grows_def server_room_def conc_room_def)

lemma cephr_step_ok:
  assumes inv: "server_inv M1 M2 M3 M4 iv w0 nodel t"
    and new: "conc_inv (km_view M4) iv (km_view M4 (srv_db w0)) (nodel CephrREST) c"
    and own: "conc_own (same3 (km_view M1) (km_view M2) (km_view M3)) cl_key (km_canon M4) (km_view M4) (nodel CephrREST) (cephr_conc t) c"
    and t': "t' = put_cephr_conc c t"
  shows "server_inv M1 M2 M3 M4 iv w0 nodel t' \<and> server_own M1 M2 M3 M4 nodel t t'"
proof -
  have grows: "conc_grows (km_view M4) (nodel CephrREST) (cephr_conc t) c" and db: "iv (conc_db c)"
    using own new by (simp_all add: conc_own_def conc_inv_def)
  have rest: "bystander (km_view M1) (polr_conc t) (polr_conc t')" "bystander (km_view M2) (cpolr_conc t) (cpolr_conc t')" "bystander (km_view M3) (ephr_conc t) (ephr_conc t')"
    using own by (simp_all add: t' bystander_def conc_own_def conc_grows_def same3_def) (simp_all add: conc_parts)
  have "drawn_once (version (srv_versioning w0)) (conc_counter c) (server_drew t')"
  proof (rule drawn_once_more [where tag = CephrKey and dr = "drawn (cephr_conc t)" and dr' = "drawn c"])
    show "drawn_once (version (srv_versioning w0)) (version (srv_versioning (sc_server t))) (server_drew t)"
      using inv by (simp add: server_inv_def)
    show "server_drew t' v i x = server_drew t v i x" if "x \<notin> range CephrKey" for v i x
      using that by (cases x) (auto simp: t' conc_parts)
  qed (use own new in \<open>auto simp: conc_own_def conc_grows_def conc_inv_def t' conc_parts\<close>)
  with inv new bystander_inv [OF rest(1)] bystander_inv [OF rest(2)] bystander_inv [OF rest(3)]
  have "server_inv M1 M2 M3 M4 iv w0 nodel t'"
    using db by (simp add: server_inv_def t' cephr_lens.get_put)
  moreover have "traced cl_key (km_canon M4) (km_view M4) (cephr_conc t) c" using own by (simp add: conc_own_def)
  then have "server_own M1 M2 M3 M4 nodel t t'"
    using grows rest [THEN bystander_grows] rest [THEN bystander_traced]
    by (simp add: server_own_def server_grows_def server_traced_def t' cephr_lens.get_put)
  ultimately show ?thesis ..
qed

interpretation cephr_lifted: lifted cephr_conc put_cephr_conc conc_room
  "conc_inv (km_view M4) iv (km_view M4 (srv_db w0)) (nodel CephrREST)" "conc_grows (km_view M4) (nodel CephrREST)"
  "conc_own (same3 (km_view M1) (km_view M2) (km_view M3)) cl_key (km_canon M4) (km_view M4) (nodel CephrREST)"
  server_room "server_inv M1 M2 M3 M4 iv w0 nodel" "server_grows M1 M2 M3 M4 nodel" "server_own M1 M2 M3 M4 nodel"
  for M1 M2 M3 M4 iv w0 nodel
  by unfold_locales
    (simp_all add: cephr_step_ok, simp_all add: server_inv_def server_grows_def server_room_def conc_room_def)

subsection \<open>A request alone\<close>

text \<open>Requests made of the stores of the other three kinds; the cluster-scoped ones have no namespace.\<close>

primrec cpolr_request ::
  "'s Storage \<Rightarrow> polr_fields request \<Rightarrow> 's cpolrState \<Rightarrow> polr_fields answer \<times> 's cpolrState" where
  "cpolr_request st (GetReq ns n) w = map_prod ObjectReply id (cpolrStore_Get st n w)"
| "cpolr_request st (ListReq ns lopts) w = map_prod ObjectReply id (cpolrStore_List st lopts w)"
| "cpolr_request st (WatchReq ns lopts) w =
     (case cpolrStore_Watch st lopts w of
        (x, w') \<Rightarrow> (WatchReply (map_sum id (\<lambda>r. (r, length (broadcast w'))) x), w'))"
| "cpolr_request st (CreateReq e ns obj val opts) w =
     map_prod ObjectReply id (cpolrStore_Create st e obj val opts w)"
| "cpolr_request st (UpdateReq ns n updated uval force opts) w =
     map_prod FlagReply id (cpolrStore_Update st n updated uval force opts w)"
| "cpolr_request st (DeleteReq ns n val opts) w =
     map_prod FlagReply id (cpolrStore_Delete st n val opts w)"
| "cpolr_request st (DeleteCollectionReq ns val opts lopts) w =
     map_prod ObjectReply id (cpolrStore_DeleteCollection st val opts lopts w)"

primrec ephr_request ::
  "'s Storage \<Rightarrow> ephr_fields request \<Rightarrow> 's ephrState \<Rightarrow> ephr_fields answer \<times> 's ephrState" where
  "ephr_request st (GetReq ns n) w = map_prod ObjectReply id (ephrStore_Get st ns n w)"
| "ephr_request st (ListReq ns lopts) w = map_prod ObjectReply id (ephrStore_List st ns lopts w)"
| "ephr_request st (WatchReq ns lopts) w =
     (case ephrStore_Watch st ns lopts w of
        (x, w') \<Rightarrow> (WatchReply (map_sum id (\<lambda>r. (r, length (broadcast w'))) x), w'))"
| "ephr_request st (CreateReq e ns obj val opts) w =
     map_prod ObjectReply id (ephrStore_Create st e ns obj val opts w)"
| "ephr_request st (UpdateReq ns n updated uval force opts) w =
     map_prod FlagReply id (ephrStore_Update st ns n updated uval force opts w)"
| "ephr_request st (DeleteReq ns n val opts) w =
     map_prod FlagReply id (ephrStore_Delete st ns n val opts w)"
| "ephr_request st (DeleteCollectionReq ns val opts lopts) w =
     map_prod ObjectReply id (ephrStore_DeleteCollection st ns val opts lopts w)"

primrec cephr_request ::
  "'s Storage \<Rightarrow> ephr_fields request \<Rightarrow> 's cephrState \<Rightarrow> ephr_fields answer \<times> 's cephrState" where
  "cephr_request st (GetReq ns n) w = map_prod ObjectReply id (cephrStore_Get st n w)"
| "cephr_request st (ListReq ns lopts) w = map_prod ObjectReply id (cephrStore_List st lopts w)"
| "cephr_request st (WatchReq ns lopts) w =
     (case cephrStore_Watch st lopts w of
        (x, w') \<Rightarrow> (WatchReply (map_sum id (\<lambda>r. (r, length (broadcast w'))) x), w'))"
| "cephr_request st (CreateReq e ns obj val opts) w =
     map_prod ObjectReply id (cephrStore_Create st e obj val opts w)"
| "cephr_request st (UpdateReq ns n updated uval force opts) w =
     map_prod FlagReply id (cephrStore_Update st n updated uval force opts w)"
| "cephr_request st (DeleteReq ns n val opts) w =
     map_prod FlagReply id (cephrStore_Delete st n val opts w)"
| "cephr_request st (DeleteCollectionReq ns val opts lopts) w =
     map_prod ObjectReply id (cephrStore_DeleteCollection st val opts lopts w)"

lemma no_namespace:
  assumes "\<not> kd_namespaced d" and "kd_key d = (\<lambda>_ n. f n)" and "kd_sel d = (\<lambda>_. q)"
  shows "rest_List d S ns = rest_List d S []" "rest_Get d S ns = rest_Get d S []"
    "rest_Watch d S ns = rest_Watch d S []" "rest_Create d S e ns = rest_Create d S e []"
    "rest_Update d S ns = rest_Update d S []" "rest_Delete d S key ns = rest_Delete d S key []"
    "rest_DeleteCollection d S key ns = rest_DeleteCollection d S key []"
proof -
  have prep: "rest_prepare d e ns = rest_prepare d e []" "rest_adjust d ns = rest_adjust d []" for e
    using assms(1) by (simp_all add: fun_eq_iff rest_prepare_def rest_adjust_def)
  show list: "rest_List d S ns = rest_List d S []" "rest_Get d S ns = rest_Get d S []"
    by (simp_all add: fun_eq_iff rest_List_def rest_Get_def assms(2,3))
  show "rest_Watch d S ns = rest_Watch d S []" unfolding rest_Watch_def [abs_def] list ..
  show "rest_Create d S e ns = rest_Create d S e []" unfolding rest_Create_def [abs_def] prep ..
  show "rest_Update d S ns = rest_Update d S []" unfolding rest_Update_def [abs_def] prep assms(2) ..
  show del: "rest_Delete d S key ns = rest_Delete d S key []"
    by (simp add: fun_eq_iff rest_Delete_def assms(2))
  have items: "rest_delete_items d S key ns val opts rs w = rest_delete_items d S key [] val opts rs w" for val opts rs w
    by (induction rs arbitrary: w) (simp_all add: del split: sum.split prod.split)
  show "rest_DeleteCollection d S key ns = rest_DeleteCollection d S key []"
    unfolding rest_DeleteCollection_def [abs_def] list by (intro ext) (simp only: items)
qed

primrec at_cluster :: "'a request \<Rightarrow> 'a request" where
  "at_cluster (GetReq ns n) = GetReq [] n"
| "at_cluster (ListReq ns lopts) = ListReq [] lopts"
| "at_cluster (WatchReq ns lopts) = WatchReq [] lopts"
| "at_cluster (CreateReq e ns obj val opts) = CreateReq e [] obj val opts"
| "at_cluster (UpdateReq ns n updated uval force opts) = UpdateReq [] n updated uval force opts"
| "at_cluster (DeleteReq ns n val opts) = DeleteReq [] n val opts"
| "at_cluster (DeleteCollectionReq ns val opts lopts) = DeleteCollectionReq [] val opts lopts"

lemma request_at_cluster:
  assumes "\<not> kd_namespaced d" and "kd_key d = (\<lambda>_ n. f n)" and "kd_sel d = (\<lambda>_. q)"
  shows "rest_request d S key req w = rest_request d S key (at_cluster req) w"
proof (cases req)
  case (GetReq ns n)
  then show ?thesis using no_namespace(2) [OF assms, of S ns] by simp
next
  case (ListReq ns lopts)
  then show ?thesis using no_namespace(1) [OF assms, of S ns] by simp
next
  case (WatchReq ns lopts)
  then show ?thesis using no_namespace(3) [OF assms, of S ns] by simp
next
  case (CreateReq e ns obj val opts)
  then show ?thesis using no_namespace(4) [OF assms, of S e ns] by simp
next
  case (UpdateReq ns n updated uval force opts)
  then show ?thesis using no_namespace(5) [OF assms, of S ns] by simp
next
  case (DeleteReq ns n val opts)
  then show ?thesis using no_namespace(6) [OF assms, of S key ns] by simp
next
  case (DeleteCollectionReq ns val opts lopts)
  then show ?thesis using no_namespace(7) [OF assms, of S key ns] by simp
qed

lemma cpolr_request_rest:
  "cpolr_request st req w =
     apfst (plain_answer ClusterPolicyReportListObj) (rest_request cpolr_desc (cpolr_ops st) cl_key req w)"
  by (subst request_at_cluster [of cpolr_desc "\<lambda>n. n" "()"]; (cases req)?)
    (simp_all add: cpolr_Get_eq cpolr_List_eq cpolr_Watch_eq cpolr_Create_eq cpolr_Update_eq cpolr_Delete_eq
      cpolr_DeleteCollection_eq case_prod_unfold apfst_def map_prod_def)

lemma ephr_request_rest:
  "ephr_request st req w =
     apfst (plain_answer EphemeralReportListObj) (rest_request ephr_desc (ephr_ops st) ns_key req w)"
  by (cases req)
    (simp_all add: ephr_Get_eq ephr_List_eq ephr_Watch_eq ephr_Create_eq ephr_Update_eq ephr_Delete_eq
      ephr_DeleteCollection_eq case_prod_unfold apfst_def map_prod_def)

lemma cephr_request_rest:
  "cephr_request st req w =
     apfst (plain_answer ClusterEphemeralReportListObj) (rest_request cephr_desc (cephr_ops st) cl_key req w)"
  by (subst request_at_cluster [of cephr_desc "\<lambda>n. n" "()"]; (cases req)?)
    (simp_all add: cephr_Get_eq cephr_List_eq cephr_Watch_eq cephr_Create_eq cephr_Update_eq cephr_Delete_eq
      cephr_DeleteCollection_eq case_prod_unfold apfst_def map_prod_def)

text \<open>A request made of the server, on the store of its kind.\<close>

primrec serve ::
  "'s Storage \<Rightarrow> server_request \<Rightarrow> 's server_state \<Rightarrow> server_answer \<times> 's server_state" where
  "serve st (PolrReq req) w =
     (case polr_request st req (polr_part w) of (a, p) \<Rightarrow> (PolrAns a, put_polr p w))"
| "serve st (CpolrReq req) w =
     (case cpolr_request st req (cpolr_part w) of (a, p) \<Rightarrow> (CpolrAns a, put_cpolr p w))"
| "serve st (EphrReq req) w =
     (case ephr_request st req (ephr_part w) of (a, p) \<Rightarrow> (EphrAns a, put_ephr p w))"
| "serve st (CephrReq req) w =
     (case cephr_request st req (cephr_part w) of (a, p) \<Rightarrow> (CephrAns a, put_cephr p w))"

primrec server_plain :: "server_answer \<Rightarrow> server_answer" where
  "server_plain (PolrAns a) = PolrAns (plain_answer PolicyReportListObj a)"
| "server_plain (CpolrAns a) = CpolrAns (plain_answer ClusterPolicyReportListObj a)"
| "server_plain (EphrAns a) = EphrAns (plain_answer EphemeralReportListObj a)"
| "server_plain (CephrAns a) = CephrAns (plain_answer ClusterEphemeralReportListObj a)"


subsection \<open>Every request is answered\<close>

primrec server_actions :: "server_request \<Rightarrow> nat option" where
  "server_actions (PolrReq req) = actions req"
| "server_actions (CpolrReq req) = actions req"
| "server_actions (EphrReq req) = actions req"
| "server_actions (CephrReq req) = actions req"

lemma at_most_server:
  assumes "server_actions req = Some n"
  shows "at_most (server_prog st i req) n"
  using assms by (cases req) (auto intro: at_most_lift at_most_fmap at_most_request)


end
