(* ===== verification/SampleServer.thy ===== *)
theory SampleServer
  imports System SampleStore
begin

section \<open>A storage of four lists\<close>

text \<open>
  A storage that keeps each kind of report in a list of its own, for examples of the whole server that
  write reports with any version: the storage of \<open>SampleStore\<close>, four times.
\<close>

definition on_part :: "('s \<Rightarrow> 'p) \<Rightarrow> ('p \<Rightarrow> 's \<Rightarrow> 's) \<Rightarrow> ('p \<Rightarrow> 'x \<times> 'p) \<Rightarrow> 's \<Rightarrow> 'x \<times> 's" where
  "on_part get put f s = (case f (get s) of (x, p) \<Rightarrow> (x, put p s))"

definition ns_on ::
  "('s \<Rightarrow> 'p) \<Rightarrow> ('p \<Rightarrow> 's \<Rightarrow> 's) \<Rightarrow> ('p, 'r) NamespacedInterface \<Rightarrow> ('s, 'r) NamespacedInterface" where
  "ns_on get put I =
     \<lparr>nGet = (\<lambda>n ns. on_part get put (nGet I n ns)), nList = (\<lambda>ns. on_part get put (nList I ns)),
      nCreate = (\<lambda>r. on_part get put (nCreate I r)), nUpdate = (\<lambda>r. on_part get put (nUpdate I r)),
      nDelete = (\<lambda>n ns. on_part get put (nDelete I n ns))\<rparr>"

definition cl_on ::
  "('s \<Rightarrow> 'p) \<Rightarrow> ('p \<Rightarrow> 's \<Rightarrow> 's) \<Rightarrow> ('p, 'r) ClusterInterface \<Rightarrow> ('s, 'r) ClusterInterface" where
  "cl_on get put I =
     \<lparr>cGet = (\<lambda>n. on_part get put (cGet I n)), cList = on_part get put (cList I),
      cCreate = (\<lambda>r. on_part get put (cCreate I r)), cUpdate = (\<lambda>r. on_part get put (cUpdate I r)),
      cDelete = (\<lambda>n. on_part get put (cDelete I n))\<rparr>"

definition ops_on ::
  "('s \<Rightarrow> 'p) \<Rightarrow> ('p \<Rightarrow> 's \<Rightarrow> 's) \<Rightarrow> ('p, 'k, 'q, 'r) ops \<Rightarrow> ('s, 'k, 'q, 'r) ops" where
  "ops_on get put S =
     \<lparr>getK = (\<lambda>k. on_part get put (getK S k)), listQ = (\<lambda>q. on_part get put (listQ S q)),
      createR = (\<lambda>r. on_part get put (createR S r)), updateR = (\<lambda>r. on_part get put (updateR S r)),
      deleteK = (\<lambda>k. on_part get put (deleteK S k))\<rparr>"

lemma ops_on_simps [simp]:
  "ns_ops (ns_on get put I) = ops_on get put (ns_ops I)"
  "cl_ops (cl_on get put I') = ops_on get put (cl_ops I')"
  by (simp_all add: ns_ops_def cl_ops_def ns_on_def cl_on_def ops_on_def fun_eq_iff)

lemma on_part_simps [simp]:
  "fst (on_part get put f s) = fst (f (get s))" "snd (on_part get put f s) = put (snd (f (get s))) s"
  by (simp_all add: on_part_def case_prod_unfold)

lemma do_cmd_on: "snd (do_cmd (ops_on get put S) c s) = put (snd (do_cmd S c (get s))) s"
  by (cases c) (simp_all add: ops_on_def on_part_def case_prod_unfold Let_def)

lemma storage_on:
  assumes "report_storage S key sel canon lenient gk gq good vw iv" and "\<And>p s. get (put p s) = p"
  shows "report_storage (ops_on get put S) key sel canon lenient gk gq good (\<lambda>s. vw (get s)) (\<lambda>s. iv (get s))"
proof -
  have ops: "getK (ops_on get put S) k = on_part get put (getK S k)"
    "listQ (ops_on get put S) q = on_part get put (listQ S q)"
    "createR (ops_on get put S) r = on_part get put (createR S r)"
    "updateR (ops_on get put S) r = on_part get put (updateR S r)"
    "deleteK (ops_on get put S) k = on_part get put (deleteK S k)" for k q r
    by (simp_all add: ops_on_def)
  show ?thesis
  proof (rule report_storage.intro, goal_cases)
    case (1 s k)
    then show ?case using report_storage.get_law [OF assms(1), of "get s" k] by (simp add: ops assms(2))
  next
    case (2 s q)
    then show ?case using report_storage.list_law [OF assms(1), of "get s" q] by (simp add: ops assms(2))
  next
    case (3 s r)
    then show ?case using report_storage.create_law [OF assms(1), of "get s" r] by (simp add: ops assms(2))
  next
    case (4 s r)
    then show ?case using report_storage.update_law [OF assms(1), of "get s" r] by (simp add: ops assms(2))
  next
    case (5 s k)
    then show ?case using report_storage.delete_law [OF assms(1), of "get s" k] by (simp add: ops assms(2))
  next
    case (6 s k r)
    then show ?case using report_storage.stored_key [OF assms(1), of "get s" k r] by (simp add: ops assms(2))
  next
    case (7 r)
    then show ?case using report_storage.good_key_of [OF assms(1), of r] by (simp add: ops assms(2))
  next
    case (8 s r)
    then show ?case using report_storage.key_canon [OF assms(1), of "get s" r] by (simp add: ops assms(2))
  qed
qed

subsection \<open>The storage\<close>

record list_db =
  polr_list :: "PolicyReport list"
  cpolr_list :: "ClusterPolicyReport list"
  ephr_list :: "EphemeralReport list"
  cephr_list :: "ClusterEphemeralReport list"

definition four_lists :: "list_db Storage" where
  "four_lists =
     \<lparr>Ready = (\<lambda>_. True), PolicyReports = ns_on polr_list (\<lambda>p s. s\<lparr>polr_list := p\<rparr>) list_ns,
      ClusterPolicyReports = cl_on cpolr_list (\<lambda>p s. s\<lparr>cpolr_list := p\<rparr>) list_cl,
      EphemeralReports = ns_on ephr_list (\<lambda>p s. s\<lparr>ephr_list := p\<rparr>) list_ns,
      ClusterEphemeralReports = cl_on cephr_list (\<lambda>p s. s\<lparr>cephr_list := p\<rparr>) list_cl\<rparr>"

lemma four_lists_simps [simp]:
  "polr_ops four_lists = ops_on polr_list (\<lambda>p s. s\<lparr>polr_list := p\<rparr>) (list_ops ns_key ns_sel)"
  "cpolr_ops four_lists = ops_on cpolr_list (\<lambda>p s. s\<lparr>cpolr_list := p\<rparr>) (list_ops cl_key cl_sel)"
  "ephr_ops four_lists = ops_on ephr_list (\<lambda>p s. s\<lparr>ephr_list := p\<rparr>) (list_ops ns_key ns_sel)"
  "cephr_ops four_lists = ops_on cephr_list (\<lambda>p s. s\<lparr>cephr_list := p\<rparr>) (list_ops cl_key cl_sel)"
  by (simp_all add: four_lists_def list_ns_ops list_cl_ops)

definition list_kind :: "('s \<Rightarrow> 'k \<rightharpoonup> 'r) \<Rightarrow> ('s, 'k, 'q, 'r) kind_model" where
  "list_kind vw = \<lparr>km_canon = id, km_key = (\<lambda>_. True), km_sel = (\<lambda>_. True), km_good = (\<lambda>_. True), km_view = vw\<rparr>"

lemma list_kind_simps [simp]:
  "km_canon (list_kind vw) = id" "km_key (list_kind vw) = (\<lambda>_. True)" "km_sel (list_kind vw) = (\<lambda>_. True)"
  "km_good (list_kind vw) = (\<lambda>_. True)" "km_view (list_kind vw) = vw"
  by (simp_all add: list_kind_def)

definition list_polr :: "list_db polr_model" where
  "list_polr = list_kind (\<lambda>s. list_view ns_key (polr_list s))"

definition list_cpolr :: "list_db cpolr_model" where
  "list_cpolr = list_kind (\<lambda>s. list_view cl_key (cpolr_list s))"

definition list_ephr :: "list_db ephr_model" where
  "list_ephr = list_kind (\<lambda>s. list_view ns_key (ephr_list s))"

definition list_cephr :: "list_db cephr_model" where
  "list_cephr = list_kind (\<lambda>s. list_view cl_key (cephr_list s))"

lemmas list_kinds = list_polr_def list_cpolr_def list_ephr_def list_cephr_def

definition four_sound :: "list_db \<Rightarrow> bool" where
  "four_sound s \<longleftrightarrow> list_inv ns_key (polr_list s) \<and> list_inv cl_key (cpolr_list s) \<and> list_inv ns_key (ephr_list s) \<and> list_inv cl_key (cephr_list s)"

interpretation four: server_storage four_lists False list_polr list_cpolr list_ephr list_cephr four_sound
proof (rule server_storage.intro)
  show "report_storage (polr_ops four_lists) ns_key ns_sel (km_canon list_polr) False (km_key list_polr)
      (km_sel list_polr) (km_good list_polr) (km_view list_polr) four_sound"
  proof -
    have eq: "four_sound = (\<lambda>s. list_inv ns_key (polr_list s) \<and> (list_inv cl_key (cpolr_list s) \<and> list_inv ns_key (ephr_list s) \<and> list_inv cl_key (cephr_list s)))"
      by (auto simp: four_sound_def)
    show ?thesis
      unfolding eq four_lists_simps list_kinds list_kind_simps
      by (rule storage_strengthen [OF storage_on [OF lists.report_storage_axioms]]) (simp_all add: do_cmd_on)
  qed
  show "report_storage (cpolr_ops four_lists) cl_key cl_sel (km_canon list_cpolr) False (km_key list_cpolr)
      (km_sel list_cpolr) (km_good list_cpolr) (km_view list_cpolr) four_sound"
  proof -
    have eq: "four_sound = (\<lambda>s. list_inv cl_key (cpolr_list s) \<and> (list_inv ns_key (polr_list s) \<and> list_inv ns_key (ephr_list s) \<and> list_inv cl_key (cephr_list s)))"
      by (auto simp: four_sound_def)
    show ?thesis
      unfolding eq four_lists_simps list_kinds list_kind_simps
      by (rule storage_strengthen [OF storage_on [OF lists.report_storage_axioms]]) (simp_all add: do_cmd_on)
  qed
  show "report_storage (ephr_ops four_lists) ns_key ns_sel (km_canon list_ephr) False (km_key list_ephr)
      (km_sel list_ephr) (km_good list_ephr) (km_view list_ephr) four_sound"
  proof -
    have eq: "four_sound = (\<lambda>s. list_inv ns_key (ephr_list s) \<and> (list_inv ns_key (polr_list s) \<and> list_inv cl_key (cpolr_list s) \<and> list_inv cl_key (cephr_list s)))"
      by (auto simp: four_sound_def)
    show ?thesis
      unfolding eq four_lists_simps list_kinds list_kind_simps
      by (rule storage_strengthen [OF storage_on [OF lists.report_storage_axioms]]) (simp_all add: do_cmd_on)
  qed
  show "report_storage (cephr_ops four_lists) cl_key cl_sel (km_canon list_cephr) False (km_key list_cephr)
      (km_sel list_cephr) (km_good list_cephr) (km_view list_cephr) four_sound"
  proof -
    have eq: "four_sound = (\<lambda>s. list_inv cl_key (cephr_list s) \<and> (list_inv ns_key (polr_list s) \<and> list_inv cl_key (cpolr_list s) \<and> list_inv ns_key (ephr_list s)))"
      by (auto simp: four_sound_def)
    show ?thesis
      unfolding eq four_lists_simps list_kinds list_kind_simps
      by (rule storage_strengthen [OF storage_on [OF lists.report_storage_axioms]]) (simp_all add: do_cmd_on)
  qed
qed (simp_all add: list_kinds same3_def do_cmd_on)

end
