(* ===== verification/ServerSound.thy ===== *)
theory ServerSound
  imports ServerThreads SampleServer EtcdServer PgServer
begin

section \<open>The server under concurrent requests\<close>

text \<open>
  What the server keeps while requests on its four kinds interleave inside each other's handlers, on
  every back end that meets \<open>server_storage\<close>: the handlers of a kind meet their guarantee on their own
  part (\<open>Interleave\<close>), and the parts do not disturb each other (\<open>ServerThreads\<close>).
\<close>

subsection \<open>Requests and answers\<close>

text \<open>The requests that meet the storage's conditions on keys, selectors and reports.\<close>

primrec server_legal ::
  "'s polr_model \<Rightarrow> 's cpolr_model \<Rightarrow> 's ephr_model \<Rightarrow> 's cephr_model \<Rightarrow> server_request \<Rightarrow> bool" where
  "server_legal M1 M2 M3 M4 (PolrReq req) =
     conc_legal polr_desc (km_key M1) (km_sel M1) (km_good M1) req"
| "server_legal M1 M2 M3 M4 (CpolrReq req) =
     conc_legal cpolr_desc (km_key M2) (km_sel M2) (km_good M2) req"
| "server_legal M1 M2 M3 M4 (EphrReq req) =
     conc_legal ephr_desc (km_key M3) (km_sel M3) (km_good M3) req"
| "server_legal M1 M2 M3 M4 (CephrReq req) =
     conc_legal cephr_desc (km_key M4) (km_sel M4) (km_good M4) req"

primrec request_kind :: "server_request \<Rightarrow> rest_storage" where
  "request_kind (PolrReq req) = PolrREST"
| "request_kind (CpolrReq req) = CpolrREST"
| "request_kind (EphrReq req) = EphrREST"
| "request_kind (CephrReq req) = CephrREST"

primrec server_deletes :: "server_request \<Rightarrow> bool" where
  "server_deletes (PolrReq req) = deletes req"
| "server_deletes (CpolrReq req) = deletes req"
| "server_deletes (EphrReq req) = deletes req"
| "server_deletes (CephrReq req) = deletes req"

primrec server_creates :: "server_request \<Rightarrow> bool" where
  "server_creates (PolrReq req) = is_create req"
| "server_creates (CpolrReq req) = is_create req"
| "server_creates (EphrReq req) = is_create req"
| "server_creates (CephrReq req) = is_create req"

text \<open>None of the requests deletes reports of the kind.\<close>

definition none_deletes :: "server_request list \<Rightarrow> rest_storage \<Rightarrow> bool" where
  "none_deletes reqs k \<longleftrightarrow> \<not> list_ex (\<lambda>req. request_kind req = k \<and> server_deletes req) reqs"

primrec server_post ::
  "(rest_storage \<Rightarrow> bool) \<Rightarrow> nat \<Rightarrow> server_request \<Rightarrow> server_answer \<Rightarrow> 's server_conc \<Rightarrow> bool" where
  "server_post nodel i (PolrReq req) ans t =
     (\<exists>a. ans = PolrAns a \<and> conc_post polr_desc ns_key (nodel PolrREST) i req a (polr_conc t))"
| "server_post nodel i (CpolrReq req) ans t =
     (\<exists>a. ans = CpolrAns a \<and> conc_post cpolr_desc cl_key (nodel CpolrREST) i req a (cpolr_conc t))"
| "server_post nodel i (EphrReq req) ans t =
     (\<exists>a. ans = EphrAns a \<and> conc_post ephr_desc ns_key (nodel EphrREST) i req a (ephr_conc t))"
| "server_post nodel i (CephrReq req) ans t =
     (\<exists>a. ans = CephrAns a \<and> conc_post cephr_desc cl_key (nodel CephrREST) i req a (cephr_conc t))"

text \<open>The report a request has written, if it succeeded: its key and its version.\<close>

definition key_version :: "('k \<Rightarrow> server_key) \<Rightarrow> ('a ObjectMeta_scheme \<Rightarrow> 'k) \<Rightarrow> 'a ObjectMeta_scheme \<Rightarrow> server_key \<times> string" where
  "key_version tag key r = (tag (key r), ResourceVersion r)"

fun server_written :: "server_request \<Rightarrow> server_answer \<Rightarrow> (server_key \<times> string) option" where
  "server_written (PolrReq req) (PolrAns a) = map_option (key_version PolrKey ns_key) (written polr_desc req a)"
| "server_written (CpolrReq req) (CpolrAns a) = map_option (key_version CpolrKey cl_key) (written cpolr_desc req a)"
| "server_written (EphrReq req) (EphrAns a) = map_option (key_version EphrKey ns_key) (written ephr_desc req a)"
| "server_written (CephrReq req) (CephrAns a) = map_option (key_version CephrKey cl_key) (written cephr_desc req a)"
| "server_written req a = None"

subsection \<open>Every thread meets its guarantee\<close>

lemma framed_kindI:
  assumes "rest_kind S key sel canon lenient gk gq good vw iv d"
    and "\<And>s c. iv s \<Longrightarrow> good_cmd gk gq good c \<Longrightarrow> same3 f g h s (snd (do_cmd S c s))"
  shows "framed_kind S key sel canon lenient gk gq good vw iv d (same3 f g h)"
  using assms by (simp add: framed_kind_def framed_kind_axioms_def) (simp add: same3_def)

context server_storage
begin

lemma polr_framed:
  "framed_kind (polr_ops st) ns_key ns_sel (km_canon M1) lenient (km_key M1) (km_sel M1) (km_good M1)
     (km_view M1) iv polr_desc (same3 (km_view M2) (km_view M3) (km_view M4))"
  by (rule framed_kindI [OF polr_rest_kind [OF polr_contract] polr_frame])

lemma cpolr_framed:
  "framed_kind (cpolr_ops st) cl_key cl_sel (km_canon M2) lenient (km_key M2) (km_sel M2) (km_good M2)
     (km_view M2) iv cpolr_desc (same3 (km_view M1) (km_view M3) (km_view M4))"
  by (rule framed_kindI [OF cpolr_rest_kind [OF cpolr_contract] cpolr_frame])

lemma ephr_framed:
  "framed_kind (ephr_ops st) ns_key ns_sel (km_canon M3) lenient (km_key M3) (km_sel M3) (km_good M3)
     (km_view M3) iv ephr_desc (same3 (km_view M1) (km_view M2) (km_view M4))"
  by (rule framed_kindI [OF ephr_rest_kind [OF ephr_contract] ephr_frame])

lemma cephr_framed:
  "framed_kind (cephr_ops st) cl_key cl_sel (km_canon M4) lenient (km_key M4) (km_sel M4) (km_good M4)
     (km_view M4) iv cephr_desc (same3 (km_view M1) (km_view M2) (km_view M3))"
  by (rule framed_kindI [OF cephr_rest_kind [OF cephr_contract] cephr_frame])

text \<open>A request is well behaved on the state of the whole server.\<close>

lemma server_thread_ok:
  assumes kept: "kinds_meta_kept M1 M2 M3 M4" and "server_legal M1 M2 M3 M4 req"
    and "nodel (request_kind req) \<longrightarrow> \<not> server_deletes req"
  shows "sat server_room (server_inv M1 M2 M3 M4 iv w0 nodel) (server_grows M1 M2 M3 M4 nodel)
     (server_own M1 M2 M3 M4 nodel) (server_post nodel i req) (server_prog st i req) t"
proof (cases req)
  case (PolrReq r)
  have kept': "meta_kept (km_good M1) (km_canon M1)" using kept by (simp add: kinds_meta_kept_def)
  have legal: "conc_legal polr_desc (km_key M1) (km_sel M1) (km_good M1) r"
    and "nodel PolrREST \<longrightarrow> \<not> deletes r"
    using assms(2,3) PolrReq by simp_all
  note ok = framed_kind.ok_request [OF polr_framed kept' this, of "km_view M1 (srv_db w0)" i "polr_conc t"]
  show ?thesis
    unfolding PolrReq server_prog.simps fmap_prog_def server_post.simps
    by (rule polr_lifted.ok_lift, rule conc.ok_fmap, rule conc.ok_weaken [OF ok]) simp
next
  case (CpolrReq r)
  have kept': "meta_kept (km_good M2) (km_canon M2)" using kept by (simp add: kinds_meta_kept_def)
  have legal: "conc_legal cpolr_desc (km_key M2) (km_sel M2) (km_good M2) r"
    and "nodel CpolrREST \<longrightarrow> \<not> deletes r"
    using assms(2,3) CpolrReq by simp_all
  note ok = framed_kind.ok_request [OF cpolr_framed kept' this, of "km_view M2 (srv_db w0)" i "cpolr_conc t"]
  show ?thesis
    unfolding CpolrReq server_prog.simps fmap_prog_def server_post.simps
    by (rule cpolr_lifted.ok_lift, rule conc.ok_fmap, rule conc.ok_weaken [OF ok]) simp
next
  case (EphrReq r)
  have kept': "meta_kept (km_good M3) (km_canon M3)" using kept by (simp add: kinds_meta_kept_def)
  have legal: "conc_legal ephr_desc (km_key M3) (km_sel M3) (km_good M3) r"
    and "nodel EphrREST \<longrightarrow> \<not> deletes r"
    using assms(2,3) EphrReq by simp_all
  note ok = framed_kind.ok_request [OF ephr_framed kept' this, of "km_view M3 (srv_db w0)" i "ephr_conc t"]
  show ?thesis
    unfolding EphrReq server_prog.simps fmap_prog_def server_post.simps
    by (rule ephr_lifted.ok_lift, rule conc.ok_fmap, rule conc.ok_weaken [OF ok]) simp
next
  case (CephrReq r)
  have kept': "meta_kept (km_good M4) (km_canon M4)" using kept by (simp add: kinds_meta_kept_def)
  have legal: "conc_legal cephr_desc (km_key M4) (km_sel M4) (km_good M4) r"
    and "nodel CephrREST \<longrightarrow> \<not> deletes r"
    using assms(2,3) CephrReq by simp_all
  note ok = framed_kind.ok_request [OF cephr_framed kept' this, of "km_view M4 (srv_db w0)" i "cephr_conc t"]
  show ?thesis
    unfolding CephrReq server_prog.simps fmap_prog_def server_post.simps
    by (rule cephr_lifted.ok_lift, rule conc.ok_fmap, rule conc.ok_weaken [OF ok]) simp
qed

end

subsection \<open>Where the requests may start, and what they leave\<close>

definition server_ready ::
  "'s polr_model \<Rightarrow> 's cpolr_model \<Rightarrow> 's ephr_model \<Rightarrow> 's cephr_model \<Rightarrow> ('s \<Rightarrow> bool) \<Rightarrow> 's server_state \<Rightarrow> bool" where
  "server_ready M1 M2 M3 M4 iv w \<longleftrightarrow> iv (srv_db w) \<and> server_served M1 M2 M3 M4 w \<and>
     fresh (server_versions M1 M2 M3 M4 (srv_db w)) (version (srv_versioning w))"

lemma fresh_part:
  assumes "fresh m (version (store_versioning p))" and "inj tag"
    and "\<And>k. m (tag k) = map_option ResourceVersion (vw (store_db p) k)"
  shows "versions_fresh vw p"
proof -
  have m: "m (tag k) = Some (ResourceVersion r)" if "vw (store_db p) k = Some r" for k r
    using that assms(3) by simp
  have "k = k'" if "vw (store_db p) k = Some r" "vw (store_db p) k' = Some r'"
    "ResourceVersion r = ResourceVersion r'" for k k' r r'
    using m [OF that(1)] m [OF that(2)] that(3) assms(1,2) unfolding fresh_def by (metis injD)
  moreover have "\<exists>u. ResourceVersion r = FormatUint u \<and> u < version (store_versioning p)"
    if "vw (store_db p) k = Some r" for k r
    using m [OF that] assms(1) unfolding fresh_def by blast
  ultimately show ?thesis unfolding versions_fresh_def by blast
qed

lemma conc_start_parts:
  "polr_conc (server_conc_start w) = conc_start (polr_part w)"
  "cpolr_conc (server_conc_start w) = conc_start (cpolr_part w)"
  "ephr_conc (server_conc_start w) = conc_start (ephr_part w)"
  "cephr_conc (server_conc_start w) = conc_start (cephr_part w)"
  by (simp_all add: conc_parts server_conc_start_def conc_start_def)

lemma server_start_inv:
  assumes "server_ready M1 M2 M3 M4 iv w"
  shows "server_inv M1 M2 M3 M4 iv w nodel (server_conc_start w)"
proof -
  have db: "iv (srv_db w)" and served: "server_served M1 M2 M3 M4 w"
    and new: "fresh (server_versions M1 M2 M3 M4 (srv_db w)) (version (srv_versioning w))"
    using assms by (simp_all add: server_ready_def)
  have fresh: "versions_fresh (km_view M1) (polr_part w)"
    "versions_fresh (km_view M2) (cpolr_part w)"
    "versions_fresh (km_view M3) (ephr_part w)"
    "versions_fresh (km_view M4) (cephr_part w)"
    using fresh_part [of "server_versions M1 M2 M3 M4 (srv_db w)" "polr_part w" PolrKey "km_view M1"]
      fresh_part [of "server_versions M1 M2 M3 M4 (srv_db w)" "cpolr_part w" CpolrKey "km_view M2"]
      fresh_part [of "server_versions M1 M2 M3 M4 (srv_db w)" "ephr_part w" EphrKey "km_view M3"]
      fresh_part [of "server_versions M1 M2 M3 M4 (srv_db w)" "cephr_part w" CephrKey "km_view M4"]
      new
    by (simp_all add: server_versions_def inj_def)
  have once: "drawn_once v v (server_drew (server_conc_start w))" for v
    by (auto simp: drawn_once_def server_conc_start_def elim!: server_drew.elims)
  note start = conc_start_inv [where iv = iv and vw = "km_view M1" and w = "polr_part w", OF _ _ fresh(1), unfolded part_simps, OF db]
    conc_start_inv [where iv = iv and vw = "km_view M2" and w = "cpolr_part w", OF _ _ fresh(2), unfolded part_simps, OF db]
    conc_start_inv [where iv = iv and vw = "km_view M3" and w = "ephr_part w", OF _ _ fresh(3), unfolded part_simps, OF db]
    conc_start_inv [where iv = iv and vw = "km_view M4" and w = "cephr_part w", OF _ _ fresh(4), unfolded part_simps, OF db]
  show ?thesis
    using start served once
    by (simp add: server_inv_def conc_start_parts server_served_def) (simp add: server_conc_start_def)
qed

text \<open>A stored report has a version that was drawn for it, or was there at the start.\<close>

lemma server_entry:
  assumes "server_inv M1 M2 M3 M4 iv w0 nodel t" and "server_versions M1 M2 M3 M4 (srv_db (sc_server t)) x = Some s"
  shows "\<exists>v. s = FormatUint v \<and> v < version (srv_versioning (sc_server t)) \<and>
     (server_versions M1 M2 M3 M4 (srv_db w0) x = Some s \<or> (\<exists>i. server_drew t v i x))"
proof (cases x)
  case (PolrKey k)
  then obtain r where r: "km_view M1 (srv_db (sc_server t)) k = Some r" "s = ResourceVersion r"
    using assms(2) by (auto simp: server_versions_def)
  have "conc_inv (km_view M1) iv (km_view M1 (srv_db w0)) (nodel PolrREST) (polr_conc t)"
    using assms(1) by (simp add: server_inv_def)
  from inv_entry [OF this, of k r] r(1) have "conc_entry (km_view M1 (srv_db w0)) (polr_conc t) k r" by simp
  then show ?thesis
    unfolding PolrKey r(2) conc_entry_def
    by (auto simp: server_versions_def polr_conc_def split: option.splits)
next
  case (CpolrKey k)
  then obtain r where r: "km_view M2 (srv_db (sc_server t)) k = Some r" "s = ResourceVersion r"
    using assms(2) by (auto simp: server_versions_def)
  have "conc_inv (km_view M2) iv (km_view M2 (srv_db w0)) (nodel CpolrREST) (cpolr_conc t)"
    using assms(1) by (simp add: server_inv_def)
  from inv_entry [OF this, of k r] r(1) have "conc_entry (km_view M2 (srv_db w0)) (cpolr_conc t) k r" by simp
  then show ?thesis
    unfolding CpolrKey r(2) conc_entry_def
    by (auto simp: server_versions_def cpolr_conc_def split: option.splits)
next
  case (EphrKey k)
  then obtain r where r: "km_view M3 (srv_db (sc_server t)) k = Some r" "s = ResourceVersion r"
    using assms(2) by (auto simp: server_versions_def)
  have "conc_inv (km_view M3) iv (km_view M3 (srv_db w0)) (nodel EphrREST) (ephr_conc t)"
    using assms(1) by (simp add: server_inv_def)
  from inv_entry [OF this, of k r] r(1) have "conc_entry (km_view M3 (srv_db w0)) (ephr_conc t) k r" by simp
  then show ?thesis
    unfolding EphrKey r(2) conc_entry_def
    by (auto simp: server_versions_def ephr_conc_def split: option.splits)
next
  case (CephrKey k)
  then obtain r where r: "km_view M4 (srv_db (sc_server t)) k = Some r" "s = ResourceVersion r"
    using assms(2) by (auto simp: server_versions_def)
  have "conc_inv (km_view M4) iv (km_view M4 (srv_db w0)) (nodel CephrREST) (cephr_conc t)"
    using assms(1) by (simp add: server_inv_def)
  from inv_entry [OF this, of k r] r(1) have "conc_entry (km_view M4 (srv_db w0)) (cephr_conc t) k r" by simp
  then show ?thesis
    unfolding CephrKey r(2) conc_entry_def
    by (auto simp: server_versions_def cephr_conc_def split: option.splits)
qed

lemma server_inv_ready:
  assumes "server_inv M1 M2 M3 M4 iv w0 nodel t" and "server_ready M1 M2 M3 M4 iv w0"
  shows "server_ready M1 M2 M3 M4 iv (sc_server t)"
proof -
  let ?old = "server_versions M1 M2 M3 M4 (srv_db w0)" and ?now = "server_versions M1 M2 M3 M4 (srv_db (sc_server t))"
  have once: "drawn_once (version (srv_versioning w0)) (version (srv_versioning (sc_server t))) (server_drew t)"
    and db: "iv (srv_db (sc_server t))"
    using assms(1) by (simp_all add: server_inv_def conc_inv_def)
  have m0: "fresh ?old (version (srv_versioning w0))" using assms(2) by (simp add: server_ready_def)
  have apart: "\<not> server_drew t v i y" if "?old x = Some (FormatUint v)" for x y v i
    using that m0 once unfolding fresh_def drawn_once_def by (metis FormatUint_inject not_less)
  have "x = y" if "?now x = Some s" "?now y = Some s" for x y s
    using server_entry [OF assms(1) that(1)] server_entry [OF assms(1) that(2)] apart m0 once
    unfolding fresh_def drawn_once_def by (metis FormatUint_inject)
  then have "fresh ?now (version (srv_versioning (sc_server t)))"
    using server_entry [OF assms(1)] unfolding fresh_def by blast
  moreover have "server_served M1 M2 M3 M4 (sc_server t)"
    using assms(1) by (simp add: server_inv_def server_served_def conc_inv_def conc_entry_def all_served_def)
  ultimately show ?thesis using db by (simp add: server_ready_def)
qed

context server_storage
begin

lemma server_pool_thread:
  assumes "kinds_meta_kept M1 M2 M3 M4" and "list_all (server_legal M1 M2 M3 M4) reqs"
    and "i < length (server_pool st reqs)"
  shows "sat server_room (server_inv M1 M2 M3 M4 iv w (none_deletes reqs))
      (server_grows M1 M2 M3 M4 (none_deletes reqs)) (server_own M1 M2 M3 M4 (none_deletes reqs))
      (server_post (none_deletes reqs) i (reqs ! i)) (server_pool st reqs ! i) (server_conc_start w)"
  using assms(2,3)
  by (auto simp: list_all_length list_ex_length none_deletes_def intro!: server_thread_ok [OF assms(1)])

lemma server_pool_sound:
  assumes "kinds_meta_kept M1 M2 M3 M4" and "server_ready M1 M2 M3 M4 iv w"
    and "list_all (server_legal M1 M2 M3 M4) reqs"
    and "server_runs (server_pool st reqs) (server_conc_start w) ps t"
  shows "server_inv M1 M2 M3 M4 iv w (none_deletes reqs) t"
    and "i < length reqs \<Longrightarrow> ps ! i = Return a \<Longrightarrow> server_post (none_deletes reqs) i (reqs ! i) a t"
proof -
  note start = server_start_inv [OF assms(2), of "none_deletes reqs"]
  note thread = server_pool_thread [OF assms(1,3)]
  note run = assms(4) [unfolded server_runs_def]
  show "server_inv M1 M2 M3 M4 iv w (none_deletes reqs) t"
    using server.pool_ok [OF run start thread] by simp
  show "server_post (none_deletes reqs) i (reqs ! i) a t" if "i < length reqs" "ps ! i = Return a"
    using server.pool_result [OF run start thread, of i a] that by simp
qed

end

text \<open>Whose create call filled a key; the kind of a key.\<close>

primrec server_winner :: "'s server_conc \<Rightarrow> server_key \<Rightarrow> nat option" where
  "server_winner t (PolrKey k) = g_winner (polr_ghost t) k"
| "server_winner t (CpolrKey k) = g_winner (cpolr_ghost t) k"
| "server_winner t (EphrKey k) = g_winner (ephr_ghost t) k"
| "server_winner t (CephrKey k) = g_winner (cephr_ghost t) k"

primrec key_kind :: "server_key \<Rightarrow> rest_storage" where
  "key_kind (PolrKey k) = PolrREST"
| "key_kind (CpolrKey k) = CpolrREST"
| "key_kind (EphrKey k) = EphrREST"
| "key_kind (CephrKey k) = CephrREST"

lemma server_written_post:
  assumes "server_written req a = Some (x, rv)" and "server_post nodel i req a t"
  shows "\<exists>v. rv = FormatUint v \<and> server_drew t v i x" and "request_kind req = key_kind x"
    and "nodel (request_kind req) \<Longrightarrow> server_creates req \<Longrightarrow> server_winner t x = Some i"
proof -
  have "(\<exists>v. rv = FormatUint v \<and> server_drew t v i x) \<and> request_kind req = key_kind x \<and>
     (nodel (request_kind req) \<longrightarrow> server_creates req \<longrightarrow> server_winner t x = Some i)"
  proof (cases req)
    case (PolrReq r)
    with assms(2) obtain b where b: "a = PolrAns b" and post: "conc_post polr_desc ns_key (nodel PolrREST) i r b (polr_conc t)"
      by auto
    with assms(1) PolrReq obtain p where p: "written polr_desc r b = Some p" "x = PolrKey (ns_key p)" "rv = ResourceVersion p"
      by (auto simp: key_version_def)
    from written_post [OF p(1) post] show ?thesis
      by (auto simp: PolrReq p(2,3) drew_def polr_conc_def)
  next
    case (CpolrReq r)
    with assms(2) obtain b where b: "a = CpolrAns b" and post: "conc_post cpolr_desc cl_key (nodel CpolrREST) i r b (cpolr_conc t)"
      by auto
    with assms(1) CpolrReq obtain p where p: "written cpolr_desc r b = Some p" "x = CpolrKey (cl_key p)" "rv = ResourceVersion p"
      by (auto simp: key_version_def)
    from written_post [OF p(1) post] show ?thesis
      by (auto simp: CpolrReq p(2,3) drew_def cpolr_conc_def)
  next
    case (EphrReq r)
    with assms(2) obtain b where b: "a = EphrAns b" and post: "conc_post ephr_desc ns_key (nodel EphrREST) i r b (ephr_conc t)"
      by auto
    with assms(1) EphrReq obtain p where p: "written ephr_desc r b = Some p" "x = EphrKey (ns_key p)" "rv = ResourceVersion p"
      by (auto simp: key_version_def)
    from written_post [OF p(1) post] show ?thesis
      by (auto simp: EphrReq p(2,3) drew_def ephr_conc_def)
  next
    case (CephrReq r)
    with assms(2) obtain b where b: "a = CephrAns b" and post: "conc_post cephr_desc cl_key (nodel CephrREST) i r b (cephr_conc t)"
      by auto
    with assms(1) CephrReq obtain p where p: "written cephr_desc r b = Some p" "x = CephrKey (cl_key p)" "rv = ResourceVersion p"
      by (auto simp: key_version_def)
    from written_post [OF p(1) post] show ?thesis
      by (auto simp: CephrReq p(2,3) drew_def cephr_conc_def)
  qed
  then show "\<exists>v. rv = FormatUint v \<and> server_drew t v i x" "request_kind req = key_kind x"
    "nodel (request_kind req) \<Longrightarrow> server_creates req \<Longrightarrow> server_winner t x = Some i"
    by blast+
qed

subsection \<open>On etcd and on Postgres\<close>

text \<open>The two back ends a server can start with are sound under interleaved requests on all kinds.\<close>

context server_storage
begin

lemma interleaved_ready:
  assumes "kinds_meta_kept M1 M2 M3 M4" and "server_ready M1 M2 M3 M4 iv w"
    and "list_all (server_legal M1 M2 M3 M4) reqs"
    and "server_runs (server_pool st reqs) (server_conc_start w) ps t"
  shows "server_ready M1 M2 M3 M4 iv (sc_server t)"
  by (rule server_inv_ready [OF server_pool_sound(1) [OF assms] assms(2)])

end

lemma etcd_interleaved_ready:
  assumes "M1 = etcd_polr (polrLib L) kv V (polr_canon C)" and "M2 = etcd_cpolr (cpolrLib L) kv V (cpolr_canon C)"
    and "M3 = etcd_ephr (ephrLib L) kv V (ephr_canon C)" and "M4 = etcd_cephr (cephrLib L) kv V (cephr_canon C)"
    and "kinds_meta_kept M1 M2 M3 M4" and "server_ready M1 M2 M3 M4 (etcd_sound L kv V up C) w"
    and "list_all (server_legal M1 M2 M3 M4) reqs"
    and "server_runs (server_pool (etcd_storage L kv) reqs) (server_conc_start w) ps t"
  shows "server_ready M1 M2 M3 M4 (etcd_sound L kv V up C) (sc_server t)"
  using etcd_server.interleaved_ready [OF assms(5-8) [unfolded assms(1-4)]] by (simp only: assms(1-4))

lemma pg_interleaved_ready:
  assumes "M1 = pg_polr_kind L p B C" and "M2 = pg_cpolr_kind L p B C" and "M3 = pg_ephr_kind L p B C"
    and "M4 = pg_cephr_kind L p B C"
    and "kinds_meta_kept M1 M2 M3 M4" and "server_ready M1 M2 M3 M4 (pg_sound L p B C) w"
    and "list_all (server_legal M1 M2 M3 M4) reqs"
    and "server_runs (server_pool (pg_storage L p) reqs) (server_conc_start w) ps t"
  shows "server_ready M1 M2 M3 M4 (pg_sound L p B C) (sc_server t)"
  using pg_server.interleaved_ready [OF assms(5-8) [unfolded assms(1-4)]] by (simp only: assms(1-4))

subsection \<open>Sample interleavings\<close>

definition ephr_create :: server_request where
  "ephr_create = EphrReq (CreateReq sample_env ''default'' (EphemeralReportObj sample_ephr) accept sample_opts)"

definition sample_reqs :: "server_request list" where
  "sample_reqs = [PolrReq sample_create, ephr_create, PolrReq sample_create]"

definition list_server :: "list_db server_state" where
  "list_server =
     \<lparr>srv_db = \<lparr>polr_list = [], cpolr_list = [], ephr_list = [], cephr_list = []\<rparr>, srv_versioning = \<lparr>version = 5\<rparr>,
      polr_events = [], cpolr_events = [], ephr_events = [], cephr_events = []\<rparr>"

text \<open>All three draw their versions first; then they store and announce, the last request first.\<close>

definition three_creates where
  "three_creates = schedule [0, 1, 2, 2, 1, 0, 2, 1] (server_conc_start list_server, server_pool four_lists sample_reqs)"

lemma three_creates_run:
  "server_runs (server_pool four_lists sample_reqs) (server_conc_start list_server) (snd three_creates) (fst three_creates)"
proof -
  have "along server_room [0, 1, 2, 2, 1, 0, 2, 1] (server_conc_start list_server, server_pool four_lists sample_reqs)"
    by code_simp
  from along_runs [OF this] show ?thesis by (simp add: server_runs_def three_creates_def)
qed

lemma sample_reqs_legal: "list_all (server_legal list_polr list_cpolr list_ephr list_cephr) sample_reqs"
  by (simp add: sample_reqs_def ephr_create_def list_kinds)

lemma list_server_ready: "server_ready list_polr list_cpolr list_ephr list_cephr four_sound list_server"
  by (auto simp: server_ready_def list_server_def four_sound_def server_served_def all_served_def list_kinds
      server_versions_def fresh_def split: server_key.splits)

lemma list_meta_kept: "kinds_meta_kept list_polr list_cpolr list_ephr list_cephr"
  by (simp add: kinds_meta_kept_def meta_kept_def list_kinds)

subsection \<open>Properties\<close>





text \<open>
  C9. Two different requests that succeed in writing, on the same kind or on different kinds, get
  different resource versions; and when no request deletes reports of a kind, at most one of any
  number of concurrent creates of the same report succeeds.
\<close>

theorem server_writes_exclusive:
  assumes "server_storage st lenient M1 M2 M3 M4 iv" and "kinds_meta_kept M1 M2 M3 M4"
    and "server_ready M1 M2 M3 M4 iv w" and "list_all (server_legal M1 M2 M3 M4) reqs"
    and "server_runs (server_pool st reqs) (server_conc_start w) ps t"
    and "i < length reqs" "result (ps ! i) = Some a" "server_written (reqs ! i) a = Some (x, rv)"
    and "j < length reqs" "result (ps ! j) = Some b" "server_written (reqs ! j) b = Some (y, rv')"
    and "i \<noteq> j"
  shows "rv \<noteq> rv' \<and>
    (none_deletes reqs (request_kind (reqs ! i)) \<longrightarrow> server_creates (reqs ! i) \<longrightarrow> server_creates (reqs ! j) \<longrightarrow> x \<noteq> y)"
proof -
  note sound = server_storage.server_pool_sound [OF assms(1-5)]
  have i: "server_post (none_deletes reqs) i (reqs ! i) a t" using sound(2) [of i a] assms(6,7) by simp
  have j: "server_post (none_deletes reqs) j (reqs ! j) b t" using sound(2) [of j b] assms(9,10) by simp
  have "drawn_once (version (srv_versioning w)) (version (srv_versioning (sc_server t))) (server_drew t)"
    using sound(1) by (simp add: server_inv_def)
  then have "rv \<noteq> rv'"
    using server_written_post(1) [OF assms(8) i] server_written_post(1) [OF assms(11) j] assms(12)
    unfolding drawn_once_def by (metis FormatUint_inject)
  moreover have "x \<noteq> y" if "none_deletes reqs (request_kind (reqs ! i))" "server_creates (reqs ! i)" "server_creates (reqs ! j)"
    using server_written_post(2,3) [OF assms(8) i] server_written_post(2,3) [OF assms(11) j] that assms(12)
    by auto
  ultimately show ?thesis by blast
qed

theorem server_writes_exclusive_witness:
  "\<exists>a b x y rv rv'. result (snd three_creates ! 2) = Some a \<and> server_written (PolrReq sample_create) a = Some (x, rv) \<and>
     result (snd three_creates ! 1) = Some b \<and> server_written ephr_create b = Some (y, rv') \<and> rv \<noteq> rv' \<and> x \<noteq> y"
proof -
  have "Option.bind (result (snd three_creates ! 2)) (server_written (PolrReq sample_create)) \<noteq> None"
    "Option.bind (result (snd three_creates ! 1)) (server_written ephr_create) \<noteq> None"
    by code_simp+
  then obtain a x rv b y rv' where res: "result (snd three_creates ! 2) = Some a"
    "server_written (PolrReq sample_create) a = Some (x, rv)" "result (snd three_creates ! 1) = Some b"
    "server_written ephr_create b = Some (y, rv')"
    by (auto simp: bind_eq_Some_conv)
  have "none_deletes sample_reqs k" "server_creates (PolrReq sample_create)" "server_creates ephr_create" for k
    by (simp_all add: none_deletes_def sample_reqs_def ephr_create_def) (simp_all add: sample_create_def)
  with server_writes_exclusive [OF four.server_storage_axioms list_meta_kept list_server_ready sample_reqs_legal
      three_creates_run, of 2 a x rv 1 b y rv'] res
  show ?thesis by (auto simp: sample_reqs_def)
qed


end
