(* ===== verification/Announced.thy ===== *)
theory Announced
  imports Interleave
begin

section \<open>Every event is announced once\<close>

text \<open>
  A handler announces what its storage call did, if it succeeded, and nothing else: in the terms of
  \<open>Threads\<close>, it owes the log the events it has recorded. The exception is an update that is forced,
  which announces the report whether or not it was stored. So when all handlers have ended, the log has
  the events of the calls that succeeded, each once, but perhaps in another order.
\<close>

subsection \<open>What a handler owes\<close>

abbreviation conc_owes ::
  "('x \<Rightarrow> 'r event multiset \<Rightarrow> bool) \<Rightarrow> (('s, 'k, 'r) conc_state, 'x) prog \<Rightarrow> 'r event multiset \<Rightarrow> bool" where
  "conc_owes \<equiv> owes effects conc_log"

abbreviation owes_nothing :: "(('s, 'k, 'r) conc_state, 'x) prog \<Rightarrow> bool" where
  "owes_nothing p \<equiv> conc_owes (\<lambda>_ D. D = {#}) p {#}"

lemma owes_read:
  assumes "\<And>w. broadcast (snd (f w)) = broadcast w"
  shows "conc_owes (\<lambda>_ D. D = {#}) (conc_act f) {#}"
  unfolding conc_act_def by (rule owes_act) (simp add: assms case_prod_unfold Let_def)

lemma owes_draw: "conc_owes (\<lambda>_ D. D = {#}) (conc_draw i k) {#}"
  unfolding conc_draw_def by (rule owes_act) (simp add: case_prod_unfold Let_def)

text \<open>The event of a call is owed if the call succeeded.\<close>

definition debt :: "EventType \<Rightarrow> 'r \<Rightarrow> err option \<Rightarrow> 'r event multiset" where
  "debt t r err = (if err = None then {#(t, r)#} else {#})"

lemma owes_createR: "conc_owes (\<lambda>err D. D = debt Added r err) (conc_createR S i k r) {#}"
  unfolding conc_createR_def by (rule owes_act) (simp add: case_prod_unfold Let_def debt_def)

lemma owes_updateR: "conc_owes (\<lambda>err D. D = debt Modified r err) (conc_updateR S r) {#}"
  unfolding conc_updateR_def by (rule owes_act) (simp add: case_prod_unfold Let_def debt_def)

lemma delete_log: "broadcast (snd (rest_delete S k w)) = broadcast w"
  by (simp add: rest_delete_def case_prod_unfold Let_def)

lemma quiet_log:
  "broadcast (snd (rest_get d S k w)) = broadcast w"
  "broadcast (snd (rest_Get d S ns n w)) = broadcast w" "broadcast (snd (rest_List d S ns lopts w)) = broadcast w"
  by (simp_all add: rest_get_def rest_Get_def rest_List_def rest_list_def case_prod_unfold Let_def
      split: option.split sum.split)

lemma owes_deleteK: "conc_owes (\<lambda>err D. D = debt Deleted r err) (conc_deleteK S k r) {#}"
  unfolding conc_deleteK_def by (rule owes_act) (simp add: case_prod_unfold Let_def debt_def delete_log)

lemma owes_Action: "conc_owes (\<lambda>_ D. D = {#}) (conc_Action t r) {#(t, r)#}"
  unfolding conc_Action_def conc_act_def by (rule owes_act) (simp add: Action_def)

lemma owes_announce: "conc_owes (\<lambda>_ D. D = {#}) (bind_prog (conc_Action t r) (\<lambda>_. Return x)) {#(t, r)#}"
  by (rule owes_bindI [OF owes_Action]) simp

lemma owes_create: "conc_owes (\<lambda>(r', err) D. D = debt Added r' err) (conc_create d S i e r) {#}"
  unfolding conc_create_def Let_def
  by (rule owes_bindI [OF owes_draw], simp, rule owes_bindI [OF owes_createR], simp)

lemma owes_update: "conc_owes (\<lambda>(r', err) D. D = debt Modified r' err) (conc_update d S i r) {#}"
  unfolding conc_update_def Let_def
  by (rule owes_bindI [OF owes_draw], simp, rule owes_bindI [OF owes_updateR], simp)

lemma owes_Create: "owes_nothing (conc_Create d S i e ns obj val opts)"
proof -
  have "owes_nothing (bind_prog (conc_create d S i e r1) (\<lambda>(r, x). case x of
         Some err \<Rightarrow> Return (Inl (kd_create_err d (Name r1) err))
       | None \<Rightarrow> bind_prog (conc_Action Added r) (\<lambda>_. Return (Inr (obj_of d r)))))" for r1
    by (rule owes_bindI [OF owes_create]) (auto simp: debt_def split: option.split intro: owes_announce)
  then show ?thesis by (auto simp: conc_Create_def split: option.split)
qed

lemma owes_Update: "owes_nothing (conc_Update d S i ns n updated uval False opts)"
proof -
  have "owes_nothing (bind_prog (conc_update d S i r1) (\<lambda>(r, x). case x of
         Some err \<Rightarrow> Return (Inl (kd_update_err d err))
       | None \<Rightarrow> bind_prog (conc_Action Modified r) (\<lambda>_. Return (Inr (obj_of d r, True)))))" for r1
    by (rule owes_bindI [OF owes_update]) (auto simp: debt_def split: option.split intro: owes_announce)
  then show ?thesis
    unfolding conc_Update_def
    by (intro owes_bindI [OF owes_read]) (auto simp: quiet_log Let_def split: option.split prod.split)
qed

lemma owes_Delete: "owes_nothing (conc_Delete d S key ns n val opts)"
proof -
  have "owes_nothing (bind_prog (conc_deleteK S (key r) r) (\<lambda>x. case x of
         Some err \<Rightarrow> Return (Inl (kd_delete_err d err))
       | None \<Rightarrow> bind_prog (conc_Action Deleted r) (\<lambda>_. Return (Inr (obj_of d r, True)))))" for r
    by (rule owes_bindI [OF owes_deleteK]) (auto simp: debt_def split: option.split intro: owes_announce)
  then show ?thesis
    unfolding conc_Delete_def
    by (intro owes_bindI [OF owes_read]) (auto simp: quiet_log split: option.split sum.split)
qed

lemma owes_delete_items: "owes_nothing (conc_delete_items d S key ns val opts rs)"
proof (induction rs)
  case (Cons r rs)
  then show ?case
    unfolding conc_delete_items.simps
    by (intro owes_bindI [OF owes_Delete]) (auto split: sum.split)
qed simp

lemma owes_DeleteCollection: "owes_nothing (conc_DeleteCollection d S key ns val opts lopts)"
proof -
  have "owes_nothing (bind_prog (conc_delete_items d S key ns val opts rs) (\<lambda>x.
      case x of Some err \<Rightarrow> Return (Inl err) | None \<Rightarrow> Return (Inr l)))" for rs l
    by (rule owes_bindI [OF owes_delete_items]) (auto split: option.split)
  then show ?thesis
    unfolding conc_DeleteCollection_def
    by (intro owes_bindI [OF owes_read]) (auto simp: quiet_log split: sum.split)
qed

lemma owes_register: "owes_nothing (conc_register x)"
  unfolding conc_register_def by (rule owes_read) simp

lemma owes_Watch: "owes_nothing (conc_Watch d S ns lopts)"
proof -
  have "owes_nothing (bind_prog (conc_act (rest_List d S ns lopts)) (\<lambda>x. case x of
         Inl err \<Rightarrow> Return (Inl err)
       | Inr list \<Rightarrow> conc_register (WatchWithPrefix (map (Pair Added) (Items list)))))"
    by (rule owes_bindI [OF owes_read]) (auto simp: quiet_log split: sum.split intro: owes_register)
  then show ?thesis by (auto simp: conc_Watch_def split: option.split intro: owes_register)
qed

primrec forced :: "'a request \<Rightarrow> bool" where
  "forced (GetReq ns n) = False"
| "forced (ListReq ns lopts) = False"
| "forced (WatchReq ns lopts) = False"
| "forced (CreateReq e ns obj val opts) = False"
| "forced (UpdateReq ns n updated uval force opts) = force"
| "forced (DeleteReq ns n val opts) = False"
| "forced (DeleteCollectionReq ns val opts lopts) = False"

lemma owes_fmap: "owes E L (\<lambda>_ D. D = {#}) p D \<Longrightarrow> owes E L (\<lambda>_ D. D = {#}) (fmap_prog f p) D"
  unfolding fmap_prog_def by (erule owes_bindI) simp

lemma owes_request: "\<not> forced req \<Longrightarrow> owes_nothing (conc_request d S key i req)"
  by (cases req)
    (auto intro!: owes_fmap owes_read owes_Create owes_Update owes_Delete owes_DeleteCollection owes_Watch
      simp: quiet_log)

subsection \<open>The log, and what happened\<close>

text \<open>
  The contents are what the events give in the order in which the calls were made; the log has the
  same events, and if no two of them are of the same report, the order makes no difference.
\<close>

definition event_key :: "('r \<Rightarrow> 'k) \<Rightarrow> 'r event \<Rightarrow> 'k" where
  "event_key key ev = key (snd ev)"

definition log_permuted ::
  "('r \<Rightarrow> 'k) \<Rightarrow> ('r \<Rightarrow> 'r) \<Rightarrow> ('s \<Rightarrow> 'k \<rightharpoonup> 'r) \<Rightarrow> ('s, 'r) rest_state \<Rightarrow> ('s, 'r) rest_state \<Rightarrow> bool" where
  "log_permuted key canon vw w w' \<longleftrightarrow> (\<exists>announced happened.
     broadcast w' = broadcast w @ announced \<and> mset announced = mset happened \<and>
     vw (store_db w') = fold (apply_change key canon) happened (vw (store_db w)) \<and>
     (distinct (map (event_key key) announced) \<longrightarrow>
        vw (store_db w') = fold (apply_change key canon) announced (vw (store_db w))))"

lemma apply_change_commute:
  assumes "event_key key a \<noteq> event_key key b"
  shows "apply_change key canon a (apply_change key canon b m) =
     apply_change key canon b (apply_change key canon a m)"
  using assms
  by (cases "(key, canon, a, m)" rule: apply_change.cases; cases "(key, canon, b, m)" rule: apply_change.cases)
    (auto simp: event_key_def fun_upd_twist)

lemma fold_permuted:
  assumes "mset xs = mset ys" and "distinct (map (event_key key) xs)"
  shows "fold (apply_change key canon) xs = fold (apply_change key canon) ys"
proof (rule fold_multiset_equiv [OF _ assms(1)])
  fix a b assume "a \<in> set xs" "b \<in> set xs"
  with assms(2) have "a = b \<or> event_key key a \<noteq> event_key key b" by (auto simp: distinct_map inj_on_def)
  then show "apply_change key canon a \<circ> apply_change key canon b = apply_change key canon b \<circ> apply_change key canon a"
    by (elim disjE) (simp_all add: comp_def apply_change_commute [of key a b])
qed

lemma log_permutedI:
  assumes "broadcast w' = broadcast w @ announced" and "mset happened = mset announced"
    and "vw (store_db w') = fold (apply_change key canon) happened (vw (store_db w))"
  shows "log_permuted key canon vw w w'"
  unfolding log_permuted_def using assms fold_permuted [of announced happened key canon] by metis

end
