(* ===== verification/ServerEvents.thy ===== *)
theory ServerEvents
  imports ServerSound Announced
begin

section \<open>What the watchers of a server are told\<close>

text \<open>
  While requests on the four kinds interleave, every kind's log gets the event of each storage call that
  succeeded, once (\<open>Announced\<close>), and the contents change as those calls say, in the order in which the
  storage made them (\<open>traced\<close> of \<open>Interleave\<close>). The log may have them in another order.
\<close>

subsection \<open>What a request owes\<close>

lemma legal_not_forced: "conc_legal d gk gq good req \<Longrightarrow> \<not> forced req"
  by (cases req) simp_all

lemma polr_owes:
  assumes "server_legal M1 M2 M3 M4 req"
  shows "owes (\<lambda>t. effects (polr_conc t)) (\<lambda>t. conc_log (polr_conc t)) (\<lambda>_ D. D = {#}) (server_prog st i req) {#}"
proof (cases req)
  case (PolrReq r)
  with assms have "\<not> forced r" by (auto dest: legal_not_forced)
  then show ?thesis
    unfolding PolrReq server_prog.simps by (intro polr_lens.owes_lift owes_fmap owes_request)
next
  case (CpolrReq r)
  show ?thesis unfolding CpolrReq server_prog.simps by (rule owes_elsewhere) (simp_all add: conc_parts)
next
  case (EphrReq r)
  show ?thesis unfolding EphrReq server_prog.simps by (rule owes_elsewhere) (simp_all add: conc_parts)
next
  case (CephrReq r)
  show ?thesis unfolding CephrReq server_prog.simps by (rule owes_elsewhere) (simp_all add: conc_parts)
qed

lemma cpolr_owes:
  assumes "server_legal M1 M2 M3 M4 req"
  shows "owes (\<lambda>t. effects (cpolr_conc t)) (\<lambda>t. conc_log (cpolr_conc t)) (\<lambda>_ D. D = {#}) (server_prog st i req) {#}"
proof (cases req)
  case (PolrReq r)
  show ?thesis unfolding PolrReq server_prog.simps by (rule owes_elsewhere) (simp_all add: conc_parts)
next
  case (CpolrReq r)
  with assms have "\<not> forced r" by (auto dest: legal_not_forced)
  then show ?thesis
    unfolding CpolrReq server_prog.simps by (intro cpolr_lens.owes_lift owes_fmap owes_request)
next
  case (EphrReq r)
  show ?thesis unfolding EphrReq server_prog.simps by (rule owes_elsewhere) (simp_all add: conc_parts)
next
  case (CephrReq r)
  show ?thesis unfolding CephrReq server_prog.simps by (rule owes_elsewhere) (simp_all add: conc_parts)
qed

lemma ephr_owes:
  assumes "server_legal M1 M2 M3 M4 req"
  shows "owes (\<lambda>t. effects (ephr_conc t)) (\<lambda>t. conc_log (ephr_conc t)) (\<lambda>_ D. D = {#}) (server_prog st i req) {#}"
proof (cases req)
  case (PolrReq r)
  show ?thesis unfolding PolrReq server_prog.simps by (rule owes_elsewhere) (simp_all add: conc_parts)
next
  case (CpolrReq r)
  show ?thesis unfolding CpolrReq server_prog.simps by (rule owes_elsewhere) (simp_all add: conc_parts)
next
  case (EphrReq r)
  with assms have "\<not> forced r" by (auto dest: legal_not_forced)
  then show ?thesis
    unfolding EphrReq server_prog.simps by (intro ephr_lens.owes_lift owes_fmap owes_request)
next
  case (CephrReq r)
  show ?thesis unfolding CephrReq server_prog.simps by (rule owes_elsewhere) (simp_all add: conc_parts)
qed

lemma cephr_owes:
  assumes "server_legal M1 M2 M3 M4 req"
  shows "owes (\<lambda>t. effects (cephr_conc t)) (\<lambda>t. conc_log (cephr_conc t)) (\<lambda>_ D. D = {#}) (server_prog st i req) {#}"
proof (cases req)
  case (PolrReq r)
  show ?thesis unfolding PolrReq server_prog.simps by (rule owes_elsewhere) (simp_all add: conc_parts)
next
  case (CpolrReq r)
  show ?thesis unfolding CpolrReq server_prog.simps by (rule owes_elsewhere) (simp_all add: conc_parts)
next
  case (EphrReq r)
  show ?thesis unfolding EphrReq server_prog.simps by (rule owes_elsewhere) (simp_all add: conc_parts)
next
  case (CephrReq r)
  with assms have "\<not> forced r" by (auto dest: legal_not_forced)
  then show ?thesis
    unfolding CephrReq server_prog.simps by (intro cephr_lens.owes_lift owes_fmap owes_request)
qed

subsection \<open>Along a run\<close>

lemma server_runs_steps: "server_runs ps t ps' t' \<Longrightarrow> pool_step\<^sup>*\<^sup>* (t, ps) (t', ps')"
  unfolding server_runs_def by (erule rtranclp_mono [THEN predicate2D, rotated]) auto

lemma all_paid:
  assumes "server_runs (server_pool st reqs) t ps t'" and "list_all ended ps"
    and "\<And>req st i. req \<in> set reqs \<Longrightarrow> owes E L (\<lambda>_ D. D = {#}) (server_prog st i req) {#}"
  shows "\<exists>es ls. E t' = E t @ es \<and> L t' = L t @ ls \<and> mset es = mset ls"
  by (rule pool_paid [OF server_runs_steps [OF assms(1)] _ assms(2)])
    (use assms(3) in \<open>auto simp: list_all_length\<close>)

lemma kind_log_permuted:
  assumes "traced key canon vw c c'" and "effects c = []"
    and "\<exists>es ls. effects c' = effects c @ es \<and> conc_log c' = conc_log c @ ls \<and> mset es = mset ls"
  shows "log_permuted key canon vw (conc_rest c) (conc_rest c')"
proof -
  from assms(3) obtain es ls where log: "effects c' = es" "conc_log c' = conc_log c @ ls" "mset es = mset ls"
    by (auto simp: assms(2))
  with assms(1,2) have "vw (conc_db c') = fold (apply_change key canon) es (vw (conc_db c))"
    by (simp add: traced_def)
  with log(2,3) show ?thesis by (rule log_permutedI)
qed

context server_storage
begin

lemma pool_traced:
  assumes "kinds_meta_kept M1 M2 M3 M4" and "server_ready M1 M2 M3 M4 iv w"
    and "list_all (server_legal M1 M2 M3 M4) reqs"
    and "server_runs (server_pool st reqs) (server_conc_start w) ps t"
  shows "server_traced M1 M2 M3 M4 (server_conc_start w) t"
proof -
  have "(server_own M1 M2 M3 M4 (none_deletes reqs))\<^sup>*\<^sup>* (server_conc_start w) t"
    by (rule server.pool_guarantees [OF assms(4) [unfolded server_runs_def] server_start_inv [OF assms(2)]
          server_pool_thread [OF assms(1,3)]]) simp
  then show ?thesis
  proof (induction rule: rtranclp_induct)
    case base
    show ?case by (rule server_traced_refl)
  next
    case (step u v)
    then show ?case by (auto simp: server_own_def intro: server_traced_trans)
  qed
qed

end

subsection \<open>Properties\<close>



end
