(* ===== verification/ProcessEntry.thy ===== *)
theory ProcessEntry
  imports Server
begin

section \<open>The process\<close>

text \<open>
  \<^verbatim>\<open>main.go\<close> and the command that \<open>NewPolicyServer\<close> of \<^verbatim>\<open>pkg/app/policyserver.go\<close> makes. What cobra makes
  of the command line is a parameter: the flags are wrong, the user asks for help, or the options are
  what is left of the defaults. A process ends normally, through \<open>os.Exit\<close>, or in a panic; the deferred
  \<open>FlushLogs\<close> runs in the first and the last case only.
\<close>

datatype parsed_flags = BadFlags err | HelpAsked | ParsedOptions Options

record 'g process =
  proc_boot :: 'g
  LogsReady :: bool
  LogsFlushed :: bool
  MaxProcs :: int

datatype exit_status = ExitStatus nat | Crashed err

subsection \<open>policyserver.go\<close>

text \<open>The texts of the command; cobra gives the use line, \<open>cliflag\<close> prints the flags.\<close>

definition usageFmt :: "string \<Rightarrow> string" where
  "usageFmt useLine = ''Usage:'' @ [CHR 0x0A] @ ''  '' @ useLine @ [CHR 0x0A]"

definition UsageFunc :: "string \<Rightarrow> string \<Rightarrow> string" where
  "UsageFunc useLine sections = usageFmt useLine @ sections"

definition HelpFunc :: "string \<Rightarrow> string \<Rightarrow> string \<Rightarrow> string" where
  "HelpFunc long useLine sections = long @ [CHR 0x0A, CHR 0x0A] @ usageFmt useLine @ sections"

definition Execute ::
  "reportLibs \<Rightarrow> (clientConfig \<Rightarrow> err + 'e pg_svc KV) \<Rightarrow> (string \<Rightarrow> err + 'e sqlDB) \<Rightarrow>
     'c host \<Rightarrow> ('c, 'g) machinery \<Rightarrow> (Options \<Rightarrow> parsed_flags) \<Rightarrow> Options \<Rightarrow> ('e pg_svc world, 'g) boot \<Rightarrow>
     run_result \<times> ('e pg_svc world, 'g) boot" where
  "Execute L clientv3_New sql_Open h m parse cmd b =
     (case parse cmd of
        BadFlags err \<Rightarrow> (Returned (Some err), b)
      | HelpAsked \<Rightarrow> (Returned None, b)
      | ParsedOptions opts \<Rightarrow> runCommand L clientv3_New sql_Open h m opts b)"

subsection \<open>main.go\<close>

definition set_GOMAXPROCS :: "'c host \<Rightarrow> int \<Rightarrow> 'p process \<Rightarrow> 'p process" where
  "set_GOMAXPROCS h NumCPU p =
     (if length (Getenv h ''GOMAXPROCS'') = 0 then p\<lparr>MaxProcs := NumCPU\<rparr> else p)"

definition main ::
  "reportLibs \<Rightarrow> (clientConfig \<Rightarrow> err + 'e pg_svc KV) \<Rightarrow> (string \<Rightarrow> err + 'e sqlDB) \<Rightarrow>
     'c host \<Rightarrow> ('c, 'g) machinery \<Rightarrow> (Options \<Rightarrow> parsed_flags) \<Rightarrow> int \<Rightarrow>
     ('e pg_svc world, 'g) boot process \<Rightarrow> exit_status \<times> ('e pg_svc world, 'g) boot process" where
  "main L clientv3_New sql_Open h m parse NumCPU p =
     (let p1 = p\<lparr>LogsReady := True\<rparr>;
          p2 = set_GOMAXPROCS h NumCPU p1;
          cmd = NewPolicyServer;
          (res, b) = Execute L clientv3_New sql_Open h m parse cmd (proc_boot p2);
          p3 = p2\<lparr>proc_boot := b\<rparr>
      in case res of
           Exited n \<Rightarrow> (ExitStatus n, p3)
         | Returned None \<Rightarrow> (ExitStatus 0, p3\<lparr>LogsFlushed := True\<rparr>)
         | Returned (Some err) \<Rightarrow> (Crashed err, p3\<lparr>LogsFlushed := True\<rparr>))"

lemma set_GOMAXPROCS_boot [simp]: "proc_boot (set_GOMAXPROCS h n p) = proc_boot p"
  by (simp add: set_GOMAXPROCS_def)

lemma runCommand_result:
  "fst (runCommand L kv sq h m opts b) =
     (if ShowVersion opts then Exited 0
      else Returned (case Validate h opts of
        err # errs \<Rightarrow> Some err
      | [] \<Rightarrow> (case ServerConfig h opts of
                Inl err \<Rightarrow> Some err
              | Inr config \<Rightarrow>
                  (case Complete L kv sq m config b of
                     (Inl err, b1) \<Rightarrow> Some err
                   | (Inr s, b1) \<Rightarrow> fst (RunWithContext m (bt_server b1))))))"
  by (auto simp: runCommand_def RunUntil_def on_server_def case_prod_unfold Let_def split: list.split sum.split)

text \<open>
  A process that ends without a crash, and was asked neither for help nor for the version, has served:
  its options were valid, the server was completed (so the storage was open and the migration done), and
  the API server ran to its end without an error. Any other error of the command is the value of the
  panic; the log is flushed unless the process left through \<open>os.Exit\<close>.
\<close>

lemma main_serves:
  assumes "main L kv sq h m parse n p = (ExitStatus k, p')" and "parse NewPolicyServer = ParsedOptions opts"
    and "\<not> ShowVersion opts"
  shows "\<exists>config s b. Validate h opts = [] \<and> ServerConfig h opts = Inr config \<and>
      Complete L kv sq m config (proc_boot p) = (Inr s, b) \<and> fst (RunWithContext m (bt_server b)) = None"
    and "k = 0 \<and> LogsFlushed p'"
proof -
  have res: "fst (runCommand L kv sq h m opts (proc_boot p)) = Returned None" and out: "k = 0 \<and> LogsFlushed p'"
    using assms(1,3) runCommand_result [of L kv sq h m opts "proc_boot p"]
    by (auto simp: main_def Execute_def assms(2) case_prod_unfold Let_def
        split: run_result.splits option.splits)
  then show "\<exists>config s b. Validate h opts = [] \<and> ServerConfig h opts = Inr config \<and>
      Complete L kv sq m config (proc_boot p) = (Inr s, b) \<and> fst (RunWithContext m (bt_server b)) = None"
    using assms(3) by (auto simp: runCommand_result split: list.splits sum.splits prod.splits)
  show "k = 0 \<and> LogsFlushed p'" by (rule out)
qed

lemma main_crashes:
  assumes "main L kv sq h m parse n p = (Crashed err, p')"
  shows "fst (Execute L kv sq h m parse NewPolicyServer (proc_boot p)) = Returned (Some err) \<and> LogsFlushed p'"
  using assms
  by (auto simp: main_def case_prod_unfold Let_def split: run_result.splits option.splits)

lemma main_asked:
  "parse NewPolicyServer = HelpAsked \<Longrightarrow> fst (main L kv sq h m parse n p) = ExitStatus 0"
  "parse NewPolicyServer = ParsedOptions opts \<Longrightarrow> ShowVersion opts \<Longrightarrow>
     fst (main L kv sq h m parse n p) = ExitStatus 0 \<and>
     LogsFlushed (snd (main L kv sq h m parse n p)) = LogsFlushed p"
  by (simp_all add: main_def Execute_def runCommand_def set_GOMAXPROCS_def Let_def)

lemma main_processors:
  "MaxProcs (snd (main L kv sq h m parse n p)) = (if Getenv h ''GOMAXPROCS'' = [] then n else MaxProcs p)"
  by (auto simp: main_def set_GOMAXPROCS_def case_prod_unfold Let_def split: run_result.split option.split)

end
