(* ===== verification/OpenApi.thy ===== *)
theory OpenApi
  imports Prelude
begin

section \<open>OpenAPI schemas\<close>

text \<open>
  The data of \<^verbatim>\<open>pkg/api/generated/openapi/zz_generated.openapi.go\<close>: the part of
  \<^verbatim>\<open>spec.Schema\<close> and \<^verbatim>\<open>common.OpenAPIDefinition\<close> the generated functions fill in, descriptions
  (documentation texts) left out. The theories \<open>OpenApiMeta\<close> and \<open>OpenApiCore1\<close> to \<open>OpenApiCore4\<close> hold
  the generated functions one by one, \<open>OpenApiMap\<close> their table and its properties.

  \<open>ref\<close>, the argument of all of them, is the callback that turns the name of a definition into a
  reference. What the functions take from Go libraries comes in a record \<open>openapi_lib\<close>.
\<close>

datatype json = JStr string | JInt int | JBool bool | JList "json list" | JMap "(string \<times> json) list"

datatype schema = Schema
  (s_Type: "string list")
  (s_Format: string)
  (s_Default: "json option")
  (s_Enum: "json list")
  (s_Ref: "string option")
  (s_Items: "schema option")
  (s_AdditionalProperties: "schema option")
  (s_Properties: "(string \<times> schema) list")
  (s_Required: "string list")
  (s_Extensions: "(string \<times> json) list")

record OpenAPIDefinition =
  def_Schema :: schema
  Dependencies :: "string list"

record openapi_lib =
  Time_OpenAPISchemaType :: "string list"
  Time_OpenAPISchemaFormat :: string
  MicroTime_OpenAPISchemaType :: "string list"
  MicroTime_OpenAPISchemaFormat :: string
  Duration_OpenAPISchemaType :: "string list"
  Duration_OpenAPISchemaFormat :: string
  AzureDataDiskCachingReadWrite :: string
  AzureSharedBlobDisk :: string
  Quantity_definition :: OpenAPIDefinition
    \<comment> \<open>what \<open>EmbedOpenAPIDefinitionIntoV2Extension\<close> makes for quantities\<close>

subsection \<open>The forms of literals\<close>

definition typed :: "string list \<Rightarrow> string \<Rightarrow> schema" where
  "typed t f = Schema t f None [] None None None [] [] []"

definition refers :: "string \<Rightarrow> schema" where
  "refers r = Schema [] [] None [] (Some r) None None [] [] []"

definition array :: "schema \<Rightarrow> schema" where
  "array s = Schema [''array''] [] None [] None (Some s) None [] [] []"

definition additional :: "schema \<Rightarrow> schema" where
  "additional s = Schema [''object''] [] None [] None None (Some s) [] [] []"

definition object :: "(string \<times> schema) list \<Rightarrow> string list \<Rightarrow> schema" where
  "object ps req = Schema [''object''] [] None [] None None None ps req []"

primrec defaults :: "json \<Rightarrow> schema \<Rightarrow> schema" where
  "defaults d (Schema t f d' e r i a ps req xs) = Schema t f (Some d) e r i a ps req xs"

primrec enum :: "json list \<Rightarrow> schema \<Rightarrow> schema" where
  "enum e (Schema t f d e' r i a ps req xs) = Schema t f d e r i a ps req xs"

primrec extended :: "(string \<times> json) list \<Rightarrow> schema \<Rightarrow> schema" where
  "extended xs (Schema t f d e r i a ps req xs') = Schema t f d e r i a ps req xs"

abbreviation str :: schema where "str \<equiv> typed [''string''] []"
abbreviation bool :: schema where "bool \<equiv> typed [''boolean''] []"
abbreviation int32 :: schema where "int32 \<equiv> typed [''integer''] ''int32''"
abbreviation int64 :: schema where "int64 \<equiv> typed [''integer''] ''int64''"
abbreviation bytes :: schema where "bytes \<equiv> typed [''string''] ''byte''"

definition openapi :: "schema \<Rightarrow> string list \<Rightarrow> OpenAPIDefinition" where
  "openapi s deps = \<lparr>def_Schema = s, Dependencies = deps\<rparr>"

lemma openapi_simps [simp]: "def_Schema (openapi s deps) = s" "Dependencies (openapi s deps) = deps"
  by (simp_all add: openapi_def)

subsection \<open>Names\<close>

definition core_v1 :: "string \<Rightarrow> string" where
  "core_v1 n = ''k8s.io/api/core/v1.'' @ n"

definition meta_v1 :: "string \<Rightarrow> string" where
  "meta_v1 n = ''k8s.io/apimachinery/pkg/apis/meta/v1.'' @ n"

definition resource_pkg :: "string \<Rightarrow> string" where
  "resource_pkg n = ''k8s.io/apimachinery/pkg/api/resource.'' @ n"

definition runtime_pkg :: "string \<Rightarrow> string" where
  "runtime_pkg n = ''k8s.io/apimachinery/pkg/runtime.'' @ n"

definition version_pkg :: "string \<Rightarrow> string" where
  "version_pkg n = ''k8s.io/apimachinery/pkg/version.'' @ n"

definition intstr_pkg :: "string \<Rightarrow> string" where
  "intstr_pkg n = ''k8s.io/apimachinery/pkg/util/intstr.'' @ n"

definition kyverno_v1alpha2 :: "string \<Rightarrow> string" where
  "kyverno_v1alpha2 n = ''github.com/kyverno/kyverno/api/policyreport/v1alpha2.'' @ n"

definition kyverno_reports :: "string \<Rightarrow> string" where
  "kyverno_reports n = ''github.com/kyverno/kyverno/api/reports/v1.'' @ n"

definition wgpolicy :: "string \<Rightarrow> string" where
  "wgpolicy n =
     ''sigs.k8s.io/wg-policy-prototypes/policy-report/pkg/api/wgpolicyk8s.io/v1alpha2.'' @ n"

lemmas name_defs = core_v1_def meta_v1_def resource_pkg_def runtime_pkg_def version_pkg_def
  intstr_pkg_def kyverno_v1alpha2_def kyverno_reports_def wgpolicy_def

lemma name_inject [simp]:
  "core_v1 a = core_v1 b \<longleftrightarrow> a = b" "meta_v1 a = meta_v1 b \<longleftrightarrow> a = b"
  "resource_pkg a = resource_pkg b \<longleftrightarrow> a = b" "runtime_pkg a = runtime_pkg b \<longleftrightarrow> a = b"
  "version_pkg a = version_pkg b \<longleftrightarrow> a = b" "intstr_pkg a = intstr_pkg b \<longleftrightarrow> a = b"
  "kyverno_v1alpha2 a = kyverno_v1alpha2 b \<longleftrightarrow> a = b"
  "kyverno_reports a = kyverno_reports b \<longleftrightarrow> a = b" "wgpolicy a = wgpolicy b \<longleftrightarrow> a = b"
  by (simp_all add: name_defs)

subsection \<open>Sound definitions\<close>

text \<open>The references in a schema, at any depth.\<close>

primrec refs :: "schema \<Rightarrow> string set" where
  "refs (Schema t f d e r i a ps req xs) =
     set_option r \<union> \<Union> (set_option (map_option refs i)) \<union> \<Union> (set_option (map_option refs a)) \<union>
     \<Union> (snd ` set (map (map_prod id refs) ps))"

text \<open>
  A schema is well formed if a reference stands alone, only an array has items, only an object has
  properties, the properties have different names, and every required one is there.
\<close>

primrec wf_schema :: "schema \<Rightarrow> bool" where
  "wf_schema (Schema t f d e r i a ps req xs) \<longleftrightarrow>
     (r \<noteq> None \<longrightarrow> t = [] \<and> i = None \<and> a = None \<and> ps = []) \<and>
     (i \<noteq> None \<longrightarrow> t = [''array'']) \<and> (a \<noteq> None \<or> ps \<noteq> [] \<longrightarrow> t = [''object'']) \<and>
     distinct (map fst ps) \<and> set req \<subseteq> fst ` set ps \<and>
     pred_option id (map_option wf_schema i) \<and> pred_option id (map_option wf_schema a) \<and>
     list_all snd (map (map_prod id wf_schema) ps)"

lemma refs_simps [simp]:
  "refs (typed t f) = {}" "refs (refers r) = {r}" "refs (array s) = refs s" "refs (additional s) = refs s"
  "refs (object ps req) = (\<Union>p \<in> set ps. refs (snd p))"
  by (simp_all add: typed_def refers_def array_def additional_def object_def)

lemma refs_modified [simp]: "refs (defaults d s) = refs s" "refs (enum e s) = refs s" "refs (extended xs s) = refs s"
  by (cases s; simp)+

lemma wf_simps [simp]:
  "wf_schema (typed t f)" "wf_schema (refers r)" "wf_schema (array s) = wf_schema s"
  "wf_schema (additional s) = wf_schema s"
  "wf_schema (object ps req) \<longleftrightarrow>
     distinct (map fst ps) \<and> set req \<subseteq> fst ` set ps \<and> list_all (\<lambda>p. wf_schema (snd p)) ps"
  by (simp_all add: typed_def refers_def array_def additional_def object_def list_all_iff)

lemma wf_modified [simp]:
  "wf_schema (defaults d s) = wf_schema s" "wf_schema (enum e s) = wf_schema s"
  "wf_schema (extended xs s) = wf_schema s"
  by (cases s; simp)+

text \<open>A definition lists as its dependencies exactly what it refers to.\<close>

definition def_ok :: "(string \<Rightarrow> string) \<Rightarrow> OpenAPIDefinition \<Rightarrow> bool" where
  "def_ok ref d \<longleftrightarrow> wf_schema (def_Schema d) \<and> refs (def_Schema d) = ref ` set (Dependencies d)"

end
