(* ===== verification/OpenApiMeta.thy ===== *)
theory OpenApiMeta
  imports OpenApi
begin

section \<open>Schemas of the reports and of the API machinery\<close>

text \<open>
  The generated functions for the report kinds of both report packages and for the types of
  \<^verbatim>\<open>k8s.io/apimachinery\<close>.
\<close>

definition schema_kyverno_api_policyreport_v1alpha2_ClusterPolicyReport :: "(string \<Rightarrow> string) \<Rightarrow> OpenAPIDefinition" where
  "schema_kyverno_api_policyreport_v1alpha2_ClusterPolicyReport ref =
     openapi
       (object [
          (''kind'', str),
          (''apiVersion'', str),
          (''metadata'', defaults (JMap []) (refers (ref (meta_v1 ''ObjectMeta'')))),
          (''scope'', refers (ref (core_v1 ''ObjectReference''))),
          (''scopeSelector'', refers (ref (meta_v1 ''LabelSelector''))),
          (''summary'', defaults (JMap []) (refers (ref (kyverno_v1alpha2 ''PolicyReportSummary'')))),
          (''results'', array (defaults (JMap []) (refers (ref (kyverno_v1alpha2
            ''PolicyReportResult'')))))]
        [])
       [kyverno_v1alpha2 ''PolicyReportResult'', kyverno_v1alpha2 ''PolicyReportSummary'', core_v1
          ''ObjectReference'', meta_v1 ''LabelSelector'', meta_v1 ''ObjectMeta'']"

definition schema_kyverno_api_policyreport_v1alpha2_ClusterPolicyReportList :: "(string \<Rightarrow> string) \<Rightarrow> OpenAPIDefinition" where
  "schema_kyverno_api_policyreport_v1alpha2_ClusterPolicyReportList ref =
     openapi
       (object [
          (''kind'', str),
          (''apiVersion'', str),
          (''metadata'', defaults (JMap []) (refers (ref (meta_v1 ''ListMeta'')))),
          (''items'', array (defaults (JMap []) (refers (ref (kyverno_v1alpha2
            ''ClusterPolicyReport'')))))]
        [''items''])
       [kyverno_v1alpha2 ''ClusterPolicyReport'', meta_v1 ''ListMeta'']"

definition schema_kyverno_api_policyreport_v1alpha2_PolicyReport :: "(string \<Rightarrow> string) \<Rightarrow> OpenAPIDefinition" where
  "schema_kyverno_api_policyreport_v1alpha2_PolicyReport ref =
     openapi
       (object [
          (''kind'', str),
          (''apiVersion'', str),
          (''metadata'', defaults (JMap []) (refers (ref (meta_v1 ''ObjectMeta'')))),
          (''scope'', refers (ref (core_v1 ''ObjectReference''))),
          (''scopeSelector'', refers (ref (meta_v1 ''LabelSelector''))),
          (''summary'', defaults (JMap []) (refers (ref (kyverno_v1alpha2 ''PolicyReportSummary'')))),
          (''results'', array (defaults (JMap []) (refers (ref (kyverno_v1alpha2
            ''PolicyReportResult'')))))]
        [])
       [kyverno_v1alpha2 ''PolicyReportResult'', kyverno_v1alpha2 ''PolicyReportSummary'', core_v1
          ''ObjectReference'', meta_v1 ''LabelSelector'', meta_v1 ''ObjectMeta'']"

definition schema_kyverno_api_policyreport_v1alpha2_PolicyReportList :: "(string \<Rightarrow> string) \<Rightarrow> OpenAPIDefinition" where
  "schema_kyverno_api_policyreport_v1alpha2_PolicyReportList ref =
     openapi
       (object [
          (''kind'', str),
          (''apiVersion'', str),
          (''metadata'', defaults (JMap []) (refers (ref (meta_v1 ''ListMeta'')))),
          (''items'', array (defaults (JMap []) (refers (ref (kyverno_v1alpha2 ''PolicyReport'')))))]
        [''items''])
       [kyverno_v1alpha2 ''PolicyReport'', meta_v1 ''ListMeta'']"

definition schema_kyverno_api_policyreport_v1alpha2_PolicyReportResult :: "(string \<Rightarrow> string) \<Rightarrow> OpenAPIDefinition" where
  "schema_kyverno_api_policyreport_v1alpha2_PolicyReportResult ref =
     openapi
       (object [
          (''source'', defaults (JStr []) str),
          (''policy'', defaults (JStr []) str),
          (''rule'', str),
          (''resources'', array (defaults (JMap []) (refers (ref (core_v1 ''ObjectReference''))))),
          (''resourceSelector'', refers (ref (meta_v1 ''LabelSelector''))),
          (''message'', str),
          (''result'', str),
          (''scored'', bool),
          (''properties'', additional (defaults (JStr []) str)),
          (''timestamp'', defaults (JMap []) (refers (ref (meta_v1 ''Timestamp'')))),
          (''category'', str),
          (''severity'', str)]
        [''policy''])
       [core_v1 ''ObjectReference'', meta_v1 ''LabelSelector'', meta_v1 ''Timestamp'']"

definition schema_kyverno_api_policyreport_v1alpha2_PolicyReportSummary :: "(string \<Rightarrow> string) \<Rightarrow> OpenAPIDefinition" where
  "schema_kyverno_api_policyreport_v1alpha2_PolicyReportSummary ref =
     openapi
       (object [
          (''pass'', defaults (JInt 0) int32),
          (''fail'', defaults (JInt 0) int32),
          (''warn'', defaults (JInt 0) int32),
          (''error'', defaults (JInt 0) int32),
          (''skip'', defaults (JInt 0) int32)]
        [])
       []"

definition schema_kyverno_api_reports_v1_ClusterEphemeralReport :: "(string \<Rightarrow> string) \<Rightarrow> OpenAPIDefinition" where
  "schema_kyverno_api_reports_v1_ClusterEphemeralReport ref =
     openapi
       (object [
          (''kind'', str),
          (''apiVersion'', str),
          (''metadata'', defaults (JMap []) (refers (ref (meta_v1 ''ObjectMeta'')))),
          (''spec'', defaults (JMap []) (refers (ref (kyverno_reports ''EphemeralReportSpec''))))]
        [''spec''])
       [kyverno_reports ''EphemeralReportSpec'', meta_v1 ''ObjectMeta'']"

definition schema_kyverno_api_reports_v1_ClusterEphemeralReportList :: "(string \<Rightarrow> string) \<Rightarrow> OpenAPIDefinition" where
  "schema_kyverno_api_reports_v1_ClusterEphemeralReportList ref =
     openapi
       (object [
          (''kind'', str),
          (''apiVersion'', str),
          (''metadata'', defaults (JMap []) (refers (ref (meta_v1 ''ListMeta'')))),
          (''items'', array (defaults (JMap []) (refers (ref (kyverno_reports
            ''ClusterEphemeralReport'')))))]
        [''items''])
       [kyverno_reports ''ClusterEphemeralReport'', meta_v1 ''ListMeta'']"

definition schema_kyverno_api_reports_v1_EphemeralReport :: "(string \<Rightarrow> string) \<Rightarrow> OpenAPIDefinition" where
  "schema_kyverno_api_reports_v1_EphemeralReport ref =
     openapi
       (object [
          (''kind'', str),
          (''apiVersion'', str),
          (''metadata'', defaults (JMap []) (refers (ref (meta_v1 ''ObjectMeta'')))),
          (''spec'', defaults (JMap []) (refers (ref (kyverno_reports ''EphemeralReportSpec''))))]
        [''spec''])
       [kyverno_reports ''EphemeralReportSpec'', meta_v1 ''ObjectMeta'']"

definition schema_kyverno_api_reports_v1_EphemeralReportList :: "(string \<Rightarrow> string) \<Rightarrow> OpenAPIDefinition" where
  "schema_kyverno_api_reports_v1_EphemeralReportList ref =
     openapi
       (object [
          (''kind'', str),
          (''apiVersion'', str),
          (''metadata'', defaults (JMap []) (refers (ref (meta_v1 ''ListMeta'')))),
          (''items'', array (defaults (JMap []) (refers (ref (kyverno_reports ''EphemeralReport'')))))]
        [''items''])
       [kyverno_reports ''EphemeralReport'', meta_v1 ''ListMeta'']"

definition schema_kyverno_api_reports_v1_EphemeralReportSpec :: "(string \<Rightarrow> string) \<Rightarrow> OpenAPIDefinition" where
  "schema_kyverno_api_reports_v1_EphemeralReportSpec ref =
     openapi
       (object [
          (''owner'', defaults (JMap []) (refers (ref (meta_v1 ''OwnerReference'')))),
          (''summary'', defaults (JMap []) (refers (ref (kyverno_v1alpha2 ''PolicyReportSummary'')))),
          (''results'', array (defaults (JMap []) (refers (ref (kyverno_v1alpha2
            ''PolicyReportResult'')))))]
        [''owner''])
       [kyverno_v1alpha2 ''PolicyReportResult'', kyverno_v1alpha2 ''PolicyReportSummary'', meta_v1
          ''OwnerReference'']"

definition schema_apimachinery_pkg_api_resource_int64Amount :: "(string \<Rightarrow> string) \<Rightarrow> OpenAPIDefinition" where
  "schema_apimachinery_pkg_api_resource_int64Amount ref =
     openapi
       (object [
          (''value'', defaults (JInt 0) int64),
          (''scale'', defaults (JInt 0) int32)]
        [''value'', ''scale''])
       []"

definition schema_pkg_apis_meta_v1_APIGroup :: "(string \<Rightarrow> string) \<Rightarrow> OpenAPIDefinition" where
  "schema_pkg_apis_meta_v1_APIGroup ref =
     openapi
       (object [
          (''kind'', str),
          (''apiVersion'', str),
          (''name'', defaults (JStr []) str),
          (''versions'', extended [(''x-kubernetes-list-type'', JStr ''atomic'')] (array (defaults
            (JMap []) (refers (ref (meta_v1 ''GroupVersionForDiscovery'')))))),
          (''preferredVersion'', defaults (JMap []) (refers (ref (meta_v1
            ''GroupVersionForDiscovery'')))),
          (''serverAddressByClientCIDRs'', extended [(''x-kubernetes-list-type'', JStr ''atomic'')]
            (array (defaults (JMap []) (refers (ref (meta_v1 ''ServerAddressByClientCIDR''))))))]
        [''name'', ''versions''])
       [meta_v1 ''GroupVersionForDiscovery'', meta_v1 ''ServerAddressByClientCIDR'']"

definition schema_pkg_apis_meta_v1_APIGroupList :: "(string \<Rightarrow> string) \<Rightarrow> OpenAPIDefinition" where
  "schema_pkg_apis_meta_v1_APIGroupList ref =
     openapi
       (object [
          (''kind'', str),
          (''apiVersion'', str),
          (''groups'', extended [(''x-kubernetes-list-type'', JStr ''atomic'')] (array (defaults (JMap
            []) (refers (ref (meta_v1 ''APIGroup''))))))]
        [''groups''])
       [meta_v1 ''APIGroup'']"

definition schema_pkg_apis_meta_v1_APIResource :: "(string \<Rightarrow> string) \<Rightarrow> OpenAPIDefinition" where
  "schema_pkg_apis_meta_v1_APIResource ref =
     openapi
       (object [
          (''name'', defaults (JStr []) str),
          (''singularName'', defaults (JStr []) str),
          (''namespaced'', defaults (JBool False) bool),
          (''group'', str),
          (''version'', str),
          (''kind'', defaults (JStr []) str),
          (''verbs'', array (defaults (JStr []) str)),
          (''shortNames'', extended [(''x-kubernetes-list-type'', JStr ''atomic'')] (array (defaults
            (JStr []) str))),
          (''categories'', extended [(''x-kubernetes-list-type'', JStr ''atomic'')] (array (defaults
            (JStr []) str))),
          (''storageVersionHash'', str)]
        [''name'', ''singularName'', ''namespaced'', ''kind'', ''verbs''])
       []"

definition schema_pkg_apis_meta_v1_APIResourceList :: "(string \<Rightarrow> string) \<Rightarrow> OpenAPIDefinition" where
  "schema_pkg_apis_meta_v1_APIResourceList ref =
     openapi
       (object [
          (''kind'', str),
          (''apiVersion'', str),
          (''groupVersion'', defaults (JStr []) str),
          (''resources'', extended [(''x-kubernetes-list-type'', JStr ''atomic'')] (array (defaults
            (JMap []) (refers (ref (meta_v1 ''APIResource''))))))]
        [''groupVersion'', ''resources''])
       [meta_v1 ''APIResource'']"

definition schema_pkg_apis_meta_v1_APIVersions :: "(string \<Rightarrow> string) \<Rightarrow> OpenAPIDefinition" where
  "schema_pkg_apis_meta_v1_APIVersions ref =
     openapi
       (object [
          (''kind'', str),
          (''apiVersion'', str),
          (''versions'', extended [(''x-kubernetes-list-type'', JStr ''atomic'')] (array (defaults
            (JStr []) str))),
          (''serverAddressByClientCIDRs'', extended [(''x-kubernetes-list-type'', JStr ''atomic'')]
            (array (defaults (JMap []) (refers (ref (meta_v1 ''ServerAddressByClientCIDR''))))))]
        [''versions'', ''serverAddressByClientCIDRs''])
       [meta_v1 ''ServerAddressByClientCIDR'']"

definition schema_pkg_apis_meta_v1_ApplyOptions :: "(string \<Rightarrow> string) \<Rightarrow> OpenAPIDefinition" where
  "schema_pkg_apis_meta_v1_ApplyOptions ref =
     openapi
       (object [
          (''kind'', str),
          (''apiVersion'', str),
          (''dryRun'', extended [(''x-kubernetes-list-type'', JStr ''atomic'')] (array (defaults (JStr
            []) str))),
          (''force'', defaults (JBool False) bool),
          (''fieldManager'', defaults (JStr []) str)]
        [''force'', ''fieldManager''])
       []"

definition schema_pkg_apis_meta_v1_Condition :: "(string \<Rightarrow> string) \<Rightarrow> OpenAPIDefinition" where
  "schema_pkg_apis_meta_v1_Condition ref =
     openapi
       (object [
          (''type'', defaults (JStr []) str),
          (''status'', defaults (JStr []) str),
          (''observedGeneration'', int64),
          (''lastTransitionTime'', refers (ref (meta_v1 ''Time''))),
          (''reason'', defaults (JStr []) str),
          (''message'', defaults (JStr []) str)]
        [''type'', ''status'', ''lastTransitionTime'', ''reason'', ''message''])
       [meta_v1 ''Time'']"

definition schema_pkg_apis_meta_v1_CreateOptions :: "(string \<Rightarrow> string) \<Rightarrow> OpenAPIDefinition" where
  "schema_pkg_apis_meta_v1_CreateOptions ref =
     openapi
       (object [
          (''kind'', str),
          (''apiVersion'', str),
          (''dryRun'', extended [(''x-kubernetes-list-type'', JStr ''atomic'')] (array (defaults (JStr
            []) str))),
          (''fieldManager'', str),
          (''fieldValidation'', str)]
        [])
       []"

definition schema_pkg_apis_meta_v1_DeleteOptions :: "(string \<Rightarrow> string) \<Rightarrow> OpenAPIDefinition" where
  "schema_pkg_apis_meta_v1_DeleteOptions ref =
     openapi
       (object [
          (''kind'', str),
          (''apiVersion'', str),
          (''gracePeriodSeconds'', int64),
          (''preconditions'', refers (ref (meta_v1 ''Preconditions''))),
          (''orphanDependents'', bool),
          (''propagationPolicy'', str),
          (''dryRun'', extended [(''x-kubernetes-list-type'', JStr ''atomic'')] (array (defaults (JStr
            []) str)))]
        [])
       [meta_v1 ''Preconditions'']"

definition schema_pkg_apis_meta_v1_Duration :: "openapi_lib \<Rightarrow> (string \<Rightarrow> string) \<Rightarrow> OpenAPIDefinition" where
  "schema_pkg_apis_meta_v1_Duration lib ref =
     openapi
       (typed (Duration_OpenAPISchemaType lib) (Duration_OpenAPISchemaFormat lib))
       []"

definition schema_pkg_apis_meta_v1_FieldSelectorRequirement :: "(string \<Rightarrow> string) \<Rightarrow> OpenAPIDefinition" where
  "schema_pkg_apis_meta_v1_FieldSelectorRequirement ref =
     openapi
       (object [
          (''key'', defaults (JStr []) str),
          (''operator'', defaults (JStr []) str),
          (''values'', extended [(''x-kubernetes-list-type'', JStr ''atomic'')] (array (defaults (JStr
            []) str)))]
        [''key'', ''operator''])
       []"

definition schema_pkg_apis_meta_v1_FieldsV1 :: "(string \<Rightarrow> string) \<Rightarrow> OpenAPIDefinition" where
  "schema_pkg_apis_meta_v1_FieldsV1 ref =
     openapi
       (object [] [])
       []"

definition schema_pkg_apis_meta_v1_GetOptions :: "(string \<Rightarrow> string) \<Rightarrow> OpenAPIDefinition" where
  "schema_pkg_apis_meta_v1_GetOptions ref =
     openapi
       (object [
          (''kind'', str),
          (''apiVersion'', str),
          (''resourceVersion'', str)]
        [])
       []"

definition schema_pkg_apis_meta_v1_GroupKind :: "(string \<Rightarrow> string) \<Rightarrow> OpenAPIDefinition" where
  "schema_pkg_apis_meta_v1_GroupKind ref =
     openapi
       (object [
          (''group'', defaults (JStr []) str),
          (''kind'', defaults (JStr []) str)]
        [''group'', ''kind''])
       []"

definition schema_pkg_apis_meta_v1_GroupResource :: "(string \<Rightarrow> string) \<Rightarrow> OpenAPIDefinition" where
  "schema_pkg_apis_meta_v1_GroupResource ref =
     openapi
       (object [
          (''group'', defaults (JStr []) str),
          (''resource'', defaults (JStr []) str)]
        [''group'', ''resource''])
       []"

definition schema_pkg_apis_meta_v1_GroupVersion :: "(string \<Rightarrow> string) \<Rightarrow> OpenAPIDefinition" where
  "schema_pkg_apis_meta_v1_GroupVersion ref =
     openapi
       (object [
          (''group'', defaults (JStr []) str),
          (''version'', defaults (JStr []) str)]
        [''group'', ''version''])
       []"

definition schema_pkg_apis_meta_v1_GroupVersionForDiscovery :: "(string \<Rightarrow> string) \<Rightarrow> OpenAPIDefinition" where
  "schema_pkg_apis_meta_v1_GroupVersionForDiscovery ref =
     openapi
       (object [
          (''groupVersion'', defaults (JStr []) str),
          (''version'', defaults (JStr []) str)]
        [''groupVersion'', ''version''])
       []"

definition schema_pkg_apis_meta_v1_GroupVersionKind :: "(string \<Rightarrow> string) \<Rightarrow> OpenAPIDefinition" where
  "schema_pkg_apis_meta_v1_GroupVersionKind ref =
     openapi
       (object [
          (''group'', defaults (JStr []) str),
          (''version'', defaults (JStr []) str),
          (''kind'', defaults (JStr []) str)]
        [''group'', ''version'', ''kind''])
       []"

definition schema_pkg_apis_meta_v1_GroupVersionResource :: "(string \<Rightarrow> string) \<Rightarrow> OpenAPIDefinition" where
  "schema_pkg_apis_meta_v1_GroupVersionResource ref =
     openapi
       (object [
          (''group'', defaults (JStr []) str),
          (''version'', defaults (JStr []) str),
          (''resource'', defaults (JStr []) str)]
        [''group'', ''version'', ''resource''])
       []"

definition schema_pkg_apis_meta_v1_InternalEvent :: "(string \<Rightarrow> string) \<Rightarrow> OpenAPIDefinition" where
  "schema_pkg_apis_meta_v1_InternalEvent ref =
     openapi
       (object [
          (''Type'', defaults (JStr []) str),
          (''Object'', refers (ref (runtime_pkg ''Object'')))]
        [''Type'', ''Object''])
       [runtime_pkg ''Object'']"

definition schema_pkg_apis_meta_v1_LabelSelector :: "(string \<Rightarrow> string) \<Rightarrow> OpenAPIDefinition" where
  "schema_pkg_apis_meta_v1_LabelSelector ref =
     openapi
       (extended [(''x-kubernetes-map-type'', JStr ''atomic'')] (object [
          (''matchLabels'', additional (defaults (JStr []) str)),
          (''matchExpressions'', extended [(''x-kubernetes-list-type'', JStr ''atomic'')] (array
            (defaults (JMap []) (refers (ref (meta_v1 ''LabelSelectorRequirement''))))))]
        []))
       [meta_v1 ''LabelSelectorRequirement'']"

definition schema_pkg_apis_meta_v1_LabelSelectorRequirement :: "(string \<Rightarrow> string) \<Rightarrow> OpenAPIDefinition" where
  "schema_pkg_apis_meta_v1_LabelSelectorRequirement ref =
     openapi
       (object [
          (''key'', defaults (JStr []) str),
          (''operator'', defaults (JStr []) str),
          (''values'', extended [(''x-kubernetes-list-type'', JStr ''atomic'')] (array (defaults (JStr
            []) str)))]
        [''key'', ''operator''])
       []"

definition schema_pkg_apis_meta_v1_List :: "(string \<Rightarrow> string) \<Rightarrow> OpenAPIDefinition" where
  "schema_pkg_apis_meta_v1_List ref =
     openapi
       (object [
          (''kind'', str),
          (''apiVersion'', str),
          (''metadata'', defaults (JMap []) (refers (ref (meta_v1 ''ListMeta'')))),
          (''items'', array (refers (ref (runtime_pkg ''RawExtension''))))]
        [''items''])
       [meta_v1 ''ListMeta'', runtime_pkg ''RawExtension'']"

definition schema_pkg_apis_meta_v1_ListMeta :: "(string \<Rightarrow> string) \<Rightarrow> OpenAPIDefinition" where
  "schema_pkg_apis_meta_v1_ListMeta ref =
     openapi
       (object [
          (''selfLink'', str),
          (''resourceVersion'', str),
          (''continue'', str),
          (''remainingItemCount'', int64)]
        [])
       []"

definition schema_pkg_apis_meta_v1_ListOptions :: "(string \<Rightarrow> string) \<Rightarrow> OpenAPIDefinition" where
  "schema_pkg_apis_meta_v1_ListOptions ref =
     openapi
       (object [
          (''kind'', str),
          (''apiVersion'', str),
          (''labelSelector'', str),
          (''fieldSelector'', str),
          (''watch'', bool),
          (''allowWatchBookmarks'', bool),
          (''resourceVersion'', str),
          (''resourceVersionMatch'', str),
          (''timeoutSeconds'', int64),
          (''limit'', int64),
          (''continue'', str),
          (''sendInitialEvents'', bool)]
        [])
       []"

definition schema_pkg_apis_meta_v1_ManagedFieldsEntry :: "(string \<Rightarrow> string) \<Rightarrow> OpenAPIDefinition" where
  "schema_pkg_apis_meta_v1_ManagedFieldsEntry ref =
     openapi
       (object [
          (''manager'', str),
          (''operation'', str),
          (''apiVersion'', str),
          (''time'', refers (ref (meta_v1 ''Time''))),
          (''fieldsType'', str),
          (''fieldsV1'', refers (ref (meta_v1 ''FieldsV1''))),
          (''subresource'', str)]
        [])
       [meta_v1 ''FieldsV1'', meta_v1 ''Time'']"

definition schema_pkg_apis_meta_v1_MicroTime :: "openapi_lib \<Rightarrow> (string \<Rightarrow> string) \<Rightarrow> OpenAPIDefinition" where
  "schema_pkg_apis_meta_v1_MicroTime lib ref =
     openapi
       (typed (MicroTime_OpenAPISchemaType lib) (MicroTime_OpenAPISchemaFormat lib))
       []"

definition schema_pkg_apis_meta_v1_ObjectMeta_properties1 :: "(string \<Rightarrow> string) \<Rightarrow> (string \<times> schema) list" where
  "schema_pkg_apis_meta_v1_ObjectMeta_properties1 ref = [
     (''name'', str),
     (''generateName'', str),
     (''namespace'', str),
     (''selfLink'', str),
     (''uid'', str),
     (''resourceVersion'', str),
     (''generation'', int64),
     (''creationTimestamp'', refers (ref (meta_v1 ''Time''))),
     (''deletionTimestamp'', refers (ref (meta_v1 ''Time''))),
     (''deletionGracePeriodSeconds'', int64),
     (''labels'', additional (defaults (JStr []) str)),
     (''annotations'', additional (defaults (JStr []) str))]"

definition schema_pkg_apis_meta_v1_ObjectMeta_properties2 :: "(string \<Rightarrow> string) \<Rightarrow> (string \<times> schema) list" where
  "schema_pkg_apis_meta_v1_ObjectMeta_properties2 ref = [
     (''ownerReferences'', extended [(''x-kubernetes-list-map-keys'', JList [(JStr ''uid'')]),
          (''x-kubernetes-list-type'', JStr ''map''), (''x-kubernetes-patch-merge-key'', JStr ''uid''),
            (''x-kubernetes-patch-strategy'', JStr ''merge'')] (array (defaults (JMap []) (refers (ref
              (meta_v1 ''OwnerReference'')))))),
     (''finalizers'', extended [(''x-kubernetes-list-type'', JStr ''set''),
          (''x-kubernetes-patch-strategy'', JStr ''merge'')] (array (defaults (JStr []) str))),
     (''managedFields'', extended [(''x-kubernetes-list-type'', JStr ''atomic'')] (array (defaults
          (JMap []) (refers (ref (meta_v1 ''ManagedFieldsEntry''))))))]"

definition schema_pkg_apis_meta_v1_ObjectMeta :: "(string \<Rightarrow> string) \<Rightarrow> OpenAPIDefinition" where
  "schema_pkg_apis_meta_v1_ObjectMeta ref =
     openapi
       (object (schema_pkg_apis_meta_v1_ObjectMeta_properties1 ref @
          schema_pkg_apis_meta_v1_ObjectMeta_properties2 ref)
          [])
       [meta_v1 ''ManagedFieldsEntry'', meta_v1 ''OwnerReference'', meta_v1 ''Time'']"

definition schema_pkg_apis_meta_v1_OwnerReference :: "(string \<Rightarrow> string) \<Rightarrow> OpenAPIDefinition" where
  "schema_pkg_apis_meta_v1_OwnerReference ref =
     openapi
       (extended [(''x-kubernetes-map-type'', JStr ''atomic'')] (object [
          (''apiVersion'', defaults (JStr []) str),
          (''kind'', defaults (JStr []) str),
          (''name'', defaults (JStr []) str),
          (''uid'', defaults (JStr []) str),
          (''controller'', bool),
          (''blockOwnerDeletion'', bool)]
        [''apiVersion'', ''kind'', ''name'', ''uid'']))
       []"

definition schema_pkg_apis_meta_v1_PartialObjectMetadata :: "(string \<Rightarrow> string) \<Rightarrow> OpenAPIDefinition" where
  "schema_pkg_apis_meta_v1_PartialObjectMetadata ref =
     openapi
       (object [
          (''kind'', str),
          (''apiVersion'', str),
          (''metadata'', defaults (JMap []) (refers (ref (meta_v1 ''ObjectMeta''))))]
        [])
       [meta_v1 ''ObjectMeta'']"

definition schema_pkg_apis_meta_v1_PartialObjectMetadataList :: "(string \<Rightarrow> string) \<Rightarrow> OpenAPIDefinition" where
  "schema_pkg_apis_meta_v1_PartialObjectMetadataList ref =
     openapi
       (object [
          (''kind'', str),
          (''apiVersion'', str),
          (''metadata'', defaults (JMap []) (refers (ref (meta_v1 ''ListMeta'')))),
          (''items'', array (defaults (JMap []) (refers (ref (meta_v1 ''PartialObjectMetadata'')))))]
        [''items''])
       [meta_v1 ''ListMeta'', meta_v1 ''PartialObjectMetadata'']"

definition schema_pkg_apis_meta_v1_Patch :: "(string \<Rightarrow> string) \<Rightarrow> OpenAPIDefinition" where
  "schema_pkg_apis_meta_v1_Patch ref =
     openapi
       (object [] [])
       []"

definition schema_pkg_apis_meta_v1_PatchOptions :: "(string \<Rightarrow> string) \<Rightarrow> OpenAPIDefinition" where
  "schema_pkg_apis_meta_v1_PatchOptions ref =
     openapi
       (object [
          (''kind'', str),
          (''apiVersion'', str),
          (''dryRun'', extended [(''x-kubernetes-list-type'', JStr ''atomic'')] (array (defaults (JStr
            []) str))),
          (''force'', bool),
          (''fieldManager'', str),
          (''fieldValidation'', str)]
        [])
       []"

definition schema_pkg_apis_meta_v1_Preconditions :: "(string \<Rightarrow> string) \<Rightarrow> OpenAPIDefinition" where
  "schema_pkg_apis_meta_v1_Preconditions ref =
     openapi
       (object [
          (''uid'', str),
          (''resourceVersion'', str)]
        [])
       []"

definition schema_pkg_apis_meta_v1_RootPaths :: "(string \<Rightarrow> string) \<Rightarrow> OpenAPIDefinition" where
  "schema_pkg_apis_meta_v1_RootPaths ref =
     openapi
       (object [
          (''paths'', extended [(''x-kubernetes-list-type'', JStr ''atomic'')] (array (defaults (JStr
            []) str)))]
        [''paths''])
       []"

definition schema_pkg_apis_meta_v1_ServerAddressByClientCIDR :: "(string \<Rightarrow> string) \<Rightarrow> OpenAPIDefinition" where
  "schema_pkg_apis_meta_v1_ServerAddressByClientCIDR ref =
     openapi
       (object [
          (''clientCIDR'', defaults (JStr []) str),
          (''serverAddress'', defaults (JStr []) str)]
        [''clientCIDR'', ''serverAddress''])
       []"

definition schema_pkg_apis_meta_v1_Status :: "(string \<Rightarrow> string) \<Rightarrow> OpenAPIDefinition" where
  "schema_pkg_apis_meta_v1_Status ref =
     openapi
       (object [
          (''kind'', str),
          (''apiVersion'', str),
          (''metadata'', defaults (JMap []) (refers (ref (meta_v1 ''ListMeta'')))),
          (''status'', str),
          (''message'', str),
          (''reason'', str),
          (''details'', extended [(''x-kubernetes-list-type'', JStr ''atomic'')] (refers (ref (meta_v1
            ''StatusDetails'')))),
          (''code'', int32)]
        [])
       [meta_v1 ''ListMeta'', meta_v1 ''StatusDetails'']"

definition schema_pkg_apis_meta_v1_StatusCause :: "(string \<Rightarrow> string) \<Rightarrow> OpenAPIDefinition" where
  "schema_pkg_apis_meta_v1_StatusCause ref =
     openapi
       (object [
          (''reason'', str),
          (''message'', str),
          (''field'', str)]
        [])
       []"

definition schema_pkg_apis_meta_v1_StatusDetails :: "(string \<Rightarrow> string) \<Rightarrow> OpenAPIDefinition" where
  "schema_pkg_apis_meta_v1_StatusDetails ref =
     openapi
       (object [
          (''name'', str),
          (''group'', str),
          (''kind'', str),
          (''uid'', str),
          (''causes'', extended [(''x-kubernetes-list-type'', JStr ''atomic'')] (array (defaults (JMap
            []) (refers (ref (meta_v1 ''StatusCause'')))))),
          (''retryAfterSeconds'', int32)]
        [])
       [meta_v1 ''StatusCause'']"

definition schema_pkg_apis_meta_v1_Table :: "(string \<Rightarrow> string) \<Rightarrow> OpenAPIDefinition" where
  "schema_pkg_apis_meta_v1_Table ref =
     openapi
       (object [
          (''kind'', str),
          (''apiVersion'', str),
          (''metadata'', defaults (JMap []) (refers (ref (meta_v1 ''ListMeta'')))),
          (''columnDefinitions'', extended [(''x-kubernetes-list-type'', JStr ''atomic'')] (array
            (defaults (JMap []) (refers (ref (meta_v1 ''TableColumnDefinition'')))))),
          (''rows'', extended [(''x-kubernetes-list-type'', JStr ''atomic'')] (array (defaults (JMap
            []) (refers (ref (meta_v1 ''TableRow''))))))]
        [''columnDefinitions'', ''rows''])
       [meta_v1 ''ListMeta'', meta_v1 ''TableColumnDefinition'', meta_v1 ''TableRow'']"

definition schema_pkg_apis_meta_v1_TableColumnDefinition :: "(string \<Rightarrow> string) \<Rightarrow> OpenAPIDefinition" where
  "schema_pkg_apis_meta_v1_TableColumnDefinition ref =
     openapi
       (object [
          (''name'', defaults (JStr []) str),
          (''type'', defaults (JStr []) str),
          (''format'', defaults (JStr []) str),
          (''description'', defaults (JStr []) str),
          (''priority'', defaults (JInt 0) int32)]
        [''name'', ''type'', ''format'', ''description'', ''priority''])
       []"

definition schema_pkg_apis_meta_v1_TableOptions :: "(string \<Rightarrow> string) \<Rightarrow> OpenAPIDefinition" where
  "schema_pkg_apis_meta_v1_TableOptions ref =
     openapi
       (object [
          (''kind'', str),
          (''apiVersion'', str),
          (''includeObject'', str)]
        [])
       []"

definition schema_pkg_apis_meta_v1_TableRow :: "(string \<Rightarrow> string) \<Rightarrow> OpenAPIDefinition" where
  "schema_pkg_apis_meta_v1_TableRow ref =
     openapi
       (object [
          (''cells'', extended [(''x-kubernetes-list-type'', JStr ''atomic'')] (array (typed
            [''object''] []))),
          (''conditions'', extended [(''x-kubernetes-list-type'', JStr ''atomic'')] (array (defaults
            (JMap []) (refers (ref (meta_v1 ''TableRowCondition'')))))),
          (''object'', refers (ref (runtime_pkg ''RawExtension'')))]
        [''cells''])
       [meta_v1 ''TableRowCondition'', runtime_pkg ''RawExtension'']"

definition schema_pkg_apis_meta_v1_TableRowCondition :: "(string \<Rightarrow> string) \<Rightarrow> OpenAPIDefinition" where
  "schema_pkg_apis_meta_v1_TableRowCondition ref =
     openapi
       (object [
          (''type'', defaults (JStr []) str),
          (''status'', defaults (JStr []) str),
          (''reason'', str),
          (''message'', str)]
        [''type'', ''status''])
       []"

definition schema_pkg_apis_meta_v1_Time :: "openapi_lib \<Rightarrow> (string \<Rightarrow> string) \<Rightarrow> OpenAPIDefinition" where
  "schema_pkg_apis_meta_v1_Time lib ref =
     openapi
       (typed (Time_OpenAPISchemaType lib) (Time_OpenAPISchemaFormat lib))
       []"

definition schema_pkg_apis_meta_v1_Timestamp :: "(string \<Rightarrow> string) \<Rightarrow> OpenAPIDefinition" where
  "schema_pkg_apis_meta_v1_Timestamp ref =
     openapi
       (object [
          (''seconds'', defaults (JInt 0) int64),
          (''nanos'', defaults (JInt 0) int32)]
        [''seconds'', ''nanos''])
       []"

definition schema_pkg_apis_meta_v1_TypeMeta :: "(string \<Rightarrow> string) \<Rightarrow> OpenAPIDefinition" where
  "schema_pkg_apis_meta_v1_TypeMeta ref =
     openapi
       (object [
          (''kind'', str),
          (''apiVersion'', str)]
        [])
       []"

definition schema_pkg_apis_meta_v1_UpdateOptions :: "(string \<Rightarrow> string) \<Rightarrow> OpenAPIDefinition" where
  "schema_pkg_apis_meta_v1_UpdateOptions ref =
     openapi
       (object [
          (''kind'', str),
          (''apiVersion'', str),
          (''dryRun'', extended [(''x-kubernetes-list-type'', JStr ''atomic'')] (array (defaults (JStr
            []) str))),
          (''fieldManager'', str),
          (''fieldValidation'', str)]
        [])
       []"

definition schema_pkg_apis_meta_v1_WatchEvent :: "(string \<Rightarrow> string) \<Rightarrow> OpenAPIDefinition" where
  "schema_pkg_apis_meta_v1_WatchEvent ref =
     openapi
       (object [
          (''type'', defaults (JStr []) str),
          (''object'', refers (ref (runtime_pkg ''RawExtension'')))]
        [''type'', ''object''])
       [runtime_pkg ''RawExtension'']"

definition schema_k8sio_apimachinery_pkg_runtime_RawExtension :: "(string \<Rightarrow> string) \<Rightarrow> OpenAPIDefinition" where
  "schema_k8sio_apimachinery_pkg_runtime_RawExtension ref =
     openapi
       (object [] [])
       []"

definition schema_k8sio_apimachinery_pkg_runtime_TypeMeta :: "(string \<Rightarrow> string) \<Rightarrow> OpenAPIDefinition" where
  "schema_k8sio_apimachinery_pkg_runtime_TypeMeta ref =
     openapi
       (object [
          (''apiVersion'', str),
          (''kind'', str)]
        [])
       []"

definition schema_k8sio_apimachinery_pkg_runtime_Unknown :: "(string \<Rightarrow> string) \<Rightarrow> OpenAPIDefinition" where
  "schema_k8sio_apimachinery_pkg_runtime_Unknown ref =
     openapi
       (object [
          (''apiVersion'', str),
          (''kind'', str),
          (''ContentEncoding'', defaults (JStr []) str),
          (''ContentType'', defaults (JStr []) str)]
        [''ContentEncoding'', ''ContentType''])
       []"

definition schema_k8sio_apimachinery_pkg_version_Info :: "(string \<Rightarrow> string) \<Rightarrow> OpenAPIDefinition" where
  "schema_k8sio_apimachinery_pkg_version_Info ref =
     openapi
       (object [
          (''major'', defaults (JStr []) str),
          (''minor'', defaults (JStr []) str),
          (''gitVersion'', defaults (JStr []) str),
          (''gitCommit'', defaults (JStr []) str),
          (''gitTreeState'', defaults (JStr []) str),
          (''buildDate'', defaults (JStr []) str),
          (''goVersion'', defaults (JStr []) str),
          (''compiler'', defaults (JStr []) str),
          (''platform'', defaults (JStr []) str)]
        [''major'', ''minor'', ''gitVersion'', ''gitCommit'', ''gitTreeState'', ''buildDate'',
          ''goVersion'', ''compiler'', ''platform''])
       []"

definition schema_pkg_api_wgpolicyk8sio_v1alpha2_ClusterPolicyReport :: "(string \<Rightarrow> string) \<Rightarrow> OpenAPIDefinition" where
  "schema_pkg_api_wgpolicyk8sio_v1alpha2_ClusterPolicyReport ref =
     openapi
       (object [
          (''kind'', str),
          (''apiVersion'', str),
          (''metadata'', defaults (JMap []) (refers (ref (meta_v1 ''ObjectMeta'')))),
          (''scope'', refers (ref (core_v1 ''ObjectReference''))),
          (''scopeSelector'', refers (ref (meta_v1 ''LabelSelector''))),
          (''summary'', defaults (JMap []) (refers (ref (wgpolicy ''PolicyReportSummary'')))),
          (''results'', array (refers (ref (wgpolicy ''PolicyReportResult''))))]
        [])
       [core_v1 ''ObjectReference'', meta_v1 ''LabelSelector'', meta_v1 ''ObjectMeta'', wgpolicy
          ''PolicyReportResult'', wgpolicy ''PolicyReportSummary'']"

definition schema_pkg_api_wgpolicyk8sio_v1alpha2_ClusterPolicyReportList :: "(string \<Rightarrow> string) \<Rightarrow> OpenAPIDefinition" where
  "schema_pkg_api_wgpolicyk8sio_v1alpha2_ClusterPolicyReportList ref =
     openapi
       (object [
          (''kind'', str),
          (''apiVersion'', str),
          (''metadata'', defaults (JMap []) (refers (ref (meta_v1 ''ListMeta'')))),
          (''items'', array (defaults (JMap []) (refers (ref (wgpolicy ''ClusterPolicyReport'')))))]
        [''items''])
       [meta_v1 ''ListMeta'', wgpolicy ''ClusterPolicyReport'']"

definition schema_pkg_api_wgpolicyk8sio_v1alpha2_PolicyReport :: "(string \<Rightarrow> string) \<Rightarrow> OpenAPIDefinition" where
  "schema_pkg_api_wgpolicyk8sio_v1alpha2_PolicyReport ref =
     openapi
       (object [
          (''kind'', str),
          (''apiVersion'', str),
          (''metadata'', defaults (JMap []) (refers (ref (meta_v1 ''ObjectMeta'')))),
          (''scope'', refers (ref (core_v1 ''ObjectReference''))),
          (''scopeSelector'', refers (ref (meta_v1 ''LabelSelector''))),
          (''summary'', defaults (JMap []) (refers (ref (wgpolicy ''PolicyReportSummary'')))),
          (''results'', array (refers (ref (wgpolicy ''PolicyReportResult''))))]
        [])
       [core_v1 ''ObjectReference'', meta_v1 ''LabelSelector'', meta_v1 ''ObjectMeta'', wgpolicy
          ''PolicyReportResult'', wgpolicy ''PolicyReportSummary'']"

definition schema_pkg_api_wgpolicyk8sio_v1alpha2_PolicyReportList :: "(string \<Rightarrow> string) \<Rightarrow> OpenAPIDefinition" where
  "schema_pkg_api_wgpolicyk8sio_v1alpha2_PolicyReportList ref =
     openapi
       (object [
          (''kind'', str),
          (''apiVersion'', str),
          (''metadata'', defaults (JMap []) (refers (ref (meta_v1 ''ListMeta'')))),
          (''items'', array (defaults (JMap []) (refers (ref (wgpolicy ''PolicyReport'')))))]
        [''items''])
       [meta_v1 ''ListMeta'', wgpolicy ''PolicyReport'']"

definition schema_pkg_api_wgpolicyk8sio_v1alpha2_PolicyReportResult :: "(string \<Rightarrow> string) \<Rightarrow> OpenAPIDefinition" where
  "schema_pkg_api_wgpolicyk8sio_v1alpha2_PolicyReportResult ref =
     openapi
       (object [
          (''source'', defaults (JStr []) str),
          (''policy'', defaults (JStr []) str),
          (''rule'', str),
          (''category'', str),
          (''severity'', str),
          (''timestamp'', defaults (JMap []) (refers (ref (meta_v1 ''Timestamp'')))),
          (''result'', str),
          (''scored'', bool),
          (''resources'', array (refers (ref (core_v1 ''ObjectReference'')))),
          (''resourceSelector'', refers (ref (meta_v1 ''LabelSelector''))),
          (''message'', str),
          (''properties'', additional (defaults (JStr []) str))]
        [''policy''])
       [core_v1 ''ObjectReference'', meta_v1 ''LabelSelector'', meta_v1 ''Timestamp'']"

definition schema_pkg_api_wgpolicyk8sio_v1alpha2_PolicyReportSummary :: "(string \<Rightarrow> string) \<Rightarrow> OpenAPIDefinition" where
  "schema_pkg_api_wgpolicyk8sio_v1alpha2_PolicyReportSummary ref =
     openapi
       (object [
          (''pass'', defaults (JInt 0) int32),
          (''fail'', defaults (JInt 0) int32),
          (''warn'', defaults (JInt 0) int32),
          (''error'', defaults (JInt 0) int32),
          (''skip'', defaults (JInt 0) int32)]
        [])
       []"

subsection \<open>They are sound\<close>

lemmas meta_defs =
  schema_kyverno_api_policyreport_v1alpha2_ClusterPolicyReport_def
  schema_kyverno_api_policyreport_v1alpha2_ClusterPolicyReportList_def
  schema_kyverno_api_policyreport_v1alpha2_PolicyReport_def
  schema_kyverno_api_policyreport_v1alpha2_PolicyReportList_def
  schema_kyverno_api_policyreport_v1alpha2_PolicyReportResult_def
  schema_kyverno_api_policyreport_v1alpha2_PolicyReportSummary_def
  schema_kyverno_api_reports_v1_ClusterEphemeralReport_def
  schema_kyverno_api_reports_v1_ClusterEphemeralReportList_def
  schema_kyverno_api_reports_v1_EphemeralReport_def
  schema_kyverno_api_reports_v1_EphemeralReportList_def
  schema_kyverno_api_reports_v1_EphemeralReportSpec_def
  schema_apimachinery_pkg_api_resource_int64Amount_def
  schema_pkg_apis_meta_v1_APIGroup_def
  schema_pkg_apis_meta_v1_APIGroupList_def
  schema_pkg_apis_meta_v1_APIResource_def
  schema_pkg_apis_meta_v1_APIResourceList_def
  schema_pkg_apis_meta_v1_APIVersions_def
  schema_pkg_apis_meta_v1_ApplyOptions_def
  schema_pkg_apis_meta_v1_Condition_def
  schema_pkg_apis_meta_v1_CreateOptions_def
  schema_pkg_apis_meta_v1_DeleteOptions_def
  schema_pkg_apis_meta_v1_Duration_def
  schema_pkg_apis_meta_v1_FieldSelectorRequirement_def
  schema_pkg_apis_meta_v1_FieldsV1_def
  schema_pkg_apis_meta_v1_GetOptions_def
  schema_pkg_apis_meta_v1_GroupKind_def
  schema_pkg_apis_meta_v1_GroupResource_def
  schema_pkg_apis_meta_v1_GroupVersion_def
  schema_pkg_apis_meta_v1_GroupVersionForDiscovery_def
  schema_pkg_apis_meta_v1_GroupVersionKind_def
  schema_pkg_apis_meta_v1_GroupVersionResource_def
  schema_pkg_apis_meta_v1_InternalEvent_def
  schema_pkg_apis_meta_v1_LabelSelector_def
  schema_pkg_apis_meta_v1_LabelSelectorRequirement_def
  schema_pkg_apis_meta_v1_List_def
  schema_pkg_apis_meta_v1_ListMeta_def
  schema_pkg_apis_meta_v1_ListOptions_def
  schema_pkg_apis_meta_v1_ManagedFieldsEntry_def
  schema_pkg_apis_meta_v1_MicroTime_def
  schema_pkg_apis_meta_v1_ObjectMeta_def
  schema_pkg_apis_meta_v1_OwnerReference_def
  schema_pkg_apis_meta_v1_PartialObjectMetadata_def
  schema_pkg_apis_meta_v1_PartialObjectMetadataList_def
  schema_pkg_apis_meta_v1_Patch_def
  schema_pkg_apis_meta_v1_PatchOptions_def
  schema_pkg_apis_meta_v1_Preconditions_def
  schema_pkg_apis_meta_v1_RootPaths_def
  schema_pkg_apis_meta_v1_ServerAddressByClientCIDR_def
  schema_pkg_apis_meta_v1_Status_def
  schema_pkg_apis_meta_v1_StatusCause_def
  schema_pkg_apis_meta_v1_StatusDetails_def
  schema_pkg_apis_meta_v1_Table_def
  schema_pkg_apis_meta_v1_TableColumnDefinition_def
  schema_pkg_apis_meta_v1_TableOptions_def
  schema_pkg_apis_meta_v1_TableRow_def
  schema_pkg_apis_meta_v1_TableRowCondition_def
  schema_pkg_apis_meta_v1_Time_def
  schema_pkg_apis_meta_v1_Timestamp_def
  schema_pkg_apis_meta_v1_TypeMeta_def
  schema_pkg_apis_meta_v1_UpdateOptions_def
  schema_pkg_apis_meta_v1_WatchEvent_def
  schema_k8sio_apimachinery_pkg_runtime_RawExtension_def
  schema_k8sio_apimachinery_pkg_runtime_TypeMeta_def
  schema_k8sio_apimachinery_pkg_runtime_Unknown_def
  schema_k8sio_apimachinery_pkg_version_Info_def
  schema_pkg_api_wgpolicyk8sio_v1alpha2_ClusterPolicyReport_def
  schema_pkg_api_wgpolicyk8sio_v1alpha2_ClusterPolicyReportList_def
  schema_pkg_api_wgpolicyk8sio_v1alpha2_PolicyReport_def
  schema_pkg_api_wgpolicyk8sio_v1alpha2_PolicyReportList_def
  schema_pkg_api_wgpolicyk8sio_v1alpha2_PolicyReportResult_def
  schema_pkg_api_wgpolicyk8sio_v1alpha2_PolicyReportSummary_def

lemmas meta_parts =
  schema_pkg_apis_meta_v1_ObjectMeta_properties1_def
  schema_pkg_apis_meta_v1_ObjectMeta_properties2_def

lemma meta_ok1:
  "def_ok ref (schema_kyverno_api_policyreport_v1alpha2_ClusterPolicyReport ref)"
  "def_ok ref (schema_kyverno_api_policyreport_v1alpha2_ClusterPolicyReportList ref)"
  "def_ok ref (schema_kyverno_api_policyreport_v1alpha2_PolicyReport ref)"
  "def_ok ref (schema_kyverno_api_policyreport_v1alpha2_PolicyReportList ref)"
  by (auto simp: def_ok_def meta_defs meta_parts)

lemma meta_ok2:
  "def_ok ref (schema_kyverno_api_policyreport_v1alpha2_PolicyReportResult ref)"
  "def_ok ref (schema_kyverno_api_policyreport_v1alpha2_PolicyReportSummary ref)"
  "def_ok ref (schema_kyverno_api_reports_v1_ClusterEphemeralReport ref)"
  "def_ok ref (schema_kyverno_api_reports_v1_ClusterEphemeralReportList ref)"
  "def_ok ref (schema_kyverno_api_reports_v1_EphemeralReport ref)"
  by (auto simp: def_ok_def meta_defs meta_parts)

lemma meta_ok3:
  "def_ok ref (schema_kyverno_api_reports_v1_EphemeralReportList ref)"
  "def_ok ref (schema_kyverno_api_reports_v1_EphemeralReportSpec ref)"
  "def_ok ref (schema_apimachinery_pkg_api_resource_int64Amount ref)"
  "def_ok ref (schema_pkg_apis_meta_v1_APIGroup ref)"
  "def_ok ref (schema_pkg_apis_meta_v1_APIGroupList ref)"
  by (auto simp: def_ok_def meta_defs meta_parts)

lemma meta_ok4:
  "def_ok ref (schema_pkg_apis_meta_v1_APIResource ref)"
  "def_ok ref (schema_pkg_apis_meta_v1_APIResourceList ref)"
  "def_ok ref (schema_pkg_apis_meta_v1_APIVersions ref)"
  "def_ok ref (schema_pkg_apis_meta_v1_ApplyOptions ref)"
  by (auto simp: def_ok_def meta_defs meta_parts)

lemma meta_ok5:
  "def_ok ref (schema_pkg_apis_meta_v1_Condition ref)"
  "def_ok ref (schema_pkg_apis_meta_v1_CreateOptions ref)"
  "def_ok ref (schema_pkg_apis_meta_v1_DeleteOptions ref)"
  "def_ok ref (schema_pkg_apis_meta_v1_Duration lib ref)"
  "def_ok ref (schema_pkg_apis_meta_v1_FieldSelectorRequirement ref)"
  "def_ok ref (schema_pkg_apis_meta_v1_FieldsV1 ref)"
  "def_ok ref (schema_pkg_apis_meta_v1_GetOptions ref)"
  "def_ok ref (schema_pkg_apis_meta_v1_GroupKind ref)"
  by (auto simp: def_ok_def meta_defs meta_parts)

lemma meta_ok6:
  "def_ok ref (schema_pkg_apis_meta_v1_GroupResource ref)"
  "def_ok ref (schema_pkg_apis_meta_v1_GroupVersion ref)"
  "def_ok ref (schema_pkg_apis_meta_v1_GroupVersionForDiscovery ref)"
  "def_ok ref (schema_pkg_apis_meta_v1_GroupVersionKind ref)"
  "def_ok ref (schema_pkg_apis_meta_v1_GroupVersionResource ref)"
  "def_ok ref (schema_pkg_apis_meta_v1_InternalEvent ref)"
  "def_ok ref (schema_pkg_apis_meta_v1_LabelSelector ref)"
  "def_ok ref (schema_pkg_apis_meta_v1_LabelSelectorRequirement ref)"
  by (auto simp: def_ok_def meta_defs meta_parts)

lemma meta_ok7:
  "def_ok ref (schema_pkg_apis_meta_v1_List ref)"
  "def_ok ref (schema_pkg_apis_meta_v1_ListMeta ref)"
  "def_ok ref (schema_pkg_apis_meta_v1_ListOptions ref)"
  "def_ok ref (schema_pkg_apis_meta_v1_ManagedFieldsEntry ref)"
  "def_ok ref (schema_pkg_apis_meta_v1_MicroTime lib ref)"
  by (auto simp: def_ok_def meta_defs meta_parts)

lemma meta_ok8:
  "def_ok ref (schema_pkg_apis_meta_v1_ObjectMeta ref)"
  "def_ok ref (schema_pkg_apis_meta_v1_OwnerReference ref)"
  "def_ok ref (schema_pkg_apis_meta_v1_PartialObjectMetadata ref)"
  "def_ok ref (schema_pkg_apis_meta_v1_PartialObjectMetadataList ref)"
  by (auto simp: def_ok_def meta_defs meta_parts)

lemma meta_ok9:
  "def_ok ref (schema_pkg_apis_meta_v1_Patch ref)"
  "def_ok ref (schema_pkg_apis_meta_v1_PatchOptions ref)"
  "def_ok ref (schema_pkg_apis_meta_v1_Preconditions ref)"
  "def_ok ref (schema_pkg_apis_meta_v1_RootPaths ref)"
  "def_ok ref (schema_pkg_apis_meta_v1_ServerAddressByClientCIDR ref)"
  "def_ok ref (schema_pkg_apis_meta_v1_Status ref)"
  "def_ok ref (schema_pkg_apis_meta_v1_StatusCause ref)"
  by (auto simp: def_ok_def meta_defs meta_parts)

lemma meta_ok10:
  "def_ok ref (schema_pkg_apis_meta_v1_StatusDetails ref)"
  "def_ok ref (schema_pkg_apis_meta_v1_Table ref)"
  "def_ok ref (schema_pkg_apis_meta_v1_TableColumnDefinition ref)"
  "def_ok ref (schema_pkg_apis_meta_v1_TableOptions ref)"
  "def_ok ref (schema_pkg_apis_meta_v1_TableRow ref)"
  "def_ok ref (schema_pkg_apis_meta_v1_TableRowCondition ref)"
  by (auto simp: def_ok_def meta_defs meta_parts)

lemma meta_ok11:
  "def_ok ref (schema_pkg_apis_meta_v1_Time lib ref)"
  "def_ok ref (schema_pkg_apis_meta_v1_Timestamp ref)"
  "def_ok ref (schema_pkg_apis_meta_v1_TypeMeta ref)"
  "def_ok ref (schema_pkg_apis_meta_v1_UpdateOptions ref)"
  "def_ok ref (schema_pkg_apis_meta_v1_WatchEvent ref)"
  "def_ok ref (schema_k8sio_apimachinery_pkg_runtime_RawExtension ref)"
  "def_ok ref (schema_k8sio_apimachinery_pkg_runtime_TypeMeta ref)"
  "def_ok ref (schema_k8sio_apimachinery_pkg_runtime_Unknown ref)"
  by (auto simp: def_ok_def meta_defs meta_parts)

lemma meta_ok12:
  "def_ok ref (schema_k8sio_apimachinery_pkg_version_Info ref)"
  "def_ok ref (schema_pkg_api_wgpolicyk8sio_v1alpha2_ClusterPolicyReport ref)"
  "def_ok ref (schema_pkg_api_wgpolicyk8sio_v1alpha2_ClusterPolicyReportList ref)"
  "def_ok ref (schema_pkg_api_wgpolicyk8sio_v1alpha2_PolicyReport ref)"
  "def_ok ref (schema_pkg_api_wgpolicyk8sio_v1alpha2_PolicyReportList ref)"
  by (auto simp: def_ok_def meta_defs meta_parts)

lemma meta_ok13:
  "def_ok ref (schema_pkg_api_wgpolicyk8sio_v1alpha2_PolicyReportResult ref)"
  "def_ok ref (schema_pkg_api_wgpolicyk8sio_v1alpha2_PolicyReportSummary ref)"
  by (auto simp: def_ok_def meta_defs meta_parts)

lemmas meta_ok = meta_ok1 meta_ok2 meta_ok3 meta_ok4 meta_ok5 meta_ok6 meta_ok7 meta_ok8 meta_ok9
     meta_ok10 meta_ok11 meta_ok12 meta_ok13

text \<open>The dependencies they declare.\<close>

lemmas meta_deps = meta_defs [THEN arg_cong [where f = Dependencies], unfolded openapi_simps]

end
