(* ===== verification/OpenApiCore1.thy ===== *)
theory OpenApiCore1
  imports OpenApi
begin

section \<open>Schemas of the core types, part 1\<close>

text \<open>
  The generated functions for \<^verbatim>\<open>k8s.io/api/core/v1\<close>, from \<^verbatim>\<open>AWSElasticBlockStoreVolumeSource\<close> to \<^verbatim>\<open>EventSource\<close>.
\<close>

definition schema_k8sio_api_core_v1_AWSElasticBlockStoreVolumeSource :: "(string \<Rightarrow> string) \<Rightarrow> OpenAPIDefinition" where
  "schema_k8sio_api_core_v1_AWSElasticBlockStoreVolumeSource ref =
     openapi
       (object [
          (''volumeID'', defaults (JStr []) str),
          (''fsType'', str),
          (''partition'', int32),
          (''readOnly'', bool)]
        [''volumeID''])
       []"

definition schema_k8sio_api_core_v1_Affinity :: "(string \<Rightarrow> string) \<Rightarrow> OpenAPIDefinition" where
  "schema_k8sio_api_core_v1_Affinity ref =
     openapi
       (object [
          (''nodeAffinity'', refers (ref (core_v1 ''NodeAffinity''))),
          (''podAffinity'', refers (ref (core_v1 ''PodAffinity''))),
          (''podAntiAffinity'', refers (ref (core_v1 ''PodAntiAffinity'')))]
        [])
       [core_v1 ''NodeAffinity'', core_v1 ''PodAffinity'', core_v1 ''PodAntiAffinity'']"

definition schema_k8sio_api_core_v1_AppArmorProfile :: "(string \<Rightarrow> string) \<Rightarrow> OpenAPIDefinition" where
  "schema_k8sio_api_core_v1_AppArmorProfile ref =
     openapi
       (extended [(''x-kubernetes-unions'', JList [(JMap [(''discriminator'', (JStr ''type'')),
          (''fields-to-discriminateBy'', (JMap [(''localhostProfile'', (JStr
            ''LocalhostProfile''))]))])])] (object [
          (''type'', enum [JStr ''Localhost'', JStr ''RuntimeDefault'', JStr ''Unconfined''] (defaults
            (JStr []) str)),
          (''localhostProfile'', str)]
        [''type'']))
       []"

definition schema_k8sio_api_core_v1_AttachedVolume :: "(string \<Rightarrow> string) \<Rightarrow> OpenAPIDefinition" where
  "schema_k8sio_api_core_v1_AttachedVolume ref =
     openapi
       (object [
          (''name'', defaults (JStr []) str),
          (''devicePath'', defaults (JStr []) str)]
        [''name'', ''devicePath''])
       []"

definition schema_k8sio_api_core_v1_AvoidPods :: "(string \<Rightarrow> string) \<Rightarrow> OpenAPIDefinition" where
  "schema_k8sio_api_core_v1_AvoidPods ref =
     openapi
       (object [
          (''preferAvoidPods'', extended [(''x-kubernetes-list-type'', JStr ''atomic'')] (array
            (defaults (JMap []) (refers (ref (core_v1 ''PreferAvoidPodsEntry''))))))]
        [])
       [core_v1 ''PreferAvoidPodsEntry'']"

definition schema_k8sio_api_core_v1_AzureDiskVolumeSource :: "openapi_lib \<Rightarrow> (string \<Rightarrow> string) \<Rightarrow> OpenAPIDefinition" where
  "schema_k8sio_api_core_v1_AzureDiskVolumeSource lib ref =
     openapi
       (object [
          (''diskName'', defaults (JStr []) str),
          (''diskURI'', defaults (JStr []) str),
          (''cachingMode'', enum [JStr ''None'', JStr ''ReadOnly'', JStr ''ReadWrite''] (defaults (JStr
            (AzureDataDiskCachingReadWrite lib)) str)),
          (''fsType'', defaults (JStr ''ext4'') str),
          (''readOnly'', defaults (JBool False) bool),
          (''kind'', enum [JStr ''Dedicated'', JStr ''Managed'', JStr ''Shared''] (defaults (JStr
            (AzureSharedBlobDisk lib)) str))]
        [''diskName'', ''diskURI''])
       []"

definition schema_k8sio_api_core_v1_AzureFilePersistentVolumeSource :: "(string \<Rightarrow> string) \<Rightarrow> OpenAPIDefinition" where
  "schema_k8sio_api_core_v1_AzureFilePersistentVolumeSource ref =
     openapi
       (object [
          (''secretName'', defaults (JStr []) str),
          (''shareName'', defaults (JStr []) str),
          (''readOnly'', bool),
          (''secretNamespace'', str)]
        [''secretName'', ''shareName''])
       []"

definition schema_k8sio_api_core_v1_AzureFileVolumeSource :: "(string \<Rightarrow> string) \<Rightarrow> OpenAPIDefinition" where
  "schema_k8sio_api_core_v1_AzureFileVolumeSource ref =
     openapi
       (object [
          (''secretName'', defaults (JStr []) str),
          (''shareName'', defaults (JStr []) str),
          (''readOnly'', bool)]
        [''secretName'', ''shareName''])
       []"

definition schema_k8sio_api_core_v1_Binding :: "(string \<Rightarrow> string) \<Rightarrow> OpenAPIDefinition" where
  "schema_k8sio_api_core_v1_Binding ref =
     openapi
       (object [
          (''kind'', str),
          (''apiVersion'', str),
          (''metadata'', defaults (JMap []) (refers (ref (meta_v1 ''ObjectMeta'')))),
          (''target'', defaults (JMap []) (refers (ref (core_v1 ''ObjectReference''))))]
        [''target''])
       [core_v1 ''ObjectReference'', meta_v1 ''ObjectMeta'']"

definition schema_k8sio_api_core_v1_CSIPersistentVolumeSource :: "(string \<Rightarrow> string) \<Rightarrow> OpenAPIDefinition" where
  "schema_k8sio_api_core_v1_CSIPersistentVolumeSource ref =
     openapi
       (object [
          (''driver'', defaults (JStr []) str),
          (''volumeHandle'', defaults (JStr []) str),
          (''readOnly'', bool),
          (''fsType'', str),
          (''volumeAttributes'', additional (defaults (JStr []) str)),
          (''controllerPublishSecretRef'', refers (ref (core_v1 ''SecretReference''))),
          (''nodeStageSecretRef'', refers (ref (core_v1 ''SecretReference''))),
          (''nodePublishSecretRef'', refers (ref (core_v1 ''SecretReference''))),
          (''controllerExpandSecretRef'', refers (ref (core_v1 ''SecretReference''))),
          (''nodeExpandSecretRef'', refers (ref (core_v1 ''SecretReference'')))]
        [''driver'', ''volumeHandle''])
       [core_v1 ''SecretReference'']"

definition schema_k8sio_api_core_v1_CSIVolumeSource :: "(string \<Rightarrow> string) \<Rightarrow> OpenAPIDefinition" where
  "schema_k8sio_api_core_v1_CSIVolumeSource ref =
     openapi
       (object [
          (''driver'', defaults (JStr []) str),
          (''readOnly'', bool),
          (''fsType'', str),
          (''volumeAttributes'', additional (defaults (JStr []) str)),
          (''nodePublishSecretRef'', refers (ref (core_v1 ''LocalObjectReference'')))]
        [''driver''])
       [core_v1 ''LocalObjectReference'']"

definition schema_k8sio_api_core_v1_Capabilities :: "(string \<Rightarrow> string) \<Rightarrow> OpenAPIDefinition" where
  "schema_k8sio_api_core_v1_Capabilities ref =
     openapi
       (object [
          (''add'', extended [(''x-kubernetes-list-type'', JStr ''atomic'')] (array (defaults (JStr [])
            str))),
          (''drop'', extended [(''x-kubernetes-list-type'', JStr ''atomic'')] (array (defaults (JStr
            []) str)))]
        [])
       []"

definition schema_k8sio_api_core_v1_CephFSPersistentVolumeSource :: "(string \<Rightarrow> string) \<Rightarrow> OpenAPIDefinition" where
  "schema_k8sio_api_core_v1_CephFSPersistentVolumeSource ref =
     openapi
       (object [
          (''monitors'', extended [(''x-kubernetes-list-type'', JStr ''atomic'')] (array (defaults
            (JStr []) str))),
          (''path'', str),
          (''user'', str),
          (''secretFile'', str),
          (''secretRef'', refers (ref (core_v1 ''SecretReference''))),
          (''readOnly'', bool)]
        [''monitors''])
       [core_v1 ''SecretReference'']"

definition schema_k8sio_api_core_v1_CephFSVolumeSource :: "(string \<Rightarrow> string) \<Rightarrow> OpenAPIDefinition" where
  "schema_k8sio_api_core_v1_CephFSVolumeSource ref =
     openapi
       (object [
          (''monitors'', extended [(''x-kubernetes-list-type'', JStr ''atomic'')] (array (defaults
            (JStr []) str))),
          (''path'', str),
          (''user'', str),
          (''secretFile'', str),
          (''secretRef'', refers (ref (core_v1 ''LocalObjectReference''))),
          (''readOnly'', bool)]
        [''monitors''])
       [core_v1 ''LocalObjectReference'']"

definition schema_k8sio_api_core_v1_CinderPersistentVolumeSource :: "(string \<Rightarrow> string) \<Rightarrow> OpenAPIDefinition" where
  "schema_k8sio_api_core_v1_CinderPersistentVolumeSource ref =
     openapi
       (object [
          (''volumeID'', defaults (JStr []) str),
          (''fsType'', str),
          (''readOnly'', bool),
          (''secretRef'', refers (ref (core_v1 ''SecretReference'')))]
        [''volumeID''])
       [core_v1 ''SecretReference'']"

definition schema_k8sio_api_core_v1_CinderVolumeSource :: "(string \<Rightarrow> string) \<Rightarrow> OpenAPIDefinition" where
  "schema_k8sio_api_core_v1_CinderVolumeSource ref =
     openapi
       (object [
          (''volumeID'', defaults (JStr []) str),
          (''fsType'', str),
          (''readOnly'', bool),
          (''secretRef'', refers (ref (core_v1 ''LocalObjectReference'')))]
        [''volumeID''])
       [core_v1 ''LocalObjectReference'']"

definition schema_k8sio_api_core_v1_ClientIPConfig :: "(string \<Rightarrow> string) \<Rightarrow> OpenAPIDefinition" where
  "schema_k8sio_api_core_v1_ClientIPConfig ref =
     openapi
       (object [
          (''timeoutSeconds'', int32)]
        [])
       []"

definition schema_k8sio_api_core_v1_ClusterTrustBundleProjection :: "(string \<Rightarrow> string) \<Rightarrow> OpenAPIDefinition" where
  "schema_k8sio_api_core_v1_ClusterTrustBundleProjection ref =
     openapi
       (object [
          (''name'', str),
          (''signerName'', str),
          (''labelSelector'', refers (ref (meta_v1 ''LabelSelector''))),
          (''optional'', bool),
          (''path'', defaults (JStr []) str)]
        [''path''])
       [meta_v1 ''LabelSelector'']"

definition schema_k8sio_api_core_v1_ComponentCondition :: "(string \<Rightarrow> string) \<Rightarrow> OpenAPIDefinition" where
  "schema_k8sio_api_core_v1_ComponentCondition ref =
     openapi
       (object [
          (''type'', defaults (JStr []) str),
          (''status'', defaults (JStr []) str),
          (''message'', str),
          (''error'', str)]
        [''type'', ''status''])
       []"

definition schema_k8sio_api_core_v1_ComponentStatus :: "(string \<Rightarrow> string) \<Rightarrow> OpenAPIDefinition" where
  "schema_k8sio_api_core_v1_ComponentStatus ref =
     openapi
       (object [
          (''kind'', str),
          (''apiVersion'', str),
          (''metadata'', defaults (JMap []) (refers (ref (meta_v1 ''ObjectMeta'')))),
          (''conditions'', extended [(''x-kubernetes-list-map-keys'', JList [(JStr ''type'')]),
            (''x-kubernetes-list-type'', JStr ''map''), (''x-kubernetes-patch-merge-key'', JStr
              ''type''), (''x-kubernetes-patch-strategy'', JStr ''merge'')] (array (defaults (JMap [])
                (refers (ref (core_v1 ''ComponentCondition''))))))]
        [])
       [core_v1 ''ComponentCondition'', meta_v1 ''ObjectMeta'']"

definition schema_k8sio_api_core_v1_ComponentStatusList :: "(string \<Rightarrow> string) \<Rightarrow> OpenAPIDefinition" where
  "schema_k8sio_api_core_v1_ComponentStatusList ref =
     openapi
       (object [
          (''kind'', str),
          (''apiVersion'', str),
          (''metadata'', defaults (JMap []) (refers (ref (meta_v1 ''ListMeta'')))),
          (''items'', array (defaults (JMap []) (refers (ref (core_v1 ''ComponentStatus'')))))]
        [''items''])
       [core_v1 ''ComponentStatus'', meta_v1 ''ListMeta'']"

definition schema_k8sio_api_core_v1_ConfigMap :: "(string \<Rightarrow> string) \<Rightarrow> OpenAPIDefinition" where
  "schema_k8sio_api_core_v1_ConfigMap ref =
     openapi
       (object [
          (''kind'', str),
          (''apiVersion'', str),
          (''metadata'', defaults (JMap []) (refers (ref (meta_v1 ''ObjectMeta'')))),
          (''immutable'', bool),
          (''data'', additional (defaults (JStr []) str)),
          (''binaryData'', additional bytes)]
        [])
       [meta_v1 ''ObjectMeta'']"

definition schema_k8sio_api_core_v1_ConfigMapEnvSource :: "(string \<Rightarrow> string) \<Rightarrow> OpenAPIDefinition" where
  "schema_k8sio_api_core_v1_ConfigMapEnvSource ref =
     openapi
       (object [
          (''name'', defaults (JStr []) str),
          (''optional'', bool)]
        [])
       []"

definition schema_k8sio_api_core_v1_ConfigMapKeySelector :: "(string \<Rightarrow> string) \<Rightarrow> OpenAPIDefinition" where
  "schema_k8sio_api_core_v1_ConfigMapKeySelector ref =
     openapi
       (extended [(''x-kubernetes-map-type'', JStr ''atomic'')] (object [
          (''name'', defaults (JStr []) str),
          (''key'', defaults (JStr []) str),
          (''optional'', bool)]
        [''key'']))
       []"

definition schema_k8sio_api_core_v1_ConfigMapList :: "(string \<Rightarrow> string) \<Rightarrow> OpenAPIDefinition" where
  "schema_k8sio_api_core_v1_ConfigMapList ref =
     openapi
       (object [
          (''kind'', str),
          (''apiVersion'', str),
          (''metadata'', defaults (JMap []) (refers (ref (meta_v1 ''ListMeta'')))),
          (''items'', array (defaults (JMap []) (refers (ref (core_v1 ''ConfigMap'')))))]
        [''items''])
       [core_v1 ''ConfigMap'', meta_v1 ''ListMeta'']"

definition schema_k8sio_api_core_v1_ConfigMapNodeConfigSource :: "(string \<Rightarrow> string) \<Rightarrow> OpenAPIDefinition" where
  "schema_k8sio_api_core_v1_ConfigMapNodeConfigSource ref =
     openapi
       (object [
          (''namespace'', defaults (JStr []) str),
          (''name'', defaults (JStr []) str),
          (''uid'', str),
          (''resourceVersion'', str),
          (''kubeletConfigKey'', defaults (JStr []) str)]
        [''namespace'', ''name'', ''kubeletConfigKey''])
       []"

definition schema_k8sio_api_core_v1_ConfigMapProjection :: "(string \<Rightarrow> string) \<Rightarrow> OpenAPIDefinition" where
  "schema_k8sio_api_core_v1_ConfigMapProjection ref =
     openapi
       (object [
          (''name'', defaults (JStr []) str),
          (''items'', extended [(''x-kubernetes-list-type'', JStr ''atomic'')] (array (defaults (JMap
            []) (refers (ref (core_v1 ''KeyToPath'')))))),
          (''optional'', bool)]
        [])
       [core_v1 ''KeyToPath'']"

definition schema_k8sio_api_core_v1_ConfigMapVolumeSource :: "(string \<Rightarrow> string) \<Rightarrow> OpenAPIDefinition" where
  "schema_k8sio_api_core_v1_ConfigMapVolumeSource ref =
     openapi
       (object [
          (''name'', defaults (JStr []) str),
          (''items'', extended [(''x-kubernetes-list-type'', JStr ''atomic'')] (array (defaults (JMap
            []) (refers (ref (core_v1 ''KeyToPath'')))))),
          (''defaultMode'', int32),
          (''optional'', bool)]
        [])
       [core_v1 ''KeyToPath'']"

definition schema_k8sio_api_core_v1_Container_properties1 :: "(string \<Rightarrow> string) \<Rightarrow> (string \<times> schema) list" where
  "schema_k8sio_api_core_v1_Container_properties1 ref = [
     (''name'', defaults (JStr []) str),
     (''image'', str),
     (''command'', extended [(''x-kubernetes-list-type'', JStr ''atomic'')] (array (defaults (JStr [])
          str))),
     (''args'', extended [(''x-kubernetes-list-type'', JStr ''atomic'')] (array (defaults (JStr [])
          str))),
     (''workingDir'', str),
     (''ports'', extended [(''x-kubernetes-list-map-keys'', JList [(JStr ''containerPort''), (JStr
          ''protocol'')]), (''x-kubernetes-list-type'', JStr ''map''),
            (''x-kubernetes-patch-merge-key'', JStr ''containerPort''),
              (''x-kubernetes-patch-strategy'', JStr ''merge'')] (array (defaults (JMap []) (refers
                (ref (core_v1 ''ContainerPort'')))))),
     (''envFrom'', extended [(''x-kubernetes-list-type'', JStr ''atomic'')] (array (defaults (JMap [])
          (refers (ref (core_v1 ''EnvFromSource''))))))]"

definition schema_k8sio_api_core_v1_Container_properties2 :: "(string \<Rightarrow> string) \<Rightarrow> (string \<times> schema) list" where
  "schema_k8sio_api_core_v1_Container_properties2 ref = [
     (''env'', extended [(''x-kubernetes-list-map-keys'', JList [(JStr ''name'')]),
          (''x-kubernetes-list-type'', JStr ''map''), (''x-kubernetes-patch-merge-key'', JStr
            ''name''), (''x-kubernetes-patch-strategy'', JStr ''merge'')] (array (defaults (JMap [])
              (refers (ref (core_v1 ''EnvVar'')))))),
     (''resources'', defaults (JMap []) (refers (ref (core_v1 ''ResourceRequirements'')))),
     (''resizePolicy'', extended [(''x-kubernetes-list-type'', JStr ''atomic'')] (array (defaults (JMap
          []) (refers (ref (core_v1 ''ContainerResizePolicy'')))))),
     (''restartPolicy'', str),
     (''volumeMounts'', extended [(''x-kubernetes-list-map-keys'', JList [(JStr ''mountPath'')]),
          (''x-kubernetes-list-type'', JStr ''map''), (''x-kubernetes-patch-merge-key'', JStr
            ''mountPath''), (''x-kubernetes-patch-strategy'', JStr ''merge'')] (array (defaults (JMap
              []) (refers (ref (core_v1 ''VolumeMount'')))))),
     (''volumeDevices'', extended [(''x-kubernetes-list-map-keys'', JList [(JStr ''devicePath'')]),
          (''x-kubernetes-list-type'', JStr ''map''), (''x-kubernetes-patch-merge-key'', JStr
            ''devicePath''), (''x-kubernetes-patch-strategy'', JStr ''merge'')] (array (defaults (JMap
              []) (refers (ref (core_v1 ''VolumeDevice''))))))]"

definition schema_k8sio_api_core_v1_Container_properties3 :: "(string \<Rightarrow> string) \<Rightarrow> (string \<times> schema) list" where
  "schema_k8sio_api_core_v1_Container_properties3 ref = [
     (''livenessProbe'', refers (ref (core_v1 ''Probe''))),
     (''readinessProbe'', refers (ref (core_v1 ''Probe''))),
     (''startupProbe'', refers (ref (core_v1 ''Probe''))),
     (''lifecycle'', refers (ref (core_v1 ''Lifecycle''))),
     (''terminationMessagePath'', str),
     (''terminationMessagePolicy'', enum [JStr ''FallbackToLogsOnError'', JStr ''File''] str),
     (''imagePullPolicy'', enum [JStr ''Always'', JStr ''IfNotPresent'', JStr ''Never''] str),
     (''securityContext'', refers (ref (core_v1 ''SecurityContext''))),
     (''stdin'', bool),
     (''stdinOnce'', bool),
     (''tty'', bool)]"

definition schema_k8sio_api_core_v1_Container :: "(string \<Rightarrow> string) \<Rightarrow> OpenAPIDefinition" where
  "schema_k8sio_api_core_v1_Container ref =
     openapi
       (object (schema_k8sio_api_core_v1_Container_properties1 ref @
          schema_k8sio_api_core_v1_Container_properties2 ref @
          schema_k8sio_api_core_v1_Container_properties3 ref)
          [''name''])
       [core_v1 ''ContainerPort'', core_v1 ''ContainerResizePolicy'', core_v1 ''EnvFromSource'',
          core_v1 ''EnvVar'', core_v1 ''Lifecycle'', core_v1 ''Probe'', core_v1
            ''ResourceRequirements'', core_v1 ''SecurityContext'', core_v1 ''VolumeDevice'', core_v1
              ''VolumeMount'']"

definition schema_k8sio_api_core_v1_ContainerImage :: "(string \<Rightarrow> string) \<Rightarrow> OpenAPIDefinition" where
  "schema_k8sio_api_core_v1_ContainerImage ref =
     openapi
       (object [
          (''names'', extended [(''x-kubernetes-list-type'', JStr ''atomic'')] (array (defaults (JStr
            []) str))),
          (''sizeBytes'', int64)]
        [])
       []"

definition schema_k8sio_api_core_v1_ContainerPort :: "(string \<Rightarrow> string) \<Rightarrow> OpenAPIDefinition" where
  "schema_k8sio_api_core_v1_ContainerPort ref =
     openapi
       (object [
          (''name'', str),
          (''hostPort'', int32),
          (''containerPort'', defaults (JInt 0) int32),
          (''protocol'', enum [JStr ''SCTP'', JStr ''TCP'', JStr ''UDP''] (defaults (JStr ''TCP'')
            str)),
          (''hostIP'', str)]
        [''containerPort''])
       []"

definition schema_k8sio_api_core_v1_ContainerResizePolicy :: "(string \<Rightarrow> string) \<Rightarrow> OpenAPIDefinition" where
  "schema_k8sio_api_core_v1_ContainerResizePolicy ref =
     openapi
       (object [
          (''resourceName'', defaults (JStr []) str),
          (''restartPolicy'', defaults (JStr []) str)]
        [''resourceName'', ''restartPolicy''])
       []"

definition schema_k8sio_api_core_v1_ContainerState :: "(string \<Rightarrow> string) \<Rightarrow> OpenAPIDefinition" where
  "schema_k8sio_api_core_v1_ContainerState ref =
     openapi
       (object [
          (''waiting'', refers (ref (core_v1 ''ContainerStateWaiting''))),
          (''running'', refers (ref (core_v1 ''ContainerStateRunning''))),
          (''terminated'', refers (ref (core_v1 ''ContainerStateTerminated'')))]
        [])
       [core_v1 ''ContainerStateRunning'', core_v1 ''ContainerStateTerminated'', core_v1
          ''ContainerStateWaiting'']"

definition schema_k8sio_api_core_v1_ContainerStateRunning :: "(string \<Rightarrow> string) \<Rightarrow> OpenAPIDefinition" where
  "schema_k8sio_api_core_v1_ContainerStateRunning ref =
     openapi
       (object [
          (''startedAt'', refers (ref (meta_v1 ''Time'')))]
        [])
       [meta_v1 ''Time'']"

definition schema_k8sio_api_core_v1_ContainerStateTerminated :: "(string \<Rightarrow> string) \<Rightarrow> OpenAPIDefinition" where
  "schema_k8sio_api_core_v1_ContainerStateTerminated ref =
     openapi
       (object [
          (''exitCode'', defaults (JInt 0) int32),
          (''signal'', int32),
          (''reason'', str),
          (''message'', str),
          (''startedAt'', refers (ref (meta_v1 ''Time''))),
          (''finishedAt'', refers (ref (meta_v1 ''Time''))),
          (''containerID'', str)]
        [''exitCode''])
       [meta_v1 ''Time'']"

definition schema_k8sio_api_core_v1_ContainerStateWaiting :: "(string \<Rightarrow> string) \<Rightarrow> OpenAPIDefinition" where
  "schema_k8sio_api_core_v1_ContainerStateWaiting ref =
     openapi
       (object [
          (''reason'', str),
          (''message'', str)]
        [])
       []"

definition schema_k8sio_api_core_v1_ContainerStatus_properties1 :: "(string \<Rightarrow> string) \<Rightarrow> (string \<times> schema) list" where
  "schema_k8sio_api_core_v1_ContainerStatus_properties1 ref = [
     (''name'', defaults (JStr []) str),
     (''state'', defaults (JMap []) (refers (ref (core_v1 ''ContainerState'')))),
     (''lastState'', defaults (JMap []) (refers (ref (core_v1 ''ContainerState'')))),
     (''ready'', defaults (JBool False) bool),
     (''restartCount'', defaults (JInt 0) int32),
     (''image'', defaults (JStr []) str),
     (''imageID'', defaults (JStr []) str),
     (''containerID'', str),
     (''started'', bool),
     (''allocatedResources'', additional (refers (ref (resource_pkg ''Quantity'')))),
     (''resources'', refers (ref (core_v1 ''ResourceRequirements'')))]"

definition schema_k8sio_api_core_v1_ContainerStatus_properties2 :: "(string \<Rightarrow> string) \<Rightarrow> (string \<times> schema) list" where
  "schema_k8sio_api_core_v1_ContainerStatus_properties2 ref = [
     (''volumeMounts'', extended [(''x-kubernetes-list-map-keys'', JList [(JStr ''mountPath'')]),
          (''x-kubernetes-list-type'', JStr ''map''), (''x-kubernetes-patch-merge-key'', JStr
            ''mountPath''), (''x-kubernetes-patch-strategy'', JStr ''merge'')] (array (defaults (JMap
              []) (refers (ref (core_v1 ''VolumeMountStatus'')))))),
     (''user'', refers (ref (core_v1 ''ContainerUser''))),
     (''allocatedResourcesStatus'', extended [(''x-kubernetes-list-map-keys'', JList [(JStr
          ''name'')]), (''x-kubernetes-list-type'', JStr ''map''), (''x-kubernetes-patch-merge-key'',
            JStr ''name''), (''x-kubernetes-patch-strategy'', JStr ''merge'')] (array (defaults (JMap
              []) (refers (ref (core_v1 ''ResourceStatus''))))))]"

definition schema_k8sio_api_core_v1_ContainerStatus :: "(string \<Rightarrow> string) \<Rightarrow> OpenAPIDefinition" where
  "schema_k8sio_api_core_v1_ContainerStatus ref =
     openapi
       (object (schema_k8sio_api_core_v1_ContainerStatus_properties1 ref @
          schema_k8sio_api_core_v1_ContainerStatus_properties2 ref)
          [''name'', ''ready'', ''restartCount'', ''image'', ''imageID''])
       [core_v1 ''ContainerState'', core_v1 ''ContainerUser'', core_v1 ''ResourceRequirements'',
          core_v1 ''ResourceStatus'', core_v1 ''VolumeMountStatus'', resource_pkg ''Quantity'']"

definition schema_k8sio_api_core_v1_ContainerUser :: "(string \<Rightarrow> string) \<Rightarrow> OpenAPIDefinition" where
  "schema_k8sio_api_core_v1_ContainerUser ref =
     openapi
       (object [
          (''linux'', refers (ref (core_v1 ''LinuxContainerUser'')))]
        [])
       [core_v1 ''LinuxContainerUser'']"

definition schema_k8sio_api_core_v1_DaemonEndpoint :: "(string \<Rightarrow> string) \<Rightarrow> OpenAPIDefinition" where
  "schema_k8sio_api_core_v1_DaemonEndpoint ref =
     openapi
       (object [
          (''Port'', defaults (JInt 0) int32)]
        [''Port''])
       []"

definition schema_k8sio_api_core_v1_DownwardAPIProjection :: "(string \<Rightarrow> string) \<Rightarrow> OpenAPIDefinition" where
  "schema_k8sio_api_core_v1_DownwardAPIProjection ref =
     openapi
       (object [
          (''items'', extended [(''x-kubernetes-list-type'', JStr ''atomic'')] (array (defaults (JMap
            []) (refers (ref (core_v1 ''DownwardAPIVolumeFile''))))))]
        [])
       [core_v1 ''DownwardAPIVolumeFile'']"

definition schema_k8sio_api_core_v1_DownwardAPIVolumeFile :: "(string \<Rightarrow> string) \<Rightarrow> OpenAPIDefinition" where
  "schema_k8sio_api_core_v1_DownwardAPIVolumeFile ref =
     openapi
       (object [
          (''path'', defaults (JStr []) str),
          (''fieldRef'', refers (ref (core_v1 ''ObjectFieldSelector''))),
          (''resourceFieldRef'', refers (ref (core_v1 ''ResourceFieldSelector''))),
          (''mode'', int32)]
        [''path''])
       [core_v1 ''ObjectFieldSelector'', core_v1 ''ResourceFieldSelector'']"

definition schema_k8sio_api_core_v1_DownwardAPIVolumeSource :: "(string \<Rightarrow> string) \<Rightarrow> OpenAPIDefinition" where
  "schema_k8sio_api_core_v1_DownwardAPIVolumeSource ref =
     openapi
       (object [
          (''items'', extended [(''x-kubernetes-list-type'', JStr ''atomic'')] (array (defaults (JMap
            []) (refers (ref (core_v1 ''DownwardAPIVolumeFile'')))))),
          (''defaultMode'', int32)]
        [])
       [core_v1 ''DownwardAPIVolumeFile'']"

definition schema_k8sio_api_core_v1_EmptyDirVolumeSource :: "(string \<Rightarrow> string) \<Rightarrow> OpenAPIDefinition" where
  "schema_k8sio_api_core_v1_EmptyDirVolumeSource ref =
     openapi
       (object [
          (''medium'', str),
          (''sizeLimit'', refers (ref (resource_pkg ''Quantity'')))]
        [])
       [resource_pkg ''Quantity'']"

definition schema_k8sio_api_core_v1_EndpointAddress :: "(string \<Rightarrow> string) \<Rightarrow> OpenAPIDefinition" where
  "schema_k8sio_api_core_v1_EndpointAddress ref =
     openapi
       (extended [(''x-kubernetes-map-type'', JStr ''atomic'')] (object [
          (''ip'', defaults (JStr []) str),
          (''hostname'', str),
          (''nodeName'', str),
          (''targetRef'', refers (ref (core_v1 ''ObjectReference'')))]
        [''ip'']))
       [core_v1 ''ObjectReference'']"

definition schema_k8sio_api_core_v1_EndpointPort :: "(string \<Rightarrow> string) \<Rightarrow> OpenAPIDefinition" where
  "schema_k8sio_api_core_v1_EndpointPort ref =
     openapi
       (extended [(''x-kubernetes-map-type'', JStr ''atomic'')] (object [
          (''name'', str),
          (''port'', defaults (JInt 0) int32),
          (''protocol'', enum [JStr ''SCTP'', JStr ''TCP'', JStr ''UDP''] str),
          (''appProtocol'', str)]
        [''port'']))
       []"

definition schema_k8sio_api_core_v1_EndpointSubset :: "(string \<Rightarrow> string) \<Rightarrow> OpenAPIDefinition" where
  "schema_k8sio_api_core_v1_EndpointSubset ref =
     openapi
       (object [
          (''addresses'', extended [(''x-kubernetes-list-type'', JStr ''atomic'')] (array (defaults
            (JMap []) (refers (ref (core_v1 ''EndpointAddress'')))))),
          (''notReadyAddresses'', extended [(''x-kubernetes-list-type'', JStr ''atomic'')] (array
            (defaults (JMap []) (refers (ref (core_v1 ''EndpointAddress'')))))),
          (''ports'', extended [(''x-kubernetes-list-type'', JStr ''atomic'')] (array (defaults (JMap
            []) (refers (ref (core_v1 ''EndpointPort''))))))]
        [])
       [core_v1 ''EndpointAddress'', core_v1 ''EndpointPort'']"

definition schema_k8sio_api_core_v1_Endpoints :: "(string \<Rightarrow> string) \<Rightarrow> OpenAPIDefinition" where
  "schema_k8sio_api_core_v1_Endpoints ref =
     openapi
       (object [
          (''kind'', str),
          (''apiVersion'', str),
          (''metadata'', defaults (JMap []) (refers (ref (meta_v1 ''ObjectMeta'')))),
          (''subsets'', extended [(''x-kubernetes-list-type'', JStr ''atomic'')] (array (defaults (JMap
            []) (refers (ref (core_v1 ''EndpointSubset''))))))]
        [])
       [core_v1 ''EndpointSubset'', meta_v1 ''ObjectMeta'']"

definition schema_k8sio_api_core_v1_EndpointsList :: "(string \<Rightarrow> string) \<Rightarrow> OpenAPIDefinition" where
  "schema_k8sio_api_core_v1_EndpointsList ref =
     openapi
       (object [
          (''kind'', str),
          (''apiVersion'', str),
          (''metadata'', defaults (JMap []) (refers (ref (meta_v1 ''ListMeta'')))),
          (''items'', array (defaults (JMap []) (refers (ref (core_v1 ''Endpoints'')))))]
        [''items''])
       [core_v1 ''Endpoints'', meta_v1 ''ListMeta'']"

definition schema_k8sio_api_core_v1_EnvFromSource :: "(string \<Rightarrow> string) \<Rightarrow> OpenAPIDefinition" where
  "schema_k8sio_api_core_v1_EnvFromSource ref =
     openapi
       (object [
          (''prefix'', str),
          (''configMapRef'', refers (ref (core_v1 ''ConfigMapEnvSource''))),
          (''secretRef'', refers (ref (core_v1 ''SecretEnvSource'')))]
        [])
       [core_v1 ''ConfigMapEnvSource'', core_v1 ''SecretEnvSource'']"

definition schema_k8sio_api_core_v1_EnvVar :: "(string \<Rightarrow> string) \<Rightarrow> OpenAPIDefinition" where
  "schema_k8sio_api_core_v1_EnvVar ref =
     openapi
       (object [
          (''name'', defaults (JStr []) str),
          (''value'', str),
          (''valueFrom'', refers (ref (core_v1 ''EnvVarSource'')))]
        [''name''])
       [core_v1 ''EnvVarSource'']"

definition schema_k8sio_api_core_v1_EnvVarSource :: "(string \<Rightarrow> string) \<Rightarrow> OpenAPIDefinition" where
  "schema_k8sio_api_core_v1_EnvVarSource ref =
     openapi
       (object [
          (''fieldRef'', refers (ref (core_v1 ''ObjectFieldSelector''))),
          (''resourceFieldRef'', refers (ref (core_v1 ''ResourceFieldSelector''))),
          (''configMapKeyRef'', refers (ref (core_v1 ''ConfigMapKeySelector''))),
          (''secretKeyRef'', refers (ref (core_v1 ''SecretKeySelector'')))]
        [])
       [core_v1 ''ConfigMapKeySelector'', core_v1 ''ObjectFieldSelector'', core_v1
          ''ResourceFieldSelector'', core_v1 ''SecretKeySelector'']"

definition schema_k8sio_api_core_v1_EphemeralContainer_properties1 :: "(string \<Rightarrow> string) \<Rightarrow> (string \<times> schema) list" where
  "schema_k8sio_api_core_v1_EphemeralContainer_properties1 ref = [
     (''name'', defaults (JStr []) str),
     (''image'', str),
     (''command'', extended [(''x-kubernetes-list-type'', JStr ''atomic'')] (array (defaults (JStr [])
          str))),
     (''args'', extended [(''x-kubernetes-list-type'', JStr ''atomic'')] (array (defaults (JStr [])
          str))),
     (''workingDir'', str),
     (''ports'', extended [(''x-kubernetes-list-map-keys'', JList [(JStr ''containerPort''), (JStr
          ''protocol'')]), (''x-kubernetes-list-type'', JStr ''map''),
            (''x-kubernetes-patch-merge-key'', JStr ''containerPort''),
              (''x-kubernetes-patch-strategy'', JStr ''merge'')] (array (defaults (JMap []) (refers
                (ref (core_v1 ''ContainerPort'')))))),
     (''envFrom'', extended [(''x-kubernetes-list-type'', JStr ''atomic'')] (array (defaults (JMap [])
          (refers (ref (core_v1 ''EnvFromSource''))))))]"

definition schema_k8sio_api_core_v1_EphemeralContainer_properties2 :: "(string \<Rightarrow> string) \<Rightarrow> (string \<times> schema) list" where
  "schema_k8sio_api_core_v1_EphemeralContainer_properties2 ref = [
     (''env'', extended [(''x-kubernetes-list-map-keys'', JList [(JStr ''name'')]),
          (''x-kubernetes-list-type'', JStr ''map''), (''x-kubernetes-patch-merge-key'', JStr
            ''name''), (''x-kubernetes-patch-strategy'', JStr ''merge'')] (array (defaults (JMap [])
              (refers (ref (core_v1 ''EnvVar'')))))),
     (''resources'', defaults (JMap []) (refers (ref (core_v1 ''ResourceRequirements'')))),
     (''resizePolicy'', extended [(''x-kubernetes-list-type'', JStr ''atomic'')] (array (defaults (JMap
          []) (refers (ref (core_v1 ''ContainerResizePolicy'')))))),
     (''restartPolicy'', str),
     (''volumeMounts'', extended [(''x-kubernetes-list-map-keys'', JList [(JStr ''mountPath'')]),
          (''x-kubernetes-list-type'', JStr ''map''), (''x-kubernetes-patch-merge-key'', JStr
            ''mountPath''), (''x-kubernetes-patch-strategy'', JStr ''merge'')] (array (defaults (JMap
              []) (refers (ref (core_v1 ''VolumeMount'')))))),
     (''volumeDevices'', extended [(''x-kubernetes-list-map-keys'', JList [(JStr ''devicePath'')]),
          (''x-kubernetes-list-type'', JStr ''map''), (''x-kubernetes-patch-merge-key'', JStr
            ''devicePath''), (''x-kubernetes-patch-strategy'', JStr ''merge'')] (array (defaults (JMap
              []) (refers (ref (core_v1 ''VolumeDevice''))))))]"

definition schema_k8sio_api_core_v1_EphemeralContainer_properties3 :: "(string \<Rightarrow> string) \<Rightarrow> (string \<times> schema) list" where
  "schema_k8sio_api_core_v1_EphemeralContainer_properties3 ref = [
     (''livenessProbe'', refers (ref (core_v1 ''Probe''))),
     (''readinessProbe'', refers (ref (core_v1 ''Probe''))),
     (''startupProbe'', refers (ref (core_v1 ''Probe''))),
     (''lifecycle'', refers (ref (core_v1 ''Lifecycle''))),
     (''terminationMessagePath'', str),
     (''terminationMessagePolicy'', enum [JStr ''FallbackToLogsOnError'', JStr ''File''] str),
     (''imagePullPolicy'', enum [JStr ''Always'', JStr ''IfNotPresent'', JStr ''Never''] str),
     (''securityContext'', refers (ref (core_v1 ''SecurityContext''))),
     (''stdin'', bool),
     (''stdinOnce'', bool),
     (''tty'', bool),
     (''targetContainerName'', str)]"

definition schema_k8sio_api_core_v1_EphemeralContainer :: "(string \<Rightarrow> string) \<Rightarrow> OpenAPIDefinition" where
  "schema_k8sio_api_core_v1_EphemeralContainer ref =
     openapi
       (object (schema_k8sio_api_core_v1_EphemeralContainer_properties1 ref @
          schema_k8sio_api_core_v1_EphemeralContainer_properties2 ref @
          schema_k8sio_api_core_v1_EphemeralContainer_properties3 ref)
          [''name''])
       [core_v1 ''ContainerPort'', core_v1 ''ContainerResizePolicy'', core_v1 ''EnvFromSource'',
          core_v1 ''EnvVar'', core_v1 ''Lifecycle'', core_v1 ''Probe'', core_v1
            ''ResourceRequirements'', core_v1 ''SecurityContext'', core_v1 ''VolumeDevice'', core_v1
              ''VolumeMount'']"

definition schema_k8sio_api_core_v1_EphemeralContainerCommon_properties1 :: "(string \<Rightarrow> string) \<Rightarrow> (string \<times> schema) list" where
  "schema_k8sio_api_core_v1_EphemeralContainerCommon_properties1 ref = [
     (''name'', defaults (JStr []) str),
     (''image'', str),
     (''command'', extended [(''x-kubernetes-list-type'', JStr ''atomic'')] (array (defaults (JStr [])
          str))),
     (''args'', extended [(''x-kubernetes-list-type'', JStr ''atomic'')] (array (defaults (JStr [])
          str))),
     (''workingDir'', str),
     (''ports'', extended [(''x-kubernetes-list-map-keys'', JList [(JStr ''containerPort''), (JStr
          ''protocol'')]), (''x-kubernetes-list-type'', JStr ''map''),
            (''x-kubernetes-patch-merge-key'', JStr ''containerPort''),
              (''x-kubernetes-patch-strategy'', JStr ''merge'')] (array (defaults (JMap []) (refers
                (ref (core_v1 ''ContainerPort'')))))),
     (''envFrom'', extended [(''x-kubernetes-list-type'', JStr ''atomic'')] (array (defaults (JMap [])
          (refers (ref (core_v1 ''EnvFromSource''))))))]"

definition schema_k8sio_api_core_v1_EphemeralContainerCommon_properties2 :: "(string \<Rightarrow> string) \<Rightarrow> (string \<times> schema) list" where
  "schema_k8sio_api_core_v1_EphemeralContainerCommon_properties2 ref = [
     (''env'', extended [(''x-kubernetes-list-map-keys'', JList [(JStr ''name'')]),
          (''x-kubernetes-list-type'', JStr ''map''), (''x-kubernetes-patch-merge-key'', JStr
            ''name''), (''x-kubernetes-patch-strategy'', JStr ''merge'')] (array (defaults (JMap [])
              (refers (ref (core_v1 ''EnvVar'')))))),
     (''resources'', defaults (JMap []) (refers (ref (core_v1 ''ResourceRequirements'')))),
     (''resizePolicy'', extended [(''x-kubernetes-list-type'', JStr ''atomic'')] (array (defaults (JMap
          []) (refers (ref (core_v1 ''ContainerResizePolicy'')))))),
     (''restartPolicy'', str),
     (''volumeMounts'', extended [(''x-kubernetes-list-map-keys'', JList [(JStr ''mountPath'')]),
          (''x-kubernetes-list-type'', JStr ''map''), (''x-kubernetes-patch-merge-key'', JStr
            ''mountPath''), (''x-kubernetes-patch-strategy'', JStr ''merge'')] (array (defaults (JMap
              []) (refers (ref (core_v1 ''VolumeMount'')))))),
     (''volumeDevices'', extended [(''x-kubernetes-list-map-keys'', JList [(JStr ''devicePath'')]),
          (''x-kubernetes-list-type'', JStr ''map''), (''x-kubernetes-patch-merge-key'', JStr
            ''devicePath''), (''x-kubernetes-patch-strategy'', JStr ''merge'')] (array (defaults (JMap
              []) (refers (ref (core_v1 ''VolumeDevice''))))))]"

definition schema_k8sio_api_core_v1_EphemeralContainerCommon_properties3 :: "(string \<Rightarrow> string) \<Rightarrow> (string \<times> schema) list" where
  "schema_k8sio_api_core_v1_EphemeralContainerCommon_properties3 ref = [
     (''livenessProbe'', refers (ref (core_v1 ''Probe''))),
     (''readinessProbe'', refers (ref (core_v1 ''Probe''))),
     (''startupProbe'', refers (ref (core_v1 ''Probe''))),
     (''lifecycle'', refers (ref (core_v1 ''Lifecycle''))),
     (''terminationMessagePath'', str),
     (''terminationMessagePolicy'', enum [JStr ''FallbackToLogsOnError'', JStr ''File''] str),
     (''imagePullPolicy'', enum [JStr ''Always'', JStr ''IfNotPresent'', JStr ''Never''] str),
     (''securityContext'', refers (ref (core_v1 ''SecurityContext''))),
     (''stdin'', bool),
     (''stdinOnce'', bool),
     (''tty'', bool)]"

definition schema_k8sio_api_core_v1_EphemeralContainerCommon :: "(string \<Rightarrow> string) \<Rightarrow> OpenAPIDefinition" where
  "schema_k8sio_api_core_v1_EphemeralContainerCommon ref =
     openapi
       (object (schema_k8sio_api_core_v1_EphemeralContainerCommon_properties1 ref @
          schema_k8sio_api_core_v1_EphemeralContainerCommon_properties2 ref @
          schema_k8sio_api_core_v1_EphemeralContainerCommon_properties3 ref)
          [''name''])
       [core_v1 ''ContainerPort'', core_v1 ''ContainerResizePolicy'', core_v1 ''EnvFromSource'',
          core_v1 ''EnvVar'', core_v1 ''Lifecycle'', core_v1 ''Probe'', core_v1
            ''ResourceRequirements'', core_v1 ''SecurityContext'', core_v1 ''VolumeDevice'', core_v1
              ''VolumeMount'']"

definition schema_k8sio_api_core_v1_EphemeralVolumeSource :: "(string \<Rightarrow> string) \<Rightarrow> OpenAPIDefinition" where
  "schema_k8sio_api_core_v1_EphemeralVolumeSource ref =
     openapi
       (object [
          (''volumeClaimTemplate'', refers (ref (core_v1 ''PersistentVolumeClaimTemplate'')))]
        [])
       [core_v1 ''PersistentVolumeClaimTemplate'']"

definition schema_k8sio_api_core_v1_Event :: "(string \<Rightarrow> string) \<Rightarrow> OpenAPIDefinition" where
  "schema_k8sio_api_core_v1_Event ref =
     openapi
       (object [
          (''kind'', str),
          (''apiVersion'', str),
          (''metadata'', defaults (JMap []) (refers (ref (meta_v1 ''ObjectMeta'')))),
          (''involvedObject'', defaults (JMap []) (refers (ref (core_v1 ''ObjectReference'')))),
          (''reason'', str),
          (''message'', str),
          (''source'', defaults (JMap []) (refers (ref (core_v1 ''EventSource'')))),
          (''firstTimestamp'', refers (ref (meta_v1 ''Time''))),
          (''lastTimestamp'', refers (ref (meta_v1 ''Time''))),
          (''count'', int32),
          (''type'', str),
          (''eventTime'', refers (ref (meta_v1 ''MicroTime''))),
          (''series'', refers (ref (core_v1 ''EventSeries''))),
          (''action'', str),
          (''related'', refers (ref (core_v1 ''ObjectReference''))),
          (''reportingComponent'', defaults (JStr []) str),
          (''reportingInstance'', defaults (JStr []) str)]
        [''metadata'', ''involvedObject''])
       [core_v1 ''EventSeries'', core_v1 ''EventSource'', core_v1 ''ObjectReference'', meta_v1
          ''MicroTime'', meta_v1 ''ObjectMeta'', meta_v1 ''Time'']"

definition schema_k8sio_api_core_v1_EventList :: "(string \<Rightarrow> string) \<Rightarrow> OpenAPIDefinition" where
  "schema_k8sio_api_core_v1_EventList ref =
     openapi
       (object [
          (''kind'', str),
          (''apiVersion'', str),
          (''metadata'', defaults (JMap []) (refers (ref (meta_v1 ''ListMeta'')))),
          (''items'', array (defaults (JMap []) (refers (ref (core_v1 ''Event'')))))]
        [''items''])
       [core_v1 ''Event'', meta_v1 ''ListMeta'']"

definition schema_k8sio_api_core_v1_EventSeries :: "(string \<Rightarrow> string) \<Rightarrow> OpenAPIDefinition" where
  "schema_k8sio_api_core_v1_EventSeries ref =
     openapi
       (object [
          (''count'', int32),
          (''lastObservedTime'', refers (ref (meta_v1 ''MicroTime'')))]
        [])
       [meta_v1 ''MicroTime'']"

definition schema_k8sio_api_core_v1_EventSource :: "(string \<Rightarrow> string) \<Rightarrow> OpenAPIDefinition" where
  "schema_k8sio_api_core_v1_EventSource ref =
     openapi
       (object [
          (''component'', str),
          (''host'', str)]
        [])
       []"

subsection \<open>They are sound\<close>

lemmas core1_defs =
  schema_k8sio_api_core_v1_AWSElasticBlockStoreVolumeSource_def
  schema_k8sio_api_core_v1_Affinity_def
  schema_k8sio_api_core_v1_AppArmorProfile_def
  schema_k8sio_api_core_v1_AttachedVolume_def
  schema_k8sio_api_core_v1_AvoidPods_def
  schema_k8sio_api_core_v1_AzureDiskVolumeSource_def
  schema_k8sio_api_core_v1_AzureFilePersistentVolumeSource_def
  schema_k8sio_api_core_v1_AzureFileVolumeSource_def
  schema_k8sio_api_core_v1_Binding_def
  schema_k8sio_api_core_v1_CSIPersistentVolumeSource_def
  schema_k8sio_api_core_v1_CSIVolumeSource_def
  schema_k8sio_api_core_v1_Capabilities_def
  schema_k8sio_api_core_v1_CephFSPersistentVolumeSource_def
  schema_k8sio_api_core_v1_CephFSVolumeSource_def
  schema_k8sio_api_core_v1_CinderPersistentVolumeSource_def
  schema_k8sio_api_core_v1_CinderVolumeSource_def
  schema_k8sio_api_core_v1_ClientIPConfig_def
  schema_k8sio_api_core_v1_ClusterTrustBundleProjection_def
  schema_k8sio_api_core_v1_ComponentCondition_def
  schema_k8sio_api_core_v1_ComponentStatus_def
  schema_k8sio_api_core_v1_ComponentStatusList_def
  schema_k8sio_api_core_v1_ConfigMap_def
  schema_k8sio_api_core_v1_ConfigMapEnvSource_def
  schema_k8sio_api_core_v1_ConfigMapKeySelector_def
  schema_k8sio_api_core_v1_ConfigMapList_def
  schema_k8sio_api_core_v1_ConfigMapNodeConfigSource_def
  schema_k8sio_api_core_v1_ConfigMapProjection_def
  schema_k8sio_api_core_v1_ConfigMapVolumeSource_def
  schema_k8sio_api_core_v1_Container_def
  schema_k8sio_api_core_v1_ContainerImage_def
  schema_k8sio_api_core_v1_ContainerPort_def
  schema_k8sio_api_core_v1_ContainerResizePolicy_def
  schema_k8sio_api_core_v1_ContainerState_def
  schema_k8sio_api_core_v1_ContainerStateRunning_def
  schema_k8sio_api_core_v1_ContainerStateTerminated_def
  schema_k8sio_api_core_v1_ContainerStateWaiting_def
  schema_k8sio_api_core_v1_ContainerStatus_def
  schema_k8sio_api_core_v1_ContainerUser_def
  schema_k8sio_api_core_v1_DaemonEndpoint_def
  schema_k8sio_api_core_v1_DownwardAPIProjection_def
  schema_k8sio_api_core_v1_DownwardAPIVolumeFile_def
  schema_k8sio_api_core_v1_DownwardAPIVolumeSource_def
  schema_k8sio_api_core_v1_EmptyDirVolumeSource_def
  schema_k8sio_api_core_v1_EndpointAddress_def
  schema_k8sio_api_core_v1_EndpointPort_def
  schema_k8sio_api_core_v1_EndpointSubset_def
  schema_k8sio_api_core_v1_Endpoints_def
  schema_k8sio_api_core_v1_EndpointsList_def
  schema_k8sio_api_core_v1_EnvFromSource_def
  schema_k8sio_api_core_v1_EnvVar_def
  schema_k8sio_api_core_v1_EnvVarSource_def
  schema_k8sio_api_core_v1_EphemeralContainer_def
  schema_k8sio_api_core_v1_EphemeralContainerCommon_def
  schema_k8sio_api_core_v1_EphemeralVolumeSource_def
  schema_k8sio_api_core_v1_Event_def
  schema_k8sio_api_core_v1_EventList_def
  schema_k8sio_api_core_v1_EventSeries_def
  schema_k8sio_api_core_v1_EventSource_def

lemmas core1_parts =
  schema_k8sio_api_core_v1_Container_properties1_def
  schema_k8sio_api_core_v1_Container_properties2_def
  schema_k8sio_api_core_v1_Container_properties3_def
  schema_k8sio_api_core_v1_ContainerStatus_properties1_def
  schema_k8sio_api_core_v1_ContainerStatus_properties2_def
  schema_k8sio_api_core_v1_EphemeralContainer_properties1_def
  schema_k8sio_api_core_v1_EphemeralContainer_properties2_def
  schema_k8sio_api_core_v1_EphemeralContainer_properties3_def
  schema_k8sio_api_core_v1_EphemeralContainerCommon_properties1_def
  schema_k8sio_api_core_v1_EphemeralContainerCommon_properties2_def
  schema_k8sio_api_core_v1_EphemeralContainerCommon_properties3_def

lemma core1_ok1:
  "def_ok ref (schema_k8sio_api_core_v1_AWSElasticBlockStoreVolumeSource ref)"
  "def_ok ref (schema_k8sio_api_core_v1_Affinity ref)"
  "def_ok ref (schema_k8sio_api_core_v1_AppArmorProfile ref)"
  "def_ok ref (schema_k8sio_api_core_v1_AttachedVolume ref)"
  "def_ok ref (schema_k8sio_api_core_v1_AvoidPods ref)"
  "def_ok ref (schema_k8sio_api_core_v1_AzureDiskVolumeSource lib ref)"
  "def_ok ref (schema_k8sio_api_core_v1_AzureFilePersistentVolumeSource ref)"
  "def_ok ref (schema_k8sio_api_core_v1_AzureFileVolumeSource ref)"
  by (auto simp: def_ok_def core1_defs core1_parts)

lemma core1_ok2:
  "def_ok ref (schema_k8sio_api_core_v1_Binding ref)"
  "def_ok ref (schema_k8sio_api_core_v1_CSIPersistentVolumeSource ref)"
  "def_ok ref (schema_k8sio_api_core_v1_CSIVolumeSource ref)"
  "def_ok ref (schema_k8sio_api_core_v1_Capabilities ref)"
  "def_ok ref (schema_k8sio_api_core_v1_CephFSPersistentVolumeSource ref)"
  by (auto simp: def_ok_def core1_defs core1_parts)

lemma core1_ok3:
  "def_ok ref (schema_k8sio_api_core_v1_CephFSVolumeSource ref)"
  "def_ok ref (schema_k8sio_api_core_v1_CinderPersistentVolumeSource ref)"
  "def_ok ref (schema_k8sio_api_core_v1_CinderVolumeSource ref)"
  "def_ok ref (schema_k8sio_api_core_v1_ClientIPConfig ref)"
  "def_ok ref (schema_k8sio_api_core_v1_ClusterTrustBundleProjection ref)"
  "def_ok ref (schema_k8sio_api_core_v1_ComponentCondition ref)"
  "def_ok ref (schema_k8sio_api_core_v1_ComponentStatus ref)"
  by (auto simp: def_ok_def core1_defs core1_parts)

lemma core1_ok4:
  "def_ok ref (schema_k8sio_api_core_v1_ComponentStatusList ref)"
  "def_ok ref (schema_k8sio_api_core_v1_ConfigMap ref)"
  "def_ok ref (schema_k8sio_api_core_v1_ConfigMapEnvSource ref)"
  "def_ok ref (schema_k8sio_api_core_v1_ConfigMapKeySelector ref)"
  "def_ok ref (schema_k8sio_api_core_v1_ConfigMapList ref)"
  "def_ok ref (schema_k8sio_api_core_v1_ConfigMapNodeConfigSource ref)"
  by (auto simp: def_ok_def core1_defs core1_parts)

lemma core1_ok5:
  "def_ok ref (schema_k8sio_api_core_v1_ConfigMapProjection ref)"
  "def_ok ref (schema_k8sio_api_core_v1_ConfigMapVolumeSource ref)"
  by (auto simp: def_ok_def core1_defs core1_parts)

lemma core1_ok6:
  "def_ok ref (schema_k8sio_api_core_v1_Container ref)"
  by (auto simp: def_ok_def core1_defs core1_parts)

lemma core1_ok7:
  "def_ok ref (schema_k8sio_api_core_v1_ContainerImage ref)"
  "def_ok ref (schema_k8sio_api_core_v1_ContainerPort ref)"
  "def_ok ref (schema_k8sio_api_core_v1_ContainerResizePolicy ref)"
  "def_ok ref (schema_k8sio_api_core_v1_ContainerState ref)"
  "def_ok ref (schema_k8sio_api_core_v1_ContainerStateRunning ref)"
  "def_ok ref (schema_k8sio_api_core_v1_ContainerStateTerminated ref)"
  "def_ok ref (schema_k8sio_api_core_v1_ContainerStateWaiting ref)"
  by (auto simp: def_ok_def core1_defs core1_parts)

lemma core1_ok8:
  "def_ok ref (schema_k8sio_api_core_v1_ContainerStatus ref)"
  "def_ok ref (schema_k8sio_api_core_v1_ContainerUser ref)"
  "def_ok ref (schema_k8sio_api_core_v1_DaemonEndpoint ref)"
  "def_ok ref (schema_k8sio_api_core_v1_DownwardAPIProjection ref)"
  "def_ok ref (schema_k8sio_api_core_v1_DownwardAPIVolumeFile ref)"
  "def_ok ref (schema_k8sio_api_core_v1_DownwardAPIVolumeSource ref)"
  by (auto simp: def_ok_def core1_defs core1_parts)

lemma core1_ok9:
  "def_ok ref (schema_k8sio_api_core_v1_EmptyDirVolumeSource ref)"
  "def_ok ref (schema_k8sio_api_core_v1_EndpointAddress ref)"
  "def_ok ref (schema_k8sio_api_core_v1_EndpointPort ref)"
  "def_ok ref (schema_k8sio_api_core_v1_EndpointSubset ref)"
  "def_ok ref (schema_k8sio_api_core_v1_Endpoints ref)"
  "def_ok ref (schema_k8sio_api_core_v1_EndpointsList ref)"
  "def_ok ref (schema_k8sio_api_core_v1_EnvFromSource ref)"
  by (auto simp: def_ok_def core1_defs core1_parts)

lemma core1_ok10:
  "def_ok ref (schema_k8sio_api_core_v1_EnvVar ref)"
  "def_ok ref (schema_k8sio_api_core_v1_EnvVarSource ref)"
  by (auto simp: def_ok_def core1_defs core1_parts)

lemma core1_ok11:
  "def_ok ref (schema_k8sio_api_core_v1_EphemeralContainer ref)"
  by (auto simp: def_ok_def core1_defs core1_parts)

lemma core1_ok12:
  "def_ok ref (schema_k8sio_api_core_v1_EphemeralContainerCommon ref)"
  "def_ok ref (schema_k8sio_api_core_v1_EphemeralVolumeSource ref)"
  by (auto simp: def_ok_def core1_defs core1_parts)

lemma core1_ok13:
  "def_ok ref (schema_k8sio_api_core_v1_Event ref)"
  "def_ok ref (schema_k8sio_api_core_v1_EventList ref)"
  "def_ok ref (schema_k8sio_api_core_v1_EventSeries ref)"
  "def_ok ref (schema_k8sio_api_core_v1_EventSource ref)"
  by (auto simp: def_ok_def core1_defs core1_parts)

lemmas core1_ok = core1_ok1 core1_ok2 core1_ok3 core1_ok4 core1_ok5 core1_ok6 core1_ok7 core1_ok8
     core1_ok9 core1_ok10 core1_ok11 core1_ok12 core1_ok13

text \<open>The dependencies they declare.\<close>

lemmas core1_deps = core1_defs [THEN arg_cong [where f = Dependencies], unfolded openapi_simps]

end
