(* ===== verification/OpenApiCore2.thy ===== *)
theory OpenApiCore2
  imports OpenApi
begin

section \<open>Schemas of the core types, part 2\<close>

text \<open>
  The generated functions for \<^verbatim>\<open>k8s.io/api/core/v1\<close>, from \<^verbatim>\<open>ExecAction\<close> to \<^verbatim>\<open>ObjectReference\<close>.
\<close>

definition schema_k8sio_api_core_v1_ExecAction :: "(string \<Rightarrow> string) \<Rightarrow> OpenAPIDefinition" where
  "schema_k8sio_api_core_v1_ExecAction ref =
     openapi
       (object [
          (''command'', extended [(''x-kubernetes-list-type'', JStr ''atomic'')] (array (defaults (JStr
            []) str)))]
        [])
       []"

definition schema_k8sio_api_core_v1_FCVolumeSource :: "(string \<Rightarrow> string) \<Rightarrow> OpenAPIDefinition" where
  "schema_k8sio_api_core_v1_FCVolumeSource ref =
     openapi
       (object [
          (''targetWWNs'', extended [(''x-kubernetes-list-type'', JStr ''atomic'')] (array (defaults
            (JStr []) str))),
          (''lun'', int32),
          (''fsType'', str),
          (''readOnly'', bool),
          (''wwids'', extended [(''x-kubernetes-list-type'', JStr ''atomic'')] (array (defaults (JStr
            []) str)))]
        [])
       []"

definition schema_k8sio_api_core_v1_FlexPersistentVolumeSource :: "(string \<Rightarrow> string) \<Rightarrow> OpenAPIDefinition" where
  "schema_k8sio_api_core_v1_FlexPersistentVolumeSource ref =
     openapi
       (object [
          (''driver'', defaults (JStr []) str),
          (''fsType'', str),
          (''secretRef'', refers (ref (core_v1 ''SecretReference''))),
          (''readOnly'', bool),
          (''options'', additional (defaults (JStr []) str))]
        [''driver''])
       [core_v1 ''SecretReference'']"

definition schema_k8sio_api_core_v1_FlexVolumeSource :: "(string \<Rightarrow> string) \<Rightarrow> OpenAPIDefinition" where
  "schema_k8sio_api_core_v1_FlexVolumeSource ref =
     openapi
       (object [
          (''driver'', defaults (JStr []) str),
          (''fsType'', str),
          (''secretRef'', refers (ref (core_v1 ''LocalObjectReference''))),
          (''readOnly'', bool),
          (''options'', additional (defaults (JStr []) str))]
        [''driver''])
       [core_v1 ''LocalObjectReference'']"

definition schema_k8sio_api_core_v1_FlockerVolumeSource :: "(string \<Rightarrow> string) \<Rightarrow> OpenAPIDefinition" where
  "schema_k8sio_api_core_v1_FlockerVolumeSource ref =
     openapi
       (object [
          (''datasetName'', str),
          (''datasetUUID'', str)]
        [])
       []"

definition schema_k8sio_api_core_v1_GCEPersistentDiskVolumeSource :: "(string \<Rightarrow> string) \<Rightarrow> OpenAPIDefinition" where
  "schema_k8sio_api_core_v1_GCEPersistentDiskVolumeSource ref =
     openapi
       (object [
          (''pdName'', defaults (JStr []) str),
          (''fsType'', str),
          (''partition'', int32),
          (''readOnly'', bool)]
        [''pdName''])
       []"

definition schema_k8sio_api_core_v1_GRPCAction :: "(string \<Rightarrow> string) \<Rightarrow> OpenAPIDefinition" where
  "schema_k8sio_api_core_v1_GRPCAction ref =
     openapi
       (object [
          (''port'', defaults (JInt 0) int32),
          (''service'', defaults (JStr []) str)]
        [''port''])
       []"

definition schema_k8sio_api_core_v1_GitRepoVolumeSource :: "(string \<Rightarrow> string) \<Rightarrow> OpenAPIDefinition" where
  "schema_k8sio_api_core_v1_GitRepoVolumeSource ref =
     openapi
       (object [
          (''repository'', defaults (JStr []) str),
          (''revision'', str),
          (''directory'', str)]
        [''repository''])
       []"

definition schema_k8sio_api_core_v1_GlusterfsPersistentVolumeSource :: "(string \<Rightarrow> string) \<Rightarrow> OpenAPIDefinition" where
  "schema_k8sio_api_core_v1_GlusterfsPersistentVolumeSource ref =
     openapi
       (object [
          (''endpoints'', defaults (JStr []) str),
          (''path'', defaults (JStr []) str),
          (''readOnly'', bool),
          (''endpointsNamespace'', str)]
        [''endpoints'', ''path''])
       []"

definition schema_k8sio_api_core_v1_GlusterfsVolumeSource :: "(string \<Rightarrow> string) \<Rightarrow> OpenAPIDefinition" where
  "schema_k8sio_api_core_v1_GlusterfsVolumeSource ref =
     openapi
       (object [
          (''endpoints'', defaults (JStr []) str),
          (''path'', defaults (JStr []) str),
          (''readOnly'', bool)]
        [''endpoints'', ''path''])
       []"

definition schema_k8sio_api_core_v1_HTTPGetAction :: "(string \<Rightarrow> string) \<Rightarrow> OpenAPIDefinition" where
  "schema_k8sio_api_core_v1_HTTPGetAction ref =
     openapi
       (object [
          (''path'', str),
          (''port'', refers (ref (intstr_pkg ''IntOrString''))),
          (''host'', str),
          (''scheme'', enum [JStr ''HTTP'', JStr ''HTTPS''] str),
          (''httpHeaders'', extended [(''x-kubernetes-list-type'', JStr ''atomic'')] (array (defaults
            (JMap []) (refers (ref (core_v1 ''HTTPHeader''))))))]
        [''port''])
       [core_v1 ''HTTPHeader'', intstr_pkg ''IntOrString'']"

definition schema_k8sio_api_core_v1_HTTPHeader :: "(string \<Rightarrow> string) \<Rightarrow> OpenAPIDefinition" where
  "schema_k8sio_api_core_v1_HTTPHeader ref =
     openapi
       (object [
          (''name'', defaults (JStr []) str),
          (''value'', defaults (JStr []) str)]
        [''name'', ''value''])
       []"

definition schema_k8sio_api_core_v1_HostAlias :: "(string \<Rightarrow> string) \<Rightarrow> OpenAPIDefinition" where
  "schema_k8sio_api_core_v1_HostAlias ref =
     openapi
       (object [
          (''ip'', defaults (JStr []) str),
          (''hostnames'', extended [(''x-kubernetes-list-type'', JStr ''atomic'')] (array (defaults
            (JStr []) str)))]
        [''ip''])
       []"

definition schema_k8sio_api_core_v1_HostIP :: "(string \<Rightarrow> string) \<Rightarrow> OpenAPIDefinition" where
  "schema_k8sio_api_core_v1_HostIP ref =
     openapi
       (object [
          (''ip'', defaults (JStr []) str)]
        [''ip''])
       []"

definition schema_k8sio_api_core_v1_HostPathVolumeSource :: "(string \<Rightarrow> string) \<Rightarrow> OpenAPIDefinition" where
  "schema_k8sio_api_core_v1_HostPathVolumeSource ref =
     openapi
       (object [
          (''path'', defaults (JStr []) str),
          (''type'', enum [JStr [], JStr ''BlockDevice'', JStr ''CharDevice'', JStr ''Directory'', JStr
            ''DirectoryOrCreate'', JStr ''File'', JStr ''FileOrCreate'', JStr ''Socket''] str)]
        [''path''])
       []"

definition schema_k8sio_api_core_v1_ISCSIPersistentVolumeSource :: "(string \<Rightarrow> string) \<Rightarrow> OpenAPIDefinition" where
  "schema_k8sio_api_core_v1_ISCSIPersistentVolumeSource ref =
     openapi
       (object [
          (''targetPortal'', defaults (JStr []) str),
          (''iqn'', defaults (JStr []) str),
          (''lun'', defaults (JInt 0) int32),
          (''iscsiInterface'', defaults (JStr ''default'') str),
          (''fsType'', str),
          (''readOnly'', bool),
          (''portals'', extended [(''x-kubernetes-list-type'', JStr ''atomic'')] (array (defaults (JStr
            []) str))),
          (''chapAuthDiscovery'', bool),
          (''chapAuthSession'', bool),
          (''secretRef'', refers (ref (core_v1 ''SecretReference''))),
          (''initiatorName'', str)]
        [''targetPortal'', ''iqn'', ''lun''])
       [core_v1 ''SecretReference'']"

definition schema_k8sio_api_core_v1_ISCSIVolumeSource :: "(string \<Rightarrow> string) \<Rightarrow> OpenAPIDefinition" where
  "schema_k8sio_api_core_v1_ISCSIVolumeSource ref =
     openapi
       (object [
          (''targetPortal'', defaults (JStr []) str),
          (''iqn'', defaults (JStr []) str),
          (''lun'', defaults (JInt 0) int32),
          (''iscsiInterface'', defaults (JStr ''default'') str),
          (''fsType'', str),
          (''readOnly'', bool),
          (''portals'', extended [(''x-kubernetes-list-type'', JStr ''atomic'')] (array (defaults (JStr
            []) str))),
          (''chapAuthDiscovery'', bool),
          (''chapAuthSession'', bool),
          (''secretRef'', refers (ref (core_v1 ''LocalObjectReference''))),
          (''initiatorName'', str)]
        [''targetPortal'', ''iqn'', ''lun''])
       [core_v1 ''LocalObjectReference'']"

definition schema_k8sio_api_core_v1_ImageVolumeSource :: "(string \<Rightarrow> string) \<Rightarrow> OpenAPIDefinition" where
  "schema_k8sio_api_core_v1_ImageVolumeSource ref =
     openapi
       (object [
          (''reference'', str),
          (''pullPolicy'', enum [JStr ''Always'', JStr ''IfNotPresent'', JStr ''Never''] str)]
        [])
       []"

definition schema_k8sio_api_core_v1_KeyToPath :: "(string \<Rightarrow> string) \<Rightarrow> OpenAPIDefinition" where
  "schema_k8sio_api_core_v1_KeyToPath ref =
     openapi
       (object [
          (''key'', defaults (JStr []) str),
          (''path'', defaults (JStr []) str),
          (''mode'', int32)]
        [''key'', ''path''])
       []"

definition schema_k8sio_api_core_v1_Lifecycle :: "(string \<Rightarrow> string) \<Rightarrow> OpenAPIDefinition" where
  "schema_k8sio_api_core_v1_Lifecycle ref =
     openapi
       (object [
          (''postStart'', refers (ref (core_v1 ''LifecycleHandler''))),
          (''preStop'', refers (ref (core_v1 ''LifecycleHandler'')))]
        [])
       [core_v1 ''LifecycleHandler'']"

definition schema_k8sio_api_core_v1_LifecycleHandler :: "(string \<Rightarrow> string) \<Rightarrow> OpenAPIDefinition" where
  "schema_k8sio_api_core_v1_LifecycleHandler ref =
     openapi
       (object [
          (''exec'', refers (ref (core_v1 ''ExecAction''))),
          (''httpGet'', refers (ref (core_v1 ''HTTPGetAction''))),
          (''tcpSocket'', refers (ref (core_v1 ''TCPSocketAction''))),
          (''sleep'', refers (ref (core_v1 ''SleepAction'')))]
        [])
       [core_v1 ''ExecAction'', core_v1 ''HTTPGetAction'', core_v1 ''SleepAction'', core_v1
          ''TCPSocketAction'']"

definition schema_k8sio_api_core_v1_LimitRange :: "(string \<Rightarrow> string) \<Rightarrow> OpenAPIDefinition" where
  "schema_k8sio_api_core_v1_LimitRange ref =
     openapi
       (object [
          (''kind'', str),
          (''apiVersion'', str),
          (''metadata'', defaults (JMap []) (refers (ref (meta_v1 ''ObjectMeta'')))),
          (''spec'', defaults (JMap []) (refers (ref (core_v1 ''LimitRangeSpec''))))]
        [])
       [core_v1 ''LimitRangeSpec'', meta_v1 ''ObjectMeta'']"

definition schema_k8sio_api_core_v1_LimitRangeItem :: "(string \<Rightarrow> string) \<Rightarrow> OpenAPIDefinition" where
  "schema_k8sio_api_core_v1_LimitRangeItem ref =
     openapi
       (object [
          (''type'', defaults (JStr []) str),
          (''max'', additional (refers (ref (resource_pkg ''Quantity'')))),
          (''min'', additional (refers (ref (resource_pkg ''Quantity'')))),
          (''default'', additional (refers (ref (resource_pkg ''Quantity'')))),
          (''defaultRequest'', additional (refers (ref (resource_pkg ''Quantity'')))),
          (''maxLimitRequestRatio'', additional (refers (ref (resource_pkg ''Quantity''))))]
        [''type''])
       [resource_pkg ''Quantity'']"

definition schema_k8sio_api_core_v1_LimitRangeList :: "(string \<Rightarrow> string) \<Rightarrow> OpenAPIDefinition" where
  "schema_k8sio_api_core_v1_LimitRangeList ref =
     openapi
       (object [
          (''kind'', str),
          (''apiVersion'', str),
          (''metadata'', defaults (JMap []) (refers (ref (meta_v1 ''ListMeta'')))),
          (''items'', array (defaults (JMap []) (refers (ref (core_v1 ''LimitRange'')))))]
        [''items''])
       [core_v1 ''LimitRange'', meta_v1 ''ListMeta'']"

definition schema_k8sio_api_core_v1_LimitRangeSpec :: "(string \<Rightarrow> string) \<Rightarrow> OpenAPIDefinition" where
  "schema_k8sio_api_core_v1_LimitRangeSpec ref =
     openapi
       (object [
          (''limits'', extended [(''x-kubernetes-list-type'', JStr ''atomic'')] (array (defaults (JMap
            []) (refers (ref (core_v1 ''LimitRangeItem''))))))]
        [''limits''])
       [core_v1 ''LimitRangeItem'']"

definition schema_k8sio_api_core_v1_LinuxContainerUser :: "(string \<Rightarrow> string) \<Rightarrow> OpenAPIDefinition" where
  "schema_k8sio_api_core_v1_LinuxContainerUser ref =
     openapi
       (object [
          (''uid'', defaults (JInt 0) int64),
          (''gid'', defaults (JInt 0) int64),
          (''supplementalGroups'', extended [(''x-kubernetes-list-type'', JStr ''atomic'')] (array
            (defaults (JInt 0) int64)))]
        [''uid'', ''gid''])
       []"

definition schema_k8sio_api_core_v1_List :: "(string \<Rightarrow> string) \<Rightarrow> OpenAPIDefinition" where
  "schema_k8sio_api_core_v1_List ref =
     openapi
       (object [
          (''kind'', str),
          (''apiVersion'', str),
          (''metadata'', defaults (JMap []) (refers (ref (meta_v1 ''ListMeta'')))),
          (''items'', array (refers (ref (runtime_pkg ''RawExtension''))))]
        [''items''])
       [meta_v1 ''ListMeta'', runtime_pkg ''RawExtension'']"

definition schema_k8sio_api_core_v1_LoadBalancerIngress :: "(string \<Rightarrow> string) \<Rightarrow> OpenAPIDefinition" where
  "schema_k8sio_api_core_v1_LoadBalancerIngress ref =
     openapi
       (object [
          (''ip'', str),
          (''hostname'', str),
          (''ipMode'', str),
          (''ports'', extended [(''x-kubernetes-list-type'', JStr ''atomic'')] (array (defaults (JMap
            []) (refers (ref (core_v1 ''PortStatus''))))))]
        [])
       [core_v1 ''PortStatus'']"

definition schema_k8sio_api_core_v1_LoadBalancerStatus :: "(string \<Rightarrow> string) \<Rightarrow> OpenAPIDefinition" where
  "schema_k8sio_api_core_v1_LoadBalancerStatus ref =
     openapi
       (object [
          (''ingress'', extended [(''x-kubernetes-list-type'', JStr ''atomic'')] (array (defaults (JMap
            []) (refers (ref (core_v1 ''LoadBalancerIngress''))))))]
        [])
       [core_v1 ''LoadBalancerIngress'']"

definition schema_k8sio_api_core_v1_LocalObjectReference :: "(string \<Rightarrow> string) \<Rightarrow> OpenAPIDefinition" where
  "schema_k8sio_api_core_v1_LocalObjectReference ref =
     openapi
       (extended [(''x-kubernetes-map-type'', JStr ''atomic'')] (object [
          (''name'', defaults (JStr []) str)]
        []))
       []"

definition schema_k8sio_api_core_v1_LocalVolumeSource :: "(string \<Rightarrow> string) \<Rightarrow> OpenAPIDefinition" where
  "schema_k8sio_api_core_v1_LocalVolumeSource ref =
     openapi
       (object [
          (''path'', defaults (JStr []) str),
          (''fsType'', str)]
        [''path''])
       []"

definition schema_k8sio_api_core_v1_ModifyVolumeStatus :: "(string \<Rightarrow> string) \<Rightarrow> OpenAPIDefinition" where
  "schema_k8sio_api_core_v1_ModifyVolumeStatus ref =
     openapi
       (object [
          (''targetVolumeAttributesClassName'', str),
          (''status'', enum [JStr ''InProgress'', JStr ''Infeasible'', JStr ''Pending''] (defaults
            (JStr []) str))]
        [''status''])
       []"

definition schema_k8sio_api_core_v1_NFSVolumeSource :: "(string \<Rightarrow> string) \<Rightarrow> OpenAPIDefinition" where
  "schema_k8sio_api_core_v1_NFSVolumeSource ref =
     openapi
       (object [
          (''server'', defaults (JStr []) str),
          (''path'', defaults (JStr []) str),
          (''readOnly'', bool)]
        [''server'', ''path''])
       []"

definition schema_k8sio_api_core_v1_Namespace :: "(string \<Rightarrow> string) \<Rightarrow> OpenAPIDefinition" where
  "schema_k8sio_api_core_v1_Namespace ref =
     openapi
       (object [
          (''kind'', str),
          (''apiVersion'', str),
          (''metadata'', defaults (JMap []) (refers (ref (meta_v1 ''ObjectMeta'')))),
          (''spec'', defaults (JMap []) (refers (ref (core_v1 ''NamespaceSpec'')))),
          (''status'', defaults (JMap []) (refers (ref (core_v1 ''NamespaceStatus''))))]
        [])
       [core_v1 ''NamespaceSpec'', core_v1 ''NamespaceStatus'', meta_v1 ''ObjectMeta'']"

definition schema_k8sio_api_core_v1_NamespaceCondition :: "(string \<Rightarrow> string) \<Rightarrow> OpenAPIDefinition" where
  "schema_k8sio_api_core_v1_NamespaceCondition ref =
     openapi
       (object [
          (''type'', defaults (JStr []) str),
          (''status'', defaults (JStr []) str),
          (''lastTransitionTime'', refers (ref (meta_v1 ''Time''))),
          (''reason'', str),
          (''message'', str)]
        [''type'', ''status''])
       [meta_v1 ''Time'']"

definition schema_k8sio_api_core_v1_NamespaceList :: "(string \<Rightarrow> string) \<Rightarrow> OpenAPIDefinition" where
  "schema_k8sio_api_core_v1_NamespaceList ref =
     openapi
       (object [
          (''kind'', str),
          (''apiVersion'', str),
          (''metadata'', defaults (JMap []) (refers (ref (meta_v1 ''ListMeta'')))),
          (''items'', array (defaults (JMap []) (refers (ref (core_v1 ''Namespace'')))))]
        [''items''])
       [core_v1 ''Namespace'', meta_v1 ''ListMeta'']"

definition schema_k8sio_api_core_v1_NamespaceSpec :: "(string \<Rightarrow> string) \<Rightarrow> OpenAPIDefinition" where
  "schema_k8sio_api_core_v1_NamespaceSpec ref =
     openapi
       (object [
          (''finalizers'', extended [(''x-kubernetes-list-type'', JStr ''atomic'')] (array (defaults
            (JStr []) str)))]
        [])
       []"

definition schema_k8sio_api_core_v1_NamespaceStatus :: "(string \<Rightarrow> string) \<Rightarrow> OpenAPIDefinition" where
  "schema_k8sio_api_core_v1_NamespaceStatus ref =
     openapi
       (object [
          (''phase'', enum [JStr ''Active'', JStr ''Terminating''] str),
          (''conditions'', extended [(''x-kubernetes-list-map-keys'', JList [(JStr ''type'')]),
            (''x-kubernetes-list-type'', JStr ''map''), (''x-kubernetes-patch-merge-key'', JStr
              ''type''), (''x-kubernetes-patch-strategy'', JStr ''merge'')] (array (defaults (JMap [])
                (refers (ref (core_v1 ''NamespaceCondition''))))))]
        [])
       [core_v1 ''NamespaceCondition'']"

definition schema_k8sio_api_core_v1_Node :: "(string \<Rightarrow> string) \<Rightarrow> OpenAPIDefinition" where
  "schema_k8sio_api_core_v1_Node ref =
     openapi
       (object [
          (''kind'', str),
          (''apiVersion'', str),
          (''metadata'', defaults (JMap []) (refers (ref (meta_v1 ''ObjectMeta'')))),
          (''spec'', defaults (JMap []) (refers (ref (core_v1 ''NodeSpec'')))),
          (''status'', defaults (JMap []) (refers (ref (core_v1 ''NodeStatus''))))]
        [])
       [core_v1 ''NodeSpec'', core_v1 ''NodeStatus'', meta_v1 ''ObjectMeta'']"

definition schema_k8sio_api_core_v1_NodeAddress :: "(string \<Rightarrow> string) \<Rightarrow> OpenAPIDefinition" where
  "schema_k8sio_api_core_v1_NodeAddress ref =
     openapi
       (object [
          (''type'', defaults (JStr []) str),
          (''address'', defaults (JStr []) str)]
        [''type'', ''address''])
       []"

definition schema_k8sio_api_core_v1_NodeAffinity :: "(string \<Rightarrow> string) \<Rightarrow> OpenAPIDefinition" where
  "schema_k8sio_api_core_v1_NodeAffinity ref =
     openapi
       (object [
          (''requiredDuringSchedulingIgnoredDuringExecution'', refers (ref (core_v1 ''NodeSelector''))),
          (''preferredDuringSchedulingIgnoredDuringExecution'', extended [(''x-kubernetes-list-type'',
            JStr ''atomic'')] (array (defaults (JMap []) (refers (ref (core_v1
              ''PreferredSchedulingTerm''))))))]
        [])
       [core_v1 ''NodeSelector'', core_v1 ''PreferredSchedulingTerm'']"

definition schema_k8sio_api_core_v1_NodeCondition :: "(string \<Rightarrow> string) \<Rightarrow> OpenAPIDefinition" where
  "schema_k8sio_api_core_v1_NodeCondition ref =
     openapi
       (object [
          (''type'', defaults (JStr []) str),
          (''status'', defaults (JStr []) str),
          (''lastHeartbeatTime'', refers (ref (meta_v1 ''Time''))),
          (''lastTransitionTime'', refers (ref (meta_v1 ''Time''))),
          (''reason'', str),
          (''message'', str)]
        [''type'', ''status''])
       [meta_v1 ''Time'']"

definition schema_k8sio_api_core_v1_NodeConfigSource :: "(string \<Rightarrow> string) \<Rightarrow> OpenAPIDefinition" where
  "schema_k8sio_api_core_v1_NodeConfigSource ref =
     openapi
       (object [
          (''configMap'', refers (ref (core_v1 ''ConfigMapNodeConfigSource'')))]
        [])
       [core_v1 ''ConfigMapNodeConfigSource'']"

definition schema_k8sio_api_core_v1_NodeConfigStatus :: "(string \<Rightarrow> string) \<Rightarrow> OpenAPIDefinition" where
  "schema_k8sio_api_core_v1_NodeConfigStatus ref =
     openapi
       (object [
          (''assigned'', refers (ref (core_v1 ''NodeConfigSource''))),
          (''active'', refers (ref (core_v1 ''NodeConfigSource''))),
          (''lastKnownGood'', refers (ref (core_v1 ''NodeConfigSource''))),
          (''error'', str)]
        [])
       [core_v1 ''NodeConfigSource'']"

definition schema_k8sio_api_core_v1_NodeDaemonEndpoints :: "(string \<Rightarrow> string) \<Rightarrow> OpenAPIDefinition" where
  "schema_k8sio_api_core_v1_NodeDaemonEndpoints ref =
     openapi
       (object [
          (''kubeletEndpoint'', defaults (JMap []) (refers (ref (core_v1 ''DaemonEndpoint''))))]
        [])
       [core_v1 ''DaemonEndpoint'']"

definition schema_k8sio_api_core_v1_NodeFeatures :: "(string \<Rightarrow> string) \<Rightarrow> OpenAPIDefinition" where
  "schema_k8sio_api_core_v1_NodeFeatures ref =
     openapi
       (object [
          (''supplementalGroupsPolicy'', bool)]
        [])
       []"

definition schema_k8sio_api_core_v1_NodeList :: "(string \<Rightarrow> string) \<Rightarrow> OpenAPIDefinition" where
  "schema_k8sio_api_core_v1_NodeList ref =
     openapi
       (object [
          (''kind'', str),
          (''apiVersion'', str),
          (''metadata'', defaults (JMap []) (refers (ref (meta_v1 ''ListMeta'')))),
          (''items'', array (defaults (JMap []) (refers (ref (core_v1 ''Node'')))))]
        [''items''])
       [core_v1 ''Node'', meta_v1 ''ListMeta'']"

definition schema_k8sio_api_core_v1_NodeProxyOptions :: "(string \<Rightarrow> string) \<Rightarrow> OpenAPIDefinition" where
  "schema_k8sio_api_core_v1_NodeProxyOptions ref =
     openapi
       (object [
          (''kind'', str),
          (''apiVersion'', str),
          (''path'', str)]
        [])
       []"

definition schema_k8sio_api_core_v1_NodeRuntimeHandler :: "(string \<Rightarrow> string) \<Rightarrow> OpenAPIDefinition" where
  "schema_k8sio_api_core_v1_NodeRuntimeHandler ref =
     openapi
       (object [
          (''name'', defaults (JStr []) str),
          (''features'', refers (ref (core_v1 ''NodeRuntimeHandlerFeatures'')))]
        [])
       [core_v1 ''NodeRuntimeHandlerFeatures'']"

definition schema_k8sio_api_core_v1_NodeRuntimeHandlerFeatures :: "(string \<Rightarrow> string) \<Rightarrow> OpenAPIDefinition" where
  "schema_k8sio_api_core_v1_NodeRuntimeHandlerFeatures ref =
     openapi
       (object [
          (''recursiveReadOnlyMounts'', bool),
          (''userNamespaces'', bool)]
        [])
       []"

definition schema_k8sio_api_core_v1_NodeSelector :: "(string \<Rightarrow> string) \<Rightarrow> OpenAPIDefinition" where
  "schema_k8sio_api_core_v1_NodeSelector ref =
     openapi
       (extended [(''x-kubernetes-map-type'', JStr ''atomic'')] (object [
          (''nodeSelectorTerms'', extended [(''x-kubernetes-list-type'', JStr ''atomic'')] (array
            (defaults (JMap []) (refers (ref (core_v1 ''NodeSelectorTerm''))))))]
        [''nodeSelectorTerms'']))
       [core_v1 ''NodeSelectorTerm'']"

definition schema_k8sio_api_core_v1_NodeSelectorRequirement :: "(string \<Rightarrow> string) \<Rightarrow> OpenAPIDefinition" where
  "schema_k8sio_api_core_v1_NodeSelectorRequirement ref =
     openapi
       (object [
          (''key'', defaults (JStr []) str),
          (''operator'', enum [JStr ''DoesNotExist'', JStr ''Exists'', JStr ''Gt'', JStr ''In'', JStr
            ''Lt'', JStr ''NotIn''] (defaults (JStr []) str)),
          (''values'', extended [(''x-kubernetes-list-type'', JStr ''atomic'')] (array (defaults (JStr
            []) str)))]
        [''key'', ''operator''])
       []"

definition schema_k8sio_api_core_v1_NodeSelectorTerm :: "(string \<Rightarrow> string) \<Rightarrow> OpenAPIDefinition" where
  "schema_k8sio_api_core_v1_NodeSelectorTerm ref =
     openapi
       (extended [(''x-kubernetes-map-type'', JStr ''atomic'')] (object [
          (''matchExpressions'', extended [(''x-kubernetes-list-type'', JStr ''atomic'')] (array
            (defaults (JMap []) (refers (ref (core_v1 ''NodeSelectorRequirement'')))))),
          (''matchFields'', extended [(''x-kubernetes-list-type'', JStr ''atomic'')] (array (defaults
            (JMap []) (refers (ref (core_v1 ''NodeSelectorRequirement''))))))]
        []))
       [core_v1 ''NodeSelectorRequirement'']"

definition schema_k8sio_api_core_v1_NodeSpec :: "(string \<Rightarrow> string) \<Rightarrow> OpenAPIDefinition" where
  "schema_k8sio_api_core_v1_NodeSpec ref =
     openapi
       (object [
          (''podCIDR'', str),
          (''podCIDRs'', extended [(''x-kubernetes-list-type'', JStr ''set''),
            (''x-kubernetes-patch-strategy'', JStr ''merge'')] (array (defaults (JStr []) str))),
          (''providerID'', str),
          (''unschedulable'', bool),
          (''taints'', extended [(''x-kubernetes-list-type'', JStr ''atomic'')] (array (defaults (JMap
            []) (refers (ref (core_v1 ''Taint'')))))),
          (''configSource'', refers (ref (core_v1 ''NodeConfigSource''))),
          (''externalID'', str)]
        [])
       [core_v1 ''NodeConfigSource'', core_v1 ''Taint'']"

definition schema_k8sio_api_core_v1_NodeStatus_properties1 :: "(string \<Rightarrow> string) \<Rightarrow> (string \<times> schema) list" where
  "schema_k8sio_api_core_v1_NodeStatus_properties1 ref = [
     (''capacity'', additional (refers (ref (resource_pkg ''Quantity'')))),
     (''allocatable'', additional (refers (ref (resource_pkg ''Quantity'')))),
     (''phase'', enum [JStr ''Pending'', JStr ''Running'', JStr ''Terminated''] str),
     (''conditions'', extended [(''x-kubernetes-list-map-keys'', JList [(JStr ''type'')]),
          (''x-kubernetes-list-type'', JStr ''map''), (''x-kubernetes-patch-merge-key'', JStr
            ''type''), (''x-kubernetes-patch-strategy'', JStr ''merge'')] (array (defaults (JMap [])
              (refers (ref (core_v1 ''NodeCondition'')))))),
     (''addresses'', extended [(''x-kubernetes-list-map-keys'', JList [(JStr ''type'')]),
          (''x-kubernetes-list-type'', JStr ''map''), (''x-kubernetes-patch-merge-key'', JStr
            ''type''), (''x-kubernetes-patch-strategy'', JStr ''merge'')] (array (defaults (JMap [])
              (refers (ref (core_v1 ''NodeAddress'')))))),
     (''daemonEndpoints'', defaults (JMap []) (refers (ref (core_v1 ''NodeDaemonEndpoints'')))),
     (''nodeInfo'', defaults (JMap []) (refers (ref (core_v1 ''NodeSystemInfo''))))]"

definition schema_k8sio_api_core_v1_NodeStatus_properties2 :: "(string \<Rightarrow> string) \<Rightarrow> (string \<times> schema) list" where
  "schema_k8sio_api_core_v1_NodeStatus_properties2 ref = [
     (''images'', extended [(''x-kubernetes-list-type'', JStr ''atomic'')] (array (defaults (JMap [])
          (refers (ref (core_v1 ''ContainerImage'')))))),
     (''volumesInUse'', extended [(''x-kubernetes-list-type'', JStr ''atomic'')] (array (defaults (JStr
          []) str))),
     (''volumesAttached'', extended [(''x-kubernetes-list-type'', JStr ''atomic'')] (array (defaults
          (JMap []) (refers (ref (core_v1 ''AttachedVolume'')))))),
     (''config'', refers (ref (core_v1 ''NodeConfigStatus''))),
     (''runtimeHandlers'', extended [(''x-kubernetes-list-type'', JStr ''atomic'')] (array (defaults
          (JMap []) (refers (ref (core_v1 ''NodeRuntimeHandler'')))))),
     (''features'', refers (ref (core_v1 ''NodeFeatures'')))]"

definition schema_k8sio_api_core_v1_NodeStatus :: "(string \<Rightarrow> string) \<Rightarrow> OpenAPIDefinition" where
  "schema_k8sio_api_core_v1_NodeStatus ref =
     openapi
       (object (schema_k8sio_api_core_v1_NodeStatus_properties1 ref @
          schema_k8sio_api_core_v1_NodeStatus_properties2 ref)
          [])
       [core_v1 ''AttachedVolume'', core_v1 ''ContainerImage'', core_v1 ''NodeAddress'', core_v1
          ''NodeCondition'', core_v1 ''NodeConfigStatus'', core_v1 ''NodeDaemonEndpoints'', core_v1
            ''NodeFeatures'', core_v1 ''NodeRuntimeHandler'', core_v1 ''NodeSystemInfo'', resource_pkg
              ''Quantity'']"

definition schema_k8sio_api_core_v1_NodeSystemInfo :: "(string \<Rightarrow> string) \<Rightarrow> OpenAPIDefinition" where
  "schema_k8sio_api_core_v1_NodeSystemInfo ref =
     openapi
       (object [
          (''machineID'', defaults (JStr []) str),
          (''systemUUID'', defaults (JStr []) str),
          (''bootID'', defaults (JStr []) str),
          (''kernelVersion'', defaults (JStr []) str),
          (''osImage'', defaults (JStr []) str),
          (''containerRuntimeVersion'', defaults (JStr []) str),
          (''kubeletVersion'', defaults (JStr []) str),
          (''kubeProxyVersion'', defaults (JStr []) str),
          (''operatingSystem'', defaults (JStr []) str),
          (''architecture'', defaults (JStr []) str)]
        [''machineID'', ''systemUUID'', ''bootID'', ''kernelVersion'', ''osImage'',
          ''containerRuntimeVersion'', ''kubeletVersion'', ''kubeProxyVersion'', ''operatingSystem'',
            ''architecture''])
       []"

definition schema_k8sio_api_core_v1_ObjectFieldSelector :: "(string \<Rightarrow> string) \<Rightarrow> OpenAPIDefinition" where
  "schema_k8sio_api_core_v1_ObjectFieldSelector ref =
     openapi
       (extended [(''x-kubernetes-map-type'', JStr ''atomic'')] (object [
          (''apiVersion'', str),
          (''fieldPath'', defaults (JStr []) str)]
        [''fieldPath'']))
       []"

definition schema_k8sio_api_core_v1_ObjectReference :: "(string \<Rightarrow> string) \<Rightarrow> OpenAPIDefinition" where
  "schema_k8sio_api_core_v1_ObjectReference ref =
     openapi
       (extended [(''x-kubernetes-map-type'', JStr ''atomic'')] (object [
          (''kind'', str),
          (''namespace'', str),
          (''name'', str),
          (''uid'', str),
          (''apiVersion'', str),
          (''resourceVersion'', str),
          (''fieldPath'', str)]
        []))
       []"

subsection \<open>They are sound\<close>

lemmas core2_defs =
  schema_k8sio_api_core_v1_ExecAction_def
  schema_k8sio_api_core_v1_FCVolumeSource_def
  schema_k8sio_api_core_v1_FlexPersistentVolumeSource_def
  schema_k8sio_api_core_v1_FlexVolumeSource_def
  schema_k8sio_api_core_v1_FlockerVolumeSource_def
  schema_k8sio_api_core_v1_GCEPersistentDiskVolumeSource_def
  schema_k8sio_api_core_v1_GRPCAction_def
  schema_k8sio_api_core_v1_GitRepoVolumeSource_def
  schema_k8sio_api_core_v1_GlusterfsPersistentVolumeSource_def
  schema_k8sio_api_core_v1_GlusterfsVolumeSource_def
  schema_k8sio_api_core_v1_HTTPGetAction_def
  schema_k8sio_api_core_v1_HTTPHeader_def
  schema_k8sio_api_core_v1_HostAlias_def
  schema_k8sio_api_core_v1_HostIP_def
  schema_k8sio_api_core_v1_HostPathVolumeSource_def
  schema_k8sio_api_core_v1_ISCSIPersistentVolumeSource_def
  schema_k8sio_api_core_v1_ISCSIVolumeSource_def
  schema_k8sio_api_core_v1_ImageVolumeSource_def
  schema_k8sio_api_core_v1_KeyToPath_def
  schema_k8sio_api_core_v1_Lifecycle_def
  schema_k8sio_api_core_v1_LifecycleHandler_def
  schema_k8sio_api_core_v1_LimitRange_def
  schema_k8sio_api_core_v1_LimitRangeItem_def
  schema_k8sio_api_core_v1_LimitRangeList_def
  schema_k8sio_api_core_v1_LimitRangeSpec_def
  schema_k8sio_api_core_v1_LinuxContainerUser_def
  schema_k8sio_api_core_v1_List_def
  schema_k8sio_api_core_v1_LoadBalancerIngress_def
  schema_k8sio_api_core_v1_LoadBalancerStatus_def
  schema_k8sio_api_core_v1_LocalObjectReference_def
  schema_k8sio_api_core_v1_LocalVolumeSource_def
  schema_k8sio_api_core_v1_ModifyVolumeStatus_def
  schema_k8sio_api_core_v1_NFSVolumeSource_def
  schema_k8sio_api_core_v1_Namespace_def
  schema_k8sio_api_core_v1_NamespaceCondition_def
  schema_k8sio_api_core_v1_NamespaceList_def
  schema_k8sio_api_core_v1_NamespaceSpec_def
  schema_k8sio_api_core_v1_NamespaceStatus_def
  schema_k8sio_api_core_v1_Node_def
  schema_k8sio_api_core_v1_NodeAddress_def
  schema_k8sio_api_core_v1_NodeAffinity_def
  schema_k8sio_api_core_v1_NodeCondition_def
  schema_k8sio_api_core_v1_NodeConfigSource_def
  schema_k8sio_api_core_v1_NodeConfigStatus_def
  schema_k8sio_api_core_v1_NodeDaemonEndpoints_def
  schema_k8sio_api_core_v1_NodeFeatures_def
  schema_k8sio_api_core_v1_NodeList_def
  schema_k8sio_api_core_v1_NodeProxyOptions_def
  schema_k8sio_api_core_v1_NodeRuntimeHandler_def
  schema_k8sio_api_core_v1_NodeRuntimeHandlerFeatures_def
  schema_k8sio_api_core_v1_NodeSelector_def
  schema_k8sio_api_core_v1_NodeSelectorRequirement_def
  schema_k8sio_api_core_v1_NodeSelectorTerm_def
  schema_k8sio_api_core_v1_NodeSpec_def
  schema_k8sio_api_core_v1_NodeStatus_def
  schema_k8sio_api_core_v1_NodeSystemInfo_def
  schema_k8sio_api_core_v1_ObjectFieldSelector_def
  schema_k8sio_api_core_v1_ObjectReference_def

lemmas core2_parts =
  schema_k8sio_api_core_v1_NodeStatus_properties1_def
  schema_k8sio_api_core_v1_NodeStatus_properties2_def

lemma core2_ok1:
  "def_ok ref (schema_k8sio_api_core_v1_ExecAction ref)"
  "def_ok ref (schema_k8sio_api_core_v1_FCVolumeSource ref)"
  "def_ok ref (schema_k8sio_api_core_v1_FlexPersistentVolumeSource ref)"
  "def_ok ref (schema_k8sio_api_core_v1_FlexVolumeSource ref)"
  "def_ok ref (schema_k8sio_api_core_v1_FlockerVolumeSource ref)"
  "def_ok ref (schema_k8sio_api_core_v1_GCEPersistentDiskVolumeSource ref)"
  "def_ok ref (schema_k8sio_api_core_v1_GRPCAction ref)"
  by (auto simp: def_ok_def core2_defs core2_parts)

lemma core2_ok2:
  "def_ok ref (schema_k8sio_api_core_v1_GitRepoVolumeSource ref)"
  "def_ok ref (schema_k8sio_api_core_v1_GlusterfsPersistentVolumeSource ref)"
  "def_ok ref (schema_k8sio_api_core_v1_GlusterfsVolumeSource ref)"
  "def_ok ref (schema_k8sio_api_core_v1_HTTPGetAction ref)"
  "def_ok ref (schema_k8sio_api_core_v1_HTTPHeader ref)"
  "def_ok ref (schema_k8sio_api_core_v1_HostAlias ref)"
  "def_ok ref (schema_k8sio_api_core_v1_HostIP ref)"
  "def_ok ref (schema_k8sio_api_core_v1_HostPathVolumeSource ref)"
  by (auto simp: def_ok_def core2_defs core2_parts)

lemma core2_ok3:
  "def_ok ref (schema_k8sio_api_core_v1_ISCSIPersistentVolumeSource ref)"
  "def_ok ref (schema_k8sio_api_core_v1_ISCSIVolumeSource ref)"
  "def_ok ref (schema_k8sio_api_core_v1_ImageVolumeSource ref)"
  "def_ok ref (schema_k8sio_api_core_v1_KeyToPath ref)"
  "def_ok ref (schema_k8sio_api_core_v1_Lifecycle ref)"
  by (auto simp: def_ok_def core2_defs core2_parts)

lemma core2_ok4:
  "def_ok ref (schema_k8sio_api_core_v1_LifecycleHandler ref)"
  "def_ok ref (schema_k8sio_api_core_v1_LimitRange ref)"
  "def_ok ref (schema_k8sio_api_core_v1_LimitRangeItem ref)"
  "def_ok ref (schema_k8sio_api_core_v1_LimitRangeList ref)"
  "def_ok ref (schema_k8sio_api_core_v1_LimitRangeSpec ref)"
  "def_ok ref (schema_k8sio_api_core_v1_LinuxContainerUser ref)"
  by (auto simp: def_ok_def core2_defs core2_parts)

lemma core2_ok5:
  "def_ok ref (schema_k8sio_api_core_v1_List ref)"
  "def_ok ref (schema_k8sio_api_core_v1_LoadBalancerIngress ref)"
  "def_ok ref (schema_k8sio_api_core_v1_LoadBalancerStatus ref)"
  "def_ok ref (schema_k8sio_api_core_v1_LocalObjectReference ref)"
  "def_ok ref (schema_k8sio_api_core_v1_LocalVolumeSource ref)"
  "def_ok ref (schema_k8sio_api_core_v1_ModifyVolumeStatus ref)"
  "def_ok ref (schema_k8sio_api_core_v1_NFSVolumeSource ref)"
  "def_ok ref (schema_k8sio_api_core_v1_Namespace ref)"
  by (auto simp: def_ok_def core2_defs core2_parts)

lemma core2_ok6:
  "def_ok ref (schema_k8sio_api_core_v1_NamespaceCondition ref)"
  "def_ok ref (schema_k8sio_api_core_v1_NamespaceList ref)"
  "def_ok ref (schema_k8sio_api_core_v1_NamespaceSpec ref)"
  "def_ok ref (schema_k8sio_api_core_v1_NamespaceStatus ref)"
  "def_ok ref (schema_k8sio_api_core_v1_Node ref)"
  "def_ok ref (schema_k8sio_api_core_v1_NodeAddress ref)"
  "def_ok ref (schema_k8sio_api_core_v1_NodeAffinity ref)"
  by (auto simp: def_ok_def core2_defs core2_parts)

lemma core2_ok7:
  "def_ok ref (schema_k8sio_api_core_v1_NodeCondition ref)"
  "def_ok ref (schema_k8sio_api_core_v1_NodeConfigSource ref)"
  "def_ok ref (schema_k8sio_api_core_v1_NodeConfigStatus ref)"
  "def_ok ref (schema_k8sio_api_core_v1_NodeDaemonEndpoints ref)"
  "def_ok ref (schema_k8sio_api_core_v1_NodeFeatures ref)"
  "def_ok ref (schema_k8sio_api_core_v1_NodeList ref)"
  "def_ok ref (schema_k8sio_api_core_v1_NodeProxyOptions ref)"
  "def_ok ref (schema_k8sio_api_core_v1_NodeRuntimeHandler ref)"
  by (auto simp: def_ok_def core2_defs core2_parts)

lemma core2_ok8:
  "def_ok ref (schema_k8sio_api_core_v1_NodeRuntimeHandlerFeatures ref)"
  "def_ok ref (schema_k8sio_api_core_v1_NodeSelector ref)"
  "def_ok ref (schema_k8sio_api_core_v1_NodeSelectorRequirement ref)"
  "def_ok ref (schema_k8sio_api_core_v1_NodeSelectorTerm ref)"
  "def_ok ref (schema_k8sio_api_core_v1_NodeSpec ref)"
  by (auto simp: def_ok_def core2_defs core2_parts)

lemma core2_ok9:
  "def_ok ref (schema_k8sio_api_core_v1_NodeStatus ref)"
  "def_ok ref (schema_k8sio_api_core_v1_NodeSystemInfo ref)"
  "def_ok ref (schema_k8sio_api_core_v1_ObjectFieldSelector ref)"
  by (auto simp: def_ok_def core2_defs core2_parts)

lemma core2_ok10:
  "def_ok ref (schema_k8sio_api_core_v1_ObjectReference ref)"
  by (auto simp: def_ok_def core2_defs core2_parts)

lemmas core2_ok = core2_ok1 core2_ok2 core2_ok3 core2_ok4 core2_ok5 core2_ok6 core2_ok7 core2_ok8
     core2_ok9 core2_ok10

text \<open>The dependencies they declare.\<close>

lemmas core2_deps = core2_defs [THEN arg_cong [where f = Dependencies], unfolded openapi_simps]

end
