(* ===== verification/OpenApiCore3.thy ===== *)
theory OpenApiCore3
  imports OpenApi
begin

section \<open>Schemas of the core types, part 3\<close>

text \<open>
  The generated functions for \<^verbatim>\<open>k8s.io/api/core/v1\<close>, from \<^verbatim>\<open>PersistentVolume\<close> to \<^verbatim>\<open>ResourceFieldSelector\<close>.
\<close>

definition schema_k8sio_api_core_v1_PersistentVolume :: "(string \<Rightarrow> string) \<Rightarrow> OpenAPIDefinition" where
  "schema_k8sio_api_core_v1_PersistentVolume ref =
     openapi
       (object [
          (''kind'', str),
          (''apiVersion'', str),
          (''metadata'', defaults (JMap []) (refers (ref (meta_v1 ''ObjectMeta'')))),
          (''spec'', defaults (JMap []) (refers (ref (core_v1 ''PersistentVolumeSpec'')))),
          (''status'', defaults (JMap []) (refers (ref (core_v1 ''PersistentVolumeStatus''))))]
        [])
       [core_v1 ''PersistentVolumeSpec'', core_v1 ''PersistentVolumeStatus'', meta_v1 ''ObjectMeta'']"

definition schema_k8sio_api_core_v1_PersistentVolumeClaim :: "(string \<Rightarrow> string) \<Rightarrow> OpenAPIDefinition" where
  "schema_k8sio_api_core_v1_PersistentVolumeClaim ref =
     openapi
       (object [
          (''kind'', str),
          (''apiVersion'', str),
          (''metadata'', defaults (JMap []) (refers (ref (meta_v1 ''ObjectMeta'')))),
          (''spec'', defaults (JMap []) (refers (ref (core_v1 ''PersistentVolumeClaimSpec'')))),
          (''status'', defaults (JMap []) (refers (ref (core_v1 ''PersistentVolumeClaimStatus''))))]
        [])
       [core_v1 ''PersistentVolumeClaimSpec'', core_v1 ''PersistentVolumeClaimStatus'', meta_v1
          ''ObjectMeta'']"

definition schema_k8sio_api_core_v1_PersistentVolumeClaimCondition :: "(string \<Rightarrow> string) \<Rightarrow> OpenAPIDefinition" where
  "schema_k8sio_api_core_v1_PersistentVolumeClaimCondition ref =
     openapi
       (object [
          (''type'', defaults (JStr []) str),
          (''status'', defaults (JStr []) str),
          (''lastProbeTime'', refers (ref (meta_v1 ''Time''))),
          (''lastTransitionTime'', refers (ref (meta_v1 ''Time''))),
          (''reason'', str),
          (''message'', str)]
        [''type'', ''status''])
       [meta_v1 ''Time'']"

definition schema_k8sio_api_core_v1_PersistentVolumeClaimList :: "(string \<Rightarrow> string) \<Rightarrow> OpenAPIDefinition" where
  "schema_k8sio_api_core_v1_PersistentVolumeClaimList ref =
     openapi
       (object [
          (''kind'', str),
          (''apiVersion'', str),
          (''metadata'', defaults (JMap []) (refers (ref (meta_v1 ''ListMeta'')))),
          (''items'', array (defaults (JMap []) (refers (ref (core_v1 ''PersistentVolumeClaim'')))))]
        [''items''])
       [core_v1 ''PersistentVolumeClaim'', meta_v1 ''ListMeta'']"

definition schema_k8sio_api_core_v1_PersistentVolumeClaimSpec :: "(string \<Rightarrow> string) \<Rightarrow> OpenAPIDefinition" where
  "schema_k8sio_api_core_v1_PersistentVolumeClaimSpec ref =
     openapi
       (object [
          (''accessModes'', extended [(''x-kubernetes-list-type'', JStr ''atomic'')] (array (defaults
            (JStr []) str))),
          (''selector'', refers (ref (meta_v1 ''LabelSelector''))),
          (''resources'', defaults (JMap []) (refers (ref (core_v1 ''VolumeResourceRequirements'')))),
          (''volumeName'', str),
          (''storageClassName'', str),
          (''volumeMode'', enum [JStr ''Block'', JStr ''Filesystem''] str),
          (''dataSource'', refers (ref (core_v1 ''TypedLocalObjectReference''))),
          (''dataSourceRef'', refers (ref (core_v1 ''TypedObjectReference''))),
          (''volumeAttributesClassName'', str)]
        [])
       [core_v1 ''TypedLocalObjectReference'', core_v1 ''TypedObjectReference'', core_v1
          ''VolumeResourceRequirements'', meta_v1 ''LabelSelector'']"

definition schema_k8sio_api_core_v1_PersistentVolumeClaimStatus :: "(string \<Rightarrow> string) \<Rightarrow> OpenAPIDefinition" where
  "schema_k8sio_api_core_v1_PersistentVolumeClaimStatus ref =
     openapi
       (object [
          (''phase'', enum [JStr ''Bound'', JStr ''Lost'', JStr ''Pending''] str),
          (''accessModes'', extended [(''x-kubernetes-list-type'', JStr ''atomic'')] (array (defaults
            (JStr []) str))),
          (''capacity'', additional (refers (ref (resource_pkg ''Quantity'')))),
          (''conditions'', extended [(''x-kubernetes-list-map-keys'', JList [(JStr ''type'')]),
            (''x-kubernetes-list-type'', JStr ''map''), (''x-kubernetes-patch-merge-key'', JStr
              ''type''), (''x-kubernetes-patch-strategy'', JStr ''merge'')] (array (defaults (JMap [])
                (refers (ref (core_v1 ''PersistentVolumeClaimCondition'')))))),
          (''allocatedResources'', additional (refers (ref (resource_pkg ''Quantity'')))),
          (''allocatedResourceStatuses'', extended [(''x-kubernetes-map-type'', JStr ''granular'')]
            (additional (defaults (JStr []) str))),
          (''currentVolumeAttributesClassName'', str),
          (''modifyVolumeStatus'', refers (ref (core_v1 ''ModifyVolumeStatus'')))]
        [])
       [core_v1 ''ModifyVolumeStatus'', core_v1 ''PersistentVolumeClaimCondition'', resource_pkg
          ''Quantity'']"

definition schema_k8sio_api_core_v1_PersistentVolumeClaimTemplate :: "(string \<Rightarrow> string) \<Rightarrow> OpenAPIDefinition" where
  "schema_k8sio_api_core_v1_PersistentVolumeClaimTemplate ref =
     openapi
       (object [
          (''metadata'', defaults (JMap []) (refers (ref (meta_v1 ''ObjectMeta'')))),
          (''spec'', defaults (JMap []) (refers (ref (core_v1 ''PersistentVolumeClaimSpec''))))]
        [''spec''])
       [core_v1 ''PersistentVolumeClaimSpec'', meta_v1 ''ObjectMeta'']"

definition schema_k8sio_api_core_v1_PersistentVolumeClaimVolumeSource :: "(string \<Rightarrow> string) \<Rightarrow> OpenAPIDefinition" where
  "schema_k8sio_api_core_v1_PersistentVolumeClaimVolumeSource ref =
     openapi
       (object [
          (''claimName'', defaults (JStr []) str),
          (''readOnly'', bool)]
        [''claimName''])
       []"

definition schema_k8sio_api_core_v1_PersistentVolumeList :: "(string \<Rightarrow> string) \<Rightarrow> OpenAPIDefinition" where
  "schema_k8sio_api_core_v1_PersistentVolumeList ref =
     openapi
       (object [
          (''kind'', str),
          (''apiVersion'', str),
          (''metadata'', defaults (JMap []) (refers (ref (meta_v1 ''ListMeta'')))),
          (''items'', array (defaults (JMap []) (refers (ref (core_v1 ''PersistentVolume'')))))]
        [''items''])
       [core_v1 ''PersistentVolume'', meta_v1 ''ListMeta'']"

definition schema_k8sio_api_core_v1_PersistentVolumeSource :: "(string \<Rightarrow> string) \<Rightarrow> OpenAPIDefinition" where
  "schema_k8sio_api_core_v1_PersistentVolumeSource ref =
     openapi
       (object [
          (''gcePersistentDisk'', refers (ref (core_v1 ''GCEPersistentDiskVolumeSource''))),
          (''awsElasticBlockStore'', refers (ref (core_v1 ''AWSElasticBlockStoreVolumeSource''))),
          (''hostPath'', refers (ref (core_v1 ''HostPathVolumeSource''))),
          (''glusterfs'', refers (ref (core_v1 ''GlusterfsPersistentVolumeSource''))),
          (''nfs'', refers (ref (core_v1 ''NFSVolumeSource''))),
          (''rbd'', refers (ref (core_v1 ''RBDPersistentVolumeSource''))),
          (''iscsi'', refers (ref (core_v1 ''ISCSIPersistentVolumeSource''))),
          (''cinder'', refers (ref (core_v1 ''CinderPersistentVolumeSource''))),
          (''cephfs'', refers (ref (core_v1 ''CephFSPersistentVolumeSource''))),
          (''fc'', refers (ref (core_v1 ''FCVolumeSource''))),
          (''flocker'', refers (ref (core_v1 ''FlockerVolumeSource''))),
          (''flexVolume'', refers (ref (core_v1 ''FlexPersistentVolumeSource''))),
          (''azureFile'', refers (ref (core_v1 ''AzureFilePersistentVolumeSource''))),
          (''vsphereVolume'', refers (ref (core_v1 ''VsphereVirtualDiskVolumeSource''))),
          (''quobyte'', refers (ref (core_v1 ''QuobyteVolumeSource''))),
          (''azureDisk'', refers (ref (core_v1 ''AzureDiskVolumeSource''))),
          (''photonPersistentDisk'', refers (ref (core_v1 ''PhotonPersistentDiskVolumeSource''))),
          (''portworxVolume'', refers (ref (core_v1 ''PortworxVolumeSource''))),
          (''scaleIO'', refers (ref (core_v1 ''ScaleIOPersistentVolumeSource''))),
          (''local'', refers (ref (core_v1 ''LocalVolumeSource''))),
          (''storageos'', refers (ref (core_v1 ''StorageOSPersistentVolumeSource''))),
          (''csi'', refers (ref (core_v1 ''CSIPersistentVolumeSource'')))]
        [])
       [core_v1 ''AWSElasticBlockStoreVolumeSource'', core_v1 ''AzureDiskVolumeSource'', core_v1
          ''AzureFilePersistentVolumeSource'', core_v1 ''CSIPersistentVolumeSource'', core_v1
            ''CephFSPersistentVolumeSource'', core_v1 ''CinderPersistentVolumeSource'', core_v1
              ''FCVolumeSource'', core_v1 ''FlexPersistentVolumeSource'', core_v1
                ''FlockerVolumeSource'', core_v1 ''GCEPersistentDiskVolumeSource'', core_v1
                  ''GlusterfsPersistentVolumeSource'', core_v1 ''HostPathVolumeSource'', core_v1
                    ''ISCSIPersistentVolumeSource'', core_v1 ''LocalVolumeSource'', core_v1
                      ''NFSVolumeSource'', core_v1 ''PhotonPersistentDiskVolumeSource'', core_v1
                        ''PortworxVolumeSource'', core_v1 ''QuobyteVolumeSource'', core_v1
                          ''RBDPersistentVolumeSource'', core_v1 ''ScaleIOPersistentVolumeSource'',
                            core_v1 ''StorageOSPersistentVolumeSource'', core_v1
                              ''VsphereVirtualDiskVolumeSource'']"

definition schema_k8sio_api_core_v1_PersistentVolumeSpec_properties1 :: "(string \<Rightarrow> string) \<Rightarrow> (string \<times> schema) list" where
  "schema_k8sio_api_core_v1_PersistentVolumeSpec_properties1 ref = [
     (''capacity'', additional (refers (ref (resource_pkg ''Quantity'')))),
     (''gcePersistentDisk'', refers (ref (core_v1 ''GCEPersistentDiskVolumeSource''))),
     (''awsElasticBlockStore'', refers (ref (core_v1 ''AWSElasticBlockStoreVolumeSource''))),
     (''hostPath'', refers (ref (core_v1 ''HostPathVolumeSource''))),
     (''glusterfs'', refers (ref (core_v1 ''GlusterfsPersistentVolumeSource''))),
     (''nfs'', refers (ref (core_v1 ''NFSVolumeSource''))),
     (''rbd'', refers (ref (core_v1 ''RBDPersistentVolumeSource''))),
     (''iscsi'', refers (ref (core_v1 ''ISCSIPersistentVolumeSource''))),
     (''cinder'', refers (ref (core_v1 ''CinderPersistentVolumeSource''))),
     (''cephfs'', refers (ref (core_v1 ''CephFSPersistentVolumeSource''))),
     (''fc'', refers (ref (core_v1 ''FCVolumeSource''))),
     (''flocker'', refers (ref (core_v1 ''FlockerVolumeSource''))),
     (''flexVolume'', refers (ref (core_v1 ''FlexPersistentVolumeSource''))),
     (''azureFile'', refers (ref (core_v1 ''AzureFilePersistentVolumeSource''))),
     (''vsphereVolume'', refers (ref (core_v1 ''VsphereVirtualDiskVolumeSource''))),
     (''quobyte'', refers (ref (core_v1 ''QuobyteVolumeSource''))),
     (''azureDisk'', refers (ref (core_v1 ''AzureDiskVolumeSource'')))]"

definition schema_k8sio_api_core_v1_PersistentVolumeSpec_properties2 :: "(string \<Rightarrow> string) \<Rightarrow> (string \<times> schema) list" where
  "schema_k8sio_api_core_v1_PersistentVolumeSpec_properties2 ref = [
     (''photonPersistentDisk'', refers (ref (core_v1 ''PhotonPersistentDiskVolumeSource''))),
     (''portworxVolume'', refers (ref (core_v1 ''PortworxVolumeSource''))),
     (''scaleIO'', refers (ref (core_v1 ''ScaleIOPersistentVolumeSource''))),
     (''local'', refers (ref (core_v1 ''LocalVolumeSource''))),
     (''storageos'', refers (ref (core_v1 ''StorageOSPersistentVolumeSource''))),
     (''csi'', refers (ref (core_v1 ''CSIPersistentVolumeSource''))),
     (''accessModes'', extended [(''x-kubernetes-list-type'', JStr ''atomic'')] (array (defaults (JStr
          []) str))),
     (''claimRef'', extended [(''x-kubernetes-map-type'', JStr ''granular'')] (refers (ref (core_v1
          ''ObjectReference'')))),
     (''persistentVolumeReclaimPolicy'', enum [JStr ''Delete'', JStr ''Recycle'', JStr ''Retain''] str),
     (''storageClassName'', str),
     (''mountOptions'', extended [(''x-kubernetes-list-type'', JStr ''atomic'')] (array (defaults (JStr
          []) str))),
     (''volumeMode'', enum [JStr ''Block'', JStr ''Filesystem''] str)]"

definition schema_k8sio_api_core_v1_PersistentVolumeSpec_properties3 :: "(string \<Rightarrow> string) \<Rightarrow> (string \<times> schema) list" where
  "schema_k8sio_api_core_v1_PersistentVolumeSpec_properties3 ref = [
     (''nodeAffinity'', refers (ref (core_v1 ''VolumeNodeAffinity''))),
     (''volumeAttributesClassName'', str)]"

definition schema_k8sio_api_core_v1_PersistentVolumeSpec :: "(string \<Rightarrow> string) \<Rightarrow> OpenAPIDefinition" where
  "schema_k8sio_api_core_v1_PersistentVolumeSpec ref =
     openapi
       (object (schema_k8sio_api_core_v1_PersistentVolumeSpec_properties1 ref @
          schema_k8sio_api_core_v1_PersistentVolumeSpec_properties2 ref @
          schema_k8sio_api_core_v1_PersistentVolumeSpec_properties3 ref)
          [])
       [core_v1 ''AWSElasticBlockStoreVolumeSource'', core_v1 ''AzureDiskVolumeSource'', core_v1
          ''AzureFilePersistentVolumeSource'', core_v1 ''CSIPersistentVolumeSource'', core_v1
            ''CephFSPersistentVolumeSource'', core_v1 ''CinderPersistentVolumeSource'', core_v1
              ''FCVolumeSource'', core_v1 ''FlexPersistentVolumeSource'', core_v1
                ''FlockerVolumeSource'', core_v1 ''GCEPersistentDiskVolumeSource'', core_v1
                  ''GlusterfsPersistentVolumeSource'', core_v1 ''HostPathVolumeSource'', core_v1
                    ''ISCSIPersistentVolumeSource'', core_v1 ''LocalVolumeSource'', core_v1
                      ''NFSVolumeSource'', core_v1 ''ObjectReference'', core_v1
                        ''PhotonPersistentDiskVolumeSource'', core_v1 ''PortworxVolumeSource'', core_v1
                          ''QuobyteVolumeSource'', core_v1 ''RBDPersistentVolumeSource'', core_v1
                            ''ScaleIOPersistentVolumeSource'', core_v1
                              ''StorageOSPersistentVolumeSource'', core_v1 ''VolumeNodeAffinity'',
                                core_v1 ''VsphereVirtualDiskVolumeSource'', resource_pkg ''Quantity'']"

definition schema_k8sio_api_core_v1_PersistentVolumeStatus :: "(string \<Rightarrow> string) \<Rightarrow> OpenAPIDefinition" where
  "schema_k8sio_api_core_v1_PersistentVolumeStatus ref =
     openapi
       (object [
          (''phase'', enum [JStr ''Available'', JStr ''Bound'', JStr ''Failed'', JStr ''Pending'', JStr
            ''Released''] str),
          (''message'', str),
          (''reason'', str),
          (''lastPhaseTransitionTime'', refers (ref (meta_v1 ''Time'')))]
        [])
       [meta_v1 ''Time'']"

definition schema_k8sio_api_core_v1_PhotonPersistentDiskVolumeSource :: "(string \<Rightarrow> string) \<Rightarrow> OpenAPIDefinition" where
  "schema_k8sio_api_core_v1_PhotonPersistentDiskVolumeSource ref =
     openapi
       (object [
          (''pdID'', defaults (JStr []) str),
          (''fsType'', str)]
        [''pdID''])
       []"

definition schema_k8sio_api_core_v1_Pod :: "(string \<Rightarrow> string) \<Rightarrow> OpenAPIDefinition" where
  "schema_k8sio_api_core_v1_Pod ref =
     openapi
       (object [
          (''kind'', str),
          (''apiVersion'', str),
          (''metadata'', defaults (JMap []) (refers (ref (meta_v1 ''ObjectMeta'')))),
          (''spec'', defaults (JMap []) (refers (ref (core_v1 ''PodSpec'')))),
          (''status'', defaults (JMap []) (refers (ref (core_v1 ''PodStatus''))))]
        [])
       [core_v1 ''PodSpec'', core_v1 ''PodStatus'', meta_v1 ''ObjectMeta'']"

definition schema_k8sio_api_core_v1_PodAffinity :: "(string \<Rightarrow> string) \<Rightarrow> OpenAPIDefinition" where
  "schema_k8sio_api_core_v1_PodAffinity ref =
     openapi
       (object [
          (''requiredDuringSchedulingIgnoredDuringExecution'', extended [(''x-kubernetes-list-type'',
            JStr ''atomic'')] (array (defaults (JMap []) (refers (ref (core_v1
              ''PodAffinityTerm'')))))),
          (''preferredDuringSchedulingIgnoredDuringExecution'', extended [(''x-kubernetes-list-type'',
            JStr ''atomic'')] (array (defaults (JMap []) (refers (ref (core_v1
              ''WeightedPodAffinityTerm''))))))]
        [])
       [core_v1 ''PodAffinityTerm'', core_v1 ''WeightedPodAffinityTerm'']"

definition schema_k8sio_api_core_v1_PodAffinityTerm :: "(string \<Rightarrow> string) \<Rightarrow> OpenAPIDefinition" where
  "schema_k8sio_api_core_v1_PodAffinityTerm ref =
     openapi
       (object [
          (''labelSelector'', refers (ref (meta_v1 ''LabelSelector''))),
          (''namespaces'', extended [(''x-kubernetes-list-type'', JStr ''atomic'')] (array (defaults
            (JStr []) str))),
          (''topologyKey'', defaults (JStr []) str),
          (''namespaceSelector'', refers (ref (meta_v1 ''LabelSelector''))),
          (''matchLabelKeys'', extended [(''x-kubernetes-list-type'', JStr ''atomic'')] (array
            (defaults (JStr []) str))),
          (''mismatchLabelKeys'', extended [(''x-kubernetes-list-type'', JStr ''atomic'')] (array
            (defaults (JStr []) str)))]
        [''topologyKey''])
       [meta_v1 ''LabelSelector'']"

definition schema_k8sio_api_core_v1_PodAntiAffinity :: "(string \<Rightarrow> string) \<Rightarrow> OpenAPIDefinition" where
  "schema_k8sio_api_core_v1_PodAntiAffinity ref =
     openapi
       (object [
          (''requiredDuringSchedulingIgnoredDuringExecution'', extended [(''x-kubernetes-list-type'',
            JStr ''atomic'')] (array (defaults (JMap []) (refers (ref (core_v1
              ''PodAffinityTerm'')))))),
          (''preferredDuringSchedulingIgnoredDuringExecution'', extended [(''x-kubernetes-list-type'',
            JStr ''atomic'')] (array (defaults (JMap []) (refers (ref (core_v1
              ''WeightedPodAffinityTerm''))))))]
        [])
       [core_v1 ''PodAffinityTerm'', core_v1 ''WeightedPodAffinityTerm'']"

definition schema_k8sio_api_core_v1_PodAttachOptions :: "(string \<Rightarrow> string) \<Rightarrow> OpenAPIDefinition" where
  "schema_k8sio_api_core_v1_PodAttachOptions ref =
     openapi
       (object [
          (''kind'', str),
          (''apiVersion'', str),
          (''stdin'', bool),
          (''stdout'', bool),
          (''stderr'', bool),
          (''tty'', bool),
          (''container'', str)]
        [])
       []"

definition schema_k8sio_api_core_v1_PodCondition :: "(string \<Rightarrow> string) \<Rightarrow> OpenAPIDefinition" where
  "schema_k8sio_api_core_v1_PodCondition ref =
     openapi
       (object [
          (''type'', defaults (JStr []) str),
          (''status'', defaults (JStr []) str),
          (''lastProbeTime'', refers (ref (meta_v1 ''Time''))),
          (''lastTransitionTime'', refers (ref (meta_v1 ''Time''))),
          (''reason'', str),
          (''message'', str)]
        [''type'', ''status''])
       [meta_v1 ''Time'']"

definition schema_k8sio_api_core_v1_PodDNSConfig :: "(string \<Rightarrow> string) \<Rightarrow> OpenAPIDefinition" where
  "schema_k8sio_api_core_v1_PodDNSConfig ref =
     openapi
       (object [
          (''nameservers'', extended [(''x-kubernetes-list-type'', JStr ''atomic'')] (array (defaults
            (JStr []) str))),
          (''searches'', extended [(''x-kubernetes-list-type'', JStr ''atomic'')] (array (defaults
            (JStr []) str))),
          (''options'', extended [(''x-kubernetes-list-type'', JStr ''atomic'')] (array (defaults (JMap
            []) (refers (ref (core_v1 ''PodDNSConfigOption''))))))]
        [])
       [core_v1 ''PodDNSConfigOption'']"

definition schema_k8sio_api_core_v1_PodDNSConfigOption :: "(string \<Rightarrow> string) \<Rightarrow> OpenAPIDefinition" where
  "schema_k8sio_api_core_v1_PodDNSConfigOption ref =
     openapi
       (object [
          (''name'', str),
          (''value'', str)]
        [])
       []"

definition schema_k8sio_api_core_v1_PodExecOptions :: "(string \<Rightarrow> string) \<Rightarrow> OpenAPIDefinition" where
  "schema_k8sio_api_core_v1_PodExecOptions ref =
     openapi
       (object [
          (''kind'', str),
          (''apiVersion'', str),
          (''stdin'', bool),
          (''stdout'', bool),
          (''stderr'', bool),
          (''tty'', bool),
          (''container'', str),
          (''command'', extended [(''x-kubernetes-list-type'', JStr ''atomic'')] (array (defaults (JStr
            []) str)))]
        [''command''])
       []"

definition schema_k8sio_api_core_v1_PodIP :: "(string \<Rightarrow> string) \<Rightarrow> OpenAPIDefinition" where
  "schema_k8sio_api_core_v1_PodIP ref =
     openapi
       (object [
          (''ip'', defaults (JStr []) str)]
        [''ip''])
       []"

definition schema_k8sio_api_core_v1_PodList :: "(string \<Rightarrow> string) \<Rightarrow> OpenAPIDefinition" where
  "schema_k8sio_api_core_v1_PodList ref =
     openapi
       (object [
          (''kind'', str),
          (''apiVersion'', str),
          (''metadata'', defaults (JMap []) (refers (ref (meta_v1 ''ListMeta'')))),
          (''items'', array (defaults (JMap []) (refers (ref (core_v1 ''Pod'')))))]
        [''items''])
       [core_v1 ''Pod'', meta_v1 ''ListMeta'']"

definition schema_k8sio_api_core_v1_PodLogOptions :: "(string \<Rightarrow> string) \<Rightarrow> OpenAPIDefinition" where
  "schema_k8sio_api_core_v1_PodLogOptions ref =
     openapi
       (object [
          (''kind'', str),
          (''apiVersion'', str),
          (''container'', str),
          (''follow'', bool),
          (''previous'', bool),
          (''sinceSeconds'', int64),
          (''sinceTime'', refers (ref (meta_v1 ''Time''))),
          (''timestamps'', bool),
          (''tailLines'', int64),
          (''limitBytes'', int64),
          (''insecureSkipTLSVerifyBackend'', bool)]
        [])
       [meta_v1 ''Time'']"

definition schema_k8sio_api_core_v1_PodOS :: "(string \<Rightarrow> string) \<Rightarrow> OpenAPIDefinition" where
  "schema_k8sio_api_core_v1_PodOS ref =
     openapi
       (object [
          (''name'', defaults (JStr []) str)]
        [''name''])
       []"

definition schema_k8sio_api_core_v1_PodPortForwardOptions :: "(string \<Rightarrow> string) \<Rightarrow> OpenAPIDefinition" where
  "schema_k8sio_api_core_v1_PodPortForwardOptions ref =
     openapi
       (object [
          (''kind'', str),
          (''apiVersion'', str),
          (''ports'', extended [(''x-kubernetes-list-type'', JStr ''atomic'')] (array (defaults (JInt
            0) int32)))]
        [])
       []"

definition schema_k8sio_api_core_v1_PodProxyOptions :: "(string \<Rightarrow> string) \<Rightarrow> OpenAPIDefinition" where
  "schema_k8sio_api_core_v1_PodProxyOptions ref =
     openapi
       (object [
          (''kind'', str),
          (''apiVersion'', str),
          (''path'', str)]
        [])
       []"

definition schema_k8sio_api_core_v1_PodReadinessGate :: "(string \<Rightarrow> string) \<Rightarrow> OpenAPIDefinition" where
  "schema_k8sio_api_core_v1_PodReadinessGate ref =
     openapi
       (object [
          (''conditionType'', defaults (JStr []) str)]
        [''conditionType''])
       []"

definition schema_k8sio_api_core_v1_PodResourceClaim :: "(string \<Rightarrow> string) \<Rightarrow> OpenAPIDefinition" where
  "schema_k8sio_api_core_v1_PodResourceClaim ref =
     openapi
       (object [
          (''name'', defaults (JStr []) str),
          (''resourceClaimName'', str),
          (''resourceClaimTemplateName'', str)]
        [''name''])
       []"

definition schema_k8sio_api_core_v1_PodResourceClaimStatus :: "(string \<Rightarrow> string) \<Rightarrow> OpenAPIDefinition" where
  "schema_k8sio_api_core_v1_PodResourceClaimStatus ref =
     openapi
       (object [
          (''name'', defaults (JStr []) str),
          (''resourceClaimName'', str)]
        [''name''])
       []"

definition schema_k8sio_api_core_v1_PodSchedulingGate :: "(string \<Rightarrow> string) \<Rightarrow> OpenAPIDefinition" where
  "schema_k8sio_api_core_v1_PodSchedulingGate ref =
     openapi
       (object [
          (''name'', defaults (JStr []) str)]
        [''name''])
       []"

definition schema_k8sio_api_core_v1_PodSecurityContext :: "(string \<Rightarrow> string) \<Rightarrow> OpenAPIDefinition" where
  "schema_k8sio_api_core_v1_PodSecurityContext ref =
     openapi
       (object [
          (''seLinuxOptions'', refers (ref (core_v1 ''SELinuxOptions''))),
          (''windowsOptions'', refers (ref (core_v1 ''WindowsSecurityContextOptions''))),
          (''runAsUser'', int64),
          (''runAsGroup'', int64),
          (''runAsNonRoot'', bool),
          (''supplementalGroups'', extended [(''x-kubernetes-list-type'', JStr ''atomic'')] (array
            (defaults (JInt 0) int64))),
          (''supplementalGroupsPolicy'', enum [JStr ''Merge'', JStr ''Strict''] str),
          (''fsGroup'', int64),
          (''sysctls'', extended [(''x-kubernetes-list-type'', JStr ''atomic'')] (array (defaults (JMap
            []) (refers (ref (core_v1 ''Sysctl'')))))),
          (''fsGroupChangePolicy'', enum [JStr ''Always'', JStr ''OnRootMismatch''] str),
          (''seccompProfile'', refers (ref (core_v1 ''SeccompProfile''))),
          (''appArmorProfile'', refers (ref (core_v1 ''AppArmorProfile'')))]
        [])
       [core_v1 ''AppArmorProfile'', core_v1 ''SELinuxOptions'', core_v1 ''SeccompProfile'', core_v1
          ''Sysctl'', core_v1 ''WindowsSecurityContextOptions'']"

definition schema_k8sio_api_core_v1_PodSignature :: "(string \<Rightarrow> string) \<Rightarrow> OpenAPIDefinition" where
  "schema_k8sio_api_core_v1_PodSignature ref =
     openapi
       (object [
          (''podController'', refers (ref (meta_v1 ''OwnerReference'')))]
        [])
       [meta_v1 ''OwnerReference'']"

definition schema_k8sio_api_core_v1_PodSpec_properties1 :: "(string \<Rightarrow> string) \<Rightarrow> (string \<times> schema) list" where
  "schema_k8sio_api_core_v1_PodSpec_properties1 ref = [
     (''volumes'', extended [(''x-kubernetes-list-map-keys'', JList [(JStr ''name'')]),
          (''x-kubernetes-list-type'', JStr ''map''), (''x-kubernetes-patch-merge-key'', JStr
            ''name''), (''x-kubernetes-patch-strategy'', JStr ''merge,retainKeys'')] (array (defaults
              (JMap []) (refers (ref (core_v1 ''Volume'')))))),
     (''initContainers'', extended [(''x-kubernetes-list-map-keys'', JList [(JStr ''name'')]),
          (''x-kubernetes-list-type'', JStr ''map''), (''x-kubernetes-patch-merge-key'', JStr
            ''name''), (''x-kubernetes-patch-strategy'', JStr ''merge'')] (array (defaults (JMap [])
              (refers (ref (core_v1 ''Container'')))))),
     (''containers'', extended [(''x-kubernetes-list-map-keys'', JList [(JStr ''name'')]),
          (''x-kubernetes-list-type'', JStr ''map''), (''x-kubernetes-patch-merge-key'', JStr
            ''name''), (''x-kubernetes-patch-strategy'', JStr ''merge'')] (array (defaults (JMap [])
              (refers (ref (core_v1 ''Container'')))))),
     (''ephemeralContainers'', extended [(''x-kubernetes-list-map-keys'', JList [(JStr ''name'')]),
          (''x-kubernetes-list-type'', JStr ''map''), (''x-kubernetes-patch-merge-key'', JStr
            ''name''), (''x-kubernetes-patch-strategy'', JStr ''merge'')] (array (defaults (JMap [])
              (refers (ref (core_v1 ''EphemeralContainer'')))))),
     (''restartPolicy'', enum [JStr ''Always'', JStr ''Never'', JStr ''OnFailure''] str)]"

definition schema_k8sio_api_core_v1_PodSpec_properties2 :: "(string \<Rightarrow> string) \<Rightarrow> (string \<times> schema) list" where
  "schema_k8sio_api_core_v1_PodSpec_properties2 ref = [
     (''terminationGracePeriodSeconds'', int64),
     (''activeDeadlineSeconds'', int64),
     (''dnsPolicy'', enum [JStr ''ClusterFirst'', JStr ''ClusterFirstWithHostNet'', JStr ''Default'',
          JStr ''None''] str),
     (''nodeSelector'', extended [(''x-kubernetes-map-type'', JStr ''atomic'')] (additional (defaults
          (JStr []) str))),
     (''serviceAccountName'', str),
     (''serviceAccount'', str),
     (''automountServiceAccountToken'', bool),
     (''nodeName'', str),
     (''hostNetwork'', bool),
     (''hostPID'', bool),
     (''hostIPC'', bool),
     (''shareProcessNamespace'', bool),
     (''securityContext'', refers (ref (core_v1 ''PodSecurityContext'')))]"

definition schema_k8sio_api_core_v1_PodSpec_properties3 :: "(string \<Rightarrow> string) \<Rightarrow> (string \<times> schema) list" where
  "schema_k8sio_api_core_v1_PodSpec_properties3 ref = [
     (''imagePullSecrets'', extended [(''x-kubernetes-list-map-keys'', JList [(JStr ''name'')]),
          (''x-kubernetes-list-type'', JStr ''map''), (''x-kubernetes-patch-merge-key'', JStr
            ''name''), (''x-kubernetes-patch-strategy'', JStr ''merge'')] (array (defaults (JMap [])
              (refers (ref (core_v1 ''LocalObjectReference'')))))),
     (''hostname'', str),
     (''subdomain'', str),
     (''affinity'', refers (ref (core_v1 ''Affinity''))),
     (''schedulerName'', str),
     (''tolerations'', extended [(''x-kubernetes-list-type'', JStr ''atomic'')] (array (defaults (JMap
          []) (refers (ref (core_v1 ''Toleration'')))))),
     (''hostAliases'', extended [(''x-kubernetes-list-map-keys'', JList [(JStr ''ip'')]),
          (''x-kubernetes-list-type'', JStr ''map''), (''x-kubernetes-patch-merge-key'', JStr ''ip''),
            (''x-kubernetes-patch-strategy'', JStr ''merge'')] (array (defaults (JMap []) (refers (ref
              (core_v1 ''HostAlias'')))))),
     (''priorityClassName'', str),
     (''priority'', int32)]"

definition schema_k8sio_api_core_v1_PodSpec_properties4 :: "(string \<Rightarrow> string) \<Rightarrow> (string \<times> schema) list" where
  "schema_k8sio_api_core_v1_PodSpec_properties4 ref = [
     (''dnsConfig'', refers (ref (core_v1 ''PodDNSConfig''))),
     (''readinessGates'', extended [(''x-kubernetes-list-type'', JStr ''atomic'')] (array (defaults
          (JMap []) (refers (ref (core_v1 ''PodReadinessGate'')))))),
     (''runtimeClassName'', str),
     (''enableServiceLinks'', bool),
     (''preemptionPolicy'', enum [JStr ''Never'', JStr ''PreemptLowerPriority''] str),
     (''overhead'', additional (refers (ref (resource_pkg ''Quantity'')))),
     (''topologySpreadConstraints'', extended [(''x-kubernetes-list-map-keys'', JList [(JStr
          ''topologyKey''), (JStr ''whenUnsatisfiable'')]), (''x-kubernetes-list-type'', JStr ''map''),
            (''x-kubernetes-patch-merge-key'', JStr ''topologyKey''), (''x-kubernetes-patch-strategy'',
              JStr ''merge'')] (array (defaults (JMap []) (refers (ref (core_v1
                ''TopologySpreadConstraint'')))))),
     (''setHostnameAsFQDN'', bool),
     (''os'', refers (ref (core_v1 ''PodOS''))),
     (''hostUsers'', bool)]"

definition schema_k8sio_api_core_v1_PodSpec_properties5 :: "(string \<Rightarrow> string) \<Rightarrow> (string \<times> schema) list" where
  "schema_k8sio_api_core_v1_PodSpec_properties5 ref = [
     (''schedulingGates'', extended [(''x-kubernetes-list-map-keys'', JList [(JStr ''name'')]),
          (''x-kubernetes-list-type'', JStr ''map''), (''x-kubernetes-patch-merge-key'', JStr
            ''name''), (''x-kubernetes-patch-strategy'', JStr ''merge'')] (array (defaults (JMap [])
              (refers (ref (core_v1 ''PodSchedulingGate'')))))),
     (''resourceClaims'', extended [(''x-kubernetes-list-map-keys'', JList [(JStr ''name'')]),
          (''x-kubernetes-list-type'', JStr ''map''), (''x-kubernetes-patch-merge-key'', JStr
            ''name''), (''x-kubernetes-patch-strategy'', JStr ''merge,retainKeys'')] (array (defaults
              (JMap []) (refers (ref (core_v1 ''PodResourceClaim''))))))]"

definition schema_k8sio_api_core_v1_PodSpec :: "(string \<Rightarrow> string) \<Rightarrow> OpenAPIDefinition" where
  "schema_k8sio_api_core_v1_PodSpec ref =
     openapi
       (object (schema_k8sio_api_core_v1_PodSpec_properties1 ref @
          schema_k8sio_api_core_v1_PodSpec_properties2 ref @
          schema_k8sio_api_core_v1_PodSpec_properties3 ref @
          schema_k8sio_api_core_v1_PodSpec_properties4 ref @
          schema_k8sio_api_core_v1_PodSpec_properties5 ref)
          [''containers''])
       [core_v1 ''Affinity'', core_v1 ''Container'', core_v1 ''EphemeralContainer'', core_v1
          ''HostAlias'', core_v1 ''LocalObjectReference'', core_v1 ''PodDNSConfig'', core_v1 ''PodOS'',
            core_v1 ''PodReadinessGate'', core_v1 ''PodResourceClaim'', core_v1 ''PodSchedulingGate'',
              core_v1 ''PodSecurityContext'', core_v1 ''Toleration'', core_v1
                ''TopologySpreadConstraint'', core_v1 ''Volume'', resource_pkg ''Quantity'']"

definition schema_k8sio_api_core_v1_PodStatus_properties1 :: "(string \<Rightarrow> string) \<Rightarrow> (string \<times> schema) list" where
  "schema_k8sio_api_core_v1_PodStatus_properties1 ref = [
     (''phase'', enum [JStr ''Failed'', JStr ''Pending'', JStr ''Running'', JStr ''Succeeded'', JStr
          ''Unknown''] str),
     (''conditions'', extended [(''x-kubernetes-list-map-keys'', JList [(JStr ''type'')]),
          (''x-kubernetes-list-type'', JStr ''map''), (''x-kubernetes-patch-merge-key'', JStr
            ''type''), (''x-kubernetes-patch-strategy'', JStr ''merge'')] (array (defaults (JMap [])
              (refers (ref (core_v1 ''PodCondition'')))))),
     (''message'', str),
     (''reason'', str),
     (''nominatedNodeName'', str),
     (''hostIP'', str),
     (''hostIPs'', extended [(''x-kubernetes-list-type'', JStr ''atomic''),
          (''x-kubernetes-patch-merge-key'', JStr ''ip''), (''x-kubernetes-patch-strategy'', JStr
            ''merge'')] (array (defaults (JMap []) (refers (ref (core_v1 ''HostIP'')))))),
     (''podIP'', str)]"

definition schema_k8sio_api_core_v1_PodStatus_properties2 :: "(string \<Rightarrow> string) \<Rightarrow> (string \<times> schema) list" where
  "schema_k8sio_api_core_v1_PodStatus_properties2 ref = [
     (''podIPs'', extended [(''x-kubernetes-list-map-keys'', JList [(JStr ''ip'')]),
          (''x-kubernetes-list-type'', JStr ''map''), (''x-kubernetes-patch-merge-key'', JStr ''ip''),
            (''x-kubernetes-patch-strategy'', JStr ''merge'')] (array (defaults (JMap []) (refers (ref
              (core_v1 ''PodIP'')))))),
     (''startTime'', refers (ref (meta_v1 ''Time''))),
     (''initContainerStatuses'', extended [(''x-kubernetes-list-type'', JStr ''atomic'')] (array
          (defaults (JMap []) (refers (ref (core_v1 ''ContainerStatus'')))))),
     (''containerStatuses'', extended [(''x-kubernetes-list-type'', JStr ''atomic'')] (array (defaults
          (JMap []) (refers (ref (core_v1 ''ContainerStatus'')))))),
     (''qosClass'', enum [JStr ''BestEffort'', JStr ''Burstable'', JStr ''Guaranteed''] str),
     (''ephemeralContainerStatuses'', extended [(''x-kubernetes-list-type'', JStr ''atomic'')] (array
          (defaults (JMap []) (refers (ref (core_v1 ''ContainerStatus'')))))),
     (''resize'', str)]"

definition schema_k8sio_api_core_v1_PodStatus_properties3 :: "(string \<Rightarrow> string) \<Rightarrow> (string \<times> schema) list" where
  "schema_k8sio_api_core_v1_PodStatus_properties3 ref = [
     (''resourceClaimStatuses'', extended [(''x-kubernetes-list-map-keys'', JList [(JStr ''name'')]),
          (''x-kubernetes-list-type'', JStr ''map''), (''x-kubernetes-patch-merge-key'', JStr
            ''name''), (''x-kubernetes-patch-strategy'', JStr ''merge,retainKeys'')] (array (defaults
              (JMap []) (refers (ref (core_v1 ''PodResourceClaimStatus''))))))]"

definition schema_k8sio_api_core_v1_PodStatus :: "(string \<Rightarrow> string) \<Rightarrow> OpenAPIDefinition" where
  "schema_k8sio_api_core_v1_PodStatus ref =
     openapi
       (object (schema_k8sio_api_core_v1_PodStatus_properties1 ref @
          schema_k8sio_api_core_v1_PodStatus_properties2 ref @
          schema_k8sio_api_core_v1_PodStatus_properties3 ref)
          [])
       [core_v1 ''ContainerStatus'', core_v1 ''HostIP'', core_v1 ''PodCondition'', core_v1 ''PodIP'',
          core_v1 ''PodResourceClaimStatus'', meta_v1 ''Time'']"

definition schema_k8sio_api_core_v1_PodStatusResult :: "(string \<Rightarrow> string) \<Rightarrow> OpenAPIDefinition" where
  "schema_k8sio_api_core_v1_PodStatusResult ref =
     openapi
       (object [
          (''kind'', str),
          (''apiVersion'', str),
          (''metadata'', defaults (JMap []) (refers (ref (meta_v1 ''ObjectMeta'')))),
          (''status'', defaults (JMap []) (refers (ref (core_v1 ''PodStatus''))))]
        [])
       [core_v1 ''PodStatus'', meta_v1 ''ObjectMeta'']"

definition schema_k8sio_api_core_v1_PodTemplate :: "(string \<Rightarrow> string) \<Rightarrow> OpenAPIDefinition" where
  "schema_k8sio_api_core_v1_PodTemplate ref =
     openapi
       (object [
          (''kind'', str),
          (''apiVersion'', str),
          (''metadata'', defaults (JMap []) (refers (ref (meta_v1 ''ObjectMeta'')))),
          (''template'', defaults (JMap []) (refers (ref (core_v1 ''PodTemplateSpec''))))]
        [])
       [core_v1 ''PodTemplateSpec'', meta_v1 ''ObjectMeta'']"

definition schema_k8sio_api_core_v1_PodTemplateList :: "(string \<Rightarrow> string) \<Rightarrow> OpenAPIDefinition" where
  "schema_k8sio_api_core_v1_PodTemplateList ref =
     openapi
       (object [
          (''kind'', str),
          (''apiVersion'', str),
          (''metadata'', defaults (JMap []) (refers (ref (meta_v1 ''ListMeta'')))),
          (''items'', array (defaults (JMap []) (refers (ref (core_v1 ''PodTemplate'')))))]
        [''items''])
       [core_v1 ''PodTemplate'', meta_v1 ''ListMeta'']"

definition schema_k8sio_api_core_v1_PodTemplateSpec :: "(string \<Rightarrow> string) \<Rightarrow> OpenAPIDefinition" where
  "schema_k8sio_api_core_v1_PodTemplateSpec ref =
     openapi
       (object [
          (''metadata'', defaults (JMap []) (refers (ref (meta_v1 ''ObjectMeta'')))),
          (''spec'', defaults (JMap []) (refers (ref (core_v1 ''PodSpec''))))]
        [])
       [core_v1 ''PodSpec'', meta_v1 ''ObjectMeta'']"

definition schema_k8sio_api_core_v1_PortStatus :: "(string \<Rightarrow> string) \<Rightarrow> OpenAPIDefinition" where
  "schema_k8sio_api_core_v1_PortStatus ref =
     openapi
       (object [
          (''port'', defaults (JInt 0) int32),
          (''protocol'', enum [JStr ''SCTP'', JStr ''TCP'', JStr ''UDP''] (defaults (JStr []) str)),
          (''error'', str)]
        [''port'', ''protocol''])
       []"

definition schema_k8sio_api_core_v1_PortworxVolumeSource :: "(string \<Rightarrow> string) \<Rightarrow> OpenAPIDefinition" where
  "schema_k8sio_api_core_v1_PortworxVolumeSource ref =
     openapi
       (object [
          (''volumeID'', defaults (JStr []) str),
          (''fsType'', str),
          (''readOnly'', bool)]
        [''volumeID''])
       []"

definition schema_k8sio_api_core_v1_PreferAvoidPodsEntry :: "(string \<Rightarrow> string) \<Rightarrow> OpenAPIDefinition" where
  "schema_k8sio_api_core_v1_PreferAvoidPodsEntry ref =
     openapi
       (object [
          (''podSignature'', defaults (JMap []) (refers (ref (core_v1 ''PodSignature'')))),
          (''evictionTime'', refers (ref (meta_v1 ''Time''))),
          (''reason'', str),
          (''message'', str)]
        [''podSignature''])
       [core_v1 ''PodSignature'', meta_v1 ''Time'']"

definition schema_k8sio_api_core_v1_PreferredSchedulingTerm :: "(string \<Rightarrow> string) \<Rightarrow> OpenAPIDefinition" where
  "schema_k8sio_api_core_v1_PreferredSchedulingTerm ref =
     openapi
       (object [
          (''weight'', defaults (JInt 0) int32),
          (''preference'', defaults (JMap []) (refers (ref (core_v1 ''NodeSelectorTerm''))))]
        [''weight'', ''preference''])
       [core_v1 ''NodeSelectorTerm'']"

definition schema_k8sio_api_core_v1_Probe :: "(string \<Rightarrow> string) \<Rightarrow> OpenAPIDefinition" where
  "schema_k8sio_api_core_v1_Probe ref =
     openapi
       (object [
          (''exec'', refers (ref (core_v1 ''ExecAction''))),
          (''httpGet'', refers (ref (core_v1 ''HTTPGetAction''))),
          (''tcpSocket'', refers (ref (core_v1 ''TCPSocketAction''))),
          (''grpc'', refers (ref (core_v1 ''GRPCAction''))),
          (''initialDelaySeconds'', int32),
          (''timeoutSeconds'', int32),
          (''periodSeconds'', int32),
          (''successThreshold'', int32),
          (''failureThreshold'', int32),
          (''terminationGracePeriodSeconds'', int64)]
        [])
       [core_v1 ''ExecAction'', core_v1 ''GRPCAction'', core_v1 ''HTTPGetAction'', core_v1
          ''TCPSocketAction'']"

definition schema_k8sio_api_core_v1_ProbeHandler :: "(string \<Rightarrow> string) \<Rightarrow> OpenAPIDefinition" where
  "schema_k8sio_api_core_v1_ProbeHandler ref =
     openapi
       (object [
          (''exec'', refers (ref (core_v1 ''ExecAction''))),
          (''httpGet'', refers (ref (core_v1 ''HTTPGetAction''))),
          (''tcpSocket'', refers (ref (core_v1 ''TCPSocketAction''))),
          (''grpc'', refers (ref (core_v1 ''GRPCAction'')))]
        [])
       [core_v1 ''ExecAction'', core_v1 ''GRPCAction'', core_v1 ''HTTPGetAction'', core_v1
          ''TCPSocketAction'']"

definition schema_k8sio_api_core_v1_ProjectedVolumeSource :: "(string \<Rightarrow> string) \<Rightarrow> OpenAPIDefinition" where
  "schema_k8sio_api_core_v1_ProjectedVolumeSource ref =
     openapi
       (object [
          (''sources'', extended [(''x-kubernetes-list-type'', JStr ''atomic'')] (array (defaults (JMap
            []) (refers (ref (core_v1 ''VolumeProjection'')))))),
          (''defaultMode'', int32)]
        [])
       [core_v1 ''VolumeProjection'']"

definition schema_k8sio_api_core_v1_QuobyteVolumeSource :: "(string \<Rightarrow> string) \<Rightarrow> OpenAPIDefinition" where
  "schema_k8sio_api_core_v1_QuobyteVolumeSource ref =
     openapi
       (object [
          (''registry'', defaults (JStr []) str),
          (''volume'', defaults (JStr []) str),
          (''readOnly'', bool),
          (''user'', str),
          (''group'', str),
          (''tenant'', str)]
        [''registry'', ''volume''])
       []"

definition schema_k8sio_api_core_v1_RBDPersistentVolumeSource :: "(string \<Rightarrow> string) \<Rightarrow> OpenAPIDefinition" where
  "schema_k8sio_api_core_v1_RBDPersistentVolumeSource ref =
     openapi
       (object [
          (''monitors'', extended [(''x-kubernetes-list-type'', JStr ''atomic'')] (array (defaults
            (JStr []) str))),
          (''image'', defaults (JStr []) str),
          (''fsType'', str),
          (''pool'', defaults (JStr ''rbd'') str),
          (''user'', defaults (JStr ''admin'') str),
          (''keyring'', defaults (JStr ''/etc/ceph/keyring'') str),
          (''secretRef'', refers (ref (core_v1 ''SecretReference''))),
          (''readOnly'', bool)]
        [''monitors'', ''image''])
       [core_v1 ''SecretReference'']"

definition schema_k8sio_api_core_v1_RBDVolumeSource :: "(string \<Rightarrow> string) \<Rightarrow> OpenAPIDefinition" where
  "schema_k8sio_api_core_v1_RBDVolumeSource ref =
     openapi
       (object [
          (''monitors'', extended [(''x-kubernetes-list-type'', JStr ''atomic'')] (array (defaults
            (JStr []) str))),
          (''image'', defaults (JStr []) str),
          (''fsType'', str),
          (''pool'', defaults (JStr ''rbd'') str),
          (''user'', defaults (JStr ''admin'') str),
          (''keyring'', defaults (JStr ''/etc/ceph/keyring'') str),
          (''secretRef'', refers (ref (core_v1 ''LocalObjectReference''))),
          (''readOnly'', bool)]
        [''monitors'', ''image''])
       [core_v1 ''LocalObjectReference'']"

definition schema_k8sio_api_core_v1_RangeAllocation :: "(string \<Rightarrow> string) \<Rightarrow> OpenAPIDefinition" where
  "schema_k8sio_api_core_v1_RangeAllocation ref =
     openapi
       (object [
          (''kind'', str),
          (''apiVersion'', str),
          (''metadata'', defaults (JMap []) (refers (ref (meta_v1 ''ObjectMeta'')))),
          (''range'', defaults (JStr []) str),
          (''data'', bytes)]
        [''range'', ''data''])
       [meta_v1 ''ObjectMeta'']"

definition schema_k8sio_api_core_v1_ReplicationController :: "(string \<Rightarrow> string) \<Rightarrow> OpenAPIDefinition" where
  "schema_k8sio_api_core_v1_ReplicationController ref =
     openapi
       (object [
          (''kind'', str),
          (''apiVersion'', str),
          (''metadata'', defaults (JMap []) (refers (ref (meta_v1 ''ObjectMeta'')))),
          (''spec'', defaults (JMap []) (refers (ref (core_v1 ''ReplicationControllerSpec'')))),
          (''status'', defaults (JMap []) (refers (ref (core_v1 ''ReplicationControllerStatus''))))]
        [])
       [core_v1 ''ReplicationControllerSpec'', core_v1 ''ReplicationControllerStatus'', meta_v1
          ''ObjectMeta'']"

definition schema_k8sio_api_core_v1_ReplicationControllerCondition :: "(string \<Rightarrow> string) \<Rightarrow> OpenAPIDefinition" where
  "schema_k8sio_api_core_v1_ReplicationControllerCondition ref =
     openapi
       (object [
          (''type'', defaults (JStr []) str),
          (''status'', defaults (JStr []) str),
          (''lastTransitionTime'', refers (ref (meta_v1 ''Time''))),
          (''reason'', str),
          (''message'', str)]
        [''type'', ''status''])
       [meta_v1 ''Time'']"

definition schema_k8sio_api_core_v1_ReplicationControllerList :: "(string \<Rightarrow> string) \<Rightarrow> OpenAPIDefinition" where
  "schema_k8sio_api_core_v1_ReplicationControllerList ref =
     openapi
       (object [
          (''kind'', str),
          (''apiVersion'', str),
          (''metadata'', defaults (JMap []) (refers (ref (meta_v1 ''ListMeta'')))),
          (''items'', array (defaults (JMap []) (refers (ref (core_v1 ''ReplicationController'')))))]
        [''items''])
       [core_v1 ''ReplicationController'', meta_v1 ''ListMeta'']"

definition schema_k8sio_api_core_v1_ReplicationControllerSpec :: "(string \<Rightarrow> string) \<Rightarrow> OpenAPIDefinition" where
  "schema_k8sio_api_core_v1_ReplicationControllerSpec ref =
     openapi
       (object [
          (''replicas'', int32),
          (''minReadySeconds'', int32),
          (''selector'', extended [(''x-kubernetes-map-type'', JStr ''atomic'')] (additional (defaults
            (JStr []) str))),
          (''template'', refers (ref (core_v1 ''PodTemplateSpec'')))]
        [])
       [core_v1 ''PodTemplateSpec'']"

definition schema_k8sio_api_core_v1_ReplicationControllerStatus :: "(string \<Rightarrow> string) \<Rightarrow> OpenAPIDefinition" where
  "schema_k8sio_api_core_v1_ReplicationControllerStatus ref =
     openapi
       (object [
          (''replicas'', defaults (JInt 0) int32),
          (''fullyLabeledReplicas'', int32),
          (''readyReplicas'', int32),
          (''availableReplicas'', int32),
          (''observedGeneration'', int64),
          (''conditions'', extended [(''x-kubernetes-list-map-keys'', JList [(JStr ''type'')]),
            (''x-kubernetes-list-type'', JStr ''map''), (''x-kubernetes-patch-merge-key'', JStr
              ''type''), (''x-kubernetes-patch-strategy'', JStr ''merge'')] (array (defaults (JMap [])
                (refers (ref (core_v1 ''ReplicationControllerCondition''))))))]
        [''replicas''])
       [core_v1 ''ReplicationControllerCondition'']"

definition schema_k8sio_api_core_v1_ResourceClaim :: "(string \<Rightarrow> string) \<Rightarrow> OpenAPIDefinition" where
  "schema_k8sio_api_core_v1_ResourceClaim ref =
     openapi
       (object [
          (''name'', defaults (JStr []) str),
          (''request'', str)]
        [''name''])
       []"

definition schema_k8sio_api_core_v1_ResourceFieldSelector :: "(string \<Rightarrow> string) \<Rightarrow> OpenAPIDefinition" where
  "schema_k8sio_api_core_v1_ResourceFieldSelector ref =
     openapi
       (extended [(''x-kubernetes-map-type'', JStr ''atomic'')] (object [
          (''containerName'', str),
          (''resource'', defaults (JStr []) str),
          (''divisor'', refers (ref (resource_pkg ''Quantity'')))]
        [''resource'']))
       [resource_pkg ''Quantity'']"

subsection \<open>They are sound\<close>

lemmas core3_defs =
  schema_k8sio_api_core_v1_PersistentVolume_def
  schema_k8sio_api_core_v1_PersistentVolumeClaim_def
  schema_k8sio_api_core_v1_PersistentVolumeClaimCondition_def
  schema_k8sio_api_core_v1_PersistentVolumeClaimList_def
  schema_k8sio_api_core_v1_PersistentVolumeClaimSpec_def
  schema_k8sio_api_core_v1_PersistentVolumeClaimStatus_def
  schema_k8sio_api_core_v1_PersistentVolumeClaimTemplate_def
  schema_k8sio_api_core_v1_PersistentVolumeClaimVolumeSource_def
  schema_k8sio_api_core_v1_PersistentVolumeList_def
  schema_k8sio_api_core_v1_PersistentVolumeSource_def
  schema_k8sio_api_core_v1_PersistentVolumeSpec_def
  schema_k8sio_api_core_v1_PersistentVolumeStatus_def
  schema_k8sio_api_core_v1_PhotonPersistentDiskVolumeSource_def
  schema_k8sio_api_core_v1_Pod_def
  schema_k8sio_api_core_v1_PodAffinity_def
  schema_k8sio_api_core_v1_PodAffinityTerm_def
  schema_k8sio_api_core_v1_PodAntiAffinity_def
  schema_k8sio_api_core_v1_PodAttachOptions_def
  schema_k8sio_api_core_v1_PodCondition_def
  schema_k8sio_api_core_v1_PodDNSConfig_def
  schema_k8sio_api_core_v1_PodDNSConfigOption_def
  schema_k8sio_api_core_v1_PodExecOptions_def
  schema_k8sio_api_core_v1_PodIP_def
  schema_k8sio_api_core_v1_PodList_def
  schema_k8sio_api_core_v1_PodLogOptions_def
  schema_k8sio_api_core_v1_PodOS_def
  schema_k8sio_api_core_v1_PodPortForwardOptions_def
  schema_k8sio_api_core_v1_PodProxyOptions_def
  schema_k8sio_api_core_v1_PodReadinessGate_def
  schema_k8sio_api_core_v1_PodResourceClaim_def
  schema_k8sio_api_core_v1_PodResourceClaimStatus_def
  schema_k8sio_api_core_v1_PodSchedulingGate_def
  schema_k8sio_api_core_v1_PodSecurityContext_def
  schema_k8sio_api_core_v1_PodSignature_def
  schema_k8sio_api_core_v1_PodSpec_def
  schema_k8sio_api_core_v1_PodStatus_def
  schema_k8sio_api_core_v1_PodStatusResult_def
  schema_k8sio_api_core_v1_PodTemplate_def
  schema_k8sio_api_core_v1_PodTemplateList_def
  schema_k8sio_api_core_v1_PodTemplateSpec_def
  schema_k8sio_api_core_v1_PortStatus_def
  schema_k8sio_api_core_v1_PortworxVolumeSource_def
  schema_k8sio_api_core_v1_PreferAvoidPodsEntry_def
  schema_k8sio_api_core_v1_PreferredSchedulingTerm_def
  schema_k8sio_api_core_v1_Probe_def
  schema_k8sio_api_core_v1_ProbeHandler_def
  schema_k8sio_api_core_v1_ProjectedVolumeSource_def
  schema_k8sio_api_core_v1_QuobyteVolumeSource_def
  schema_k8sio_api_core_v1_RBDPersistentVolumeSource_def
  schema_k8sio_api_core_v1_RBDVolumeSource_def
  schema_k8sio_api_core_v1_RangeAllocation_def
  schema_k8sio_api_core_v1_ReplicationController_def
  schema_k8sio_api_core_v1_ReplicationControllerCondition_def
  schema_k8sio_api_core_v1_ReplicationControllerList_def
  schema_k8sio_api_core_v1_ReplicationControllerSpec_def
  schema_k8sio_api_core_v1_ReplicationControllerStatus_def
  schema_k8sio_api_core_v1_ResourceClaim_def
  schema_k8sio_api_core_v1_ResourceFieldSelector_def

lemmas core3_parts =
  schema_k8sio_api_core_v1_PersistentVolumeSpec_properties1_def
  schema_k8sio_api_core_v1_PersistentVolumeSpec_properties2_def
  schema_k8sio_api_core_v1_PersistentVolumeSpec_properties3_def
  schema_k8sio_api_core_v1_PodSpec_properties1_def
  schema_k8sio_api_core_v1_PodSpec_properties2_def
  schema_k8sio_api_core_v1_PodSpec_properties3_def
  schema_k8sio_api_core_v1_PodSpec_properties4_def
  schema_k8sio_api_core_v1_PodSpec_properties5_def
  schema_k8sio_api_core_v1_PodStatus_properties1_def
  schema_k8sio_api_core_v1_PodStatus_properties2_def
  schema_k8sio_api_core_v1_PodStatus_properties3_def

lemma core3_ok1:
  "def_ok ref (schema_k8sio_api_core_v1_PersistentVolume ref)"
  "def_ok ref (schema_k8sio_api_core_v1_PersistentVolumeClaim ref)"
  "def_ok ref (schema_k8sio_api_core_v1_PersistentVolumeClaimCondition ref)"
  "def_ok ref (schema_k8sio_api_core_v1_PersistentVolumeClaimList ref)"
  "def_ok ref (schema_k8sio_api_core_v1_PersistentVolumeClaimSpec ref)"
  by (auto simp: def_ok_def core3_defs core3_parts)

lemma core3_ok2:
  "def_ok ref (schema_k8sio_api_core_v1_PersistentVolumeClaimStatus ref)"
  "def_ok ref (schema_k8sio_api_core_v1_PersistentVolumeClaimTemplate ref)"
  "def_ok ref (schema_k8sio_api_core_v1_PersistentVolumeClaimVolumeSource ref)"
  "def_ok ref (schema_k8sio_api_core_v1_PersistentVolumeList ref)"
  by (auto simp: def_ok_def core3_defs core3_parts)

lemma core3_ok3:
  "def_ok ref (schema_k8sio_api_core_v1_PersistentVolumeSource ref)"
  by (auto simp: def_ok_def core3_defs core3_parts)

lemma core3_ok4:
  "def_ok ref (schema_k8sio_api_core_v1_PersistentVolumeSpec ref)"
  "def_ok ref (schema_k8sio_api_core_v1_PersistentVolumeStatus ref)"
  "def_ok ref (schema_k8sio_api_core_v1_PhotonPersistentDiskVolumeSource ref)"
  by (auto simp: def_ok_def core3_defs core3_parts)

lemma core3_ok5:
  "def_ok ref (schema_k8sio_api_core_v1_Pod ref)"
  "def_ok ref (schema_k8sio_api_core_v1_PodAffinity ref)"
  "def_ok ref (schema_k8sio_api_core_v1_PodAffinityTerm ref)"
  "def_ok ref (schema_k8sio_api_core_v1_PodAntiAffinity ref)"
  "def_ok ref (schema_k8sio_api_core_v1_PodAttachOptions ref)"
  by (auto simp: def_ok_def core3_defs core3_parts)

lemma core3_ok6:
  "def_ok ref (schema_k8sio_api_core_v1_PodCondition ref)"
  "def_ok ref (schema_k8sio_api_core_v1_PodDNSConfig ref)"
  "def_ok ref (schema_k8sio_api_core_v1_PodDNSConfigOption ref)"
  "def_ok ref (schema_k8sio_api_core_v1_PodExecOptions ref)"
  "def_ok ref (schema_k8sio_api_core_v1_PodIP ref)"
  "def_ok ref (schema_k8sio_api_core_v1_PodList ref)"
  by (auto simp: def_ok_def core3_defs core3_parts)

lemma core3_ok7:
  "def_ok ref (schema_k8sio_api_core_v1_PodLogOptions ref)"
  "def_ok ref (schema_k8sio_api_core_v1_PodOS ref)"
  "def_ok ref (schema_k8sio_api_core_v1_PodPortForwardOptions ref)"
  "def_ok ref (schema_k8sio_api_core_v1_PodProxyOptions ref)"
  "def_ok ref (schema_k8sio_api_core_v1_PodReadinessGate ref)"
  "def_ok ref (schema_k8sio_api_core_v1_PodResourceClaim ref)"
  "def_ok ref (schema_k8sio_api_core_v1_PodResourceClaimStatus ref)"
  "def_ok ref (schema_k8sio_api_core_v1_PodSchedulingGate ref)"
  by (auto simp: def_ok_def core3_defs core3_parts)

lemma core3_ok8:
  "def_ok ref (schema_k8sio_api_core_v1_PodSecurityContext ref)"
  "def_ok ref (schema_k8sio_api_core_v1_PodSignature ref)"
  by (auto simp: def_ok_def core3_defs core3_parts)

lemma core3_ok9:
  "def_ok ref (schema_k8sio_api_core_v1_PodSpec ref)"
  by (auto simp: def_ok_def core3_defs core3_parts)

lemma core3_ok10:
  "def_ok ref (schema_k8sio_api_core_v1_PodStatus ref)"
  "def_ok ref (schema_k8sio_api_core_v1_PodStatusResult ref)"
  "def_ok ref (schema_k8sio_api_core_v1_PodTemplate ref)"
  by (auto simp: def_ok_def core3_defs core3_parts)

lemma core3_ok11:
  "def_ok ref (schema_k8sio_api_core_v1_PodTemplateList ref)"
  "def_ok ref (schema_k8sio_api_core_v1_PodTemplateSpec ref)"
  "def_ok ref (schema_k8sio_api_core_v1_PortStatus ref)"
  "def_ok ref (schema_k8sio_api_core_v1_PortworxVolumeSource ref)"
  "def_ok ref (schema_k8sio_api_core_v1_PreferAvoidPodsEntry ref)"
  "def_ok ref (schema_k8sio_api_core_v1_PreferredSchedulingTerm ref)"
  "def_ok ref (schema_k8sio_api_core_v1_Probe ref)"
  by (auto simp: def_ok_def core3_defs core3_parts)

lemma core3_ok12:
  "def_ok ref (schema_k8sio_api_core_v1_ProbeHandler ref)"
  "def_ok ref (schema_k8sio_api_core_v1_ProjectedVolumeSource ref)"
  "def_ok ref (schema_k8sio_api_core_v1_QuobyteVolumeSource ref)"
  "def_ok ref (schema_k8sio_api_core_v1_RBDPersistentVolumeSource ref)"
  "def_ok ref (schema_k8sio_api_core_v1_RBDVolumeSource ref)"
  by (auto simp: def_ok_def core3_defs core3_parts)

lemma core3_ok13:
  "def_ok ref (schema_k8sio_api_core_v1_RangeAllocation ref)"
  "def_ok ref (schema_k8sio_api_core_v1_ReplicationController ref)"
  "def_ok ref (schema_k8sio_api_core_v1_ReplicationControllerCondition ref)"
  "def_ok ref (schema_k8sio_api_core_v1_ReplicationControllerList ref)"
  "def_ok ref (schema_k8sio_api_core_v1_ReplicationControllerSpec ref)"
  "def_ok ref (schema_k8sio_api_core_v1_ReplicationControllerStatus ref)"
  by (auto simp: def_ok_def core3_defs core3_parts)

lemma core3_ok14:
  "def_ok ref (schema_k8sio_api_core_v1_ResourceClaim ref)"
  "def_ok ref (schema_k8sio_api_core_v1_ResourceFieldSelector ref)"
  by (auto simp: def_ok_def core3_defs core3_parts)

lemmas core3_ok = core3_ok1 core3_ok2 core3_ok3 core3_ok4 core3_ok5 core3_ok6 core3_ok7 core3_ok8
     core3_ok9 core3_ok10 core3_ok11 core3_ok12 core3_ok13 core3_ok14

text \<open>The dependencies they declare.\<close>

lemmas core3_deps = core3_defs [THEN arg_cong [where f = Dependencies], unfolded openapi_simps]

end
