(* ===== verification/OpenApiCore4.thy ===== *)
theory OpenApiCore4
  imports OpenApi
begin

section \<open>Schemas of the core types, part 4\<close>

text \<open>
  The generated functions for \<^verbatim>\<open>k8s.io/api/core/v1\<close>, from \<^verbatim>\<open>ResourceHealth\<close> to \<^verbatim>\<open>WindowsSecurityContextOptions\<close>.
\<close>

definition schema_k8sio_api_core_v1_ResourceHealth :: "(string \<Rightarrow> string) \<Rightarrow> OpenAPIDefinition" where
  "schema_k8sio_api_core_v1_ResourceHealth ref =
     openapi
       (object [
          (''resourceID'', defaults (JStr []) str),
          (''health'', str)]
        [''resourceID''])
       []"

definition schema_k8sio_api_core_v1_ResourceQuota :: "(string \<Rightarrow> string) \<Rightarrow> OpenAPIDefinition" where
  "schema_k8sio_api_core_v1_ResourceQuota ref =
     openapi
       (object [
          (''kind'', str),
          (''apiVersion'', str),
          (''metadata'', defaults (JMap []) (refers (ref (meta_v1 ''ObjectMeta'')))),
          (''spec'', defaults (JMap []) (refers (ref (core_v1 ''ResourceQuotaSpec'')))),
          (''status'', defaults (JMap []) (refers (ref (core_v1 ''ResourceQuotaStatus''))))]
        [])
       [core_v1 ''ResourceQuotaSpec'', core_v1 ''ResourceQuotaStatus'', meta_v1 ''ObjectMeta'']"

definition schema_k8sio_api_core_v1_ResourceQuotaList :: "(string \<Rightarrow> string) \<Rightarrow> OpenAPIDefinition" where
  "schema_k8sio_api_core_v1_ResourceQuotaList ref =
     openapi
       (object [
          (''kind'', str),
          (''apiVersion'', str),
          (''metadata'', defaults (JMap []) (refers (ref (meta_v1 ''ListMeta'')))),
          (''items'', array (defaults (JMap []) (refers (ref (core_v1 ''ResourceQuota'')))))]
        [''items''])
       [core_v1 ''ResourceQuota'', meta_v1 ''ListMeta'']"

definition schema_k8sio_api_core_v1_ResourceQuotaSpec :: "(string \<Rightarrow> string) \<Rightarrow> OpenAPIDefinition" where
  "schema_k8sio_api_core_v1_ResourceQuotaSpec ref =
     openapi
       (object [
          (''hard'', additional (refers (ref (resource_pkg ''Quantity'')))),
          (''scopes'', extended [(''x-kubernetes-list-type'', JStr ''atomic'')] (array (defaults (JStr
            []) str))),
          (''scopeSelector'', refers (ref (core_v1 ''ScopeSelector'')))]
        [])
       [core_v1 ''ScopeSelector'', resource_pkg ''Quantity'']"

definition schema_k8sio_api_core_v1_ResourceQuotaStatus :: "(string \<Rightarrow> string) \<Rightarrow> OpenAPIDefinition" where
  "schema_k8sio_api_core_v1_ResourceQuotaStatus ref =
     openapi
       (object [
          (''hard'', additional (refers (ref (resource_pkg ''Quantity'')))),
          (''used'', additional (refers (ref (resource_pkg ''Quantity''))))]
        [])
       [resource_pkg ''Quantity'']"

definition schema_k8sio_api_core_v1_ResourceRequirements :: "(string \<Rightarrow> string) \<Rightarrow> OpenAPIDefinition" where
  "schema_k8sio_api_core_v1_ResourceRequirements ref =
     openapi
       (object [
          (''limits'', additional (refers (ref (resource_pkg ''Quantity'')))),
          (''requests'', additional (refers (ref (resource_pkg ''Quantity'')))),
          (''claims'', extended [(''x-kubernetes-list-map-keys'', JList [(JStr ''name'')]),
            (''x-kubernetes-list-type'', JStr ''map'')] (array (defaults (JMap []) (refers (ref
              (core_v1 ''ResourceClaim''))))))]
        [])
       [core_v1 ''ResourceClaim'', resource_pkg ''Quantity'']"

definition schema_k8sio_api_core_v1_ResourceStatus :: "(string \<Rightarrow> string) \<Rightarrow> OpenAPIDefinition" where
  "schema_k8sio_api_core_v1_ResourceStatus ref =
     openapi
       (object [
          (''name'', defaults (JStr []) str),
          (''resources'', extended [(''x-kubernetes-list-map-keys'', JList [(JStr ''resourceID'')]),
            (''x-kubernetes-list-type'', JStr ''map'')] (array (defaults (JMap []) (refers (ref
              (core_v1 ''ResourceHealth''))))))]
        [''name''])
       [core_v1 ''ResourceHealth'']"

definition schema_k8sio_api_core_v1_SELinuxOptions :: "(string \<Rightarrow> string) \<Rightarrow> OpenAPIDefinition" where
  "schema_k8sio_api_core_v1_SELinuxOptions ref =
     openapi
       (object [
          (''user'', str),
          (''role'', str),
          (''type'', str),
          (''level'', str)]
        [])
       []"

definition schema_k8sio_api_core_v1_ScaleIOPersistentVolumeSource :: "(string \<Rightarrow> string) \<Rightarrow> OpenAPIDefinition" where
  "schema_k8sio_api_core_v1_ScaleIOPersistentVolumeSource ref =
     openapi
       (object [
          (''gateway'', defaults (JStr []) str),
          (''system'', defaults (JStr []) str),
          (''secretRef'', refers (ref (core_v1 ''SecretReference''))),
          (''sslEnabled'', bool),
          (''protectionDomain'', str),
          (''storagePool'', str),
          (''storageMode'', defaults (JStr ''ThinProvisioned'') str),
          (''volumeName'', str),
          (''fsType'', defaults (JStr ''xfs'') str),
          (''readOnly'', bool)]
        [''gateway'', ''system'', ''secretRef''])
       [core_v1 ''SecretReference'']"

definition schema_k8sio_api_core_v1_ScaleIOVolumeSource :: "(string \<Rightarrow> string) \<Rightarrow> OpenAPIDefinition" where
  "schema_k8sio_api_core_v1_ScaleIOVolumeSource ref =
     openapi
       (object [
          (''gateway'', defaults (JStr []) str),
          (''system'', defaults (JStr []) str),
          (''secretRef'', refers (ref (core_v1 ''LocalObjectReference''))),
          (''sslEnabled'', bool),
          (''protectionDomain'', str),
          (''storagePool'', str),
          (''storageMode'', defaults (JStr ''ThinProvisioned'') str),
          (''volumeName'', str),
          (''fsType'', defaults (JStr ''xfs'') str),
          (''readOnly'', bool)]
        [''gateway'', ''system'', ''secretRef''])
       [core_v1 ''LocalObjectReference'']"

definition schema_k8sio_api_core_v1_ScopeSelector :: "(string \<Rightarrow> string) \<Rightarrow> OpenAPIDefinition" where
  "schema_k8sio_api_core_v1_ScopeSelector ref =
     openapi
       (extended [(''x-kubernetes-map-type'', JStr ''atomic'')] (object [
          (''matchExpressions'', extended [(''x-kubernetes-list-type'', JStr ''atomic'')] (array
            (defaults (JMap []) (refers (ref (core_v1 ''ScopedResourceSelectorRequirement''))))))]
        []))
       [core_v1 ''ScopedResourceSelectorRequirement'']"

definition schema_k8sio_api_core_v1_ScopedResourceSelectorRequirement :: "(string \<Rightarrow> string) \<Rightarrow> OpenAPIDefinition" where
  "schema_k8sio_api_core_v1_ScopedResourceSelectorRequirement ref =
     openapi
       (object [
          (''scopeName'', enum [JStr ''BestEffort'', JStr ''CrossNamespacePodAffinity'', JStr
            ''NotBestEffort'', JStr ''NotTerminating'', JStr ''PriorityClass'', JStr ''Terminating'']
              (defaults (JStr []) str)),
          (''operator'', enum [JStr ''DoesNotExist'', JStr ''Exists'', JStr ''In'', JStr ''NotIn'']
            (defaults (JStr []) str)),
          (''values'', extended [(''x-kubernetes-list-type'', JStr ''atomic'')] (array (defaults (JStr
            []) str)))]
        [''scopeName'', ''operator''])
       []"

definition schema_k8sio_api_core_v1_SeccompProfile :: "(string \<Rightarrow> string) \<Rightarrow> OpenAPIDefinition" where
  "schema_k8sio_api_core_v1_SeccompProfile ref =
     openapi
       (extended [(''x-kubernetes-unions'', JList [(JMap [(''discriminator'', (JStr ''type'')),
          (''fields-to-discriminateBy'', (JMap [(''localhostProfile'', (JStr
            ''LocalhostProfile''))]))])])] (object [
          (''type'', enum [JStr ''Localhost'', JStr ''RuntimeDefault'', JStr ''Unconfined''] (defaults
            (JStr []) str)),
          (''localhostProfile'', str)]
        [''type'']))
       []"

definition schema_k8sio_api_core_v1_Secret :: "(string \<Rightarrow> string) \<Rightarrow> OpenAPIDefinition" where
  "schema_k8sio_api_core_v1_Secret ref =
     openapi
       (object [
          (''kind'', str),
          (''apiVersion'', str),
          (''metadata'', defaults (JMap []) (refers (ref (meta_v1 ''ObjectMeta'')))),
          (''immutable'', bool),
          (''data'', additional bytes),
          (''stringData'', additional (defaults (JStr []) str)),
          (''type'', str)]
        [])
       [meta_v1 ''ObjectMeta'']"

definition schema_k8sio_api_core_v1_SecretEnvSource :: "(string \<Rightarrow> string) \<Rightarrow> OpenAPIDefinition" where
  "schema_k8sio_api_core_v1_SecretEnvSource ref =
     openapi
       (object [
          (''name'', defaults (JStr []) str),
          (''optional'', bool)]
        [])
       []"

definition schema_k8sio_api_core_v1_SecretKeySelector :: "(string \<Rightarrow> string) \<Rightarrow> OpenAPIDefinition" where
  "schema_k8sio_api_core_v1_SecretKeySelector ref =
     openapi
       (extended [(''x-kubernetes-map-type'', JStr ''atomic'')] (object [
          (''name'', defaults (JStr []) str),
          (''key'', defaults (JStr []) str),
          (''optional'', bool)]
        [''key'']))
       []"

definition schema_k8sio_api_core_v1_SecretList :: "(string \<Rightarrow> string) \<Rightarrow> OpenAPIDefinition" where
  "schema_k8sio_api_core_v1_SecretList ref =
     openapi
       (object [
          (''kind'', str),
          (''apiVersion'', str),
          (''metadata'', defaults (JMap []) (refers (ref (meta_v1 ''ListMeta'')))),
          (''items'', array (defaults (JMap []) (refers (ref (core_v1 ''Secret'')))))]
        [''items''])
       [core_v1 ''Secret'', meta_v1 ''ListMeta'']"

definition schema_k8sio_api_core_v1_SecretProjection :: "(string \<Rightarrow> string) \<Rightarrow> OpenAPIDefinition" where
  "schema_k8sio_api_core_v1_SecretProjection ref =
     openapi
       (object [
          (''name'', defaults (JStr []) str),
          (''items'', extended [(''x-kubernetes-list-type'', JStr ''atomic'')] (array (defaults (JMap
            []) (refers (ref (core_v1 ''KeyToPath'')))))),
          (''optional'', bool)]
        [])
       [core_v1 ''KeyToPath'']"

definition schema_k8sio_api_core_v1_SecretReference :: "(string \<Rightarrow> string) \<Rightarrow> OpenAPIDefinition" where
  "schema_k8sio_api_core_v1_SecretReference ref =
     openapi
       (extended [(''x-kubernetes-map-type'', JStr ''atomic'')] (object [
          (''name'', str),
          (''namespace'', str)]
        []))
       []"

definition schema_k8sio_api_core_v1_SecretVolumeSource :: "(string \<Rightarrow> string) \<Rightarrow> OpenAPIDefinition" where
  "schema_k8sio_api_core_v1_SecretVolumeSource ref =
     openapi
       (object [
          (''secretName'', str),
          (''items'', extended [(''x-kubernetes-list-type'', JStr ''atomic'')] (array (defaults (JMap
            []) (refers (ref (core_v1 ''KeyToPath'')))))),
          (''defaultMode'', int32),
          (''optional'', bool)]
        [])
       [core_v1 ''KeyToPath'']"

definition schema_k8sio_api_core_v1_SecurityContext :: "(string \<Rightarrow> string) \<Rightarrow> OpenAPIDefinition" where
  "schema_k8sio_api_core_v1_SecurityContext ref =
     openapi
       (object [
          (''capabilities'', refers (ref (core_v1 ''Capabilities''))),
          (''privileged'', bool),
          (''seLinuxOptions'', refers (ref (core_v1 ''SELinuxOptions''))),
          (''windowsOptions'', refers (ref (core_v1 ''WindowsSecurityContextOptions''))),
          (''runAsUser'', int64),
          (''runAsGroup'', int64),
          (''runAsNonRoot'', bool),
          (''readOnlyRootFilesystem'', bool),
          (''allowPrivilegeEscalation'', bool),
          (''procMount'', enum [JStr ''Default'', JStr ''Unmasked''] str),
          (''seccompProfile'', refers (ref (core_v1 ''SeccompProfile''))),
          (''appArmorProfile'', refers (ref (core_v1 ''AppArmorProfile'')))]
        [])
       [core_v1 ''AppArmorProfile'', core_v1 ''Capabilities'', core_v1 ''SELinuxOptions'', core_v1
          ''SeccompProfile'', core_v1 ''WindowsSecurityContextOptions'']"

definition schema_k8sio_api_core_v1_SerializedReference :: "(string \<Rightarrow> string) \<Rightarrow> OpenAPIDefinition" where
  "schema_k8sio_api_core_v1_SerializedReference ref =
     openapi
       (object [
          (''kind'', str),
          (''apiVersion'', str),
          (''reference'', defaults (JMap []) (refers (ref (core_v1 ''ObjectReference''))))]
        [])
       [core_v1 ''ObjectReference'']"

definition schema_k8sio_api_core_v1_Service :: "(string \<Rightarrow> string) \<Rightarrow> OpenAPIDefinition" where
  "schema_k8sio_api_core_v1_Service ref =
     openapi
       (object [
          (''kind'', str),
          (''apiVersion'', str),
          (''metadata'', defaults (JMap []) (refers (ref (meta_v1 ''ObjectMeta'')))),
          (''spec'', defaults (JMap []) (refers (ref (core_v1 ''ServiceSpec'')))),
          (''status'', defaults (JMap []) (refers (ref (core_v1 ''ServiceStatus''))))]
        [])
       [core_v1 ''ServiceSpec'', core_v1 ''ServiceStatus'', meta_v1 ''ObjectMeta'']"

definition schema_k8sio_api_core_v1_ServiceAccount :: "(string \<Rightarrow> string) \<Rightarrow> OpenAPIDefinition" where
  "schema_k8sio_api_core_v1_ServiceAccount ref =
     openapi
       (object [
          (''kind'', str),
          (''apiVersion'', str),
          (''metadata'', defaults (JMap []) (refers (ref (meta_v1 ''ObjectMeta'')))),
          (''secrets'', extended [(''x-kubernetes-list-map-keys'', JList [(JStr ''name'')]),
            (''x-kubernetes-list-type'', JStr ''map''), (''x-kubernetes-patch-merge-key'', JStr
              ''name''), (''x-kubernetes-patch-strategy'', JStr ''merge'')] (array (defaults (JMap [])
                (refers (ref (core_v1 ''ObjectReference'')))))),
          (''imagePullSecrets'', extended [(''x-kubernetes-list-type'', JStr ''atomic'')] (array
            (defaults (JMap []) (refers (ref (core_v1 ''LocalObjectReference'')))))),
          (''automountServiceAccountToken'', bool)]
        [])
       [core_v1 ''LocalObjectReference'', core_v1 ''ObjectReference'', meta_v1 ''ObjectMeta'']"

definition schema_k8sio_api_core_v1_ServiceAccountList :: "(string \<Rightarrow> string) \<Rightarrow> OpenAPIDefinition" where
  "schema_k8sio_api_core_v1_ServiceAccountList ref =
     openapi
       (object [
          (''kind'', str),
          (''apiVersion'', str),
          (''metadata'', defaults (JMap []) (refers (ref (meta_v1 ''ListMeta'')))),
          (''items'', array (defaults (JMap []) (refers (ref (core_v1 ''ServiceAccount'')))))]
        [''items''])
       [core_v1 ''ServiceAccount'', meta_v1 ''ListMeta'']"

definition schema_k8sio_api_core_v1_ServiceAccountTokenProjection :: "(string \<Rightarrow> string) \<Rightarrow> OpenAPIDefinition" where
  "schema_k8sio_api_core_v1_ServiceAccountTokenProjection ref =
     openapi
       (object [
          (''audience'', str),
          (''expirationSeconds'', int64),
          (''path'', defaults (JStr []) str)]
        [''path''])
       []"

definition schema_k8sio_api_core_v1_ServiceList :: "(string \<Rightarrow> string) \<Rightarrow> OpenAPIDefinition" where
  "schema_k8sio_api_core_v1_ServiceList ref =
     openapi
       (object [
          (''kind'', str),
          (''apiVersion'', str),
          (''metadata'', defaults (JMap []) (refers (ref (meta_v1 ''ListMeta'')))),
          (''items'', array (defaults (JMap []) (refers (ref (core_v1 ''Service'')))))]
        [''items''])
       [core_v1 ''Service'', meta_v1 ''ListMeta'']"

definition schema_k8sio_api_core_v1_ServicePort :: "(string \<Rightarrow> string) \<Rightarrow> OpenAPIDefinition" where
  "schema_k8sio_api_core_v1_ServicePort ref =
     openapi
       (object [
          (''name'', str),
          (''protocol'', enum [JStr ''SCTP'', JStr ''TCP'', JStr ''UDP''] (defaults (JStr ''TCP'')
            str)),
          (''appProtocol'', str),
          (''port'', defaults (JInt 0) int32),
          (''targetPort'', refers (ref (intstr_pkg ''IntOrString''))),
          (''nodePort'', int32)]
        [''port''])
       [intstr_pkg ''IntOrString'']"

definition schema_k8sio_api_core_v1_ServiceProxyOptions :: "(string \<Rightarrow> string) \<Rightarrow> OpenAPIDefinition" where
  "schema_k8sio_api_core_v1_ServiceProxyOptions ref =
     openapi
       (object [
          (''kind'', str),
          (''apiVersion'', str),
          (''path'', str)]
        [])
       []"

definition schema_k8sio_api_core_v1_ServiceSpec_properties1 :: "(string \<Rightarrow> string) \<Rightarrow> (string \<times> schema) list" where
  "schema_k8sio_api_core_v1_ServiceSpec_properties1 ref = [
     (''ports'', extended [(''x-kubernetes-list-map-keys'', JList [(JStr ''port''), (JStr
          ''protocol'')]), (''x-kubernetes-list-type'', JStr ''map''),
            (''x-kubernetes-patch-merge-key'', JStr ''port''), (''x-kubernetes-patch-strategy'', JStr
              ''merge'')] (array (defaults (JMap []) (refers (ref (core_v1 ''ServicePort'')))))),
     (''selector'', extended [(''x-kubernetes-map-type'', JStr ''atomic'')] (additional (defaults (JStr
          []) str))),
     (''clusterIP'', str),
     (''clusterIPs'', extended [(''x-kubernetes-list-type'', JStr ''atomic'')] (array (defaults (JStr
          []) str))),
     (''type'', enum [JStr ''ClusterIP'', JStr ''ExternalName'', JStr ''LoadBalancer'', JStr
          ''NodePort''] str),
     (''externalIPs'', extended [(''x-kubernetes-list-type'', JStr ''atomic'')] (array (defaults (JStr
          []) str))),
     (''sessionAffinity'', enum [JStr ''ClientIP'', JStr ''None''] str)]"

definition schema_k8sio_api_core_v1_ServiceSpec_properties2 :: "(string \<Rightarrow> string) \<Rightarrow> (string \<times> schema) list" where
  "schema_k8sio_api_core_v1_ServiceSpec_properties2 ref = [
     (''loadBalancerIP'', str),
     (''loadBalancerSourceRanges'', extended [(''x-kubernetes-list-type'', JStr ''atomic'')] (array
          (defaults (JStr []) str))),
     (''externalName'', str),
     (''externalTrafficPolicy'', enum [JStr ''Cluster'', JStr ''Cluster'', JStr ''Local'', JStr
          ''Local''] str),
     (''healthCheckNodePort'', int32),
     (''publishNotReadyAddresses'', bool),
     (''sessionAffinityConfig'', refers (ref (core_v1 ''SessionAffinityConfig''))),
     (''ipFamilies'', extended [(''x-kubernetes-list-type'', JStr ''atomic'')] (array (defaults (JStr
          []) str))),
     (''ipFamilyPolicy'', enum [JStr ''PreferDualStack'', JStr ''RequireDualStack'', JStr
          ''SingleStack''] str),
     (''allocateLoadBalancerNodePorts'', bool),
     (''loadBalancerClass'', str)]"

definition schema_k8sio_api_core_v1_ServiceSpec_properties3 :: "(string \<times> schema) list" where
  "schema_k8sio_api_core_v1_ServiceSpec_properties3 = [
     (''internalTrafficPolicy'', enum [JStr ''Cluster'', JStr ''Local''] str),
     (''trafficDistribution'', str)]"

definition schema_k8sio_api_core_v1_ServiceSpec :: "(string \<Rightarrow> string) \<Rightarrow> OpenAPIDefinition" where
  "schema_k8sio_api_core_v1_ServiceSpec ref =
     openapi
       (object (schema_k8sio_api_core_v1_ServiceSpec_properties1 ref @
          schema_k8sio_api_core_v1_ServiceSpec_properties2 ref @
          schema_k8sio_api_core_v1_ServiceSpec_properties3)
          [])
       [core_v1 ''ServicePort'', core_v1 ''SessionAffinityConfig'']"

definition schema_k8sio_api_core_v1_ServiceStatus :: "(string \<Rightarrow> string) \<Rightarrow> OpenAPIDefinition" where
  "schema_k8sio_api_core_v1_ServiceStatus ref =
     openapi
       (object [
          (''loadBalancer'', defaults (JMap []) (refers (ref (core_v1 ''LoadBalancerStatus'')))),
          (''conditions'', extended [(''x-kubernetes-list-map-keys'', JList [(JStr ''type'')]),
            (''x-kubernetes-list-type'', JStr ''map''), (''x-kubernetes-patch-merge-key'', JStr
              ''type''), (''x-kubernetes-patch-strategy'', JStr ''merge'')] (array (defaults (JMap [])
                (refers (ref (meta_v1 ''Condition''))))))]
        [])
       [core_v1 ''LoadBalancerStatus'', meta_v1 ''Condition'']"

definition schema_k8sio_api_core_v1_SessionAffinityConfig :: "(string \<Rightarrow> string) \<Rightarrow> OpenAPIDefinition" where
  "schema_k8sio_api_core_v1_SessionAffinityConfig ref =
     openapi
       (object [
          (''clientIP'', refers (ref (core_v1 ''ClientIPConfig'')))]
        [])
       [core_v1 ''ClientIPConfig'']"

definition schema_k8sio_api_core_v1_SleepAction :: "(string \<Rightarrow> string) \<Rightarrow> OpenAPIDefinition" where
  "schema_k8sio_api_core_v1_SleepAction ref =
     openapi
       (object [
          (''seconds'', defaults (JInt 0) int64)]
        [''seconds''])
       []"

definition schema_k8sio_api_core_v1_StorageOSPersistentVolumeSource :: "(string \<Rightarrow> string) \<Rightarrow> OpenAPIDefinition" where
  "schema_k8sio_api_core_v1_StorageOSPersistentVolumeSource ref =
     openapi
       (object [
          (''volumeName'', str),
          (''volumeNamespace'', str),
          (''fsType'', str),
          (''readOnly'', bool),
          (''secretRef'', refers (ref (core_v1 ''ObjectReference'')))]
        [])
       [core_v1 ''ObjectReference'']"

definition schema_k8sio_api_core_v1_StorageOSVolumeSource :: "(string \<Rightarrow> string) \<Rightarrow> OpenAPIDefinition" where
  "schema_k8sio_api_core_v1_StorageOSVolumeSource ref =
     openapi
       (object [
          (''volumeName'', str),
          (''volumeNamespace'', str),
          (''fsType'', str),
          (''readOnly'', bool),
          (''secretRef'', refers (ref (core_v1 ''LocalObjectReference'')))]
        [])
       [core_v1 ''LocalObjectReference'']"

definition schema_k8sio_api_core_v1_Sysctl :: "(string \<Rightarrow> string) \<Rightarrow> OpenAPIDefinition" where
  "schema_k8sio_api_core_v1_Sysctl ref =
     openapi
       (object [
          (''name'', defaults (JStr []) str),
          (''value'', defaults (JStr []) str)]
        [''name'', ''value''])
       []"

definition schema_k8sio_api_core_v1_TCPSocketAction :: "(string \<Rightarrow> string) \<Rightarrow> OpenAPIDefinition" where
  "schema_k8sio_api_core_v1_TCPSocketAction ref =
     openapi
       (object [
          (''port'', refers (ref (intstr_pkg ''IntOrString''))),
          (''host'', str)]
        [''port''])
       [intstr_pkg ''IntOrString'']"

definition schema_k8sio_api_core_v1_Taint :: "(string \<Rightarrow> string) \<Rightarrow> OpenAPIDefinition" where
  "schema_k8sio_api_core_v1_Taint ref =
     openapi
       (object [
          (''key'', defaults (JStr []) str),
          (''value'', str),
          (''effect'', enum [JStr ''NoExecute'', JStr ''NoSchedule'', JStr ''PreferNoSchedule'']
            (defaults (JStr []) str)),
          (''timeAdded'', refers (ref (meta_v1 ''Time'')))]
        [''key'', ''effect''])
       [meta_v1 ''Time'']"

definition schema_k8sio_api_core_v1_Toleration :: "(string \<Rightarrow> string) \<Rightarrow> OpenAPIDefinition" where
  "schema_k8sio_api_core_v1_Toleration ref =
     openapi
       (object [
          (''key'', str),
          (''operator'', enum [JStr ''Equal'', JStr ''Exists''] str),
          (''value'', str),
          (''effect'', enum [JStr ''NoExecute'', JStr ''NoSchedule'', JStr ''PreferNoSchedule''] str),
          (''tolerationSeconds'', int64)]
        [])
       []"

definition schema_k8sio_api_core_v1_TopologySelectorLabelRequirement :: "(string \<Rightarrow> string) \<Rightarrow> OpenAPIDefinition" where
  "schema_k8sio_api_core_v1_TopologySelectorLabelRequirement ref =
     openapi
       (object [
          (''key'', defaults (JStr []) str),
          (''values'', extended [(''x-kubernetes-list-type'', JStr ''atomic'')] (array (defaults (JStr
            []) str)))]
        [''key'', ''values''])
       []"

definition schema_k8sio_api_core_v1_TopologySelectorTerm :: "(string \<Rightarrow> string) \<Rightarrow> OpenAPIDefinition" where
  "schema_k8sio_api_core_v1_TopologySelectorTerm ref =
     openapi
       (extended [(''x-kubernetes-map-type'', JStr ''atomic'')] (object [
          (''matchLabelExpressions'', extended [(''x-kubernetes-list-type'', JStr ''atomic'')] (array
            (defaults (JMap []) (refers (ref (core_v1 ''TopologySelectorLabelRequirement''))))))]
        []))
       [core_v1 ''TopologySelectorLabelRequirement'']"

definition schema_k8sio_api_core_v1_TopologySpreadConstraint :: "(string \<Rightarrow> string) \<Rightarrow> OpenAPIDefinition" where
  "schema_k8sio_api_core_v1_TopologySpreadConstraint ref =
     openapi
       (object [
          (''maxSkew'', defaults (JInt 0) int32),
          (''topologyKey'', defaults (JStr []) str),
          (''whenUnsatisfiable'', enum [JStr ''DoNotSchedule'', JStr ''ScheduleAnyway''] (defaults
            (JStr []) str)),
          (''labelSelector'', refers (ref (meta_v1 ''LabelSelector''))),
          (''minDomains'', int32),
          (''nodeAffinityPolicy'', enum [JStr ''Honor'', JStr ''Ignore''] str),
          (''nodeTaintsPolicy'', enum [JStr ''Honor'', JStr ''Ignore''] str),
          (''matchLabelKeys'', extended [(''x-kubernetes-list-type'', JStr ''atomic'')] (array
            (defaults (JStr []) str)))]
        [''maxSkew'', ''topologyKey'', ''whenUnsatisfiable''])
       [meta_v1 ''LabelSelector'']"

definition schema_k8sio_api_core_v1_TypedLocalObjectReference :: "(string \<Rightarrow> string) \<Rightarrow> OpenAPIDefinition" where
  "schema_k8sio_api_core_v1_TypedLocalObjectReference ref =
     openapi
       (extended [(''x-kubernetes-map-type'', JStr ''atomic'')] (object [
          (''apiGroup'', str),
          (''kind'', defaults (JStr []) str),
          (''name'', defaults (JStr []) str)]
        [''kind'', ''name'']))
       []"

definition schema_k8sio_api_core_v1_TypedObjectReference :: "(string \<Rightarrow> string) \<Rightarrow> OpenAPIDefinition" where
  "schema_k8sio_api_core_v1_TypedObjectReference ref =
     openapi
       (object [
          (''apiGroup'', str),
          (''kind'', defaults (JStr []) str),
          (''name'', defaults (JStr []) str),
          (''namespace'', str)]
        [''kind'', ''name''])
       []"

definition schema_k8sio_api_core_v1_Volume_properties1 :: "(string \<Rightarrow> string) \<Rightarrow> (string \<times> schema) list" where
  "schema_k8sio_api_core_v1_Volume_properties1 ref = [
     (''name'', defaults (JStr []) str),
     (''hostPath'', refers (ref (core_v1 ''HostPathVolumeSource''))),
     (''emptyDir'', refers (ref (core_v1 ''EmptyDirVolumeSource''))),
     (''gcePersistentDisk'', refers (ref (core_v1 ''GCEPersistentDiskVolumeSource''))),
     (''awsElasticBlockStore'', refers (ref (core_v1 ''AWSElasticBlockStoreVolumeSource''))),
     (''gitRepo'', refers (ref (core_v1 ''GitRepoVolumeSource''))),
     (''secret'', refers (ref (core_v1 ''SecretVolumeSource''))),
     (''nfs'', refers (ref (core_v1 ''NFSVolumeSource''))),
     (''iscsi'', refers (ref (core_v1 ''ISCSIVolumeSource''))),
     (''glusterfs'', refers (ref (core_v1 ''GlusterfsVolumeSource''))),
     (''persistentVolumeClaim'', refers (ref (core_v1 ''PersistentVolumeClaimVolumeSource''))),
     (''rbd'', refers (ref (core_v1 ''RBDVolumeSource''))),
     (''flexVolume'', refers (ref (core_v1 ''FlexVolumeSource''))),
     (''cinder'', refers (ref (core_v1 ''CinderVolumeSource''))),
     (''cephfs'', refers (ref (core_v1 ''CephFSVolumeSource''))),
     (''flocker'', refers (ref (core_v1 ''FlockerVolumeSource''))),
     (''downwardAPI'', refers (ref (core_v1 ''DownwardAPIVolumeSource''))),
     (''fc'', refers (ref (core_v1 ''FCVolumeSource'')))]"

definition schema_k8sio_api_core_v1_Volume_properties2 :: "(string \<Rightarrow> string) \<Rightarrow> (string \<times> schema) list" where
  "schema_k8sio_api_core_v1_Volume_properties2 ref = [
     (''azureFile'', refers (ref (core_v1 ''AzureFileVolumeSource''))),
     (''configMap'', refers (ref (core_v1 ''ConfigMapVolumeSource''))),
     (''vsphereVolume'', refers (ref (core_v1 ''VsphereVirtualDiskVolumeSource''))),
     (''quobyte'', refers (ref (core_v1 ''QuobyteVolumeSource''))),
     (''azureDisk'', refers (ref (core_v1 ''AzureDiskVolumeSource''))),
     (''photonPersistentDisk'', refers (ref (core_v1 ''PhotonPersistentDiskVolumeSource''))),
     (''projected'', refers (ref (core_v1 ''ProjectedVolumeSource''))),
     (''portworxVolume'', refers (ref (core_v1 ''PortworxVolumeSource''))),
     (''scaleIO'', refers (ref (core_v1 ''ScaleIOVolumeSource''))),
     (''storageos'', refers (ref (core_v1 ''StorageOSVolumeSource''))),
     (''csi'', refers (ref (core_v1 ''CSIVolumeSource''))),
     (''ephemeral'', refers (ref (core_v1 ''EphemeralVolumeSource''))),
     (''image'', refers (ref (core_v1 ''ImageVolumeSource'')))]"

definition schema_k8sio_api_core_v1_Volume :: "(string \<Rightarrow> string) \<Rightarrow> OpenAPIDefinition" where
  "schema_k8sio_api_core_v1_Volume ref =
     openapi
       (object (schema_k8sio_api_core_v1_Volume_properties1 ref @
          schema_k8sio_api_core_v1_Volume_properties2 ref)
          [''name''])
       [core_v1 ''AWSElasticBlockStoreVolumeSource'', core_v1 ''AzureDiskVolumeSource'', core_v1
          ''AzureFileVolumeSource'', core_v1 ''CSIVolumeSource'', core_v1 ''CephFSVolumeSource'',
            core_v1 ''CinderVolumeSource'', core_v1 ''ConfigMapVolumeSource'', core_v1
              ''DownwardAPIVolumeSource'', core_v1 ''EmptyDirVolumeSource'', core_v1
                ''EphemeralVolumeSource'', core_v1 ''FCVolumeSource'', core_v1 ''FlexVolumeSource'',
                  core_v1 ''FlockerVolumeSource'', core_v1 ''GCEPersistentDiskVolumeSource'', core_v1
                    ''GitRepoVolumeSource'', core_v1 ''GlusterfsVolumeSource'', core_v1
                      ''HostPathVolumeSource'', core_v1 ''ISCSIVolumeSource'', core_v1
                        ''ImageVolumeSource'', core_v1 ''NFSVolumeSource'', core_v1
                          ''PersistentVolumeClaimVolumeSource'', core_v1
                            ''PhotonPersistentDiskVolumeSource'', core_v1 ''PortworxVolumeSource'',
                              core_v1 ''ProjectedVolumeSource'', core_v1 ''QuobyteVolumeSource'',
                                core_v1 ''RBDVolumeSource'', core_v1 ''ScaleIOVolumeSource'', core_v1
                                  ''SecretVolumeSource'', core_v1 ''StorageOSVolumeSource'', core_v1
                                    ''VsphereVirtualDiskVolumeSource'']"

definition schema_k8sio_api_core_v1_VolumeDevice :: "(string \<Rightarrow> string) \<Rightarrow> OpenAPIDefinition" where
  "schema_k8sio_api_core_v1_VolumeDevice ref =
     openapi
       (object [
          (''name'', defaults (JStr []) str),
          (''devicePath'', defaults (JStr []) str)]
        [''name'', ''devicePath''])
       []"

definition schema_k8sio_api_core_v1_VolumeMount :: "(string \<Rightarrow> string) \<Rightarrow> OpenAPIDefinition" where
  "schema_k8sio_api_core_v1_VolumeMount ref =
     openapi
       (object [
          (''name'', defaults (JStr []) str),
          (''readOnly'', bool),
          (''recursiveReadOnly'', str),
          (''mountPath'', defaults (JStr []) str),
          (''subPath'', str),
          (''mountPropagation'', enum [JStr ''Bidirectional'', JStr ''HostToContainer'', JStr ''None'']
            str),
          (''subPathExpr'', str)]
        [''name'', ''mountPath''])
       []"

definition schema_k8sio_api_core_v1_VolumeMountStatus :: "(string \<Rightarrow> string) \<Rightarrow> OpenAPIDefinition" where
  "schema_k8sio_api_core_v1_VolumeMountStatus ref =
     openapi
       (object [
          (''name'', defaults (JStr []) str),
          (''mountPath'', defaults (JStr []) str),
          (''readOnly'', bool),
          (''recursiveReadOnly'', str)]
        [''name'', ''mountPath''])
       []"

definition schema_k8sio_api_core_v1_VolumeNodeAffinity :: "(string \<Rightarrow> string) \<Rightarrow> OpenAPIDefinition" where
  "schema_k8sio_api_core_v1_VolumeNodeAffinity ref =
     openapi
       (object [
          (''required'', refers (ref (core_v1 ''NodeSelector'')))]
        [])
       [core_v1 ''NodeSelector'']"

definition schema_k8sio_api_core_v1_VolumeProjection :: "(string \<Rightarrow> string) \<Rightarrow> OpenAPIDefinition" where
  "schema_k8sio_api_core_v1_VolumeProjection ref =
     openapi
       (object [
          (''secret'', refers (ref (core_v1 ''SecretProjection''))),
          (''downwardAPI'', refers (ref (core_v1 ''DownwardAPIProjection''))),
          (''configMap'', refers (ref (core_v1 ''ConfigMapProjection''))),
          (''serviceAccountToken'', refers (ref (core_v1 ''ServiceAccountTokenProjection''))),
          (''clusterTrustBundle'', refers (ref (core_v1 ''ClusterTrustBundleProjection'')))]
        [])
       [core_v1 ''ClusterTrustBundleProjection'', core_v1 ''ConfigMapProjection'', core_v1
          ''DownwardAPIProjection'', core_v1 ''SecretProjection'', core_v1
            ''ServiceAccountTokenProjection'']"

definition schema_k8sio_api_core_v1_VolumeResourceRequirements :: "(string \<Rightarrow> string) \<Rightarrow> OpenAPIDefinition" where
  "schema_k8sio_api_core_v1_VolumeResourceRequirements ref =
     openapi
       (object [
          (''limits'', additional (refers (ref (resource_pkg ''Quantity'')))),
          (''requests'', additional (refers (ref (resource_pkg ''Quantity''))))]
        [])
       [resource_pkg ''Quantity'']"

definition schema_k8sio_api_core_v1_VolumeSource_properties1 :: "(string \<Rightarrow> string) \<Rightarrow> (string \<times> schema) list" where
  "schema_k8sio_api_core_v1_VolumeSource_properties1 ref = [
     (''hostPath'', refers (ref (core_v1 ''HostPathVolumeSource''))),
     (''emptyDir'', refers (ref (core_v1 ''EmptyDirVolumeSource''))),
     (''gcePersistentDisk'', refers (ref (core_v1 ''GCEPersistentDiskVolumeSource''))),
     (''awsElasticBlockStore'', refers (ref (core_v1 ''AWSElasticBlockStoreVolumeSource''))),
     (''gitRepo'', refers (ref (core_v1 ''GitRepoVolumeSource''))),
     (''secret'', refers (ref (core_v1 ''SecretVolumeSource''))),
     (''nfs'', refers (ref (core_v1 ''NFSVolumeSource''))),
     (''iscsi'', refers (ref (core_v1 ''ISCSIVolumeSource''))),
     (''glusterfs'', refers (ref (core_v1 ''GlusterfsVolumeSource''))),
     (''persistentVolumeClaim'', refers (ref (core_v1 ''PersistentVolumeClaimVolumeSource''))),
     (''rbd'', refers (ref (core_v1 ''RBDVolumeSource''))),
     (''flexVolume'', refers (ref (core_v1 ''FlexVolumeSource''))),
     (''cinder'', refers (ref (core_v1 ''CinderVolumeSource''))),
     (''cephfs'', refers (ref (core_v1 ''CephFSVolumeSource''))),
     (''flocker'', refers (ref (core_v1 ''FlockerVolumeSource''))),
     (''downwardAPI'', refers (ref (core_v1 ''DownwardAPIVolumeSource''))),
     (''fc'', refers (ref (core_v1 ''FCVolumeSource''))),
     (''azureFile'', refers (ref (core_v1 ''AzureFileVolumeSource'')))]"

definition schema_k8sio_api_core_v1_VolumeSource_properties2 :: "(string \<Rightarrow> string) \<Rightarrow> (string \<times> schema) list" where
  "schema_k8sio_api_core_v1_VolumeSource_properties2 ref = [
     (''configMap'', refers (ref (core_v1 ''ConfigMapVolumeSource''))),
     (''vsphereVolume'', refers (ref (core_v1 ''VsphereVirtualDiskVolumeSource''))),
     (''quobyte'', refers (ref (core_v1 ''QuobyteVolumeSource''))),
     (''azureDisk'', refers (ref (core_v1 ''AzureDiskVolumeSource''))),
     (''photonPersistentDisk'', refers (ref (core_v1 ''PhotonPersistentDiskVolumeSource''))),
     (''projected'', refers (ref (core_v1 ''ProjectedVolumeSource''))),
     (''portworxVolume'', refers (ref (core_v1 ''PortworxVolumeSource''))),
     (''scaleIO'', refers (ref (core_v1 ''ScaleIOVolumeSource''))),
     (''storageos'', refers (ref (core_v1 ''StorageOSVolumeSource''))),
     (''csi'', refers (ref (core_v1 ''CSIVolumeSource''))),
     (''ephemeral'', refers (ref (core_v1 ''EphemeralVolumeSource''))),
     (''image'', refers (ref (core_v1 ''ImageVolumeSource'')))]"

definition schema_k8sio_api_core_v1_VolumeSource :: "(string \<Rightarrow> string) \<Rightarrow> OpenAPIDefinition" where
  "schema_k8sio_api_core_v1_VolumeSource ref =
     openapi
       (object (schema_k8sio_api_core_v1_VolumeSource_properties1 ref @
          schema_k8sio_api_core_v1_VolumeSource_properties2 ref)
          [])
       [core_v1 ''AWSElasticBlockStoreVolumeSource'', core_v1 ''AzureDiskVolumeSource'', core_v1
          ''AzureFileVolumeSource'', core_v1 ''CSIVolumeSource'', core_v1 ''CephFSVolumeSource'',
            core_v1 ''CinderVolumeSource'', core_v1 ''ConfigMapVolumeSource'', core_v1
              ''DownwardAPIVolumeSource'', core_v1 ''EmptyDirVolumeSource'', core_v1
                ''EphemeralVolumeSource'', core_v1 ''FCVolumeSource'', core_v1 ''FlexVolumeSource'',
                  core_v1 ''FlockerVolumeSource'', core_v1 ''GCEPersistentDiskVolumeSource'', core_v1
                    ''GitRepoVolumeSource'', core_v1 ''GlusterfsVolumeSource'', core_v1
                      ''HostPathVolumeSource'', core_v1 ''ISCSIVolumeSource'', core_v1
                        ''ImageVolumeSource'', core_v1 ''NFSVolumeSource'', core_v1
                          ''PersistentVolumeClaimVolumeSource'', core_v1
                            ''PhotonPersistentDiskVolumeSource'', core_v1 ''PortworxVolumeSource'',
                              core_v1 ''ProjectedVolumeSource'', core_v1 ''QuobyteVolumeSource'',
                                core_v1 ''RBDVolumeSource'', core_v1 ''ScaleIOVolumeSource'', core_v1
                                  ''SecretVolumeSource'', core_v1 ''StorageOSVolumeSource'', core_v1
                                    ''VsphereVirtualDiskVolumeSource'']"

definition schema_k8sio_api_core_v1_VsphereVirtualDiskVolumeSource :: "(string \<Rightarrow> string) \<Rightarrow> OpenAPIDefinition" where
  "schema_k8sio_api_core_v1_VsphereVirtualDiskVolumeSource ref =
     openapi
       (object [
          (''volumePath'', defaults (JStr []) str),
          (''fsType'', str),
          (''storagePolicyName'', str),
          (''storagePolicyID'', str)]
        [''volumePath''])
       []"

definition schema_k8sio_api_core_v1_WeightedPodAffinityTerm :: "(string \<Rightarrow> string) \<Rightarrow> OpenAPIDefinition" where
  "schema_k8sio_api_core_v1_WeightedPodAffinityTerm ref =
     openapi
       (object [
          (''weight'', defaults (JInt 0) int32),
          (''podAffinityTerm'', defaults (JMap []) (refers (ref (core_v1 ''PodAffinityTerm''))))]
        [''weight'', ''podAffinityTerm''])
       [core_v1 ''PodAffinityTerm'']"

definition schema_k8sio_api_core_v1_WindowsSecurityContextOptions :: "(string \<Rightarrow> string) \<Rightarrow> OpenAPIDefinition" where
  "schema_k8sio_api_core_v1_WindowsSecurityContextOptions ref =
     openapi
       (object [
          (''gmsaCredentialSpecName'', str),
          (''gmsaCredentialSpec'', str),
          (''runAsUserName'', str),
          (''hostProcess'', bool)]
        [])
       []"

subsection \<open>They are sound\<close>

lemmas core4_defs =
  schema_k8sio_api_core_v1_ResourceHealth_def
  schema_k8sio_api_core_v1_ResourceQuota_def
  schema_k8sio_api_core_v1_ResourceQuotaList_def
  schema_k8sio_api_core_v1_ResourceQuotaSpec_def
  schema_k8sio_api_core_v1_ResourceQuotaStatus_def
  schema_k8sio_api_core_v1_ResourceRequirements_def
  schema_k8sio_api_core_v1_ResourceStatus_def
  schema_k8sio_api_core_v1_SELinuxOptions_def
  schema_k8sio_api_core_v1_ScaleIOPersistentVolumeSource_def
  schema_k8sio_api_core_v1_ScaleIOVolumeSource_def
  schema_k8sio_api_core_v1_ScopeSelector_def
  schema_k8sio_api_core_v1_ScopedResourceSelectorRequirement_def
  schema_k8sio_api_core_v1_SeccompProfile_def
  schema_k8sio_api_core_v1_Secret_def
  schema_k8sio_api_core_v1_SecretEnvSource_def
  schema_k8sio_api_core_v1_SecretKeySelector_def
  schema_k8sio_api_core_v1_SecretList_def
  schema_k8sio_api_core_v1_SecretProjection_def
  schema_k8sio_api_core_v1_SecretReference_def
  schema_k8sio_api_core_v1_SecretVolumeSource_def
  schema_k8sio_api_core_v1_SecurityContext_def
  schema_k8sio_api_core_v1_SerializedReference_def
  schema_k8sio_api_core_v1_Service_def
  schema_k8sio_api_core_v1_ServiceAccount_def
  schema_k8sio_api_core_v1_ServiceAccountList_def
  schema_k8sio_api_core_v1_ServiceAccountTokenProjection_def
  schema_k8sio_api_core_v1_ServiceList_def
  schema_k8sio_api_core_v1_ServicePort_def
  schema_k8sio_api_core_v1_ServiceProxyOptions_def
  schema_k8sio_api_core_v1_ServiceSpec_def
  schema_k8sio_api_core_v1_ServiceStatus_def
  schema_k8sio_api_core_v1_SessionAffinityConfig_def
  schema_k8sio_api_core_v1_SleepAction_def
  schema_k8sio_api_core_v1_StorageOSPersistentVolumeSource_def
  schema_k8sio_api_core_v1_StorageOSVolumeSource_def
  schema_k8sio_api_core_v1_Sysctl_def
  schema_k8sio_api_core_v1_TCPSocketAction_def
  schema_k8sio_api_core_v1_Taint_def
  schema_k8sio_api_core_v1_Toleration_def
  schema_k8sio_api_core_v1_TopologySelectorLabelRequirement_def
  schema_k8sio_api_core_v1_TopologySelectorTerm_def
  schema_k8sio_api_core_v1_TopologySpreadConstraint_def
  schema_k8sio_api_core_v1_TypedLocalObjectReference_def
  schema_k8sio_api_core_v1_TypedObjectReference_def
  schema_k8sio_api_core_v1_Volume_def
  schema_k8sio_api_core_v1_VolumeDevice_def
  schema_k8sio_api_core_v1_VolumeMount_def
  schema_k8sio_api_core_v1_VolumeMountStatus_def
  schema_k8sio_api_core_v1_VolumeNodeAffinity_def
  schema_k8sio_api_core_v1_VolumeProjection_def
  schema_k8sio_api_core_v1_VolumeResourceRequirements_def
  schema_k8sio_api_core_v1_VolumeSource_def
  schema_k8sio_api_core_v1_VsphereVirtualDiskVolumeSource_def
  schema_k8sio_api_core_v1_WeightedPodAffinityTerm_def
  schema_k8sio_api_core_v1_WindowsSecurityContextOptions_def

lemmas core4_parts =
  schema_k8sio_api_core_v1_ServiceSpec_properties1_def
  schema_k8sio_api_core_v1_ServiceSpec_properties2_def
  schema_k8sio_api_core_v1_ServiceSpec_properties3_def
  schema_k8sio_api_core_v1_Volume_properties1_def
  schema_k8sio_api_core_v1_Volume_properties2_def
  schema_k8sio_api_core_v1_VolumeSource_properties1_def
  schema_k8sio_api_core_v1_VolumeSource_properties2_def

lemma core4_ok1:
  "def_ok ref (schema_k8sio_api_core_v1_ResourceHealth ref)"
  "def_ok ref (schema_k8sio_api_core_v1_ResourceQuota ref)"
  "def_ok ref (schema_k8sio_api_core_v1_ResourceQuotaList ref)"
  "def_ok ref (schema_k8sio_api_core_v1_ResourceQuotaSpec ref)"
  "def_ok ref (schema_k8sio_api_core_v1_ResourceQuotaStatus ref)"
  "def_ok ref (schema_k8sio_api_core_v1_ResourceRequirements ref)"
  "def_ok ref (schema_k8sio_api_core_v1_ResourceStatus ref)"
  by (auto simp: def_ok_def core4_defs core4_parts)

lemma core4_ok2:
  "def_ok ref (schema_k8sio_api_core_v1_SELinuxOptions ref)"
  "def_ok ref (schema_k8sio_api_core_v1_ScaleIOPersistentVolumeSource ref)"
  "def_ok ref (schema_k8sio_api_core_v1_ScaleIOVolumeSource ref)"
  "def_ok ref (schema_k8sio_api_core_v1_ScopeSelector ref)"
  "def_ok ref (schema_k8sio_api_core_v1_ScopedResourceSelectorRequirement ref)"
  by (auto simp: def_ok_def core4_defs core4_parts)

lemma core4_ok3:
  "def_ok ref (schema_k8sio_api_core_v1_SeccompProfile ref)"
  "def_ok ref (schema_k8sio_api_core_v1_Secret ref)"
  "def_ok ref (schema_k8sio_api_core_v1_SecretEnvSource ref)"
  "def_ok ref (schema_k8sio_api_core_v1_SecretKeySelector ref)"
  "def_ok ref (schema_k8sio_api_core_v1_SecretList ref)"
  "def_ok ref (schema_k8sio_api_core_v1_SecretProjection ref)"
  "def_ok ref (schema_k8sio_api_core_v1_SecretReference ref)"
  by (auto simp: def_ok_def core4_defs core4_parts)

lemma core4_ok4:
  "def_ok ref (schema_k8sio_api_core_v1_SecretVolumeSource ref)"
  "def_ok ref (schema_k8sio_api_core_v1_SecurityContext ref)"
  "def_ok ref (schema_k8sio_api_core_v1_SerializedReference ref)"
  "def_ok ref (schema_k8sio_api_core_v1_Service ref)"
  "def_ok ref (schema_k8sio_api_core_v1_ServiceAccount ref)"
  by (auto simp: def_ok_def core4_defs core4_parts)

lemma core4_ok5:
  "def_ok ref (schema_k8sio_api_core_v1_ServiceAccountList ref)"
  "def_ok ref (schema_k8sio_api_core_v1_ServiceAccountTokenProjection ref)"
  "def_ok ref (schema_k8sio_api_core_v1_ServiceList ref)"
  "def_ok ref (schema_k8sio_api_core_v1_ServicePort ref)"
  "def_ok ref (schema_k8sio_api_core_v1_ServiceProxyOptions ref)"
  by (auto simp: def_ok_def core4_defs core4_parts)

lemma core4_ok6:
  "def_ok ref (schema_k8sio_api_core_v1_ServiceSpec ref)"
  "def_ok ref (schema_k8sio_api_core_v1_ServiceStatus ref)"
  "def_ok ref (schema_k8sio_api_core_v1_SessionAffinityConfig ref)"
  "def_ok ref (schema_k8sio_api_core_v1_SleepAction ref)"
  by (auto simp: def_ok_def core4_defs core4_parts)

lemma core4_ok7:
  "def_ok ref (schema_k8sio_api_core_v1_StorageOSPersistentVolumeSource ref)"
  "def_ok ref (schema_k8sio_api_core_v1_StorageOSVolumeSource ref)"
  "def_ok ref (schema_k8sio_api_core_v1_Sysctl ref)"
  "def_ok ref (schema_k8sio_api_core_v1_TCPSocketAction ref)"
  "def_ok ref (schema_k8sio_api_core_v1_Taint ref)"
  "def_ok ref (schema_k8sio_api_core_v1_Toleration ref)"
  "def_ok ref (schema_k8sio_api_core_v1_TopologySelectorLabelRequirement ref)"
  "def_ok ref (schema_k8sio_api_core_v1_TopologySelectorTerm ref)"
  by (auto simp: def_ok_def core4_defs core4_parts)

lemma core4_ok8:
  "def_ok ref (schema_k8sio_api_core_v1_TopologySpreadConstraint ref)"
  "def_ok ref (schema_k8sio_api_core_v1_TypedLocalObjectReference ref)"
  "def_ok ref (schema_k8sio_api_core_v1_TypedObjectReference ref)"
  by (auto simp: def_ok_def core4_defs core4_parts)

lemma core4_ok9:
  "def_ok ref (schema_k8sio_api_core_v1_Volume ref)"
  "def_ok ref (schema_k8sio_api_core_v1_VolumeDevice ref)"
  "def_ok ref (schema_k8sio_api_core_v1_VolumeMount ref)"
  by (auto simp: def_ok_def core4_defs core4_parts)

lemma core4_ok10:
  "def_ok ref (schema_k8sio_api_core_v1_VolumeMountStatus ref)"
  "def_ok ref (schema_k8sio_api_core_v1_VolumeNodeAffinity ref)"
  "def_ok ref (schema_k8sio_api_core_v1_VolumeProjection ref)"
  "def_ok ref (schema_k8sio_api_core_v1_VolumeResourceRequirements ref)"
  by (auto simp: def_ok_def core4_defs core4_parts)

lemma core4_ok11:
  "def_ok ref (schema_k8sio_api_core_v1_VolumeSource ref)"
  "def_ok ref (schema_k8sio_api_core_v1_VsphereVirtualDiskVolumeSource ref)"
  "def_ok ref (schema_k8sio_api_core_v1_WeightedPodAffinityTerm ref)"
  "def_ok ref (schema_k8sio_api_core_v1_WindowsSecurityContextOptions ref)"
  by (auto simp: def_ok_def core4_defs core4_parts)

lemmas core4_ok = core4_ok1 core4_ok2 core4_ok3 core4_ok4 core4_ok5 core4_ok6 core4_ok7 core4_ok8
     core4_ok9 core4_ok10 core4_ok11

text \<open>The dependencies they declare.\<close>

lemmas core4_deps = core4_defs [THEN arg_cong [where f = Dependencies], unfolded openapi_simps]

end
