(* ===== verification/OpenApiMap.thy ===== *)
theory OpenApiMap
  imports OpenApiMeta OpenApiCore1 OpenApiCore2 OpenApiCore3 OpenApiCore4
    "HOL-Library.Char_ord" "HOL-Library.List_Lexorder" "HOL-Library.Sublist"
begin

section \<open>The table of OpenAPI definitions\<close>

text \<open>
  \<^verbatim>\<open>GetOpenAPIDefinitions\<close>, the table the server gives to the API machinery. Every definition in it is
  sound; the table as a whole refers to two names it does not define, but what can be reached from
  the kinds the server serves is complete.
\<close>

definition GetOpenAPIDefinitions_part1 ::
  "openapi_lib \<Rightarrow> (string \<Rightarrow> string) \<Rightarrow> (string \<times> OpenAPIDefinition) list" where
  "GetOpenAPIDefinitions_part1 lib ref = [
      (kyverno_v1alpha2 ''ClusterPolicyReport'', schema_kyverno_api_policyreport_v1alpha2_ClusterPolicyReport ref),
      (kyverno_v1alpha2 ''ClusterPolicyReportList'', schema_kyverno_api_policyreport_v1alpha2_ClusterPolicyReportList ref),
      (kyverno_v1alpha2 ''PolicyReport'', schema_kyverno_api_policyreport_v1alpha2_PolicyReport ref),
      (kyverno_v1alpha2 ''PolicyReportList'', schema_kyverno_api_policyreport_v1alpha2_PolicyReportList ref),
      (kyverno_v1alpha2 ''PolicyReportResult'', schema_kyverno_api_policyreport_v1alpha2_PolicyReportResult ref),
      (kyverno_v1alpha2 ''PolicyReportSummary'', schema_kyverno_api_policyreport_v1alpha2_PolicyReportSummary ref),
      (kyverno_reports ''ClusterEphemeralReport'', schema_kyverno_api_reports_v1_ClusterEphemeralReport ref),
      (kyverno_reports ''ClusterEphemeralReportList'', schema_kyverno_api_reports_v1_ClusterEphemeralReportList ref),
      (kyverno_reports ''EphemeralReport'', schema_kyverno_api_reports_v1_EphemeralReport ref),
      (kyverno_reports ''EphemeralReportList'', schema_kyverno_api_reports_v1_EphemeralReportList ref),
      (kyverno_reports ''EphemeralReportSpec'', schema_kyverno_api_reports_v1_EphemeralReportSpec ref),
      (core_v1 ''AWSElasticBlockStoreVolumeSource'', schema_k8sio_api_core_v1_AWSElasticBlockStoreVolumeSource ref),
      (core_v1 ''Affinity'', schema_k8sio_api_core_v1_Affinity ref),
      (core_v1 ''AppArmorProfile'', schema_k8sio_api_core_v1_AppArmorProfile ref),
      (core_v1 ''AttachedVolume'', schema_k8sio_api_core_v1_AttachedVolume ref),
      (core_v1 ''AvoidPods'', schema_k8sio_api_core_v1_AvoidPods ref),
      (core_v1 ''AzureDiskVolumeSource'', schema_k8sio_api_core_v1_AzureDiskVolumeSource lib ref),
      (core_v1 ''AzureFilePersistentVolumeSource'', schema_k8sio_api_core_v1_AzureFilePersistentVolumeSource ref),
      (core_v1 ''AzureFileVolumeSource'', schema_k8sio_api_core_v1_AzureFileVolumeSource ref),
      (core_v1 ''Binding'', schema_k8sio_api_core_v1_Binding ref),
      (core_v1 ''CSIPersistentVolumeSource'', schema_k8sio_api_core_v1_CSIPersistentVolumeSource ref),
      (core_v1 ''CSIVolumeSource'', schema_k8sio_api_core_v1_CSIVolumeSource ref),
      (core_v1 ''Capabilities'', schema_k8sio_api_core_v1_Capabilities ref),
      (core_v1 ''CephFSPersistentVolumeSource'', schema_k8sio_api_core_v1_CephFSPersistentVolumeSource ref),
      (core_v1 ''CephFSVolumeSource'', schema_k8sio_api_core_v1_CephFSVolumeSource ref),
      (core_v1 ''CinderPersistentVolumeSource'', schema_k8sio_api_core_v1_CinderPersistentVolumeSource ref),
      (core_v1 ''CinderVolumeSource'', schema_k8sio_api_core_v1_CinderVolumeSource ref),
      (core_v1 ''ClientIPConfig'', schema_k8sio_api_core_v1_ClientIPConfig ref),
      (core_v1 ''ClusterTrustBundleProjection'', schema_k8sio_api_core_v1_ClusterTrustBundleProjection ref),
      (core_v1 ''ComponentCondition'', schema_k8sio_api_core_v1_ComponentCondition ref),
      (core_v1 ''ComponentStatus'', schema_k8sio_api_core_v1_ComponentStatus ref),
      (core_v1 ''ComponentStatusList'', schema_k8sio_api_core_v1_ComponentStatusList ref),
      (core_v1 ''ConfigMap'', schema_k8sio_api_core_v1_ConfigMap ref),
      (core_v1 ''ConfigMapEnvSource'', schema_k8sio_api_core_v1_ConfigMapEnvSource ref),
      (core_v1 ''ConfigMapKeySelector'', schema_k8sio_api_core_v1_ConfigMapKeySelector ref),
      (core_v1 ''ConfigMapList'', schema_k8sio_api_core_v1_ConfigMapList ref),
      (core_v1 ''ConfigMapNodeConfigSource'', schema_k8sio_api_core_v1_ConfigMapNodeConfigSource ref),
      (core_v1 ''ConfigMapProjection'', schema_k8sio_api_core_v1_ConfigMapProjection ref),
      (core_v1 ''ConfigMapVolumeSource'', schema_k8sio_api_core_v1_ConfigMapVolumeSource ref),
      (core_v1 ''Container'', schema_k8sio_api_core_v1_Container ref),
      (core_v1 ''ContainerImage'', schema_k8sio_api_core_v1_ContainerImage ref),
      (core_v1 ''ContainerPort'', schema_k8sio_api_core_v1_ContainerPort ref),
      (core_v1 ''ContainerResizePolicy'', schema_k8sio_api_core_v1_ContainerResizePolicy ref),
      (core_v1 ''ContainerState'', schema_k8sio_api_core_v1_ContainerState ref),
      (core_v1 ''ContainerStateRunning'', schema_k8sio_api_core_v1_ContainerStateRunning ref),
      (core_v1 ''ContainerStateTerminated'', schema_k8sio_api_core_v1_ContainerStateTerminated ref),
      (core_v1 ''ContainerStateWaiting'', schema_k8sio_api_core_v1_ContainerStateWaiting ref),
      (core_v1 ''ContainerStatus'', schema_k8sio_api_core_v1_ContainerStatus ref),
      (core_v1 ''ContainerUser'', schema_k8sio_api_core_v1_ContainerUser ref),
      (core_v1 ''DaemonEndpoint'', schema_k8sio_api_core_v1_DaemonEndpoint ref),
      (core_v1 ''DownwardAPIProjection'', schema_k8sio_api_core_v1_DownwardAPIProjection ref),
      (core_v1 ''DownwardAPIVolumeFile'', schema_k8sio_api_core_v1_DownwardAPIVolumeFile ref),
      (core_v1 ''DownwardAPIVolumeSource'', schema_k8sio_api_core_v1_DownwardAPIVolumeSource ref),
      (core_v1 ''EmptyDirVolumeSource'', schema_k8sio_api_core_v1_EmptyDirVolumeSource ref),
      (core_v1 ''EndpointAddress'', schema_k8sio_api_core_v1_EndpointAddress ref),
      (core_v1 ''EndpointPort'', schema_k8sio_api_core_v1_EndpointPort ref),
      (core_v1 ''EndpointSubset'', schema_k8sio_api_core_v1_EndpointSubset ref),
      (core_v1 ''Endpoints'', schema_k8sio_api_core_v1_Endpoints ref),
      (core_v1 ''EndpointsList'', schema_k8sio_api_core_v1_EndpointsList ref),
      (core_v1 ''EnvFromSource'', schema_k8sio_api_core_v1_EnvFromSource ref),
      (core_v1 ''EnvVar'', schema_k8sio_api_core_v1_EnvVar ref),
      (core_v1 ''EnvVarSource'', schema_k8sio_api_core_v1_EnvVarSource ref),
      (core_v1 ''EphemeralContainer'', schema_k8sio_api_core_v1_EphemeralContainer ref),
      (core_v1 ''EphemeralContainerCommon'', schema_k8sio_api_core_v1_EphemeralContainerCommon ref),
      (core_v1 ''EphemeralVolumeSource'', schema_k8sio_api_core_v1_EphemeralVolumeSource ref),
      (core_v1 ''Event'', schema_k8sio_api_core_v1_Event ref),
      (core_v1 ''EventList'', schema_k8sio_api_core_v1_EventList ref),
      (core_v1 ''EventSeries'', schema_k8sio_api_core_v1_EventSeries ref),
      (core_v1 ''EventSource'', schema_k8sio_api_core_v1_EventSource ref),
      (core_v1 ''ExecAction'', schema_k8sio_api_core_v1_ExecAction ref),
      (core_v1 ''FCVolumeSource'', schema_k8sio_api_core_v1_FCVolumeSource ref),
      (core_v1 ''FlexPersistentVolumeSource'', schema_k8sio_api_core_v1_FlexPersistentVolumeSource ref),
      (core_v1 ''FlexVolumeSource'', schema_k8sio_api_core_v1_FlexVolumeSource ref),
      (core_v1 ''FlockerVolumeSource'', schema_k8sio_api_core_v1_FlockerVolumeSource ref),
      (core_v1 ''GCEPersistentDiskVolumeSource'', schema_k8sio_api_core_v1_GCEPersistentDiskVolumeSource ref),
      (core_v1 ''GRPCAction'', schema_k8sio_api_core_v1_GRPCAction ref),
      (core_v1 ''GitRepoVolumeSource'', schema_k8sio_api_core_v1_GitRepoVolumeSource ref),
      (core_v1 ''GlusterfsPersistentVolumeSource'', schema_k8sio_api_core_v1_GlusterfsPersistentVolumeSource ref),
      (core_v1 ''GlusterfsVolumeSource'', schema_k8sio_api_core_v1_GlusterfsVolumeSource ref),
      (core_v1 ''HTTPGetAction'', schema_k8sio_api_core_v1_HTTPGetAction ref),
      (core_v1 ''HTTPHeader'', schema_k8sio_api_core_v1_HTTPHeader ref),
      (core_v1 ''HostAlias'', schema_k8sio_api_core_v1_HostAlias ref),
      (core_v1 ''HostIP'', schema_k8sio_api_core_v1_HostIP ref),
      (core_v1 ''HostPathVolumeSource'', schema_k8sio_api_core_v1_HostPathVolumeSource ref),
      (core_v1 ''ISCSIPersistentVolumeSource'', schema_k8sio_api_core_v1_ISCSIPersistentVolumeSource ref),
      (core_v1 ''ISCSIVolumeSource'', schema_k8sio_api_core_v1_ISCSIVolumeSource ref),
      (core_v1 ''ImageVolumeSource'', schema_k8sio_api_core_v1_ImageVolumeSource ref),
      (core_v1 ''KeyToPath'', schema_k8sio_api_core_v1_KeyToPath ref),
      (core_v1 ''Lifecycle'', schema_k8sio_api_core_v1_Lifecycle ref),
      (core_v1 ''LifecycleHandler'', schema_k8sio_api_core_v1_LifecycleHandler ref),
      (core_v1 ''LimitRange'', schema_k8sio_api_core_v1_LimitRange ref),
      (core_v1 ''LimitRangeItem'', schema_k8sio_api_core_v1_LimitRangeItem ref),
      (core_v1 ''LimitRangeList'', schema_k8sio_api_core_v1_LimitRangeList ref),
      (core_v1 ''LimitRangeSpec'', schema_k8sio_api_core_v1_LimitRangeSpec ref),
      (core_v1 ''LinuxContainerUser'', schema_k8sio_api_core_v1_LinuxContainerUser ref),
      (core_v1 ''List'', schema_k8sio_api_core_v1_List ref),
      (core_v1 ''LoadBalancerIngress'', schema_k8sio_api_core_v1_LoadBalancerIngress ref),
      (core_v1 ''LoadBalancerStatus'', schema_k8sio_api_core_v1_LoadBalancerStatus ref),
      (core_v1 ''LocalObjectReference'', schema_k8sio_api_core_v1_LocalObjectReference ref),
      (core_v1 ''LocalVolumeSource'', schema_k8sio_api_core_v1_LocalVolumeSource ref),
      (core_v1 ''ModifyVolumeStatus'', schema_k8sio_api_core_v1_ModifyVolumeStatus ref),
      (core_v1 ''NFSVolumeSource'', schema_k8sio_api_core_v1_NFSVolumeSource ref),
      (core_v1 ''Namespace'', schema_k8sio_api_core_v1_Namespace ref),
      (core_v1 ''NamespaceCondition'', schema_k8sio_api_core_v1_NamespaceCondition ref),
      (core_v1 ''NamespaceList'', schema_k8sio_api_core_v1_NamespaceList ref),
      (core_v1 ''NamespaceSpec'', schema_k8sio_api_core_v1_NamespaceSpec ref),
      (core_v1 ''NamespaceStatus'', schema_k8sio_api_core_v1_NamespaceStatus ref),
      (core_v1 ''Node'', schema_k8sio_api_core_v1_Node ref),
      (core_v1 ''NodeAddress'', schema_k8sio_api_core_v1_NodeAddress ref),
      (core_v1 ''NodeAffinity'', schema_k8sio_api_core_v1_NodeAffinity ref),
      (core_v1 ''NodeCondition'', schema_k8sio_api_core_v1_NodeCondition ref),
      (core_v1 ''NodeConfigSource'', schema_k8sio_api_core_v1_NodeConfigSource ref),
      (core_v1 ''NodeConfigStatus'', schema_k8sio_api_core_v1_NodeConfigStatus ref),
      (core_v1 ''NodeDaemonEndpoints'', schema_k8sio_api_core_v1_NodeDaemonEndpoints ref),
      (core_v1 ''NodeFeatures'', schema_k8sio_api_core_v1_NodeFeatures ref),
      (core_v1 ''NodeList'', schema_k8sio_api_core_v1_NodeList ref),
      (core_v1 ''NodeProxyOptions'', schema_k8sio_api_core_v1_NodeProxyOptions ref),
      (core_v1 ''NodeRuntimeHandler'', schema_k8sio_api_core_v1_NodeRuntimeHandler ref),
      (core_v1 ''NodeRuntimeHandlerFeatures'', schema_k8sio_api_core_v1_NodeRuntimeHandlerFeatures ref),
      (core_v1 ''NodeSelector'', schema_k8sio_api_core_v1_NodeSelector ref),
      (core_v1 ''NodeSelectorRequirement'', schema_k8sio_api_core_v1_NodeSelectorRequirement ref),
      (core_v1 ''NodeSelectorTerm'', schema_k8sio_api_core_v1_NodeSelectorTerm ref),
      (core_v1 ''NodeSpec'', schema_k8sio_api_core_v1_NodeSpec ref),
      (core_v1 ''NodeStatus'', schema_k8sio_api_core_v1_NodeStatus ref),
      (core_v1 ''NodeSystemInfo'', schema_k8sio_api_core_v1_NodeSystemInfo ref),
      (core_v1 ''ObjectFieldSelector'', schema_k8sio_api_core_v1_ObjectFieldSelector ref),
      (core_v1 ''ObjectReference'', schema_k8sio_api_core_v1_ObjectReference ref)]"

definition GetOpenAPIDefinitions_part2 ::
  "(string \<Rightarrow> string) \<Rightarrow> (string \<times> OpenAPIDefinition) list" where
  "GetOpenAPIDefinitions_part2 ref = [
      (core_v1 ''PersistentVolume'', schema_k8sio_api_core_v1_PersistentVolume ref),
      (core_v1 ''PersistentVolumeClaim'', schema_k8sio_api_core_v1_PersistentVolumeClaim ref),
      (core_v1 ''PersistentVolumeClaimCondition'', schema_k8sio_api_core_v1_PersistentVolumeClaimCondition ref),
      (core_v1 ''PersistentVolumeClaimList'', schema_k8sio_api_core_v1_PersistentVolumeClaimList ref),
      (core_v1 ''PersistentVolumeClaimSpec'', schema_k8sio_api_core_v1_PersistentVolumeClaimSpec ref),
      (core_v1 ''PersistentVolumeClaimStatus'', schema_k8sio_api_core_v1_PersistentVolumeClaimStatus ref),
      (core_v1 ''PersistentVolumeClaimTemplate'', schema_k8sio_api_core_v1_PersistentVolumeClaimTemplate ref),
      (core_v1 ''PersistentVolumeClaimVolumeSource'', schema_k8sio_api_core_v1_PersistentVolumeClaimVolumeSource ref),
      (core_v1 ''PersistentVolumeList'', schema_k8sio_api_core_v1_PersistentVolumeList ref),
      (core_v1 ''PersistentVolumeSource'', schema_k8sio_api_core_v1_PersistentVolumeSource ref),
      (core_v1 ''PersistentVolumeSpec'', schema_k8sio_api_core_v1_PersistentVolumeSpec ref),
      (core_v1 ''PersistentVolumeStatus'', schema_k8sio_api_core_v1_PersistentVolumeStatus ref),
      (core_v1 ''PhotonPersistentDiskVolumeSource'', schema_k8sio_api_core_v1_PhotonPersistentDiskVolumeSource ref),
      (core_v1 ''Pod'', schema_k8sio_api_core_v1_Pod ref),
      (core_v1 ''PodAffinity'', schema_k8sio_api_core_v1_PodAffinity ref),
      (core_v1 ''PodAffinityTerm'', schema_k8sio_api_core_v1_PodAffinityTerm ref),
      (core_v1 ''PodAntiAffinity'', schema_k8sio_api_core_v1_PodAntiAffinity ref),
      (core_v1 ''PodAttachOptions'', schema_k8sio_api_core_v1_PodAttachOptions ref),
      (core_v1 ''PodCondition'', schema_k8sio_api_core_v1_PodCondition ref),
      (core_v1 ''PodDNSConfig'', schema_k8sio_api_core_v1_PodDNSConfig ref),
      (core_v1 ''PodDNSConfigOption'', schema_k8sio_api_core_v1_PodDNSConfigOption ref),
      (core_v1 ''PodExecOptions'', schema_k8sio_api_core_v1_PodExecOptions ref),
      (core_v1 ''PodIP'', schema_k8sio_api_core_v1_PodIP ref),
      (core_v1 ''PodList'', schema_k8sio_api_core_v1_PodList ref),
      (core_v1 ''PodLogOptions'', schema_k8sio_api_core_v1_PodLogOptions ref),
      (core_v1 ''PodOS'', schema_k8sio_api_core_v1_PodOS ref),
      (core_v1 ''PodPortForwardOptions'', schema_k8sio_api_core_v1_PodPortForwardOptions ref),
      (core_v1 ''PodProxyOptions'', schema_k8sio_api_core_v1_PodProxyOptions ref),
      (core_v1 ''PodReadinessGate'', schema_k8sio_api_core_v1_PodReadinessGate ref),
      (core_v1 ''PodResourceClaim'', schema_k8sio_api_core_v1_PodResourceClaim ref),
      (core_v1 ''PodResourceClaimStatus'', schema_k8sio_api_core_v1_PodResourceClaimStatus ref),
      (core_v1 ''PodSchedulingGate'', schema_k8sio_api_core_v1_PodSchedulingGate ref),
      (core_v1 ''PodSecurityContext'', schema_k8sio_api_core_v1_PodSecurityContext ref),
      (core_v1 ''PodSignature'', schema_k8sio_api_core_v1_PodSignature ref),
      (core_v1 ''PodSpec'', schema_k8sio_api_core_v1_PodSpec ref),
      (core_v1 ''PodStatus'', schema_k8sio_api_core_v1_PodStatus ref),
      (core_v1 ''PodStatusResult'', schema_k8sio_api_core_v1_PodStatusResult ref),
      (core_v1 ''PodTemplate'', schema_k8sio_api_core_v1_PodTemplate ref),
      (core_v1 ''PodTemplateList'', schema_k8sio_api_core_v1_PodTemplateList ref),
      (core_v1 ''PodTemplateSpec'', schema_k8sio_api_core_v1_PodTemplateSpec ref),
      (core_v1 ''PortStatus'', schema_k8sio_api_core_v1_PortStatus ref),
      (core_v1 ''PortworxVolumeSource'', schema_k8sio_api_core_v1_PortworxVolumeSource ref),
      (core_v1 ''PreferAvoidPodsEntry'', schema_k8sio_api_core_v1_PreferAvoidPodsEntry ref),
      (core_v1 ''PreferredSchedulingTerm'', schema_k8sio_api_core_v1_PreferredSchedulingTerm ref),
      (core_v1 ''Probe'', schema_k8sio_api_core_v1_Probe ref),
      (core_v1 ''ProbeHandler'', schema_k8sio_api_core_v1_ProbeHandler ref),
      (core_v1 ''ProjectedVolumeSource'', schema_k8sio_api_core_v1_ProjectedVolumeSource ref),
      (core_v1 ''QuobyteVolumeSource'', schema_k8sio_api_core_v1_QuobyteVolumeSource ref),
      (core_v1 ''RBDPersistentVolumeSource'', schema_k8sio_api_core_v1_RBDPersistentVolumeSource ref),
      (core_v1 ''RBDVolumeSource'', schema_k8sio_api_core_v1_RBDVolumeSource ref),
      (core_v1 ''RangeAllocation'', schema_k8sio_api_core_v1_RangeAllocation ref),
      (core_v1 ''ReplicationController'', schema_k8sio_api_core_v1_ReplicationController ref),
      (core_v1 ''ReplicationControllerCondition'', schema_k8sio_api_core_v1_ReplicationControllerCondition ref),
      (core_v1 ''ReplicationControllerList'', schema_k8sio_api_core_v1_ReplicationControllerList ref),
      (core_v1 ''ReplicationControllerSpec'', schema_k8sio_api_core_v1_ReplicationControllerSpec ref),
      (core_v1 ''ReplicationControllerStatus'', schema_k8sio_api_core_v1_ReplicationControllerStatus ref),
      (core_v1 ''ResourceClaim'', schema_k8sio_api_core_v1_ResourceClaim ref),
      (core_v1 ''ResourceFieldSelector'', schema_k8sio_api_core_v1_ResourceFieldSelector ref),
      (core_v1 ''ResourceHealth'', schema_k8sio_api_core_v1_ResourceHealth ref),
      (core_v1 ''ResourceQuota'', schema_k8sio_api_core_v1_ResourceQuota ref),
      (core_v1 ''ResourceQuotaList'', schema_k8sio_api_core_v1_ResourceQuotaList ref),
      (core_v1 ''ResourceQuotaSpec'', schema_k8sio_api_core_v1_ResourceQuotaSpec ref),
      (core_v1 ''ResourceQuotaStatus'', schema_k8sio_api_core_v1_ResourceQuotaStatus ref),
      (core_v1 ''ResourceRequirements'', schema_k8sio_api_core_v1_ResourceRequirements ref),
      (core_v1 ''ResourceStatus'', schema_k8sio_api_core_v1_ResourceStatus ref),
      (core_v1 ''SELinuxOptions'', schema_k8sio_api_core_v1_SELinuxOptions ref),
      (core_v1 ''ScaleIOPersistentVolumeSource'', schema_k8sio_api_core_v1_ScaleIOPersistentVolumeSource ref),
      (core_v1 ''ScaleIOVolumeSource'', schema_k8sio_api_core_v1_ScaleIOVolumeSource ref),
      (core_v1 ''ScopeSelector'', schema_k8sio_api_core_v1_ScopeSelector ref),
      (core_v1 ''ScopedResourceSelectorRequirement'', schema_k8sio_api_core_v1_ScopedResourceSelectorRequirement ref),
      (core_v1 ''SeccompProfile'', schema_k8sio_api_core_v1_SeccompProfile ref),
      (core_v1 ''Secret'', schema_k8sio_api_core_v1_Secret ref),
      (core_v1 ''SecretEnvSource'', schema_k8sio_api_core_v1_SecretEnvSource ref),
      (core_v1 ''SecretKeySelector'', schema_k8sio_api_core_v1_SecretKeySelector ref),
      (core_v1 ''SecretList'', schema_k8sio_api_core_v1_SecretList ref),
      (core_v1 ''SecretProjection'', schema_k8sio_api_core_v1_SecretProjection ref),
      (core_v1 ''SecretReference'', schema_k8sio_api_core_v1_SecretReference ref),
      (core_v1 ''SecretVolumeSource'', schema_k8sio_api_core_v1_SecretVolumeSource ref),
      (core_v1 ''SecurityContext'', schema_k8sio_api_core_v1_SecurityContext ref),
      (core_v1 ''SerializedReference'', schema_k8sio_api_core_v1_SerializedReference ref),
      (core_v1 ''Service'', schema_k8sio_api_core_v1_Service ref),
      (core_v1 ''ServiceAccount'', schema_k8sio_api_core_v1_ServiceAccount ref),
      (core_v1 ''ServiceAccountList'', schema_k8sio_api_core_v1_ServiceAccountList ref),
      (core_v1 ''ServiceAccountTokenProjection'', schema_k8sio_api_core_v1_ServiceAccountTokenProjection ref),
      (core_v1 ''ServiceList'', schema_k8sio_api_core_v1_ServiceList ref),
      (core_v1 ''ServicePort'', schema_k8sio_api_core_v1_ServicePort ref),
      (core_v1 ''ServiceProxyOptions'', schema_k8sio_api_core_v1_ServiceProxyOptions ref),
      (core_v1 ''ServiceSpec'', schema_k8sio_api_core_v1_ServiceSpec ref),
      (core_v1 ''ServiceStatus'', schema_k8sio_api_core_v1_ServiceStatus ref),
      (core_v1 ''SessionAffinityConfig'', schema_k8sio_api_core_v1_SessionAffinityConfig ref),
      (core_v1 ''SleepAction'', schema_k8sio_api_core_v1_SleepAction ref),
      (core_v1 ''StorageOSPersistentVolumeSource'', schema_k8sio_api_core_v1_StorageOSPersistentVolumeSource ref),
      (core_v1 ''StorageOSVolumeSource'', schema_k8sio_api_core_v1_StorageOSVolumeSource ref),
      (core_v1 ''Sysctl'', schema_k8sio_api_core_v1_Sysctl ref),
      (core_v1 ''TCPSocketAction'', schema_k8sio_api_core_v1_TCPSocketAction ref),
      (core_v1 ''Taint'', schema_k8sio_api_core_v1_Taint ref),
      (core_v1 ''Toleration'', schema_k8sio_api_core_v1_Toleration ref),
      (core_v1 ''TopologySelectorLabelRequirement'', schema_k8sio_api_core_v1_TopologySelectorLabelRequirement ref),
      (core_v1 ''TopologySelectorTerm'', schema_k8sio_api_core_v1_TopologySelectorTerm ref),
      (core_v1 ''TopologySpreadConstraint'', schema_k8sio_api_core_v1_TopologySpreadConstraint ref),
      (core_v1 ''TypedLocalObjectReference'', schema_k8sio_api_core_v1_TypedLocalObjectReference ref),
      (core_v1 ''TypedObjectReference'', schema_k8sio_api_core_v1_TypedObjectReference ref),
      (core_v1 ''Volume'', schema_k8sio_api_core_v1_Volume ref),
      (core_v1 ''VolumeDevice'', schema_k8sio_api_core_v1_VolumeDevice ref),
      (core_v1 ''VolumeMount'', schema_k8sio_api_core_v1_VolumeMount ref),
      (core_v1 ''VolumeMountStatus'', schema_k8sio_api_core_v1_VolumeMountStatus ref),
      (core_v1 ''VolumeNodeAffinity'', schema_k8sio_api_core_v1_VolumeNodeAffinity ref),
      (core_v1 ''VolumeProjection'', schema_k8sio_api_core_v1_VolumeProjection ref),
      (core_v1 ''VolumeResourceRequirements'', schema_k8sio_api_core_v1_VolumeResourceRequirements ref),
      (core_v1 ''VolumeSource'', schema_k8sio_api_core_v1_VolumeSource ref),
      (core_v1 ''VsphereVirtualDiskVolumeSource'', schema_k8sio_api_core_v1_VsphereVirtualDiskVolumeSource ref),
      (core_v1 ''WeightedPodAffinityTerm'', schema_k8sio_api_core_v1_WeightedPodAffinityTerm ref),
      (core_v1 ''WindowsSecurityContextOptions'', schema_k8sio_api_core_v1_WindowsSecurityContextOptions ref)]"

definition GetOpenAPIDefinitions_part3 ::
  "openapi_lib \<Rightarrow> (string \<Rightarrow> string) \<Rightarrow> (string \<times> OpenAPIDefinition) list" where
  "GetOpenAPIDefinitions_part3 lib ref = [
      (resource_pkg ''Quantity'', Quantity_definition lib),
      (resource_pkg ''int64Amount'', schema_apimachinery_pkg_api_resource_int64Amount ref),
      (meta_v1 ''APIGroup'', schema_pkg_apis_meta_v1_APIGroup ref),
      (meta_v1 ''APIGroupList'', schema_pkg_apis_meta_v1_APIGroupList ref),
      (meta_v1 ''APIResource'', schema_pkg_apis_meta_v1_APIResource ref),
      (meta_v1 ''APIResourceList'', schema_pkg_apis_meta_v1_APIResourceList ref),
      (meta_v1 ''APIVersions'', schema_pkg_apis_meta_v1_APIVersions ref),
      (meta_v1 ''ApplyOptions'', schema_pkg_apis_meta_v1_ApplyOptions ref),
      (meta_v1 ''Condition'', schema_pkg_apis_meta_v1_Condition ref),
      (meta_v1 ''CreateOptions'', schema_pkg_apis_meta_v1_CreateOptions ref),
      (meta_v1 ''DeleteOptions'', schema_pkg_apis_meta_v1_DeleteOptions ref),
      (meta_v1 ''Duration'', schema_pkg_apis_meta_v1_Duration lib ref),
      (meta_v1 ''FieldSelectorRequirement'', schema_pkg_apis_meta_v1_FieldSelectorRequirement ref),
      (meta_v1 ''FieldsV1'', schema_pkg_apis_meta_v1_FieldsV1 ref),
      (meta_v1 ''GetOptions'', schema_pkg_apis_meta_v1_GetOptions ref),
      (meta_v1 ''GroupKind'', schema_pkg_apis_meta_v1_GroupKind ref),
      (meta_v1 ''GroupResource'', schema_pkg_apis_meta_v1_GroupResource ref),
      (meta_v1 ''GroupVersion'', schema_pkg_apis_meta_v1_GroupVersion ref),
      (meta_v1 ''GroupVersionForDiscovery'', schema_pkg_apis_meta_v1_GroupVersionForDiscovery ref),
      (meta_v1 ''GroupVersionKind'', schema_pkg_apis_meta_v1_GroupVersionKind ref),
      (meta_v1 ''GroupVersionResource'', schema_pkg_apis_meta_v1_GroupVersionResource ref),
      (meta_v1 ''InternalEvent'', schema_pkg_apis_meta_v1_InternalEvent ref),
      (meta_v1 ''LabelSelector'', schema_pkg_apis_meta_v1_LabelSelector ref),
      (meta_v1 ''LabelSelectorRequirement'', schema_pkg_apis_meta_v1_LabelSelectorRequirement ref),
      (meta_v1 ''List'', schema_pkg_apis_meta_v1_List ref),
      (meta_v1 ''ListMeta'', schema_pkg_apis_meta_v1_ListMeta ref),
      (meta_v1 ''ListOptions'', schema_pkg_apis_meta_v1_ListOptions ref),
      (meta_v1 ''ManagedFieldsEntry'', schema_pkg_apis_meta_v1_ManagedFieldsEntry ref),
      (meta_v1 ''MicroTime'', schema_pkg_apis_meta_v1_MicroTime lib ref),
      (meta_v1 ''ObjectMeta'', schema_pkg_apis_meta_v1_ObjectMeta ref),
      (meta_v1 ''OwnerReference'', schema_pkg_apis_meta_v1_OwnerReference ref),
      (meta_v1 ''PartialObjectMetadata'', schema_pkg_apis_meta_v1_PartialObjectMetadata ref),
      (meta_v1 ''PartialObjectMetadataList'', schema_pkg_apis_meta_v1_PartialObjectMetadataList ref),
      (meta_v1 ''Patch'', schema_pkg_apis_meta_v1_Patch ref),
      (meta_v1 ''PatchOptions'', schema_pkg_apis_meta_v1_PatchOptions ref),
      (meta_v1 ''Preconditions'', schema_pkg_apis_meta_v1_Preconditions ref),
      (meta_v1 ''RootPaths'', schema_pkg_apis_meta_v1_RootPaths ref),
      (meta_v1 ''ServerAddressByClientCIDR'', schema_pkg_apis_meta_v1_ServerAddressByClientCIDR ref),
      (meta_v1 ''Status'', schema_pkg_apis_meta_v1_Status ref),
      (meta_v1 ''StatusCause'', schema_pkg_apis_meta_v1_StatusCause ref),
      (meta_v1 ''StatusDetails'', schema_pkg_apis_meta_v1_StatusDetails ref),
      (meta_v1 ''Table'', schema_pkg_apis_meta_v1_Table ref),
      (meta_v1 ''TableColumnDefinition'', schema_pkg_apis_meta_v1_TableColumnDefinition ref),
      (meta_v1 ''TableOptions'', schema_pkg_apis_meta_v1_TableOptions ref),
      (meta_v1 ''TableRow'', schema_pkg_apis_meta_v1_TableRow ref),
      (meta_v1 ''TableRowCondition'', schema_pkg_apis_meta_v1_TableRowCondition ref),
      (meta_v1 ''Time'', schema_pkg_apis_meta_v1_Time lib ref),
      (meta_v1 ''Timestamp'', schema_pkg_apis_meta_v1_Timestamp ref),
      (meta_v1 ''TypeMeta'', schema_pkg_apis_meta_v1_TypeMeta ref),
      (meta_v1 ''UpdateOptions'', schema_pkg_apis_meta_v1_UpdateOptions ref),
      (meta_v1 ''WatchEvent'', schema_pkg_apis_meta_v1_WatchEvent ref),
      (runtime_pkg ''RawExtension'', schema_k8sio_apimachinery_pkg_runtime_RawExtension ref),
      (runtime_pkg ''TypeMeta'', schema_k8sio_apimachinery_pkg_runtime_TypeMeta ref),
      (runtime_pkg ''Unknown'', schema_k8sio_apimachinery_pkg_runtime_Unknown ref),
      (version_pkg ''Info'', schema_k8sio_apimachinery_pkg_version_Info ref),
      (wgpolicy ''ClusterPolicyReport'', schema_pkg_api_wgpolicyk8sio_v1alpha2_ClusterPolicyReport ref),
      (wgpolicy ''ClusterPolicyReportList'', schema_pkg_api_wgpolicyk8sio_v1alpha2_ClusterPolicyReportList ref),
      (wgpolicy ''PolicyReport'', schema_pkg_api_wgpolicyk8sio_v1alpha2_PolicyReport ref),
      (wgpolicy ''PolicyReportList'', schema_pkg_api_wgpolicyk8sio_v1alpha2_PolicyReportList ref),
      (wgpolicy ''PolicyReportResult'', schema_pkg_api_wgpolicyk8sio_v1alpha2_PolicyReportResult ref),
      (wgpolicy ''PolicyReportSummary'', schema_pkg_api_wgpolicyk8sio_v1alpha2_PolicyReportSummary ref)]"

definition GetOpenAPIDefinitions ::
  "openapi_lib \<Rightarrow> (string \<Rightarrow> string) \<Rightarrow> (string \<times> OpenAPIDefinition) list" where
  "GetOpenAPIDefinitions lib ref =
     GetOpenAPIDefinitions_part1 lib ref @
     GetOpenAPIDefinitions_part2 ref @
     GetOpenAPIDefinitions_part3 lib ref"

lemmas table_defs = GetOpenAPIDefinitions_def GetOpenAPIDefinitions_part1_def GetOpenAPIDefinitions_part2_def
  GetOpenAPIDefinitions_part3_def

subsection \<open>Its names\<close>

lemma name_packages [simp]:
  "core_v1 a \<noteq> meta_v1 b" "core_v1 a \<noteq> resource_pkg b" "core_v1 a \<noteq> runtime_pkg b"
  "core_v1 a \<noteq> version_pkg b" "core_v1 a \<noteq> intstr_pkg b"
  "core_v1 a \<noteq> kyverno_v1alpha2 b" "core_v1 a \<noteq> kyverno_reports b"
  "core_v1 a \<noteq> wgpolicy b" "meta_v1 a \<noteq> core_v1 b" "meta_v1 a \<noteq> resource_pkg b"
  "meta_v1 a \<noteq> runtime_pkg b" "meta_v1 a \<noteq> version_pkg b"
  "meta_v1 a \<noteq> intstr_pkg b" "meta_v1 a \<noteq> kyverno_v1alpha2 b"
  "meta_v1 a \<noteq> kyverno_reports b" "meta_v1 a \<noteq> wgpolicy b"
  "resource_pkg a \<noteq> core_v1 b" "resource_pkg a \<noteq> meta_v1 b"
  "resource_pkg a \<noteq> runtime_pkg b" "resource_pkg a \<noteq> version_pkg b"
  "resource_pkg a \<noteq> intstr_pkg b" "resource_pkg a \<noteq> kyverno_v1alpha2 b"
  "resource_pkg a \<noteq> kyverno_reports b" "resource_pkg a \<noteq> wgpolicy b"
  "runtime_pkg a \<noteq> core_v1 b" "runtime_pkg a \<noteq> meta_v1 b"
  "runtime_pkg a \<noteq> resource_pkg b" "runtime_pkg a \<noteq> version_pkg b"
  "runtime_pkg a \<noteq> intstr_pkg b" "runtime_pkg a \<noteq> kyverno_v1alpha2 b"
  "runtime_pkg a \<noteq> kyverno_reports b" "runtime_pkg a \<noteq> wgpolicy b"
  "version_pkg a \<noteq> core_v1 b" "version_pkg a \<noteq> meta_v1 b"
  "version_pkg a \<noteq> resource_pkg b" "version_pkg a \<noteq> runtime_pkg b"
  "version_pkg a \<noteq> intstr_pkg b" "version_pkg a \<noteq> kyverno_v1alpha2 b"
  "version_pkg a \<noteq> kyverno_reports b" "version_pkg a \<noteq> wgpolicy b"
  "intstr_pkg a \<noteq> core_v1 b" "intstr_pkg a \<noteq> meta_v1 b"
  "intstr_pkg a \<noteq> resource_pkg b" "intstr_pkg a \<noteq> runtime_pkg b"
  "intstr_pkg a \<noteq> version_pkg b" "intstr_pkg a \<noteq> kyverno_v1alpha2 b"
  "intstr_pkg a \<noteq> kyverno_reports b" "intstr_pkg a \<noteq> wgpolicy b"
  "kyverno_v1alpha2 a \<noteq> core_v1 b" "kyverno_v1alpha2 a \<noteq> meta_v1 b"
  "kyverno_v1alpha2 a \<noteq> resource_pkg b" "kyverno_v1alpha2 a \<noteq> runtime_pkg b"
  "kyverno_v1alpha2 a \<noteq> version_pkg b" "kyverno_v1alpha2 a \<noteq> intstr_pkg b"
  "kyverno_v1alpha2 a \<noteq> kyverno_reports b" "kyverno_v1alpha2 a \<noteq> wgpolicy b"
  "kyverno_reports a \<noteq> core_v1 b" "kyverno_reports a \<noteq> meta_v1 b"
  "kyverno_reports a \<noteq> resource_pkg b" "kyverno_reports a \<noteq> runtime_pkg b"
  "kyverno_reports a \<noteq> version_pkg b" "kyverno_reports a \<noteq> intstr_pkg b"
  "kyverno_reports a \<noteq> kyverno_v1alpha2 b" "kyverno_reports a \<noteq> wgpolicy b"
  "wgpolicy a \<noteq> core_v1 b" "wgpolicy a \<noteq> meta_v1 b" "wgpolicy a \<noteq> resource_pkg b"
  "wgpolicy a \<noteq> runtime_pkg b" "wgpolicy a \<noteq> version_pkg b"
  "wgpolicy a \<noteq> intstr_pkg b" "wgpolicy a \<noteq> kyverno_v1alpha2 b"
  "wgpolicy a \<noteq> kyverno_reports b"
  by (simp_all add: name_defs)

definition kyverno_v1alpha2_names :: "string list" where
  "kyverno_v1alpha2_names = [
     ''ClusterPolicyReport'', ''ClusterPolicyReportList'', ''PolicyReport'', ''PolicyReportList'',
     ''PolicyReportResult'', ''PolicyReportSummary'']"

definition kyverno_reports_names :: "string list" where
  "kyverno_reports_names = [
     ''ClusterEphemeralReport'', ''ClusterEphemeralReportList'', ''EphemeralReport'',
     ''EphemeralReportList'', ''EphemeralReportSpec'']"

definition core_v1_names :: "string list" where
  "core_v1_names = [
     ''AWSElasticBlockStoreVolumeSource'', ''Affinity'', ''AppArmorProfile'', ''AttachedVolume'',
     ''AvoidPods'', ''AzureDiskVolumeSource'', ''AzureFilePersistentVolumeSource'',
     ''AzureFileVolumeSource'', ''Binding'', ''CSIPersistentVolumeSource'', ''CSIVolumeSource'',
     ''Capabilities'', ''CephFSPersistentVolumeSource'', ''CephFSVolumeSource'',
     ''CinderPersistentVolumeSource'', ''CinderVolumeSource'', ''ClientIPConfig'',
     ''ClusterTrustBundleProjection'', ''ComponentCondition'', ''ComponentStatus'',
     ''ComponentStatusList'', ''ConfigMap'', ''ConfigMapEnvSource'', ''ConfigMapKeySelector'',
     ''ConfigMapList'', ''ConfigMapNodeConfigSource'', ''ConfigMapProjection'',
     ''ConfigMapVolumeSource'', ''Container'', ''ContainerImage'', ''ContainerPort'',
     ''ContainerResizePolicy'', ''ContainerState'', ''ContainerStateRunning'',
     ''ContainerStateTerminated'', ''ContainerStateWaiting'', ''ContainerStatus'', ''ContainerUser'',
     ''DaemonEndpoint'', ''DownwardAPIProjection'', ''DownwardAPIVolumeFile'',
     ''DownwardAPIVolumeSource'', ''EmptyDirVolumeSource'', ''EndpointAddress'', ''EndpointPort'',
     ''EndpointSubset'', ''Endpoints'', ''EndpointsList'', ''EnvFromSource'', ''EnvVar'',
     ''EnvVarSource'', ''EphemeralContainer'', ''EphemeralContainerCommon'', ''EphemeralVolumeSource'',
     ''Event'', ''EventList'', ''EventSeries'', ''EventSource'', ''ExecAction'', ''FCVolumeSource'',
     ''FlexPersistentVolumeSource'', ''FlexVolumeSource'', ''FlockerVolumeSource'',
     ''GCEPersistentDiskVolumeSource'', ''GRPCAction'', ''GitRepoVolumeSource'',
     ''GlusterfsPersistentVolumeSource'', ''GlusterfsVolumeSource'', ''HTTPGetAction'', ''HTTPHeader'',
     ''HostAlias'', ''HostIP'', ''HostPathVolumeSource'', ''ISCSIPersistentVolumeSource'',
     ''ISCSIVolumeSource'', ''ImageVolumeSource'', ''KeyToPath'', ''Lifecycle'', ''LifecycleHandler'',
     ''LimitRange'', ''LimitRangeItem'', ''LimitRangeList'', ''LimitRangeSpec'',
     ''LinuxContainerUser'', ''List'', ''LoadBalancerIngress'', ''LoadBalancerStatus'',
     ''LocalObjectReference'', ''LocalVolumeSource'', ''ModifyVolumeStatus'', ''NFSVolumeSource'',
     ''Namespace'', ''NamespaceCondition'', ''NamespaceList'', ''NamespaceSpec'', ''NamespaceStatus'',
     ''Node'', ''NodeAddress'', ''NodeAffinity'', ''NodeCondition'', ''NodeConfigSource'',
     ''NodeConfigStatus'', ''NodeDaemonEndpoints'', ''NodeFeatures'', ''NodeList'',
     ''NodeProxyOptions'', ''NodeRuntimeHandler'', ''NodeRuntimeHandlerFeatures'', ''NodeSelector'',
     ''NodeSelectorRequirement'', ''NodeSelectorTerm'', ''NodeSpec'', ''NodeStatus'',
     ''NodeSystemInfo'', ''ObjectFieldSelector'', ''ObjectReference'', ''PersistentVolume'',
     ''PersistentVolumeClaim'', ''PersistentVolumeClaimCondition'', ''PersistentVolumeClaimList'',
     ''PersistentVolumeClaimSpec'', ''PersistentVolumeClaimStatus'', ''PersistentVolumeClaimTemplate'',
     ''PersistentVolumeClaimVolumeSource'', ''PersistentVolumeList'', ''PersistentVolumeSource'',
     ''PersistentVolumeSpec'', ''PersistentVolumeStatus'', ''PhotonPersistentDiskVolumeSource'',
     ''Pod'', ''PodAffinity'', ''PodAffinityTerm'', ''PodAntiAffinity'', ''PodAttachOptions'',
     ''PodCondition'', ''PodDNSConfig'', ''PodDNSConfigOption'', ''PodExecOptions'', ''PodIP'',
     ''PodList'', ''PodLogOptions'', ''PodOS'', ''PodPortForwardOptions'', ''PodProxyOptions'',
     ''PodReadinessGate'', ''PodResourceClaim'', ''PodResourceClaimStatus'', ''PodSchedulingGate'',
     ''PodSecurityContext'', ''PodSignature'', ''PodSpec'', ''PodStatus'', ''PodStatusResult'',
     ''PodTemplate'', ''PodTemplateList'', ''PodTemplateSpec'', ''PortStatus'',
     ''PortworxVolumeSource'', ''PreferAvoidPodsEntry'', ''PreferredSchedulingTerm'', ''Probe'',
     ''ProbeHandler'', ''ProjectedVolumeSource'', ''QuobyteVolumeSource'',
     ''RBDPersistentVolumeSource'', ''RBDVolumeSource'', ''RangeAllocation'',
     ''ReplicationController'', ''ReplicationControllerCondition'', ''ReplicationControllerList'',
     ''ReplicationControllerSpec'', ''ReplicationControllerStatus'', ''ResourceClaim'',
     ''ResourceFieldSelector'', ''ResourceHealth'', ''ResourceQuota'', ''ResourceQuotaList'',
     ''ResourceQuotaSpec'', ''ResourceQuotaStatus'', ''ResourceRequirements'', ''ResourceStatus'',
     ''SELinuxOptions'', ''ScaleIOPersistentVolumeSource'', ''ScaleIOVolumeSource'', ''ScopeSelector'',
     ''ScopedResourceSelectorRequirement'', ''SeccompProfile'', ''Secret'', ''SecretEnvSource'',
     ''SecretKeySelector'', ''SecretList'', ''SecretProjection'', ''SecretReference'',
     ''SecretVolumeSource'', ''SecurityContext'', ''SerializedReference'', ''Service'',
     ''ServiceAccount'', ''ServiceAccountList'', ''ServiceAccountTokenProjection'', ''ServiceList'',
     ''ServicePort'', ''ServiceProxyOptions'', ''ServiceSpec'', ''ServiceStatus'',
     ''SessionAffinityConfig'', ''SleepAction'', ''StorageOSPersistentVolumeSource'',
     ''StorageOSVolumeSource'', ''Sysctl'', ''TCPSocketAction'', ''Taint'', ''Toleration'',
     ''TopologySelectorLabelRequirement'', ''TopologySelectorTerm'', ''TopologySpreadConstraint'',
     ''TypedLocalObjectReference'', ''TypedObjectReference'', ''Volume'', ''VolumeDevice'',
     ''VolumeMount'', ''VolumeMountStatus'', ''VolumeNodeAffinity'', ''VolumeProjection'',
     ''VolumeResourceRequirements'', ''VolumeSource'', ''VsphereVirtualDiskVolumeSource'',
     ''WeightedPodAffinityTerm'', ''WindowsSecurityContextOptions'']"

definition resource_pkg_names :: "string list" where
  "resource_pkg_names = [
     ''Quantity'', ''int64Amount'']"

definition meta_v1_names :: "string list" where
  "meta_v1_names = [
     ''APIGroup'', ''APIGroupList'', ''APIResource'', ''APIResourceList'', ''APIVersions'',
     ''ApplyOptions'', ''Condition'', ''CreateOptions'', ''DeleteOptions'', ''Duration'',
     ''FieldSelectorRequirement'', ''FieldsV1'', ''GetOptions'', ''GroupKind'', ''GroupResource'',
     ''GroupVersion'', ''GroupVersionForDiscovery'', ''GroupVersionKind'', ''GroupVersionResource'',
     ''InternalEvent'', ''LabelSelector'', ''LabelSelectorRequirement'', ''List'', ''ListMeta'',
     ''ListOptions'', ''ManagedFieldsEntry'', ''MicroTime'', ''ObjectMeta'', ''OwnerReference'',
     ''PartialObjectMetadata'', ''PartialObjectMetadataList'', ''Patch'', ''PatchOptions'',
     ''Preconditions'', ''RootPaths'', ''ServerAddressByClientCIDR'', ''Status'', ''StatusCause'',
     ''StatusDetails'', ''Table'', ''TableColumnDefinition'', ''TableOptions'', ''TableRow'',
     ''TableRowCondition'', ''Time'', ''Timestamp'', ''TypeMeta'', ''UpdateOptions'', ''WatchEvent'']"

definition runtime_pkg_names :: "string list" where
  "runtime_pkg_names = [
     ''RawExtension'', ''TypeMeta'', ''Unknown'']"

definition version_pkg_names :: "string list" where
  "version_pkg_names = [
     ''Info'']"

definition wgpolicy_names :: "string list" where
  "wgpolicy_names = [
     ''ClusterPolicyReport'', ''ClusterPolicyReportList'', ''PolicyReport'', ''PolicyReportList'',
     ''PolicyReportResult'', ''PolicyReportSummary'']"

lemmas names_defs = kyverno_v1alpha2_names_def kyverno_reports_names_def core_v1_names_def resource_pkg_names_def meta_v1_names_def runtime_pkg_names_def version_pkg_names_def wgpolicy_names_def

lemma table_names:
  "map fst (GetOpenAPIDefinitions lib ref) =
     map kyverno_v1alpha2 kyverno_v1alpha2_names @ map kyverno_reports kyverno_reports_names @ map core_v1 core_v1_names @ map resource_pkg resource_pkg_names @ map meta_v1 meta_v1_names @ map runtime_pkg runtime_pkg_names @ map version_pkg version_pkg_names @ map wgpolicy wgpolicy_names"
  by (simp add: table_defs names_defs)

text \<open>The generator writes the names in ascending order, so no two are the same.\<close>

lemma ascending_distinct: "successively (<) xs \<Longrightarrow> distinct (xs :: string list)"
  by (simp add: successively_conv_sorted_wrt [OF transp_on_less] strict_sorted_iff)

lemma table_distinct: "distinct (map fst (GetOpenAPIDefinitions lib ref))"
proof -
  have "successively (<) core_v1_names" "successively (<) meta_v1_names"
    by code_simp+
  then have "distinct core_v1_names" "distinct meta_v1_names" by (blast intro: ascending_distinct)+
  moreover have "distinct kyverno_v1alpha2_names" "distinct kyverno_reports_names" "distinct resource_pkg_names"
    "distinct runtime_pkg_names" "distinct version_pkg_names" "distinct wgpolicy_names"
    by (simp_all add: names_defs)
  ultimately show ?thesis
    unfolding table_names by (auto simp: distinct_map inj_on_def)
qed

abbreviation openapi_names :: "openapi_lib \<Rightarrow> (string \<Rightarrow> string) \<Rightarrow> string set" where
  "openapi_names lib ref \<equiv> fst ` set (GetOpenAPIDefinitions lib ref)"

definition known_names :: "string set" where
  "known_names = kyverno_v1alpha2 ` set kyverno_v1alpha2_names \<union> kyverno_reports ` set kyverno_reports_names \<union>
     core_v1 ` set core_v1_names \<union> resource_pkg ` set resource_pkg_names \<union> meta_v1 ` set meta_v1_names \<union>
     runtime_pkg ` set runtime_pkg_names \<union> version_pkg ` set version_pkg_names \<union> wgpolicy ` set wgpolicy_names"

lemma openapi_names_eq: "openapi_names lib ref = known_names"
proof -
  have "openapi_names lib ref = set (map fst (GetOpenAPIDefinitions lib ref))" by simp
  also have "\<dots> = known_names" unfolding table_names known_names_def by (simp add: Un_assoc)
  finally show ?thesis .
qed

lemma in_known [simp]:
  "core_v1 n \<in> known_names \<longleftrightarrow> n \<in> set core_v1_names"
  "meta_v1 n \<in> known_names \<longleftrightarrow> n \<in> set meta_v1_names"
  "resource_pkg n \<in> known_names \<longleftrightarrow> n \<in> set resource_pkg_names"
  "runtime_pkg n \<in> known_names \<longleftrightarrow> n \<in> set runtime_pkg_names"
  "version_pkg n \<in> known_names \<longleftrightarrow> n \<in> set version_pkg_names"
  "kyverno_v1alpha2 n \<in> known_names \<longleftrightarrow> n \<in> set kyverno_v1alpha2_names"
  "kyverno_reports n \<in> known_names \<longleftrightarrow> n \<in> set kyverno_reports_names"
  "wgpolicy n \<in> known_names \<longleftrightarrow> n \<in> set wgpolicy_names"
  "intstr_pkg n \<notin> known_names"
  unfolding known_names_def by (auto simp: image_iff)

subsection \<open>Its definitions\<close>

text \<open>
  C39. The generated table has no name twice, and every definition in it is sound (the one for
  quantities, which a library builds, if the library's is): property names are distinct, required
  properties exist, references stand alone, and the declared dependencies are exactly the names the
  schema refers to, whatever the callback makes of them.
\<close>

theorem openapi_definitions_sound:
  "distinct (map fst (GetOpenAPIDefinitions lib ref)) \<and>
   (list_all (\<lambda>p. def_ok ref (snd p)) (GetOpenAPIDefinitions lib ref) \<longleftrightarrow>
      def_ok ref (Quantity_definition lib))"
  by (intro conjI table_distinct)
    (simp add: table_defs meta_ok core1_ok core2_ok core3_ok core4_ok)

subsection \<open>What refers to what\<close>

definition depends :: "openapi_lib \<Rightarrow> (string \<Rightarrow> string) \<Rightarrow> (string \<times> string) set" where
  "depends lib ref = {(n, m). \<exists>d. (n, d) \<in> set (GetOpenAPIDefinitions lib ref) \<and> m \<in> set (Dependencies d)}"

text \<open>The kinds the server installs (\<^verbatim>\<open>pkg/api/install.go\<close>) and their lists.\<close>

definition served_kinds :: "string list" where
  "served_kinds = [
     wgpolicy ''PolicyReport'', wgpolicy ''PolicyReportList'', wgpolicy ''ClusterPolicyReport'',
     wgpolicy ''ClusterPolicyReportList'', kyverno_reports ''EphemeralReport'',
     kyverno_reports ''EphemeralReportList'', kyverno_reports ''ClusterEphemeralReport'',
     kyverno_reports ''ClusterEphemeralReportList'']"

definition served_closure :: "string list" where
  "served_closure = served_kinds @ [
     meta_v1 ''ObjectMeta'', core_v1 ''ObjectReference'', meta_v1 ''LabelSelector'',
     wgpolicy ''PolicyReportSummary'', wgpolicy ''PolicyReportResult'', meta_v1 ''ListMeta'',
     kyverno_reports ''EphemeralReportSpec'', meta_v1 ''Time'', meta_v1 ''OwnerReference'',
     meta_v1 ''ManagedFieldsEntry'', meta_v1 ''LabelSelectorRequirement'', meta_v1 ''Timestamp'',
     kyverno_v1alpha2 ''PolicyReportSummary'', kyverno_v1alpha2 ''PolicyReportResult'',
     meta_v1 ''FieldsV1'']"

text \<open>The names that are referred to, in ascending order too: a subsequence of the names defined.\<close>

lemma known_subseq: "subseq xs ys \<Longrightarrow> list_all (\<lambda>n. n \<in> set ys) xs"
  by (auto simp: list_all_iff dest: list_emb_set)

lemma core_v1_known_all: "list_all (\<lambda>n. n \<in> set core_v1_names) [
    ''AWSElasticBlockStoreVolumeSource'', ''Affinity'', ''AppArmorProfile'', ''AttachedVolume'',
    ''AzureDiskVolumeSource'', ''AzureFilePersistentVolumeSource'', ''AzureFileVolumeSource'',
    ''CSIPersistentVolumeSource'', ''CSIVolumeSource'', ''Capabilities'',
    ''CephFSPersistentVolumeSource'', ''CephFSVolumeSource'', ''CinderPersistentVolumeSource'',
    ''CinderVolumeSource'', ''ClientIPConfig'', ''ClusterTrustBundleProjection'',
    ''ComponentCondition'', ''ComponentStatus'', ''ConfigMap'', ''ConfigMapEnvSource'',
    ''ConfigMapKeySelector'', ''ConfigMapNodeConfigSource'', ''ConfigMapProjection'',
    ''ConfigMapVolumeSource'', ''Container'', ''ContainerImage'', ''ContainerPort'',
    ''ContainerResizePolicy'', ''ContainerState'', ''ContainerStateRunning'',
    ''ContainerStateTerminated'', ''ContainerStateWaiting'', ''ContainerStatus'', ''ContainerUser'',
    ''DaemonEndpoint'', ''DownwardAPIProjection'', ''DownwardAPIVolumeFile'',
    ''DownwardAPIVolumeSource'', ''EmptyDirVolumeSource'', ''EndpointAddress'', ''EndpointPort'',
    ''EndpointSubset'', ''Endpoints'', ''EnvFromSource'', ''EnvVar'', ''EnvVarSource'',
    ''EphemeralContainer'', ''EphemeralVolumeSource'', ''Event'', ''EventSeries'', ''EventSource'',
    ''ExecAction'', ''FCVolumeSource'', ''FlexPersistentVolumeSource'', ''FlexVolumeSource'',
    ''FlockerVolumeSource'', ''GCEPersistentDiskVolumeSource'', ''GRPCAction'',
    ''GitRepoVolumeSource'', ''GlusterfsPersistentVolumeSource'', ''GlusterfsVolumeSource'',
    ''HTTPGetAction'', ''HTTPHeader'', ''HostAlias'', ''HostIP'', ''HostPathVolumeSource'',
    ''ISCSIPersistentVolumeSource'', ''ISCSIVolumeSource'', ''ImageVolumeSource'', ''KeyToPath'',
    ''Lifecycle'', ''LifecycleHandler'', ''LimitRange'', ''LimitRangeItem'', ''LimitRangeSpec'',
    ''LinuxContainerUser'', ''LoadBalancerIngress'', ''LoadBalancerStatus'', ''LocalObjectReference'',
    ''LocalVolumeSource'', ''ModifyVolumeStatus'', ''NFSVolumeSource'', ''Namespace'',
    ''NamespaceCondition'', ''NamespaceSpec'', ''NamespaceStatus'', ''Node'', ''NodeAddress'',
    ''NodeAffinity'', ''NodeCondition'', ''NodeConfigSource'', ''NodeConfigStatus'',
    ''NodeDaemonEndpoints'', ''NodeFeatures'', ''NodeRuntimeHandler'', ''NodeRuntimeHandlerFeatures'',
    ''NodeSelector'', ''NodeSelectorRequirement'', ''NodeSelectorTerm'', ''NodeSpec'', ''NodeStatus'',
    ''NodeSystemInfo'', ''ObjectFieldSelector'', ''ObjectReference'', ''PersistentVolume'',
    ''PersistentVolumeClaim'', ''PersistentVolumeClaimCondition'', ''PersistentVolumeClaimSpec'',
    ''PersistentVolumeClaimStatus'', ''PersistentVolumeClaimTemplate'',
    ''PersistentVolumeClaimVolumeSource'', ''PersistentVolumeSpec'', ''PersistentVolumeStatus'',
    ''PhotonPersistentDiskVolumeSource'', ''Pod'', ''PodAffinity'', ''PodAffinityTerm'',
    ''PodAntiAffinity'', ''PodCondition'', ''PodDNSConfig'', ''PodDNSConfigOption'', ''PodIP'',
    ''PodOS'', ''PodReadinessGate'', ''PodResourceClaim'', ''PodResourceClaimStatus'',
    ''PodSchedulingGate'', ''PodSecurityContext'', ''PodSignature'', ''PodSpec'', ''PodStatus'',
    ''PodTemplate'', ''PodTemplateSpec'', ''PortStatus'', ''PortworxVolumeSource'',
    ''PreferAvoidPodsEntry'', ''PreferredSchedulingTerm'', ''Probe'', ''ProjectedVolumeSource'',
    ''QuobyteVolumeSource'', ''RBDPersistentVolumeSource'', ''RBDVolumeSource'',
    ''ReplicationController'', ''ReplicationControllerCondition'', ''ReplicationControllerSpec'',
    ''ReplicationControllerStatus'', ''ResourceClaim'', ''ResourceFieldSelector'', ''ResourceHealth'',
    ''ResourceQuota'', ''ResourceQuotaSpec'', ''ResourceQuotaStatus'', ''ResourceRequirements'',
    ''ResourceStatus'', ''SELinuxOptions'', ''ScaleIOPersistentVolumeSource'', ''ScaleIOVolumeSource'',
    ''ScopeSelector'', ''ScopedResourceSelectorRequirement'', ''SeccompProfile'', ''Secret'',
    ''SecretEnvSource'', ''SecretKeySelector'', ''SecretProjection'', ''SecretReference'',
    ''SecretVolumeSource'', ''SecurityContext'', ''Service'', ''ServiceAccount'',
    ''ServiceAccountTokenProjection'', ''ServicePort'', ''ServiceSpec'', ''ServiceStatus'',
    ''SessionAffinityConfig'', ''SleepAction'', ''StorageOSPersistentVolumeSource'',
    ''StorageOSVolumeSource'', ''Sysctl'', ''TCPSocketAction'', ''Taint'', ''Toleration'',
    ''TopologySelectorLabelRequirement'', ''TopologySpreadConstraint'', ''TypedLocalObjectReference'',
    ''TypedObjectReference'', ''Volume'', ''VolumeDevice'', ''VolumeMount'', ''VolumeMountStatus'',
    ''VolumeNodeAffinity'', ''VolumeProjection'', ''VolumeResourceRequirements'',
    ''VsphereVirtualDiskVolumeSource'', ''WeightedPodAffinityTerm'', ''WindowsSecurityContextOptions'']"
  by (rule known_subseq) code_simp

lemma meta_v1_known_all: "list_all (\<lambda>n. n \<in> set meta_v1_names) [
    ''APIGroup'', ''APIResource'', ''Condition'', ''FieldsV1'', ''GroupVersionForDiscovery'',
    ''LabelSelector'', ''LabelSelectorRequirement'', ''ListMeta'', ''ManagedFieldsEntry'',
    ''MicroTime'', ''ObjectMeta'', ''OwnerReference'', ''PartialObjectMetadata'', ''Preconditions'',
    ''ServerAddressByClientCIDR'', ''StatusCause'', ''StatusDetails'', ''TableColumnDefinition'',
    ''TableRow'', ''TableRowCondition'', ''Time'', ''Timestamp'']"
  by (rule known_subseq) code_simp

lemma small_known:
  "''ClusterPolicyReport'' \<in> set kyverno_v1alpha2_names"
  "''PolicyReport'' \<in> set kyverno_v1alpha2_names"
  "''PolicyReportResult'' \<in> set kyverno_v1alpha2_names"
  "''PolicyReportSummary'' \<in> set kyverno_v1alpha2_names"
  "''ClusterEphemeralReport'' \<in> set kyverno_reports_names"
  "''EphemeralReport'' \<in> set kyverno_reports_names"
  "''EphemeralReportSpec'' \<in> set kyverno_reports_names" "''Quantity'' \<in> set resource_pkg_names"
  "''RawExtension'' \<in> set runtime_pkg_names" "''ClusterPolicyReport'' \<in> set wgpolicy_names"
  "''PolicyReport'' \<in> set wgpolicy_names" "''PolicyReportResult'' \<in> set wgpolicy_names"
  "''PolicyReportSummary'' \<in> set wgpolicy_names"
  "''Object'' \<notin> set runtime_pkg_names"
  by (simp_all add: names_defs)

lemmas known = small_known core_v1_known_all [unfolded list.pred_inject(2)] meta_v1_known_all [unfolded list.pred_inject(2)]

lemma table_dependencies:
  assumes "Dependencies (Quantity_definition lib) = []"
  shows "list_all (\<lambda>p. set (Dependencies (snd p)) \<subseteq>
      insert (intstr_pkg ''IntOrString'') (insert (runtime_pkg ''Object'') known_names))
    (GetOpenAPIDefinitions lib ref)"
  by (simp add: table_defs assms known meta_deps core1_deps core2_deps core3_deps core4_deps)

lemma table_member:
  "(core_v1 ''HTTPGetAction'', schema_k8sio_api_core_v1_HTTPGetAction ref) \<in> set (GetOpenAPIDefinitions lib ref)"
  "(meta_v1 ''InternalEvent'', schema_pkg_apis_meta_v1_InternalEvent ref) \<in> set (GetOpenAPIDefinitions lib ref)"
  by (simp_all add: table_defs)

text \<open>
  The definitions refer to two names that the table does not define, the integer-or-string type
  and the interface \<^verbatim>\<open>runtime.Object\<close>, and to no other.
\<close>

lemma openapi_dangling:
  assumes "Dependencies (Quantity_definition lib) = []"
  shows "(\<Union>p \<in> set (GetOpenAPIDefinitions lib ref). set (Dependencies (snd p))) - openapi_names lib ref =
    {intstr_pkg ''IntOrString'', runtime_pkg ''Object''}"
proof
  show "(\<Union>p \<in> set (GetOpenAPIDefinitions lib ref). set (Dependencies (snd p))) - openapi_names lib ref \<subseteq>
      {intstr_pkg ''IntOrString'', runtime_pkg ''Object''}"
    using table_dependencies [OF assms] unfolding openapi_names_eq list_all_iff by blast
  have "intstr_pkg ''IntOrString'' \<in> set (Dependencies (schema_k8sio_api_core_v1_HTTPGetAction ref))"
    "runtime_pkg ''Object'' \<in> set (Dependencies (schema_pkg_apis_meta_v1_InternalEvent ref))"
    by (simp_all add: core2_deps meta_deps)
  with table_member show "{intstr_pkg ''IntOrString'', runtime_pkg ''Object''} \<subseteq>
      (\<Union>p \<in> set (GetOpenAPIDefinitions lib ref). set (Dependencies (snd p))) - openapi_names lib ref"
    unfolding openapi_names_eq by (force simp: known)
qed

definition sample_openapi_lib :: openapi_lib where
  "sample_openapi_lib =
     \<lparr>Time_OpenAPISchemaType = [''string''], Time_OpenAPISchemaFormat = ''date-time'',
      MicroTime_OpenAPISchemaType = [''string''], MicroTime_OpenAPISchemaFormat = ''date-time'',
      Duration_OpenAPISchemaType = [''string''], Duration_OpenAPISchemaFormat = [],
      AzureDataDiskCachingReadWrite = ''ReadWrite'', AzureSharedBlobDisk = ''Shared'',
      Quantity_definition = openapi str []\<rparr>"

text \<open>The definitions of the served kinds and all they need.\<close>

lemma in_closure:
  "wgpolicy n \<in> set served_closure \<longleftrightarrow> n \<in> {''PolicyReport'', ''PolicyReportList'', ''ClusterPolicyReport'', ''ClusterPolicyReportList'', ''PolicyReportSummary'', ''PolicyReportResult''}"
  "kyverno_reports n \<in> set served_closure \<longleftrightarrow> n \<in> {''EphemeralReport'', ''EphemeralReportList'', ''ClusterEphemeralReport'', ''ClusterEphemeralReportList'', ''EphemeralReportSpec''}"
  "meta_v1 n \<in> set served_closure \<longleftrightarrow> n \<in> {''ObjectMeta'', ''LabelSelector'', ''ListMeta'', ''Time'', ''OwnerReference'', ''ManagedFieldsEntry'', ''LabelSelectorRequirement'', ''Timestamp'', ''FieldsV1''}"
  "core_v1 n \<in> set served_closure \<longleftrightarrow> n \<in> {''ObjectReference''}"
  "kyverno_v1alpha2 n \<in> set served_closure \<longleftrightarrow> n \<in> {''PolicyReportSummary'', ''PolicyReportResult''}"
  "runtime_pkg n \<notin> set served_closure"
  "resource_pkg n \<notin> set served_closure"
  "version_pkg n \<notin> set served_closure"
  "intstr_pkg n \<notin> set served_closure"
  by (simp_all add: served_closure_def served_kinds_def disj_ac)

lemma served_closed:
  "list_all (\<lambda>p. fst p \<in> set served_closure \<longrightarrow> set (Dependencies (snd p)) \<subseteq> set served_closure)
    (GetOpenAPIDefinitions lib ref)"
  by (simp add: table_defs in_closure meta_deps core2_deps)

lemma served_known: "set served_closure \<subseteq> known_names"
  by (simp add: served_closure_def served_kinds_def known wgpolicy_names_def kyverno_reports_names_def)

text \<open>
  C38. Everything the schema of a served kind or of its list refers to, directly or through others,
  is defined in the table: building the API description from it meets no unknown name.
\<close>

theorem openapi_served_closed:
  assumes "n \<in> set served_kinds" and "(n, m) \<in> (depends lib ref)\<^sup>*"
  shows "m \<in> openapi_names lib ref"
proof -
  from assms(2) have "m \<in> set served_closure"
  proof (induction rule: rtrancl_induct)
    case base
    from assms(1) show ?case by (simp add: served_closure_def)
  next
    case (step m m')
    with served_closed [of lib ref] show ?case by (force simp: depends_def list_all_iff)
  qed
  with served_known openapi_names_eq show ?thesis by blast
qed

theorem openapi_served_closed_witness:
  "wgpolicy ''PolicyReportResult'' \<in> openapi_names sample_openapi_lib id"
proof (rule openapi_served_closed)
  show "wgpolicy ''PolicyReport'' \<in> set served_kinds" by (simp add: served_kinds_def)
  have "(wgpolicy ''PolicyReport'', schema_pkg_api_wgpolicyk8sio_v1alpha2_PolicyReport id)
      \<in> set (GetOpenAPIDefinitions sample_openapi_lib id)"
    by (simp add: table_defs)
  moreover have "wgpolicy ''PolicyReportResult''
      \<in> set (Dependencies (schema_pkg_api_wgpolicyk8sio_v1alpha2_PolicyReport id))"
    by (simp add: meta_deps)
  ultimately show "(wgpolicy ''PolicyReport'', wgpolicy ''PolicyReportResult'') \<in> (depends sample_openapi_lib id)\<^sup>*"
    unfolding depends_def by blast
qed

end
