(* ===== verification/Spec2Isabelle.thy ===== *)
theory Spec2Isabelle
  imports Start Backends ServerEvents ProcessEntry OpenApiMap
begin

text \<open>
  A model of the Kyverno reports server (\<^verbatim>\<open>github.com/kyverno/reports-server\<close>) and its correctness.

  The program is an aggregated Kubernetes API server. It takes over four kinds of reports (policy
  reports, cluster policy reports, ephemeral reports, cluster ephemeral reports) from the etcd of the
  cluster and keeps them in a storage of its own. A request reaches a REST store of \<^verbatim>\<open>pkg/api\<close>, which
  takes a resource version from the counter (\<^verbatim>\<open>pkg/storage/versioning.go\<close>), calls the back end
  (\<^verbatim>\<open>pkg/storage/{etcd,db,inmemory}\<close>) and broadcasts the change to the watches. At the start, the
  server copies what the cluster already has and leaves goroutines behind that copy later changes
  (\<^verbatim>\<open>pkg/server/config.go\<close>).

  \<^bold>\<open>The model.\<close> An operation is a function of the state, returning an error or a value and the new state
  (types \<open>op\<close> and \<open>eop\<close> of \<open>Types\<close>); a panic is the error \<open>Panic\<close>. Resource versions and
  generations are 64-bit words, so they wrap as in Go. Each store holds its mutex for the whole of an
  operation, so an operation of a store is one step. Requests are modelled at two grains. In the
  inductive relations \<open>polr_step\<close>, ... (one kind) and \<open>server_step\<close>, \<open>watcher_step\<close> (the whole server) a
  request is one step, and what is shown there holds of histories of requests. A handler takes no lock of its
  own, though: in \<open>Interleave\<close> it is a program whose steps are its calls of the storage, the counter and
  the broadcaster, and in \<open>ServerThreads\<close> any number of requests, on the same kind or on different ones,
  interleave in any way. A call of a store is one step there too, though the store of another kind could
  run in the middle of it: the kinds share no key and no table, which is what \<open>server_storage\<close> says.

  Code outside the repository is a parameter: the etcd client (\<open>KV\<close>), the SQL driver (\<open>sqlDB\<close>), JSON
  and the registered types (\<open>TypeLib\<close>), LZW compression and the order in which Go visits a map
  (\<open>memLib\<close>), the clock, UUIDs and random names (\<open>request_env\<close>), the clients of the cluster (\<open>cluster\<close>),
  the generic API server (\<open>machinery\<close>) and the host (\<open>host\<close>). What the code relies on are the predicates
  \<open>etcd_contract\<close>, \<open>json_roundtrip\<close>, \<open>mem_contract\<close>, \<open>read_contract\<close> and \<open>write_contract\<close> (the SQL tables, inside
  \<open>pg_inv\<close>) and \<open>tables_apart\<close>.
  Each is met by a concrete instance in the examples that go with the theorems. Recursion is structural or
  has a measure throughout; there is no fuel, and no handler runs for ever. The ten attempts of \<open>pingWithRetry\<close> are a
  recursion on their number.

  \<^bold>\<open>The theories.\<close>
  \<^item> \<open>Prelude\<close>, \<open>GoStd\<close>, \<open>Types\<close>: shared lemmas; what the source uses of the Go standard library (decimal
    numbers at 64 bits, \<^verbatim>\<open>strings.Split\<close>, URL escaping); the report types, errors, constants.
  \<^item> \<open>Versioning\<close> (\<^verbatim>\<open>pkg/storage/versioning.go\<close>): the counter. Its contract is the locale \<open>versioning\<close>: no
    version is handed out twice.
  \<^item> \<open>Metrics\<close> (the four monitoring files): counters and their registration.
  \<^item> \<open>StorageSpec\<close> (\<^verbatim>\<open>pkg/storage/api/interface.go\<close>): the interfaces, and the locale \<open>report_storage\<close>, the
    contract between the API and a back end: a store answers any sequence of calls as a finite map
    from keys to reports does. \<open>lenient\<close> back ends accept an update of a missing report.
  \<^item> \<open>Etcd\<close> (\<^verbatim>\<open>pkg/storage/etcd\<close>): the generic stores; keys are injective, the stores refine the map,
    and the four kinds that share the key space do not see each other.
  \<^item> \<open>InMemory\<close> (\<^verbatim>\<open>pkg/storage/inmemory\<close>): the compressed maps, their common laws as the locale
    \<open>compressed_map\<close>, and the four stores as refinements of the map.
  \<^item> \<open>MultiDB\<close>, \<open>Postgres\<close>, \<open>PgConnect\<close>, \<open>PgProps\<close> (\<^verbatim>\<open>pkg/storage/db\<close>): reads over shuffled replicas with
    the primary as the fallback; the statements and the four stores; connecting with retries and the
    connection string; refinement of the map, isolation of clusters that share a database.
  \<^item> \<open>Store\<close> (\<^verbatim>\<open>pkg/storage/store.go\<close>): the choice of the back end and the delegating methods.
  \<^item> \<open>ApiCommon\<close>, \<open>ApiTable\<close> (\<^verbatim>\<open>pkg/api/{annotate,filter,serializer,table}.go\<close>): annotation, selection by
    labels and versions, media types, tables.
  \<^item> \<open>RestSpec\<close>, \<open>RestProofs\<close>, \<open>RestTraces\<close>: the handlers of one kind, once, over a description of the kind;
    the locale \<open>rest_kind\<close> extends \<open>report_storage\<close>, and the lemmas about every handler and about every
    history of requests are proved in it.
  \<^item> \<open>ApiPolr\<close>, \<open>ApiCpolr\<close>, \<open>ApiEphr\<close>, \<open>ApiCephr\<close> (\<^verbatim>\<open>pkg/api/{polr,cpolr,ephr,cephr}.go\<close>): the handlers as the
    source has them, that they are instances of the general ones, and their properties.
  \<^item> \<open>SampleStore\<close>, \<open>SampleDb\<close>: a list as a back end and a database with the four tables, for examples.
  \<^item> \<open>Threads\<close>: programs of atomic actions, pools of them, and how they interleave. Every interleaving ends;
    the locale \<open>guarantee\<close> is the rule for reasoning about one thread at a time by what it relies on and what
    it guarantees; \<open>owes\<close> counts what each has done and not announced yet; the locale \<open>lifted\<close> carries a program on a part of the state over to all of it.
  \<^item> \<open>Interleave\<close>: the handlers of \<open>RestSpec\<close> as such programs. Run alone they are the handlers of
    \<open>RestSpec\<close>; the locale \<open>guarantee\<close> is interpreted on their state, and every handler keeps its
    invariant under interference. The locale \<open>framed_kind\<close> adds what its actions leave alone. \<open>Announced\<close>:
    a handler announces each storage call that succeeded, once.
  \<^item> \<open>Concurrent\<close>: what follows for a single kind on any back end. It also has two interleavings that
    go wrong: events in the opposite order of the writes, and a watch that misses a report.
  \<^item> \<open>ServerThreads\<close>: the handlers of the four stores, lifted to the state of the server. To the handlers of
    one kind, those of the other kinds are steps that only move the counter.
  \<^item> \<open>ServerSound\<close>: what follows for the whole server, on every storage that meets \<open>server_storage\<close>, and so on
    etcd and Postgres: storage, annotation and versions stay sound, writes are exclusive across the kinds,
    successful writes are announced. \<open>ServerEvents\<close>: each kind's log is a permutation of what happened.
    \<open>SampleServer\<close>: a storage of four lists, for its examples.
  \<^item> \<open>Install\<close> (\<^verbatim>\<open>pkg/api/install.go\<close>): which store serves which resource, and the registration of types.
  \<^item> \<open>OpenApi\<close>, \<open>OpenApiMeta\<close>, \<open>OpenApiCore1\<close> to \<open>OpenApiCore4\<close>, \<open>OpenApiMap\<close> (\<^verbatim>\<open>pkg/api/generated/openapi\<close>): the
    generated schemas, function by function, and their table. Each definition is well formed and declares
    what it refers to; what the served kinds need is complete.
  \<^item> \<open>Migration\<close> (\<open>Config.migration\<close> of \<^verbatim>\<open>pkg/server/config.go\<close>): the copy, the version counter, the goroutines.
  \<^item> \<open>System\<close>, \<open>EtcdServer\<close>, \<open>PgServer\<close>: the four REST stores and the goroutines over one storage and one
    counter; the locale \<open>server_storage\<close> says what the storage promises then, and is interpreted on
    etcd and on Postgres, the two back ends a server can start with.
  \<^item> \<open>Options\<close> (\<^verbatim>\<open>pkg/app/opts/options.go\<close>), \<open>Server\<close> (the rest of \<^verbatim>\<open>pkg/server\<close>, \<^verbatim>\<open>pkg/app/policyserver.go\<close>): from
    the options and the environment to a server that runs. \<open>ProcessEntry\<close> (\<^verbatim>\<open>main.go\<close>): the process around
    it, which ends normally only if the server has served.
  \<^item> \<open>Start\<close>: the migration as a sequence of the steps of \<open>System\<close>, and what follows for a server from its
    start on.
  \<^item> \<open>Backends\<close>: the locale \<open>rest_kind\<close> interpreted on the twelve stores of the three back ends.

  \<^bold>\<open>What is shown.\<close> Every back end is a map, so what is stored is what was last written and not deleted.
  Every handler has a lemma for each of its branches, for all kinds at once. After any history of requests the broadcast
  events, replayed, give the contents of the storage, so a watcher that follows them is right; every
  stored report carries the annotation of this server, from the start of the process on; versions are
  unique across the four kinds. The migration copies exactly the reports that are not annotated; a
  server that starts has migrated, and its probe tells whether the database answers. Under requests on all
  kinds that interleave inside the handlers, versions stay unique across the kinds, at most one of several
  creates of a report succeeds, and every request is answered. The events still are those of the changes,
  each once, but perhaps in another order, so that they replay to the contents is lost for a report with
  more than one of them.

  \<^bold>\<open>Not modelled.\<close> \<^verbatim>\<open>fips.go\<close>, which only imports a crypto module; logging; durations in the latency
  histogram; how cobra parses a command line and prints flags; the descriptions in the OpenAPI schemas and
  the schema of quantities, which a library builds; the goroutines of the migration inside handlers that
  interleave (they copy reports with versions of another server, so they are left to the whole-request
  grain of \<open>System\<close>); the text of messages that only embed another error's text; delivery of events from
  the broadcaster to each watcher, which \<^verbatim>\<open>k8s.io/apimachinery\<close> does.
\<close>

end
